(* ===== verification/Prelude.thy ===== *)
theory Prelude
  imports Main
begin

text \<open>
  Shared vocabulary of the development. Go strings are byte sequences, modelled by
  \<^typ>\<open>string\<close> (a list of 8-bit characters); this theory gives the functions of Go's
  \<open>strings\<close>, \<open>strconv\<close> and \<open>encoding/hex\<close> packages that the sources call, and the
  generic list lemmas (relational tables as lists of rows) that every component uses.
\<close>

named_theorems str_simps \<open>facts about the modelled Go string functions\<close>

section \<open>Go string functions\<close>

text \<open>\<open>strings.TrimSpace\<close> strips Unicode white space. \<open>space_len\<close> is the number of bytes of
  the white-space rune a byte string starts with (0 if it starts with none), and
  \<open>space_len_rev\<close> the same for a reversed string.\<close>

definition ascii_space :: "char \<Rightarrow> bool" where
  "ascii_space c = (c \<in> {CHR '' '', CHR 0x09, CHR 0x0A, CHR 0x0B, CHR 0x0C, CHR 0x0D})"

definition space2 :: "string list" where
  "space2 = [[CHR 0xC2, CHR 0x85], [CHR 0xC2, CHR 0xA0]]"

definition space3 :: "string list" where
  "space3 =
     [[CHR 0xE1, CHR 0x9A, CHR 0x80],
      [CHR 0xE2, CHR 0x80, CHR 0x80], [CHR 0xE2, CHR 0x80, CHR 0x81], [CHR 0xE2, CHR 0x80, CHR 0x82],
      [CHR 0xE2, CHR 0x80, CHR 0x83], [CHR 0xE2, CHR 0x80, CHR 0x84], [CHR 0xE2, CHR 0x80, CHR 0x85],
      [CHR 0xE2, CHR 0x80, CHR 0x86], [CHR 0xE2, CHR 0x80, CHR 0x87], [CHR 0xE2, CHR 0x80, CHR 0x88],
      [CHR 0xE2, CHR 0x80, CHR 0x89], [CHR 0xE2, CHR 0x80, CHR 0x8A],
      [CHR 0xE2, CHR 0x80, CHR 0xA8], [CHR 0xE2, CHR 0x80, CHR 0xA9], [CHR 0xE2, CHR 0x80, CHR 0xAF],
      [CHR 0xE2, CHR 0x81, CHR 0x9F], [CHR 0xE3, CHR 0x80, CHR 0x80]]"

definition space_len :: "string \<Rightarrow> nat" where
  "space_len s =
     (if s \<noteq> [] \<and> ascii_space (hd s) then 1
      else if take 2 s \<in> set space2 then 2
      else if take 3 s \<in> set space3 then 3 else 0)"

definition space_len_rev :: "string \<Rightarrow> nat" where
  "space_len_rev s =
     (if s \<noteq> [] \<and> ascii_space (hd s) then 1
      else if rev (take 2 s) \<in> set space2 then 2
      else if rev (take 3 s) \<in> set space3 then 3 else 0)"

lemma space_len_pos: "0 < space_len s \<Longrightarrow> s \<noteq> []"
  by (auto simp: space_len_def space2_def space3_def)

lemma space_len_rev_pos: "0 < space_len_rev s \<Longrightarrow> s \<noteq> []"
  by (auto simp: space_len_rev_def space2_def space3_def)

function drop_spaces :: "(string \<Rightarrow> nat) \<Rightarrow> string \<Rightarrow> string" where
  "drop_spaces f s = (if 0 < f s \<and> s \<noteq> [] then drop_spaces f (drop (f s) s) else s)"
  by pat_completeness auto
termination
  by (relation "measure (\<lambda>(f, s). length s)") auto

declare drop_spaces.simps [simp del]

definition strings_TrimSpace :: "string \<Rightarrow> string" where
  "strings_TrimSpace s = rev (drop_spaces space_len_rev (rev (drop_spaces space_len s)))"

lemma drop_spaces_suffix: "\<exists>xs. s = xs @ drop_spaces f s"
proof (induction f s rule: drop_spaces.induct)
  case (1 f s)
  show ?case
  proof (cases "0 < f s \<and> s \<noteq> []")
    case True
    then obtain xs where "drop (f s) s = xs @ drop_spaces f (drop (f s) s)"
      using "1.IH" by blast
    then have "s = (take (f s) s @ xs) @ drop_spaces f (drop (f s) s)"
      by (metis append_assoc append_take_drop_id)
    with True drop_spaces.simps [of f s] show ?thesis by metis
  next
    case False
    then show ?thesis using drop_spaces.simps [of f s] by auto
  qed
qed

lemma drop_spaces_stop:
  assumes "\<And>s. 0 < f s \<Longrightarrow> s \<noteq> []"
  shows "f (drop_spaces f s) = 0"
  using assms
proof (induction f s rule: drop_spaces.induct)
  case (1 f s)
  then show ?case
    using drop_spaces.simps [of f s] by (cases "0 < f s \<and> s \<noteq> []") auto
qed

lemma drop_spaces_idle: "f s = 0 \<Longrightarrow> drop_spaces f s = s"
  by (simp add: drop_spaces.simps)

lemma drop_spaces_step:
  "0 < f s \<Longrightarrow> s \<noteq> [] \<Longrightarrow> drop_spaces f s = drop_spaces f (drop (f s) s)"
  by (subst drop_spaces.simps) simp

lemma length_drop_spaces [simp]: "length (drop_spaces f s) \<le> length s"
  using drop_spaces_suffix [of s f] by (metis le_add2 length_append)

lemma length_TrimSpace [str_simps]: "length (strings_TrimSpace s) \<le> length s"
proof -
  have "length (strings_TrimSpace s) \<le> length (rev (drop_spaces space_len s))"
    unfolding strings_TrimSpace_def length_rev
    using length_drop_spaces [of space_len_rev "rev (drop_spaces space_len s)"] by simp
  also have "\<dots> \<le> length s" by simp
  finally show ?thesis .
qed

lemma TrimSpace_Nil [simp]: "strings_TrimSpace [] = []"
  by (simp add: strings_TrimSpace_def drop_spaces.simps)

text \<open>\<open>strings.Trim(s, cutset)\<close> for a cutset of ASCII bytes.\<close>

definition strings_Trim :: "string \<Rightarrow> string \<Rightarrow> string" where
  "strings_Trim s cset =
     rev (dropWhile (\<lambda>c. c \<in> set cset) (rev (dropWhile (\<lambda>c. c \<in> set cset) s)))"

lemma length_Trim [str_simps]: "length (strings_Trim s cset) \<le> length s"
  unfolding strings_Trim_def length_rev
  by (metis length_dropWhile_le length_rev order_trans)

lemma set_Trim: "set (strings_Trim s cset) \<subseteq> set s"
  by (auto simp: strings_Trim_def dest!: set_dropWhileD)

lemma dropWhile_suffix_last:
  "dropWhile P xs \<noteq> [] \<Longrightarrow> last (dropWhile P xs) = last xs"
  by (induction xs) auto

lemma hd_rev_dropWhile_rev:
  assumes "rev (dropWhile P (rev xs)) \<noteq> []"
  shows "hd (rev (dropWhile P (rev xs))) = hd xs"
  using assms dropWhile_suffix_last [of P "rev xs"]
  by (simp add: hd_rev last_rev)

lemma Trim_hd:
  assumes "strings_Trim s cset \<noteq> []"
  shows "hd (strings_Trim s cset) \<notin> set cset"
proof -
  let ?l = "dropWhile (\<lambda>c. c \<in> set cset) s"
  from assms have ne: "rev (dropWhile (\<lambda>c. c \<in> set cset) (rev ?l)) \<noteq> []"
    by (simp add: strings_Trim_def)
  then have "?l \<noteq> []" by (metis dropWhile.simps(1) rev.simps(1))
  then have "hd ?l \<notin> set cset" using hd_dropWhile by blast
  with hd_rev_dropWhile_rev [OF ne] show ?thesis by (simp add: strings_Trim_def)
qed

lemma Trim_last:
  assumes "strings_Trim s cset \<noteq> []"
  shows "last (strings_Trim s cset) \<notin> set cset"
proof -
  let ?r = "dropWhile (\<lambda>c. c \<in> set cset) (rev (dropWhile (\<lambda>c. c \<in> set cset) s))"
  from assms have "?r \<noteq> []" by (simp add: strings_Trim_def)
  then have "hd ?r \<notin> set cset" using hd_dropWhile by blast
  with \<open>?r \<noteq> []\<close> show ?thesis by (simp add: strings_Trim_def last_rev)
qed

lemma Trim_hd_keeps:
  assumes "s \<noteq> []" and "hd s \<notin> set cset"
  shows "strings_Trim s cset \<noteq> [] \<and> hd (strings_Trim s cset) = hd s"
proof -
  from assms have d: "dropWhile (\<lambda>c. c \<in> set cset) s = s"
    by (cases s) auto
  have ne: "rev (dropWhile (\<lambda>c. c \<in> set cset) (rev s)) \<noteq> []"
    using assms by (auto simp: dropWhile_eq_Nil_conv intro: bexI [of _ "hd s"])
  with hd_rev_dropWhile_rev [OF ne] d show ?thesis
    by (simp add: strings_Trim_def)
qed

text \<open>\<open>strings.ToLower\<close>, exact on ASCII; of the multi-byte runes only U+0130 and U+212A lower to
  ASCII letters (\<open>i\<close> and \<open>k\<close>) and are written out, every other non-ASCII byte is kept (its
  lower-case form is again non-ASCII).\<close>

definition ascii_lower :: "char \<Rightarrow> char" where
  "ascii_lower c =
     (if 65 \<le> (of_char c :: nat) \<and> (of_char c :: nat) \<le> 90 then char_of ((of_char c :: nat) + 32) else c)"

fun strings_ToLower :: "string \<Rightarrow> string" where
  "strings_ToLower [] = []"
| "strings_ToLower (c # cs) =
     (if c = CHR 0xC4 \<and> take 1 cs = [CHR 0xB0] then CHR ''i'' # strings_ToLower (drop 1 cs)
      else if c = CHR 0xE2 \<and> take 2 cs = [CHR 0x84, CHR 0xAA] then CHR ''k'' # strings_ToLower (drop 2 cs)
      else ascii_lower c # strings_ToLower cs)"

text \<open>\<open>strings.Contains(s, "c")\<close>, \<open>strings.ContainsAny\<close>, and the text after the last
  occurrence of a byte, \<open>s[strings.LastIndex(s, "c")+1:]\<close>.\<close>

definition strings_ContainsAny :: "string \<Rightarrow> string \<Rightarrow> bool" where
  "strings_ContainsAny s chars = list_ex (\<lambda>c. c \<in> set chars) s"

definition after_last :: "char \<Rightarrow> string \<Rightarrow> string" where
  "after_last c s = rev (takeWhile (\<lambda>x. x \<noteq> c) (rev s))"

lemma after_last_append [str_simps]:
  "c \<notin> set ys \<Longrightarrow> after_last c (xs @ ys) = after_last c xs @ ys"
  by (simp add: after_last_def takeWhile_append2 takeWhile_append)

text \<open>\<open>strconv.Itoa\<close>.\<close>

fun nat_digits :: "nat \<Rightarrow> string" where
  "nat_digits n =
     (if n < 10 then [char_of (48 + n)] else nat_digits (n div 10) @ [char_of (48 + n mod 10)])"

declare nat_digits.simps [simp del]

definition strconv_Itoa :: "int \<Rightarrow> string" where
  "strconv_Itoa i = (if i < 0 then CHR ''-'' # nat_digits (nat (- i)) else nat_digits (nat i))"

definition is_digit :: "char \<Rightarrow> bool" where
  "is_digit c = (48 \<le> (of_char c :: nat) \<and> (of_char c :: nat) \<le> 57)"

lemma is_digit_char_of: "d < 10 \<Longrightarrow> is_digit (char_of (48 + d :: nat))"
  by (simp add: is_digit_def of_char_of)

lemma nat_digits_digits: "\<forall>c \<in> set (nat_digits n). is_digit c"
proof (induction n rule: nat_digits.induct)
  case (1 n)
  then show ?case
    by (cases "n < 10")
       (auto simp: nat_digits.simps [of n] is_digit_char_of)
qed

lemma nat_digits_nonempty [simp]: "nat_digits n \<noteq> []"
  by (subst nat_digits.simps) simp

lemma nat_digits_length: "n < 10 ^ k \<Longrightarrow> 0 < k \<Longrightarrow> length (nat_digits n) \<le> k"
proof (induction n arbitrary: k rule: nat_digits.induct)
  case (1 n)
  show ?case
  proof (cases "n < 10")
    case True
    with 1 show ?thesis by (simp add: nat_digits.simps [of n])
  next
    case False
    with "1.prems" have "1 < k" by (cases k; cases "k - 1") auto
    then obtain k' where k: "k = Suc k'" "0 < k'" by (cases k) auto
    with "1.prems" have "n div 10 < 10 ^ k'" by (simp add: div_less_iff_less_mult mult.commute)
    with False k "1.IH" have "length (nat_digits (n div 10)) \<le> k'" by simp
    with False k show ?thesis by (simp add: nat_digits.simps [of n])
  qed
qed

text \<open>\<open>hex.EncodeToString\<close>.\<close>

definition hex_digit :: "nat \<Rightarrow> char" where
  "hex_digit n = ''0123456789abcdef'' ! n"

definition hex_EncodeToString :: "nat list \<Rightarrow> string" where
  "hex_EncodeToString bs = concat (map (\<lambda>b. [hex_digit (b div 16 mod 16), hex_digit (b mod 16)]) bs)"

lemma length_hex_Encode [str_simps]: "length (hex_EncodeToString bs) = 2 * length bs"
  by (induction bs) (auto simp: hex_EncodeToString_def)

section \<open>Tables as lists of rows\<close>

definition update_where :: "('r \<Rightarrow> bool) \<Rightarrow> ('r \<Rightarrow> 'r) \<Rightarrow> 'r list \<Rightarrow> 'r list" where
  "update_where p f rs = map (\<lambda>r. if p r then f r else r) rs"

lemma length_update_where [simp]: "length (update_where p f rs) = length rs"
  by (simp add: update_where_def)

lemma update_where_Nil [simp]: "update_where p f [] = []"
  by (simp add: update_where_def)

lemma update_where_Cons [simp]:
  "update_where p f (r # rs) = (if p r then f r else r) # update_where p f rs"
  by (simp add: update_where_def)

lemma set_update_where: "set (update_where p f rs) = (\<lambda>r. if p r then f r else r) ` set rs"
  by (simp add: update_where_def)

lemma map_update_where:
  "(\<And>r. p r \<Longrightarrow> g (f r) = g r) \<Longrightarrow> map g (update_where p f rs) = map g rs"
  by (simp add: update_where_def)

lemma find_update_where:
  assumes "\<And>r. p r \<Longrightarrow> key (f r) = key r"
  shows "find (\<lambda>r. key r = k) (update_where p f rs) =
         map_option (\<lambda>r. if p r then f r else r) (find (\<lambda>r. key r = k) rs)"
  using assms by (induction rs) auto

lemma find_Some_mem: "find p xs = Some x \<Longrightarrow> x \<in> set xs \<and> p x"
  by (induction xs) (auto split: if_splits)

lemma find_key_unique:
  assumes "distinct (map key rs)" and "r \<in> set rs"
  shows "find (\<lambda>x. key x = key r) rs = Some r"
  using assms by (induction rs) (auto simp: image_iff dest: sym)

lemma find_append_fresh:
  "find p rs = None \<Longrightarrow> find p (rs @ [r]) = (if p r then Some r else None)"
  by (induction rs) (auto split: if_splits)

lemma find_append_found: "find p rs = Some r \<Longrightarrow> find p (rs @ qs) = Some r"
  by (induction rs) (auto split: if_splits)

text \<open>\<open>ORDER BY k LIMIT 1\<close> over the rows that satisfy a \<open>WHERE\<close> clause; ties are broken by row
  order, which is insertion order.\<close>

definition first_by :: "('r \<Rightarrow> 'k::linorder) \<Rightarrow> ('r \<Rightarrow> bool) \<Rightarrow> 'r list \<Rightarrow> 'r option" where
  "first_by k p rs = (case sort_key k (filter p rs) of [] \<Rightarrow> None | r # _ \<Rightarrow> Some r)"

lemma first_by_None: "first_by k p rs = None \<longleftrightarrow> (\<forall>r \<in> set rs. \<not> p r)"
proof -
  have "first_by k p rs = None \<longleftrightarrow> sort_key k (filter p rs) = []"
    by (simp add: first_by_def split: list.splits)
  also have "\<dots> \<longleftrightarrow> filter p rs = []"
    by (metis length_0_conv length_sort)
  finally show ?thesis by (simp add: filter_empty_conv)
qed

lemma first_by_Some:
  assumes "first_by k p rs = Some r"
  shows "r \<in> set rs" and "p r" and "\<forall>r' \<in> set rs. p r' \<longrightarrow> k r \<le> k r'"
proof -
  from assms obtain ys where s: "sort_key k (filter p rs) = r # ys"
    by (auto simp: first_by_def split: list.splits)
  then have "set (r # ys) = {x \<in> set rs. p x}" by (metis set_filter set_sort)
  then show "r \<in> set rs" "p r" by auto
  have "sorted (map k (r # ys))" using s by (metis sorted_sort_key)
  then have "\<forall>r' \<in> set (r # ys). k r \<le> k r'" by auto
  with \<open>set (r # ys) = {x \<in> set rs. p x}\<close> show "\<forall>r' \<in> set rs. p r' \<longrightarrow> k r \<le> k r'"
    by blast
qed

lemma map_sum_InrE: "map_sum f g x = Inr y \<Longrightarrow> (\<And>z. x = Inr z \<Longrightarrow> y = g z \<Longrightarrow> P) \<Longrightarrow> P"
  by (cases x) auto

section \<open>Tables that only grow\<close>

text \<open>Every row of the first list is still there, at its place, possibly changed as \<open>R\<close> allows;
  rows may have been appended.\<close>

definition extends :: "('a \<Rightarrow> 'a \<Rightarrow> bool) \<Rightarrow> 'a list \<Rightarrow> 'a list \<Rightarrow> bool" where
  "extends R xs ys \<longleftrightarrow> (\<exists>zs news. ys = zs @ news \<and> list_all2 R xs zs)"

lemma extends_all2: "list_all2 R xs ys \<Longrightarrow> extends R xs ys"
  unfolding extends_def by (metis append_Nil2)

lemma extends_refl: "(\<And>x. R x x) \<Longrightarrow> extends R xs xs"
  by (simp add: extends_all2 list_all2_refl)

lemma extends_append: "(\<And>x. R x x) \<Longrightarrow> extends R xs (xs @ news)"
  unfolding extends_def using list_all2_refl by blast

lemma extends_trans:
  assumes "\<And>x y z. R x y \<Longrightarrow> R y z \<Longrightarrow> R x z" and "extends R xs ys" and "extends R ys zs"
  shows "extends R xs zs"
proof -
  from assms(2) obtain ys1 ys2 where ys: "ys = ys1 @ ys2" "list_all2 R xs ys1" unfolding extends_def by blast
  from assms(3) obtain zs' news where "zs = zs' @ news" "list_all2 R ys zs'" unfolding extends_def by blast
  with ys obtain zs1 zs2 where zs: "zs = zs1 @ zs2 @ news" "list_all2 R ys1 zs1" by (auto simp: list_all2_append1)
  have "list_all2 R xs zs1" using assms(1) ys(2) zs(2) by (rule list_all2_trans)
  with zs(1) show ?thesis unfolding extends_def by blast
qed

lemma list_all2_mem: "list_all2 R xs ys \<Longrightarrow> x \<in> set xs \<Longrightarrow> \<exists>y \<in> set ys. R x y"
  by (induction rule: list_all2_induct) auto

lemma list_all2_mem2: "list_all2 R xs ys \<Longrightarrow> y \<in> set ys \<Longrightarrow> \<exists>x \<in> set xs. R x y"
  by (induction rule: list_all2_induct) auto

lemma list_all2_map_eq: "list_all2 R xs ys \<Longrightarrow> (\<And>x y. R x y \<Longrightarrow> f y = f x) \<Longrightarrow> map f ys = map f xs"
  by (induction rule: list_all2_induct) auto

lemma extends_mem:
  assumes "extends R xs ys" and "x \<in> set xs"
  shows "\<exists>y \<in> set ys. R x y"
proof -
  from assms(1) obtain zs news where "ys = zs @ news" "list_all2 R xs zs" unfolding extends_def by blast
  with assms(2) list_all2_mem show ?thesis by fastforce
qed

lemma list_all2_update_where:
  "(\<And>x. R x x) \<Longrightarrow> (\<And>x. x \<in> set xs \<Longrightarrow> p x \<Longrightarrow> R x (f x)) \<Longrightarrow> list_all2 R xs (update_where p f xs)"
  by (induction xs) (auto simp: update_where_def)

end
