(* ===== verification/Problem.thy ===== *)
theory Problem
  imports Prelude
begin

text \<open>
  Go \<open>error\<close> values and the application error vocabulary of
  \<^verbatim>\<open>internal/platform/problem/problem.go\<close>: the kinds, the constructors, the search of an
  error chain (\<open>errors.As\<close>) and the translation to a ConnectRPC code.
\<close>

datatype Kind = KindInternal | KindNotFound | KindInvalidInput | KindPermissionDenied | KindAlreadyExists

text \<open>An error is a \<open>*problem.Error\<close> (kind, message, cause), a sentinel of a package the sources
  compare against, an opaque failure of a dependency, or an error that wraps another one with a
  prefix (\<open>fmt.Errorf\<close> with \<open>%w\<close>).\<close>

datatype err =
    Problem Kind string "err option"
  | ErrNoRows
  | GitHubErrNotFound
  | GitHubErrRateLimited
  | GitHubErrUnauthorized
  | GitHubErrForbidden
  | ProviderErrNotFound
  | ProviderErrUnauthorized
  | ProviderErrForbidden
  | ProviderErrRateLimited
  | UniqueViolation
  | Opaque string
  | Wrapped string err

definition NotFound :: "string \<Rightarrow> err" where
  "NotFound msg = Problem KindNotFound msg None"

definition InvalidInput :: "string \<Rightarrow> err" where
  "InvalidInput msg = Problem KindInvalidInput msg None"

definition AlreadyExists :: "string \<Rightarrow> err" where
  "AlreadyExists msg = Problem KindAlreadyExists msg None"

definition PermissionDenied :: "string \<Rightarrow> err" where
  "PermissionDenied msg = Problem KindPermissionDenied msg None"

definition Internalf :: "string \<Rightarrow> err \<Rightarrow> err" where
  "Internalf msg cause = Problem KindInternal msg (Some cause)"

text \<open>\<open>errors.As(err, &pe)\<close> with a \<open>*problem.Error\<close> target: the outermost problem of the chain.\<close>

fun errors_As_problem :: "err \<Rightarrow> (Kind \<times> string) option" where
  "errors_As_problem (Problem k msg c) = Some (k, msg)"
| "errors_As_problem (Wrapped _ e) = errors_As_problem e"
| "errors_As_problem _ = None"

text \<open>\<open>isUniqueViolation\<close> of the repositories: a \<open>*pgconn.PgError\<close> with SQLSTATE 23505 anywhere in the
  chain, here the value \<^term>\<open>UniqueViolation\<close>.\<close>

fun isUniqueViolation :: "err \<Rightarrow> bool" where
  "isUniqueViolation UniqueViolation = True"
| "isUniqueViolation (Wrapped _ e) = isUniqueViolation e"
| "isUniqueViolation (Problem _ _ (Some e)) = isUniqueViolation e"
| "isUniqueViolation _ = False"

fun Unwrap :: "err \<Rightarrow> err option" where
  "Unwrap (Problem _ _ c) = c"
| "Unwrap (Wrapped _ e) = Some e"
| "Unwrap _ = None"

text \<open>\<open>errors.Is(err, target)\<close> for a sentinel target: some error of the chain is the target.\<close>

fun errors_Is :: "err \<Rightarrow> err \<Rightarrow> bool" where
  "errors_Is (Problem k msg None) t = (Problem k msg None = t)"
| "errors_Is (Problem k msg (Some e)) t = (Problem k msg (Some e) = t \<or> errors_Is e t)"
| "errors_Is (Wrapped msg e) t = (Wrapped msg e = t \<or> errors_Is e t)"
| "errors_Is e t = (e = t)"

fun Error_string :: "err \<Rightarrow> string" where
  "Error_string (Problem _ msg None) = msg"
| "Error_string (Problem _ msg (Some c)) = msg @ '': '' @ Error_string c"
| "Error_string ErrNoRows = ''no rows in result set''"
| "Error_string GitHubErrNotFound = ''github: not found''"
| "Error_string GitHubErrRateLimited = ''github: rate limited''"
| "Error_string GitHubErrUnauthorized = ''github: unauthorized''"
| "Error_string GitHubErrForbidden = ''github: forbidden''"
| "Error_string UniqueViolation = ''ERROR: duplicate key value violates unique constraint (SQLSTATE 23505)''"
| "Error_string (Opaque s) = s"
| "Error_string (Wrapped p e) = p @ '': '' @ Error_string e"

datatype Code = CodeNotFound | CodeInvalidArgument | CodeAlreadyExists | CodePermissionDenied | CodeInternal

definition ToConnect :: "err option \<Rightarrow> (Code \<times> string) option" where
  "ToConnect oe =
     (case oe of
        None \<Rightarrow> None
      | Some e \<Rightarrow>
          (case errors_As_problem e of
             Some (KindNotFound, msg) \<Rightarrow> Some (CodeNotFound, msg)
           | Some (KindInvalidInput, msg) \<Rightarrow> Some (CodeInvalidArgument, msg)
           | Some (KindAlreadyExists, msg) \<Rightarrow> Some (CodeAlreadyExists, msg)
           | Some (KindPermissionDenied, msg) \<Rightarrow> Some (CodePermissionDenied, msg)
           | _ \<Rightarrow> Some (CodeInternal, ''internal error'')))"

text \<open>\<open>fmt\<close>'s \<open>%q\<close> on ASCII text: quotes, backslashes and control bytes are escaped.\<close>

definition quote_char :: "char \<Rightarrow> string" where
  "quote_char c =
     (let n = (of_char c :: nat) in
      if c = CHR 0x22 then [CHR 0x5C, CHR 0x22]
      else if c = CHR 0x5C then [CHR 0x5C, CHR 0x5C]
      else if n = 7 then [CHR 0x5C, CHR ''a''] else if n = 8 then [CHR 0x5C, CHR ''b'']
      else if n = 9 then [CHR 0x5C, CHR ''t''] else if n = 10 then [CHR 0x5C, CHR ''n'']
      else if n = 11 then [CHR 0x5C, CHR ''v''] else if n = 12 then [CHR 0x5C, CHR ''f'']
      else if n = 13 then [CHR 0x5C, CHR ''r'']
      else if n < 32 \<or> n = 127 then [CHR 0x5C, CHR ''x''] @ hex_EncodeToString [n]
      else [c])"

definition fmt_q :: "string \<Rightarrow> string" where
  "fmt_q s = [CHR 0x22] @ concat (map quote_char s) @ [CHR 0x22]"

text \<open>UTF-8 bytes of the em dash that some messages contain.\<close>

definition em_dash :: string where
  "em_dash = [CHR 0xE2, CHR 0x80, CHR 0x94]"

text \<open>A module's \<open>mapErr\<close>: domain errors pass through, anything else becomes internal.\<close>

definition mapErr :: "string \<Rightarrow> err \<Rightarrow> err" where
  "mapErr op e = (case errors_As_problem e of Some _ \<Rightarrow> e | None \<Rightarrow> Internalf op e)"

lemmas problem_defs = NotFound_def InvalidInput_def AlreadyExists_def PermissionDenied_def Internalf_def

definition kind_of :: "err \<Rightarrow> Kind" where
  "kind_of e = (case errors_As_problem e of Some (k, _) \<Rightarrow> k | None \<Rightarrow> KindInternal)"

lemma kind_of_simps [simp]:
  "kind_of (NotFound m) = KindNotFound"
  "kind_of (InvalidInput m) = KindInvalidInput"
  "kind_of (AlreadyExists m) = KindAlreadyExists"
  "kind_of (PermissionDenied m) = KindPermissionDenied"
  "kind_of (Internalf m e) = KindInternal"
  by (simp_all add: kind_of_def problem_defs)

lemma kind_of_mapErr [simp]: "kind_of (mapErr op e) = kind_of e"
  by (simp add: mapErr_def kind_of_def problem_defs split: option.splits)

lemma mapErr_problem [simp]:
  "mapErr op (NotFound m) = NotFound m"
  "mapErr op (InvalidInput m) = InvalidInput m"
  "mapErr op (PermissionDenied m) = PermissionDenied m"
  "mapErr op (AlreadyExists m) = AlreadyExists m"
  "mapErr op (Internalf m e) = Internalf m e"
  by (simp_all add: mapErr_def problem_defs)

lemma err_distinct [simp]:
  "NotFound m \<noteq> InvalidInput m'" "NotFound m \<noteq> PermissionDenied m'" "InvalidInput m \<noteq> PermissionDenied m'"
  "NotFound m \<noteq> Internalf m' e" "InvalidInput m \<noteq> Internalf m' e" "PermissionDenied m \<noteq> Internalf m' e"
  "NotFound m \<noteq> ErrNoRows" "InvalidInput m \<noteq> ErrNoRows" "PermissionDenied m \<noteq> ErrNoRows"
  "Internalf m e \<noteq> ErrNoRows"
  by (simp_all add: problem_defs)

text \<open>What reaches the client. Every error answer is either the code and message of a
  not-found, invalid-input, already-exists or permission problem, or the bare text
  ``internal error'' under the internal code: the message and the cause of an internal error are
  never part of the answer.\<close>

theorem ToConnect_never_leaks:
  "ToConnect (Some e) =
     (if kind_of e = KindInternal then Some (CodeInternal, ''internal error'')
      else Some (case kind_of e of KindNotFound \<Rightarrow> CodeNotFound | KindInvalidInput \<Rightarrow> CodeInvalidArgument
                   | KindAlreadyExists \<Rightarrow> CodeAlreadyExists | _ \<Rightarrow> CodePermissionDenied,
                 snd (the (errors_As_problem e))))"
proof (cases "errors_As_problem e")
  case None
  then show ?thesis by (simp add: ToConnect_def kind_of_def)
next
  case (Some p)
  then show ?thesis by (cases p; cases "fst p") (simp_all add: ToConnect_def kind_of_def)
qed

end
