(* ===== verification/Database.thy ===== *)
theory Database
  imports Problem
begin

text \<open>
  The control plane's PostgreSQL database and the transaction runner of
  \<^verbatim>\<open>internal/platform/database\<close>. Rows are the records of
  \<^verbatim>\<open>internal/platform/database/db/models.go\<close>, a table is the list of its rows in insertion
  order. Postgres itself is not part of the repository, so what it may do on its own is a parameter
  carried by the \<open>world\<close>: which round trips fail (\<open>faults\<close>), the identifiers
  \<open>gen_random_uuid()\<close> draws (\<open>uuids\<close>) and the value of \<open>now()\<close>.
  A handler is a function from the world to a result or an error and the new world.
\<close>

section \<open>Rows\<close>

record Agent_row =
  ag_ID :: string
  ag_ServerID :: string
  ag_WorkspaceID :: string
  ag_PublicKey :: string
  ag_CredentialHash :: "nat list"
  ag_AgentVersion :: string
  ag_LastSeenAt :: "int option"
  ag_CreatedAt :: int
  ag_DockerAvailable :: "bool option"
  ag_DockerVersion :: string
  ag_Os :: string
  ag_Arch :: string
  ag_CaddyAvailable :: "bool option"
  ag_CaddyRunning :: bool
  ag_CaddyVersion :: string
  ag_DiskTotalBytes :: int
  ag_DiskFreeBytes :: int
  ag_MemTotalBytes :: int
  ag_MemAvailableBytes :: int
  ag_CpuCount :: int

record AgentRegistrationToken_row =
  tk_ID :: string
  tk_ServerID :: string
  tk_WorkspaceID :: string
  tk_TokenHash :: "nat list"
  tk_CreatedBy :: string
  tk_CreatedAt :: int
  tk_ExpiresAt :: int
  tk_ConsumedAt :: "int option"

record AuditEvent_row =
  ae_ID :: string
  ae_WorkspaceID :: "string option"
  ae_Actor :: string
  ae_Action :: string
  ae_TargetType :: string
  ae_TargetID :: string
  ae_CreatedAt :: int

record ConfigEntry_row =
  ce_ID :: string
  ce_Type :: string
  ce_Scope :: string
  ce_ServiceID :: "string option"
  ce_EnvironmentID :: "string option"
  ce_Key :: string
  ce_Value :: "string option"
  ce_Ciphertext :: string
  ce_CreatedAt :: int
  ce_UpdatedAt :: int

record Deployment_row =
  rd_ID :: string
  rd_EnvironmentID :: string
  rd_ProjectID :: string
  rd_WorkspaceID :: string
  rd_ServerID :: string
  rd_ImageRef :: string
  rd_ContainerPort :: int
  rd_HostPort :: int
  rd_ContainerID :: string
  rd_Status :: string
  rd_Message :: string
  rd_CreatedAt :: int
  rd_UpdatedAt :: int
  rd_SourceKind :: string
  rd_SourceAccess :: string
  rd_CloneUrl :: string
  rd_GitRef :: string
  rd_CommitSha :: string
  rd_BuiltImageRef :: string
  rd_RouteUrl :: string
  rd_ServiceID :: string
  rd_RolledBackFrom :: "string option"
  rd_Kind :: string
  rd_RouteKey :: string
  rd_PrNumber :: int
  rd_PrUrl :: string
  rd_PreviewAuthUser :: string
  rd_PreviewAuthHash :: string

record DeploymentEvent_row =
  re_ID :: string
  re_DeploymentID :: string
  re_Seq :: int
  re_Kind :: string
  re_Status :: string
  re_Message :: string
  re_CreatedAt :: int
  re_Stream :: string

record Domain_row =
  dm_ID :: string
  dm_ServiceID :: string
  dm_EnvironmentID :: string
  dm_ProjectID :: string
  dm_WorkspaceID :: string
  dm_Hostname :: string
  dm_Status :: string
  dm_StatusMessage :: string
  dm_LastCheckedAt :: "int option"
  dm_CreatedAt :: int
  dm_UpdatedAt :: int

record Environment_row =
  en_ID :: string
  en_ProjectID :: string
  en_Name :: string
  en_Slug :: string
  en_Type :: string
  en_CreatedAt :: int

record Project_row =
  pj_ID :: string
  pj_WorkspaceID :: string
  pj_Name :: string
  pj_Slug :: string
  pj_CreatedAt :: int

record Server_row =
  sv_ID :: string
  sv_WorkspaceID :: string
  sv_Name :: string
  sv_Slug :: string
  sv_CreatedAt :: int
  sv_HostKeyFingerprint :: string

record Service_row =
  rs_ID :: string
  rs_EnvironmentID :: string
  rs_ProjectID :: string
  rs_WorkspaceID :: string
  rs_Name :: string
  rs_Slug :: string
  rs_SourceKind :: string
  rs_ImageRef :: string
  rs_TemplateID :: string
  rs_ConnectionID :: "string option"
  rs_Provider :: string
  rs_Owner :: string
  rs_Repo :: string
  rs_FullName :: string
  rs_Branch :: string
  rs_DefaultBranch :: string
  rs_IsPrivate :: bool
  rs_HtmlUrl :: string
  rs_SourceAccess :: string
  rs_ContainerPort :: int
  rs_Visibility :: string
  rs_RouteUrl :: string
  rs_CreatedAt :: int
  rs_UpdatedAt :: int

record TeardownJob_row =
  rt_ID :: string
  rt_DeploymentID :: string
  rt_ServiceID :: string
  rt_RouteKey :: string
  rt_EnvironmentID :: string
  rt_ProjectID :: string
  rt_WorkspaceID :: string
  rt_ServerID :: string
  rt_Status :: string
  rt_Message :: string
  rt_Error :: string
  rt_CreatedAt :: int
  rt_UpdatedAt :: int

record WorkspaceMember_row =
  wm_WorkspaceID :: string
  wm_UserID :: string
  wm_Role :: string
  wm_CreatedAt :: int

record User_row =
  us_ID :: string
  us_Email :: string
  us_CreatedAt :: int
  us_PasswordHash :: "string option"
  us_EmailVerified :: bool

record Workspace_row =
  wk_ID :: string
  wk_Name :: string
  wk_Slug :: string
  wk_CreatedAt :: int

record Session_row =
  ss_ID :: string
  ss_UserID :: string
  ss_TokenHash :: "nat list"
  ss_UserAgent :: string
  ss_CreatedAt :: int
  ss_LastUsedAt :: int
  ss_ExpiresAt :: int
  ss_RevokedAt :: "int option"

record ApiToken_row =
  at_ID :: string
  at_UserID :: string
  at_Name :: string
  at_TokenHash :: "nat list"
  at_TokenPrefix :: string
  at_CreatedAt :: int
  at_LastUsedAt :: "int option"
  at_ExpiresAt :: "int option"
  at_RevokedAt :: "int option"

record UserToken_row =
  ut_ID :: string
  ut_UserID :: string
  ut_Purpose :: string
  ut_TokenHash :: "nat list"
  ut_CreatedAt :: int
  ut_ExpiresAt :: int
  ut_ConsumedAt :: "int option"

record Backup_row =
  bk_ID :: string
  bk_ServiceID :: string
  bk_EnvironmentID :: string
  bk_ProjectID :: string
  bk_WorkspaceID :: string
  bk_ServerID :: string
  bk_Destination :: string
  bk_ArtifactUri :: string
  bk_SizeBytes :: int
  bk_Checksum :: string
  bk_Status :: string
  bk_Message :: string
  bk_Error :: string
  bk_CreatedAt :: int
  bk_UpdatedAt :: int
  bk_Label :: string
  bk_TriggerSource :: string

record RestoreJob_row =
  rj_ID :: string
  rj_BackupID :: string
  rj_ServiceID :: string
  rj_EnvironmentID :: string
  rj_ProjectID :: string
  rj_WorkspaceID :: string
  rj_ServerID :: string
  rj_ArtifactUri :: string
  rj_Status :: string
  rj_Message :: string
  rj_Error :: string
  rj_CreatedAt :: int
  rj_UpdatedAt :: int

record SourceConnection_row =
  sc_ID :: string
  sc_WorkspaceID :: string
  sc_Provider :: string
  sc_AccountLogin :: string
  sc_AccountID :: "int option"
  sc_AccessTokenCiphertext :: string
  sc_Scopes :: string
  sc_ConnectedBy :: "string option"
  sc_CreatedAt :: int
  sc_UpdatedAt :: int
  sc_InstallationID :: "string option"
  sc_Kind :: string

record database =
  workspace_members :: "WorkspaceMember_row list"
  projects :: "Project_row list"
  environments :: "Environment_row list"
  servers :: "Server_row list"
  agents :: "Agent_row list"
  agent_registration_tokens :: "AgentRegistrationToken_row list"
  services :: "Service_row list"
  config_entries :: "ConfigEntry_row list"
  domains :: "Domain_row list"
  deployments :: "Deployment_row list"
  deployment_events :: "DeploymentEvent_row list"
  teardown_jobs :: "TeardownJob_row list"
  audit_events :: "AuditEvent_row list"
  users :: "User_row list"
  workspaces :: "Workspace_row list"
  sessions :: "Session_row list"
  api_tokens :: "ApiToken_row list"
  user_tokens :: "UserToken_row list"
  backups :: "Backup_row list"
  restore_jobs :: "RestoreJob_row list"
  source_connections :: "SourceConnection_row list"

section \<open>The world and its computations\<close>

text \<open>\<open>ops\<close> counts the round trips to the database; the one numbered \<open>n\<close> fails when
  \<open>faults n\<close>. \<open>next_uuid\<close> and \<open>next_seq\<close> are the positions in the stream of random
  identifiers and in the \<open>bigserial\<close> sequence: neither is undone by a rollback.\<close>

record world =
  db :: database
  ops :: nat
  faults :: "nat \<Rightarrow> bool"
  uuids :: "nat \<Rightarrow> string"
  next_uuid :: nat
  next_seq :: int
  now :: int

type_synonym 'a m = "world \<Rightarrow> (err + 'a) \<times> world"

definition ret :: "'a \<Rightarrow> 'a m" where
  "ret x w = (Inr x, w)"

definition fail :: "err \<Rightarrow> 'a m" where
  "fail e w = (Inl e, w)"

definition bind :: "'a m \<Rightarrow> ('a \<Rightarrow> 'b m) \<Rightarrow> 'b m" where
  "bind f k w = (case f w of (Inl e, w') \<Rightarrow> (Inl e, w') | (Inr x, w') \<Rightarrow> k x w')"

text \<open>\<open>if !b { return err }\<close>.\<close>

definition check :: "bool \<Rightarrow> err \<Rightarrow> 'a m \<Rightarrow> 'a m" where
  "check b e k = (if b then k else fail e)"

text \<open>\<open>if err != nil { return f(err) }\<close>.\<close>

definition map_err :: "(err \<Rightarrow> err) \<Rightarrow> 'a m \<Rightarrow> 'a m" where
  "map_err f c w = (case c w of (Inl e, w') \<Rightarrow> (Inl (f e), w') | (Inr x, w') \<Rightarrow> (Inr x, w'))"

text \<open>\<open>if err != nil { ... }\<close> with a recovery.\<close>

definition catch :: "'a m \<Rightarrow> (err \<Rightarrow> 'a m) \<Rightarrow> 'a m" where
  "catch c h w = (case c w of (Inl e, w') \<Rightarrow> h e w' | (Inr x, w') \<Rightarrow> (Inr x, w'))"

text \<open>Result of a pure fallible function.\<close>

definition lift :: "err + 'a \<Rightarrow> 'a m" where
  "lift r w = (r, w)"

fun for_each :: "'a list \<Rightarrow> ('a \<Rightarrow> unit m) \<Rightarrow> unit m" where
  "for_each [] f = ret ()"
| "for_each (x # xs) f = bind (f x) (\<lambda>_. for_each xs f)"

text \<open>One round trip.\<close>

definition query :: "'a m \<Rightarrow> 'a m" where
  "query q w =
     (let w' = w\<lparr>ops := Suc (ops w)\<rparr>
      in if faults w (ops w) then (Inl (Opaque ''database unavailable''), w') else q w')"

definition select_many :: "(database \<Rightarrow> 'a) \<Rightarrow> 'a m" where
  "select_many f = query (\<lambda>w. (Inr (f (db w)), w))"

definition select_one :: "(database \<Rightarrow> 'a option) \<Rightarrow> 'a m" where
  "select_one f =
     query (\<lambda>w. (case f (db w) of None \<Rightarrow> Inl ErrNoRows | Some r \<Rightarrow> Inr r, w))"

definition exec_sql :: "(world \<Rightarrow> database \<Rightarrow> database) \<Rightarrow> unit m" where
  "exec_sql g = query (\<lambda>w. (Inr (), w\<lparr>db := g w (db w)\<rparr>))"

definition fresh_uuid :: "world \<Rightarrow> string" where
  "fresh_uuid w = uuids w (next_uuid w)"

text \<open>\<open>INSERT ... RETURNING *\<close>: a constraint of the table refuses the row, otherwise the row gets
  a fresh identifier and is appended.\<close>

definition insert_row :: "(world \<Rightarrow> 'r) \<Rightarrow> (database \<Rightarrow> 'r \<Rightarrow> bool) \<Rightarrow> ('r \<Rightarrow> database \<Rightarrow> database) \<Rightarrow> 'r m" where
  "insert_row mk ok put =
     query (\<lambda>w. let r = mk w; w' = w\<lparr>next_uuid := Suc (next_uuid w)\<rparr> in
                if ok (db w) r then (Inr r, w'\<lparr>db := put r (db w)\<rparr>)
                else (Inl (Opaque ''constraint violation''), w'))"

text \<open>\<open>UPDATE ... RETURNING *\<close> of at most one row, refused when the new row violates a
  constraint of its table.\<close>

definition update_one :: "('r \<Rightarrow> bool) \<Rightarrow> (world \<Rightarrow> database \<Rightarrow> ('r \<times> database) option) \<Rightarrow> 'r m" where
  "update_one ok g =
     query (\<lambda>w. case g w (db w) of
                  None \<Rightarrow> (Inl ErrNoRows, w)
                | Some (r, d) \<Rightarrow> if ok r then (Inr r, w\<lparr>db := d\<rparr>) else (Inl (Opaque ''constraint violation''), w))"

text \<open>A statement that writes and returns one row, drawing a default identifier, or is refused.\<close>

definition write_one :: "(world \<Rightarrow> database \<Rightarrow> err + 'r \<times> database) \<Rightarrow> 'r m" where
  "write_one g =
     query (\<lambda>w. let w' = w\<lparr>next_uuid := Suc (next_uuid w)\<rparr> in
                case g w (db w) of Inl e \<Rightarrow> (Inl e, w') | Inr (r, d) \<Rightarrow> (Inr r, w'\<lparr>db := d\<rparr>))"

text \<open>\<open>INSERT\<close> into a table with unique columns: \<open>CHECK\<close> constraints first, then uniqueness, then
  foreign keys.\<close>

definition insert_unique ::
    "(world \<Rightarrow> 'r) \<Rightarrow> ('r \<Rightarrow> bool) \<Rightarrow> (database \<Rightarrow> 'r \<Rightarrow> bool) \<Rightarrow> (database \<Rightarrow> 'r \<Rightarrow> bool) \<Rightarrow>
     ('r \<Rightarrow> database \<Rightarrow> database) \<Rightarrow> 'r m" where
  "insert_unique mk chk uniq fk put =
     write_one (\<lambda>w d. let r = mk w in
       if \<not> chk r then Inl (Opaque ''constraint violation'')
       else if \<not> uniq d r then Inl UniqueViolation
       else if \<not> fk d r then Inl (Opaque ''constraint violation'')
       else Inr (r, put r d))"

text \<open>The repositories' idiom \<open>if isUniqueViolation(err) { return problem.AlreadyExists(...) }\<close>.\<close>

definition on_unique :: "string \<Rightarrow> 'a m \<Rightarrow> 'a m" where
  "on_unique msg = map_err (\<lambda>e. if isUniqueViolation e then AlreadyExists msg else e)"

text \<open>\<open>db.WithinTx\<close>: begin, run, and commit; any error (of \<open>Begin\<close>, of the body or of
  \<open>Commit\<close>) leaves the database as it was.\<close>

definition WithinTx :: "'a m \<Rightarrow> 'a m" where
  "WithinTx body w =
     (case map_err (Wrapped ''begin tx'') (query (ret ())) w of
        (Inl e, w1) \<Rightarrow> (Inl e, w1)
      | (Inr _, w1) \<Rightarrow>
          (case body w1 of
             (Inl e, w2) \<Rightarrow> (Inl e, w2\<lparr>db := db w\<rparr>)
           | (Inr x, w2) \<Rightarrow>
               (case query (ret ()) w2 of
                  (Inl e, w3) \<Rightarrow> (Inl e, w3\<lparr>db := db w\<rparr>)
                | (Inr _, w3) \<Rightarrow> (Inr x, w3))))"

abbreviation healthy :: "world \<Rightarrow> bool" where
  "healthy w \<equiv> \<forall>n. \<not> faults w n"

section \<open>Evaluation and inversion of the combinators\<close>

named_theorems succ_iff \<open>when a computation succeeds\<close>

lemma ret_apply [simp]: "ret x w = (Inr x, w)"
  by (simp add: ret_def)

lemma fail_apply [simp]: "fail e w = (Inl e, w)"
  by (simp add: fail_def)

lemma bind_succ [succ_iff]:
  "bind f k w = (Inr y, w'') \<longleftrightarrow> (\<exists>x w'. f w = (Inr x, w') \<and> k x w' = (Inr y, w''))"
  by (auto simp: bind_def split: prod.splits sum.splits)

lemma check_succ [succ_iff]: "check b e k w = (Inr y, w') \<longleftrightarrow> b \<and> k w = (Inr y, w')"
  by (simp add: check_def)

lemma map_err_succ [succ_iff]: "map_err f c w = (Inr y, w') \<longleftrightarrow> c w = (Inr y, w')"
  by (auto simp: map_err_def split: prod.splits sum.splits)

lemma lift_succ [succ_iff]: "lift r w = (Inr y, w') \<longleftrightarrow> r = Inr y \<and> w' = w"
  by (auto simp: lift_def)

lemma select_many_succ [succ_iff]:
  "select_many f w = (Inr y, w') \<longleftrightarrow>
     \<not> faults w (ops w) \<and> y = f (db w) \<and> w' = w\<lparr>ops := Suc (ops w)\<rparr>"
  by (auto simp: select_many_def query_def Let_def)

lemma select_one_succ [succ_iff]:
  "select_one f w = (Inr y, w') \<longleftrightarrow>
     \<not> faults w (ops w) \<and> f (db w) = Some y \<and> w' = w\<lparr>ops := Suc (ops w)\<rparr>"
  by (auto simp: select_one_def query_def Let_def split: option.splits)

lemma exec_sql_succ [succ_iff]:
  "exec_sql g w = (Inr u, w') \<longleftrightarrow>
     \<not> faults w (ops w) \<and> w' = w\<lparr>ops := Suc (ops w), db := g (w\<lparr>ops := Suc (ops w)\<rparr>) (db w)\<rparr>"
  by (auto simp: exec_sql_def query_def Let_def)

lemma insert_row_succ [succ_iff]:
  "insert_row mk ok put w = (Inr r, w') \<longleftrightarrow>
     \<not> faults w (ops w) \<and> r = mk (w\<lparr>ops := Suc (ops w)\<rparr>) \<and> ok (db w) r \<and>
     w' = w\<lparr>ops := Suc (ops w), next_uuid := Suc (next_uuid w), db := put r (db w)\<rparr>"
  by (auto simp: insert_row_def query_def Let_def)

lemma update_one_succ [succ_iff]:
  "update_one ok g w = (Inr r, w') \<longleftrightarrow>
     \<not> faults w (ops w) \<and> ok r \<and>
     (\<exists>d. g (w\<lparr>ops := Suc (ops w)\<rparr>) (db w) = Some (r, d) \<and> w' = w\<lparr>ops := Suc (ops w), db := d\<rparr>)"
  by (auto simp: update_one_def query_def Let_def split: option.splits if_splits)

lemma write_one_succ [succ_iff]:
  "write_one g w = (Inr r, w') \<longleftrightarrow>
     \<not> faults w (ops w) \<and>
     (\<exists>d. g (w\<lparr>ops := Suc (ops w)\<rparr>) (db w) = Inr (r, d) \<and>
          w' = w\<lparr>ops := Suc (ops w), next_uuid := Suc (next_uuid w), db := d\<rparr>)"
  by (auto simp: write_one_def query_def Let_def split: sum.splits)

lemma insert_unique_succ [succ_iff]:
  "insert_unique mk chk uniq fk put w = (Inr r, w') \<longleftrightarrow>
     \<not> faults w (ops w) \<and> r = mk (w\<lparr>ops := Suc (ops w)\<rparr>) \<and> chk r \<and> uniq (db w) r \<and> fk (db w) r \<and>
     w' = w\<lparr>ops := Suc (ops w), next_uuid := Suc (next_uuid w), db := put r (db w)\<rparr>"
  by (auto simp: insert_unique_def write_one_succ Let_def)

lemma on_unique_succ [succ_iff]: "on_unique msg c w = (Inr y, w') \<longleftrightarrow> c w = (Inr y, w')"
  by (simp add: on_unique_def map_err_succ)

lemma WithinTx_unfold:
  "WithinTx body w =
     (if faults w (ops w)
      then (Inl (Wrapped ''begin tx'' (Opaque ''database unavailable'')), w\<lparr>ops := Suc (ops w)\<rparr>)
      else case body (w\<lparr>ops := Suc (ops w)\<rparr>) of
             (Inl e, w2) \<Rightarrow> (Inl e, w2\<lparr>db := db w\<rparr>)
           | (Inr x, w2) \<Rightarrow>
               if faults w2 (ops w2)
               then (Inl (Opaque ''database unavailable''), w2\<lparr>ops := Suc (ops w2), db := db w\<rparr>)
               else (Inr x, w2\<lparr>ops := Suc (ops w2)\<rparr>))"
  by (simp add: WithinTx_def map_err_def query_def Let_def split: prod.split sum.split)

lemmas run_defs = ret_def fail_def bind_def check_def map_err_def catch_def lift_def query_def
  select_many_def select_one_def exec_sql_def insert_row_def update_one_def write_one_def insert_unique_def on_unique_def WithinTx_unfold

lemma WithinTx_succ [succ_iff]:
  "WithinTx body w = (Inr x, w') \<longleftrightarrow>
     \<not> faults w (ops w) \<and>
     (\<exists>w2. body (w\<lparr>ops := Suc (ops w)\<rparr>) = (Inr x, w2) \<and> \<not> faults w2 (ops w2) \<and>
           w' = w2\<lparr>ops := Suc (ops w2)\<rparr>)"
proof (cases "body (w\<lparr>ops := Suc (ops w)\<rparr>)")
  case (Pair r w2)
  then show ?thesis by (cases r) (auto simp: WithinTx_unfold)
qed

lemma WithinTx_fail_db:
  assumes "WithinTx body w = (Inl e, w')"
  shows "db w' = db w"
proof (cases "body (w\<lparr>ops := Suc (ops w)\<rparr>)")
  case (Pair r w2)
  with assms show ?thesis by (cases r) (auto simp: WithinTx_unfold split: if_splits)
qed

section \<open>Relations that computations obey\<close>

definition obeys :: "(world \<Rightarrow> world \<Rightarrow> bool) \<Rightarrow> 'a m \<Rightarrow> bool" where
  "obeys R c \<longleftrightarrow> (\<forall>w. R w (snd (c w)))"

text \<open>The contract of a relation between the worlds before and after: it is a preorder, it ignores
  how many round trips were made, and undoing the database is again related. Invariants
  (\<open>I w \<longrightarrow> I w'\<close>), ``only grows'' and ``does not touch'' statements are such relations;
  whatever the statements of a handler respect, the whole handler obeys.\<close>

locale world_relation =
  fixes R :: "world \<Rightarrow> world \<Rightarrow> bool"
  assumes R_refl: "R w w"
    and R_trans: "R w w' \<Longrightarrow> R w' w'' \<Longrightarrow> R w w''"
    and R_ops: "R w (w\<lparr>ops := n\<rparr>)"
    and R_rollback: "R w w' \<Longrightarrow> R w (w'\<lparr>db := db w\<rparr>)"
begin

lemma obeysD: "obeys R c \<Longrightarrow> c w = (r, w') \<Longrightarrow> R w w'"
  unfolding obeys_def by (metis snd_conv)

lemma obeys_ret: "obeys R (ret x)"
  by (simp add: obeys_def R_refl)

lemma obeys_fail: "obeys R (fail e)"
  by (simp add: obeys_def R_refl)

lemma obeys_lift: "obeys R (lift r)"
  by (simp add: obeys_def lift_def R_refl)

lemma obeys_bind_run:
  assumes "obeys R f" and "\<And>x w w'. f w = (Inr x, w') \<Longrightarrow> R w' (snd (k x w'))"
  shows "obeys R (bind f k)"
  unfolding obeys_def
proof
  fix w
  obtain r w1 where f: "f w = (r, w1)" by (cases "f w")
  with assms(1) have R1: "R w w1" by (rule obeysD)
  show "R w (snd (bind f k w))"
  proof (cases r)
    case (Inl e)
    with f R1 show ?thesis by (simp add: bind_def)
  next
    case (Inr x)
    with f assms(2) have "R w1 (snd (k x w1))" by blast
    with f Inr R1 show ?thesis by (auto simp: bind_def intro: R_trans)
  qed
qed

lemma obeys_bind:
  assumes "obeys R f" and "\<And>x. obeys R (k x)"
  shows "obeys R (bind f k)"
  using assms by (intro obeys_bind_run) (auto simp: obeys_def)

lemma obeys_check: "obeys R k \<Longrightarrow> obeys R (check b e k)"
  by (simp add: check_def obeys_fail)

lemma obeys_checkI: "(b \<Longrightarrow> obeys R k) \<Longrightarrow> obeys R (check b e k)"
  by (simp add: check_def obeys_fail)

lemma obeys_if: "obeys R c \<Longrightarrow> obeys R d \<Longrightarrow> obeys R (if b then c else d)"
  by simp

lemma obeys_map_err:
  assumes "obeys R c"
  shows "obeys R (map_err f c)"
  unfolding obeys_def
proof
  fix w
  obtain r w1 where c: "c w = (r, w1)" by (cases "c w")
  with assms have "R w w1" by (rule obeysD)
  with c show "R w (snd (map_err f c w))" by (cases r) (simp_all add: map_err_def)
qed

lemma obeys_catch:
  assumes "obeys R c" and "\<And>e. obeys R (h e)"
  shows "obeys R (catch c h)"
  unfolding obeys_def
proof
  fix w
  obtain r w1 where c: "c w = (r, w1)" by (cases "c w")
  with assms(1) have "R w w1" by (rule obeysD)
  moreover have "R w1 (snd (h e w1))" for e using assms(2) by (simp add: obeys_def)
  ultimately show "R w (snd (catch c h w))"
    using c by (cases r) (auto simp: catch_def intro: R_trans)
qed

lemma obeys_for_each: "(\<And>x. obeys R (f x)) \<Longrightarrow> obeys R (for_each xs f)"
  by (induction xs) (auto intro: obeys_ret obeys_bind)

lemma obeys_query:
  assumes "\<And>w. R w (snd (q w))"
  shows "obeys R (query q)"
proof -
  have "R w (snd (q (w\<lparr>ops := n\<rparr>)))" for w n
    using R_ops [of w n] assms [of "w\<lparr>ops := n\<rparr>"] by (rule R_trans)
  then show ?thesis by (simp add: obeys_def query_def Let_def R_ops)
qed

lemma obeys_select_many: "obeys R (select_many f)"
  unfolding select_many_def by (rule obeys_query) (simp add: R_refl)

lemma obeys_select_one: "obeys R (select_one f)"
  unfolding select_one_def by (rule obeys_query) (simp add: R_refl)

lemma obeys_exec_sql: "(\<And>w. R w (w\<lparr>db := g w (db w)\<rparr>)) \<Longrightarrow> obeys R (exec_sql g)"
  unfolding exec_sql_def by (rule obeys_query) simp

lemma obeys_insert_row:
  assumes "\<And>w. ok (db w) (mk w) \<Longrightarrow> R w (w\<lparr>next_uuid := Suc (next_uuid w), db := put (mk w) (db w)\<rparr>)"
    and "\<And>w. R w (w\<lparr>next_uuid := Suc (next_uuid w)\<rparr>)"
  shows "obeys R (insert_row mk ok put)"
  unfolding insert_row_def using assms by (intro obeys_query) (simp add: Let_def)

lemma obeys_update_one:
  assumes "\<And>w r d. g w (db w) = Some (r, d) \<Longrightarrow> ok r \<Longrightarrow> R w (w\<lparr>db := d\<rparr>)"
  shows "obeys R (update_one ok g)"
  unfolding update_one_def using assms R_refl
  by (intro obeys_query) (auto split: option.split)

lemma obeys_write_one:
  assumes "\<And>w r d. g w (db w) = Inr (r, d) \<Longrightarrow> R w (w\<lparr>next_uuid := Suc (next_uuid w), db := d\<rparr>)"
    and "\<And>w. R w (w\<lparr>next_uuid := Suc (next_uuid w)\<rparr>)"
  shows "obeys R (write_one g)"
  unfolding write_one_def using assms by (intro obeys_query) (auto simp: Let_def split: sum.split)

lemma obeys_WithinTx:
  assumes "obeys R body"
  shows "obeys R (WithinTx body)"
  unfolding obeys_def
proof
  fix w :: world
  let ?w1 = "w\<lparr>ops := Suc (ops w)\<rparr>"
  obtain r w2 where b: "body ?w1 = (r, w2)" by (cases "body ?w1")
  have "R ?w1 w2" using assms b by (rule obeysD)
  then have R2: "R w w2" using R_ops R_trans by blast
  then have "R w (w2\<lparr>ops := n\<rparr>)" for n using R_ops R_trans by blast
  then have "R w (w2\<lparr>ops := n, db := db w\<rparr>)" for n using R_rollback by fastforce
  moreover have "R w (w2\<lparr>db := db w\<rparr>)" using R2 by (rule R_rollback)
  ultimately show "R w (snd (WithinTx body w))"
    using b R_ops \<open>\<And>n. R w (w2\<lparr>ops := n\<rparr>)\<close>
    by (cases r) (simp_all add: WithinTx_unfold)
qed

lemma obeys_option: "obeys R a \<Longrightarrow> (\<And>x. obeys R (f x)) \<Longrightarrow> obeys R (case z of None \<Rightarrow> a | Some x \<Rightarrow> f x)"
  by (cases z) simp_all

lemma obeys_prod: "(\<And>x y. obeys R (f x y)) \<Longrightarrow> obeys R (case z of (x, y) \<Rightarrow> f x y)"
  by (cases z) simp

lemmas obeys_cases = obeys_option obeys_prod

lemmas obeys_rules = obeys_ret obeys_fail obeys_lift obeys_bind obeys_check
  obeys_if obeys_map_err obeys_catch obeys_for_each obeys_select_many
  obeys_select_one obeys_WithinTx

end

text \<open>Reads: nothing but the round-trip counter changes.\<close>

definition only_ops :: "world \<Rightarrow> world \<Rightarrow> bool" where
  "only_ops w w' \<longleftrightarrow> w' = w\<lparr>ops := ops w'\<rparr>"

interpretation reads: world_relation only_ops
proof
  fix w w' w'' :: world and n
  show "only_ops w w" by (simp add: only_ops_def)
  show "only_ops w w' \<Longrightarrow> only_ops w' w'' \<Longrightarrow> only_ops w w''"
    unfolding only_ops_def by (metis world.update_convs(2) world.surjective world.select_convs(2))
  show "only_ops w (w\<lparr>ops := n\<rparr>)" by (simp add: only_ops_def)
  show "only_ops w w' \<Longrightarrow> only_ops w (w'\<lparr>db := db w\<rparr>)"
    unfolding only_ops_def by (metis world.select_convs(1) world.surjective world.update_convs(1,2))
qed

abbreviation readonly :: "'a m \<Rightarrow> bool" where
  "readonly \<equiv> obeys only_ops"

lemma only_ops_db: "only_ops w w' \<Longrightarrow> db w' = db w"
  unfolding only_ops_def by (metis world.select_convs(1) world.surjective world.update_convs(2))

lemma readonly_db: "readonly c \<Longrightarrow> c w = (r, w') \<Longrightarrow> db w' = db w"
  using reads.obeysD only_ops_db by blast

context world_relation
begin

lemma readonly_obeys: "readonly c \<Longrightarrow> obeys R c"
  unfolding obeys_def only_ops_def by (metis R_ops)

end

text \<open>Relations given by the databases alone, and invariants of the database.\<close>

definition db_rel :: "(database \<Rightarrow> database \<Rightarrow> bool) \<Rightarrow> world \<Rightarrow> world \<Rightarrow> bool" where
  "db_rel Q w w' = Q (db w) (db w')"

lemma db_rel_world_relation:
  assumes "\<And>d. Q d d" and "\<And>d d' d''. Q d d' \<Longrightarrow> Q d' d'' \<Longrightarrow> Q d d''"
  shows "world_relation (db_rel Q)"
  using assms by unfold_locales (auto simp: db_rel_def)

text \<open>All or nothing: a computation whose errors leave the database as it was.\<close>

definition atomic :: "'a m \<Rightarrow> bool" where
  "atomic c \<longleftrightarrow> (\<forall>w e w'. c w = (Inl e, w') \<longrightarrow> db w' = db w)"

lemma atomicI: "(\<And>w e w'. c w = (Inl e, w') \<Longrightarrow> db w' = db w) \<Longrightarrow> atomic c"
  by (simp add: atomic_def)

lemma atomicD: "atomic c \<Longrightarrow> c w = (Inl e, w') \<Longrightarrow> db w' = db w"
  by (simp add: atomic_def)

lemma atomic_readonly: "readonly c \<Longrightarrow> atomic c"
  by (rule atomicI) (rule readonly_db)

lemma atomic_simple: "atomic (ret x)" "atomic (fail e)" "atomic (lift r)" "atomic (select_many f)" "atomic (select_one g)"
  by (simp_all add: atomic_readonly reads.obeys_rules)

lemma atomic_WithinTx: "atomic (WithinTx body)"
  by (rule atomicI) (rule WithinTx_fail_db)

lemma atomic_map_err: "atomic c \<Longrightarrow> atomic (map_err f c)"
  by (auto simp: atomic_def map_err_def split: prod.splits sum.splits)

lemma atomic_check: "atomic k \<Longrightarrow> atomic (check b e k)"
  by (simp add: check_def atomic_simple)

lemma atomic_if: "atomic c \<Longrightarrow> atomic d \<Longrightarrow> atomic (if b then c else d)"
  by simp

lemma atomic_read_bind:
  assumes "readonly f" and "\<And>x. atomic (k x)"
  shows "atomic (bind f k)"
proof (rule atomicI)
  fix w e w'
  assume run: "bind f k w = (Inl e, w')"
  obtain r w1 where f: "f w = (r, w1)" by (cases "f w")
  then have "db w1 = db w" using assms(1) by (rule readonly_db [rotated])
  with run f atomicD [OF assms(2)] show "db w' = db w" by (cases r) (auto simp: bind_def)
qed

lemma atomic_option: "atomic a \<Longrightarrow> (\<And>x. atomic (f x)) \<Longrightarrow> atomic (case z of None \<Rightarrow> a | Some x \<Rightarrow> f x)"
  by (cases z) simp_all

lemma atomic_prod: "(\<And>x y. atomic (f x y)) \<Longrightarrow> atomic (case z of (x, y) \<Rightarrow> f x y)"
  by (cases z) simp

lemmas atomic_cases = atomic_option atomic_prod

lemma atomic_bind_ret: "atomic c \<Longrightarrow> atomic (bind c (\<lambda>x. ret (f x)))"
  by (auto simp: atomic_def bind_def split: prod.splits sum.splits)

lemmas atomic_rules = atomic_simple atomic_WithinTx atomic_map_err atomic_check atomic_bind_ret

end
