(* ===== verification/Authorization.thy ===== *)
theory Authorization
  imports Database
begin

text \<open>
  The authorization seam: the vocabulary of \<^verbatim>\<open>internal/platform/authz\<close>, the caller of
  \<^verbatim>\<open>internal/platform/principal\<close>, the role reads of \<^verbatim>\<open>internal/membership\<close>
  and the decision point of \<^verbatim>\<open>internal/policy\<close>. The locale \<open>authorizer\<close> is the
  port \<open>authz.Authorizer\<close> that every privileged module depends on; the policy service is its
  interpretation.
\<close>

section \<open>Vocabulary\<close>

datatype Action =
    ActionWorkspaceCreate | ActionMemberInvite | ActionMemberRemove | ActionMemberRoleChange |
    ActionMemberList | ActionProjectCreate | ActionProjectRead | ActionProjectDelete |
    ActionEnvironmentCreate | ActionEnvironmentRead | ActionServerCreate | ActionServerRead |
    ActionServerDelete | ActionAgentCreate | ActionAgentRead | ActionConfigSet | ActionConfigRead |
    ActionConfigDelete | ActionDeploymentCreate | ActionDeploymentRead | ActionSourceConnect |
    ActionSourceRead | ActionSourceDisconnect | ActionServiceCreate | ActionServiceRead |
    ActionServiceUpdate | ActionServiceDelete | ActionDomainCreate | ActionDomainRead |
    ActionDomainVerify | ActionDomainDelete | ActionBackupCreate | ActionBackupRead |
    ActionReadinessRead | ActionServerSetupRun | ActionServerSetupKeyRotate |
    ActionServerSetupKeyRevoke | ActionServerSetupKeyRead | ActionGitHubAppRegister

definition action_string :: "Action \<Rightarrow> string" where
  "action_string a = (case a of
       ActionWorkspaceCreate \<Rightarrow> ''workspace.create''
     | ActionMemberInvite \<Rightarrow> ''workspace.member.invite''
     | ActionMemberRemove \<Rightarrow> ''workspace.member.remove''
     | ActionMemberRoleChange \<Rightarrow> ''workspace.member.role.change''
     | ActionMemberList \<Rightarrow> ''workspace.member.list''
     | ActionProjectCreate \<Rightarrow> ''project.create''
     | ActionProjectRead \<Rightarrow> ''project.read''
     | ActionProjectDelete \<Rightarrow> ''project.delete''
     | ActionEnvironmentCreate \<Rightarrow> ''environment.create''
     | ActionEnvironmentRead \<Rightarrow> ''environment.read''
     | ActionServerCreate \<Rightarrow> ''server.create''
     | ActionServerRead \<Rightarrow> ''server.read''
     | ActionServerDelete \<Rightarrow> ''server.delete''
     | ActionAgentCreate \<Rightarrow> ''agent.create''
     | ActionAgentRead \<Rightarrow> ''agent.read''
     | ActionConfigSet \<Rightarrow> ''config.set''
     | ActionConfigRead \<Rightarrow> ''config.read''
     | ActionConfigDelete \<Rightarrow> ''config.delete''
     | ActionDeploymentCreate \<Rightarrow> ''deployment.create''
     | ActionDeploymentRead \<Rightarrow> ''deployment.read''
     | ActionSourceConnect \<Rightarrow> ''source.connect''
     | ActionSourceRead \<Rightarrow> ''source.read''
     | ActionSourceDisconnect \<Rightarrow> ''source.disconnect''
     | ActionServiceCreate \<Rightarrow> ''service.create''
     | ActionServiceRead \<Rightarrow> ''service.read''
     | ActionServiceUpdate \<Rightarrow> ''service.update''
     | ActionServiceDelete \<Rightarrow> ''service.delete''
     | ActionDomainCreate \<Rightarrow> ''domain.create''
     | ActionDomainRead \<Rightarrow> ''domain.read''
     | ActionDomainVerify \<Rightarrow> ''domain.verify''
     | ActionDomainDelete \<Rightarrow> ''domain.delete''
     | ActionBackupCreate \<Rightarrow> ''backup.create''
     | ActionBackupRead \<Rightarrow> ''backup.read''
     | ActionReadinessRead \<Rightarrow> ''readiness.read''
     | ActionServerSetupRun \<Rightarrow> ''server_setup.run''
     | ActionServerSetupKeyRotate \<Rightarrow> ''server_setup.key.rotate''
     | ActionServerSetupKeyRevoke \<Rightarrow> ''server_setup.key.revoke''
     | ActionServerSetupKeyRead \<Rightarrow> ''server_setup.key.read''
     | ActionGitHubAppRegister \<Rightarrow> ''github_app.register'')"

abbreviation RoleOwner :: string where "RoleOwner \<equiv> ''owner''"
abbreviation RoleAdmin :: string where "RoleAdmin \<equiv> ''admin''"
abbreviation RoleMember :: string where "RoleMember \<equiv> ''member''"
abbreviation RoleViewer :: string where "RoleViewer \<equiv> ''viewer''"

definition ValidRole :: "string \<Rightarrow> bool" where
  "ValidRole r = (r \<in> {RoleOwner, RoleAdmin, RoleMember, RoleViewer})"

record Resource =
  res_Type :: string
  res_WorkspaceID :: string
  res_ID :: string

datatype Method = MethodSession | MethodAPIToken | MethodNone

text \<open>The zero value of \<open>Principal\<close>, with an empty user id, is the anonymous caller.\<close>

record Principal =
  UserID :: string
  pr_Method :: Method

definition IsAuthenticated :: "Principal \<Rightarrow> bool" where
  "IsAuthenticated p = (UserID p \<noteq> [])"

section \<open>The role matrix\<close>

definition owner_actions :: "Action list" where
  "owner_actions =
    [ActionMemberInvite, ActionMemberRemove, ActionMemberRoleChange, ActionMemberList,
     ActionProjectCreate, ActionProjectRead, ActionProjectDelete, ActionEnvironmentCreate,
     ActionEnvironmentRead, ActionServerCreate, ActionServerRead, ActionServerDelete,
     ActionAgentCreate, ActionAgentRead, ActionConfigSet, ActionConfigRead, ActionConfigDelete,
     ActionDeploymentCreate, ActionDeploymentRead, ActionSourceConnect, ActionSourceRead,
     ActionSourceDisconnect, ActionServiceCreate, ActionServiceRead, ActionServiceUpdate,
     ActionServiceDelete, ActionDomainCreate, ActionDomainRead, ActionDomainVerify,
     ActionDomainDelete, ActionBackupCreate, ActionBackupRead, ActionReadinessRead,
     ActionServerSetupRun, ActionServerSetupKeyRotate, ActionServerSetupKeyRevoke,
     ActionServerSetupKeyRead, ActionGitHubAppRegister]"

definition admin_actions :: "Action list" where
  "admin_actions =
    [ActionMemberInvite, ActionMemberRemove, ActionMemberList, ActionProjectCreate,
     ActionProjectRead, ActionProjectDelete, ActionEnvironmentCreate, ActionEnvironmentRead,
     ActionServerCreate, ActionServerRead, ActionServerDelete, ActionAgentCreate, ActionAgentRead,
     ActionConfigSet, ActionConfigRead, ActionConfigDelete, ActionDeploymentCreate,
     ActionDeploymentRead, ActionSourceConnect, ActionSourceRead, ActionSourceDisconnect,
     ActionServiceCreate, ActionServiceRead, ActionServiceUpdate, ActionServiceDelete,
     ActionDomainCreate, ActionDomainRead, ActionDomainVerify, ActionDomainDelete,
     ActionBackupCreate, ActionBackupRead, ActionReadinessRead, ActionServerSetupRun,
     ActionServerSetupKeyRotate, ActionServerSetupKeyRevoke, ActionServerSetupKeyRead]"

definition member_actions :: "Action list" where
  "member_actions =
    [ActionMemberList, ActionProjectCreate, ActionProjectRead, ActionEnvironmentCreate,
     ActionEnvironmentRead, ActionServerCreate, ActionServerRead, ActionAgentCreate,
     ActionAgentRead, ActionConfigSet, ActionConfigRead, ActionConfigDelete,
     ActionDeploymentCreate, ActionDeploymentRead, ActionSourceConnect, ActionSourceRead,
     ActionSourceDisconnect, ActionServiceCreate, ActionServiceRead, ActionServiceUpdate,
     ActionServiceDelete, ActionDomainCreate, ActionDomainRead, ActionDomainVerify,
     ActionDomainDelete, ActionBackupCreate, ActionBackupRead, ActionReadinessRead,
     ActionServerSetupKeyRead]"

definition viewer_actions :: "Action list" where
  "viewer_actions =
    [ActionMemberList, ActionProjectRead, ActionEnvironmentRead, ActionServerRead, ActionAgentRead,
     ActionConfigRead, ActionDeploymentRead, ActionSourceRead, ActionServiceRead, ActionDomainRead,
     ActionBackupRead, ActionReadinessRead, ActionServerSetupKeyRead]"

definition permissions :: "string \<Rightarrow> Action \<Rightarrow> bool" where
  "permissions role a =
     (if role = RoleOwner then a \<in> set owner_actions
      else if role = RoleAdmin then a \<in> set admin_actions
      else if role = RoleMember then a \<in> set member_actions
      else if role = RoleViewer then a \<in> set viewer_actions
      else False)"

section \<open>Membership reads\<close>

text \<open>The adapters' idiom \<open>errors.Is(err, pgx.ErrNoRows)\<close>: no row is the answer ``absent'', any
  other error is passed on.\<close>

definition absent_ok :: "'a m \<Rightarrow> 'a option m" where
  "absent_ok c = catch (bind c (\<lambda>x. ret (Some x))) (\<lambda>e. if e = ErrNoRows then ret None else fail e)"

definition db_GetWorkspaceMemberRole :: "string \<Rightarrow> string \<Rightarrow> string m" where
  "db_GetWorkspaceMemberRole workspaceID userID =
     select_one (\<lambda>d. map_option wm_Role
       (find (\<lambda>r. wm_WorkspaceID r = workspaceID \<and> wm_UserID r = userID) (workspace_members d)))"

definition RoleForUser :: "string \<Rightarrow> string \<Rightarrow> string option m" where
  "RoleForUser workspaceID userID = absent_ok (db_GetWorkspaceMemberRole workspaceID userID)"

section \<open>The decision\<close>

definition Authorize :: "Principal \<Rightarrow> Action \<Rightarrow> Resource \<Rightarrow> unit m" where
  "Authorize p action res =
     check (IsAuthenticated p) (PermissionDenied ''authentication required'')
    (check (res_WorkspaceID res \<noteq> [])
       (PermissionDenied (''a workspace is required to authorize '' @ fmt_q (action_string action)))
    (bind (map_err (Internalf (''authorize '' @ fmt_q (action_string action)))
             (RoleForUser (res_WorkspaceID res) (UserID p)))
    (\<lambda>role. case role of
        None \<Rightarrow> fail (PermissionDenied ''you are not a member of this workspace'')
      | Some r \<Rightarrow>
          if permissions r action then ret ()
          else fail (PermissionDenied (''role '' @ fmt_q r @ '' cannot perform '' @ fmt_q (action_string action))))))"

text \<open>What a database says the caller may do.\<close>

definition permitted :: "database \<Rightarrow> Principal \<Rightarrow> Action \<Rightarrow> string \<Rightarrow> bool" where
  "permitted d p a ws \<longleftrightarrow>
     UserID p \<noteq> [] \<and> ws \<noteq> [] \<and>
     (case find (\<lambda>r. wm_WorkspaceID r = ws \<and> wm_UserID r = UserID p) (workspace_members d) of
        None \<Rightarrow> False | Some r \<Rightarrow> permissions (wm_Role r) a)"

section \<open>Lemmas\<close>

lemma absent_ok_select_one:
  "absent_ok (select_one f) w =
     (if faults w (ops w) then (Inl (Opaque ''database unavailable''), w\<lparr>ops := Suc (ops w)\<rparr>)
      else (Inr (f (db w)), w\<lparr>ops := Suc (ops w)\<rparr>))"
  by (simp add: absent_ok_def catch_def bind_def select_one_def query_def Let_def split: option.split)

lemma readonly_absent_ok: "readonly c \<Longrightarrow> readonly (absent_ok c)"
  unfolding absent_ok_def by (intro reads.obeys_rules) (auto intro: reads.obeys_rules)

lemma readonly_Authorize: "readonly (Authorize p a res)"
proof -
  have "readonly (RoleForUser ws u)" for ws u
    unfolding RoleForUser_def db_GetWorkspaceMemberRole_def
    by (intro readonly_absent_ok reads.obeys_rules)
  then show ?thesis
    unfolding Authorize_def
    by (intro reads.obeys_rules) (auto intro: reads.obeys_rules split: option.split)
qed

lemma Authorize_succ [succ_iff]:
  "Authorize p a res w = (Inr u, w') \<longleftrightarrow>
     \<not> faults w (ops w) \<and> permitted (db w) p a (res_WorkspaceID res) \<and> w' = w\<lparr>ops := Suc (ops w)\<rparr>"
  by (auto simp: Authorize_def RoleForUser_def db_GetWorkspaceMemberRole_def absent_ok_select_one
        succ_iff permitted_def IsAuthenticated_def map_err_def bind_def check_def
        split: option.splits if_splits)

lemma Authorize_error_kind:
  assumes "Authorize p a res w = (Inl e, w')"
  shows "kind_of e \<in> {KindPermissionDenied, KindInternal}"
  using assms
  by (auto simp: Authorize_def RoleForUser_def db_GetWorkspaceMemberRole_def absent_ok_select_one
        map_err_def bind_def check_def split: option.splits if_splits)

section \<open>The port\<close>

text \<open>What a module may rely on: asking never writes, a yes is a yes of the stored roles, a no is a
  permission error (or an internal one when the roles cannot be read).\<close>

locale authorizer =
  fixes authorize :: "Principal \<Rightarrow> Action \<Rightarrow> Resource \<Rightarrow> unit m"
    and allowed :: "database \<Rightarrow> Principal \<Rightarrow> Action \<Rightarrow> string \<Rightarrow> bool"
  assumes asks_only: "readonly (authorize p a res)"
    and yes: "authorize p a res w = (Inr u, w') \<Longrightarrow> allowed (db w) p a (res_WorkspaceID res)"
    and no: "authorize p a res w = (Inl e, w') \<Longrightarrow> kind_of e \<in> {KindPermissionDenied, KindInternal}"
begin

text \<open>A handler guarded by the port writes only for an allowed caller.\<close>

lemma guarded_write:
  assumes "bind (authorize p a res) k w = (r, w')" and "db w' \<noteq> db w"
  shows "allowed (db w) p a (res_WorkspaceID res)"
proof (cases "authorize p a res w")
  case (Pair s w1)
  then show ?thesis
  proof (cases s)
    case (Inl e)
    with Pair assms(1) have "w' = w1" by (simp add: bind_def)
    moreover have "db w1 = db w" using asks_only Pair by (rule readonly_db)
    ultimately show ?thesis using assms(2) by simp
  next
    case (Inr u)
    with Pair yes show ?thesis by blast
  qed
qed

lemma guarded_success:
  assumes "bind (authorize p a res) k w = (Inr x, w')"
  shows "allowed (db w) p a (res_WorkspaceID res)"
  using assms yes by (auto simp: succ_iff)

end

interpretation policy: authorizer Authorize permitted
  by unfold_locales
     (auto simp: readonly_Authorize Authorize_succ dest: Authorize_error_kind)

section \<open>Properties\<close>

text \<open>A caller is authorized exactly when the workspace membership table gives them a role whose
  row of the matrix lists the action (and the table could be read); an anonymous caller, an empty
  workspace and a non-member are refused with a permission error, whatever the roles.\<close>

theorem Authorize_correct:
  "(fst (Authorize p a res w) = Inr () \<longleftrightarrow>
      \<not> faults w (ops w) \<and> permitted (db w) p a (res_WorkspaceID res)) \<and>
   (UserID p = [] \<or> res_WorkspaceID res = [] \<longrightarrow>
      (\<exists>msg. fst (Authorize p a res w) = Inl (PermissionDenied msg)))"
proof
  show "fst (Authorize p a res w) = Inr () \<longleftrightarrow>
      \<not> faults w (ops w) \<and> permitted (db w) p a (res_WorkspaceID res)"
    using Authorize_succ [of p a res w "()"] by (metis fst_conv prod.collapse)
  show "UserID p = [] \<or> res_WorkspaceID res = [] \<longrightarrow>
      (\<exists>msg. fst (Authorize p a res w) = Inl (PermissionDenied msg))"
    by (auto simp: Authorize_def check_def IsAuthenticated_def)
qed

text \<open>The matrix is a ladder. Whatever a viewer may do a member may, whatever a member may do an
  admin may, whatever an admin may do an owner may; changing roles and registering the GitHub App
  are the owner's alone, the SSH management credential is owner and admin only, a viewer's actions
  are reads, and a role outside the vocabulary may do nothing.\<close>

theorem permissions_ladder:
  "(permissions RoleViewer a \<longrightarrow> permissions RoleMember a) \<and>
   (permissions RoleMember a \<longrightarrow> permissions RoleAdmin a) \<and>
   (permissions RoleAdmin a \<longrightarrow> permissions RoleOwner a) \<and>
   (a \<in> {ActionMemberRoleChange, ActionGitHubAppRegister} \<and> permissions r a \<longrightarrow> r = RoleOwner) \<and>
   (a \<in> {ActionServerSetupRun, ActionServerSetupKeyRotate, ActionServerSetupKeyRevoke} \<and> permissions r a
      \<longrightarrow> r \<in> {RoleOwner, RoleAdmin}) \<and>
   (permissions RoleViewer a \<longrightarrow> a \<in> {ActionMemberList, ActionProjectRead, ActionEnvironmentRead,
      ActionServerRead, ActionAgentRead, ActionConfigRead, ActionDeploymentRead, ActionSourceRead,
      ActionServiceRead, ActionDomainRead, ActionBackupRead, ActionReadinessRead, ActionServerSetupKeyRead}) \<and>
   (\<not> ValidRole r \<longrightarrow> \<not> permissions r a)"
  by (cases a)
     (simp_all add: permissions_def ValidRole_def owner_actions_def admin_actions_def member_actions_def
        viewer_actions_def)

end
