(* ===== verification/AuditTrail.thy ===== *)
theory AuditTrail
  imports Authorization
begin

text \<open>
  The append-only audit trail of \<^verbatim>\<open>internal/audit\<close>. Other modules reach it through the port
  \<open>Recorder\<close>, here the locale \<open>recorder\<close>: a recorded event is one more row and nothing
  else. Proved once from that contract: an action and its audit row commit together.
\<close>

record Audit_Event =
  ev_WorkspaceID :: string
  ev_Actor :: string
  ev_Action :: string
  ev_TargetType :: string
  ev_TargetID :: string

definition db_CreateAuditEvent ::
    "string option \<Rightarrow> string \<Rightarrow> string \<Rightarrow> string \<Rightarrow> string \<Rightarrow> AuditEvent_row m" where
  "db_CreateAuditEvent workspaceID actor action targetType targetID =
     insert_row
       (\<lambda>w. \<lparr>ae_ID = fresh_uuid w, ae_WorkspaceID = workspaceID, ae_Actor = actor, ae_Action = action,
             ae_TargetType = targetType, ae_TargetID = targetID, ae_CreatedAt = now w\<rparr>)
       (\<lambda>d r. True)
       (\<lambda>r d. d\<lparr>audit_events := audit_events d @ [r]\<rparr>)"

definition audit_Insert :: "Audit_Event \<Rightarrow> unit m" where
  "audit_Insert e =
     bind (db_CreateAuditEvent
             (if ev_WorkspaceID e \<noteq> [] then Some (ev_WorkspaceID e) else None)
             (ev_Actor e) (ev_Action e) (ev_TargetType e) (ev_TargetID e))
          (\<lambda>_. ret ())"

definition audit_Record :: "string \<Rightarrow> string \<Rightarrow> string \<Rightarrow> string \<Rightarrow> string \<Rightarrow> unit m" where
  "audit_Record action targetType targetID workspaceID actor =
     audit_Insert \<lparr>ev_WorkspaceID = workspaceID, ev_Actor = actor, ev_Action = action,
       ev_TargetType = targetType, ev_TargetID = targetID\<rparr>"

text \<open>The row a call of \<open>Record\<close> is supposed to leave.\<close>

definition audit_row_of :: "string \<Rightarrow> string \<Rightarrow> string \<Rightarrow> string \<Rightarrow> string \<Rightarrow> AuditEvent_row \<Rightarrow> bool" where
  "audit_row_of action targetType targetID workspaceID actor r \<longleftrightarrow>
     ae_WorkspaceID r = (if workspaceID \<noteq> [] then Some workspaceID else None) \<and>
     ae_Actor r = actor \<and> ae_Action r = action \<and> ae_TargetType r = targetType \<and> ae_TargetID r = targetID"

lemma audit_Record_succ [succ_iff]:
  "audit_Record action tt tid ws actor w = (Inr u, w') \<longleftrightarrow>
     \<not> faults w (ops w) \<and>
     w' = w\<lparr>ops := Suc (ops w), next_uuid := Suc (next_uuid w),
            db := (db w)\<lparr>audit_events := audit_events (db w) @
              [\<lparr>ae_ID = fresh_uuid w, ae_WorkspaceID = (if ws \<noteq> [] then Some ws else None),
                ae_Actor = actor, ae_Action = action, ae_TargetType = tt, ae_TargetID = tid,
                ae_CreatedAt = now w\<rparr>]\<rparr>\<rparr>"
  by (auto simp: audit_Record_def audit_Insert_def db_CreateAuditEvent_def insert_row_def query_def
        bind_def Let_def fresh_uuid_def)

lemma audit_Record_fail_db:
  "audit_Record action tt tid ws actor w = (Inl e, w') \<Longrightarrow> db w' = db w"
  by (auto simp: audit_Record_def audit_Insert_def db_CreateAuditEvent_def insert_row_def query_def
        bind_def Let_def split: if_splits)

section \<open>The port\<close>

locale recorder =
  fixes rec :: "string \<Rightarrow> string \<Rightarrow> string \<Rightarrow> string \<Rightarrow> string \<Rightarrow> unit m"
  assumes rec_ok: "rec a tt tid ws actor w = (Inr u, w') \<Longrightarrow>
      \<exists>r. audit_row_of a tt tid ws actor r \<and>
          db w' = (db w)\<lparr>audit_events := audit_events (db w) @ [r]\<rparr>"
    and rec_err: "rec a tt tid ws actor w = (Inl e, w') \<Longrightarrow> db w' = db w"
begin

text \<open>An action audited in its transaction: on success the database is what the action made of it
  plus exactly one audit row; on any error nothing of the action remains.\<close>

lemma audited_tx_success:
  assumes "WithinTx (bind act (\<lambda>x. bind (rec a tt (idof x) ws actor) (\<lambda>_. ret x))) w = (Inr x, w')"
  obtains w1 r where "act (w\<lparr>ops := Suc (ops w)\<rparr>) = (Inr x, w1)"
    and "audit_row_of a tt (idof x) ws actor r"
    and "db w' = (db w1)\<lparr>audit_events := audit_events (db w1) @ [r]\<rparr>"
proof -
  from assms obtain w1 w2 where act: "act (w\<lparr>ops := Suc (ops w)\<rparr>) = (Inr x, w1)"
    and rec: "rec a tt (idof x) ws actor w1 = (Inr (), w2)" and "w' = w2\<lparr>ops := Suc (ops w2)\<rparr>"
    by (auto simp: succ_iff)
  with rec_ok [OF rec] that show ?thesis by auto
qed

lemma audited_tx_failure:
  "WithinTx (bind act (\<lambda>x. bind (rec a tt (idof x) ws actor) (\<lambda>_. ret x))) w = (Inl e, w') \<Longrightarrow>
     db w' = db w"
  by (rule WithinTx_fail_db)

end

interpretation trail: recorder audit_Record
proof
  fix a tt tid ws actor w u w' e
  show "audit_Record a tt tid ws actor w = (Inr u, w') \<Longrightarrow>
      \<exists>r. audit_row_of a tt tid ws actor r \<and>
          db w' = (db w)\<lparr>audit_events := audit_events (db w) @ [r]\<rparr>"
    by (rule exI [of _ "\<lparr>ae_ID = fresh_uuid w, ae_WorkspaceID = (if ws \<noteq> [] then Some ws else None),
           ae_Actor = actor, ae_Action = a, ae_TargetType = tt, ae_TargetID = tid, ae_CreatedAt = now w\<rparr>"])
       (simp add: audit_Record_succ audit_row_of_def)
  show "audit_Record a tt tid ws actor w = (Inl e, w') \<Longrightarrow> db w' = db w"
    by (rule audit_Record_fail_db)
qed

context world_relation
begin

lemma obeys_audit_Record:
  assumes "\<And>w r. R w (w\<lparr>next_uuid := Suc (next_uuid w),
                        db := (db w)\<lparr>audit_events := audit_events (db w) @ [r]\<rparr>\<rparr>)"
  shows "obeys R (audit_Record a tt tid ws actor)"
  unfolding audit_Record_def audit_Insert_def db_CreateAuditEvent_def insert_row_def
  using assms by (intro obeys_bind obeys_query obeys_ret) (simp add: Let_def)

end

end
