(* ===== verification/DeploymentQueries.thy ===== *)
theory DeploymentQueries
  imports AuditTrail "HOL-Library.List_Lexorder" "HOL-Library.Char_ord" "HOL-Library.Product_Lexorder"
begin

text \<open>
  The SQL of \<^verbatim>\<open>internal/platform/database/db\<close> that the deployments module runs
  (\<^verbatim>\<open>deployments.sql.go\<close> and the reads of sibling tables), over the tables of
  \<^verbatim>\<open>Database\<close>. Column defaults, primary keys, \<open>CHECK\<close> constraints and foreign keys are those of
  the migrations; text columns sort bytewise.
\<close>

section \<open>Constraints and defaults of the tables\<close>

definition deployment_statuses :: "string list" where
  "deployment_statuses =
     [''queued'', ''assigned'', ''cloning'', ''building'', ''pulling'', ''starting'', ''healthcheck'',
      ''routing'', ''running'', ''failed'', ''superseded'', ''torndown'']"

definition teardown_statuses :: "string list" where
  "teardown_statuses = [''queued'', ''assigned'', ''stopping'', ''removing'', ''succeeded'', ''failed'']"

definition deployment_fks :: "database \<Rightarrow> Deployment_row \<Rightarrow> bool" where
  "deployment_fks d r =
     (rd_ServiceID r \<in> rs_ID ` set (services d) \<and>
      rd_EnvironmentID r \<in> en_ID ` set (environments d) \<and>
      rd_ProjectID r \<in> pj_ID ` set (projects d) \<and>
      rd_ServerID r \<in> sv_ID ` set (servers d) \<and>
      (case rd_RolledBackFrom r of None \<Rightarrow> True | Some i \<Rightarrow> i \<in> rd_ID ` set (deployments d)))"

definition deployment_ok :: "database \<Rightarrow> Deployment_row \<Rightarrow> bool" where
  "deployment_ok d r =
     (rd_ID r \<notin> rd_ID ` set (deployments d) \<and>
      rd_Status r \<in> set deployment_statuses \<and>
      rd_SourceKind r \<in> {''image'', ''git''} \<and> rd_Kind r \<in> {''production'', ''preview''} \<and>
      deployment_fks d r)"

definition teardown_ok :: "database \<Rightarrow> TeardownJob_row \<Rightarrow> bool" where
  "teardown_ok d r =
     (rt_ID r \<notin> rt_ID ` set (teardown_jobs d) \<and>
      rt_Status r \<in> set teardown_statuses \<and>
      rt_DeploymentID r \<in> rd_ID ` set (deployments d) \<and>
      rt_ServiceID r \<in> rs_ID ` set (services d) \<and>
      rt_EnvironmentID r \<in> en_ID ` set (environments d) \<and>
      rt_ProjectID r \<in> pj_ID ` set (projects d) \<and>
      rt_ServerID r \<in> sv_ID ` set (servers d))"

definition deployment_defaults :: "world \<Rightarrow> Deployment_row" where
  "deployment_defaults w =
     \<lparr>rd_ID = fresh_uuid w, rd_EnvironmentID = [], rd_ProjectID = [], rd_WorkspaceID = [], rd_ServerID = [],
      rd_ImageRef = [], rd_ContainerPort = 0, rd_HostPort = 0, rd_ContainerID = [], rd_Status = ''queued'',
      rd_Message = [], rd_CreatedAt = now w, rd_UpdatedAt = now w, rd_SourceKind = ''image'',
      rd_SourceAccess = [], rd_CloneUrl = [], rd_GitRef = [], rd_CommitSha = [], rd_BuiltImageRef = [],
      rd_RouteUrl = [], rd_ServiceID = [], rd_RolledBackFrom = None, rd_Kind = ''production'',
      rd_RouteKey = [], rd_PrNumber = 0, rd_PrUrl = [], rd_PreviewAuthUser = [], rd_PreviewAuthHash = []\<rparr>"

definition put_deployment :: "Deployment_row \<Rightarrow> database \<Rightarrow> database" where
  "put_deployment r d = d\<lparr>deployments := deployments d @ [r]\<rparr>"

definition upd_deployments :: "(Deployment_row \<Rightarrow> bool) \<Rightarrow> (Deployment_row \<Rightarrow> Deployment_row) \<Rightarrow> database \<Rightarrow> database" where
  "upd_deployments p f d = d\<lparr>deployments := update_where p f (deployments d)\<rparr>"

section \<open>Deployments\<close>

definition db_CreateDeployment ::
    "string \<Rightarrow> string \<Rightarrow> string \<Rightarrow> string \<Rightarrow> string \<Rightarrow> string \<Rightarrow> string \<Rightarrow> int \<Rightarrow> string option \<Rightarrow> Deployment_row m" where
  "db_CreateDeployment serviceID routeKey environmentID projectID workspaceID serverID imageRef containerPort rolledBackFrom =
     insert_row
       (\<lambda>w. (deployment_defaults w)
          \<lparr>rd_ServiceID := serviceID, rd_RouteKey := routeKey, rd_EnvironmentID := environmentID,
           rd_ProjectID := projectID, rd_WorkspaceID := workspaceID, rd_ServerID := serverID,
           rd_ImageRef := imageRef, rd_ContainerPort := containerPort, rd_RolledBackFrom := rolledBackFrom\<rparr>)
       deployment_ok put_deployment"

definition db_CreateDeploymentFromGit ::
    "string \<Rightarrow> string \<Rightarrow> string \<Rightarrow> string \<Rightarrow> string \<Rightarrow> string \<Rightarrow> int \<Rightarrow> string \<Rightarrow> string \<Rightarrow> string \<Rightarrow> string option \<Rightarrow>
     Deployment_row m" where
  "db_CreateDeploymentFromGit serviceID routeKey environmentID projectID workspaceID serverID containerPort
       sourceAccess cloneUrl gitRef rolledBackFrom =
     insert_row
       (\<lambda>w. (deployment_defaults w)
          \<lparr>rd_ServiceID := serviceID, rd_RouteKey := routeKey, rd_EnvironmentID := environmentID,
           rd_ProjectID := projectID, rd_WorkspaceID := workspaceID, rd_ServerID := serverID,
           rd_ContainerPort := containerPort, rd_SourceKind := ''git'', rd_SourceAccess := sourceAccess,
           rd_CloneUrl := cloneUrl, rd_GitRef := gitRef, rd_RolledBackFrom := rolledBackFrom\<rparr>)
       deployment_ok put_deployment"

definition db_CreatePreviewDeployment ::
    "string \<Rightarrow> string \<Rightarrow> string \<Rightarrow> string \<Rightarrow> string \<Rightarrow> string \<Rightarrow> int \<Rightarrow> string \<Rightarrow> string \<Rightarrow> string \<Rightarrow> int \<Rightarrow> string \<Rightarrow>
     string \<Rightarrow> string \<Rightarrow> Deployment_row m" where
  "db_CreatePreviewDeployment serviceID routeKey environmentID projectID workspaceID serverID containerPort
       sourceAccess cloneUrl gitRef prNumber prUrl authUser authHash =
     insert_row
       (\<lambda>w. (deployment_defaults w)
          \<lparr>rd_ServiceID := serviceID, rd_RouteKey := routeKey, rd_Kind := ''preview'',
           rd_EnvironmentID := environmentID, rd_ProjectID := projectID, rd_WorkspaceID := workspaceID,
           rd_ServerID := serverID, rd_ContainerPort := containerPort, rd_SourceKind := ''git'',
           rd_SourceAccess := sourceAccess, rd_CloneUrl := cloneUrl, rd_GitRef := gitRef,
           rd_PrNumber := prNumber, rd_PrUrl := prUrl, rd_PreviewAuthUser := authUser,
           rd_PreviewAuthHash := authHash\<rparr>)
       deployment_ok put_deployment"

definition db_GetDeployment :: "string \<Rightarrow> Deployment_row m" where
  "db_GetDeployment i = select_one (\<lambda>d. find (\<lambda>r. rd_ID r = i) (deployments d))"

definition newest_first :: "(Deployment_row \<Rightarrow> bool) \<Rightarrow> database \<Rightarrow> Deployment_row list" where
  "newest_first p d = sort_key (\<lambda>r. - rd_CreatedAt r) (filter p (deployments d))"

definition db_ListDeploymentsByEnvironment :: "string \<Rightarrow> Deployment_row list m" where
  "db_ListDeploymentsByEnvironment i = select_many (newest_first (\<lambda>r. rd_EnvironmentID r = i))"

definition db_ListDeploymentsByProject :: "string \<Rightarrow> Deployment_row list m" where
  "db_ListDeploymentsByProject i = select_many (newest_first (\<lambda>r. rd_ProjectID r = i))"

definition db_ListDeploymentsByService :: "string \<Rightarrow> Deployment_row list m" where
  "db_ListDeploymentsByService i = select_many (newest_first (\<lambda>r. rd_ServiceID r = i))"

definition db_ListDeploymentsByWorkspace :: "string \<Rightarrow> Deployment_row list m" where
  "db_ListDeploymentsByWorkspace i = select_many (newest_first (\<lambda>r. rd_WorkspaceID r = i))"

definition db_ListExpiredPreviews :: "int \<Rightarrow> Deployment_row list m" where
  "db_ListExpiredPreviews cutoff =
     select_many (\<lambda>d. sort_key rd_CreatedAt
       (filter (\<lambda>r. rd_Kind r = ''preview'' \<and> rd_Status r = ''running'' \<and> rd_CreatedAt r < cutoff) (deployments d)))"

definition db_GetLatestServerForService :: "string \<Rightarrow> string m" where
  "db_GetLatestServerForService i =
     select_one (\<lambda>d. map_option rd_ServerID (first_by (\<lambda>r. - rd_CreatedAt r) (\<lambda>r. rd_ServiceID r = i) (deployments d)))"

definition db_GetLatestActivePreviewByRouteKey :: "string \<Rightarrow> string \<Rightarrow> Deployment_row m" where
  "db_GetLatestActivePreviewByRouteKey serviceID routeKey =
     select_one (\<lambda>d. first_by (\<lambda>r. - rd_CreatedAt r)
       (\<lambda>r. rd_ServiceID r = serviceID \<and> rd_RouteKey r = routeKey \<and> rd_Kind r = ''preview'' \<and>
            rd_Status r \<noteq> ''torndown'') (deployments d))"

definition assign_deployment :: "int \<Rightarrow> Deployment_row \<Rightarrow> Deployment_row" where
  "assign_deployment t r = r\<lparr>rd_Status := ''assigned'', rd_UpdatedAt := t\<rparr>"

definition db_ClaimNextDeploymentForServer :: "string \<Rightarrow> Deployment_row m" where
  "db_ClaimNextDeploymentForServer serverID =
     update_one (\<lambda>_. True) (\<lambda>w d.
       case first_by rd_CreatedAt (\<lambda>r. rd_ServerID r = serverID \<and> rd_Status r = ''queued'') (deployments d) of
         None \<Rightarrow> None
       | Some r \<Rightarrow> Some (assign_deployment (now w) r,
                     upd_deployments (\<lambda>x. rd_ID x = rd_ID r) (assign_deployment (now w)) d))"

text \<open>\<open>CASE WHEN new <> '' THEN new ELSE old END\<close>.\<close>

definition keep_if_empty :: "string \<Rightarrow> string \<Rightarrow> string" where
  "keep_if_empty new old = (if new \<noteq> [] then new else old)"

definition set_deployment_status ::
    "string \<Rightarrow> string \<Rightarrow> int \<Rightarrow> string \<Rightarrow> string \<Rightarrow> string \<Rightarrow> string \<Rightarrow> int \<Rightarrow> Deployment_row \<Rightarrow> Deployment_row" where
  "set_deployment_status status message hostPort containerID commitSha builtImageRef routeUrl t r =
     r\<lparr>rd_Status := status,
       rd_Message := keep_if_empty message (rd_Message r),
       rd_HostPort := (if hostPort > 0 then hostPort else rd_HostPort r),
       rd_ContainerID := keep_if_empty containerID (rd_ContainerID r),
       rd_CommitSha := keep_if_empty commitSha (rd_CommitSha r),
       rd_BuiltImageRef := keep_if_empty builtImageRef (rd_BuiltImageRef r),
       rd_RouteUrl := keep_if_empty routeUrl (rd_RouteUrl r),
       rd_UpdatedAt := t\<rparr>"

definition db_UpdateDeploymentStatus ::
    "string \<Rightarrow> string \<Rightarrow> int \<Rightarrow> string \<Rightarrow> string \<Rightarrow> string \<Rightarrow> string \<Rightarrow> string \<Rightarrow> Deployment_row m" where
  "db_UpdateDeploymentStatus status message hostPort containerID commitSha builtImageRef routeUrl i =
     update_one (\<lambda>r. rd_Status r \<in> set deployment_statuses) (\<lambda>w d.
       let f = set_deployment_status status message hostPort containerID commitSha builtImageRef routeUrl (now w) in
       case find (\<lambda>r. rd_ID r = i) (deployments d) of
         None \<Rightarrow> None
       | Some r \<Rightarrow> Some (f r, upd_deployments (\<lambda>x. rd_ID x = i) f d))"

definition db_SupersedePreviousRunning :: "string \<Rightarrow> string \<Rightarrow> string \<Rightarrow> unit m" where
  "db_SupersedePreviousRunning routeKey serverID i =
     exec_sql (\<lambda>w. upd_deployments
       (\<lambda>r. rd_RouteKey r = routeKey \<and> rd_ServerID r = serverID \<and> rd_Status r = ''running'' \<and> rd_ID r \<noteq> i)
       (\<lambda>r. r\<lparr>rd_Status := ''superseded'', rd_UpdatedAt := now w\<rparr>))"

definition db_MarkPreviewTornDown :: "string \<Rightarrow> string \<Rightarrow> unit m" where
  "db_MarkPreviewTornDown routeKey serverID =
     exec_sql (\<lambda>w. upd_deployments
       (\<lambda>r. rd_RouteKey r = routeKey \<and> rd_ServerID r = serverID \<and>
            rd_Status r \<notin> {''failed'', ''superseded'', ''torndown''})
       (\<lambda>r. r\<lparr>rd_Status := ''torndown'', rd_UpdatedAt := now w\<rparr>))"

section \<open>Events\<close>

definition db_AppendDeploymentEvent :: "string \<Rightarrow> string \<Rightarrow> string \<Rightarrow> string \<Rightarrow> string \<Rightarrow> DeploymentEvent_row m" where
  "db_AppendDeploymentEvent deploymentID kind status message stream =
     query (\<lambda>w.
       let r = \<lparr>re_ID = fresh_uuid w, re_DeploymentID = deploymentID, re_Seq = next_seq w, re_Kind = kind,
                re_Status = status, re_Message = message, re_CreatedAt = now w, re_Stream = stream\<rparr>;
           w' = w\<lparr>next_uuid := Suc (next_uuid w), next_seq := next_seq w + 1\<rparr>
       in if kind \<in> {''status'', ''log''} \<and> deploymentID \<in> rd_ID ` set (deployments (db w))
          then (Inr r, w'\<lparr>db := (db w)\<lparr>deployment_events := deployment_events (db w) @ [r]\<rparr>\<rparr>)
          else (Inl (Opaque ''constraint violation''), w'))"

definition db_ListDeploymentEvents :: "string \<Rightarrow> int \<Rightarrow> DeploymentEvent_row list m" where
  "db_ListDeploymentEvents deploymentID seq =
     select_many (\<lambda>d. sort_key re_Seq
       (filter (\<lambda>r. re_DeploymentID r = deploymentID \<and> re_Seq r > seq) (deployment_events d)))"

section \<open>Teardown jobs\<close>

definition db_CreateTeardownJob ::
    "string \<Rightarrow> string \<Rightarrow> string \<Rightarrow> string \<Rightarrow> string \<Rightarrow> string \<Rightarrow> string \<Rightarrow> TeardownJob_row m" where
  "db_CreateTeardownJob deploymentID serviceID routeKey environmentID projectID workspaceID serverID =
     insert_row
       (\<lambda>w. \<lparr>rt_ID = fresh_uuid w, rt_DeploymentID = deploymentID, rt_ServiceID = serviceID,
             rt_RouteKey = routeKey, rt_EnvironmentID = environmentID, rt_ProjectID = projectID,
             rt_WorkspaceID = workspaceID, rt_ServerID = serverID, rt_Status = ''queued'', rt_Message = [],
             rt_Error = [], rt_CreatedAt = now w, rt_UpdatedAt = now w\<rparr>)
       teardown_ok (\<lambda>r d. d\<lparr>teardown_jobs := teardown_jobs d @ [r]\<rparr>)"

definition db_GetTeardownJob :: "string \<Rightarrow> TeardownJob_row m" where
  "db_GetTeardownJob i = select_one (\<lambda>d. find (\<lambda>r. rt_ID r = i) (teardown_jobs d))"

definition db_ListTeardownJobsByService :: "string \<Rightarrow> TeardownJob_row list m" where
  "db_ListTeardownJobsByService i =
     select_many (\<lambda>d. sort_key (\<lambda>r. - rt_CreatedAt r) (filter (\<lambda>r. rt_ServiceID r = i) (teardown_jobs d)))"

definition assign_teardown :: "int \<Rightarrow> TeardownJob_row \<Rightarrow> TeardownJob_row" where
  "assign_teardown t r = r\<lparr>rt_Status := ''assigned'', rt_UpdatedAt := t\<rparr>"

definition db_ClaimNextTeardownForServer :: "string \<Rightarrow> TeardownJob_row m" where
  "db_ClaimNextTeardownForServer serverID =
     update_one (\<lambda>_. True) (\<lambda>w d.
       case first_by rt_CreatedAt (\<lambda>r. rt_ServerID r = serverID \<and> rt_Status r = ''queued'') (teardown_jobs d) of
         None \<Rightarrow> None
       | Some r \<Rightarrow> Some (assign_teardown (now w) r,
                     d\<lparr>teardown_jobs := update_where (\<lambda>x. rt_ID x = rt_ID r) (assign_teardown (now w)) (teardown_jobs d)\<rparr>))"

definition set_teardown_status :: "string \<Rightarrow> string \<Rightarrow> string \<Rightarrow> int \<Rightarrow> TeardownJob_row \<Rightarrow> TeardownJob_row" where
  "set_teardown_status status message error t r =
     r\<lparr>rt_Status := status, rt_Message := keep_if_empty message (rt_Message r),
       rt_Error := keep_if_empty error (rt_Error r), rt_UpdatedAt := t\<rparr>"

definition db_UpdateTeardownStatus :: "string \<Rightarrow> string \<Rightarrow> string \<Rightarrow> string \<Rightarrow> TeardownJob_row m" where
  "db_UpdateTeardownStatus status message error i =
     update_one (\<lambda>r. rt_Status r \<in> set teardown_statuses) (\<lambda>w d.
       let f = set_teardown_status status message error (now w) in
       case find (\<lambda>r. rt_ID r = i) (teardown_jobs d) of
         None \<Rightarrow> None
       | Some r \<Rightarrow> Some (f r, d\<lparr>teardown_jobs := update_where (\<lambda>x. rt_ID x = i) f (teardown_jobs d)\<rparr>))"

section \<open>Sibling tables\<close>

definition db_GetEnvironmentWorkspaceAndProject :: "string \<Rightarrow> (string \<times> string) m" where
  "db_GetEnvironmentWorkspaceAndProject i =
     select_one (\<lambda>d.
       case find (\<lambda>e. en_ID e = i) (environments d) of
         None \<Rightarrow> None
       | Some e \<Rightarrow> map_option (\<lambda>p. (pj_WorkspaceID p, pj_ID p)) (find (\<lambda>p. pj_ID p = en_ProjectID e) (projects d)))"

definition db_GetAgentServerByCredential :: "nat list \<Rightarrow> (string \<times> string) m" where
  "db_GetAgentServerByCredential credentialHash =
     select_one (\<lambda>d. map_option (\<lambda>a. (ag_ID a, ag_ServerID a))
       (find (\<lambda>a. ag_CredentialHash a = credentialHash) (agents d)))"

definition db_GetServiceForDeploy :: "string \<Rightarrow> Service_row m" where
  "db_GetServiceForDeploy i = select_one (\<lambda>d. find (\<lambda>r. rs_ID r = i) (services d))"

definition db_GetServiceWorkspaceAndProject :: "string \<Rightarrow> (string \<times> string) m" where
  "db_GetServiceWorkspaceAndProject i =
     select_one (\<lambda>d. map_option (\<lambda>r. (rs_WorkspaceID r, rs_ProjectID r)) (find (\<lambda>r. rs_ID r = i) (services d)))"

definition db_UpdateServiceRouteURL :: "string \<Rightarrow> string \<Rightarrow> unit m" where
  "db_UpdateServiceRouteURL i routeUrl =
     exec_sql (\<lambda>w d. d\<lparr>services := update_where (\<lambda>r. rs_ID r = i)
       (\<lambda>r. r\<lparr>rs_RouteUrl := routeUrl, rs_UpdatedAt := now w\<rparr>) (services d)\<rparr>)"

definition db_GetServerWorkspace :: "string \<Rightarrow> string m" where
  "db_GetServerWorkspace i = select_one (\<lambda>d. map_option sv_WorkspaceID (find (\<lambda>r. sv_ID r = i) (servers d)))"

definition db_GetProjectWorkspaceID :: "string \<Rightarrow> string m" where
  "db_GetProjectWorkspaceID i = select_one (\<lambda>d. map_option pj_WorkspaceID (find (\<lambda>r. pj_ID r = i) (projects d)))"

definition db_ListConfigForService :: "string \<Rightarrow> ConfigEntry_row list m" where
  "db_ListConfigForService serviceID =
     select_many (\<lambda>d. sort_key (\<lambda>e. (ce_Scope e, ce_Key e))
       (filter (\<lambda>e. ce_ServiceID e = Some serviceID \<or>
                    (case find (\<lambda>r. rs_ID r = serviceID) (services d) of
                       None \<Rightarrow> False | Some r \<Rightarrow> ce_EnvironmentID e = Some (rs_EnvironmentID r)))
               (config_entries d)))"

definition db_VerifiedDomainsForServices :: "string list \<Rightarrow> (string \<times> string) list m" where
  "db_VerifiedDomainsForServices serviceIDs =
     select_many (\<lambda>d. sort (map (\<lambda>r. (dm_ServiceID r, dm_Hostname r))
       (filter (\<lambda>r. dm_ServiceID r \<in> set serviceIDs \<and> dm_Status r \<in> {''verified'', ''active''}) (domains d))))"

definition db_MarkDomainsRouteSync :: "string \<Rightarrow> string list \<Rightarrow> string \<Rightarrow> string \<Rightarrow> unit m" where
  "db_MarkDomainsRouteSync serviceID hostnames status statusMessage =
     exec_sql (\<lambda>w d. d\<lparr>domains := update_where
       (\<lambda>r. dm_ServiceID r = serviceID \<and> dm_Hostname r \<in> set hostnames \<and>
            dm_Status r \<in> {''verified'', ''active'', ''failed''})
       (\<lambda>r. r\<lparr>dm_Status := status, dm_StatusMessage := statusMessage, dm_UpdatedAt := now w\<rparr>) (domains d)\<rparr>)"

end
