(* ===== verification/Sha256.thy ===== *)
theory Sha256
  imports Prelude "HOL-Library.Word"
begin

text \<open>
  Go's \<open>crypto/sha256\<close> as the sources use it (\<open>sha256.Sum256\<close>): padding, message schedule
  and compression of FIPS 180-4 on 32-bit words. Agent credentials, preview route keys and preview
  hosts are derived from it; the lemma the clients rest on is that a digest has 32 bytes.
\<close>

unbundle bit_operations_syntax

type_synonym u32 = "32 word"

text \<open>
  The constants are derived as the standard derives them: the first 32 fractional bits of the square
  (initial state) and cube (round constants) roots of the first 8 and 64 primes. \<open>root_bits\<close>
  decides the bits of an integer \<open>k\<close>-th root from the top; 36 bits are enough for a root below 16
  scaled by \<open>2 ^ 32\<close>, and the word type drops the integer part.
\<close>

fun root_bits :: "nat \<Rightarrow> nat \<Rightarrow> nat \<Rightarrow> nat \<Rightarrow> nat" where
  "root_bits k n 0 r = r"
| "root_bits k n (Suc b) r = (let r' = r + 2 ^ b in root_bits k n b (if r' ^ k \<le> n then r' else r))"

lemma root_bits_root:
  "r ^ k \<le> n \<Longrightarrow> n < (r + 2 ^ b) ^ k \<Longrightarrow>
     root_bits k n b r ^ k \<le> n \<and> n < (root_bits k n b r + 1) ^ k"
proof (induction b arbitrary: r)
  case (Suc b)
  then show ?case
    using Suc.IH [of "r + 2 ^ b"] Suc.IH [of r] by (simp add: Let_def not_le mult_2 add.assoc)
qed simp

definition frac_root :: "nat \<Rightarrow> nat \<Rightarrow> u32" where
  "frac_root k p = of_nat (root_bits k (p * 2 ^ (32 * k)) 36 0)"

definition primes_below :: "nat \<Rightarrow> nat list" where
  "primes_below m = filter (\<lambda>p. list_all (\<lambda>d. p mod d \<noteq> 0) [2..<p]) [2..<m]"

definition sha_K :: "u32 list" where
  "sha_K = map (frac_root 3) (primes_below 312)"

definition sha_H0 :: "u32 list" where
  "sha_H0 = map (frac_root 2) [2, 3, 5, 7, 11, 13, 17, 19]"

definition rotr :: "nat \<Rightarrow> u32 \<Rightarrow> u32" where
  "rotr n x = drop_bit n x OR push_bit (32 - n) x"

definition be32 :: "nat list \<Rightarrow> u32" where
  "be32 bs = foldl (\<lambda>acc b. acc * 256 + of_nat b) 0 bs"

definition word_bytes :: "u32 \<Rightarrow> nat list" where
  "word_bytes x = [unat (drop_bit 24 x) mod 256, unat (drop_bit 16 x) mod 256, unat (drop_bit 8 x) mod 256, unat x mod 256]"

text \<open>A block is 16 big-endian words; \<open>schedule\<close> extends a window of 16 words, newest first.\<close>

fun schedule :: "nat \<Rightarrow> u32 list \<Rightarrow> u32 list" where
  "schedule 0 ws = ws"
| "schedule (Suc n) ws =
     (let w15 = ws ! 14; w2 = ws ! 1;
          s0 = rotr 7 w15 XOR rotr 18 w15 XOR drop_bit 3 w15;
          s1 = rotr 17 w2 XOR rotr 19 w2 XOR drop_bit 10 w2
      in schedule n ((ws ! 15 + s0 + ws ! 6 + s1) # ws))"

fun rounds :: "(u32 \<times> u32) list \<Rightarrow> u32 \<Rightarrow> u32 \<Rightarrow> u32 \<Rightarrow> u32 \<Rightarrow> u32 \<Rightarrow> u32 \<Rightarrow> u32 \<Rightarrow> u32 \<Rightarrow> u32 list" where
  "rounds [] a b c d e f g h = [a, b, c, d, e, f, g, h]"
| "rounds ((k, w) # kws) a b c d e f g h =
     (let t1 = h + (rotr 6 e XOR rotr 11 e XOR rotr 25 e) + ((e AND f) XOR (NOT e AND g)) + k + w;
          t2 = (rotr 2 a XOR rotr 13 a XOR rotr 22 a) + ((a AND b) XOR (a AND c) XOR (b AND c))
      in rounds kws (t1 + t2) a b c (d + t1) e f g)"

definition compress :: "u32 list \<Rightarrow> u32 list \<Rightarrow> u32 list" where
  "compress hs block =
     map2 (+) hs
       (rounds (zip sha_K (rev (schedule 48 (rev block))))
          (hs ! 0) (hs ! 1) (hs ! 2) (hs ! 3) (hs ! 4) (hs ! 5) (hs ! 6) (hs ! 7))"

fun words_of :: "nat list \<Rightarrow> u32 list" where
  "words_of (a # b # c # d # bs) = be32 [a, b, c, d] # words_of bs"
| "words_of _ = []"

function absorb :: "u32 list \<Rightarrow> u32 list \<Rightarrow> u32 list" where
  "absorb hs ws = (if ws = [] then hs else absorb (compress hs (take 16 ws)) (drop 16 ws))"
  by pat_completeness auto
termination
  by (relation "measure (\<lambda>(hs, ws). length ws)") auto

declare absorb.simps [simp del]

definition len_bytes :: "nat \<Rightarrow> nat list" where
  "len_bytes n = map (\<lambda>i. (8 * n) div 256 ^ (7 - i) mod 256) [0..<8]"

definition sha_pad :: "nat list \<Rightarrow> nat list" where
  "sha_pad bs =
     (let n = length bs in bs @ [128] @ replicate ((119 - n mod 64) mod 64) 0 @ len_bytes n)"

definition sha256_Sum256 :: "string \<Rightarrow> nat list" where
  "sha256_Sum256 s = concat (map word_bytes (absorb sha_H0 (words_of (sha_pad (map of_char s)))))"

lemma length_rounds [simp]: "length (rounds kws a b c d e f g h) = 8"
  by (induction kws a b c d e f g h rule: rounds.induct) (auto simp: Let_def)

lemma length_absorb: "length hs = 8 \<Longrightarrow> length (absorb hs ws) = 8"
proof (induction hs ws rule: absorb.induct)
  case (1 hs ws)
  then show ?case
    by (cases "ws = []") (simp_all add: absorb.simps [of hs] compress_def)
qed

lemma length_concat_word_bytes: "length (concat (map word_bytes ws)) = 4 * length ws"
  by (induction ws) (auto simp: word_bytes_def)

lemma length_sha256 [simp]: "length (sha256_Sum256 s) = 32"
  by (simp add: sha256_Sum256_def length_concat_word_bytes length_absorb sha_H0_def)

lemma sha256_bytes: "\<forall>b \<in> set (sha256_Sum256 s). b < 256"
proof -
  have "\<forall>b \<in> set (concat (map word_bytes ws)). b < 256" for ws
    by (induction ws) (auto simp: word_bytes_def)
  then show ?thesis by (simp add: sha256_Sum256_def)
qed

end
