(* ===== verification/RouteKeys.thy ===== *)
theory RouteKeys
  imports Problem Sha256
begin

text \<open>
  The pure functions of \<^verbatim>\<open>internal/deployments/service.go\<close> that derive names: the slug of a
  git ref, a preview's route key and public host, network names, the built image tag, and the
  validation of image references and preview credentials.
\<close>

section \<open>Definitions\<close>

definition slug_char :: "char \<Rightarrow> bool" where
  "slug_char c = (97 \<le> (of_char c :: nat) \<and> (of_char c :: nat) \<le> 122 \<or> is_digit c)"

text \<open>\<open>routeKeyNonAlnum.ReplaceAllString(s, "-")\<close>: every maximal run of other bytes becomes one
  hyphen.\<close>

function replace_runs :: "string \<Rightarrow> string" where
  "replace_runs [] = []"
| "replace_runs (c # cs) =
     (if slug_char c then c # replace_runs cs
      else CHR ''-'' # replace_runs (dropWhile (\<lambda>c. \<not> slug_char c) cs))"
  by pat_completeness auto
termination
  by (relation "measure length") (auto simp: less_Suc_eq_le length_dropWhile_le)

definition slugifyRef :: "string \<Rightarrow> string" where
  "slugifyRef ref =
     (let s = strings_Trim (replace_runs (strings_ToLower ref)) ''-''
      in if s = [] then ''branch'' else s)"

abbreviation maxRouteKeyLen :: nat where
  "maxRouteKeyLen \<equiv> 63"

definition preview_suffix :: "int \<Rightarrow> string \<Rightarrow> string" where
  "preview_suffix prNumber ref =
     (if prNumber > 0 then ''pr-'' @ strconv_Itoa prNumber else slugifyRef ref)"

definition previewRouteKey :: "string \<Rightarrow> int \<Rightarrow> string \<Rightarrow> string" where
  "previewRouteKey serviceID prNumber ref =
     (let suffix = preview_suffix prNumber ref;
          key = serviceID @ ''-'' @ suffix
      in if length key \<le> maxRouteKeyLen then key
         else
           let tail = take 8 (hex_EncodeToString (sha256_Sum256 suffix));
               budget = int maxRouteKeyLen - int (length serviceID) - 1 - 1 - int (length tail);
               budget = (if budget < 0 then 0 else budget);
               trunc = (if int (length suffix) > budget then take (nat budget) suffix else suffix);
               trunc = strings_Trim trunc ''-''
           in serviceID @ ''-'' @ trunc @ ''-'' @ tail)"

definition previewRouteHost :: "string \<Rightarrow> int \<Rightarrow> string \<Rightarrow> string \<Rightarrow> string" where
  "previewRouteHost slug prNumber ref serviceID =
     (let base = (if strings_TrimSpace slug = [] then ''preview'' else slugifyRef slug);
          suffix = preview_suffix prNumber ref;
          tail = take 6 (hex_EncodeToString (sha256_Sum256 serviceID));
          head = base @ ''-'' @ suffix;
          maxHead = maxRouteKeyLen - 1 - length tail;
          head = (if length head > maxHead then strings_Trim (take maxHead head) ''-'' else head)
      in head @ ''-'' @ tail)"

definition environmentNetworkName :: "string \<Rightarrow> string" where
  "environmentNetworkName environmentID = ''plorigo-'' @ environmentID"

definition previewNetworkName :: "string \<Rightarrow> string" where
  "previewNetworkName routeKey = ''plorigo-preview-'' @ routeKey"

definition builtImageTag :: "string \<Rightarrow> string" where
  "builtImageTag deploymentID = ''plorigo-build:'' @ deploymentID"

abbreviation maxImageRefLen :: nat where "maxImageRefLen \<equiv> 512"
abbreviation maxPort :: int where "maxPort \<equiv> 65535"

definition validateImageRef :: "string \<Rightarrow> err + string" where
  "validateImageRef raw =
     (let ref = strings_TrimSpace raw in
      if ref = [] then Inl (InvalidInput ''an image reference is required'')
      else if length ref > maxImageRefLen then Inl (InvalidInput ''image reference must be at most 512 characters'')
      else if strings_ContainsAny ref [CHR '' '', CHR 0x09, CHR 0x0A, CHR 0x0D]
        then Inl (InvalidInput ''image reference must not contain whitespace'')
      else if CHR ''@'' \<notin> set ref \<and> CHR '':'' \<notin> set (after_last (CHR ''/'') ref)
        then Inr (ref @ '':latest'')
      else Inr ref)"

text \<open>\<open>previewAuthUserRe\<close>, \<^verbatim>\<open>^[A-Za-z0-9._-]{1,32}$\<close>.\<close>

definition auth_user_char :: "char \<Rightarrow> bool" where
  "auth_user_char c =
     (65 \<le> (of_char c :: nat) \<and> (of_char c :: nat) \<le> 90 \<or> slug_char c \<or> c \<in> {CHR ''.'', CHR ''_'', CHR ''-''})"

definition previewAuthUserRe :: "string \<Rightarrow> bool" where
  "previewAuthUserRe s = (1 \<le> length s \<and> length s \<le> 32 \<and> list_all auth_user_char s)"

text \<open>\<open>bcrypt.GenerateFromPassword\<close> is an argument (it is a third-party package and random).\<close>

definition hashPreviewPassword :: "(string \<Rightarrow> err + string) \<Rightarrow> string \<Rightarrow> string \<Rightarrow> err + (string \<times> string)" where
  "hashPreviewPassword bcrypt password username =
     (if password = [] then Inr ([], [])
      else
        let user = (if strings_TrimSpace username = [] then ''preview'' else strings_TrimSpace username) in
        if \<not> previewAuthUserRe user
        then Inl (InvalidInput (''the preview username must be 1-32 characters of letters, digits, '' @
                   [CHR 0x27, CHR ''.'', CHR 0x27] @ '', '' @ [CHR 0x27, CHR ''_'', CHR 0x27] @ '' or '' @
                   [CHR 0x27, CHR ''-'', CHR 0x27]))
        else case bcrypt password of
               Inl e \<Rightarrow> Inl (Internalf ''hash preview password'' e)
             | Inr h \<Rightarrow> Inr (user, h))"

definition buildableAccess :: "string \<Rightarrow> bool" where
  "buildableAccess access = (access = ''public'' \<or> access = ''app'')"

definition isAgentReportableStatus :: "string \<Rightarrow> bool" where
  "isAgentReportableStatus status =
     (status \<in> {''cloning'', ''building'', ''pulling'', ''starting'', ''healthcheck'', ''routing'',
                ''running'', ''failed''})"

definition isAgentReportableTeardownStatus :: "string \<Rightarrow> bool" where
  "isAgentReportableTeardownStatus status =
     (status \<in> {''stopping'', ''removing'', ''succeeded'', ''failed''})"

definition hashToken :: "string \<Rightarrow> nat list" where
  "hashToken raw = sha256_Sum256 raw"

definition mapGitHubErr :: "err \<Rightarrow> err" where
  "mapGitHubErr e =
     (if errors_Is e GitHubErrNotFound then NotFound (''pull request not found, or your access can'' @ [CHR 0x27] @ ''t see it'')
      else if errors_Is e GitHubErrRateLimited then Internalf ''GitHub rate limit reached; please try again shortly'' e
      else Internalf ''could not reach GitHub'' e)"

section \<open>DNS labels\<close>

definition dns_char :: "char \<Rightarrow> bool" where
  "dns_char c = (slug_char c \<or> c = CHR ''-'')"

text \<open>A label of a host name: 1 to 63 letters, digits and hyphens, no hyphen at either end.\<close>

definition dns_label :: "string \<Rightarrow> bool" where
  "dns_label s \<longleftrightarrow> s \<noteq> [] \<and> length s \<le> 63 \<and> list_all dns_char s \<and> hd s \<noteq> CHR ''-'' \<and> last s \<noteq> CHR ''-''"

lemma slug_char_not_hyphen: "slug_char c \<Longrightarrow> c \<noteq> CHR ''-''"
  by (auto simp: slug_char_def is_digit_def)

lemma digit_dns: "is_digit c \<Longrightarrow> dns_char c"
  by (simp add: dns_char_def slug_char_def)

lemma hex_digit_slug: "n < 16 \<Longrightarrow> slug_char (hex_digit n)"
proof -
  have "\<forall>n \<in> set [0..<16]. slug_char (hex_digit n)" by code_simp
  then show "n < 16 \<Longrightarrow> slug_char (hex_digit n)" by simp
qed

lemma hex_Encode_slug: "list_all slug_char (hex_EncodeToString bs)"
  by (induction bs) (auto simp: hex_EncodeToString_def hex_digit_slug)

lemma replace_runs_dns: "list_all dns_char (replace_runs s)"
  by (induction s rule: replace_runs.induct) (auto simp: dns_char_def)

lemma slugifyRef_dns:
  "slugifyRef ref \<noteq> []" "list_all dns_char (slugifyRef ref)"
  "hd (slugifyRef ref) \<noteq> CHR ''-''" "last (slugifyRef ref) \<noteq> CHR ''-''"
proof -
  let ?t = "strings_Trim (replace_runs (strings_ToLower ref)) ''-''"
  have br: "list_all dns_char ''branch''"
    by (simp add: dns_char_def slug_char_def is_digit_def)
  have "list_all dns_char ?t"
    using set_Trim [of "replace_runs (strings_ToLower ref)" "''-''"] replace_runs_dns [of "strings_ToLower ref"]
    by (auto simp: list_all_iff)
  with br show "list_all dns_char (slugifyRef ref)" by (simp add: slugifyRef_def Let_def)
  show "slugifyRef ref \<noteq> []" by (simp add: slugifyRef_def Let_def)
  show "hd (slugifyRef ref) \<noteq> CHR ''-''"
    using Trim_hd [of "replace_runs (strings_ToLower ref)" "''-''"] by (simp add: slugifyRef_def Let_def)
  show "last (slugifyRef ref) \<noteq> CHR ''-''"
    using Trim_last [of "replace_runs (strings_ToLower ref)" "''-''"] by (simp add: slugifyRef_def Let_def)
qed

lemma Itoa_pos: "0 < n \<Longrightarrow> strconv_Itoa n = nat_digits (nat n)"
  by (simp add: strconv_Itoa_def)

lemma preview_suffix_dns:
  "preview_suffix n ref \<noteq> []" "list_all dns_char (preview_suffix n ref)"
  "hd (preview_suffix n ref) \<noteq> CHR ''-''" "last (preview_suffix n ref) \<noteq> CHR ''-''"
proof -
  have d: "list_all dns_char (nat_digits k)" for k
    using nat_digits_digits by (auto simp: list_all_iff digit_dns)
  have "is_digit (last (nat_digits k))" for k
    using nat_digits_digits [of k] by simp
  then have l: "last (nat_digits k) \<noteq> CHR ''-''" for k
    by (metis slug_char_def slug_char_not_hyphen)
  show "preview_suffix n ref \<noteq> []" by (simp add: preview_suffix_def slugifyRef_dns)
  show "list_all dns_char (preview_suffix n ref)"
    using d by (simp add: preview_suffix_def slugifyRef_dns Itoa_pos) (simp add: dns_char_def slug_char_def is_digit_def)
  show "hd (preview_suffix n ref) \<noteq> CHR ''-''" by (simp add: preview_suffix_def slugifyRef_dns)
  show "last (preview_suffix n ref) \<noteq> CHR ''-''"
    using l by (simp add: preview_suffix_def slugifyRef_dns Itoa_pos)
qed

lemma list_all_take: "list_all P xs \<Longrightarrow> list_all P (take n xs)"
  by (auto simp: list_all_iff dest: in_set_takeD)

lemma list_all_Trim: "list_all P s \<Longrightarrow> list_all P (strings_Trim s cs)"
  using set_Trim by (auto simp: list_all_iff)

lemma hex_tail:
  fixes s :: string
  assumes "0 < k" "k \<le> 64"
  defines "t \<equiv> take k (hex_EncodeToString (sha256_Sum256 s))"
  shows "length t = k" "list_all dns_char t" "last t \<noteq> CHR ''-''"
proof -
  show len: "length t = k" using assms by (simp add: length_hex_Encode)
  have sl: "list_all slug_char t"
    unfolding t_def by (rule list_all_take) (rule hex_Encode_slug)
  then show "list_all dns_char t" by (auto simp: list_all_iff dns_char_def)
  from len assms(1) have "last t \<in> set t" by (intro last_in_set) auto
  with sl show "last t \<noteq> CHR ''-''" by (auto simp: list_all_iff dest: slug_char_not_hyphen)
qed

lemma previewRouteKey_short:
  "length sid + 1 + length (preview_suffix n ref) \<le> 63 \<Longrightarrow>
     previewRouteKey sid n ref = sid @ ''-'' @ preview_suffix n ref"
  by (simp add: previewRouteKey_def Let_def)

lemma previewRouteKey_long:
  fixes sid ref :: string and n :: int
  assumes "63 < length sid + 1 + length (preview_suffix n ref)" and "length sid \<le> 53"
  defines "tail \<equiv> take 8 (hex_EncodeToString (sha256_Sum256 (preview_suffix n ref)))"
  shows "previewRouteKey sid n ref =
           sid @ ''-'' @ strings_Trim (take (53 - length sid) (preview_suffix n ref)) ''-'' @ ''-'' @ tail"
proof -
  have t: "length tail = 8" unfolding tail_def by (rule hex_tail) simp_all
  have n: "nat (53 - int (length sid)) = 53 - length sid" using assms(2) by linarith
  have "take (53 - length sid) (preview_suffix n ref) = preview_suffix n ref"
    if "length (preview_suffix n ref) \<le> 53 - length sid" using that by simp
  then show ?thesis
    using assms(1,2) t n unfolding previewRouteKey_def tail_def [symmetric] Let_def
    by auto
qed

lemma previewRouteKey_prefix: "\<exists>rest. previewRouteKey sid n ref = sid @ ''-'' @ rest"
  by (simp add: previewRouteKey_def Let_def)

section \<open>Properties of route keys and hosts\<close>

text \<open>C27: a preview's route key is a single DNS label, for every ref and every pull request number,
  provided the service id is itself made of label characters and is no longer than 53 bytes (a UUID
  has 36), so that \<open>{route_key}.{base_domain}\<close> is a host Caddy can serve.\<close>

theorem previewRouteKey_dns_label:
  assumes "sid \<noteq> []" "list_all dns_char sid" "hd sid \<noteq> CHR ''-''" "length sid \<le> 53"
  shows "dns_label (previewRouteKey sid n ref)"
proof (cases "length sid + 1 + length (preview_suffix n ref) \<le> 63")
  case True
  then show ?thesis
    using assms preview_suffix_dns [of n ref]
    by (simp add: previewRouteKey_short dns_label_def) (simp add: dns_char_def)
next
  case False
  let ?tr = "strings_Trim (take (53 - length sid) (preview_suffix n ref)) ''-''"
  let ?t = "take 8 (hex_EncodeToString (sha256_Sum256 (preview_suffix n ref)))"
  have "length ?tr \<le> length (take (53 - length sid) (preview_suffix n ref))" by (rule length_Trim)
  then have "length ?tr \<le> 53 - length sid" by simp
  moreover have "list_all dns_char ?tr"
    using preview_suffix_dns(2) by (intro list_all_Trim list_all_take)
  moreover have "length ?t = 8" "list_all dns_char ?t" "last ?t \<noteq> CHR ''-''"
    by (rule hex_tail; simp)+
  moreover have "dns_char (CHR ''-'')" by (simp add: dns_char_def)
  moreover from \<open>length ?t = 8\<close> have "?t \<noteq> []" by fastforce
  ultimately show ?thesis
    using False assms by (simp add: previewRouteKey_long dns_label_def)
qed

theorem previewRouteKey_dns_label_witness:
  "dns_label (previewRouteKey ''0f8fad5b-d9cb-469f-a165-70867728950e'' 0 ''feature/New_Login'')"
  by (rule previewRouteKey_dns_label) (simp_all add: dns_char_def slug_char_def is_digit_def)

text \<open>A preview's public host label is a single DNS label for every slug, ref, pull request and
  service id.\<close>

theorem previewRouteHost_dns_label: "dns_label (previewRouteHost slug n ref sid)"
proof -
  define base where "base = (if strings_TrimSpace slug = [] then ''preview'' else slugifyRef slug)"
  define suffix where "suffix = preview_suffix n ref"
  define tail where "tail = take 6 (hex_EncodeToString (sha256_Sum256 sid))"
  define h where "h = base @ ''-'' @ suffix"
  define h' where "h' = (if length h > 56 then strings_Trim (take 56 h) ''-'' else h)"
  have t: "length tail = 6" "list_all dns_char tail" "last tail \<noteq> CHR ''-''"
    unfolding tail_def by (rule hex_tail; simp)+
  have "base \<noteq> []" "list_all dns_char base" "hd base \<noteq> CHR ''-''"
    by (simp_all add: base_def slugifyRef_dns) (simp add: dns_char_def slug_char_def is_digit_def)
  moreover have "list_all dns_char suffix" by (simp add: suffix_def preview_suffix_dns)
  ultimately have h: "h \<noteq> []" "list_all dns_char h" "hd h \<noteq> CHR ''-''"
    by (simp_all add: h_def) (simp add: dns_char_def)
  have "take 56 h \<noteq> []" "hd (take 56 h) \<notin> set ''-''" using h by (simp_all add: hd_take)
  from Trim_hd_keeps [OF this]
  have "h' \<noteq> []" "hd h' \<noteq> CHR ''-''" using h by (auto simp: h'_def hd_take)
  moreover have "list_all dns_char h'"
    using h by (auto simp: h'_def intro: list_all_Trim list_all_take)
  moreover have "length h' \<le> 56"
    using length_Trim [of "take 56 h" "''-''"] by (simp add: h'_def min_def split: if_splits)
  moreover have "previewRouteHost slug n ref sid = h' @ ''-'' @ tail"
    using t(1) by (simp add: previewRouteHost_def Let_def h'_def h_def base_def suffix_def tail_def [symmetric])
  moreover from t(1) have "tail \<noteq> []" by auto
  ultimately show ?thesis using t by (simp add: dns_label_def) (simp add: dns_char_def)
qed

section \<open>Route keys of pull requests\<close>

definition digits_value :: "string \<Rightarrow> nat" where
  "digits_value s = foldl (\<lambda>a c. 10 * a + (of_char c - 48)) 0 s"

lemma digits_value_nat_digits: "digits_value (nat_digits n) = n"
proof (induction n rule: nat_digits.induct)
  case (1 n)
  then show ?case
    by (cases "n < 10") (simp_all add: nat_digits.simps [of n] digits_value_def of_char_of)
qed

lemma nat_digits_inject: "nat_digits n = nat_digits m \<longleftrightarrow> n = m"
  by (metis digits_value_nat_digits)

lemma pr_suffix_length:
  assumes "0 < n" "n < 2 ^ 31"
  shows "length (preview_suffix n ref) \<le> 13"
proof -
  have "nat n < 10 ^ 10" using assms by simp
  then have "length (nat_digits (nat n)) \<le> 10" by (rule nat_digits_length) simp
  with assms show ?thesis by (simp add: preview_suffix_def Itoa_pos)
qed

text \<open>The route key of a pull request's preview does not depend on the ref (so it stays the same as
  the pull request is pushed to), and two keys are equal only for the same service and the same pull
  request: previews of different pull requests or services never share a container group, a route
  or a supersede scope. The bounds are the 36 bytes of a UUID and the range of an \<open>int32\<close>.\<close>

theorem previewRouteKey_pr_injective:
  assumes "length sid = 36" "length sid' = 36" "0 < n" "n < 2 ^ 31" "0 < m" "m < 2 ^ 31"
  shows "previewRouteKey sid n ref = previewRouteKey sid' m ref' \<longleftrightarrow> sid = sid' \<and> n = m"
proof -
  have k: "previewRouteKey s i r = s @ ''-pr-'' @ nat_digits (nat i)"
    if "length s = 36" "0 < i" "i < 2 ^ 31" for s i r
    using that pr_suffix_length [of i r] previewRouteKey_short [of s i r]
    by (simp add: preview_suffix_def Itoa_pos)
  show ?thesis
    using assms k [of sid n ref] k [of sid' m ref'] by (auto simp: nat_digits_inject)
qed

lemma ToLower_digits: "\<forall>c \<in> set s. is_digit c \<Longrightarrow> strings_ToLower s = s"
  by (induction s) (auto simp: ascii_lower_def is_digit_def)

lemma replace_runs_slug: "\<forall>c \<in> set s. slug_char c \<Longrightarrow> replace_runs s = s"
  by (induction s) auto

lemma Trim_idle:
  assumes "s \<noteq> []" "hd s \<notin> set cs" "last s \<notin> set cs"
  shows "strings_Trim s cs = s"
proof -
  have "dropWhile (\<lambda>c. c \<in> set cs) s = s" "dropWhile (\<lambda>c. c \<in> set cs) (rev s) = rev s"
    using assms by (simp_all only: dropWhile_eq_self_iff) (simp_all add: hd_rev)
  then show ?thesis by (simp add: strings_Trim_def)
qed

lemma slugify_pr: "slugifyRef (''pr-'' @ nat_digits k) = ''pr-'' @ nat_digits k"
proof -
  let ?d = "nat_digits k"
  have d: "\<forall>c \<in> set ?d. is_digit c" by (rule nat_digits_digits)
  then have sl: "\<forall>c \<in> set ?d. slug_char c" by (simp add: slug_char_def)
  have low: "strings_ToLower (''pr-'' @ ?d) = ''pr-'' @ ?d"
    using ToLower_digits [OF d] by (simp add: ascii_lower_def)
  have "dropWhile (\<lambda>c. \<not> slug_char c) ?d = ?d"
    using sl by (cases ?d) auto
  then have rr: "replace_runs (''pr-'' @ ?d) = ''pr-'' @ ?d"
    using replace_runs_slug [OF sl] by (simp add: slug_char_def is_digit_def)
  have "last ?d \<noteq> CHR ''-''" using sl slug_char_not_hyphen by (meson last_in_set nat_digits_nonempty)
  then have "strings_Trim (''pr-'' @ ?d) ''-'' = ''pr-'' @ ?d" by (intro Trim_idle) auto
  then show ?thesis by (simp only: slugifyRef_def low rr Let_def) simp
qed

text \<open>The keys of branches and of pull requests are not separated. A branch that is literally
  called \<^verbatim>\<open>pr-<n>\<close> gets the very route key of pull request \<open>n\<close> of the same service.\<close>

theorem previewRouteKey_branch_collides_with_pr:
  assumes "0 < n"
  shows "previewRouteKey sid 0 (''pr-'' @ strconv_Itoa n) = previewRouteKey sid n ref"
proof -
  have "preview_suffix 0 (''pr-'' @ strconv_Itoa n) = preview_suffix n ref"
    using assms slugify_pr by (simp add: preview_suffix_def Itoa_pos)
  then show ?thesis by (simp add: previewRouteKey_def)
qed

lemma previewRouteKey_longer: "length sid < length (previewRouteKey sid n ref)"
  using previewRouteKey_prefix [of sid n ref] by auto

lemma previewRouteKey_not_service: "length sid' \<le> length sid \<Longrightarrow> previewRouteKey sid n ref \<noteq> sid'"
  using previewRouteKey_longer [of sid n ref] by auto

section \<open>Image references and preview credentials\<close>

lemma space_len_prefix:
  assumes "space_len (xs @ ys) = 0" and "xs \<noteq> []"
  shows "space_len xs = 0"
proof -
  have "take 2 xs \<in> set space2 \<Longrightarrow> length xs \<ge> 2" "take 3 xs \<in> set space3 \<Longrightarrow> length xs \<ge> 3"
    by (auto simp: space2_def space3_def dest!: arg_cong [of _ _ length] split: if_splits)
  then show ?thesis
    using assms by (auto simp: space_len_def split: if_splits)
qed

lemma TrimSpace_ends:
  "strings_TrimSpace s = [] \<or> space_len (strings_TrimSpace s) = 0"
  "space_len_rev (rev (strings_TrimSpace s)) = 0"
proof -
  let ?u = "drop_spaces space_len s"
  have u: "space_len ?u = 0" using space_len_pos by (rule drop_spaces_stop)
  obtain xs where "rev ?u = xs @ drop_spaces space_len_rev (rev ?u)"
    using drop_spaces_suffix by blast
  then have "?u = strings_TrimSpace s @ rev xs"
    unfolding strings_TrimSpace_def by (metis rev_append rev_rev_ident)
  with u show "strings_TrimSpace s = [] \<or> space_len (strings_TrimSpace s) = 0"
    using space_len_prefix by metis
  show "space_len_rev (rev (strings_TrimSpace s)) = 0"
    unfolding strings_TrimSpace_def rev_rev_ident using space_len_rev_pos by (rule drop_spaces_stop)
qed

lemma TrimSpace_idle:
  "space_len s = 0 \<Longrightarrow> space_len_rev (rev s) = 0 \<Longrightarrow> strings_TrimSpace s = s"
  by (simp add: strings_TrimSpace_def drop_spaces_idle)

lemma TrimSpace_idem: "strings_TrimSpace (strings_TrimSpace s) = strings_TrimSpace s"
  using TrimSpace_ends [of s] TrimSpace_idle by fastforce

lemma TrimSpace_latest:
  assumes "space_len t = 0" "t \<noteq> []"
  shows "strings_TrimSpace (t @ '':latest'') = t @ '':latest''"
proof (rule TrimSpace_idle)
  obtain a t' where t: "t = a # t'" using assms(2) by (cases t) auto
  then show "space_len (t @ '':latest'') = 0"
    using assms(1) by (cases t'; cases "tl t'") (auto simp: space_len_def space2_def space3_def split: if_splits)
  show "space_len_rev (rev (t @ '':latest'')) = 0"
    by (simp add: space_len_rev_def ascii_space_def space2_def space3_def)
qed

lemma after_last_latest: "CHR '':'' \<in> set (after_last (CHR ''/'') (r @ '':latest''))"
  by (simp add: after_last_append)

text \<open>An accepted image reference is non-empty, has no blank, tab or newline, and names a tag or a
  digest; validating it again returns it unchanged as long as it still fits the length limit, and
  is refused otherwise, which happens for untagged references of 506 to 512 bytes: adding
  \<^verbatim>\<open>:latest\<close> makes them longer than the limit they are later checked against.\<close>

theorem validateImageRef_correct:
  assumes "validateImageRef raw = Inr r"
  shows "r \<noteq> [] \<and> length r \<le> maxImageRefLen + 7 \<and>
         \<not> strings_ContainsAny r [CHR '' '', CHR 0x09, CHR 0x0A, CHR 0x0D] \<and>
         (CHR ''@'' \<in> set r \<or> CHR '':'' \<in> set (after_last (CHR ''/'') r)) \<and>
         (if length r \<le> maxImageRefLen then validateImageRef r = Inr r
          else validateImageRef r = Inl (InvalidInput ''image reference must be at most 512 characters''))"
proof -
  define t where "t = strings_TrimSpace raw"
  have t: "t \<noteq> []" "length t \<le> 512"
    "\<not> strings_ContainsAny t [CHR '' '', CHR 0x09, CHR 0x0A, CHR 0x0D]"
    and r: "r = (if CHR ''@'' \<notin> set t \<and> CHR '':'' \<notin> set (after_last (CHR ''/'') t)
                 then t @ '':latest'' else t)"
    using assms by (auto simp: validateImageRef_def t_def Let_def split: if_splits)
  have "space_len t = 0" using TrimSpace_ends(1) [of raw] t(1) by (simp add: t_def)
  then have trim: "strings_TrimSpace r = r"
    using t(1) TrimSpace_idem [of raw] by (simp add: r TrimSpace_latest t_def)
  have tag: "CHR ''@'' \<in> set r \<or> CHR '':'' \<in> set (after_last (CHR ''/'') r)"
    using after_last_latest by (auto simp: r)
  have ws: "\<not> strings_ContainsAny r [CHR '' '', CHR 0x09, CHR 0x0A, CHR 0x0D]"
    using t(3) by (auto simp: r strings_ContainsAny_def)
  have "r \<noteq> []" "length r \<le> maxImageRefLen + 7" using t by (auto simp: r)
  moreover have "if length r \<le> maxImageRefLen then validateImageRef r = Inr r
     else validateImageRef r = Inl (InvalidInput ''image reference must be at most 512 characters'')"
    using trim tag ws \<open>r \<noteq> []\<close> by (auto simp: validateImageRef_def)
  ultimately show ?thesis using tag ws by blast
qed

lemma TrimSpace_nginx: "strings_TrimSpace ''nginx'' = ''nginx''"
  by (rule TrimSpace_idle)
     (simp_all add: space_len_def space_len_rev_def ascii_space_def space2_def space3_def)

text \<open>A protected preview's user name, as it is stored and later rendered into the Caddyfile, is 1 to
  32 letters, digits, dots, underscores and hyphens; without a password neither a user nor a hash is
  stored, and the stored hash is never the password unless the hash function returns it.\<close>

theorem hashPreviewPassword_safe:
  assumes "hashPreviewPassword bc password username = Inr (user, hash)"
  shows "if password = [] then user = [] \<and> hash = [] else previewAuthUserRe user \<and> bc password = Inr hash"
  using assms by (auto simp: hashPreviewPassword_def Let_def split: if_splits sum.splits)

lemma TrimSpace_ann: "strings_TrimSpace ''ann'' = ''ann''"
  by (rule TrimSpace_idle)
     (simp_all add: space_len_def space_len_rev_def ascii_space_def space2_def space3_def)

end
