(* ===== verification/DeploymentStore.thy ===== *)
theory DeploymentStore
  imports DeploymentQueries RouteKeys
begin

text \<open>
  The domain types of \<^verbatim>\<open>internal/deployments\<close> (\<^verbatim>\<open>deployments.go\<close>,
  \<^verbatim>\<open>store.go\<close>, \<^verbatim>\<open>teardown.go\<close>) and the repository
  \<^verbatim>\<open>postgres.go\<close> that implements the module's \<open>Store\<close> port over the queries. Also here: the
  contract of an agent's job queue (locale \<open>job_queue\<close>), interpreted by the claims of
  deployments and of teardown jobs.
\<close>

section \<open>Domain types\<close>

text \<open>Deployment statuses, source kinds, deployment kinds, event kinds and log streams.\<close>

abbreviation StatusQueued :: string where "StatusQueued \<equiv> ''queued''"
abbreviation StatusAssigned :: string where "StatusAssigned \<equiv> ''assigned''"
abbreviation StatusCloning :: string where "StatusCloning \<equiv> ''cloning''"
abbreviation StatusBuilding :: string where "StatusBuilding \<equiv> ''building''"
abbreviation StatusPulling :: string where "StatusPulling \<equiv> ''pulling''"
abbreviation StatusStarting :: string where "StatusStarting \<equiv> ''starting''"
abbreviation StatusHealthcheck :: string where "StatusHealthcheck \<equiv> ''healthcheck''"
abbreviation StatusRouting :: string where "StatusRouting \<equiv> ''routing''"
abbreviation StatusRunning :: string where "StatusRunning \<equiv> ''running''"
abbreviation StatusFailed :: string where "StatusFailed \<equiv> ''failed''"
abbreviation StatusSuperseded :: string where "StatusSuperseded \<equiv> ''superseded''"
abbreviation StatusTornDown :: string where "StatusTornDown \<equiv> ''torndown''"
abbreviation SourceImage :: string where "SourceImage \<equiv> ''image''"
abbreviation SourceGit :: string where "SourceGit \<equiv> ''git''"
abbreviation KindProduction :: string where "KindProduction \<equiv> ''production''"
abbreviation KindPreview :: string where "KindPreview \<equiv> ''preview''"
abbreviation KindStatus :: string where "KindStatus \<equiv> ''status''"
abbreviation KindLog :: string where "KindLog \<equiv> ''log''"
abbreviation StreamBuild :: string where "StreamBuild \<equiv> ''build''"
abbreviation StreamRuntime :: string where "StreamRuntime \<equiv> ''runtime''"
abbreviation TeardownStatusQueued :: string where "TeardownStatusQueued \<equiv> ''queued''"
abbreviation TeardownStatusAssigned :: string where "TeardownStatusAssigned \<equiv> ''assigned''"
abbreviation TeardownStatusSucceeded :: string where "TeardownStatusSucceeded \<equiv> ''succeeded''"
abbreviation TeardownStatusFailed :: string where "TeardownStatusFailed \<equiv> ''failed''"

record Deployment =
  dep_ID :: string
  dep_ServiceID :: string
  dep_EnvironmentID :: string
  dep_ProjectID :: string
  dep_WorkspaceID :: string
  dep_ServerID :: string
  dep_ImageRef :: string
  dep_ContainerPort :: int
  dep_HostPort :: int
  dep_ContainerID :: string
  dep_Status :: string
  dep_Message :: string
  dep_CreatedAt :: int
  dep_UpdatedAt :: int
  dep_SourceKind :: string
  dep_SourceAccess :: string
  dep_CloneURL :: string
  dep_GitRef :: string
  dep_CommitSha :: string
  dep_BuiltImageRef :: string
  dep_RouteURL :: string
  dep_RolledBackFrom :: string
  dep_Kind :: string
  dep_RouteKey :: string
  dep_PRNumber :: int
  dep_PRURL :: string
  dep_AuthUser :: string
  dep_AuthHash :: string

record Event =
  evt_ID :: string
  evt_DeploymentID :: string
  evt_Seq :: int
  evt_Kind :: string
  evt_Status :: string
  evt_Message :: string
  evt_Stream :: string
  evt_CreatedAt :: int

record ServiceForDeploy =
  sfd_EnvironmentID :: string
  sfd_ProjectID :: string
  sfd_WorkspaceID :: string
  sfd_SourceKind :: string
  sfd_ImageRef :: string
  sfd_SourceAccess :: string
  sfd_ConnectionID :: string
  sfd_Owner :: string
  sfd_Repo :: string
  sfd_Branch :: string
  sfd_DefaultBranch :: string
  sfd_ContainerPort :: int
  sfd_Visibility :: string
  sfd_Slug :: string

record TeardownJob =
  td_ID :: string
  td_DeploymentID :: string
  td_ServiceID :: string
  td_RouteKey :: string
  td_EnvironmentID :: string
  td_ProjectID :: string
  td_WorkspaceID :: string
  td_ServerID :: string
  td_Status :: string
  td_Message :: string
  td_Error :: string
  td_CreatedAt :: int
  td_UpdatedAt :: int

record NewTeardownJob =
  nt_DeploymentID :: string
  nt_ServiceID :: string
  nt_RouteKey :: string
  nt_EnvironmentID :: string
  nt_ProjectID :: string
  nt_WorkspaceID :: string
  nt_ServerID :: string

record TeardownStatusUpdate =
  ts_TeardownID :: string
  ts_Status :: string
  ts_Message :: string
  ts_Error :: string

record NewDeployment =
  nd_ServiceID :: string
  nd_EnvironmentID :: string
  nd_ProjectID :: string
  nd_WorkspaceID :: string
  nd_ServerID :: string
  nd_ImageRef :: string
  nd_ContainerPort :: int
  nd_RolledBackFrom :: string

record NewDeploymentFromGit =
  ng_ServiceID :: string
  ng_EnvironmentID :: string
  ng_ProjectID :: string
  ng_WorkspaceID :: string
  ng_ServerID :: string
  ng_ContainerPort :: int
  ng_SourceAccess :: string
  ng_CloneURL :: string
  ng_GitRef :: string
  ng_RolledBackFrom :: string

record NewPreviewDeployment =
  np_ServiceID :: string
  np_RouteKey :: string
  np_EnvironmentID :: string
  np_ProjectID :: string
  np_WorkspaceID :: string
  np_ServerID :: string
  np_ContainerPort :: int
  np_SourceAccess :: string
  np_CloneURL :: string
  np_GitRef :: string
  np_PRNumber :: int
  np_PRURL :: string
  np_AuthUser :: string
  np_AuthHash :: string

record StatusUpdate =
  su_DeploymentID :: string
  su_Status :: string
  su_Message :: string
  su_HostPort :: int
  su_ContainerID :: string
  su_CommitSha :: string
  su_BuiltImageRef :: string
  su_RouteURL :: string

record NewEvent =
  ne_DeploymentID :: string
  ne_Kind :: string
  ne_Status :: string
  ne_Message :: string
  ne_Stream :: string

record ConfigForDeploy =
  cfd_Type :: string
  cfd_Scope :: string
  cfd_Key :: string
  cfd_Value :: "string option"
  cfd_Ciphertext :: string

section \<open>Rows to domain values\<close>

text \<open>\<open>nullableID\<close> and \<open>derefStr\<close>: an absent id is NULL in the table and empty in the domain.\<close>

definition nullableID :: "string \<Rightarrow> string option" where
  "nullableID s = (if s = [] then None else Some s)"

definition derefStr :: "string option \<Rightarrow> string" where
  "derefStr s = (case s of None \<Rightarrow> [] | Some x \<Rightarrow> x)"

definition deploymentFromRow :: "Deployment_row \<Rightarrow> Deployment" where
  "deploymentFromRow r =
     \<lparr>dep_ID = rd_ID r, dep_ServiceID = rd_ServiceID r, dep_EnvironmentID = rd_EnvironmentID r,
      dep_ProjectID = rd_ProjectID r, dep_WorkspaceID = rd_WorkspaceID r,
      dep_ServerID = rd_ServerID r, dep_ImageRef = rd_ImageRef r,
      dep_ContainerPort = rd_ContainerPort r, dep_HostPort = rd_HostPort r,
      dep_ContainerID = rd_ContainerID r, dep_Status = rd_Status r, dep_Message = rd_Message r,
      dep_CreatedAt = rd_CreatedAt r, dep_UpdatedAt = rd_UpdatedAt r,
      dep_SourceKind = rd_SourceKind r, dep_SourceAccess = rd_SourceAccess r,
      dep_CloneURL = rd_CloneUrl r, dep_GitRef = rd_GitRef r, dep_CommitSha = rd_CommitSha r,
      dep_BuiltImageRef = rd_BuiltImageRef r, dep_RouteURL = rd_RouteUrl r,
      dep_RolledBackFrom = derefStr (rd_RolledBackFrom r), dep_Kind = rd_Kind r,
      dep_RouteKey = rd_RouteKey r, dep_PRNumber = rd_PrNumber r, dep_PRURL = rd_PrUrl r,
      dep_AuthUser = rd_PreviewAuthUser r, dep_AuthHash = rd_PreviewAuthHash r\<rparr>"

definition deploymentsFromRows :: "Deployment_row list \<Rightarrow> Deployment list" where
  "deploymentsFromRows rows = map deploymentFromRow rows"

definition eventFromRow :: "DeploymentEvent_row \<Rightarrow> Event" where
  "eventFromRow r =
     \<lparr>evt_ID = re_ID r, evt_DeploymentID = re_DeploymentID r, evt_Seq = re_Seq r,
      evt_Kind = re_Kind r, evt_Status = re_Status r, evt_Message = re_Message r,
      evt_Stream = re_Stream r, evt_CreatedAt = re_CreatedAt r\<rparr>"

definition teardownFromRow :: "TeardownJob_row \<Rightarrow> TeardownJob" where
  "teardownFromRow r =
     \<lparr>td_ID = rt_ID r, td_DeploymentID = rt_DeploymentID r, td_ServiceID = rt_ServiceID r,
      td_RouteKey = rt_RouteKey r, td_EnvironmentID = rt_EnvironmentID r,
      td_ProjectID = rt_ProjectID r, td_WorkspaceID = rt_WorkspaceID r, td_ServerID = rt_ServerID r,
      td_Status = rt_Status r, td_Message = rt_Message r, td_Error = rt_Error r,
      td_CreatedAt = rt_CreatedAt r, td_UpdatedAt = rt_UpdatedAt r\<rparr>"

definition serviceForDeployFromRow :: "Service_row \<Rightarrow> ServiceForDeploy" where
  "serviceForDeployFromRow r =
     \<lparr>sfd_EnvironmentID = rs_EnvironmentID r, sfd_ProjectID = rs_ProjectID r,
      sfd_WorkspaceID = rs_WorkspaceID r, sfd_SourceKind = rs_SourceKind r,
      sfd_ImageRef = rs_ImageRef r, sfd_SourceAccess = rs_SourceAccess r,
      sfd_ConnectionID = derefStr (rs_ConnectionID r), sfd_Owner = rs_Owner r, sfd_Repo = rs_Repo r,
      sfd_Branch = rs_Branch r, sfd_DefaultBranch = rs_DefaultBranch r,
      sfd_ContainerPort = rs_ContainerPort r, sfd_Visibility = rs_Visibility r, sfd_Slug = rs_Slug r\<rparr>"

definition configFromRow :: "ConfigEntry_row \<Rightarrow> ConfigForDeploy" where
  "configFromRow r =
     \<lparr>cfd_Type = ce_Type r, cfd_Scope = ce_Scope r, cfd_Key = ce_Key r, cfd_Value = ce_Value r,
      cfd_Ciphertext = ce_Ciphertext r\<rparr>"

section \<open>The repository\<close>

definition map_m :: "('a \<Rightarrow> 'b) \<Rightarrow> 'a m \<Rightarrow> 'b m" where
  "map_m f c = bind c (\<lambda>x. ret (f x))"

definition WorkspaceAndProjectForEnvironment :: "string \<Rightarrow> (string \<times> string) option m" where
  "WorkspaceAndProjectForEnvironment environmentID = absent_ok (db_GetEnvironmentWorkspaceAndProject environmentID)"

definition WorkspaceAndProjectForService :: "string \<Rightarrow> (string \<times> string) option m" where
  "WorkspaceAndProjectForService serviceID = absent_ok (db_GetServiceWorkspaceAndProject serviceID)"

definition WorkspaceForServer :: "string \<Rightarrow> string option m" where
  "WorkspaceForServer serverID = absent_ok (db_GetServerWorkspace serverID)"

definition WorkspaceForProject :: "string \<Rightarrow> string option m" where
  "WorkspaceForProject projectID = absent_ok (db_GetProjectWorkspaceID projectID)"

definition AgentServerByCredential :: "nat list \<Rightarrow> (string \<times> string) option m" where
  "AgentServerByCredential credentialHash = absent_ok (db_GetAgentServerByCredential credentialHash)"

definition ConfigForService :: "string \<Rightarrow> ConfigForDeploy list m" where
  "ConfigForService serviceID = map_m (map configFromRow) (db_ListConfigForService serviceID)"

text \<open>\<open>ServiceForDeploy\<close> reads through the pool and \<open>ServiceForDeployTx\<close> through the
  transaction; inside one handler both see the same rows of \<open>services\<close>.\<close>

definition store_ServiceForDeploy :: "string \<Rightarrow> ServiceForDeploy option m" where
  "store_ServiceForDeploy serviceID =
     absent_ok (map_m serviceForDeployFromRow (db_GetServiceForDeploy serviceID))"

definition InsertDeployment :: "NewDeployment \<Rightarrow> Deployment m" where
  "InsertDeployment d =
     map_m deploymentFromRow
       (db_CreateDeployment (nd_ServiceID d) (nd_ServiceID d) (nd_EnvironmentID d) (nd_ProjectID d)
          (nd_WorkspaceID d) (nd_ServerID d) (nd_ImageRef d) (nd_ContainerPort d) (nullableID (nd_RolledBackFrom d)))"

definition InsertDeploymentFromGit :: "NewDeploymentFromGit \<Rightarrow> Deployment m" where
  "InsertDeploymentFromGit d =
     map_m deploymentFromRow
       (db_CreateDeploymentFromGit (ng_ServiceID d) (ng_ServiceID d) (ng_EnvironmentID d) (ng_ProjectID d)
          (ng_WorkspaceID d) (ng_ServerID d) (ng_ContainerPort d) (ng_SourceAccess d) (ng_CloneURL d)
          (ng_GitRef d) (nullableID (ng_RolledBackFrom d)))"

definition InsertPreviewDeployment :: "NewPreviewDeployment \<Rightarrow> Deployment m" where
  "InsertPreviewDeployment d =
     map_m deploymentFromRow
       (db_CreatePreviewDeployment (np_ServiceID d) (np_RouteKey d) (np_EnvironmentID d) (np_ProjectID d)
          (np_WorkspaceID d) (np_ServerID d) (np_ContainerPort d) (np_SourceAccess d) (np_CloneURL d)
          (np_GitRef d) (np_PRNumber d) (np_PRURL d) (np_AuthUser d) (np_AuthHash d))"

definition GetDeployment :: "string \<Rightarrow> Deployment option m" where
  "GetDeployment deploymentID = absent_ok (map_m deploymentFromRow (db_GetDeployment deploymentID))"

definition store_ListByService :: "string \<Rightarrow> Deployment list m" where
  "store_ListByService i = map_m deploymentsFromRows (db_ListDeploymentsByService i)"

definition store_ListByEnvironment :: "string \<Rightarrow> Deployment list m" where
  "store_ListByEnvironment i = map_m deploymentsFromRows (db_ListDeploymentsByEnvironment i)"

definition store_ListByProject :: "string \<Rightarrow> Deployment list m" where
  "store_ListByProject i = map_m deploymentsFromRows (db_ListDeploymentsByProject i)"

definition store_ListByWorkspace :: "string \<Rightarrow> Deployment list m" where
  "store_ListByWorkspace i = map_m deploymentsFromRows (db_ListDeploymentsByWorkspace i)"

definition store_ListEvents :: "string \<Rightarrow> int \<Rightarrow> Event list m" where
  "store_ListEvents deploymentID afterSeq = map_m (map eventFromRow) (db_ListDeploymentEvents deploymentID afterSeq)"

definition ClaimNextForServer :: "string \<Rightarrow> Deployment option m" where
  "ClaimNextForServer serverID =
     absent_ok (map_m deploymentFromRow (db_ClaimNextDeploymentForServer serverID))"

definition UpdateStatus :: "StatusUpdate \<Rightarrow> unit m" where
  "UpdateStatus u =
     bind (db_UpdateDeploymentStatus (su_Status u) (su_Message u) (su_HostPort u) (su_ContainerID u)
             (su_CommitSha u) (su_BuiltImageRef u) (su_RouteURL u) (su_DeploymentID u))
          (\<lambda>_. ret ())"

definition SupersedePreviousRunning :: "string \<Rightarrow> string \<Rightarrow> string \<Rightarrow> unit m" where
  "SupersedePreviousRunning routeKey serverID deploymentID = db_SupersedePreviousRunning routeKey serverID deploymentID"

definition UpdateServiceRouteURL :: "string \<Rightarrow> string \<Rightarrow> unit m" where
  "UpdateServiceRouteURL serviceID routeURL = db_UpdateServiceRouteURL serviceID routeURL"

definition AppendEvent :: "NewEvent \<Rightarrow> unit m" where
  "AppendEvent e =
     bind (db_AppendDeploymentEvent (ne_DeploymentID e) (ne_Kind e) (ne_Status e) (ne_Message e) (ne_Stream e))
          (\<lambda>_. ret ())"

text \<open>The Go map from service to hostnames is a function; a missing key is the empty list.\<close>

definition VerifiedDomainsForServices :: "string list \<Rightarrow> (string \<Rightarrow> string list) m" where
  "VerifiedDomainsForServices serviceIDs =
     (if serviceIDs = [] then ret (\<lambda>_. [])
      else map_m (\<lambda>rows s. map snd (filter (\<lambda>r. fst r = s) rows)) (db_VerifiedDomainsForServices serviceIDs))"

definition MarkDomainsRouteSync :: "string \<Rightarrow> string list \<Rightarrow> string \<Rightarrow> string \<Rightarrow> unit m" where
  "MarkDomainsRouteSync serviceID hostnames status message =
     (if hostnames = [] then ret () else db_MarkDomainsRouteSync serviceID hostnames status message)"

definition InsertTeardownJob :: "NewTeardownJob \<Rightarrow> TeardownJob m" where
  "InsertTeardownJob t =
     map_m teardownFromRow
       (db_CreateTeardownJob (nt_DeploymentID t) (nt_ServiceID t) (nt_RouteKey t) (nt_EnvironmentID t)
          (nt_ProjectID t) (nt_WorkspaceID t) (nt_ServerID t))"

definition GetTeardownJob :: "string \<Rightarrow> TeardownJob option m" where
  "GetTeardownJob i = absent_ok (map_m teardownFromRow (db_GetTeardownJob i))"

definition store_ListTeardownsByService :: "string \<Rightarrow> TeardownJob list m" where
  "store_ListTeardownsByService i = map_m (map teardownFromRow) (db_ListTeardownJobsByService i)"

definition ClaimNextTeardownForServer :: "string \<Rightarrow> TeardownJob option m" where
  "ClaimNextTeardownForServer serverID =
     absent_ok (map_m teardownFromRow (db_ClaimNextTeardownForServer serverID))"

definition UpdateTeardownStatus :: "TeardownStatusUpdate \<Rightarrow> TeardownJob m" where
  "UpdateTeardownStatus u =
     map_m teardownFromRow (db_UpdateTeardownStatus (ts_Status u) (ts_Message u) (ts_Error u) (ts_TeardownID u))"

definition MarkPreviewTornDown :: "string \<Rightarrow> string \<Rightarrow> unit m" where
  "MarkPreviewTornDown routeKey serverID = db_MarkPreviewTornDown routeKey serverID"

definition LatestServerForService :: "string \<Rightarrow> string option m" where
  "LatestServerForService serviceID = absent_ok (db_GetLatestServerForService serviceID)"

definition LatestActivePreviewByRouteKey :: "string \<Rightarrow> string \<Rightarrow> Deployment option m" where
  "LatestActivePreviewByRouteKey serviceID routeKey =
     absent_ok (map_m deploymentFromRow (db_GetLatestActivePreviewByRouteKey serviceID routeKey))"

definition ListExpiredPreviews :: "int \<Rightarrow> Deployment list m" where
  "ListExpiredPreviews cutoff = map_m deploymentsFromRows (db_ListExpiredPreviews cutoff)"

lemmas store_read_defs = WorkspaceAndProjectForEnvironment_def WorkspaceAndProjectForService_def
  WorkspaceForServer_def WorkspaceForProject_def AgentServerByCredential_def ConfigForService_def
  store_ServiceForDeploy_def GetDeployment_def store_ListByService_def store_ListByEnvironment_def
  store_ListByProject_def store_ListByWorkspace_def store_ListEvents_def VerifiedDomainsForServices_def
  GetTeardownJob_def store_ListTeardownsByService_def LatestServerForService_def
  LatestActivePreviewByRouteKey_def ListExpiredPreviews_def

lemmas db_read_defs = db_GetEnvironmentWorkspaceAndProject_def db_GetServiceWorkspaceAndProject_def
  db_GetServerWorkspace_def db_GetProjectWorkspaceID_def db_GetAgentServerByCredential_def
  db_ListConfigForService_def db_GetServiceForDeploy_def db_GetDeployment_def
  db_ListDeploymentsByService_def db_ListDeploymentsByEnvironment_def db_ListDeploymentsByProject_def
  db_ListDeploymentsByWorkspace_def db_ListDeploymentEvents_def db_VerifiedDomainsForServices_def
  db_GetTeardownJob_def db_ListTeardownJobsByService_def db_GetLatestServerForService_def
  db_GetLatestActivePreviewByRouteKey_def db_ListExpiredPreviews_def

lemma deploymentFromRow_simps [simp]:
  "dep_ID (deploymentFromRow r) = rd_ID r"
  "dep_ServiceID (deploymentFromRow r) = rd_ServiceID r"
  "dep_EnvironmentID (deploymentFromRow r) = rd_EnvironmentID r"
  "dep_ProjectID (deploymentFromRow r) = rd_ProjectID r"
  "dep_WorkspaceID (deploymentFromRow r) = rd_WorkspaceID r"
  "dep_ServerID (deploymentFromRow r) = rd_ServerID r"
  "dep_ImageRef (deploymentFromRow r) = rd_ImageRef r"
  "dep_ContainerPort (deploymentFromRow r) = rd_ContainerPort r"
  "dep_HostPort (deploymentFromRow r) = rd_HostPort r"
  "dep_ContainerID (deploymentFromRow r) = rd_ContainerID r"
  "dep_Status (deploymentFromRow r) = rd_Status r"
  "dep_Message (deploymentFromRow r) = rd_Message r"
  "dep_CreatedAt (deploymentFromRow r) = rd_CreatedAt r"
  "dep_UpdatedAt (deploymentFromRow r) = rd_UpdatedAt r"
  "dep_SourceKind (deploymentFromRow r) = rd_SourceKind r"
  "dep_SourceAccess (deploymentFromRow r) = rd_SourceAccess r"
  "dep_CloneURL (deploymentFromRow r) = rd_CloneUrl r"
  "dep_GitRef (deploymentFromRow r) = rd_GitRef r"
  "dep_CommitSha (deploymentFromRow r) = rd_CommitSha r"
  "dep_BuiltImageRef (deploymentFromRow r) = rd_BuiltImageRef r"
  "dep_RouteURL (deploymentFromRow r) = rd_RouteUrl r"
  "dep_RolledBackFrom (deploymentFromRow r) = derefStr (rd_RolledBackFrom r)"
  "dep_Kind (deploymentFromRow r) = rd_Kind r"
  "dep_RouteKey (deploymentFromRow r) = rd_RouteKey r"
  "dep_PRNumber (deploymentFromRow r) = rd_PrNumber r"
  "dep_PRURL (deploymentFromRow r) = rd_PrUrl r"
  "dep_AuthUser (deploymentFromRow r) = rd_PreviewAuthUser r"
  "dep_AuthHash (deploymentFromRow r) = rd_PreviewAuthHash r"
  by (simp_all add: deploymentFromRow_def)

lemma serviceForDeployFromRow_simps [simp]:
  "sfd_EnvironmentID (serviceForDeployFromRow r) = rs_EnvironmentID r"
  "sfd_ProjectID (serviceForDeployFromRow r) = rs_ProjectID r"
  "sfd_WorkspaceID (serviceForDeployFromRow r) = rs_WorkspaceID r"
  "sfd_SourceKind (serviceForDeployFromRow r) = rs_SourceKind r"
  "sfd_ImageRef (serviceForDeployFromRow r) = rs_ImageRef r"
  "sfd_SourceAccess (serviceForDeployFromRow r) = rs_SourceAccess r"
  "sfd_ConnectionID (serviceForDeployFromRow r) = derefStr (rs_ConnectionID r)"
  "sfd_Owner (serviceForDeployFromRow r) = rs_Owner r"
  "sfd_Repo (serviceForDeployFromRow r) = rs_Repo r"
  "sfd_Branch (serviceForDeployFromRow r) = rs_Branch r"
  "sfd_DefaultBranch (serviceForDeployFromRow r) = rs_DefaultBranch r"
  "sfd_ContainerPort (serviceForDeployFromRow r) = rs_ContainerPort r"
  "sfd_Visibility (serviceForDeployFromRow r) = rs_Visibility r"
  "sfd_Slug (serviceForDeployFromRow r) = rs_Slug r"
  by (simp_all add: serviceForDeployFromRow_def)

lemma teardownFromRow_simps [simp]:
  "td_ID (teardownFromRow r) = rt_ID r"
  "td_DeploymentID (teardownFromRow r) = rt_DeploymentID r"
  "td_ServiceID (teardownFromRow r) = rt_ServiceID r"
  "td_RouteKey (teardownFromRow r) = rt_RouteKey r"
  "td_EnvironmentID (teardownFromRow r) = rt_EnvironmentID r"
  "td_ProjectID (teardownFromRow r) = rt_ProjectID r"
  "td_WorkspaceID (teardownFromRow r) = rt_WorkspaceID r"
  "td_ServerID (teardownFromRow r) = rt_ServerID r"
  "td_Status (teardownFromRow r) = rt_Status r"
  "td_Message (teardownFromRow r) = rt_Message r"
  "td_Error (teardownFromRow r) = rt_Error r"
  "td_CreatedAt (teardownFromRow r) = rt_CreatedAt r"
  "td_UpdatedAt (teardownFromRow r) = rt_UpdatedAt r"
  by (simp_all add: teardownFromRow_def)

lemma nullableID_derefStr [simp]: "derefStr (nullableID s) = s"
  by (simp add: nullableID_def derefStr_def)

section \<open>Every read is one query\<close>

lemma absent_ok_select [simp]: "absent_ok (select_one f) = select_many f"
  by (rule ext) (simp add: absent_ok_select_one select_many_def query_def Let_def)

lemma map_m_select_many [simp]: "map_m f (select_many g) = select_many (\<lambda>d. f (g d))"
  by (rule ext) (simp add: map_m_def bind_def select_many_def query_def Let_def)

lemma map_m_select_one [simp]: "map_m f (select_one g) = select_one (\<lambda>d. map_option f (g d))"
  by (rule ext) (simp add: map_m_def bind_def select_one_def query_def Let_def split: option.split)

lemma store_reads:
  "WorkspaceAndProjectForService sid =
     select_many (\<lambda>d. map_option (\<lambda>r. (rs_WorkspaceID r, rs_ProjectID r)) (find (\<lambda>r. rs_ID r = sid) (services d)))"
  "WorkspaceForServer srv = select_many (\<lambda>d. map_option sv_WorkspaceID (find (\<lambda>r. sv_ID r = srv) (servers d)))"
  "WorkspaceForProject pid = select_many (\<lambda>d. map_option pj_WorkspaceID (find (\<lambda>r. pj_ID r = pid) (projects d)))"
  "AgentServerByCredential h =
     select_many (\<lambda>d. map_option (\<lambda>a. (ag_ID a, ag_ServerID a)) (find (\<lambda>a. ag_CredentialHash a = h) (agents d)))"
  "store_ServiceForDeploy sid =
     select_many (\<lambda>d. map_option serviceForDeployFromRow (find (\<lambda>r. rs_ID r = sid) (services d)))"
  "GetDeployment i = select_many (\<lambda>d. map_option deploymentFromRow (find (\<lambda>r. rd_ID r = i) (deployments d)))"
  "GetTeardownJob j = select_many (\<lambda>d. map_option teardownFromRow (find (\<lambda>r. rt_ID r = j) (teardown_jobs d)))"
  by (simp_all add: store_read_defs db_read_defs)

lemma store_succ [succ_iff]:
  "WorkspaceAndProjectForService sid w = (Inr x, w') \<longleftrightarrow> \<not> faults w (ops w) \<and> w' = w\<lparr>ops := Suc (ops w)\<rparr> \<and>
     x = map_option (\<lambda>r. (rs_WorkspaceID r, rs_ProjectID r)) (find (\<lambda>r. rs_ID r = sid) (services (db w)))"
  "WorkspaceForServer srv w = (Inr y, w') \<longleftrightarrow> \<not> faults w (ops w) \<and> w' = w\<lparr>ops := Suc (ops w)\<rparr> \<and>
     y = map_option sv_WorkspaceID (find (\<lambda>r. sv_ID r = srv) (servers (db w)))"
  "WorkspaceForProject pid w = (Inr y, w') \<longleftrightarrow> \<not> faults w (ops w) \<and> w' = w\<lparr>ops := Suc (ops w)\<rparr> \<and>
     y = map_option pj_WorkspaceID (find (\<lambda>r. pj_ID r = pid) (projects (db w)))"
  "AgentServerByCredential h w = (Inr x, w') \<longleftrightarrow> \<not> faults w (ops w) \<and> w' = w\<lparr>ops := Suc (ops w)\<rparr> \<and>
     x = map_option (\<lambda>a. (ag_ID a, ag_ServerID a)) (find (\<lambda>a. ag_CredentialHash a = h) (agents (db w)))"
  "store_ServiceForDeploy sid w = (Inr z, w') \<longleftrightarrow> \<not> faults w (ops w) \<and> w' = w\<lparr>ops := Suc (ops w)\<rparr> \<and>
     z = map_option serviceForDeployFromRow (find (\<lambda>r. rs_ID r = sid) (services (db w)))"
  "GetDeployment i w = (Inr u, w') \<longleftrightarrow> \<not> faults w (ops w) \<and> w' = w\<lparr>ops := Suc (ops w)\<rparr> \<and>
     u = map_option deploymentFromRow (find (\<lambda>r. rd_ID r = i) (deployments (db w)))"
  "GetTeardownJob j w = (Inr v, w') \<longleftrightarrow> \<not> faults w (ops w) \<and> w' = w\<lparr>ops := Suc (ops w)\<rparr> \<and>
     v = map_option teardownFromRow (find (\<lambda>r. rt_ID r = j) (teardown_jobs (db w)))"
  by (auto simp: store_reads select_many_succ)

lemma map_m_succ [succ_iff]: "map_m f c w = (Inr y, w') \<longleftrightarrow> (\<exists>x. c w = (Inr x, w') \<and> y = f x)"
  by (auto simp: map_m_def succ_iff)

lemma find_service: "find (\<lambda>r. rs_ID r = i) xs = Some svc \<Longrightarrow> svc \<in> set xs \<and> rs_ID svc = i"
  by (auto simp: find_Some_iff)

lemma find_server: "find (\<lambda>r. sv_ID r = i) xs = Some srv \<Longrightarrow> srv \<in> set xs \<and> sv_ID srv = i"
  by (auto simp: find_Some_iff)

lemma find_deployment: "find (\<lambda>r. rd_ID r = i) xs = Some t \<Longrightarrow> t \<in> set xs \<and> rd_ID t = i"
  by (auto simp: find_Some_iff)

lemma find_teardown: "find (\<lambda>r. rt_ID r = i) xs = Some t \<Longrightarrow> t \<in> set xs \<and> rt_ID t = i"
  by (auto simp: find_Some_iff)

lemma readonly_store:
  "readonly (WorkspaceAndProjectForEnvironment i)" "readonly (WorkspaceAndProjectForService i)"
  "readonly (WorkspaceForServer i)" "readonly (WorkspaceForProject i)" "readonly (AgentServerByCredential h)"
  "readonly (ConfigForService i)" "readonly (store_ServiceForDeploy i)" "readonly (GetDeployment i)"
  "readonly (store_ListByService i)" "readonly (store_ListByEnvironment i)" "readonly (store_ListByProject i)"
  "readonly (store_ListByWorkspace i)" "readonly (store_ListEvents i n)" "readonly (VerifiedDomainsForServices is)"
  "readonly (GetTeardownJob i)" "readonly (store_ListTeardownsByService i)" "readonly (LatestServerForService i)"
  "readonly (LatestActivePreviewByRouteKey i k)" "readonly (ListExpiredPreviews n)"
  by (simp_all add: store_read_defs db_read_defs reads.obeys_select_many reads.obeys_ret)

lemma absent_ok_update_one:
  "absent_ok (map_m f (update_one (\<lambda>_. True) g)) w =
     (let w' = w\<lparr>ops := Suc (ops w)\<rparr> in
      if faults w (ops w) then (Inl (Opaque ''database unavailable''), w')
      else case g w' (db w) of
             None \<Rightarrow> (Inr None, w')
           | Some (r, d) \<Rightarrow> (Inr (Some (f r)), w'\<lparr>db := d\<rparr>))"
  by (simp add: absent_ok_def map_m_def catch_def bind_def update_one_def query_def Let_def split: option.split prod.split)

section \<open>The contract of a job queue\<close>

text \<open>What an agent's poll relies on, for any kind of job: a claim takes the oldest queued job of
  the server and turns it into an assigned one, in one statement; without queued work it changes
  nothing.\<close>

definition job_waiting :: "('j \<Rightarrow> string) \<Rightarrow> ('j \<Rightarrow> string) \<Rightarrow> string \<Rightarrow> 'j \<Rightarrow> bool" where
  "job_waiting server status s j \<longleftrightarrow> server j = s \<and> status j = ''queued''"

text \<open>A sequence of polls, by the agents of the given servers; the jobs they were handed.\<close>

fun claim_run :: "(string \<Rightarrow> 'j m) \<Rightarrow> string list \<Rightarrow> world \<Rightarrow> 'j list \<times> world" where
  "claim_run c [] w = ([], w)"
| "claim_run c (s # ss) w =
     (case c s w of
        (Inr j, w') \<Rightarrow> (j # fst (claim_run c ss w'), snd (claim_run c ss w'))
      | (Inl e, w') \<Rightarrow> claim_run c ss w')"

locale job_queue =
  fixes jobs :: "database \<Rightarrow> 'j list"
    and job_id :: "'j \<Rightarrow> string"
    and job_server :: "'j \<Rightarrow> string"
    and job_status :: "'j \<Rightarrow> string"
    and job_created :: "'j \<Rightarrow> int"
    and assign :: "int \<Rightarrow> 'j \<Rightarrow> 'j"
    and claim :: "string \<Rightarrow> 'j m"
  assumes assign_id: "job_id (assign t j) = job_id j"
    and assign_server: "job_server (assign t j) = job_server j"
    and assign_created: "job_created (assign t j) = job_created j"
    and assign_status: "job_status (assign t j) = ''assigned''"
    and claim_ok: "claim s w = (Inr j', w') \<Longrightarrow>
      \<exists>j. first_by job_created (job_waiting job_server job_status s) (jobs (db w)) = Some j \<and>
          j' = assign (now w) j \<and>
          jobs (db w') = update_where (\<lambda>x. job_id x = job_id j) (assign (now w)) (jobs (db w))"
    and claim_err: "claim s w = (Inl e, w') \<Longrightarrow> db w' = db w"
    and claim_progress: "healthy w \<Longrightarrow>
      first_by job_created (job_waiting job_server job_status s) (jobs (db w)) \<noteq> None \<Longrightarrow>
      \<exists>j w'. claim s w = (Inr j, w') \<and> healthy w'"
begin

abbreviation waiting :: "string \<Rightarrow> 'j \<Rightarrow> bool" where
  "waiting s \<equiv> job_waiting job_server job_status s"

lemma claim_oldest:
  assumes "claim s w = (Inr j', w')"
  shows "\<exists>j \<in> set (jobs (db w)). waiting s j \<and> job_id j = job_id j' \<and> job_created j = job_created j'"
    and "job_server j' = s" and "job_status j' = ''assigned''"
    and "\<forall>i \<in> set (jobs (db w)). waiting s i \<longrightarrow> job_created j' \<le> job_created i"
proof -
  from claim_ok [OF assms] obtain j where
    j: "first_by job_created (waiting s) (jobs (db w)) = Some j" and j': "j' = assign (now w) j"
    by blast
  note f = first_by_Some [OF j]
  show "\<exists>j \<in> set (jobs (db w)). waiting s j \<and> job_id j = job_id j' \<and> job_created j = job_created j'"
    using f j' by (auto simp: assign_id assign_created)
  show "job_server j' = s" using f(2) j' by (simp add: assign_server job_waiting_def)
  show "job_status j' = ''assigned''" using j' by (simp add: assign_status)
  show "\<forall>i \<in> set (jobs (db w)). waiting s i \<longrightarrow> job_created j' \<le> job_created i"
    using f(3) j' by (simp add: assign_created)
qed

lemma claim_ids:
  assumes "claim s w = (Inr j', w')"
  shows "map job_id (jobs (db w')) = map job_id (jobs (db w))"
  using claim_ok [OF assms] by (auto simp: map_update_where assign_id)

lemma claim_waiting:
  assumes "claim s w = (Inr j', w')"
  shows "filter (waiting s2) (jobs (db w')) =
         filter (\<lambda>j. waiting s2 j \<and> job_id j \<noteq> job_id j') (jobs (db w))"
proof -
  from claim_ok [OF assms] obtain j where j': "j' = assign (now w) j"
    and jobs: "jobs (db w') = update_where (\<lambda>x. job_id x = job_id j) (assign (now w)) (jobs (db w))"
    by blast
  have "\<not> waiting s2 (assign t i)" for t i by (simp add: job_waiting_def assign_status)
  then have "filter (waiting s2) (update_where (\<lambda>x. job_id x = job_id j) (assign (now w)) is) =
        filter (\<lambda>i. waiting s2 i \<and> job_id i \<noteq> job_id j) is" for "is"
    by (induction "is") auto
  then show ?thesis by (simp add: jobs j' assign_id)
qed

lemma claim_waiting_mem:
  assumes "claim s w = (Inr j', w')"
  shows "i \<in> set (jobs (db w')) \<and> waiting s2 i \<longleftrightarrow>
         i \<in> set (jobs (db w)) \<and> waiting s2 i \<and> job_id i \<noteq> job_id j'"
  using arg_cong [OF claim_waiting [OF assms, of s2], of set] by (auto simp: set_eq_iff)

text \<open>No job is handed out twice, whatever servers poll and in whatever order.\<close>

lemma claim_run_ids:
  "set (map job_id (fst (claim_run claim ss w))) \<subseteq> job_id ` {j \<in> set (jobs (db w)). \<exists>s. waiting s j} \<and>
   distinct (map job_id (fst (claim_run claim ss w)))"
proof (induction ss arbitrary: w)
  case Nil
  then show ?case by simp
next
  case (Cons s ss)
  obtain r w' where c: "claim s w = (r, w')" by (cases "claim s w")
  show ?case
  proof (cases r)
    case (Inl e)
    with c claim_err have "db w' = db w" by blast
    with Cons [of w'] c Inl show ?thesis by simp
  next
    case (Inr j)
    let ?W = "\<lambda>d. {i \<in> set (jobs d). \<exists>s. waiting s i}"
    have W': "?W (db w') = {i \<in> ?W (db w). job_id i \<noteq> job_id j}"
      using claim_waiting_mem [of s w j w'] c Inr by blast
    have "job_id j \<in> job_id ` ?W (db w)"
    proof -
      from c Inr have "claim s w = (Inr j, w')" by simp
      from claim_oldest(1) [OF this] show ?thesis by (metis (mono_tags, lifting) image_eqI mem_Collect_eq)
    qed
    moreover have "job_id ` ?W (db w') \<subseteq> job_id ` ?W (db w) - {job_id j}"
      unfolding W' by auto
    moreover have "fst (claim_run claim (s # ss) w) = j # fst (claim_run claim ss w')"
      using c Inr by simp
    ultimately show ?thesis
      using Cons [of w'] by (simp only: list.map list.set distinct.simps) blast
  qed
qed

text \<open>Jobs of a server come out oldest first.\<close>

lemma claim_run_fifo: "sorted (map job_created (fst (claim_run claim (replicate n s) w)))"
proof (induction n arbitrary: w)
  case 0
  then show ?case by simp
next
  case (Suc n)
  obtain r w' where c: "claim s w = (r, w')" by (cases "claim s w")
  have later: "\<forall>j \<in> set (fst (claim_run claim (replicate m s) v)).
      \<exists>i \<in> set (jobs (db v)). waiting s i \<and> job_created i = job_created j" for m v
  proof (induction m arbitrary: v)
    case (Suc m)
    obtain r v' where cv: "claim s v = (r, v')" by (cases "claim s v")
    then show ?case
    proof (cases r)
      case (Inl e)
      with cv claim_err have "db v' = db v" by blast
      with Suc [of v'] cv Inl show ?thesis by simp
    next
      case (Inr j)
      with Suc [of v'] cv claim_oldest(1) [of s v j v'] claim_waiting_mem [of s v j v' _ s]
      show ?thesis by fastforce
    qed
  qed simp
  show ?case
  proof (cases r)
    case (Inl e)
    with c Suc [of w'] show ?thesis by simp
  next
    case (Inr j)
    have "job_created j \<le> job_created i" if "i \<in> set (fst (claim_run claim (replicate n s) w'))" for i
    proof -
      from later that obtain i' where i': "i' \<in> set (jobs (db w'))" "waiting s i'" "job_created i' = job_created i"
        by blast
      then have "i' \<in> set (jobs (db w))"
        using claim_waiting_mem [of s w j w' i' s] c Inr by blast
      with i' claim_oldest(4) [of s w j w'] c Inr show ?thesis by auto
    qed
    with c Inr Suc [of w'] show ?thesis by auto
  qed
qed

text \<open>Without database failures, as many polls as there are queued jobs empty the queue.\<close>

lemma claim_run_drains:
  assumes "healthy w" and "length (filter (waiting s) (jobs (db w))) \<le> n"
  shows "filter (waiting s) (jobs (db (snd (claim_run claim (replicate n s) w)))) = []"
  using assms
proof (induction n arbitrary: w)
  case 0
  then show ?case by simp
next
  case (Suc n)
  show ?case
  proof (cases "filter (waiting s) (jobs (db w)) = []")
    case True
    have idle: "filter (waiting s) (jobs (db (snd (claim_run claim (replicate m s) v)))) = []"
      if "filter (waiting s) (jobs (db v)) = []" for m v
      using that
    proof (induction m arbitrary: v)
      case (Suc m)
      obtain r v' where cv: "claim s v = (r, v')" by (cases "claim s v")
      have "filter (waiting s) (jobs (db v')) = []"
      proof (cases r)
        case (Inl e)
        with cv claim_err have "db v' = db v" by blast
        with Suc.prems show ?thesis by simp
      next
        case (Inr j)
        with cv claim_waiting [of s v j v' s] Suc.prems show ?thesis by (auto simp: filter_empty_conv)
      qed
      with Suc.IH [of v'] cv show ?case by (cases r) simp_all
    qed simp
    show ?thesis by (rule idle [OF True])
  next
    case False
    then have "first_by job_created (waiting s) (jobs (db w)) \<noteq> None"
      by (auto simp: first_by_None filter_empty_conv)
    with Suc.prems(1) claim_progress obtain j w' where c: "claim s w = (Inr j, w')" "healthy w'"
      by blast
    from claim_oldest(1) [OF c(1)] obtain i where i: "i \<in> set (jobs (db w))" "waiting s i" "job_id i = job_id j"
      by blast
    have "length (filter (waiting s) (jobs (db w'))) < length (filter (waiting s) (jobs (db w)))"
    proof -
      have eq: "filter (waiting s) (jobs (db w')) =
          filter (\<lambda>x. job_id x \<noteq> job_id j) (filter (waiting s) (jobs (db w)))"
        using claim_waiting [OF c(1), of s] by (simp add: conj_commute)
      have "i \<in> set (filter (waiting s) (jobs (db w)))" using i by simp
      then show ?thesis unfolding eq by (rule length_filter_less) (simp add: i(3))
    qed
    with Suc.prems(2) have "length (filter (waiting s) (jobs (db w'))) \<le> n" by linarith
    from Suc.IH [OF c(2) this] c(1) show ?thesis by simp
  qed
qed

end

lemma claim_deployment_unfold:
  "db_ClaimNextDeploymentForServer s =
     update_one (\<lambda>_. True) (\<lambda>w d.
       map_option (\<lambda>r. (assign_deployment (now w) r,
                        upd_deployments (\<lambda>x. rd_ID x = rd_ID r) (assign_deployment (now w)) d))
         (first_by rd_CreatedAt (job_waiting rd_ServerID rd_Status s) (deployments d)))"
  by (simp add: db_ClaimNextDeploymentForServer_def job_waiting_def [abs_def] option.case_eq_if map_option_case
        cong: option.case_cong)

lemma claim_teardown_unfold:
  "db_ClaimNextTeardownForServer s =
     update_one (\<lambda>_. True) (\<lambda>w d.
       map_option (\<lambda>r. (assign_teardown (now w) r,
           d\<lparr>teardown_jobs := update_where (\<lambda>x. rt_ID x = rt_ID r) (assign_teardown (now w)) (teardown_jobs d)\<rparr>))
         (first_by rt_CreatedAt (job_waiting rt_ServerID rt_Status s) (teardown_jobs d)))"
  by (simp add: db_ClaimNextTeardownForServer_def job_waiting_def [abs_def] option.case_eq_if map_option_case
        cong: option.case_cong)

lemma update_one_err_db: "update_one ok g w = (Inl e, w') \<Longrightarrow> db w' = db w"
  by (auto simp: update_one_def query_def Let_def split: option.splits prod.splits if_splits)

interpretation dq: job_queue deployments rd_ID rd_ServerID rd_Status rd_CreatedAt assign_deployment
  db_ClaimNextDeploymentForServer
  by unfold_locales
     (auto simp: assign_deployment_def claim_deployment_unfold succ_iff upd_deployments_def dest: update_one_err_db)

interpretation tq: job_queue teardown_jobs rt_ID rt_ServerID rt_Status rt_CreatedAt assign_teardown
  db_ClaimNextTeardownForServer
  by unfold_locales
     (auto simp: assign_teardown_def claim_teardown_unfold succ_iff dest: update_one_err_db)

end
