(* ===== verification/Deployments.thy ===== *)
theory Deployments
  imports DeploymentStore
begin

text \<open>
  The business logic of \<^verbatim>\<open>internal/deployments\<close>: every method of \<^verbatim>\<open>service.go\<close>,
  \<^verbatim>\<open>teardown.go\<close>, \<^verbatim>\<open>webhook.go\<close> and \<^verbatim>\<open>expiry.go\<close>, the dashboard's
  (authorized through the policy) and the agent's (authenticated by its credential). Log lines are
  not modelled. Dependencies outside the repository (the UUID parser, bcrypt) and the ports the
  module is given (decryption, GitHub, installation tokens) are the fields of \<open>deps\<close>.
\<close>

section \<open>Dependencies and inputs\<close>

record PullRequest =
  gpr_Number :: int
  gpr_State :: string
  gpr_Title :: string
  gpr_HTMLURL :: string
  gpr_HeadRef :: string
  gpr_HeadSHA :: string

record deps =
  uuid_Parse :: "string \<Rightarrow> bool"
  bcrypt_Generate :: "string \<Rightarrow> err + string"
  opener_Open :: "string \<Rightarrow> err + string"
  gh_GetPullRequest :: "string \<Rightarrow> string \<Rightarrow> string \<Rightarrow> int \<Rightarrow> err + PullRequest"
  sources_InstallationToken :: "string \<Rightarrow> err + string option"

text \<open>\<open>id.Parse\<close> accepts what \<open>uuid.Parse\<close> accepts; the callers only look at the error.\<close>

definition id_Parse :: "deps \<Rightarrow> string \<Rightarrow> bool" where
  "id_Parse D s = uuid_Parse D s"

record CreateForServiceInput =
  cs_ServiceID :: string
  cs_ServerID :: string
  cs_ContainerPort :: int
  cs_GitRef :: string

record CreatePreviewInput =
  cp_ServiceID :: string
  cp_ServerID :: string
  cp_Branch :: string
  cp_PRNumber :: int
  cp_ContainerPort :: int
  cp_Password :: string
  cp_PasswordUser :: string

record PollInput =
  pi_AgentID :: string
  pi_Credential :: string

record Claimed =
  cl_HasWork :: bool
  cl_DeploymentID :: string
  cl_ImageRef :: string
  cl_ContainerPort :: int
  cl_Env :: "string \<rightharpoonup> string"
  cl_AppLabel :: string
  cl_SourceKind :: string
  cl_CloneURL :: string
  cl_GitRef :: string
  cl_BuiltImageTag :: string
  cl_GitCredential :: string
  cl_Visibility :: string
  cl_NetworkName :: string
  cl_NetworkAlias :: string
  cl_BasicAuthUser :: string
  cl_BasicAuthHash :: string
  cl_RouteHost :: string

record ReportInput =
  ri_AgentID :: string
  ri_Credential :: string
  ri_DeploymentID :: string
  ri_Status :: string
  ri_HostPort :: int
  ri_ContainerID :: string
  ri_LogLines :: "string list"
  ri_LogStream :: string
  ri_Message :: string
  ri_CommitSha :: string
  ri_BuiltImageRef :: string
  ri_RouteURL :: string

record ManagedRoute =
  mr_ServiceID :: string
  mr_DeploymentID :: string
  mr_HostPort :: int

record RouteOverride =
  ro_ServiceID :: string
  ro_Hostnames :: "string list"

record SyncRoutesInput =
  sy_AgentID :: string
  sy_Credential :: string
  sy_Routes :: "ManagedRoute list"

record RouteSyncResult =
  rr_ServiceID :: string
  rr_DeploymentID :: string
  rr_Hostnames :: "string list"
  rr_OK :: bool
  rr_Message :: string

record ReportRouteSyncInput =
  rrs_AgentID :: string
  rrs_Credential :: string
  rrs_Results :: "RouteSyncResult list"

record ClaimedTeardown =
  ct_HasWork :: bool
  ct_TeardownID :: string
  ct_RouteKey :: string
  ct_NetworkName :: string

record ReportTeardownInput =
  rp_AgentID :: string
  rp_Credential :: string
  rp_TeardownID :: string
  rp_Status :: string
  rp_Message :: string
  rp_Error :: string

abbreviation deployment_resource :: "string \<Rightarrow> string \<Rightarrow> Resource" where
  "deployment_resource ws i \<equiv> \<lparr>res_Type = ''deployment'', res_WorkspaceID = ws, res_ID = i\<rparr>"

section \<open>Container environment\<close>

definition configValue :: "deps \<Rightarrow> ConfigForDeploy \<Rightarrow> err + string" where
  "configValue D e =
     (if cfd_Type e = ''secret'' then opener_Open D (cfd_Ciphertext e)
      else Inr (case cfd_Value e of Some v \<Rightarrow> v | None \<Rightarrow> []))"

fun merge_scope ::
    "deps \<Rightarrow> bool \<Rightarrow> string \<Rightarrow> ConfigForDeploy list \<Rightarrow> (string \<rightharpoonup> string) \<Rightarrow> err + (string \<rightharpoonup> string)" where
  "merge_scope D includeSecrets scope [] env = Inr env"
| "merge_scope D includeSecrets scope (e # es) env =
     (if cfd_Scope e \<noteq> scope then merge_scope D includeSecrets scope es env
      else if cfd_Type e = ''secret'' \<and> \<not> includeSecrets then merge_scope D includeSecrets scope es env
      else case configValue D e of
             Inl er \<Rightarrow> Inl er
           | Inr v \<Rightarrow> merge_scope D includeSecrets scope es (env(cfd_Key e \<mapsto> v)))"

definition configEnv :: "deps \<Rightarrow> bool \<Rightarrow> ConfigForDeploy list \<Rightarrow> err + (string \<rightharpoonup> string)" where
  "configEnv D includeSecrets es =
     (case merge_scope D includeSecrets ''environment'' es Map.empty of
        Inl er \<Rightarrow> Inl er
      | Inr env \<Rightarrow> merge_scope D includeSecrets ''service'' es env)"

definition configEnvForService :: "deps \<Rightarrow> string \<Rightarrow> bool \<Rightarrow> (string \<rightharpoonup> string) m" where
  "configEnvForService D serviceID includeSecrets =
     bind (ConfigForService serviceID) (\<lambda>es. lift (configEnv D includeSecrets es))"

section \<open>Creating deployments\<close>

definition cloneURLFor :: "ServiceForDeploy \<Rightarrow> string" where
  "cloneURLFor svc = ''https://github.com/'' @ sfd_Owner svc @ ''/'' @ sfd_Repo svc @ ''.git''"

definition buildAndInsert ::
    "string \<Rightarrow> ServiceForDeploy \<Rightarrow> string \<Rightarrow> int \<Rightarrow> string \<Rightarrow> Deployment m" where
  "buildAndInsert serviceID svc serverID portOverride gitRef =
     (let port = (if portOverride > 0 then portOverride else sfd_ContainerPort svc) in
      if sfd_SourceKind svc = SourceGit then
        check (buildableAccess (sfd_SourceAccess svc))
          (InvalidInput (''this git source can't be built '' @ em_dash @
             '' connect a public repo or install the GitHub App for private repos''))
          (let ref = strings_TrimSpace gitRef;
               ref = (if ref = [] then (if sfd_Branch svc = [] then sfd_DefaultBranch svc else sfd_Branch svc) else ref)
           in InsertDeploymentFromGit
                \<lparr>ng_ServiceID = serviceID, ng_EnvironmentID = sfd_EnvironmentID svc, ng_ProjectID = sfd_ProjectID svc,
                 ng_WorkspaceID = sfd_WorkspaceID svc, ng_ServerID = serverID, ng_ContainerPort = port,
                 ng_SourceAccess = sfd_SourceAccess svc, ng_CloneURL = cloneURLFor svc, ng_GitRef = ref,
                 ng_RolledBackFrom = []\<rparr>)
      else
        bind (lift (validateImageRef (sfd_ImageRef svc))) (\<lambda>imageRef.
        check (1 \<le> port \<and> port \<le> maxPort) (InvalidInput ''container_port must be between 1 and 65535'')
          (InsertDeployment
             \<lparr>nd_ServiceID = serviceID, nd_EnvironmentID = sfd_EnvironmentID svc, nd_ProjectID = sfd_ProjectID svc,
              nd_WorkspaceID = sfd_WorkspaceID svc, nd_ServerID = serverID, nd_ImageRef = imageRef,
              nd_ContainerPort = port, nd_RolledBackFrom = []\<rparr>)))"

definition serviceNotFound :: "string \<Rightarrow> err" where
  "serviceNotFound serviceID = NotFound (''service '' @ serviceID @ '' not found'')"

definition CreateForService :: "deps \<Rightarrow> Principal \<Rightarrow> CreateForServiceInput \<Rightarrow> Deployment m" where
  "CreateForService D caller inp =
     check (id_Parse D (cs_ServiceID inp)) (InvalidInput ''a valid service_id is required'')
    (check (id_Parse D (cs_ServerID inp)) (InvalidInput ''a valid server_id is required'')
    (check (0 \<le> cs_ContainerPort inp \<and> cs_ContainerPort inp \<le> maxPort)
       (InvalidInput ''container_port must be between 1 and 65535, or 0 to use the service's port'')
    (bind (map_err (Internalf ''create deployment'') (WorkspaceAndProjectForService (cs_ServiceID inp))) (\<lambda>wp.
     case wp of
       None \<Rightarrow> fail (serviceNotFound (cs_ServiceID inp))
     | Some (workspaceID, _) \<Rightarrow>
         bind (Authorize caller ActionDeploymentCreate (deployment_resource workspaceID [])) (\<lambda>_.
         bind (map_err (Internalf ''create deployment'') (WorkspaceForServer (cs_ServerID inp))) (\<lambda>serverWorkspace.
         check (serverWorkspace = Some workspaceID)
           (NotFound (''server '' @ cs_ServerID inp @ '' not found in this workspace''))
         (map_err (mapErr ''create deployment'')
           (WithinTx
             (bind
               (bind (store_ServiceForDeploy (cs_ServiceID inp)) (\<lambda>svc.
                case svc of
                  None \<Rightarrow> fail (serviceNotFound (cs_ServiceID inp))
                | Some svc \<Rightarrow> buildAndInsert (cs_ServiceID inp) svc (cs_ServerID inp) (cs_ContainerPort inp) (cs_GitRef inp)))
               (\<lambda>created. bind (audit_Record ''deployment.create'' ''deployment'' (dep_ID created) workspaceID (UserID caller))
                 (\<lambda>_. ret created)))))))))))"

definition EnqueueFirstDeployment :: "string \<Rightarrow> string \<Rightarrow> string m" where
  "EnqueueFirstDeployment serviceID serverID =
     bind (store_ServiceForDeploy serviceID) (\<lambda>svc.
     case svc of
       None \<Rightarrow> fail (serviceNotFound serviceID)
     | Some svc \<Rightarrow> bind (buildAndInsert serviceID svc serverID 0 []) (\<lambda>dep. ret (dep_ID dep)))"

definition enqueuePreview ::
    "deps \<Rightarrow> string \<Rightarrow> string \<Rightarrow> string \<Rightarrow> int \<Rightarrow> int \<Rightarrow> string \<Rightarrow> string \<Rightarrow> string \<Rightarrow> Deployment m" where
  "enqueuePreview D serviceID serverID branch prNumber portOverride password passwordUser actor =
     bind (map_err (Internalf ''create preview'') (store_ServiceForDeploy serviceID)) (\<lambda>svc.
     case svc of
       None \<Rightarrow> fail (serviceNotFound serviceID)
     | Some svc \<Rightarrow>
         check (sfd_SourceKind svc = SourceGit) (InvalidInput ''previews are only supported for git services'')
        (check (buildableAccess (sfd_SourceAccess svc))
           (InvalidInput (''this git source can't be previewed '' @ em_dash @
              '' connect a public repo or install the GitHub App for private repos''))
        (bind
          (if prNumber > 0 then
             bind (lift (map_sum mapGitHubErr id (gh_GetPullRequest D [] (sfd_Owner svc) (sfd_Repo svc) prNumber))) (\<lambda>pr.
             check (gpr_HeadRef pr \<noteq> [])
               (NotFound (''pull request #'' @ strconv_Itoa prNumber @ '' was not found in '' @ sfd_Owner svc @ ''/'' @ sfd_Repo svc))
               (ret (gpr_HeadRef pr, gpr_HTMLURL pr)))
           else ret (branch, []))
        (\<lambda>(gitRef, prURL).
         let port = (if portOverride > 0 then portOverride else sfd_ContainerPort svc);
             routeKey = previewRouteKey serviceID prNumber gitRef
         in bind (lift (hashPreviewPassword (bcrypt_Generate D) password passwordUser)) (\<lambda>(authUser, authHash).
            map_err (mapErr ''create preview'')
              (WithinTx
                (bind
                  (InsertPreviewDeployment
                    \<lparr>np_ServiceID = serviceID, np_RouteKey = routeKey, np_EnvironmentID = sfd_EnvironmentID svc,
                     np_ProjectID = sfd_ProjectID svc, np_WorkspaceID = sfd_WorkspaceID svc, np_ServerID = serverID,
                     np_ContainerPort = port, np_SourceAccess = sfd_SourceAccess svc, np_CloneURL = cloneURLFor svc,
                     np_GitRef = gitRef, np_PRNumber = prNumber, np_PRURL = prURL, np_AuthUser = authUser,
                     np_AuthHash = authHash\<rparr>)
                  (\<lambda>created. bind (audit_Record ''deployment.preview'' ''deployment'' (dep_ID created) (sfd_WorkspaceID svc) actor)
                    (\<lambda>_. ret created))))))))) "

definition CreatePreview :: "deps \<Rightarrow> Principal \<Rightarrow> CreatePreviewInput \<Rightarrow> Deployment m" where
  "CreatePreview D caller inp =
     check (id_Parse D (cp_ServiceID inp)) (InvalidInput ''a valid service_id is required'')
    (check (id_Parse D (cp_ServerID inp)) (InvalidInput ''a valid server_id is required'')
    (check (0 \<le> cp_ContainerPort inp \<and> cp_ContainerPort inp \<le> maxPort)
       (InvalidInput ''container_port must be between 1 and 65535, or 0 to use the service's port'')
    (let branch = strings_TrimSpace (cp_Branch inp) in
     check ((branch = []) \<noteq> (cp_PRNumber inp \<le> 0))
       (InvalidInput ''provide exactly one of a branch or a pull request number'')
    (bind (map_err (Internalf ''create preview'') (WorkspaceAndProjectForService (cp_ServiceID inp))) (\<lambda>wp.
     case wp of
       None \<Rightarrow> fail (serviceNotFound (cp_ServiceID inp))
     | Some (workspaceID, _) \<Rightarrow>
         bind (Authorize caller ActionDeploymentCreate (deployment_resource workspaceID [])) (\<lambda>_.
         bind (map_err (Internalf ''create preview'') (WorkspaceForServer (cp_ServerID inp))) (\<lambda>serverWorkspace.
         check (serverWorkspace = Some workspaceID)
           (NotFound (''server '' @ cp_ServerID inp @ '' not found in this workspace''))
         (enqueuePreview D (cp_ServiceID inp) (cp_ServerID inp) branch (cp_PRNumber inp) (cp_ContainerPort inp)
            (cp_Password inp) (cp_PasswordUser inp) (UserID caller)))))))))"

definition insertRollback :: "Deployment \<Rightarrow> Deployment m" where
  "insertRollback target =
     (if dep_SourceKind target = SourceGit then
        let ref = (if dep_CommitSha target = [] then dep_GitRef target else dep_CommitSha target) in
        InsertDeploymentFromGit
          \<lparr>ng_ServiceID = dep_ServiceID target, ng_EnvironmentID = dep_EnvironmentID target,
           ng_ProjectID = dep_ProjectID target, ng_WorkspaceID = dep_WorkspaceID target,
           ng_ServerID = dep_ServerID target, ng_ContainerPort = dep_ContainerPort target,
           ng_SourceAccess = dep_SourceAccess target, ng_CloneURL = dep_CloneURL target, ng_GitRef = ref,
           ng_RolledBackFrom = dep_ID target\<rparr>
      else
        bind (lift (validateImageRef (dep_ImageRef target))) (\<lambda>imageRef.
        InsertDeployment
          \<lparr>nd_ServiceID = dep_ServiceID target, nd_EnvironmentID = dep_EnvironmentID target,
           nd_ProjectID = dep_ProjectID target, nd_WorkspaceID = dep_WorkspaceID target,
           nd_ServerID = dep_ServerID target, nd_ImageRef = imageRef,
           nd_ContainerPort = dep_ContainerPort target, nd_RolledBackFrom = dep_ID target\<rparr>))"

definition deploymentNotFound :: "string \<Rightarrow> err" where
  "deploymentNotFound i = NotFound (''deployment '' @ i @ '' not found'')"

definition RollbackToDeployment :: "deps \<Rightarrow> Principal \<Rightarrow> string \<Rightarrow> Deployment m" where
  "RollbackToDeployment D caller targetID =
     check (id_Parse D targetID) (InvalidInput ''a valid deployment id is required'')
    (bind (map_err (Internalf ''rollback deployment'') (GetDeployment targetID)) (\<lambda>t.
     case t of
       None \<Rightarrow> fail (deploymentNotFound targetID)
     | Some target \<Rightarrow>
         bind (Authorize caller ActionDeploymentCreate (deployment_resource (dep_WorkspaceID target) [])) (\<lambda>_.
         check (dep_Status target = StatusRunning \<or> dep_Status target = StatusSuperseded)
           (InvalidInput (''can only roll back to a previously healthy deployment; '' @ dep_ID target @ '' is '' @
              fmt_q (dep_Status target)))
         (map_err (mapErr ''rollback deployment'')
           (WithinTx
             (bind (insertRollback target)
               (\<lambda>created. bind (audit_Record ''deployment.rollback'' ''deployment'' (dep_ID created) (dep_WorkspaceID target) (UserID caller))
                 (\<lambda>_. ret created))))))))"

section \<open>Reads\<close>

definition Get :: "deps \<Rightarrow> Principal \<Rightarrow> string \<Rightarrow> Deployment m" where
  "Get D caller deploymentID =
     check (id_Parse D deploymentID) (InvalidInput ''a valid deployment id is required'')
    (bind (map_err (Internalf ''get deployment'') (GetDeployment deploymentID)) (\<lambda>found.
     case found of
       None \<Rightarrow> fail (deploymentNotFound deploymentID)
     | Some dep \<Rightarrow>
         bind (Authorize caller ActionDeploymentRead (deployment_resource (dep_WorkspaceID dep) (dep_ID dep))) (\<lambda>_. ret dep)))"

definition ListByService :: "deps \<Rightarrow> Principal \<Rightarrow> string \<Rightarrow> Deployment list m" where
  "ListByService D caller serviceID =
     check (id_Parse D serviceID) (InvalidInput ''a valid service_id is required'')
    (bind (map_err (Internalf ''list deployments'') (WorkspaceAndProjectForService serviceID)) (\<lambda>found.
     case found of
       None \<Rightarrow> fail (serviceNotFound serviceID)
     | Some (workspaceID, _) \<Rightarrow>
         bind (Authorize caller ActionDeploymentRead (deployment_resource workspaceID [])) (\<lambda>_. store_ListByService serviceID)))"

definition ListByEnvironment :: "deps \<Rightarrow> Principal \<Rightarrow> string \<Rightarrow> Deployment list m" where
  "ListByEnvironment D caller environmentID =
     check (id_Parse D environmentID) (InvalidInput ''a valid environment_id is required'')
    (bind (map_err (Internalf ''list deployments'') (WorkspaceAndProjectForEnvironment environmentID)) (\<lambda>found.
     case found of
       None \<Rightarrow> fail (NotFound (''environment '' @ environmentID @ '' not found''))
     | Some (workspaceID, _) \<Rightarrow>
         bind (Authorize caller ActionDeploymentRead (deployment_resource workspaceID [])) (\<lambda>_. store_ListByEnvironment environmentID)))"

definition ListByProject :: "deps \<Rightarrow> Principal \<Rightarrow> string \<Rightarrow> Deployment list m" where
  "ListByProject D caller projectID =
     check (id_Parse D projectID) (InvalidInput ''a valid project_id is required'')
    (bind (map_err (Internalf ''list deployments'') (WorkspaceForProject projectID)) (\<lambda>found.
     case found of
       None \<Rightarrow> fail (NotFound (''project '' @ projectID @ '' not found''))
     | Some workspaceID \<Rightarrow>
         bind (Authorize caller ActionDeploymentRead (deployment_resource workspaceID [])) (\<lambda>_. store_ListByProject projectID)))"

definition ListByWorkspace :: "Principal \<Rightarrow> string \<Rightarrow> Deployment list m" where
  "ListByWorkspace caller workspaceID =
     check (workspaceID \<noteq> []) (InvalidInput ''workspace_id is required'')
    (bind (Authorize caller ActionDeploymentRead (deployment_resource workspaceID [])) (\<lambda>_. store_ListByWorkspace workspaceID))"

definition ListEvents :: "deps \<Rightarrow> Principal \<Rightarrow> string \<Rightarrow> int \<Rightarrow> Event list m" where
  "ListEvents D caller deploymentID afterSeq =
     check (id_Parse D deploymentID) (InvalidInput ''a valid deployment id is required'')
    (bind (map_err (Internalf ''list deployment events'') (GetDeployment deploymentID)) (\<lambda>found.
     case found of
       None \<Rightarrow> fail (deploymentNotFound deploymentID)
     | Some dep \<Rightarrow>
         bind (Authorize caller ActionDeploymentRead (deployment_resource (dep_WorkspaceID dep) (dep_ID dep)))
           (\<lambda>_. store_ListEvents deploymentID afterSeq)))"

end
