(* ===== verification/Gateway.thy ===== *)
theory Gateway
  imports Deployments
begin

text \<open>
  The rest of the business logic of \<^verbatim>\<open>internal/deployments\<close>: the agent's side of
  \<^verbatim>\<open>service.go\<close> (\<open>PollDeployment\<close>, \<open>ReportDeployment\<close>, \<open>SyncRoutes\<close>,
  \<open>ReportRouteSync\<close>), \<^verbatim>\<open>teardown.go\<close>, \<^verbatim>\<open>webhook.go\<close> and
  \<^verbatim>\<open>expiry.go\<close>. An agent is authenticated by its credential and confined to its own server.
\<close>

section \<open>The agent's deployments\<close>

definition resolveAgent :: "string \<Rightarrow> string \<Rightarrow> (string \<times> string) m" where
  "resolveAgent agentID credential =
     bind (map_err (Internalf ''authenticate agent'') (AgentServerByCredential (hashToken credential))) (\<lambda>found.
     case found of
       None \<Rightarrow> fail (PermissionDenied ''unknown agent credential'')
     | Some (gotAgentID, serverID) \<Rightarrow>
         check (agentID = [] \<or> agentID = gotAgentID)
           (PermissionDenied (''credential does not belong to agent '' @ agentID))
           (ret (gotAgentID, serverID)))"

text \<open>\<open>failDeployment\<close> is best effort: its error is only logged.\<close>

definition failDeployment :: "string \<Rightarrow> string \<Rightarrow> unit m" where
  "failDeployment deploymentID message =
     catch
       (WithinTx
         (bind (UpdateStatus \<lparr>su_DeploymentID = deploymentID, su_Status = StatusFailed, su_Message = message,
                  su_HostPort = 0, su_ContainerID = [], su_CommitSha = [], su_BuiltImageRef = [], su_RouteURL = []\<rparr>)
           (\<lambda>_. AppendEvent \<lparr>ne_DeploymentID = deploymentID, ne_Kind = KindStatus, ne_Status = StatusFailed,
                  ne_Message = message, ne_Stream = []\<rparr>)))
       (\<lambda>_. ret ())"

definition noWork :: Claimed where
  "noWork =
     \<lparr>cl_HasWork = False, cl_DeploymentID = [], cl_ImageRef = [], cl_ContainerPort = 0, cl_Env = Map.empty,
      cl_AppLabel = [], cl_SourceKind = [], cl_CloneURL = [], cl_GitRef = [], cl_BuiltImageTag = [],
      cl_GitCredential = [], cl_Visibility = [], cl_NetworkName = [], cl_NetworkAlias = [],
      cl_BasicAuthUser = [], cl_BasicAuthHash = [], cl_RouteHost = []\<rparr>"

text \<open>\<open>if routeKey == "" { routeKey = serviceID }\<close>: rows older than \<open>route_key\<close>.\<close>

definition routeKeyOr :: "string \<Rightarrow> string \<Rightarrow> string" where
  "routeKeyOr routeKey serviceID = (if routeKey = [] then serviceID else routeKey)"

text \<open>The transaction of a poll: claim and log the claim together.\<close>

definition claimTx :: "string \<Rightarrow> Deployment option m" where
  "claimTx serverID =
     WithinTx (bind (ClaimNextForServer serverID) (\<lambda>found.
       case found of
         None \<Rightarrow> ret None
       | Some dep \<Rightarrow>
           bind (AppendEvent \<lparr>ne_DeploymentID = dep_ID dep, ne_Kind = KindStatus, ne_Status = StatusAssigned,
                   ne_Message = ''claimed by agent'', ne_Stream = []\<rparr>) (\<lambda>_. ret (Some dep))))"

text \<open>What a claimed deployment is handed out as, before the git part.\<close>

definition claimedOf :: "Deployment \<Rightarrow> ServiceForDeploy \<Rightarrow> (string \<rightharpoonup> string) \<Rightarrow> Claimed" where
  "claimedOf dep svc env =
     (let isPreview = (dep_Kind dep = KindPreview);
          appLabel = routeKeyOr (dep_RouteKey dep) (dep_ServiceID dep)
      in noWork\<lparr>cl_HasWork := True, cl_DeploymentID := dep_ID dep, cl_ImageRef := dep_ImageRef dep,
           cl_ContainerPort := dep_ContainerPort dep, cl_Env := env, cl_AppLabel := appLabel,
           cl_SourceKind := dep_SourceKind dep, cl_Visibility := sfd_Visibility svc,
           cl_NetworkName := (if isPreview then previewNetworkName appLabel
                              else environmentNetworkName (dep_EnvironmentID dep)),
           cl_NetworkAlias := sfd_Slug svc, cl_BasicAuthUser := dep_AuthUser dep,
           cl_BasicAuthHash := dep_AuthHash dep,
           cl_RouteHost := (if isPreview
             then previewRouteHost (sfd_Slug svc) (dep_PRNumber dep) (dep_GitRef dep) (dep_ServiceID dep)
             else [])\<rparr>)"

definition tokenFailed :: string where
  "tokenFailed = ''could not obtain a token to clone this private repo '' @ em_dash @
     '' check the integration, then redeploy''"

definition tokenGone :: string where
  "tokenGone = ''this service builds a private repo but its integration is no longer connected '' @ em_dash @
     '' reconnect it, then redeploy''"

definition withGit :: "deps \<Rightarrow> Deployment \<Rightarrow> ServiceForDeploy \<Rightarrow> Claimed \<Rightarrow> Claimed m" where
  "withGit D dep svc out =
     (if dep_SourceKind dep \<noteq> SourceGit then ret out
      else
        let out = out\<lparr>cl_CloneURL := dep_CloneURL dep, cl_GitRef := dep_GitRef dep,
                      cl_BuiltImageTag := builtImageTag (dep_ID dep)\<rparr> in
        if sfd_SourceAccess svc \<noteq> ''app'' then ret out
        else case sources_InstallationToken D (sfd_ConnectionID svc) of
               Inl _ \<Rightarrow> bind (failDeployment (dep_ID dep) tokenFailed) (\<lambda>_. ret noWork)
             | Inr None \<Rightarrow> bind (failDeployment (dep_ID dep) tokenGone) (\<lambda>_. ret noWork)
             | Inr (Some token) \<Rightarrow> ret (out\<lparr>cl_GitCredential := token\<rparr>))"

text \<open>What follows a claim.\<close>

definition handOut :: "deps \<Rightarrow> Deployment option \<Rightarrow> Claimed m" where
  "handOut D found =
     (case found of
        None \<Rightarrow> ret noWork
      | Some dep \<Rightarrow>
          bind (map_err (Internalf ''poll deployment'')
                 (configEnvForService D (dep_ServiceID dep) (dep_Kind dep \<noteq> KindPreview))) (\<lambda>env.
          bind (map_err (Internalf ''poll deployment'') (store_ServiceForDeploy (dep_ServiceID dep))) (\<lambda>svc.
          case svc of
            None \<Rightarrow> fail (Internalf ''poll deployment'' (Opaque ''service for claimed deployment not found''))
          | Some svc \<Rightarrow> withGit D dep svc (claimedOf dep svc env))))"

definition PollDeployment :: "deps \<Rightarrow> PollInput \<Rightarrow> Claimed m" where
  "PollDeployment D inp =
     check (pi_Credential inp \<noteq> []) (InvalidInput ''a credential is required'')
    (bind (resolveAgent (pi_AgentID inp) (pi_Credential inp)) (\<lambda>(_, serverID).
     bind (map_err (Internalf ''poll deployment'') (claimTx serverID)) (handOut D)))"

definition appendLogLines :: "string \<Rightarrow> string \<Rightarrow> string list \<Rightarrow> unit m" where
  "appendLogLines deploymentID stream lines =
     for_each lines (\<lambda>line.
       if strings_TrimSpace line = [] then ret ()
       else AppendEvent \<lparr>ne_DeploymentID = deploymentID, ne_Kind = KindLog, ne_Status = [], ne_Message = line,
              ne_Stream = stream\<rparr>)"

definition reportTx :: "ReportInput \<Rightarrow> Deployment \<Rightarrow> string \<Rightarrow> unit m" where
  "reportTx inp dep serverID =
     bind (UpdateStatus \<lparr>su_DeploymentID = ri_DeploymentID inp, su_Status = ri_Status inp,
             su_Message = ri_Message inp, su_HostPort = ri_HostPort inp, su_ContainerID = ri_ContainerID inp,
             su_CommitSha = ri_CommitSha inp, su_BuiltImageRef = ri_BuiltImageRef inp,
             su_RouteURL = ri_RouteURL inp\<rparr>) (\<lambda>_.
     bind (AppendEvent \<lparr>ne_DeploymentID = ri_DeploymentID inp, ne_Kind = KindStatus, ne_Status = ri_Status inp,
             ne_Message = ri_Message inp, ne_Stream = []\<rparr>) (\<lambda>_.
     bind (appendLogLines (ri_DeploymentID inp) (ri_LogStream inp) (ri_LogLines inp)) (\<lambda>_.
     bind (if ri_RouteURL inp \<noteq> [] \<and> dep_Kind dep \<noteq> KindPreview
           then UpdateServiceRouteURL (dep_ServiceID dep) (ri_RouteURL inp) else ret ()) (\<lambda>_.
     if ri_Status inp = StatusRunning \<and> ri_HostPort inp > 0
     then SupersedePreviousRunning (routeKeyOr (dep_RouteKey dep) (dep_ServiceID dep)) serverID (ri_DeploymentID inp)
     else ret ()))))"

definition ReportDeployment :: "deps \<Rightarrow> ReportInput \<Rightarrow> unit m" where
  "ReportDeployment D inp =
     check (ri_Credential inp \<noteq> []) (InvalidInput ''a credential is required'')
    (check (id_Parse D (ri_DeploymentID inp)) (InvalidInput ''a valid deployment_id is required'')
    (check (isAgentReportableStatus (ri_Status inp))
       (InvalidInput (''status '' @ fmt_q (ri_Status inp) @ '' is not a valid agent-reported status''))
    (bind (resolveAgent (ri_AgentID inp) (ri_Credential inp)) (\<lambda>(_, serverID).
     bind (map_err (Internalf ''report deployment'') (GetDeployment (ri_DeploymentID inp))) (\<lambda>found.
     case found of
       None \<Rightarrow> fail (deploymentNotFound (ri_DeploymentID inp))
     | Some dep \<Rightarrow>
         check (dep_ServerID dep = serverID)
           (PermissionDenied (''this agent does not own deployment '' @ ri_DeploymentID inp))
           (map_err (Internalf ''report deployment'') (WithinTx (reportTx inp dep serverID))))))))"

section \<open>Routes of custom domains\<close>

text \<open>Whether a reported route names a deployment of this server and its service.\<close>

definition ownsRoute :: "deps \<Rightarrow> string \<Rightarrow> string \<Rightarrow> string \<Rightarrow> bool m" where
  "ownsRoute D serverID serviceID deploymentID =
     (if \<not> id_Parse D serviceID \<or> \<not> id_Parse D deploymentID then ret False
      else bind (GetDeployment deploymentID) (\<lambda>found.
        ret (case found of None \<Rightarrow> False
             | Some dep \<Rightarrow> dep_ServerID dep = serverID \<and> dep_ServiceID dep = serviceID)))"

fun ownedServices :: "deps \<Rightarrow> string \<Rightarrow> ManagedRoute list \<Rightarrow> string list m" where
  "ownedServices D serverID [] = ret []"
| "ownedServices D serverID (r # rs) =
     (if mr_HostPort r \<le> 0 then ownedServices D serverID rs
      else bind (ownsRoute D serverID (mr_ServiceID r) (mr_DeploymentID r)) (\<lambda>owned.
           bind (ownedServices D serverID rs) (\<lambda>is. ret (if owned then mr_ServiceID r # is else is))))"

text \<open>The Go code iterates over a map here, in an unspecified order; the model takes the order of
  the last occurrences.\<close>

definition SyncRoutes :: "deps \<Rightarrow> SyncRoutesInput \<Rightarrow> RouteOverride list m" where
  "SyncRoutes D inp =
     check (sy_Credential inp \<noteq> []) (InvalidInput ''a credential is required'')
    (bind (resolveAgent (sy_AgentID inp) (sy_Credential inp)) (\<lambda>(_, serverID).
     bind (map_err (Internalf ''sync routes'') (ownedServices D serverID (sy_Routes inp))) (\<lambda>owned.
     let serviceIDs = remdups owned in
     bind (map_err (Internalf ''sync routes'') (VerifiedDomainsForServices serviceIDs)) (\<lambda>domainsByService.
     ret (map (\<lambda>i. \<lparr>ro_ServiceID = i, ro_Hostnames = domainsByService i\<rparr>)
           (filter (\<lambda>i. domainsByService i \<noteq> []) serviceIDs))))))"

definition routeSyncMessage :: "RouteSyncResult \<Rightarrow> string" where
  "routeSyncMessage r =
     (let message = strings_TrimSpace (rr_Message r) in
      if message \<noteq> [] then message
      else if rr_OK r then ''Domain is routed to this service.''
      else ''Caddy could not activate this domain. Check the deployment route logs and try again.'')"

definition applyRouteSync :: "deps \<Rightarrow> string \<Rightarrow> RouteSyncResult \<Rightarrow> unit m" where
  "applyRouteSync D serverID r =
     (if rr_Hostnames r = [] then ret ()
      else bind (ownsRoute D serverID (rr_ServiceID r) (rr_DeploymentID r)) (\<lambda>owned.
        if \<not> owned then ret ()
        else MarkDomainsRouteSync (rr_ServiceID r) (rr_Hostnames r)
               (if rr_OK r then ''active'' else ''failed'') (routeSyncMessage r)))"

definition ReportRouteSync :: "deps \<Rightarrow> ReportRouteSyncInput \<Rightarrow> unit m" where
  "ReportRouteSync D inp =
     check (rrs_Credential inp \<noteq> []) (InvalidInput ''a credential is required'')
    (bind (resolveAgent (rrs_AgentID inp) (rrs_Credential inp)) (\<lambda>(_, serverID).
     map_err (Internalf ''report route sync'')
       (WithinTx (for_each (rrs_Results inp) (applyRouteSync D serverID)))))"

section \<open>Teardown of previews\<close>

definition newTeardown :: "Deployment \<Rightarrow> string \<Rightarrow> NewTeardownJob" where
  "newTeardown dep routeKey =
     \<lparr>nt_DeploymentID = dep_ID dep, nt_ServiceID = dep_ServiceID dep, nt_RouteKey = routeKey,
      nt_EnvironmentID = dep_EnvironmentID dep, nt_ProjectID = dep_ProjectID dep,
      nt_WorkspaceID = dep_WorkspaceID dep, nt_ServerID = dep_ServerID dep\<rparr>"

definition TeardownPreview :: "deps \<Rightarrow> Principal \<Rightarrow> string \<Rightarrow> TeardownJob m" where
  "TeardownPreview D caller deploymentID =
     check (id_Parse D deploymentID) (InvalidInput ''a valid deployment id is required'')
    (bind (map_err (Internalf ''teardown preview'') (GetDeployment deploymentID)) (\<lambda>found.
     case found of
       None \<Rightarrow> fail (deploymentNotFound deploymentID)
     | Some dep \<Rightarrow>
         check (dep_Kind dep = KindPreview) (InvalidInput ''only a preview deployment can be torn down'')
        (bind (Authorize caller ActionDeploymentCreate (deployment_resource (dep_WorkspaceID dep) (dep_ID dep))) (\<lambda>_.
         map_err (mapErr ''teardown preview'')
           (WithinTx
             (bind (InsertTeardownJob (newTeardown dep (routeKeyOr (dep_RouteKey dep) (dep_ServiceID dep))))
               (\<lambda>created. bind (audit_Record ''deployment.teardown'' ''deployment'' (dep_ID dep) (dep_WorkspaceID dep) (UserID caller))
                 (\<lambda>_. ret created))))))))"

definition ListTeardownsByService :: "deps \<Rightarrow> Principal \<Rightarrow> string \<Rightarrow> TeardownJob list m" where
  "ListTeardownsByService D caller serviceID =
     check (id_Parse D serviceID) (InvalidInput ''a valid service_id is required'')
    (bind (map_err (Internalf ''list teardowns'') (WorkspaceAndProjectForService serviceID)) (\<lambda>found.
     case found of
       None \<Rightarrow> fail (serviceNotFound serviceID)
     | Some (workspaceID, _) \<Rightarrow>
         bind (Authorize caller ActionDeploymentRead (deployment_resource workspaceID []))
           (\<lambda>_. store_ListTeardownsByService serviceID)))"

definition PollTeardownJob :: "PollInput \<Rightarrow> ClaimedTeardown m" where
  "PollTeardownJob inp =
     check (pi_Credential inp \<noteq> []) (InvalidInput ''a credential is required'')
    (bind (resolveAgent (pi_AgentID inp) (pi_Credential inp)) (\<lambda>(_, serverID).
     bind (map_err (Internalf ''poll teardown job'') (WithinTx (ClaimNextTeardownForServer serverID))) (\<lambda>found.
     ret (case found of
            None \<Rightarrow> \<lparr>ct_HasWork = False, ct_TeardownID = [], ct_RouteKey = [], ct_NetworkName = []\<rparr>
          | Some t \<Rightarrow> \<lparr>ct_HasWork = True, ct_TeardownID = td_ID t, ct_RouteKey = td_RouteKey t,
                       ct_NetworkName = previewNetworkName (td_RouteKey t)\<rparr>))))"

definition ReportTeardownJob :: "deps \<Rightarrow> ReportTeardownInput \<Rightarrow> unit m" where
  "ReportTeardownJob D inp =
     check (rp_Credential inp \<noteq> []) (InvalidInput ''a credential is required'')
    (check (id_Parse D (rp_TeardownID inp)) (InvalidInput ''a valid teardown id is required'')
    (check (isAgentReportableTeardownStatus (rp_Status inp))
       (InvalidInput (''status '' @ fmt_q (rp_Status inp) @ '' is not a valid agent-reported teardown status''))
    (bind (resolveAgent (rp_AgentID inp) (rp_Credential inp)) (\<lambda>(_, serverID).
     bind (map_err (Internalf ''report teardown job'') (GetTeardownJob (rp_TeardownID inp))) (\<lambda>found.
     case found of
       None \<Rightarrow> fail (NotFound (''teardown '' @ rp_TeardownID inp @ '' not found''))
     | Some t \<Rightarrow>
         check (td_ServerID t = serverID)
           (PermissionDenied (''this agent does not own teardown '' @ rp_TeardownID inp))
           (map_err (Internalf ''report teardown job'')
             (WithinTx
               (bind (UpdateTeardownStatus \<lparr>ts_TeardownID = rp_TeardownID inp, ts_Status = rp_Status inp,
                        ts_Message = rp_Message inp, ts_Error = rp_Error inp\<rparr>) (\<lambda>_.
                if rp_Status inp = TeardownStatusSucceeded
                then MarkPreviewTornDown (td_RouteKey t) (td_ServerID t) else ret ())))))))))"

section \<open>Webhook\<close>

definition webhookActor :: string where
  "webhookActor = ''github-webhook''"

definition CreatePreviewForPR :: "deps \<Rightarrow> string \<Rightarrow> int \<Rightarrow> string m" where
  "CreatePreviewForPR D serviceID prNumber =
     check (id_Parse D serviceID) (InvalidInput ''a valid service_id is required'')
    (check (prNumber > 0) (InvalidInput ''a valid pull request number is required'')
    (bind (map_err (Internalf ''create pr preview'') (LatestServerForService serviceID)) (\<lambda>found.
     case found of
       None \<Rightarrow> fail (InvalidInput (''service '' @ serviceID @ '' has not deployed yet, so it has no server to preview on''))
     | Some serverID \<Rightarrow>
         bind (enqueuePreview D serviceID serverID [] prNumber 0 [] [] webhookActor) (\<lambda>dep. ret (dep_ID dep)))))"

definition TeardownPreviewForPR :: "deps \<Rightarrow> string \<Rightarrow> int \<Rightarrow> unit m" where
  "TeardownPreviewForPR D serviceID prNumber =
     check (id_Parse D serviceID) (InvalidInput ''a valid service_id is required'')
    (check (prNumber > 0) (InvalidInput ''a valid pull request number is required'')
    (let routeKey = previewRouteKey serviceID prNumber [] in
     bind (map_err (Internalf ''teardown pr preview'') (LatestActivePreviewByRouteKey serviceID routeKey)) (\<lambda>found.
     case found of
       None \<Rightarrow> ret ()
     | Some dep \<Rightarrow>
         map_err (mapErr ''teardown pr preview'')
           (bind (WithinTx
             (bind (InsertTeardownJob (newTeardown dep routeKey))
               (\<lambda>created. bind (audit_Record ''deployment.teardown'' ''deployment'' (dep_ID dep) (dep_WorkspaceID dep) webhookActor)
                 (\<lambda>_. ret created)))) (\<lambda>_. ret ())))))"

section \<open>Expiry\<close>

definition expiryActor :: string where
  "expiryActor = ''preview-expiry''"

definition expireOne :: "Deployment \<Rightarrow> TeardownJob m" where
  "expireOne dep =
     WithinTx
       (bind (InsertTeardownJob (newTeardown dep (routeKeyOr (dep_RouteKey dep) (dep_ServiceID dep))))
         (\<lambda>created. bind (audit_Record ''deployment.expire'' ''deployment'' (dep_ID dep) (dep_WorkspaceID dep) expiryActor)
           (\<lambda>_. ret created)))"

fun expireAll :: "Deployment list \<Rightarrow> int \<Rightarrow> int m" where
  "expireAll [] enqueued = ret enqueued"
| "expireAll (dep # deps) enqueued =
     bind (catch (bind (expireOne dep) (\<lambda>_. ret True)) (\<lambda>_. ret False)) (\<lambda>ok.
     expireAll deps (if ok then enqueued + 1 else enqueued))"

text \<open>\<open>time.Now\<close> of the control plane and \<open>now()\<close> of the database are one clock here.\<close>

definition ExpirePreviews :: "int \<Rightarrow> int m" where
  "ExpirePreviews ttl =
     (if ttl \<le> 0 then ret 0
      else (\<lambda>w. bind (map_err (Internalf ''expire previews'') (ListExpiredPreviews (now w - ttl)))
                  (\<lambda>expired. expireAll expired 0) w))"

end
