(* ===== verification/Demo.thy ===== *)
theory Demo
  imports Gateway
begin

text \<open>
  A concrete installation on which the properties are instantiated: one workspace with an owner and
  a viewer, a git and an image service in one environment, one server with a registered agent, a
  second workspace with a server of its own, and a few deployments.
\<close>

definition demo_deps :: deps where
  "demo_deps =
     \<lparr>uuid_Parse = (\<lambda>s. s \<noteq> []),
      bcrypt_Generate = (\<lambda>p. Inr (''$2a$'' @ replicate (length p) CHR ''x'')),
      opener_Open = (\<lambda>c. if c = ''sealed'' then Inr ''hunter2'' else Inl (Opaque ''cannot decrypt'')),
      gh_GetPullRequest = (\<lambda>tok owner repo n.
        if n = 7 then Inr \<lparr>gpr_Number = 7, gpr_State = ''open'', gpr_Title = ''Add login'',
          gpr_HTMLURL = ''https://github.com/acme/shop/pull/7'', gpr_HeadRef = ''login'', gpr_HeadSHA = ''abc''\<rparr>
        else Inl GitHubErrNotFound),
      sources_InstallationToken = (\<lambda>c. if c = ''conn'' then Inr (Some ''ghs_token'') else Inr None)\<rparr>"

definition demo_service :: "string \<Rightarrow> string \<Rightarrow> Service_row" where
  "demo_service i kind =
     \<lparr>rs_ID = i, rs_EnvironmentID = ''env'', rs_ProjectID = ''prj'', rs_WorkspaceID = ''ws'', rs_Name = i,
      rs_Slug = ''shop'', rs_SourceKind = kind, rs_ImageRef = ''nginx'', rs_TemplateID = [], rs_ConnectionID = None,
      rs_Provider = ''github'', rs_Owner = ''acme'', rs_Repo = ''shop'', rs_FullName = ''acme/shop'',
      rs_Branch = [], rs_DefaultBranch = ''main'', rs_IsPrivate = False, rs_HtmlUrl = [],
      rs_SourceAccess = ''public'', rs_ContainerPort = 8080, rs_Visibility = ''public'', rs_RouteUrl = [],
      rs_CreatedAt = 0, rs_UpdatedAt = 0\<rparr>"

definition demo_server :: "string \<Rightarrow> string \<Rightarrow> Server_row" where
  "demo_server i ws =
     \<lparr>sv_ID = i, sv_WorkspaceID = ws, sv_Name = i, sv_Slug = i, sv_CreatedAt = 0, sv_HostKeyFingerprint = []\<rparr>"

definition demo_agent :: "string \<Rightarrow> string \<Rightarrow> string \<Rightarrow> Agent_row" where
  "demo_agent i server credential =
     \<lparr>ag_ID = i, ag_ServerID = server, ag_WorkspaceID = ''ws'', ag_PublicKey = [],
      ag_CredentialHash = hashToken credential, ag_AgentVersion = ''1'', ag_LastSeenAt = None, ag_CreatedAt = 0,
      ag_DockerAvailable = None, ag_DockerVersion = [], ag_Os = [], ag_Arch = [], ag_CaddyAvailable = None,
      ag_CaddyRunning = False, ag_CaddyVersion = [], ag_DiskTotalBytes = 0, ag_DiskFreeBytes = 0,
      ag_MemTotalBytes = 0, ag_MemAvailableBytes = 0, ag_CpuCount = 0\<rparr>"

definition demo_config :: "string \<Rightarrow> string \<Rightarrow> string \<Rightarrow> string \<Rightarrow> ConfigEntry_row" where
  "demo_config typ scope k v =
     \<lparr>ce_ID = k @ scope, ce_Type = typ, ce_Scope = scope,
      ce_ServiceID = (if scope = ''service'' then Some ''git'' else None),
      ce_EnvironmentID = (if scope = ''service'' then None else Some ''env''), ce_Key = k,
      ce_Value = (if typ = ''secret'' then None else Some v),
      ce_Ciphertext = (if typ = ''secret'' then v else []), ce_CreatedAt = 0, ce_UpdatedAt = 0\<rparr>"

text \<open>A deployment of the git service on server \<open>srv\<close>.\<close>

definition demo_deployment :: "string \<Rightarrow> string \<Rightarrow> string \<Rightarrow> string \<Rightarrow> int \<Rightarrow> Deployment_row" where
  "demo_deployment i kind routeKey status createdAt =
     \<lparr>rd_ID = i, rd_EnvironmentID = ''env'', rd_ProjectID = ''prj'', rd_WorkspaceID = ''ws'', rd_ServerID = ''srv'',
      rd_ImageRef = [], rd_ContainerPort = 8080, rd_HostPort = 0, rd_ContainerID = [], rd_Status = status,
      rd_Message = [], rd_CreatedAt = createdAt, rd_UpdatedAt = createdAt, rd_SourceKind = ''git'',
      rd_SourceAccess = ''public'', rd_CloneUrl = ''https://github.com/acme/shop.git'', rd_GitRef = ''main'',
      rd_CommitSha = [], rd_BuiltImageRef = [], rd_RouteUrl = [], rd_ServiceID = ''git'', rd_RolledBackFrom = None,
      rd_Kind = kind, rd_RouteKey = routeKey, rd_PrNumber = 0, rd_PrUrl = [], rd_PreviewAuthUser = [],
      rd_PreviewAuthHash = []\<rparr>"

definition demo_db :: database where
  "demo_db =
     \<lparr>workspace_members =
        [\<lparr>wm_WorkspaceID = ''ws'', wm_UserID = ''alice'', wm_Role = RoleOwner, wm_CreatedAt = 0\<rparr>,
         \<lparr>wm_WorkspaceID = ''ws'', wm_UserID = ''bob'', wm_Role = RoleViewer, wm_CreatedAt = 0\<rparr>,
         \<lparr>wm_WorkspaceID = ''ws2'', wm_UserID = ''carol'', wm_Role = RoleOwner, wm_CreatedAt = 0\<rparr>],
      projects = [\<lparr>pj_ID = ''prj'', pj_WorkspaceID = ''ws'', pj_Name = ''shop'', pj_Slug = ''shop'', pj_CreatedAt = 0\<rparr>],
      environments = [\<lparr>en_ID = ''env'', en_ProjectID = ''prj'', en_Name = ''prod'', en_Slug = ''prod'',
                       en_Type = ''production'', en_CreatedAt = 0\<rparr>],
      servers = [demo_server ''srv'' ''ws'', demo_server ''other'' ''ws2''],
      agents = [demo_agent ''agent'' ''srv'' ''cred''],
      agent_registration_tokens = [],
      services = [demo_service ''git'' ''git'', demo_service ''img'' ''image''],
      config_entries = [],
      domains = [],
      deployments = [],
      deployment_events = [],
      teardown_jobs = [],
      audit_events = [],
      users =
        [\<lparr>us_ID = ''alice'', us_Email = ''alice@acme.io'', us_CreatedAt = 0, us_PasswordHash = None, us_EmailVerified = True\<rparr>,
         \<lparr>us_ID = ''bob'', us_Email = ''bob@acme.io'', us_CreatedAt = 0, us_PasswordHash = None, us_EmailVerified = True\<rparr>,
         \<lparr>us_ID = ''carol'', us_Email = ''carol@other.io'', us_CreatedAt = 0, us_PasswordHash = None, us_EmailVerified = True\<rparr>],
      workspaces =
        [\<lparr>wk_ID = ''ws'', wk_Name = ''acme'', wk_Slug = ''acme'', wk_CreatedAt = 0\<rparr>,
         \<lparr>wk_ID = ''ws2'', wk_Name = ''other'', wk_Slug = ''other'', wk_CreatedAt = 0\<rparr>],
      sessions = [],
      api_tokens = [],
      user_tokens = [],
      backups = [],
      restore_jobs = [],
      source_connections = []\<rparr>"

definition demo_world :: "Deployment_row list \<Rightarrow> world" where
  "demo_world deps =
     \<lparr>db = demo_db\<lparr>deployments := deps\<rparr>, ops = 0, faults = (\<lambda>_. False),
      uuids = (\<lambda>n. ''uuid-'' @ nat_digits n), next_uuid = 0, next_seq = 1, now = 100\<rparr>"

lemmas demo_defs = demo_deps_def demo_world_def demo_db_def demo_service_def demo_server_def demo_agent_def
  demo_config_def demo_deployment_def

text \<open>Execution of a handler on a concrete world, statement by statement.\<close>

lemmas exec_defs = run_defs Let_def absent_ok_def map_m_def store_reads db_CreateDeployment_def
  db_CreateDeploymentFromGit_def db_CreatePreviewDeployment_def deployment_ok_def deployment_fks_def
  deployment_statuses_def deployment_defaults_def put_deployment_def audit_Record_def audit_Insert_def
  db_CreateAuditEvent_def fresh_uuid_def id_Parse_def Authorize_def IsAuthenticated_def RoleForUser_def
  db_GetWorkspaceMemberRole_def permissions_def owner_actions_def viewer_actions_def buildableAccess_def
  nullableID_def

abbreviation alice :: Principal where
  "alice \<equiv> \<lparr>UserID = ''alice'', pr_Method = MethodSession\<rparr>"

abbreviation bob :: Principal where
  "bob \<equiv> \<lparr>UserID = ''bob'', pr_Method = MethodSession\<rparr>"

end
