(* ===== verification/Dashboard.thy ===== *)
theory Dashboard
  imports Demo
begin

text \<open>
  Correctness of the dashboard's operations on deployments: what each of them writes and for whom,
  and that nothing is written when it fails.
\<close>

section \<open>Inserts\<close>

text \<open>A deployment that nobody has claimed yet, created now.\<close>

definition fresh_deployment :: "world \<Rightarrow> Deployment_row \<Rightarrow> bool" where
  "fresh_deployment w r \<longleftrightarrow>
     rd_Status r = StatusQueued \<and> rd_HostPort r = 0 \<and> rd_ContainerID r = [] \<and> rd_Message r = [] \<and>
     rd_CommitSha r = [] \<and> rd_BuiltImageRef r = [] \<and> rd_RouteUrl r = [] \<and>
     rd_CreatedAt r = now w \<and> rd_UpdatedAt r = now w \<and> rd_ID r \<notin> rd_ID ` set (deployments (db w))"

lemma InsertDeployment_row:
  assumes "InsertDeployment n w = (Inr dep, w')"
  obtains r where "dep = deploymentFromRow r" and "fresh_deployment w r" and "deployment_ok (db w) r"
    and "db w' = put_deployment r (db w)"
    and "rd_ServiceID r = nd_ServiceID n" "rd_RouteKey r = nd_ServiceID n" "rd_EnvironmentID r = nd_EnvironmentID n"
      "rd_ProjectID r = nd_ProjectID n" "rd_WorkspaceID r = nd_WorkspaceID n" "rd_ServerID r = nd_ServerID n"
      "rd_ImageRef r = nd_ImageRef n" "rd_ContainerPort r = nd_ContainerPort n" "rd_Kind r = KindProduction"
      "rd_SourceKind r = SourceImage" "rd_RolledBackFrom r = nullableID (nd_RolledBackFrom n)"
      "rd_PreviewAuthUser r = []" "rd_PreviewAuthHash r = []" "rd_CloneUrl r = []" "rd_GitRef r = []"
      "rd_SourceAccess r = []" "rd_PrNumber r = 0"
proof -
  from assms obtain r where r: "db_CreateDeployment (nd_ServiceID n) (nd_ServiceID n) (nd_EnvironmentID n)
      (nd_ProjectID n) (nd_WorkspaceID n) (nd_ServerID n) (nd_ImageRef n) (nd_ContainerPort n)
      (nullableID (nd_RolledBackFrom n)) w = (Inr r, w')" and dep: "dep = deploymentFromRow r"
    by (auto simp: InsertDeployment_def succ_iff)
  then show ?thesis
    by (intro that [of r])
       (auto simp: db_CreateDeployment_def succ_iff deployment_defaults_def fresh_deployment_def
          deployment_ok_def)
qed

lemma InsertDeploymentFromGit_row:
  assumes "InsertDeploymentFromGit n w = (Inr dep, w')"
  obtains r where "dep = deploymentFromRow r" and "fresh_deployment w r" and "deployment_ok (db w) r"
    and "db w' = put_deployment r (db w)"
    and "rd_ServiceID r = ng_ServiceID n" "rd_RouteKey r = ng_ServiceID n" "rd_EnvironmentID r = ng_EnvironmentID n"
      "rd_ProjectID r = ng_ProjectID n" "rd_WorkspaceID r = ng_WorkspaceID n" "rd_ServerID r = ng_ServerID n"
      "rd_CloneUrl r = ng_CloneURL n" "rd_GitRef r = ng_GitRef n" "rd_SourceAccess r = ng_SourceAccess n"
      "rd_ContainerPort r = ng_ContainerPort n" "rd_Kind r = KindProduction"
      "rd_SourceKind r = SourceGit" "rd_RolledBackFrom r = nullableID (ng_RolledBackFrom n)"
      "rd_PreviewAuthUser r = []" "rd_PreviewAuthHash r = []" "rd_ImageRef r = []" "rd_PrNumber r = 0"
proof -
  from assms obtain r where r: "db_CreateDeploymentFromGit (ng_ServiceID n) (ng_ServiceID n) (ng_EnvironmentID n)
      (ng_ProjectID n) (ng_WorkspaceID n) (ng_ServerID n) (ng_ContainerPort n) (ng_SourceAccess n) (ng_CloneURL n)
      (ng_GitRef n) (nullableID (ng_RolledBackFrom n)) w = (Inr r, w')" and dep: "dep = deploymentFromRow r"
    by (auto simp: InsertDeploymentFromGit_def succ_iff)
  then show ?thesis
    by (intro that [of r])
       (auto simp: db_CreateDeploymentFromGit_def succ_iff deployment_defaults_def fresh_deployment_def
          deployment_ok_def)
qed

lemma InsertPreviewDeployment_row:
  assumes "InsertPreviewDeployment n w = (Inr dep, w')"
  obtains r where "dep = deploymentFromRow r" and "fresh_deployment w r" and "deployment_ok (db w) r"
    and "db w' = put_deployment r (db w)"
    and "rd_ServiceID r = np_ServiceID n" "rd_RouteKey r = np_RouteKey n" "rd_EnvironmentID r = np_EnvironmentID n"
      "rd_ProjectID r = np_ProjectID n" "rd_WorkspaceID r = np_WorkspaceID n" "rd_ServerID r = np_ServerID n"
      "rd_CloneUrl r = np_CloneURL n" "rd_GitRef r = np_GitRef n" "rd_SourceAccess r = np_SourceAccess n"
      "rd_ContainerPort r = np_ContainerPort n" "rd_Kind r = KindPreview" "rd_SourceKind r = SourceGit"
      "rd_RolledBackFrom r = None" "rd_PrNumber r = np_PRNumber n" "rd_PrUrl r = np_PRURL n"
      "rd_PreviewAuthUser r = np_AuthUser n" "rd_PreviewAuthHash r = np_AuthHash n" "rd_ImageRef r = []"
proof -
  from assms obtain r where r: "db_CreatePreviewDeployment (np_ServiceID n) (np_RouteKey n) (np_EnvironmentID n)
      (np_ProjectID n) (np_WorkspaceID n) (np_ServerID n) (np_ContainerPort n) (np_SourceAccess n) (np_CloneURL n)
      (np_GitRef n) (np_PRNumber n) (np_PRURL n) (np_AuthUser n) (np_AuthHash n) w = (Inr r, w')"
    and dep: "dep = deploymentFromRow r"
    by (auto simp: InsertPreviewDeployment_def succ_iff)
  then show ?thesis
    by (intro that [of r])
       (auto simp: db_CreatePreviewDeployment_def succ_iff deployment_defaults_def fresh_deployment_def
          deployment_ok_def)
qed

section \<open>What is deployed\<close>

text \<open>The git ref of a deployment: the requested one, else the service's branch, else the
  repository's default branch.\<close>

definition ref_of :: "Service_row \<Rightarrow> string \<Rightarrow> string" where
  "ref_of svc requested =
     (if strings_TrimSpace requested \<noteq> [] then strings_TrimSpace requested
      else if rs_Branch svc \<noteq> [] then rs_Branch svc else rs_DefaultBranch svc)"

definition production_of :: "Service_row \<Rightarrow> string \<Rightarrow> int \<Rightarrow> string \<Rightarrow> Deployment_row \<Rightarrow> bool" where
  "production_of svc serverID port gitRef r \<longleftrightarrow>
     rd_Kind r = KindProduction \<and> rd_ServiceID r = rs_ID svc \<and> rd_RouteKey r = rs_ID svc \<and>
     rd_EnvironmentID r = rs_EnvironmentID svc \<and> rd_ProjectID r = rs_ProjectID svc \<and>
     rd_WorkspaceID r = rs_WorkspaceID svc \<and> rd_ServerID r = serverID \<and> rd_RolledBackFrom r = None \<and>
     rd_PreviewAuthUser r = [] \<and> rd_PreviewAuthHash r = [] \<and>
     rd_ContainerPort r = (if port > 0 then port else rs_ContainerPort svc) \<and>
     (if rs_SourceKind svc = SourceGit
      then rd_SourceKind r = SourceGit \<and> rs_SourceAccess svc \<in> {''public'', ''app''} \<and>
           rd_CloneUrl r = ''https://github.com/'' @ rs_Owner svc @ ''/'' @ rs_Repo svc @ ''.git'' \<and>
           rd_GitRef r = ref_of svc gitRef
      else rd_SourceKind r = SourceImage \<and> validateImageRef (rs_ImageRef svc) = Inr (rd_ImageRef r) \<and>
           1 \<le> rd_ContainerPort r \<and> rd_ContainerPort r \<le> 65535)"

lemma buildAndInsert_row:
  assumes "buildAndInsert (rs_ID svc) (serviceForDeployFromRow svc) serverID port gitRef w = (Inr dep, w')"
  obtains r where "dep = deploymentFromRow r" and "fresh_deployment w r" and "deployment_ok (db w) r"
    and "db w' = put_deployment r (db w)" and "production_of svc serverID port gitRef r"
proof (cases "rs_SourceKind svc = SourceGit")
  case True
  with assms obtain n where "InsertDeploymentFromGit n w = (Inr dep, w')"
    and n: "buildableAccess (rs_SourceAccess svc)"
      "ng_ServiceID n = rs_ID svc" "ng_EnvironmentID n = rs_EnvironmentID svc" "ng_ProjectID n = rs_ProjectID svc"
      "ng_WorkspaceID n = rs_WorkspaceID svc" "ng_ServerID n = serverID"
      "ng_ContainerPort n = (if port > 0 then port else rs_ContainerPort svc)"
      "ng_CloneURL n = ''https://github.com/'' @ rs_Owner svc @ ''/'' @ rs_Repo svc @ ''.git''"
      "ng_GitRef n = ref_of svc gitRef" "ng_RolledBackFrom n = []"
    by (auto simp: buildAndInsert_def Let_def check_succ cloneURLFor_def ref_of_def)
  then show ?thesis
    by (elim InsertDeploymentFromGit_row, intro that)
       (auto simp: production_of_def True buildableAccess_def nullableID_def)
next
  case False
  with assms obtain n where "InsertDeployment n w = (Inr dep, w')"
    and n: "validateImageRef (rs_ImageRef svc) = Inr (nd_ImageRef n)" "1 \<le> nd_ContainerPort n" "nd_ContainerPort n \<le> 65535"
      "nd_ServiceID n = rs_ID svc" "nd_EnvironmentID n = rs_EnvironmentID svc" "nd_ProjectID n = rs_ProjectID svc"
      "nd_WorkspaceID n = rs_WorkspaceID svc" "nd_ServerID n = serverID"
      "nd_ContainerPort n = (if port > 0 then port else rs_ContainerPort svc)" "nd_RolledBackFrom n = []"
    by (auto simp: buildAndInsert_def Let_def check_succ lift_succ bind_succ split: if_splits)
  then show ?thesis
    by (elim InsertDeployment_row, intro that)
       (auto simp: production_of_def False nullableID_def)
qed

section \<open>Properties\<close>

text \<open>What \<open>CreateForService\<close> did when it returns a deployment.\<close>

lemma CreateForService_run:
  assumes "CreateForService D caller inp w = (Inr dep, w')"
  obtains svc srv r a where
    "find (\<lambda>r. rs_ID r = cs_ServiceID inp) (services (db w)) = Some svc"
    and "find (\<lambda>r. sv_ID r = cs_ServerID inp) (servers (db w)) = Some srv"
    and "sv_WorkspaceID srv = rs_WorkspaceID svc"
    and "permitted (db w) caller ActionDeploymentCreate (rs_WorkspaceID svc)"
    and "production_of svc (cs_ServerID inp) (cs_ContainerPort inp) (cs_GitRef inp) r"
    and "fresh_deployment w r" and "deployment_ok (db w) r" and "dep = deploymentFromRow r"
    and "audit_row_of ''deployment.create'' ''deployment'' (rd_ID r) (rs_WorkspaceID svc) (UserID caller) a"
    and "db w' = (db w)\<lparr>deployments := deployments (db w) @ [r], audit_events := audit_events (db w) @ [a]\<rparr>"
proof -
  let ?act = "bind (store_ServiceForDeploy (cs_ServiceID inp)) (\<lambda>svc.
      case svc of None \<Rightarrow> fail (serviceNotFound (cs_ServiceID inp))
      | Some svc \<Rightarrow> buildAndInsert (cs_ServiceID inp) svc (cs_ServerID inp) (cs_ContainerPort inp) (cs_GitRef inp))"
  from assms obtain svc srv n where
    svc: "find (\<lambda>r. rs_ID r = cs_ServiceID inp) (services (db w)) = Some svc" and
    srv: "find (\<lambda>r. sv_ID r = cs_ServerID inp) (servers (db w)) = Some srv" "sv_WorkspaceID srv = rs_WorkspaceID svc" and
    auth: "permitted (db w) caller ActionDeploymentCreate (rs_WorkspaceID svc)" and
    tx: "WithinTx (bind ?act (\<lambda>x. bind (audit_Record ''deployment.create'' ''deployment'' (dep_ID x)
           (rs_WorkspaceID svc) (UserID caller)) (\<lambda>_. ret x))) (w\<lparr>ops := n\<rparr>) = (Inr dep, w')"
    by (auto simp: CreateForService_def store_succ check_succ bind_succ map_err_succ Authorize_succ
          split: option.splits)
  from tx obtain w2 a where act: "?act (w\<lparr>ops := Suc n\<rparr>) = (Inr dep, w2)" and
    a: "audit_row_of ''deployment.create'' ''deployment'' (dep_ID dep) (rs_WorkspaceID svc) (UserID caller) a" and
    db': "db w' = (db w2)\<lparr>audit_events := audit_events (db w2) @ [a]\<rparr>"
    by (rule trail.audited_tx_success) simp
  define w0 where "w0 = w\<lparr>ops := Suc (Suc n)\<rparr>"
  from act svc have "buildAndInsert (cs_ServiceID inp) (serviceForDeployFromRow svc) (cs_ServerID inp)
      (cs_ContainerPort inp) (cs_GitRef inp) w0 = (Inr dep, w2)"
    by (auto simp: store_succ bind_succ w0_def)
  moreover from svc have "cs_ServiceID inp = rs_ID svc" by (auto dest: find_service)
  ultimately obtain r where r: "dep = deploymentFromRow r" "fresh_deployment w0 r" "deployment_ok (db w) r"
      "db w2 = put_deployment r (db w)"
      "production_of svc (cs_ServerID inp) (cs_ContainerPort inp) (cs_GitRef inp) r"
    by (auto simp: w0_def elim: buildAndInsert_row)
  show ?thesis
    using svc srv auth r a
    by (intro that [of svc srv r a]) (simp_all add: db' put_deployment_def fresh_deployment_def w0_def)
qed

text \<open>C2: what \<open>CreateForService\<close> does when it returns a deployment. The caller may deploy in the
  service's workspace, the server belongs to that same workspace, and the database gained exactly
  two rows, together: a queued production deployment that describes the service's current source,
  and the audit row that names the caller and the deployment.\<close>

theorem CreateForService_correct:
  assumes "CreateForService D caller inp w = (Inr dep, w')"
  shows "\<exists>svc srv r a.
     svc \<in> set (services (db w)) \<and> rs_ID svc = cs_ServiceID inp \<and>
     srv \<in> set (servers (db w)) \<and> sv_ID srv = cs_ServerID inp \<and> sv_WorkspaceID srv = rs_WorkspaceID svc \<and>
     permitted (db w) caller ActionDeploymentCreate (rs_WorkspaceID svc) \<and>
     production_of svc (cs_ServerID inp) (cs_ContainerPort inp) (cs_GitRef inp) r \<and> fresh_deployment w r \<and>
     dep = deploymentFromRow r \<and>
     audit_row_of ''deployment.create'' ''deployment'' (rd_ID r) (rs_WorkspaceID svc) (UserID caller) a \<and>
     db w' = (db w)\<lparr>deployments := deployments (db w) @ [r], audit_events := audit_events (db w) @ [a]\<rparr>"
  using assms by (rule CreateForService_run) (use find_service find_server in blast)

theorem CreateForService_correct_witness:
  "\<exists>dep w'. CreateForService demo_deps alice
      \<lparr>cs_ServiceID = ''git'', cs_ServerID = ''srv'', cs_ContainerPort = 0, cs_GitRef = '' dev ''\<rparr>
      (demo_world []) = (Inr dep, w') \<and>
   (\<exists>r a. deployments (db w') = [r] \<and> audit_events (db w') = [a] \<and> rd_GitRef r = ''dev'' \<and>
      rd_Status r = StatusQueued \<and> ae_Actor a = ''alice'')"
proof -
  let ?inp = "\<lparr>cs_ServiceID = ''git'', cs_ServerID = ''srv'', cs_ContainerPort = 0, cs_GitRef = '' dev ''\<rparr>"
  obtain dep w' where run: "CreateForService demo_deps alice ?inp (demo_world []) = (Inr dep, w')"
    by (simp add: CreateForService_def buildAndInsert_def InsertDeploymentFromGit_def exec_defs demo_defs)
  from CreateForService_correct [OF run] obtain svc r a where
      "svc \<in> set (services (db (demo_world [])))" "rs_ID svc = ''git''"
      "production_of svc ''srv'' 0 '' dev '' r" "fresh_deployment (demo_world []) r"
      "audit_row_of ''deployment.create'' ''deployment'' (rd_ID r) (rs_WorkspaceID svc) ''alice'' a"
      "db w' = (db (demo_world []))\<lparr>deployments := deployments (db (demo_world [])) @ [r],
         audit_events := audit_events (db (demo_world [])) @ [a]\<rparr>"
    by auto
  moreover have "strings_TrimSpace '' dev '' = ''dev''" by code_simp
  ultimately show ?thesis
    by (intro exI [of _ dep] exI [of _ w'] conjI run exI [of _ r] exI [of _ a])
       (auto simp: demo_defs production_of_def fresh_deployment_def audit_row_of_def ref_of_def)
qed

section \<open>Rollback\<close>

definition rollback_of :: "Deployment_row \<Rightarrow> Deployment_row \<Rightarrow> bool" where
  "rollback_of t r \<longleftrightarrow>
     rd_RolledBackFrom r = nullableID (rd_ID t) \<and> rd_ServiceID r = rd_ServiceID t \<and> rd_ServerID r = rd_ServerID t \<and>
     rd_WorkspaceID r = rd_WorkspaceID t \<and> rd_EnvironmentID r = rd_EnvironmentID t \<and>
     rd_ProjectID r = rd_ProjectID t \<and> rd_ContainerPort r = rd_ContainerPort t \<and>
     rd_Kind r = KindProduction \<and> rd_RouteKey r = rd_ServiceID t \<and>
     (if rd_SourceKind t = SourceGit
      then rd_SourceKind r = SourceGit \<and> rd_CloneUrl r = rd_CloneUrl t \<and> rd_SourceAccess r = rd_SourceAccess t \<and>
           rd_GitRef r = (if rd_CommitSha t \<noteq> [] then rd_CommitSha t else rd_GitRef t)
      else rd_SourceKind r = SourceImage \<and> validateImageRef (rd_ImageRef t) = Inr (rd_ImageRef r))"

lemma insertRollback_row:
  assumes "insertRollback (deploymentFromRow t) w = (Inr dep, w')"
  obtains r where "dep = deploymentFromRow r" and "fresh_deployment w r" and "deployment_ok (db w) r"
    and "db w' = put_deployment r (db w)" and "rollback_of t r"
proof (cases "rd_SourceKind t = SourceGit")
  case True
  with assms that show ?thesis
    by (auto simp: insertRollback_def Let_def rollback_of_def elim!: InsertDeploymentFromGit_row)
next
  case False
  with assms that show ?thesis
    by (auto simp: insertRollback_def bind_succ lift_succ rollback_of_def elim!: InsertDeployment_row)
qed

lemma RollbackToDeployment_run:
  assumes "RollbackToDeployment D caller i w = (Inr dep, w')"
  obtains t r a where
    "find (\<lambda>r. rd_ID r = i) (deployments (db w)) = Some t" and "rd_Status t \<in> {StatusRunning, StatusSuperseded}"
    and "permitted (db w) caller ActionDeploymentCreate (rd_WorkspaceID t)"
    and "rollback_of t r" and "fresh_deployment w r" and "deployment_ok (db w) r" and "dep = deploymentFromRow r"
    and "audit_row_of ''deployment.rollback'' ''deployment'' (rd_ID r) (rd_WorkspaceID t) (UserID caller) a"
    and "db w' = (db w)\<lparr>deployments := deployments (db w) @ [r], audit_events := audit_events (db w) @ [a]\<rparr>"
proof -
  from assms obtain t n where
    t: "find (\<lambda>r. rd_ID r = i) (deployments (db w)) = Some t" "rd_Status t \<in> {StatusRunning, StatusSuperseded}" and
    auth: "permitted (db w) caller ActionDeploymentCreate (rd_WorkspaceID t)" and
    tx: "WithinTx (bind (insertRollback (deploymentFromRow t)) (\<lambda>x. bind (audit_Record ''deployment.rollback'' ''deployment''
          (dep_ID x) (rd_WorkspaceID t) (UserID caller)) (\<lambda>_. ret x))) (w\<lparr>ops := n\<rparr>) = (Inr dep, w')"
    by (auto simp: RollbackToDeployment_def store_succ check_succ bind_succ map_err_succ Authorize_succ
          split: option.splits)
  from tx obtain w2 a where act: "insertRollback (deploymentFromRow t) (w\<lparr>ops := Suc n\<rparr>) = (Inr dep, w2)" and
    a: "audit_row_of ''deployment.rollback'' ''deployment'' (dep_ID dep) (rd_WorkspaceID t) (UserID caller) a" and
    db': "db w' = (db w2)\<lparr>audit_events := audit_events (db w2) @ [a]\<rparr>"
    by (rule trail.audited_tx_success) simp
  from act obtain r where r: "dep = deploymentFromRow r" "fresh_deployment (w\<lparr>ops := Suc n\<rparr>) r" "deployment_ok (db w) r"
      "db w2 = put_deployment r (db w)" "rollback_of t r"
    by (elim insertRollback_row) simp
  show ?thesis
    using t auth r a by (intro that [of t r a]) (simp_all add: db' put_deployment_def fresh_deployment_def)
qed

text \<open>What a successful rollback writes. Its target is a deployment that has run
  (\<open>running\<close> or \<open>superseded\<close>) in a workspace where the caller may deploy. The new
  queued deployment runs on the target's server, for the target's service and tenant, records where
  it came from, and pins the exact commit that was built when the target recorded one (the image
  reference for an image deployment); it commits with its audit row.\<close>

theorem RollbackToDeployment_correct:
  assumes "RollbackToDeployment D caller i w = (Inr dep, w')"
  shows "\<exists>t r a.
     t \<in> set (deployments (db w)) \<and> rd_ID t = i \<and> rd_Status t \<in> {StatusRunning, StatusSuperseded} \<and>
     permitted (db w) caller ActionDeploymentCreate (rd_WorkspaceID t) \<and>
     rollback_of t r \<and> fresh_deployment w r \<and> dep = deploymentFromRow r \<and>
     audit_row_of ''deployment.rollback'' ''deployment'' (rd_ID r) (rd_WorkspaceID t) (UserID caller) a \<and>
     db w' = (db w)\<lparr>deployments := deployments (db w) @ [r], audit_events := audit_events (db w) @ [a]\<rparr>"
  using assms by (rule RollbackToDeployment_run) (use find_deployment in blast)

end
