(* ===== verification/Previews.thy ===== *)
theory Previews
  imports Dashboard "HOL-Library.Sublist"
begin

text \<open>
  Correctness of branch and pull-request previews: creation from the dashboard and from the webhook,
  removal, and expiry.
\<close>

section \<open>Previews\<close>

definition preview_of :: "deps \<Rightarrow> Service_row \<Rightarrow> string \<Rightarrow> string \<Rightarrow> int \<Rightarrow> int \<Rightarrow> Deployment_row \<Rightarrow> bool" where
  "preview_of D svc serverID branch prNumber port r \<longleftrightarrow>
     rd_Kind r = KindPreview \<and> rd_SourceKind r = SourceGit \<and> rd_ServiceID r = rs_ID svc \<and>
     rd_EnvironmentID r = rs_EnvironmentID svc \<and> rd_ProjectID r = rs_ProjectID svc \<and>
     rd_WorkspaceID r = rs_WorkspaceID svc \<and> rd_ServerID r = serverID \<and> rd_RolledBackFrom r = None \<and>
     rd_CloneUrl r = ''https://github.com/'' @ rs_Owner svc @ ''/'' @ rs_Repo svc @ ''.git'' \<and>
     rd_ContainerPort r = (if port > 0 then port else rs_ContainerPort svc) \<and>
     rd_PrNumber r = prNumber \<and> rd_RouteKey r = previewRouteKey (rs_ID svc) prNumber (rd_GitRef r) \<and>
     (if prNumber > 0
      then \<exists>pr. gh_GetPullRequest D [] (rs_Owner svc) (rs_Repo svc) prNumber = Inr pr \<and>
                rd_GitRef r = gpr_HeadRef pr \<and> rd_GitRef r \<noteq> [] \<and> rd_PrUrl r = gpr_HTMLURL pr
      else rd_GitRef r = branch \<and> rd_PrUrl r = [])"

lemma enqueuePreview_row:
  assumes "enqueuePreview D serviceID serverID branch prNumber port password passwordUser actor w = (Inr dep, w')"
  obtains svc r a where
    "find (\<lambda>r. rs_ID r = serviceID) (services (db w)) = Some svc"
    and "rs_SourceKind svc = SourceGit" and "buildableAccess (rs_SourceAccess svc)"
    and "preview_of D svc serverID branch prNumber port r" and "fresh_deployment w r" and "deployment_ok (db w) r"
    and "hashPreviewPassword (bcrypt_Generate D) password passwordUser = Inr (rd_PreviewAuthUser r, rd_PreviewAuthHash r)"
    and "dep = deploymentFromRow r"
    and "audit_row_of ''deployment.preview'' ''deployment'' (rd_ID r) (rs_WorkspaceID svc) actor a"
    and "db w' = (db w)\<lparr>deployments := deployments (db w) @ [r], audit_events := audit_events (db w) @ [a]\<rparr>"
proof -
  from assms obtain svc gitRef prURL authUser authHash n p where
    svc: "find (\<lambda>r. rs_ID r = serviceID) (services (db w)) = Some svc" and
    src: "rs_SourceKind svc = SourceGit" "buildableAccess (rs_SourceAccess svc)" and
    ref: "if prNumber > 0
      then \<exists>pr. gh_GetPullRequest D [] (rs_Owner svc) (rs_Repo svc) prNumber = Inr pr \<and>
                gitRef = gpr_HeadRef pr \<and> gitRef \<noteq> [] \<and> prURL = gpr_HTMLURL pr
      else gitRef = branch \<and> prURL = []" and
    hash: "hashPreviewPassword (bcrypt_Generate D) password passwordUser = Inr (authUser, authHash)" and
    p: "p = \<lparr>np_ServiceID = serviceID, np_RouteKey = previewRouteKey serviceID prNumber gitRef,
        np_EnvironmentID = rs_EnvironmentID svc, np_ProjectID = rs_ProjectID svc,
        np_WorkspaceID = rs_WorkspaceID svc, np_ServerID = serverID,
        np_ContainerPort = (if port > 0 then port else rs_ContainerPort svc),
        np_SourceAccess = rs_SourceAccess svc,
        np_CloneURL = ''https://github.com/'' @ rs_Owner svc @ ''/'' @ rs_Repo svc @ ''.git'',
        np_GitRef = gitRef, np_PRNumber = prNumber, np_PRURL = prURL, np_AuthUser = authUser, np_AuthHash = authHash\<rparr>" and
    tx: "WithinTx (bind (InsertPreviewDeployment p)
           (\<lambda>x. bind (audit_Record ''deployment.preview'' ''deployment'' (dep_ID x) (rs_WorkspaceID svc) actor)
             (\<lambda>_. ret x))) (w\<lparr>ops := n\<rparr>) = (Inr dep, w')"
    by (auto simp: enqueuePreview_def store_succ bind_succ map_err_succ check_succ lift_succ Let_def cloneURLFor_def
          sum.map_id split: option.splits if_splits elim!: map_sum_InrE)
  from tx obtain w2 a where act: "InsertPreviewDeployment p (w\<lparr>ops := Suc n\<rparr>) = (Inr dep, w2)" and
    a: "audit_row_of ''deployment.preview'' ''deployment'' (dep_ID dep) (rs_WorkspaceID svc) actor a" and
    db': "db w' = (db w2)\<lparr>audit_events := audit_events (db w2) @ [a]\<rparr>"
    by (rule trail.audited_tx_success) simp
  from act obtain r where r: "dep = deploymentFromRow r" "fresh_deployment (w\<lparr>ops := Suc n\<rparr>) r"
      "deployment_ok (db w) r" "db w2 = put_deployment r (db w)" "preview_of D svc serverID branch prNumber port r"
      "rd_PreviewAuthUser r = authUser" "rd_PreviewAuthHash r = authHash"
    using ref find_service [OF svc]
    by (elim InsertPreviewDeployment_row) (auto simp: p preview_of_def)
  show ?thesis
    using svc src r a hash
    by (intro that [of svc r a]) (simp_all add: db' put_deployment_def fresh_deployment_def)
qed

lemma CreatePreview_run:
  assumes "CreatePreview D caller inp w = (Inr dep, w')"
  obtains svc srv r a where
    "find (\<lambda>r. rs_ID r = cp_ServiceID inp) (services (db w)) = Some svc"
    and "find (\<lambda>r. sv_ID r = cp_ServerID inp) (servers (db w)) = Some srv"
    and "sv_WorkspaceID srv = rs_WorkspaceID svc"
    and "permitted (db w) caller ActionDeploymentCreate (rs_WorkspaceID svc)"
    and "(strings_TrimSpace (cp_Branch inp) = []) \<noteq> (cp_PRNumber inp \<le> 0)"
    and "rs_SourceKind svc = SourceGit"
    and "preview_of D svc (cp_ServerID inp) (strings_TrimSpace (cp_Branch inp)) (cp_PRNumber inp) (cp_ContainerPort inp) r"
    and "fresh_deployment w r" and "deployment_ok (db w) r" and "dep = deploymentFromRow r"
    and "hashPreviewPassword (bcrypt_Generate D) (cp_Password inp) (cp_PasswordUser inp) =
           Inr (rd_PreviewAuthUser r, rd_PreviewAuthHash r)"
    and "audit_row_of ''deployment.preview'' ''deployment'' (rd_ID r) (rs_WorkspaceID svc) (UserID caller) a"
    and "db w' = (db w)\<lparr>deployments := deployments (db w) @ [r], audit_events := audit_events (db w) @ [a]\<rparr>"
proof -
  from assms obtain svc srv n where
    svc: "find (\<lambda>r. rs_ID r = cp_ServiceID inp) (services (db w)) = Some svc" and
    srv: "find (\<lambda>r. sv_ID r = cp_ServerID inp) (servers (db w)) = Some srv" "sv_WorkspaceID srv = rs_WorkspaceID svc" and
    auth: "permitted (db w) caller ActionDeploymentCreate (rs_WorkspaceID svc)" and
    one: "(strings_TrimSpace (cp_Branch inp) = []) \<noteq> (cp_PRNumber inp \<le> 0)" and
    enq: "enqueuePreview D (cp_ServiceID inp) (cp_ServerID inp) (strings_TrimSpace (cp_Branch inp)) (cp_PRNumber inp)
       (cp_ContainerPort inp) (cp_Password inp) (cp_PasswordUser inp) (UserID caller) (w\<lparr>ops := n\<rparr>) = (Inr dep, w')"
    unfolding CreatePreview_def Let_def
    by (auto simp: store_succ check_succ bind_succ map_err_succ Authorize_succ split: option.splits)
  from enq show ?thesis
  proof (rule enqueuePreview_row)
    fix svc' r a
    assume "find (\<lambda>r. rs_ID r = cp_ServiceID inp) (services (db (w\<lparr>ops := n\<rparr>))) = Some svc'"
    with svc have "svc' = svc" by simp
    moreover assume "rs_SourceKind svc' = SourceGit" "fresh_deployment (w\<lparr>ops := n\<rparr>) r"
      "preview_of D svc' (cp_ServerID inp) (strings_TrimSpace (cp_Branch inp)) (cp_PRNumber inp) (cp_ContainerPort inp) r"
      "deployment_ok (db (w\<lparr>ops := n\<rparr>)) r" "dep = deploymentFromRow r"
      "hashPreviewPassword (bcrypt_Generate D) (cp_Password inp) (cp_PasswordUser inp) =
           Inr (rd_PreviewAuthUser r, rd_PreviewAuthHash r)"
      "audit_row_of ''deployment.preview'' ''deployment'' (rd_ID r) (rs_WorkspaceID svc') (UserID caller) a"
      "db w' = (db (w\<lparr>ops := n\<rparr>))\<lparr>deployments := deployments (db (w\<lparr>ops := n\<rparr>)) @ [r],
         audit_events := audit_events (db (w\<lparr>ops := n\<rparr>)) @ [a]\<rparr>"
    ultimately show ?thesis
      using svc srv auth one by (intro that [of svc srv r a]) (simp_all add: fresh_deployment_def)
  qed
qed

text \<open>C12: what \<open>CreatePreview\<close> does when it returns a deployment. Exactly one of a branch and a
  pull request was named, the caller may deploy in the workspace that owns both the service and the
  server, and the only writes are a queued preview of that ref (its head branch for a pull request)
  and its audit row. The preview has a route key of its own, never production's, and a password is
  stored only as its bcrypt hash.\<close>

theorem CreatePreview_correct:
  assumes "CreatePreview D caller inp w = (Inr dep, w')"
  shows "\<exists>svc srv r a.
     svc \<in> set (services (db w)) \<and> rs_ID svc = cp_ServiceID inp \<and>
     srv \<in> set (servers (db w)) \<and> sv_ID srv = cp_ServerID inp \<and> sv_WorkspaceID srv = rs_WorkspaceID svc \<and>
     permitted (db w) caller ActionDeploymentCreate (rs_WorkspaceID svc) \<and>
     (strings_TrimSpace (cp_Branch inp) = []) \<noteq> (cp_PRNumber inp \<le> 0) \<and>
     preview_of D svc (cp_ServerID inp) (strings_TrimSpace (cp_Branch inp)) (cp_PRNumber inp) (cp_ContainerPort inp) r \<and>
     rd_RouteKey r \<noteq> rs_ID svc \<and> fresh_deployment w r \<and> dep = deploymentFromRow r \<and>
     (if cp_Password inp = [] then rd_PreviewAuthHash r = []
      else bcrypt_Generate D (cp_Password inp) = Inr (rd_PreviewAuthHash r)) \<and>
     audit_row_of ''deployment.preview'' ''deployment'' (rd_ID r) (rs_WorkspaceID svc) (UserID caller) a \<and>
     db w' = (db w)\<lparr>deployments := deployments (db w) @ [r], audit_events := audit_events (db w) @ [a]\<rparr>"
  using assms
proof (rule CreatePreview_run)
  fix svc srv r a
  assume svc: "find (\<lambda>r. rs_ID r = cp_ServiceID inp) (services (db w)) = Some svc"
    and srv: "find (\<lambda>r. sv_ID r = cp_ServerID inp) (servers (db w)) = Some srv"
    and hash: "hashPreviewPassword (bcrypt_Generate D) (cp_Password inp) (cp_PasswordUser inp) =
           Inr (rd_PreviewAuthUser r, rd_PreviewAuthHash r)"
    and pv: "preview_of D svc (cp_ServerID inp) (strings_TrimSpace (cp_Branch inp)) (cp_PRNumber inp) (cp_ContainerPort inp) r"
    and rest: "sv_WorkspaceID srv = rs_WorkspaceID svc" "permitted (db w) caller ActionDeploymentCreate (rs_WorkspaceID svc)"
      "(strings_TrimSpace (cp_Branch inp) = []) \<noteq> (cp_PRNumber inp \<le> 0)" "fresh_deployment w r"
      "dep = deploymentFromRow r"
      "audit_row_of ''deployment.preview'' ''deployment'' (rd_ID r) (rs_WorkspaceID svc) (UserID caller) a"
      "db w' = (db w)\<lparr>deployments := deployments (db w) @ [r], audit_events := audit_events (db w) @ [a]\<rparr>"
  have "rd_RouteKey r \<noteq> rs_ID svc"
    using pv previewRouteKey_not_service by (auto simp: preview_of_def)
  moreover have "if cp_Password inp = [] then rd_PreviewAuthHash r = []
      else bcrypt_Generate D (cp_Password inp) = Inr (rd_PreviewAuthHash r)"
    using hash by (auto simp: hashPreviewPassword_def Let_def split: if_splits sum.splits)
  ultimately show ?thesis
    using find_service [OF svc] find_server [OF srv] pv rest
    by (intro exI [of _ svc] exI [of _ srv] exI [of _ r] exI [of _ a] conjI) auto
qed

theorem CreatePreview_correct_witness:
  "\<exists>dep w' r. CreatePreview demo_deps alice
      \<lparr>cp_ServiceID = ''git'', cp_ServerID = ''srv'', cp_Branch = [], cp_PRNumber = 7, cp_ContainerPort = 0,
       cp_Password = [], cp_PasswordUser = []\<rparr> (demo_world []) = (Inr dep, w') \<and>
   deployments (db w') = [r] \<and> rd_Kind r = KindPreview \<and> rd_GitRef r = ''login'' \<and> rd_RouteKey r \<noteq> ''git''"
proof -
  let ?inp = "\<lparr>cp_ServiceID = ''git'', cp_ServerID = ''srv'', cp_Branch = [], cp_PRNumber = 7, cp_ContainerPort = 0,
       cp_Password = [], cp_PasswordUser = []\<rparr>"
  have trim: "strings_TrimSpace [] = []" by code_simp
  obtain dep w' where run: "CreatePreview demo_deps alice ?inp (demo_world []) = (Inr dep, w')"
    by (simp add: CreatePreview_def enqueuePreview_def InsertPreviewDeployment_def hashPreviewPassword_def
          trim exec_defs demo_defs)
  from CreatePreview_correct [OF run] obtain svc r a where
    "svc \<in> set (services (db (demo_world [])))" "preview_of demo_deps svc ''srv'' [] 7 0 r" "rs_ID svc = ''git''"
    "rd_RouteKey r \<noteq> rs_ID svc" "db w' = (db (demo_world []))\<lparr>deployments := deployments (db (demo_world [])) @ [r],
         audit_events := audit_events (db (demo_world [])) @ [a]\<rparr>"
    by (auto simp: trim)
  then show ?thesis
    by (intro exI [of _ dep] exI [of _ w'] exI [of _ r] conjI run)
       (auto simp: demo_defs preview_of_def)
qed

section \<open>Teardown\<close>

text \<open>The job that removes the preview behind a deployment.\<close>

definition teardown_of :: "string \<Rightarrow> Deployment_row \<Rightarrow> TeardownJob_row \<Rightarrow> bool" where
  "teardown_of routeKey t r \<longleftrightarrow>
     rt_Status r = TeardownStatusQueued \<and> rt_DeploymentID r = rd_ID t \<and> rt_RouteKey r = routeKey \<and>
     rt_ServiceID r = rd_ServiceID t \<and> rt_EnvironmentID r = rd_EnvironmentID t \<and> rt_ProjectID r = rd_ProjectID t \<and>
     rt_WorkspaceID r = rd_WorkspaceID t \<and> rt_ServerID r = rd_ServerID t"

lemma teardownTx_row:
  assumes "WithinTx (bind (InsertTeardownJob (newTeardown (deploymentFromRow t) k))
      (\<lambda>x. bind (audit_Record act ''deployment'' (rd_ID t) (rd_WorkspaceID t) actor) (\<lambda>_. ret x))) w = (Inr job, w')"
  obtains r a where "job = teardownFromRow r" and "teardown_of k t r" and "teardown_ok (db w) r"
    and "audit_row_of act ''deployment'' (rd_ID t) (rd_WorkspaceID t) actor a"
    and "db w' = (db w)\<lparr>teardown_jobs := teardown_jobs (db w) @ [r], audit_events := audit_events (db w) @ [a]\<rparr>"
proof -
  from assms obtain w2 a where
    ins: "InsertTeardownJob (newTeardown (deploymentFromRow t) k) (w\<lparr>ops := Suc (ops w)\<rparr>) = (Inr job, w2)" and
    a: "audit_row_of act ''deployment'' (rd_ID t) (rd_WorkspaceID t) actor a" and
    db': "db w' = (db w2)\<lparr>audit_events := audit_events (db w2) @ [a]\<rparr>"
    by (rule trail.audited_tx_success [where idof = "\<lambda>_. rd_ID t"])
  from ins obtain r where r: "job = teardownFromRow r" "teardown_of k t r" "teardown_ok (db w) r"
      "db w2 = (db w)\<lparr>teardown_jobs := teardown_jobs (db w) @ [r]\<rparr>"
    by (auto simp: InsertTeardownJob_def newTeardown_def db_CreateTeardownJob_def succ_iff teardown_of_def)
  show ?thesis using r a by (intro that [of r a]) (simp_all add: db')
qed

lemma TeardownPreview_run:
  assumes "TeardownPreview D caller i w = (Inr job, w')"
  obtains t r a where
    "find (\<lambda>r. rd_ID r = i) (deployments (db w)) = Some t" and "rd_Kind t = KindPreview"
    and "permitted (db w) caller ActionDeploymentCreate (rd_WorkspaceID t)"
    and "teardown_of (routeKeyOr (rd_RouteKey t) (rd_ServiceID t)) t r" and "teardown_ok (db w) r"
    and "job = teardownFromRow r"
    and "audit_row_of ''deployment.teardown'' ''deployment'' (rd_ID t) (rd_WorkspaceID t) (UserID caller) a"
    and "db w' = (db w)\<lparr>teardown_jobs := teardown_jobs (db w) @ [r], audit_events := audit_events (db w) @ [a]\<rparr>"
proof -
  from assms obtain t n where
    t: "find (\<lambda>r. rd_ID r = i) (deployments (db w)) = Some t" "rd_Kind t = KindPreview" and
    auth: "permitted (db w) caller ActionDeploymentCreate (rd_WorkspaceID t)" and
    tx: "WithinTx (bind (InsertTeardownJob (newTeardown (deploymentFromRow t) (routeKeyOr (rd_RouteKey t) (rd_ServiceID t))))
      (\<lambda>x. bind (audit_Record ''deployment.teardown'' ''deployment'' (rd_ID t) (rd_WorkspaceID t) (UserID caller))
        (\<lambda>_. ret x))) (w\<lparr>ops := n\<rparr>) = (Inr job, w')"
    by (auto simp: TeardownPreview_def store_succ check_succ bind_succ map_err_succ Authorize_succ
          split: option.splits)
  from tx show ?thesis by (rule teardownTx_row) (use t auth that in auto)
qed

text \<open>What \<open>TeardownPreview\<close> does when it returns a job. The target is a preview (a
  production deployment is refused), the caller may deploy in its workspace, and the only writes
  are one queued job on the preview's own server for the preview's own route key, and its audit row.\<close>

theorem TeardownPreview_correct:
  assumes "TeardownPreview D caller i w = (Inr job, w')"
  shows "\<exists>t r a. t \<in> set (deployments (db w)) \<and> rd_ID t = i \<and> rd_Kind t = KindPreview \<and>
     permitted (db w) caller ActionDeploymentCreate (rd_WorkspaceID t) \<and>
     teardown_of (if rd_RouteKey t = [] then rd_ServiceID t else rd_RouteKey t) t r \<and> job = teardownFromRow r \<and>
     audit_row_of ''deployment.teardown'' ''deployment'' (rd_ID t) (rd_WorkspaceID t) (UserID caller) a \<and>
     db w' = (db w)\<lparr>teardown_jobs := teardown_jobs (db w) @ [r], audit_events := audit_events (db w) @ [a]\<rparr>"
  using assms by (rule TeardownPreview_run) (use find_deployment in \<open>fastforce simp: routeKeyOr_def\<close>)

section \<open>The webhook\<close>

lemma LatestServerForService_succ [succ_iff]:
  "LatestServerForService i w = (Inr x, w') \<longleftrightarrow> \<not> faults w (ops w) \<and> w' = w\<lparr>ops := Suc (ops w)\<rparr> \<and>
     x = map_option rd_ServerID (first_by (\<lambda>r. - rd_CreatedAt r) (\<lambda>r. rd_ServiceID r = i) (deployments (db w)))"
  by (auto simp: LatestServerForService_def db_GetLatestServerForService_def select_many_succ)

lemma LatestActivePreviewByRouteKey_succ [succ_iff]:
  "LatestActivePreviewByRouteKey i k w = (Inr x, w') \<longleftrightarrow> \<not> faults w (ops w) \<and> w' = w\<lparr>ops := Suc (ops w)\<rparr> \<and>
     x = map_option deploymentFromRow (first_by (\<lambda>r. - rd_CreatedAt r)
       (\<lambda>r. rd_ServiceID r = i \<and> rd_RouteKey r = k \<and> rd_Kind r = KindPreview \<and> rd_Status r \<noteq> StatusTornDown)
       (deployments (db w)))"
  by (auto simp: LatestActivePreviewByRouteKey_def db_GetLatestActivePreviewByRouteKey_def select_many_succ)

lemma CreatePreviewForPR_run:
  assumes "CreatePreviewForPR D sid n w = (Inr i, w')"
  obtains t svc r a where
    "n > 0" and "t \<in> set (deployments (db w))" and "rd_ServiceID t = sid"
    and "find (\<lambda>r. rs_ID r = sid) (services (db w)) = Some svc"
    and "preview_of D svc (rd_ServerID t) [] n 0 r" and "fresh_deployment w r" and "deployment_ok (db w) r"
    and "i = rd_ID r" and "rd_PreviewAuthHash r = []"
    and "audit_row_of ''deployment.preview'' ''deployment'' i (rs_WorkspaceID svc) webhookActor a"
    and "db w' = (db w)\<lparr>deployments := deployments (db w) @ [r], audit_events := audit_events (db w) @ [a]\<rparr>"
proof -
  from assms obtain t m dep where n: "n > 0" and
    t: "first_by (\<lambda>r. - rd_CreatedAt r) (\<lambda>r. rd_ServiceID r = sid) (deployments (db w)) = Some t" and
    enq: "enqueuePreview D sid (rd_ServerID t) [] n 0 [] [] webhookActor (w\<lparr>ops := m\<rparr>) = (Inr dep, w')" and
    i: "i = dep_ID dep"
    by (auto simp: CreatePreviewForPR_def succ_iff split: option.splits)
  from enq show ?thesis
    by (rule enqueuePreview_row)
       (use n i first_by_Some(1,2) [OF t] that in \<open>auto simp: fresh_deployment_def hashPreviewPassword_def\<close>)
qed

lemma TeardownPreviewForPR_run:
  assumes "TeardownPreviewForPR D sid n w = (Inr u, w')"
  obtains (idle) "n > 0"
      and "\<forall>t \<in> set (deployments (db w)). rd_ServiceID t = sid \<and> rd_RouteKey t = previewRouteKey sid n [] \<and>
             rd_Kind t = KindPreview \<longrightarrow> rd_Status t = StatusTornDown"
      and "db w' = db w"
    | (job) t r a where "n > 0" and "t \<in> set (deployments (db w))" and "rd_ServiceID t = sid"
      and "rd_RouteKey t = previewRouteKey sid n []" and "rd_Kind t = KindPreview" and "rd_Status t \<noteq> StatusTornDown"
      and "\<forall>t' \<in> set (deployments (db w)). rd_ServiceID t' = sid \<and> rd_RouteKey t' = previewRouteKey sid n [] \<and>
             rd_Kind t' = KindPreview \<and> rd_Status t' \<noteq> StatusTornDown \<longrightarrow> rd_CreatedAt t' \<le> rd_CreatedAt t"
      and "teardown_of (previewRouteKey sid n []) t r" and "teardown_ok (db w) r"
      and "audit_row_of ''deployment.teardown'' ''deployment'' (rd_ID t) (rd_WorkspaceID t) webhookActor a"
      and "db w' = (db w)\<lparr>teardown_jobs := teardown_jobs (db w) @ [r], audit_events := audit_events (db w) @ [a]\<rparr>"
proof -
  let ?p = "\<lambda>r. rd_ServiceID r = sid \<and> rd_RouteKey r = previewRouteKey sid n [] \<and> rd_Kind r = KindPreview \<and>
      rd_Status r \<noteq> StatusTornDown"
  have n: "n > 0" using assms by (auto simp: TeardownPreviewForPR_def succ_iff)
  show ?thesis
  proof (cases "first_by (\<lambda>r. - rd_CreatedAt r) ?p (deployments (db w))")
    case None
    with assms have "db w' = db w"
      unfolding TeardownPreviewForPR_def Let_def by (auto simp: succ_iff)
    with None n idle show ?thesis by (auto simp: first_by_None)
  next
    case (Some t)
    with assms obtain m created w2 where
      tx: "WithinTx (bind (InsertTeardownJob (newTeardown (deploymentFromRow t) (previewRouteKey sid n [])))
        (\<lambda>x. bind (audit_Record ''deployment.teardown'' ''deployment'' (rd_ID t) (rd_WorkspaceID t) webhookActor)
          (\<lambda>_. ret x))) (w\<lparr>ops := m\<rparr>) = (Inr created, w')"
      unfolding TeardownPreviewForPR_def Let_def
      by (auto simp: check_succ bind_succ map_err_succ LatestActivePreviewByRouteKey_succ)
    from tx show ?thesis
      by (rule teardownTx_row) (use n first_by_Some [OF Some] job in auto)
  qed
qed

lemma previewRouteKey_pr: "n > 0 \<Longrightarrow> previewRouteKey sid n ref = previewRouteKey sid n ref'"
  by (simp add: previewRouteKey_def preview_suffix_def)

text \<open>C26: opening and closing a pull request meet. Whatever head branch the preview of pull request
  \<open>n\<close> was built from, closing the request right after it finds an active preview of the same
  route key, at least as recent, and queues exactly one job to remove that route.\<close>

theorem webhook_open_close:
  assumes "CreatePreviewForPR D sid n w = (Inr i, w1)" and "TeardownPreviewForPR D sid n w1 = (Inr u, w2)"
  shows "\<exists>p t j. p \<in> set (deployments (db w1)) \<and> rd_ID p = i \<and> rd_Kind p = KindPreview \<and> rd_PrNumber p = n \<and>
     t \<in> set (deployments (db w1)) \<and> rd_Kind t = KindPreview \<and> rd_RouteKey t = rd_RouteKey p \<and>
     rd_CreatedAt p \<le> rd_CreatedAt t \<and> teardown_of (rd_RouteKey p) t j \<and>
     teardown_jobs (db w2) = teardown_jobs (db w) @ [j]"
  using assms(1)
proof (rule CreatePreviewForPR_run)
  fix t0 svc r a
  assume n: "0 < n" and svc: "find (\<lambda>r. rs_ID r = sid) (services (db w)) = Some svc" and i: "i = rd_ID r"
    and pv: "preview_of D svc (rd_ServerID t0) [] n 0 r" and fresh: "fresh_deployment w r"
    and db1: "db w1 = (db w)\<lparr>deployments := deployments (db w) @ [r], audit_events := audit_events (db w) @ [a]\<rparr>"
  have r: "r \<in> set (deployments (db w1))" "rd_ServiceID r = sid" "rd_Kind r = KindPreview" "rd_PrNumber r = n"
      "rd_Status r \<noteq> StatusTornDown" "teardown_jobs (db w1) = teardown_jobs (db w)"
    using pv fresh find_service [OF svc] by (simp_all add: db1 preview_of_def fresh_deployment_def)
  have key: "rd_RouteKey r = previewRouteKey sid n []"
    using pv find_service [OF svc] previewRouteKey_pr [OF n] by (auto simp: preview_of_def)
  from assms(2) show ?thesis
  proof (cases rule: TeardownPreviewForPR_run)
    case idle
    with r key show ?thesis by blast
  next
    case (job t j b)
    then show ?thesis
      using r key i by (intro exI [of _ r] exI [of _ t] exI [of _ j]) auto
  qed
qed

theorem webhook_open_close_witness:
  "\<exists>i w1 w2 p j. CreatePreviewForPR demo_deps ''git'' 7 (demo_world [demo_deployment ''d1'' KindProduction ''git'' StatusRunning 1]) = (Inr i, w1) \<and>
     TeardownPreviewForPR demo_deps ''git'' 7 w1 = (Inr (), w2) \<and> p \<in> set (deployments (db w1)) \<and> rd_ID p = i \<and>
     teardown_jobs (db w2) = [j] \<and> rt_RouteKey j = rd_RouteKey p"
proof -
  let ?w = "demo_world [demo_deployment ''d1'' KindProduction ''git'' StatusRunning 1]"
  have key: "previewRouteKey ''git'' 7 ref = ''git-pr-7''" for ref
    by (subst previewRouteKey_pr [of 7 _ ref "[]"]) (simp, code_simp)
  obtain i w1 w2 where run: "CreatePreviewForPR demo_deps ''git'' 7 ?w = (Inr i, w1)"
      "TeardownPreviewForPR demo_deps ''git'' 7 w1 = (Inr (), w2)"
    by (simp add: CreatePreviewForPR_def TeardownPreviewForPR_def enqueuePreview_def InsertPreviewDeployment_def
          InsertTeardownJob_def newTeardown_def db_CreateTeardownJob_def teardown_ok_def teardown_statuses_def
          LatestServerForService_def db_GetLatestServerForService_def LatestActivePreviewByRouteKey_def
          db_GetLatestActivePreviewByRouteKey_def first_by_def hashPreviewPassword_def key exec_defs demo_defs)
  from webhook_open_close [OF run] obtain p t j where
    "p \<in> set (deployments (db w1))" "rd_ID p = i" "teardown_of (rd_RouteKey p) t j"
    "teardown_jobs (db w2) = teardown_jobs (db ?w) @ [j]"
    by blast
  then show ?thesis
    by (intro exI [of _ i] exI [of _ w1] exI [of _ w2] exI [of _ p] exI [of _ j] conjI run)
       (auto simp: teardown_of_def demo_defs)
qed

section \<open>Expiry\<close>

text \<open>The database after a sweep: jobs and audit rows appended, nothing else.\<close>

definition swept :: "Deployment_row list \<Rightarrow> database \<Rightarrow> database \<Rightarrow> nat \<Rightarrow> bool" where
  "swept ts d d' k \<longleftrightarrow>
     (\<exists>js as. length js = k \<and> length as = k \<and> subseq (map rt_DeploymentID js) (map rd_ID ts) \<and>
        distinct (map rt_ID js) \<and> rt_ID ` set js \<inter> rt_ID ` set (teardown_jobs d) = {} \<and>
        (\<forall>j \<in> set js. \<exists>t \<in> set ts. teardown_of (routeKeyOr (rd_RouteKey t) (rd_ServiceID t)) t j) \<and>
        (\<forall>a \<in> set as. ae_Actor a = expiryActor \<and> ae_Action a = ''deployment.expire'') \<and>
        d' = d\<lparr>teardown_jobs := teardown_jobs d @ js, audit_events := audit_events d @ as\<rparr>)"

lemma swept_refl: "swept ts d d 0"
  unfolding swept_def by (intro exI [of _ "[]"]) simp

lemma swept_skip: "swept ts d d' k \<Longrightarrow> swept (t # ts) d d' k"
  unfolding swept_def by (elim ex_forward conjE, intro conjI) (simp_all, blast)

lemma swept_step:
  assumes j: "teardown_of (routeKeyOr (rd_RouteKey t) (rd_ServiceID t)) t j"
    and a: "audit_row_of ''deployment.expire'' ''deployment'' (rd_ID t) (rd_WorkspaceID t) expiryActor a"
    and d1: "d1 = d\<lparr>teardown_jobs := teardown_jobs d @ [j], audit_events := audit_events d @ [a]\<rparr>"
    and new: "rt_ID j \<notin> rt_ID ` set (teardown_jobs d)"
    and rest: "swept ts d1 d' k"
  shows "swept (t # ts) d d' (Suc k)"
proof -
  from rest obtain js as where js: "length js = k" "length as = k" "subseq (map rt_DeploymentID js) (map rd_ID ts)"
    "\<forall>j \<in> set js. \<exists>t \<in> set ts. teardown_of (routeKeyOr (rd_RouteKey t) (rd_ServiceID t)) t j"
    "\<forall>a \<in> set as. ae_Actor a = expiryActor \<and> ae_Action a = ''deployment.expire''"
    "d' = d1\<lparr>teardown_jobs := teardown_jobs d1 @ js, audit_events := audit_events d1 @ as\<rparr>"
    "distinct (map rt_ID js)" "rt_ID ` set js \<inter> rt_ID ` set (teardown_jobs d1) = {}"
    unfolding swept_def by blast
  have "rt_DeploymentID j = rd_ID t" using j by (simp add: teardown_of_def)
  then have "subseq (map rt_DeploymentID (j # js)) (map rd_ID (t # ts))" using js(3) by simp
  moreover have "\<forall>i \<in> set (j # js). \<exists>u \<in> set (t # ts). teardown_of (routeKeyOr (rd_RouteKey u) (rd_ServiceID u)) u i"
    using js(4) j by (metis list.set_intros set_ConsD)
  moreover have "\<forall>b \<in> set (a # as). ae_Actor b = expiryActor \<and> ae_Action b = ''deployment.expire''"
    using js(5) a by (simp add: audit_row_of_def)
  moreover have "d' = d\<lparr>teardown_jobs := teardown_jobs d @ j # js, audit_events := audit_events d @ a # as\<rparr>"
    by (simp add: js(6) d1)
  moreover have "distinct (map rt_ID (j # js))" "rt_ID ` set (j # js) \<inter> rt_ID ` set (teardown_jobs d) = {}"
    using js(7,8) new by (auto simp: d1)
  ultimately show ?thesis
    unfolding swept_def using js(1,2) by (intro exI [of _ "j # js"] exI [of _ "a # as"] conjI) simp_all
qed

lemma expireAll_run:
  "expireAll (map deploymentFromRow ts) n w = (Inr k, w') \<Longrightarrow> n \<le> k \<and> swept ts (db w) (db w') (nat (k - n))"
proof (induction ts arbitrary: n w)
  case Nil
  then show ?case by (simp add: swept_refl)
next
  case (Cons t ts)
  let ?tx = "expireOne (deploymentFromRow t)"
  obtain r w1 where tx: "?tx w = (r, w1)" by (cases "?tx w")
  show ?case
  proof (cases r)
    case (Inl e)
    have "db w1 = db w" using tx Inl by (auto simp: expireOne_def dest: WithinTx_fail_db)
    moreover from Cons.prems tx Inl have "expireAll (map deploymentFromRow ts) n w1 = (Inr k, w')"
      by (simp add: bind_def catch_def)
    ultimately show ?thesis using Cons.IH [of n w1] swept_skip by auto
  next
    case (Inr job)
    from Cons.prems tx Inr have rest: "expireAll (map deploymentFromRow ts) (n + 1) w1 = (Inr k, w')"
      by (simp add: bind_def catch_def)
    from tx Inr obtain j a where j: "teardown_of (routeKeyOr (rd_RouteKey t) (rd_ServiceID t)) t j"
      "audit_row_of ''deployment.expire'' ''deployment'' (rd_ID t) (rd_WorkspaceID t) expiryActor a"
      "db w1 = (db w)\<lparr>teardown_jobs := teardown_jobs (db w) @ [j], audit_events := audit_events (db w) @ [a]\<rparr>"
      "rt_ID j \<notin> rt_ID ` set (teardown_jobs (db w))"
      by (auto simp: expireOne_def teardown_ok_def elim: teardownTx_row)
    from Cons.IH [OF rest] have "n + 1 \<le> k" "swept ts (db w1) (db w') (nat (k - (n + 1)))" by auto
    moreover from this have "nat (k - n) = Suc (nat (k - (n + 1)))" by linarith
    ultimately show ?thesis using swept_step [OF j] by simp
  qed
qed

definition expired_previews :: "int \<Rightarrow> database \<Rightarrow> Deployment_row list" where
  "expired_previews cutoff d =
     sort_key rd_CreatedAt
       (filter (\<lambda>r. rd_Kind r = KindPreview \<and> rd_Status r = StatusRunning \<and> rd_CreatedAt r < cutoff) (deployments d))"

text \<open>An expiry sweep that returns \<open>k\<close> appended exactly \<open>k\<close> teardown jobs, at most one
  for each running preview older than the time to live and none for anything else, together with
  \<open>k\<close> audit rows of the system actor; it changed no other table, and with expiry disabled it
  does nothing.\<close>

theorem ExpirePreviews_correct:
  assumes "ExpirePreviews ttl w = (Inr k, w')"
  shows "if ttl \<le> 0 then k = 0 \<and> w' = w
         else 0 \<le> k \<and> swept (expired_previews (now w - ttl) (db w)) (db w) (db w') (nat k)"
proof (cases "ttl \<le> 0")
  case True
  with assms show ?thesis by (auto simp: ExpirePreviews_def)
next
  case False
  with assms obtain n where "expireAll (map deploymentFromRow (expired_previews (now w - ttl) (db w))) 0 (w\<lparr>ops := n\<rparr>) = (Inr k, w')"
    by (auto simp: ExpirePreviews_def ListExpiredPreviews_def db_ListExpiredPreviews_def deploymentsFromRows_def
          expired_previews_def succ_iff)
  from expireAll_run [OF this] False show ?thesis by simp
qed

end
