(* ===== verification/AgentSide.thy ===== *)
theory AgentSide
  imports Demo
begin

text \<open>
  Correctness of what agents may do: authentication by credential, the environment a container gets,
  the claim of a deployment, the effect of a report, and the confinement of an agent to its server.
\<close>

section \<open>Authentication\<close>

definition agent_of :: "database \<Rightarrow> string \<Rightarrow> string \<Rightarrow> Agent_row \<Rightarrow> bool" where
  "agent_of d agentID credential a \<longleftrightarrow>
     find (\<lambda>a. ag_CredentialHash a = hashToken credential) (agents d) = Some a \<and> (agentID = [] \<or> agentID = ag_ID a)"

lemma resolveAgent_succ [succ_iff]:
  "resolveAgent agentID credential w = (Inr x, w') \<longleftrightarrow>
     \<not> faults w (ops w) \<and> w' = w\<lparr>ops := Suc (ops w)\<rparr> \<and>
     (\<exists>a. agent_of (db w) agentID credential a \<and> x = (ag_ID a, ag_ServerID a))"
  unfolding resolveAgent_def agent_of_def
  by (cases "find (\<lambda>a. ag_CredentialHash a = hashToken credential) (agents (db w))")
     (auto simp: succ_iff)

lemma agent_of_unique: "agent_of d i c a \<Longrightarrow> agent_of d j c b \<Longrightarrow> a = b"
  by (simp add: agent_of_def)

section \<open>Events\<close>

text \<open>An event without its identity and time.\<close>

definition ev_view :: "DeploymentEvent_row \<Rightarrow> string \<times> string \<times> string \<times> string \<times> string" where
  "ev_view e = (re_DeploymentID e, re_Kind e, re_Status e, re_Message e, re_Stream e)"

text \<open>The world after some events were appended.\<close>

definition logged :: "world \<Rightarrow> world \<Rightarrow> DeploymentEvent_row list \<Rightarrow> bool" where
  "logged w w' evs \<longleftrightarrow>
     db w' = (db w)\<lparr>deployment_events := deployment_events (db w) @ evs\<rparr> \<and> now w' = now w \<and>
     next_seq w' = next_seq w + int (length evs) \<and>
     map re_Seq evs = map (\<lambda>k. next_seq w + int k) [0..<length evs]"

lemma logged_refl: "logged w w []"
  by (simp add: logged_def)

lemma logged_ops [simp]: "logged (w\<lparr>ops := n\<rparr>) w' evs = logged w w' evs"
  by (simp add: logged_def)

lemma logged_append:
  assumes "logged w w1 evs" and "logged w1 w2 evs'"
  shows "logged w w2 (evs @ evs')"
proof -
  have "[0..<length evs + length evs'] = [0..<length evs] @ map (\<lambda>k. k + length evs) [0..<length evs']"
    using upt_add_eq_append [of 0 "length evs" "length evs'"] by (simp add: map_add_upt add.commute)
  moreover have "map re_Seq (evs @ evs') =
      map (\<lambda>k. next_seq w + int k) ([0..<length evs] @ map (\<lambda>k. k + length evs) [0..<length evs'])"
    using assms by (simp add: logged_def comp_def algebra_simps)
  ultimately show ?thesis using assms by (simp add: logged_def)
qed

lemma AppendEvent_run:
  assumes "AppendEvent e w = (Inr u, w')"
  obtains r where "logged w w' [r]"
    and "ev_view r = (ne_DeploymentID e, ne_Kind e, ne_Status e, ne_Message e, ne_Stream e)"
proof -
  from assms obtain r where
    "db_AppendDeploymentEvent (ne_DeploymentID e) (ne_Kind e) (ne_Status e) (ne_Message e) (ne_Stream e) w = (Inr r, w')"
    by (auto simp: AppendEvent_def succ_iff)
  then show ?thesis
    by (intro that [of r])
       (auto simp: db_AppendDeploymentEvent_def query_def Let_def logged_def ev_view_def split: if_splits)
qed

lemma appendLogLines_run:
  "appendLogLines i st lines w = (Inr u, w') \<Longrightarrow>
     \<exists>evs. logged w w' evs \<and>
       map ev_view evs = map (\<lambda>l. (i, KindLog, [], l, st)) (filter (\<lambda>l. strings_TrimSpace l \<noteq> []) lines)"
proof (induction lines arbitrary: w)
  case Nil
  then show ?case by (auto simp: appendLogLines_def logged_refl)
next
  case (Cons l ls)
  show ?case
  proof (cases "strings_TrimSpace l = []")
    case True
    with Cons show ?thesis by (simp add: appendLogLines_def bind_def)
  next
    case False
    with Cons.prems obtain w1 where
      app: "AppendEvent \<lparr>ne_DeploymentID = i, ne_Kind = KindLog, ne_Status = [], ne_Message = l, ne_Stream = st\<rparr> w = (Inr (), w1)"
      and rest: "appendLogLines i st ls w1 = (Inr u, w')"
      by (auto simp: appendLogLines_def bind_succ)
    from app obtain r where r: "logged w w1 [r]" "ev_view r = (i, KindLog, [], l, st)"
      by (rule AppendEvent_run) auto
    from Cons.IH [OF rest] obtain evs where evs: "logged w1 w' evs"
        "map ev_view evs = map (\<lambda>l. (i, KindLog, [], l, st)) (filter (\<lambda>l. strings_TrimSpace l \<noteq> []) ls)"
      by blast
    have "logged w w' (r # evs)" using logged_append [OF r(1) evs(1)] by simp
    then show ?thesis using r(2) evs(2) False by (intro exI [of _ "r # evs"]) simp
  qed
qed

section \<open>Reports\<close>

text \<open>The row of \<open>deployments\<close> after a report about deployment \<open>t\<close>.\<close>

definition supersedes :: "ReportInput \<Rightarrow> Deployment_row \<Rightarrow> Deployment_row \<Rightarrow> bool" where
  "supersedes inp t r \<longleftrightarrow>
     ri_Status inp = StatusRunning \<and> ri_HostPort inp > 0 \<and> rd_ID r \<noteq> ri_DeploymentID inp \<and>
     rd_RouteKey r = (if rd_RouteKey t = [] then rd_ServiceID t else rd_RouteKey t) \<and>
     rd_ServerID r = rd_ServerID t \<and> rd_Status r = StatusRunning"

definition report_row :: "ReportInput \<Rightarrow> int \<Rightarrow> Deployment_row \<Rightarrow> Deployment_row \<Rightarrow> Deployment_row" where
  "report_row inp time t r =
     (if rd_ID r = ri_DeploymentID inp
      then set_deployment_status (ri_Status inp) (ri_Message inp) (ri_HostPort inp) (ri_ContainerID inp)
             (ri_CommitSha inp) (ri_BuiltImageRef inp) (ri_RouteURL inp) time r
      else if supersedes inp t r then r\<lparr>rd_Status := StatusSuperseded, rd_UpdatedAt := time\<rparr>
      else r)"

definition report_service :: "ReportInput \<Rightarrow> int \<Rightarrow> Deployment_row \<Rightarrow> Service_row \<Rightarrow> Service_row" where
  "report_service inp time t s =
     (if ri_RouteURL inp \<noteq> [] \<and> rd_Kind t \<noteq> KindPreview \<and> rs_ID s = rd_ServiceID t
      then s\<lparr>rs_RouteUrl := ri_RouteURL inp, rs_UpdatedAt := time\<rparr> else s)"

definition report_events :: "ReportInput \<Rightarrow> (string \<times> string \<times> string \<times> string \<times> string) list" where
  "report_events inp =
     (ri_DeploymentID inp, KindStatus, ri_Status inp, ri_Message inp, []) #
     map (\<lambda>l. (ri_DeploymentID inp, KindLog, [], l, ri_LogStream inp))
       (filter (\<lambda>l. strings_TrimSpace l \<noteq> []) (ri_LogLines inp))"

lemma report_service_id:
  "ri_RouteURL inp = [] \<Longrightarrow> report_service inp time t = id"
  "rd_Kind t = KindPreview \<Longrightarrow> report_service inp time t = id"
  by (simp_all add: report_service_def fun_eq_iff)

lemma UpdateStatus_run:
  assumes "UpdateStatus u w = (Inr x, w')"
  shows "db w' = upd_deployments (\<lambda>r. rd_ID r = su_DeploymentID u)
      (set_deployment_status (su_Status u) (su_Message u) (su_HostPort u) (su_ContainerID u) (su_CommitSha u)
        (su_BuiltImageRef u) (su_RouteURL u) (now w)) (db w)"
    and "now w' = now w" and "next_seq w' = next_seq w"
  using assms
  by (auto simp: UpdateStatus_def db_UpdateDeploymentStatus_def succ_iff Let_def split: option.splits)

lemma report_rows:
  "update_where (\<lambda>r. rd_RouteKey r = k \<and> rd_ServerID r = s \<and> rd_Status r = StatusRunning \<and> rd_ID r \<noteq> i) g
     (update_where (\<lambda>r. rd_ID r = i) f xs) =
   map (\<lambda>r. if rd_ID r = i then f r
            else if rd_RouteKey r = k \<and> rd_ServerID r = s \<and> rd_Status r = StatusRunning then g r else r) xs"
  if "\<And>r. rd_ID (f r) = rd_ID r"
  using that by (auto simp: update_where_def)

lemma reportTx_run:
  assumes "reportTx inp (deploymentFromRow t) (rd_ServerID t) w = (Inr u, w')"
  obtains evs where "map ev_view evs = report_events inp" and "now w' = now w"
    and "db w' = (db w)\<lparr>deployments := map (report_row inp (now w) t) (deployments (db w)),
           services := map (report_service inp (now w) t) (services (db w)),
           deployment_events := deployment_events (db w) @ evs\<rparr>"
proof -
  let ?f = "set_deployment_status (ri_Status inp) (ri_Message inp) (ri_HostPort inp) (ri_ContainerID inp)
             (ri_CommitSha inp) (ri_BuiltImageRef inp) (ri_RouteURL inp) (now w)"
  let ?k = "routeKeyOr (rd_RouteKey t) (rd_ServiceID t)"
  from assms obtain w1 w2 w3 w4 where
    upd: "UpdateStatus \<lparr>su_DeploymentID = ri_DeploymentID inp, su_Status = ri_Status inp,
             su_Message = ri_Message inp, su_HostPort = ri_HostPort inp, su_ContainerID = ri_ContainerID inp,
             su_CommitSha = ri_CommitSha inp, su_BuiltImageRef = ri_BuiltImageRef inp,
             su_RouteURL = ri_RouteURL inp\<rparr> w = (Inr (), w1)" and
    stat: "AppendEvent \<lparr>ne_DeploymentID = ri_DeploymentID inp, ne_Kind = KindStatus, ne_Status = ri_Status inp,
             ne_Message = ri_Message inp, ne_Stream = []\<rparr> w1 = (Inr (), w2)" and
    logs: "appendLogLines (ri_DeploymentID inp) (ri_LogStream inp) (ri_LogLines inp) w2 = (Inr (), w3)" and
    url: "(if ri_RouteURL inp \<noteq> [] \<and> rd_Kind t \<noteq> KindPreview
           then UpdateServiceRouteURL (rd_ServiceID t) (ri_RouteURL inp) else ret ()) w3 = (Inr (), w4)" and
    sup: "(if ri_Status inp = StatusRunning \<and> ri_HostPort inp > 0
           then SupersedePreviousRunning ?k (rd_ServerID t) (ri_DeploymentID inp) else ret ()) w4 = (Inr u, w')"
    unfolding reportTx_def by (auto simp: bind_succ cong: if_cong)
  note w1 = UpdateStatus_run [OF upd, simplified]
  from stat obtain e where e: "logged w1 w2 [e]"
      "ev_view e = (ri_DeploymentID inp, KindStatus, ri_Status inp, ri_Message inp, [])"
    by (rule AppendEvent_run) auto
  from appendLogLines_run [OF logs] obtain evs where evs: "logged w2 w3 evs" "map ev_view evs =
      map (\<lambda>l. (ri_DeploymentID inp, KindLog, [], l, ri_LogStream inp)) (filter (\<lambda>l. strings_TrimSpace l \<noteq> []) (ri_LogLines inp))"
    by blast
  have w3: "db w3 = (upd_deployments (\<lambda>r. rd_ID r = ri_DeploymentID inp) ?f (db w))
      \<lparr>deployment_events := deployment_events (db w) @ e # evs\<rparr>" "now w3 = now w"
    using logged_append [OF e(1) evs(1)] w1 by (simp_all add: logged_def upd_deployments_def)
  have w4: "db w4 = (db w3)\<lparr>services := map (report_service inp (now w) t) (services (db w3))\<rparr>" "now w4 = now w"
    using url w3(2)
    by (auto simp: UpdateServiceRouteURL_def db_UpdateServiceRouteURL_def exec_sql_succ update_where_def
        report_service_id split: if_splits) (simp add: report_service_def)
  have "db w' = (db w4)\<lparr>deployments := map (report_row inp (now w) t) (deployments (db w))\<rparr>" "now w' = now w"
    using sup w3 w4
    by (auto simp: SupersedePreviousRunning_def db_SupersedePreviousRunning_def exec_sql_succ upd_deployments_def
        report_row_def supersedes_def report_rows set_deployment_status_def routeKeyOr_def update_where_def
        split: if_splits)
  with w3 w4 evs(2) e(2) show ?thesis
    by (intro that [of "e # evs"]) (simp_all add: report_events_def upd_deployments_def)
qed

lemma ReportDeployment_run:
  assumes "ReportDeployment D inp w = (Inr u, w')"
  obtains a t evs where "agent_of (db w) (ri_AgentID inp) (ri_Credential inp) a"
    and "find (\<lambda>r. rd_ID r = ri_DeploymentID inp) (deployments (db w)) = Some t" and "rd_ServerID t = ag_ServerID a"
    and "isAgentReportableStatus (ri_Status inp)" and "map ev_view evs = report_events inp"
    and "db w' = (db w)\<lparr>deployments := map (report_row inp (now w) t) (deployments (db w)),
           services := map (report_service inp (now w) t) (services (db w)),
           deployment_events := deployment_events (db w) @ evs\<rparr>"
proof -
  from assms obtain a t n w2 where
    a: "agent_of (db w) (ri_AgentID inp) (ri_Credential inp) a" and
    t: "find (\<lambda>r. rd_ID r = ri_DeploymentID inp) (deployments (db w)) = Some t" and
    own: "rd_ServerID t = ag_ServerID a" and st: "isAgentReportableStatus (ri_Status inp)" and
    tx: "reportTx inp (deploymentFromRow t) (rd_ServerID t) (w\<lparr>ops := n\<rparr>) = (Inr u, w2)" and
    w': "w' = w2\<lparr>ops := Suc (ops w2)\<rparr>"
    by (auto simp: ReportDeployment_def succ_iff split: option.splits)
  from tx show ?thesis
    by (rule reportTx_run) (use a t own st w' that in auto)
qed

text \<open>C4: the exact effect of an accepted report. The reporting agent owns the deployment's server
  and the status is one an agent may report; the deployment's row takes the new status and keeps
  every recorded value the report leaves empty; the running releases it replaces are marked
  superseded and no other row changes; the service's public URL follows production reports only;
  one status event and the non-blank log lines are appended, in order; no other table changes.\<close>

theorem ReportDeployment_correct:
  assumes "ReportDeployment D inp w = (Inr u, w')"
  shows "\<exists>a t evs. agent_of (db w) (ri_AgentID inp) (ri_Credential inp) a \<and>
     t \<in> set (deployments (db w)) \<and> rd_ID t = ri_DeploymentID inp \<and> rd_ServerID t = ag_ServerID a \<and>
     isAgentReportableStatus (ri_Status inp) \<and> map ev_view evs = report_events inp \<and>
     db w' = (db w)\<lparr>deployments := map (report_row inp (now w) t) (deployments (db w)),
           services := map (report_service inp (now w) t) (services (db w)),
           deployment_events := deployment_events (db w) @ evs\<rparr>"
  using assms by (rule ReportDeployment_run) (use find_deployment in blast)

definition demo_report :: "string \<Rightarrow> string \<Rightarrow> int \<Rightarrow> ReportInput" where
  "demo_report i status port =
     \<lparr>ri_AgentID = [], ri_Credential = ''cred'', ri_DeploymentID = i, ri_Status = status, ri_HostPort = port,
      ri_ContainerID = [], ri_LogLines = [], ri_LogStream = [], ri_Message = [], ri_CommitSha = [],
      ri_BuiltImageRef = [], ri_RouteURL = []\<rparr>"

lemmas gateway_exec = exec_defs resolveAgent_def ReportDeployment_def reportTx_def UpdateStatus_def
  db_UpdateDeploymentStatus_def set_deployment_status_def keep_if_empty_def AppendEvent_def
  db_AppendDeploymentEvent_def appendLogLines_def UpdateServiceRouteURL_def db_UpdateServiceRouteURL_def
  SupersedePreviousRunning_def db_SupersedePreviousRunning_def routeKeyOr_def upd_deployments_def
  update_where_def isAgentReportableStatus_def

theorem ReportDeployment_correct_witness:
  "\<exists>w'. ReportDeployment demo_deps (demo_report ''d2'' StatusRunning 30000)
      (demo_world [demo_deployment ''d1'' KindProduction ''git'' StatusRunning 1,
                   demo_deployment ''d2'' KindProduction ''git'' StatusRouting 2]) = (Inr (), w') \<and>
     map rd_Status (deployments (db w')) = [StatusSuperseded, StatusRunning]"
proof -
  let ?inp = "demo_report ''d2'' StatusRunning 30000"
  let ?w = "demo_world [demo_deployment ''d1'' KindProduction ''git'' StatusRunning 1,
                   demo_deployment ''d2'' KindProduction ''git'' StatusRouting 2]"
  obtain w' where run: "ReportDeployment demo_deps ?inp ?w = (Inr (), w')"
    by (simp add: gateway_exec demo_defs demo_report_def)
  from ReportDeployment_correct [OF run] obtain t evs where
    "t \<in> set (deployments (db ?w))" "rd_ID t = ''d2''"
    "db w' = (db ?w)\<lparr>deployments := map (report_row ?inp (now ?w) t) (deployments (db ?w)),
           services := map (report_service ?inp (now ?w) t) (services (db ?w)),
           deployment_events := deployment_events (db ?w) @ evs\<rparr>"
    by (auto simp: demo_report_def)
  then show ?thesis
    by (intro exI [of _ w'] conjI run)
       (auto simp: demo_defs demo_report_def report_row_def supersedes_def set_deployment_status_def)
qed

text \<open>When an agent reports that a deployment now runs on a host port, that deployment is the only
  running one of its route on its server, and it is recorded as running on that port.\<close>

theorem running_report_supersedes:
  assumes "ReportDeployment D inp w = (Inr u, w')" and "ri_Status inp = StatusRunning" and "ri_HostPort inp > 0"
    and "t \<in> set (deployments (db w))" and "rd_ID t = ri_DeploymentID inp" and "rd_RouteKey t \<noteq> []"
    and "distinct (map rd_ID (deployments (db w)))"
  shows "{r \<in> set (deployments (db w')). rd_RouteKey r = rd_RouteKey t \<and> rd_ServerID r = rd_ServerID t \<and>
           rd_Status r = StatusRunning} = {report_row inp (now w) t t} \<and>
         rd_HostPort (report_row inp (now w) t t) = ri_HostPort inp \<and>
         rd_ID (report_row inp (now w) t t) = ri_DeploymentID inp"
  using assms(1)
proof (rule ReportDeployment_run)
  fix a t' evs
  assume "find (\<lambda>r. rd_ID r = ri_DeploymentID inp) (deployments (db w)) = Some t'"
  then have "t' \<in> set (deployments (db w))" "rd_ID t' = rd_ID t" using assms(5) by (auto simp: find_Some_iff)
  then have t': "t' = t" using assms(4,7) by (simp add: distinct_map inj_on_def)
  moreover assume "db w' = (db w)\<lparr>deployments := map (report_row inp (now w) t') (deployments (db w)),
           services := map (report_service inp (now w) t') (services (db w)),
           deployment_events := deployment_events (db w) @ evs\<rparr>"
  ultimately have deps: "set (deployments (db w')) = report_row inp (now w) t ` set (deployments (db w))" by simp
  have same: "r = t" if "r \<in> set (deployments (db w))" "rd_ID r = rd_ID t" for r
    using that assms(4,7) by (simp add: distinct_map inj_on_def)
  have "report_row inp (now w) t r = report_row inp (now w) t t"
    if "r \<in> set (deployments (db w))" "rd_RouteKey (report_row inp (now w) t r) = rd_RouteKey t"
      "rd_ServerID (report_row inp (now w) t r) = rd_ServerID t" "rd_Status (report_row inp (now w) t r) = StatusRunning" for r
    using that assms(2,3,5,6) same [of r]
    by (auto simp: report_row_def supersedes_def split: if_splits)
  moreover have "rd_Status (report_row inp (now w) t t) = StatusRunning"
    "rd_RouteKey (report_row inp (now w) t t) = rd_RouteKey t" "rd_ServerID (report_row inp (now w) t t) = rd_ServerID t"
    "rd_HostPort (report_row inp (now w) t t) = ri_HostPort inp"
    "rd_ID (report_row inp (now w) t t) = ri_DeploymentID inp"
    using assms(2,3,5) by (simp_all add: report_row_def set_deployment_status_def)
  ultimately show ?thesis using assms(4) unfolding deps by fast
qed

section \<open>Container environment\<close>

text \<open>The entries of a scope that a deployment may see, and their values as one layer.\<close>

definition visible :: "bool \<Rightarrow> string \<Rightarrow> ConfigForDeploy list \<Rightarrow> ConfigForDeploy list" where
  "visible includeSecrets scope es =
     filter (\<lambda>e. cfd_Scope e = scope \<and> (includeSecrets \<or> cfd_Type e \<noteq> ''secret'')) es"

definition value_of :: "deps \<Rightarrow> ConfigForDeploy \<Rightarrow> string" where
  "value_of D e = (case configValue D e of Inl _ \<Rightarrow> [] | Inr v \<Rightarrow> v)"

definition layer :: "deps \<Rightarrow> ConfigForDeploy list \<Rightarrow> string \<rightharpoonup> string" where
  "layer D es = map_of (rev (map (\<lambda>e. (cfd_Key e, value_of D e)) es))"

lemma merge_scope_Inr:
  "merge_scope D b sc es env = Inr env' \<longleftrightarrow>
     (\<forall>e \<in> set (visible b sc es). \<exists>v. configValue D e = Inr v) \<and> env' = env ++ layer D (visible b sc es)"
proof (induction es arbitrary: env)
  case Nil
  then show ?case by (auto simp: visible_def layer_def)
next
  case (Cons e es)
  show ?case
  proof (cases "cfd_Scope e = sc \<and> (b \<or> cfd_Type e \<noteq> ''secret'')")
    case False
    with Cons show ?thesis by (auto simp: visible_def)
  next
    case True
    then have vis: "visible b sc (e # es) = e # visible b sc es" by (simp add: visible_def)
    show ?thesis
    proof (cases "configValue D e")
      case (Inl er)
      with True vis show ?thesis by auto
    next
      case (Inr v)
      have "(env(cfd_Key e \<mapsto> v)) ++ layer D (visible b sc es) = env ++ layer D (e # visible b sc es)"
        by (simp add: layer_def value_of_def Inr map_add_def fun_eq_iff split: option.split)
      moreover have "merge_scope D b sc (e # es) env = merge_scope D b sc es (env(cfd_Key e \<mapsto> v))"
        using True Inr by auto
      ultimately show ?thesis using Cons.IH [of "env(cfd_Key e \<mapsto> v)"] Inr by (simp only: vis) simp
    qed
  qed
qed

text \<open>The environment is computed exactly when every entry the deployment may see has a value.\<close>

lemma configEnv_env:
  "configEnv D includeSecrets es = Inr env \<longleftrightarrow>
     (\<forall>e \<in> set (visible includeSecrets ''environment'' es) \<union> set (visible includeSecrets ''service'' es).
        \<exists>v. configValue D e = Inr v) \<and>
     env = layer D (visible includeSecrets ''environment'' es) ++ layer D (visible includeSecrets ''service'' es)"
proof -
  have "configEnv D includeSecrets es = Inr env \<longleftrightarrow>
      (\<exists>env1. merge_scope D includeSecrets ''environment'' es Map.empty = Inr env1 \<and>
              merge_scope D includeSecrets ''service'' es env1 = Inr env)"
    by (auto simp: configEnv_def split: sum.splits)
  then show ?thesis unfolding merge_scope_Inr by auto
qed

text \<open>A preview's environment is that of the same service with every secret deleted, whatever the
  keys of the control plane are: no secret is decrypted for it, and an undecryptable secret does not
  stop it.\<close>

theorem preview_env_has_no_secret:
  "configEnv D False es = configEnv D' True (filter (\<lambda>e. cfd_Type e \<noteq> ''secret'') es)"
proof -
  have "merge_scope D False sc es env = merge_scope D' True sc (filter (\<lambda>e. cfd_Type e \<noteq> ''secret'') es) env" for sc env
    by (induction es arbitrary: env) (auto simp: configValue_def)
  then show ?thesis unfolding configEnv_def by presburger
qed

section \<open>Polling\<close>

lemma ClaimNextForServer_succ:
  "ClaimNextForServer s w = (Inr x, w') \<longleftrightarrow>
     \<not> faults w (ops w) \<and>
     (case first_by rd_CreatedAt (job_waiting rd_ServerID rd_Status s) (deployments (db w)) of
        None \<Rightarrow> x = None \<and> w' = w\<lparr>ops := Suc (ops w)\<rparr>
      | Some t \<Rightarrow> x = Some (deploymentFromRow (assign_deployment (now w) t)) \<and>
          w' = w\<lparr>ops := Suc (ops w), db := upd_deployments (\<lambda>x. rd_ID x = rd_ID t) (assign_deployment (now w)) (db w)\<rparr>)"
  by (auto simp: ClaimNextForServer_def claim_deployment_unfold absent_ok_update_one Let_def split: option.split)

definition claimed_db :: "world \<Rightarrow> Deployment_row \<Rightarrow> DeploymentEvent_row \<Rightarrow> database" where
  "claimed_db w t e = (db w)\<lparr>deployments := update_where (\<lambda>x. rd_ID x = rd_ID t) (assign_deployment (now w)) (deployments (db w)),
     deployment_events := deployment_events (db w) @ [e]\<rparr>"

lemma claimed_db_simps [simp]:
  "claimed_db (w\<lparr>ops := n\<rparr>) t e = claimed_db w t e" "services (claimed_db w t e) = services (db w)"
  by (simp_all add: claimed_db_def)

lemma claimTx_run:
  assumes "claimTx s w = (Inr x, w')"
  obtains (idle) "first_by rd_CreatedAt (job_waiting rd_ServerID rd_Status s) (deployments (db w)) = None"
      and "x = None" and "db w' = db w" and "now w' = now w"
    | (claimed) t e where "first_by rd_CreatedAt (job_waiting rd_ServerID rd_Status s) (deployments (db w)) = Some t"
      and "x = Some (deploymentFromRow (assign_deployment (now w) t))"
      and "ev_view e = (rd_ID t, KindStatus, StatusAssigned, ''claimed by agent'', [])"
      and "db w' = claimed_db w t e" and "now w' = now w"
proof (cases "first_by rd_CreatedAt (job_waiting rd_ServerID rd_Status s) (deployments (db w))")
  case None
  with assms have "x = None" "db w' = db w" "now w' = now w"
    by (auto simp: claimTx_def WithinTx_succ bind_succ ClaimNextForServer_succ)
  with None idle show ?thesis by blast
next
  case (Some t)
  with assms obtain n w2 where
    app: "AppendEvent \<lparr>ne_DeploymentID = rd_ID t, ne_Kind = KindStatus, ne_Status = StatusAssigned,
        ne_Message = ''claimed by agent'', ne_Stream = []\<rparr>
        (w\<lparr>ops := n, db := upd_deployments (\<lambda>x. rd_ID x = rd_ID t) (assign_deployment (now w)) (db w)\<rparr>) = (Inr (), w2)" and
    w': "w' = w2\<lparr>ops := Suc (ops w2)\<rparr>" and x: "x = Some (deploymentFromRow (assign_deployment (now w) t))"
    by (auto simp: claimTx_def WithinTx_succ bind_succ ClaimNextForServer_succ assign_deployment_def)
  from app obtain e where
    e: "logged (w\<lparr>ops := n, db := upd_deployments (\<lambda>x. rd_ID x = rd_ID t) (assign_deployment (now w)) (db w)\<rparr>) w2 [e]"
      "ev_view e = (rd_ID t, KindStatus, StatusAssigned, ''claimed by agent'', [])"
    by (rule AppendEvent_run) simp
  have "db w' = claimed_db w t e" "now w' = now w"
    using e(1) by (simp_all add: w' logged_def claimed_db_def upd_deployments_def)
  with Some x e(2) show ?thesis by (rule claimed)
qed

lemma failDeployment_total: "\<exists>w'. failDeployment i m w = (Inr (), w')"
  unfolding failDeployment_def catch_def by (simp split: prod.split sum.split)

text \<open>What a poll that hands out work returns: the claimed deployment, with the git part filled in.\<close>

lemma withGit_work:
  assumes "withGit D dep svc out w = (Inr res, w')" and "cl_HasWork res"
  shows "w' = w \<and> (res = out \<or> (\<exists>token. res = out\<lparr>cl_CloneURL := dep_CloneURL dep, cl_GitRef := dep_GitRef dep,
           cl_BuiltImageTag := builtImageTag (dep_ID dep), cl_GitCredential := token\<rparr>) \<or>
         res = out\<lparr>cl_CloneURL := dep_CloneURL dep, cl_GitRef := dep_GitRef dep,
           cl_BuiltImageTag := builtImageTag (dep_ID dep)\<rparr>)"
  using assms
  by (auto simp: withGit_def Let_def bind_succ noWork_def split: if_splits sum.splits option.splits)

text \<open>The configuration entries of a service: its own and its environment's, by scope and key.\<close>

definition config_of :: "database \<Rightarrow> string \<Rightarrow> ConfigForDeploy list" where
  "config_of d sid = map configFromRow (sort_key (\<lambda>e. (ce_Scope e, ce_Key e))
     (filter (\<lambda>e. ce_ServiceID e = Some sid \<or>
        (case find (\<lambda>r. rs_ID r = sid) (services d) of
           None \<Rightarrow> False | Some r \<Rightarrow> ce_EnvironmentID e = Some (rs_EnvironmentID r))) (config_entries d)))"

lemma configEnvForService_succ:
  "configEnvForService D sid b w = (Inr env, w') \<longleftrightarrow>
     \<not> faults w (ops w) \<and> w' = w\<lparr>ops := Suc (ops w)\<rparr> \<and> configEnv D b (config_of (db w) sid) = Inr env"
  by (auto simp: configEnvForService_def ConfigForService_def db_ListConfigForService_def config_of_def succ_iff)

lemma config_of_claimed [simp]: "config_of (claimed_db w t e) sid = config_of (db w) sid"
  by (simp add: config_of_def claimed_db_def)

lemma PollDeployment_work:
  assumes "PollDeployment D inp w = (Inr res, w')" and "cl_HasWork res"
  obtains a t e svc env where "agent_of (db w) (pi_AgentID inp) (pi_Credential inp) a"
    and "first_by rd_CreatedAt (job_waiting rd_ServerID rd_Status (ag_ServerID a)) (deployments (db w)) = Some t"
    and "ev_view e = (rd_ID t, KindStatus, StatusAssigned, ''claimed by agent'', [])"
    and "db w' = claimed_db w t e"
    and "find (\<lambda>r. rs_ID r = rd_ServiceID t) (services (db w)) = Some svc"
    and "configEnv D (rd_Kind t \<noteq> KindPreview) (config_of (db w) (rd_ServiceID t)) = Inr env"
    and "withGit D (deploymentFromRow (assign_deployment (now w) t)) (serviceForDeployFromRow svc)
           (claimedOf (deploymentFromRow (assign_deployment (now w) t)) (serviceForDeployFromRow svc) env) w' = (Inr res, w')"
proof -
  from assms(1) obtain a m x w1 where
    a: "agent_of (db w) (pi_AgentID inp) (pi_Credential inp) a" and
    tx: "claimTx (ag_ServerID a) (w\<lparr>ops := m\<rparr>) = (Inr x, w1)" and
    rest: "handOut D x w1 = (Inr res, w')"
    by (auto simp: PollDeployment_def check_succ bind_succ resolveAgent_succ map_err_succ)
  from tx show ?thesis
  proof (cases rule: claimTx_run)
    case idle
    with rest assms(2) show ?thesis by (auto simp: handOut_def noWork_def)
  next
    case (claimed t e)
    let ?dep = "deploymentFromRow (assign_deployment (now w) t)"
    from rest claimed obtain env svc where
      env: "configEnv D (rd_Kind t \<noteq> KindPreview) (config_of (db w1) (rd_ServiceID t)) = Inr env" and
      svc: "find (\<lambda>r. rs_ID r = rd_ServiceID t) (services (db w1)) = Some svc" and
      git: "withGit D ?dep (serviceForDeployFromRow svc) (claimedOf ?dep (serviceForDeployFromRow svc) env)
              (w1\<lparr>ops := Suc (Suc (ops w1))\<rparr>) = (Inr res, w')"
      by (auto simp: handOut_def bind_succ map_err_succ store_succ assign_deployment_def configEnvForService_succ
          split: option.splits)
    have w': "w' = w1\<lparr>ops := Suc (Suc (ops w1))\<rparr>" using withGit_work [OF git assms(2)] by simp
    show ?thesis
      by (rule that [of a t e svc env])
         (use a claimed env svc git w' in simp_all)
  qed
qed

text \<open>C3: what a poll hands out. The work is the oldest queued deployment of the polling agent's own
  server; it is now assigned and the claim is logged, and nothing else changed. The container gets
  the service's variables, with decrypted secrets only in production; production joins its
  environment's network and a preview a network of its own; an installation token goes out only
  with a service whose source is a GitHub App.\<close>

theorem PollDeployment_correct:
  assumes "PollDeployment D inp w = (Inr res, w')" and "cl_HasWork res"
  shows "\<exists>a t e svc. agent_of (db w) (pi_AgentID inp) (pi_Credential inp) a \<and>
     t \<in> set (deployments (db w)) \<and> rd_ServerID t = ag_ServerID a \<and> rd_Status t = StatusQueued \<and>
     (\<forall>r \<in> set (deployments (db w)). rd_ServerID r = ag_ServerID a \<and> rd_Status r = StatusQueued \<longrightarrow>
        rd_CreatedAt t \<le> rd_CreatedAt r) \<and>
     db w' = claimed_db w t e \<and> ev_view e = (rd_ID t, KindStatus, StatusAssigned, ''claimed by agent'', []) \<and>
     svc \<in> set (services (db w)) \<and> rs_ID svc = rd_ServiceID t \<and>
     cl_DeploymentID res = rd_ID t \<and> cl_ImageRef res = rd_ImageRef t \<and> cl_ContainerPort res = rd_ContainerPort t \<and>
     cl_AppLabel res = (if rd_RouteKey t = [] then rd_ServiceID t else rd_RouteKey t) \<and>
     configEnv D (rd_Kind t \<noteq> KindPreview) (config_of (db w) (rd_ServiceID t)) = Inr (cl_Env res) \<and>
     cl_NetworkName res = (if rd_Kind t = KindPreview then previewNetworkName (cl_AppLabel res)
                           else environmentNetworkName (rd_EnvironmentID t)) \<and>
     cl_BasicAuthUser res = rd_PreviewAuthUser t \<and> cl_BasicAuthHash res = rd_PreviewAuthHash t \<and>
     (cl_GitCredential res \<noteq> [] \<longrightarrow> rd_SourceKind t = SourceGit \<and> rs_SourceAccess svc = ''app'' \<and>
        sources_InstallationToken D (derefStr (rs_ConnectionID svc)) = Inr (Some (cl_GitCredential res)))"
  using assms
proof (rule PollDeployment_work)
  fix a t e svc env
  let ?dep = "deploymentFromRow (assign_deployment (now w) t)"
  assume t: "first_by rd_CreatedAt (job_waiting rd_ServerID rd_Status (ag_ServerID a)) (deployments (db w)) = Some t"
    and svc: "find (\<lambda>r. rs_ID r = rd_ServiceID t) (services (db w)) = Some svc"
    and env: "configEnv D (rd_Kind t \<noteq> KindPreview) (config_of (db w) (rd_ServiceID t)) = Inr env"
    and git: "withGit D ?dep (serviceForDeployFromRow svc) (claimedOf ?dep (serviceForDeployFromRow svc) env) w' = (Inr res, w')"
    and rest: "agent_of (db w) (pi_AgentID inp) (pi_Credential inp) a" "db w' = claimed_db w t e"
      "ev_view e = (rd_ID t, KindStatus, StatusAssigned, ''claimed by agent'', [])"
  have out: "cl_DeploymentID res = rd_ID t" "cl_ImageRef res = rd_ImageRef t" "cl_ContainerPort res = rd_ContainerPort t"
      "cl_AppLabel res = (if rd_RouteKey t = [] then rd_ServiceID t else rd_RouteKey t)" "cl_Env res = env"
      "cl_NetworkName res = (if rd_Kind t = KindPreview then previewNetworkName (cl_AppLabel res)
                           else environmentNetworkName (rd_EnvironmentID t))"
      "cl_BasicAuthUser res = rd_PreviewAuthUser t" "cl_BasicAuthHash res = rd_PreviewAuthHash t"
    using withGit_work [OF git assms(2)]
    by (auto simp: claimedOf_def noWork_def Let_def assign_deployment_def routeKeyOr_def)
  have token: "cl_GitCredential res \<noteq> [] \<longrightarrow> rd_SourceKind t = SourceGit \<and> rs_SourceAccess svc = ''app'' \<and>
      sources_InstallationToken D (derefStr (rs_ConnectionID svc)) = Inr (Some (cl_GitCredential res))"
    using git
    by (auto simp: withGit_def claimedOf_def noWork_def Let_def assign_deployment_def bind_succ
        split: if_splits sum.splits option.splits)
  show ?thesis
    using first_by_Some [OF t] find_service [OF svc] rest out token env
    by (intro exI [of _ a] exI [of _ t] exI [of _ e] exI [of _ svc]) (simp add: job_waiting_def)
qed

lemmas poll_exec = gateway_exec PollDeployment_def handOut_def claimTx_def ClaimNextForServer_def
  db_ClaimNextDeploymentForServer_def first_by_def assign_deployment_def configEnvForService_def ConfigForService_def
  db_ListConfigForService_def withGit_def claimedOf_def noWork_def configEnv_def configValue_def configFromRow_def

abbreviation demo_poll :: PollInput where
  "demo_poll \<equiv> \<lparr>pi_AgentID = ''agent'', pi_Credential = ''cred''\<rparr>"

theorem PollDeployment_correct_witness:
  "\<exists>res w' t. PollDeployment demo_deps demo_poll
      (demo_world [demo_deployment ''d2'' KindProduction ''git'' StatusQueued 2,
                   demo_deployment ''d1'' KindProduction ''git'' StatusQueued 1]) = (Inr res, w') \<and>
     cl_HasWork res \<and> cl_DeploymentID res = ''d1'' \<and> cl_Env res = Map.empty"
proof -
  let ?w = "demo_world [demo_deployment ''d2'' KindProduction ''git'' StatusQueued 2,
                   demo_deployment ''d1'' KindProduction ''git'' StatusQueued 1]"
  obtain res w' where run: "PollDeployment demo_deps demo_poll ?w = (Inr res, w')" "cl_HasWork res"
    by (simp add: poll_exec demo_defs)
  have "config_of (db ?w) ''git'' = []" by (simp add: config_of_def demo_defs)
  moreover obtain t where t: "t \<in> set (deployments (db ?w))"
    "\<forall>r \<in> set (deployments (db ?w)). rd_ServerID r = ''srv'' \<and> rd_Status r = StatusQueued \<longrightarrow> rd_CreatedAt t \<le> rd_CreatedAt r"
    "cl_DeploymentID res = rd_ID t"
    "configEnv demo_deps (rd_Kind t \<noteq> KindPreview) (config_of (db ?w) (rd_ServiceID t)) = Inr (cl_Env res)"
    using PollDeployment_correct [OF run] by (auto simp: agent_of_def demo_defs)
  moreover from t have "rd_ID t = ''d1'' \<and> rd_ServiceID t = ''git''" by (auto simp: demo_defs)
  ultimately show ?thesis
    using run by (intro exI [of _ res] exI [of _ w'] exI [of _ t]) (auto simp: configEnv_def)
qed

section \<open>Teardown reports\<close>

definition torn_row :: "string \<Rightarrow> string \<Rightarrow> int \<Rightarrow> Deployment_row \<Rightarrow> Deployment_row" where
  "torn_row k s time r =
     (if rd_RouteKey r = k \<and> rd_ServerID r = s \<and> rd_Status r \<notin> {StatusFailed, StatusSuperseded, StatusTornDown}
      then r\<lparr>rd_Status := StatusTornDown, rd_UpdatedAt := time\<rparr> else r)"

lemma ReportTeardownJob_run:
  assumes "ReportTeardownJob D inp w = (Inr u, w')"
  obtains a j where "agent_of (db w) (rp_AgentID inp) (rp_Credential inp) a"
    and "find (\<lambda>r. rt_ID r = rp_TeardownID inp) (teardown_jobs (db w)) = Some j" and "rt_ServerID j = ag_ServerID a"
    and "isAgentReportableTeardownStatus (rp_Status inp)"
    and "db w' = (db w)\<lparr>teardown_jobs := update_where (\<lambda>r. rt_ID r = rp_TeardownID inp)
             (set_teardown_status (rp_Status inp) (rp_Message inp) (rp_Error inp) (now w)) (teardown_jobs (db w)),
           deployments := (if rp_Status inp = TeardownStatusSucceeded
             then map (torn_row (rt_RouteKey j) (rt_ServerID j) (now w)) (deployments (db w)) else deployments (db w))\<rparr>"
proof -
  from assms obtain a j n w1 w2 where
    a: "agent_of (db w) (rp_AgentID inp) (rp_Credential inp) a" and
    j: "find (\<lambda>r. rt_ID r = rp_TeardownID inp) (teardown_jobs (db w)) = Some j" and
    own: "rt_ServerID j = ag_ServerID a" and st: "isAgentReportableTeardownStatus (rp_Status inp)" and
    upd: "UpdateTeardownStatus \<lparr>ts_TeardownID = rp_TeardownID inp, ts_Status = rp_Status inp,
            ts_Message = rp_Message inp, ts_Error = rp_Error inp\<rparr> (w\<lparr>ops := n\<rparr>) = (Inr w1, w2)" and
    mark: "\<exists>w3. (if rp_Status inp = TeardownStatusSucceeded
            then MarkPreviewTornDown (rt_RouteKey j) (rt_ServerID j) else ret ()) w2 = (Inr u, w3) \<and>
          w' = w3\<lparr>ops := Suc (ops w3)\<rparr>"
    by (auto simp: ReportTeardownJob_def succ_iff split: option.splits cong: if_cong)
  have w2: "db w2 = (db w)\<lparr>teardown_jobs := update_where (\<lambda>r. rt_ID r = rp_TeardownID inp)
             (set_teardown_status (rp_Status inp) (rp_Message inp) (rp_Error inp) (now w)) (teardown_jobs (db w))\<rparr>"
      "now w2 = now w"
    using upd by (auto simp: UpdateTeardownStatus_def db_UpdateTeardownStatus_def succ_iff Let_def split: option.splits)
  have "db w' = (db w2)\<lparr>deployments := (if rp_Status inp = TeardownStatusSucceeded
             then map (torn_row (rt_RouteKey j) (rt_ServerID j) (now w)) (deployments (db w)) else deployments (db w))\<rparr>"
    using mark w2
    by (auto simp: MarkPreviewTornDown_def db_MarkPreviewTornDown_def exec_sql_succ upd_deployments_def
        update_where_def torn_row_def split: if_splits)
  with a j own st w2 show ?thesis by (intro that [of a j]) simp_all
qed

text \<open>The exact effect of an accepted teardown report. The agent owns the job's server and the
  status is one an agent may report; the job takes the status and keeps the message and error a
  report leaves empty; only a report of success retires deployments, and only those of the job's
  route on the job's server, whose ended ones keep their status.\<close>

theorem ReportTeardownJob_correct:
  assumes "ReportTeardownJob D inp w = (Inr u, w')"
  shows "\<exists>a j. agent_of (db w) (rp_AgentID inp) (rp_Credential inp) a \<and>
     j \<in> set (teardown_jobs (db w)) \<and> rt_ID j = rp_TeardownID inp \<and> rt_ServerID j = ag_ServerID a \<and>
     isAgentReportableTeardownStatus (rp_Status inp) \<and>
     db w' = (db w)\<lparr>teardown_jobs := update_where (\<lambda>r. rt_ID r = rp_TeardownID inp)
             (set_teardown_status (rp_Status inp) (rp_Message inp) (rp_Error inp) (now w)) (teardown_jobs (db w)),
           deployments := (if rp_Status inp = TeardownStatusSucceeded
             then map (torn_row (rt_RouteKey j) (rt_ServerID j) (now w)) (deployments (db w)) else deployments (db w))\<rparr>"
  using assms by (rule ReportTeardownJob_run) (use find_teardown in blast)

definition demo_job :: "string \<Rightarrow> string \<Rightarrow> TeardownJob_row" where
  "demo_job i k =
     \<lparr>rt_ID = i, rt_DeploymentID = ''p1'', rt_ServiceID = ''git'', rt_RouteKey = k, rt_EnvironmentID = ''env'',
      rt_ProjectID = ''prj'', rt_WorkspaceID = ''ws'', rt_ServerID = ''srv'', rt_Status = TeardownStatusAssigned,
      rt_Message = [], rt_Error = [], rt_CreatedAt = 1, rt_UpdatedAt = 1\<rparr>"

end
