(* ===== verification/System.thy ===== *)
theory System
  imports Previews AgentSide
begin

text \<open>
  The deployments module as one system: every request it serves, from the dashboard, from agents,
  from the webhook and from the expiry sweep, and the worlds a sequence of requests reaches.
\<close>

section \<open>Requests\<close>

datatype request =
    CreateReq Principal CreateForServiceInput
  | PreviewReq Principal CreatePreviewInput
  | RollbackReq Principal string
  | TeardownReq Principal string
  | GetReq Principal string
  | ListByServiceReq Principal string
  | ListByEnvironmentReq Principal string
  | ListByProjectReq Principal string
  | ListByWorkspaceReq Principal string
  | ListEventsReq Principal string int
  | ListTeardownsReq Principal string
  | PollReq PollInput
  | ReportReq ReportInput
  | SyncRoutesReq SyncRoutesInput
  | ReportRouteSyncReq ReportRouteSyncInput
  | PollTeardownReq PollInput
  | ReportTeardownReq ReportTeardownInput
  | PreviewForPRReq string int
  | TeardownForPRReq string int
  | ExpireReq int

definition finish :: "'a m \<Rightarrow> unit m" where
  "finish = map_m (\<lambda>_. ())"

definition serve :: "deps \<Rightarrow> request \<Rightarrow> unit m" where
  "serve D q =
     (case q of
        CreateReq p inp \<Rightarrow> finish (CreateForService D p inp)
      | PreviewReq p inp \<Rightarrow> finish (CreatePreview D p inp)
      | RollbackReq p i \<Rightarrow> finish (RollbackToDeployment D p i)
      | TeardownReq p i \<Rightarrow> finish (TeardownPreview D p i)
      | GetReq p i \<Rightarrow> finish (Get D p i)
      | ListByServiceReq p i \<Rightarrow> finish (ListByService D p i)
      | ListByEnvironmentReq p i \<Rightarrow> finish (ListByEnvironment D p i)
      | ListByProjectReq p i \<Rightarrow> finish (ListByProject D p i)
      | ListByWorkspaceReq p i \<Rightarrow> finish (ListByWorkspace p i)
      | ListEventsReq p i n \<Rightarrow> finish (ListEvents D p i n)
      | ListTeardownsReq p i \<Rightarrow> finish (ListTeardownsByService D p i)
      | PollReq inp \<Rightarrow> finish (PollDeployment D inp)
      | ReportReq inp \<Rightarrow> ReportDeployment D inp
      | SyncRoutesReq inp \<Rightarrow> finish (SyncRoutes D inp)
      | ReportRouteSyncReq inp \<Rightarrow> ReportRouteSync D inp
      | PollTeardownReq inp \<Rightarrow> finish (PollTeardownJob inp)
      | ReportTeardownReq inp \<Rightarrow> ReportTeardownJob D inp
      | PreviewForPRReq i n \<Rightarrow> finish (CreatePreviewForPR D i n)
      | TeardownForPRReq i n \<Rightarrow> TeardownPreviewForPR D i n
      | ExpireReq ttl \<Rightarrow> finish (ExpirePreviews ttl))"

section \<open>Errors leave no trace\<close>

lemma readonly_resolveAgent: "readonly (resolveAgent i c)"
  unfolding resolveAgent_def
  by (intro reads.obeys_rules) (auto intro!: reads.obeys_rules readonly_store split: option.split)

lemma readonly_ownsRoute: "readonly (ownsRoute D s i j)"
  unfolding ownsRoute_def by (intro reads.obeys_rules) (auto intro!: reads.obeys_rules readonly_store)

lemma readonly_ownedServices: "readonly (ownedServices D s rs)"
proof (induction rs)
  case Nil
  show ?case unfolding ownedServices.simps by (rule reads.obeys_ret)
next
  case (Cons r rs)
  then show ?case unfolding ownedServices.simps by (intro reads.obeys_rules readonly_ownsRoute)
qed

lemma readonly_configEnvForService: "readonly (configEnvForService D i b)"
  unfolding configEnvForService_def by (intro reads.obeys_rules readonly_store)

lemmas readonly_all = readonly_store readonly_Authorize readonly_resolveAgent readonly_ownsRoute
  readonly_ownedServices readonly_configEnvForService

text \<open>Handlers that only read.\<close>

lemma readonly_handlers:
  "readonly (Get D p i)" "readonly (ListByService D p i)" "readonly (ListByEnvironment D p i)"
  "readonly (ListByProject D p i)" "readonly (ListByWorkspace p i)" "readonly (ListEvents D p i n)"
  "readonly (ListTeardownsByService D p i)" "readonly (SyncRoutes D inp)"
  unfolding Get_def ListByService_def ListByEnvironment_def ListByProject_def ListByWorkspace_def ListEvents_def
    ListTeardownsByService_def SyncRoutes_def Let_def
  by (intro reads.obeys_rules; auto intro!: reads.obeys_rules readonly_all split: option.split)+

lemma readonly_finish: "readonly c \<Longrightarrow> readonly (finish c)"
  unfolding finish_def map_m_def by (intro reads.obeys_rules)

lemma atomic_finish: "atomic c \<Longrightarrow> atomic (finish c)"
  unfolding finish_def map_m_def by (rule atomic_bind_ret)

lemma atomic_enqueuePreview: "atomic (enqueuePreview D i s b n port pw u actor)"
  unfolding enqueuePreview_def Let_def
  by (intro atomic_read_bind reads.obeys_rules readonly_all)
     (auto intro!: atomic_rules atomic_read_bind reads.obeys_rules readonly_all split: option.split)

lemma atomic_handlers:
  "atomic (CreateForService D p ci)" "atomic (CreatePreview D p pi)" "atomic (RollbackToDeployment D p i)"
  "atomic (TeardownPreview D p i)" "atomic (ReportDeployment D ri)" "atomic (ReportRouteSync D si)"
  "atomic (PollTeardownJob po)" "atomic (ReportTeardownJob D ti)" "atomic (CreatePreviewForPR D i n)"
  "atomic (TeardownPreviewForPR D i n)"
  unfolding CreateForService_def CreatePreview_def RollbackToDeployment_def TeardownPreview_def ReportDeployment_def
    ReportRouteSync_def PollTeardownJob_def ReportTeardownJob_def CreatePreviewForPR_def TeardownPreviewForPR_def Let_def
  by (auto intro!: atomic_rules atomic_read_bind reads.obeys_rules readonly_all atomic_enqueuePreview
        split: option.split)

lemma expireAll_total: "\<exists>k w'. expireAll ds n w = (Inr k, w')"
proof (induction ds arbitrary: n w)
  case Nil
  then show ?case by simp
next
  case (Cons dep ds)
  obtain b w1 where "catch (bind (expireOne dep) (\<lambda>_. ret True)) (\<lambda>_. ret False) w = (Inr b, w1)"
    by (cases "expireOne dep w"; cases "fst (expireOne dep w)") (auto simp: catch_def bind_def)
  with Cons [of "if b then n + 1 else n" w1] show ?case by (auto simp: bind_def)
qed

lemma atomic_ExpirePreviews: "atomic (ExpirePreviews ttl)"
proof -
  have "atomic (expireAll ds n)" for ds n
    using expireAll_total [of ds n] by (metis Inl_Inr_False atomicI prod.inject)
  then have "atomic (bind (map_err f (ListExpiredPreviews t)) (\<lambda>ds. expireAll ds 0))" for f t
    by (intro atomic_read_bind reads.obeys_rules readonly_all)
  then show ?thesis by (auto simp: ExpirePreviews_def atomic_simple intro!: atomicI dest: atomicD)
qed



section \<open>What requests may write\<close>

text \<open>The contract of the agents' statements: a relation that every \<open>UPDATE\<close> of the module
  respects, for statuses other than \<open>queued\<close>, and every appended event. Each agent request
  then obeys it.\<close>

locale update_relation = world_relation +
  assumes upd_claim: "obeys R (db_ClaimNextDeploymentForServer s)"
    and upd_status: "st \<noteq> StatusQueued \<Longrightarrow> obeys R (db_UpdateDeploymentStatus st msg hp cid sha img url i)"
    and upd_supersede: "obeys R (db_SupersedePreviousRunning k s i)"
    and upd_torndown: "obeys R (db_MarkPreviewTornDown k s)"
    and upd_event: "obeys R (db_AppendDeploymentEvent i kind st msg stream)"
    and upd_claim_teardown: "obeys R (db_ClaimNextTeardownForServer s)"
    and upd_teardown: "st \<noteq> TeardownStatusQueued \<Longrightarrow> obeys R (db_UpdateTeardownStatus st msg er i)"
    and upd_url: "obeys R (db_UpdateServiceRouteURL i url)"
    and upd_domains: "obeys R (db_MarkDomainsRouteSync i hs st msg)"
begin

lemmas obeys_reads = readonly_all [THEN readonly_obeys]

lemmas obeys_read_handlers = readonly_handlers [THEN readonly_obeys]

lemma obeys_map_m: "obeys R c \<Longrightarrow> obeys R (map_m f c)"
  unfolding map_m_def by (intro obeys_rules)

lemma obeys_absent_ok: "obeys R c \<Longrightarrow> obeys R (absent_ok c)"
  unfolding absent_ok_def by (intro obeys_rules) (auto intro: obeys_rules)

lemma obeys_finish: "obeys R c \<Longrightarrow> obeys R (finish c)"
  unfolding finish_def by (rule obeys_map_m)

lemma obeys_store_updates:
  "obeys R (ClaimNextForServer s)" "obeys R (AppendEvent e)" "obeys R (SupersedePreviousRunning k s i)"
  "obeys R (UpdateServiceRouteURL i url)" "obeys R (MarkDomainsRouteSync i hs st msg)"
  "obeys R (ClaimNextTeardownForServer s)" "obeys R (MarkPreviewTornDown k s)"
  unfolding ClaimNextForServer_def AppendEvent_def SupersedePreviousRunning_def UpdateServiceRouteURL_def
    MarkDomainsRouteSync_def ClaimNextTeardownForServer_def MarkPreviewTornDown_def
  by (intro obeys_absent_ok obeys_map_m obeys_rules upd_claim upd_event upd_supersede upd_url upd_domains
        upd_claim_teardown upd_torndown)+

lemma obeys_UpdateStatus: "su_Status u \<noteq> StatusQueued \<Longrightarrow> obeys R (UpdateStatus u)"
  unfolding UpdateStatus_def by (intro obeys_rules upd_status)

lemma obeys_UpdateTeardownStatus: "ts_Status u \<noteq> TeardownStatusQueued \<Longrightarrow> obeys R (UpdateTeardownStatus u)"
  unfolding UpdateTeardownStatus_def by (intro obeys_map_m upd_teardown)

lemma obeys_failDeployment: "obeys R (failDeployment i msg)"
  unfolding failDeployment_def by (intro obeys_rules obeys_UpdateStatus obeys_store_updates) simp

lemma obeys_withGit: "obeys R (withGit D dep svc out)"
  unfolding withGit_def Let_def
  by (auto intro!: obeys_rules obeys_failDeployment split: sum.split option.split)

lemma obeys_claimTx: "obeys R (claimTx s)"
  unfolding claimTx_def
  by (intro obeys_rules obeys_store_updates) (auto intro!: obeys_rules obeys_store_updates split: option.split)

lemma obeys_PollDeployment: "obeys R (PollDeployment D inp)"
  unfolding PollDeployment_def handOut_def
  by (auto intro!: obeys_rules obeys_claimTx obeys_withGit obeys_reads split: option.split prod.split)

lemma obeys_ReportDeployment: "obeys R (ReportDeployment D inp)"
proof -
  have "obeys R (reportTx inp dep s)" if "isAgentReportableStatus (ri_Status inp)" for dep s
    unfolding reportTx_def appendLogLines_def using that
    by (intro obeys_rules obeys_UpdateStatus obeys_store_updates) (auto simp: isAgentReportableStatus_def)
  then show ?thesis
    unfolding ReportDeployment_def
    by (intro obeys_checkI) (auto intro!: obeys_rules obeys_reads split: option.split prod.split)
qed

lemma obeys_ReportRouteSync: "obeys R (ReportRouteSync D inp)"
  unfolding ReportRouteSync_def applyRouteSync_def
  by (auto intro!: obeys_rules obeys_store_updates obeys_reads)

lemma obeys_PollTeardownJob: "obeys R (PollTeardownJob inp)"
  unfolding PollTeardownJob_def by (auto intro!: obeys_rules obeys_store_updates obeys_reads)

lemma obeys_ReportTeardownJob: "obeys R (ReportTeardownJob D inp)"
proof -
  have "rp_Status inp \<noteq> TeardownStatusQueued" if "isAgentReportableTeardownStatus (rp_Status inp)"
    using that by (auto simp: isAgentReportableTeardownStatus_def)
  then show ?thesis
    unfolding ReportTeardownJob_def
    by (intro obeys_checkI)
       (auto intro!: obeys_rules obeys_UpdateTeardownStatus obeys_store_updates obeys_reads
          split: option.split prod.split)
qed

lemmas obeys_agent = obeys_PollDeployment obeys_ReportDeployment obeys_ReportRouteSync obeys_PollTeardownJob
  obeys_ReportTeardownJob

end

text \<open>The contract of all statements: also the inserts.\<close>

locale write_relation = update_relation +
  assumes ins_image: "obeys R (db_CreateDeployment sid k e p ws srv img port back)"
    and ins_git: "obeys R (db_CreateDeploymentFromGit sid k e p ws srv port acc url ref back)"
    and ins_preview: "obeys R (db_CreatePreviewDeployment sid k e p ws srv port acc url ref n purl u h)"
    and ins_teardown: "obeys R (db_CreateTeardownJob i sid k e p ws srv)"
    and ins_audit: "obeys R (db_CreateAuditEvent ws' actor action tt tid)"
begin

lemma obeys_store_inserts:
  "obeys R (InsertDeployment d1)" "obeys R (InsertDeploymentFromGit d2)" "obeys R (InsertPreviewDeployment d3)"
  "obeys R (InsertTeardownJob d4)" "obeys R (audit_Record act tt tid ws actor)"
  unfolding InsertDeployment_def InsertDeploymentFromGit_def InsertPreviewDeployment_def InsertTeardownJob_def
    audit_Record_def audit_Insert_def
  by (intro obeys_map_m obeys_rules ins_image ins_git ins_preview ins_teardown ins_audit)+

lemma obeys_buildAndInsert: "obeys R (buildAndInsert sid svc srv port ref)"
  unfolding buildAndInsert_def Let_def by (auto intro!: obeys_rules obeys_store_inserts)

lemma obeys_insertRollback: "obeys R (insertRollback t)"
  unfolding insertRollback_def Let_def by (auto intro!: obeys_rules obeys_store_inserts)

lemma obeys_enqueuePreview: "obeys R (enqueuePreview D i s b n port pw u actor)"
  unfolding enqueuePreview_def Let_def
  by (auto intro!: obeys_rules obeys_store_inserts obeys_reads split: option.split prod.split)

lemma obeys_expireAll: "obeys R (expireAll ds n)"
proof (induction ds arbitrary: n)
  case Nil
  show ?case unfolding expireAll.simps by (rule obeys_ret)
next
  case (Cons d ds)
  then show ?case
    unfolding expireAll.simps expireOne_def by (intro obeys_rules obeys_store_inserts)
qed

lemma obeys_ExpirePreviews: "obeys R (ExpirePreviews ttl)"
proof -
  have "obeys R (bind (map_err f (ListExpiredPreviews t)) (\<lambda>ds. expireAll ds 0))" for f t
    by (intro obeys_rules obeys_expireAll obeys_reads)
  then show ?thesis by (simp add: obeys_def ExpirePreviews_def R_refl)
qed

lemma obeys_dashboard:
  "obeys R (CreateForService D p ci)" "obeys R (CreatePreview D p pi)" "obeys R (RollbackToDeployment D p i)"
  "obeys R (TeardownPreview D p i)" "obeys R (CreatePreviewForPR D i n)" "obeys R (TeardownPreviewForPR D i n)"
  unfolding CreateForService_def CreatePreview_def RollbackToDeployment_def TeardownPreview_def CreatePreviewForPR_def
    TeardownPreviewForPR_def Let_def
  by (auto intro!: obeys_rules obeys_store_inserts obeys_buildAndInsert obeys_insertRollback obeys_enqueuePreview
        obeys_reads split: option.split prod.split)

lemma obeys_serve: "obeys R (serve D q)"
  by (cases q)
     (simp_all add: serve_def obeys_finish obeys_agent obeys_dashboard obeys_ExpirePreviews obeys_read_handlers)

end

end
