(* ===== verification/Lifecycle.thy ===== *)
theory Lifecycle
  imports System
begin

text \<open>
  What no request can do: rewrite history. The tables only grow, the identity of a deployment never
  changes, a deployment that left the queue never returns to it, statuses stay in their vocabulary.
  On top of it, the invariant of reachable databases: tenants stay apart and previews stay apart from
  production.
\<close>

section \<open>Histories\<close>

text \<open>The part of a row that no report may change.\<close>

definition frozen :: "Deployment_row \<Rightarrow> Deployment_row" where
  "frozen r = r\<lparr>rd_Status := [], rd_Message := [], rd_HostPort := 0, rd_ContainerID := [], rd_CommitSha := [],
     rd_BuiltImageRef := [], rd_RouteUrl := [], rd_UpdatedAt := 0\<rparr>"

definition frozen_job :: "TeardownJob_row \<Rightarrow> TeardownJob_row" where
  "frozen_job r = r\<lparr>rt_Status := [], rt_Message := [], rt_Error := [], rt_UpdatedAt := 0\<rparr>"

definition frozen_service :: "Service_row \<Rightarrow> Service_row" where
  "frozen_service s = s\<lparr>rs_RouteUrl := [], rs_UpdatedAt := 0\<rparr>"

definition frozen_domain :: "Domain_row \<Rightarrow> Domain_row" where
  "frozen_domain r = r\<lparr>dm_Status := [], dm_StatusMessage := [], dm_UpdatedAt := 0\<rparr>"

definition dep_evolves :: "Deployment_row \<Rightarrow> Deployment_row \<Rightarrow> bool" where
  "dep_evolves r r' \<longleftrightarrow> frozen r' = frozen r \<and>
     (rd_Status r \<noteq> StatusQueued \<longrightarrow> rd_Status r' \<noteq> StatusQueued) \<and>
     (rd_Status r \<in> set deployment_statuses \<longrightarrow> rd_Status r' \<in> set deployment_statuses)"

definition job_evolves :: "TeardownJob_row \<Rightarrow> TeardownJob_row \<Rightarrow> bool" where
  "job_evolves r r' \<longleftrightarrow> frozen_job r' = frozen_job r \<and>
     (rt_Status r \<noteq> TeardownStatusQueued \<longrightarrow> rt_Status r' \<noteq> TeardownStatusQueued) \<and>
     (rt_Status r \<in> set teardown_statuses \<longrightarrow> rt_Status r' \<in> set teardown_statuses)"

text \<open>Tables that the module only reads.\<close>

definition read_only_tables where
  "read_only_tables d =
     (workspace_members d, projects d, environments d, servers d, agents d, agent_registration_tokens d, config_entries d,
      users d, workspaces d, sessions d, api_tokens d, user_tokens d, backups d, restore_jobs d, source_connections d)"

definition frame :: "database \<Rightarrow> database \<Rightarrow> bool" where
  "frame d d' \<longleftrightarrow> read_only_tables d' = read_only_tables d \<and>
     map frozen_service (services d') = map frozen_service (services d) \<and>
     map frozen_domain (domains d') = map frozen_domain (domains d) \<and>
     prefix (deployment_events d) (deployment_events d')"

text \<open>Rows were at most touched.\<close>

definition touched :: "database \<Rightarrow> database \<Rightarrow> bool" where
  "touched d d' \<longleftrightarrow> frame d d' \<and> list_all2 dep_evolves (deployments d) (deployments d') \<and>
     list_all2 job_evolves (teardown_jobs d) (teardown_jobs d') \<and> audit_events d' = audit_events d"

text \<open>Rows may also have been appended.\<close>

definition history :: "database \<Rightarrow> database \<Rightarrow> bool" where
  "history d d' \<longleftrightarrow> frame d d' \<and> extends dep_evolves (deployments d) (deployments d') \<and>
     extends job_evolves (teardown_jobs d) (teardown_jobs d') \<and> prefix (audit_events d) (audit_events d')"

lemma evolves_refl [simp]: "dep_evolves r r" "job_evolves j j"
  by (simp_all add: dep_evolves_def job_evolves_def)

lemma evolves_trans:
  "dep_evolves r r' \<Longrightarrow> dep_evolves r' r'' \<Longrightarrow> dep_evolves r r''"
  "job_evolves j j' \<Longrightarrow> job_evolves j' j'' \<Longrightarrow> job_evolves j j''"
  by (auto simp: dep_evolves_def job_evolves_def)

lemma evolve_lists_trans:
  "list_all2 dep_evolves a b \<Longrightarrow> list_all2 dep_evolves b c \<Longrightarrow> list_all2 dep_evolves a c"
  "list_all2 job_evolves x y \<Longrightarrow> list_all2 job_evolves y z \<Longrightarrow> list_all2 job_evolves x z"
  "extends dep_evolves a b \<Longrightarrow> extends dep_evolves b c \<Longrightarrow> extends dep_evolves a c"
  "extends job_evolves x y \<Longrightarrow> extends job_evolves y z \<Longrightarrow> extends job_evolves x z"
  by (rule list_all2_trans, rule evolves_trans(1), assumption+)
     (rule list_all2_trans, rule evolves_trans(2), assumption+,
      rule extends_trans, rule evolves_trans(1), assumption+,
      rule extends_trans, rule evolves_trans(2), assumption+)

lemma frame_refl [simp]: "frame d d"
  by (simp add: frame_def)

lemma frame_trans: "frame d d' \<Longrightarrow> frame d' d'' \<Longrightarrow> frame d d''"
  by (auto simp: frame_def)

lemma touched_refl: "touched d d"
  by (simp add: touched_def list_all2_refl)

lemma touched_trans: "touched d d' \<Longrightarrow> touched d' d'' \<Longrightarrow> touched d d''"
  unfolding touched_def using frame_trans evolve_lists_trans(1,2) by metis

lemma touched_history: "touched d d' \<Longrightarrow> history d d'"
  by (simp add: touched_def history_def extends_all2)

lemma history_refl: "history d d"
  by (simp add: touched_history touched_refl)

lemma history_trans: "history d d' \<Longrightarrow> history d' d'' \<Longrightarrow> history d d''"
  unfolding history_def using frame_trans evolve_lists_trans(3,4) prefix_order.trans by metis

lemma frozen_eq:
  assumes "frozen r' = frozen r"
  shows "rd_ID r' = rd_ID r" "rd_ServiceID r' = rd_ServiceID r" "rd_ServerID r' = rd_ServerID r"
    "rd_WorkspaceID r' = rd_WorkspaceID r" "rd_Kind r' = rd_Kind r" "rd_RouteKey r' = rd_RouteKey r"
    "rd_EnvironmentID r' = rd_EnvironmentID r" "rd_ProjectID r' = rd_ProjectID r" "rd_CreatedAt r' = rd_CreatedAt r"
  using assms [THEN arg_cong, of rd_ID]
    assms [THEN arg_cong, of rd_ServiceID]
    assms [THEN arg_cong, of rd_ServerID]
    assms [THEN arg_cong, of rd_WorkspaceID]
    assms [THEN arg_cong, of rd_Kind]
    assms [THEN arg_cong, of rd_RouteKey]
    assms [THEN arg_cong, of rd_EnvironmentID]
    assms [THEN arg_cong, of rd_ProjectID]
    assms [THEN arg_cong, of rd_CreatedAt]
  by (simp_all add: frozen_def)

lemma frozen_job_eq:
  assumes "frozen_job r' = frozen_job r"
  shows "rt_ID r' = rt_ID r" "rt_DeploymentID r' = rt_DeploymentID r" "rt_RouteKey r' = rt_RouteKey r"
    "rt_ServerID r' = rt_ServerID r" "rt_WorkspaceID r' = rt_WorkspaceID r"
  using assms [THEN arg_cong, of rt_ID] assms [THEN arg_cong, of rt_DeploymentID]
    assms [THEN arg_cong, of rt_RouteKey] assms [THEN arg_cong, of rt_ServerID]
    assms [THEN arg_cong, of rt_WorkspaceID]
  by (simp_all add: frozen_job_def)

lemma frozen_updates [simp]:
  "frozen (set_deployment_status st msg hp cid sha img url t r) = frozen r"
  "frozen (assign_deployment t r) = frozen r"
  "frozen (r\<lparr>rd_Status := st, rd_UpdatedAt := t\<rparr>) = frozen r"
  "frozen_job (set_teardown_status st msg er t j) = frozen_job j"
  "frozen_job (assign_teardown t j) = frozen_job j"
  by (simp_all add: frozen_def frozen_job_def set_deployment_status_def assign_deployment_def set_teardown_status_def
        assign_teardown_def)

section \<open>Statements keep the history\<close>

lemma obeys_mono: "obeys R c \<Longrightarrow> (\<And>w w'. R w w' \<Longrightarrow> R' w w') \<Longrightarrow> obeys R' c"
  by (simp add: obeys_def)

lemma touched_deployments:
  assumes "\<And>r. r \<in> set (deployments d) \<Longrightarrow> p r \<Longrightarrow> dep_evolves r (f r)"
  shows "touched d (upd_deployments p f d)"
  using assms
  by (simp add: touched_def upd_deployments_def frame_def read_only_tables_def list_all2_update_where list_all2_refl)

lemma touched_jobs:
  assumes "\<And>r. r \<in> set (teardown_jobs d) \<Longrightarrow> p r \<Longrightarrow> job_evolves r (f r)"
  shows "touched d (d\<lparr>teardown_jobs := update_where p f (teardown_jobs d)\<rparr>)"
  using assms
  by (simp add: touched_def frame_def read_only_tables_def list_all2_update_where list_all2_refl)

interpretation touch0: world_relation "db_rel touched"
  by (rule db_rel_world_relation) (rule touched_refl, rule touched_trans)

lemma touched_updates:
  "obeys (db_rel touched) (db_ClaimNextDeploymentForServer s)"
  "obeys (db_rel touched) (db_ClaimNextTeardownForServer s)"
  unfolding db_ClaimNextDeploymentForServer_def db_ClaimNextTeardownForServer_def
  by (rule touch0.obeys_update_one,
      auto simp: db_rel_def dep_evolves_def job_evolves_def assign_deployment_def assign_teardown_def frozen_def
        frozen_job_def deployment_statuses_def teardown_statuses_def split: option.splits
        intro!: touched_deployments touched_jobs)+

lemma touched_status:
  "st \<noteq> StatusQueued \<Longrightarrow> obeys (db_rel touched) (db_UpdateDeploymentStatus st msg hp cid sha img url i)"
  unfolding db_UpdateDeploymentStatus_def
  by (rule touch0.obeys_update_one)
     (auto simp: db_rel_def dep_evolves_def set_deployment_status_def frozen_def Let_def split: option.splits
        intro!: touched_deployments)

lemma touched_teardown_status:
  "st \<noteq> TeardownStatusQueued \<Longrightarrow> obeys (db_rel touched) (db_UpdateTeardownStatus st msg er i)"
  unfolding db_UpdateTeardownStatus_def
  by (rule touch0.obeys_update_one)
     (auto simp: db_rel_def job_evolves_def set_teardown_status_def frozen_job_def Let_def split: option.splits
        intro!: touched_jobs)

lemma touched_execs:
  "obeys (db_rel touched) (db_SupersedePreviousRunning k s i)"
  "obeys (db_rel touched) (db_MarkPreviewTornDown k s)"
  unfolding db_SupersedePreviousRunning_def db_MarkPreviewTornDown_def
  by (rule touch0.obeys_exec_sql,
      auto simp: db_rel_def dep_evolves_def frozen_def deployment_statuses_def intro!: touched_deployments)+

lemma touched_siblings:
  "obeys (db_rel touched) (db_UpdateServiceRouteURL i url)"
  "obeys (db_rel touched) (db_MarkDomainsRouteSync i hs st msg)"
  unfolding db_UpdateServiceRouteURL_def db_MarkDomainsRouteSync_def
  by (rule touch0.obeys_exec_sql,
      simp add: db_rel_def touched_def frame_def read_only_tables_def list_all2_refl map_update_where frozen_service_def
        frozen_domain_def)+

lemma touched_event: "obeys (db_rel touched) (db_AppendDeploymentEvent i kind st msg stream)"
  unfolding db_AppendDeploymentEvent_def
  by (rule touch0.obeys_query)
     (simp add: Let_def db_rel_def touched_def frame_def read_only_tables_def list_all2_refl)

interpretation touch: update_relation "db_rel touched"
  by unfold_locales (fact touched_updates touched_status touched_execs touched_event touched_teardown_status
    touched_siblings)+

interpretation hist0: world_relation "db_rel history"
  by (rule db_rel_world_relation) (rule history_refl, rule history_trans)

lemma history_appends:
  "history d (put_deployment r d)"
  "history d (d\<lparr>teardown_jobs := teardown_jobs d @ [j]\<rparr>)"
  "history d (d\<lparr>audit_events := audit_events d @ [a]\<rparr>)"
  by (simp_all add: history_def frame_def read_only_tables_def put_deployment_def extends_refl extends_append)

lemma history_inserts:
  "obeys (db_rel history) (db_CreateDeployment sid k e p ws srv img port back)"
  "obeys (db_rel history) (db_CreateDeploymentFromGit sid k e p ws srv port acc url ref back)"
  "obeys (db_rel history) (db_CreatePreviewDeployment sid k e p ws srv port acc url ref n purl u h)"
  "obeys (db_rel history) (db_CreateTeardownJob i sid k e p ws srv)"
  "obeys (db_rel history) (db_CreateAuditEvent ws' actor action tt tid)"
  unfolding db_CreateDeployment_def db_CreateDeploymentFromGit_def db_CreatePreviewDeployment_def
    db_CreateTeardownJob_def db_CreateAuditEvent_def
  by (rule hist0.obeys_insert_row; simp add: db_rel_def history_appends history_refl)+

lemma history_of_touched: "obeys (db_rel touched) c \<Longrightarrow> obeys (db_rel history) c"
  by (erule obeys_mono) (simp add: db_rel_def touched_history)

interpretation hist: write_relation "db_rel history"
  by unfold_locales
     (intro history_of_touched touch.upd_claim touch.upd_status touch.upd_supersede touch.upd_torndown touch.upd_event
        touch.upd_claim_teardown touch.upd_teardown touch.upd_url touch.upd_domains history_inserts; assumption)+


section \<open>The invariant\<close>

definition service_keys :: "database \<Rightarrow> (string \<times> string) list" where
  "service_keys d = map (\<lambda>s. (rs_ID s, rs_WorkspaceID s)) (services d)"

definition server_keys :: "database \<Rightarrow> (string \<times> string) list" where
  "server_keys d = map (\<lambda>s. (sv_ID s, sv_WorkspaceID s)) (servers d)"

text \<open>A deployment belongs to one tenant: its service and its server are in its workspace. A
  production deployment is routed under its service's identifier, a preview under a key of its own.\<close>

definition row_wf :: "database \<Rightarrow> Deployment_row \<Rightarrow> bool" where
  "row_wf d r \<longleftrightarrow>
     rd_Status r \<in> set deployment_statuses \<and>
     (rd_ServiceID r, rd_WorkspaceID r) \<in> set (service_keys d) \<and>
     (rd_ServerID r, rd_WorkspaceID r) \<in> set (server_keys d) \<and>
     (rd_Kind r = KindProduction \<and> rd_RouteKey r = rd_ServiceID r \<or>
      rd_Kind r = KindPreview \<and> (\<exists>n ref. rd_RouteKey r = previewRouteKey (rd_ServiceID r) n ref))"

text \<open>A teardown job targets a preview, under the preview's route key, on the preview's server.\<close>

definition job_wf :: "database \<Rightarrow> TeardownJob_row \<Rightarrow> bool" where
  "job_wf d j \<longleftrightarrow>
     (\<exists>t \<in> set (deployments d). rd_ID t = rt_DeploymentID j \<and> rd_Kind t = KindPreview \<and>
        rt_RouteKey j = rd_RouteKey t \<and> rt_ServerID j = rd_ServerID t \<and> rt_WorkspaceID j = rd_WorkspaceID t)"

text \<open>Primary keys are unique and service identifiers, being UUIDs, have one length.\<close>

definition wf_db :: "database \<Rightarrow> bool" where
  "wf_db d \<longleftrightarrow>
     distinct (map rd_ID (deployments d)) \<and> distinct (map rt_ID (teardown_jobs d)) \<and>
     distinct (map fst (service_keys d)) \<and> (\<exists>n. \<forall>i \<in> fst ` set (service_keys d). length i = n) \<and>
     (\<forall>r \<in> set (deployments d). row_wf d r) \<and> (\<forall>j \<in> set (teardown_jobs d). job_wf d j)"

lemma frame_keys:
  assumes "frame d d'"
  shows "service_keys d' = service_keys d" and "server_keys d' = server_keys d"
proof -
  let ?g = "\<lambda>s. (rs_ID s, rs_WorkspaceID s)"
  have "map ?g (services e) = map ?g (map frozen_service (services e))" for e
    by (simp add: frozen_service_def)
  then show "service_keys d' = service_keys d"
    using assms unfolding service_keys_def frame_def by metis
  show "server_keys d' = server_keys d"
    using assms by (simp add: server_keys_def frame_def read_only_tables_def)
qed

lemma row_wf_evolves:
  assumes "frame d d'" and "dep_evolves r r'" and "row_wf d r"
  shows "row_wf d' r'"
proof -
  have "frozen r' = frozen r" using assms(2) by (simp add: dep_evolves_def)
  from frozen_eq [OF this] frame_keys [OF assms(1)] assms(2,3) show ?thesis
    by (simp add: row_wf_def dep_evolves_def)
qed

lemma job_wf_evolves:
  assumes "list_all2 dep_evolves (deployments d) (deployments d')" and "job_evolves j j'" and "job_wf d j"
  shows "job_wf d' j'"
proof -
  from assms(3) obtain t where t: "t \<in> set (deployments d)" "rd_ID t = rt_DeploymentID j" "rd_Kind t = KindPreview"
      "rt_RouteKey j = rd_RouteKey t" "rt_ServerID j = rd_ServerID t" "rt_WorkspaceID j = rd_WorkspaceID t"
    unfolding job_wf_def by blast
  from list_all2_mem [OF assms(1) t(1)] obtain t' where t': "t' \<in> set (deployments d')" "frozen t' = frozen t"
    by (auto simp: dep_evolves_def)
  have j': "frozen_job j' = frozen_job j" using assms(2) by (simp add: job_evolves_def)
  show ?thesis
    unfolding job_wf_def using t t'(1) frozen_eq [OF t'(2)] frozen_job_eq [OF j'] by (intro bexI [of _ t']) simp_all
qed

text \<open>Agents keep the invariant: they only touch rows.\<close>

lemma wf_touched:
  assumes "wf_db d" and "touched d d'"
  shows "wf_db d'"
proof -
  have fr: "frame d d'" and deps: "list_all2 dep_evolves (deployments d) (deployments d')"
    and jobs: "list_all2 job_evolves (teardown_jobs d) (teardown_jobs d')"
    using assms(2) by (simp_all add: touched_def)
  have "map rd_ID (deployments d') = map rd_ID (deployments d)"
    using deps by (rule list_all2_map_eq) (auto simp: dep_evolves_def dest: frozen_eq(1))
  moreover have "map rt_ID (teardown_jobs d') = map rt_ID (teardown_jobs d)"
    using jobs by (rule list_all2_map_eq) (auto simp: job_evolves_def dest: frozen_job_eq(1))
  moreover have "\<forall>r' \<in> set (deployments d'). row_wf d' r'"
    using assms(1) list_all2_mem2 [OF deps] row_wf_evolves [OF fr] unfolding wf_db_def by meson
  moreover have "\<forall>j' \<in> set (teardown_jobs d'). job_wf d' j'"
    using assms(1) list_all2_mem2 [OF jobs] job_wf_evolves [OF deps] unfolding wf_db_def by meson
  ultimately show ?thesis
    using assms(1) unfolding wf_db_def frame_keys [OF fr] by simp
qed

text \<open>Appending rows.\<close>

lemma keys_update [simp]:
  "service_keys (d\<lparr>deployments := x\<rparr>) = service_keys d" "server_keys (d\<lparr>deployments := x\<rparr>) = server_keys d"
  "service_keys (d\<lparr>teardown_jobs := y\<rparr>) = service_keys d" "server_keys (d\<lparr>teardown_jobs := y\<rparr>) = server_keys d"
  "service_keys (d\<lparr>audit_events := z\<rparr>) = service_keys d" "server_keys (d\<lparr>audit_events := z\<rparr>) = server_keys d"
  by (simp_all add: service_keys_def server_keys_def)

lemma wf_put_deployment:
  assumes "wf_db d" and "row_wf d r" and "rd_ID r \<notin> rd_ID ` set (deployments d)"
    and d': "d' = d\<lparr>deployments := deployments d @ [r], audit_events := as\<rparr>"
  shows "wf_db d'"
proof -
  have row: "row_wf d' x = row_wf d x" for x by (simp add: d' row_wf_def)
  have job: "job_wf d j \<Longrightarrow> job_wf d' j" for j by (auto simp: d' job_wf_def)
  have "service_keys d' = service_keys d" by (simp add: d')
  moreover have "set (deployments d') = insert r (set (deployments d))" "teardown_jobs d' = teardown_jobs d"
    by (simp_all add: d')
  moreover have "distinct (map rd_ID (deployments d'))" using assms(1,3) by (simp add: d' wf_db_def)
  ultimately show ?thesis using assms(1,2) job unfolding wf_db_def row by simp
qed

lemma wf_put_jobs:
  assumes "wf_db d" and "\<forall>j \<in> set js. job_wf d j" and "distinct (map rt_ID (teardown_jobs d @ js))"
    and d': "d' = d\<lparr>teardown_jobs := teardown_jobs d @ js, audit_events := as\<rparr>"
  shows "wf_db d'"
proof -
  have row: "row_wf d' x = row_wf d x" for x by (simp add: d' row_wf_def)
  have job: "job_wf d' j = job_wf d j" for j by (simp add: d' job_wf_def)
  have "service_keys d' = service_keys d" "deployments d' = deployments d" by (simp_all add: d')
  moreover have "set (teardown_jobs d') = set (teardown_jobs d) \<union> set js" by (simp add: d')
  moreover have "distinct (map rt_ID (teardown_jobs d'))" using assms(3) by (simp add: d')
  ultimately show ?thesis using assms(1,2) unfolding wf_db_def row job by auto
qed

lemma find_service_key: "find (\<lambda>r. rs_ID r = i) (services d) = Some svc \<Longrightarrow> (i, rs_WorkspaceID svc) \<in> set (service_keys d)"
  by (auto simp: service_keys_def dest: find_service)

lemma find_server_key: "find (\<lambda>r. sv_ID r = i) (servers d) = Some srv \<Longrightarrow> (i, sv_WorkspaceID srv) \<in> set (server_keys d)"
  by (auto simp: server_keys_def dest: find_server)

lemma service_key_unique:
  "wf_db d \<Longrightarrow> (i, ws) \<in> set (service_keys d) \<Longrightarrow> (i, ws') \<in> set (service_keys d) \<Longrightarrow> ws = ws'"
  unfolding wf_db_def by (blast intro: eq_key_imp_eq_value)

lemma preview_route_key_nonempty:
  assumes "row_wf d t" and "rd_Kind t = KindPreview"
  shows "rd_RouteKey t \<noteq> []"
proof -
  from assms obtain n ref where "rd_RouteKey t = previewRouteKey (rd_ServiceID t) n ref"
    by (auto simp: row_wf_def)
  then show ?thesis using previewRouteKey_longer [of "rd_ServiceID t" n ref] by auto
qed

lemma fresh_new: "fresh_deployment w r \<Longrightarrow> rd_ID r \<notin> rd_ID ` set (deployments (db w)) \<and> rd_Status r = StatusQueued"
  by (simp add: fresh_deployment_def)

lemma wf_CreateForService:
  assumes "wf_db (db w)" and "CreateForService D p inp w = (Inr dep, w')"
  shows "wf_db (db w')"
  using assms(2)
proof (rule CreateForService_run)
  fix svc srv r a
  assume svc: "find (\<lambda>r. rs_ID r = cs_ServiceID inp) (services (db w)) = Some svc"
    and srv: "find (\<lambda>r. sv_ID r = cs_ServerID inp) (servers (db w)) = Some srv"
    and ws: "sv_WorkspaceID srv = rs_WorkspaceID svc" and fresh: "fresh_deployment w r"
    and r: "production_of svc (cs_ServerID inp) (cs_ContainerPort inp) (cs_GitRef inp) r"
    and d': "db w' = (db w)\<lparr>deployments := deployments (db w) @ [r], audit_events := audit_events (db w) @ [a]\<rparr>"
  have "row_wf (db w) r"
    using find_service_key [OF svc] find_server_key [OF srv] find_service [OF svc] ws r fresh_new [OF fresh]
    by (auto simp: row_wf_def production_of_def deployment_statuses_def)
  then show ?thesis using fresh_new [OF fresh] by (intro wf_put_deployment [OF assms(1) _ _ d']) simp_all
qed

lemma row_wf_preview:
  assumes "(rs_ID svc, rs_WorkspaceID svc) \<in> set (service_keys d)" and "(srv, rs_WorkspaceID svc) \<in> set (server_keys d)"
    and "preview_of D svc srv branch n port r" and "rd_Status r = StatusQueued"
  shows "row_wf d r"
  using assms by (auto simp: row_wf_def preview_of_def deployment_statuses_def)

lemma wf_CreatePreview:
  assumes "wf_db (db w)" and "CreatePreview D p inp w = (Inr dep, w')"
  shows "wf_db (db w')"
  using assms(2)
proof (rule CreatePreview_run)
  fix svc srv r a
  assume svc: "find (\<lambda>r. rs_ID r = cp_ServiceID inp) (services (db w)) = Some svc"
    and srv: "find (\<lambda>r. sv_ID r = cp_ServerID inp) (servers (db w)) = Some srv"
    and ws: "sv_WorkspaceID srv = rs_WorkspaceID svc" and fresh: "fresh_deployment w r"
    and r: "preview_of D svc (cp_ServerID inp) (strings_TrimSpace (cp_Branch inp)) (cp_PRNumber inp) (cp_ContainerPort inp) r"
    and d': "db w' = (db w)\<lparr>deployments := deployments (db w) @ [r], audit_events := audit_events (db w) @ [a]\<rparr>"
  have "row_wf (db w) r"
    using find_service_key [OF svc] find_server_key [OF srv] find_service [OF svc] ws fresh_new [OF fresh]
    by (intro row_wf_preview [OF _ _ r]) simp_all
  then show ?thesis using fresh_new [OF fresh] by (intro wf_put_deployment [OF assms(1) _ _ d']) simp_all
qed

lemma wf_CreatePreviewForPR:
  assumes "wf_db (db w)" and "CreatePreviewForPR D sid n w = (Inr i, w')"
  shows "wf_db (db w')"
  using assms(2)
proof (rule CreatePreviewForPR_run)
  fix t svc r a
  assume t: "t \<in> set (deployments (db w))" "rd_ServiceID t = sid"
    and svc: "find (\<lambda>r. rs_ID r = sid) (services (db w)) = Some svc" and fresh: "fresh_deployment w r"
    and r: "preview_of D svc (rd_ServerID t) [] n 0 r"
    and d': "db w' = (db w)\<lparr>deployments := deployments (db w) @ [r], audit_events := audit_events (db w) @ [a]\<rparr>"
  have "row_wf (db w) t" using assms(1) t(1) by (simp add: wf_db_def)
  then have "(sid, rd_WorkspaceID t) \<in> set (service_keys (db w))" "(rd_ServerID t, rd_WorkspaceID t) \<in> set (server_keys (db w))"
    using t(2) by (simp_all add: row_wf_def)
  moreover note key = find_service_key [OF svc]
  ultimately have "rd_WorkspaceID t = rs_WorkspaceID svc" "(rd_ServerID t, rd_WorkspaceID t) \<in> set (server_keys (db w))"
    using service_key_unique [OF assms(1)] by blast+
  then have "row_wf (db w) r"
    using key find_service [OF svc] fresh_new [OF fresh] by (intro row_wf_preview [OF _ _ r]) simp_all
  then show ?thesis using fresh_new [OF fresh] by (intro wf_put_deployment [OF assms(1) _ _ d']) simp_all
qed

lemma wf_RollbackToDeployment:
  assumes "wf_db (db w)" and "RollbackToDeployment D p i w = (Inr dep, w')"
  shows "wf_db (db w')"
  using assms(2)
proof (rule RollbackToDeployment_run)
  fix t r a
  assume t: "find (\<lambda>r. rd_ID r = i) (deployments (db w)) = Some t" and r: "rollback_of t r"
    and fresh: "fresh_deployment w r"
    and d': "db w' = (db w)\<lparr>deployments := deployments (db w) @ [r], audit_events := audit_events (db w) @ [a]\<rparr>"
  have "row_wf (db w) t" using assms(1) find_deployment [OF t] by (simp add: wf_db_def)
  then have "row_wf (db w) r"
    using r fresh_new [OF fresh] by (auto simp: row_wf_def rollback_of_def deployment_statuses_def)
  then show ?thesis using fresh_new [OF fresh] by (intro wf_put_deployment [OF assms(1) _ _ d']) simp_all
qed

lemma job_wf_teardown:
  assumes "wf_db d" and "t \<in> set (deployments d)" and "rd_Kind t = KindPreview"
    and "teardown_of (routeKeyOr (rd_RouteKey t) (rd_ServiceID t)) t j"
  shows "job_wf d j"
proof -
  have "row_wf d t" using assms(1,2) by (simp add: wf_db_def)
  then have "rd_RouteKey t \<noteq> []" using assms(3) by (rule preview_route_key_nonempty)
  with assms show ?thesis unfolding job_wf_def
    by (intro bexI [of _ t]) (simp_all add: teardown_of_def routeKeyOr_def)
qed

lemma wf_put_job:
  assumes "wf_db d" and "job_wf d j" and "teardown_ok d j"
    and "d' = d\<lparr>teardown_jobs := teardown_jobs d @ [j], audit_events := as\<rparr>"
  shows "wf_db d'"
  by (rule wf_put_jobs [OF assms(1) _ _ assms(4)])
     (use assms(1-3) in \<open>simp_all add: wf_db_def teardown_ok_def\<close>)

lemma wf_TeardownPreview:
  assumes "wf_db (db w)" and "TeardownPreview D p i w = (Inr job, w')"
  shows "wf_db (db w')"
  using assms(2)
proof (rule TeardownPreview_run)
  fix t j a
  assume t: "find (\<lambda>r. rd_ID r = i) (deployments (db w)) = Some t" "rd_Kind t = KindPreview"
    and j: "teardown_of (routeKeyOr (rd_RouteKey t) (rd_ServiceID t)) t j" "teardown_ok (db w) j"
    and d': "db w' = (db w)\<lparr>teardown_jobs := teardown_jobs (db w) @ [j], audit_events := audit_events (db w) @ [a]\<rparr>"
  have "job_wf (db w) j" using assms(1) find_deployment [OF t(1)] t(2) j(1) by (intro job_wf_teardown) auto
  then show ?thesis by (rule wf_put_job [OF assms(1) _ j(2) d'])
qed

lemma wf_TeardownPreviewForPR:
  assumes "wf_db (db w)" and "TeardownPreviewForPR D sid n w = (Inr u, w')"
  shows "wf_db (db w')"
  using assms(2)
proof (cases rule: TeardownPreviewForPR_run)
  case idle
  with assms(1) show ?thesis by simp
next
  case (job t j a)
  have "row_wf (db w) t" using assms(1) job(2) by (simp add: wf_db_def)
  then have "rd_RouteKey t \<noteq> []" using job(5) by (rule preview_route_key_nonempty)
  then have "job_wf (db w) j"
    using assms(1) job(2,4,5,8) by (intro job_wf_teardown [of _ t]) (simp_all add: routeKeyOr_def)
  then show ?thesis by (rule wf_put_job [OF assms(1) _ job(9,11)])
qed

lemma wf_ExpirePreviews:
  assumes "wf_db (db w)" and "ExpirePreviews ttl w = (Inr k, w')"
  shows "wf_db (db w')"
proof (cases "ttl \<le> 0")
  case True
  with assms show ?thesis by (auto simp: ExpirePreviews_def)
next
  case False
  let ?ts = "expired_previews (now w - ttl) (db w)"
  from False assms(2) obtain n where "expireAll (map deploymentFromRow ?ts) 0 (w\<lparr>ops := n\<rparr>) = (Inr k, w')"
    by (auto simp: ExpirePreviews_def ListExpiredPreviews_def db_ListExpiredPreviews_def deploymentsFromRows_def
          expired_previews_def succ_iff)
  from expireAll_run [OF this] obtain js as where
    js: "distinct (map rt_ID js)" "rt_ID ` set js \<inter> rt_ID ` set (teardown_jobs (db w)) = {}"
      "\<forall>j \<in> set js. \<exists>t \<in> set ?ts. teardown_of (routeKeyOr (rd_RouteKey t) (rd_ServiceID t)) t j"
      "db w' = (db w)\<lparr>teardown_jobs := teardown_jobs (db w) @ js, audit_events := audit_events (db w) @ as\<rparr>"
    unfolding swept_def by auto
  have "job_wf (db w) j" if "j \<in> set js" for j
    using js(3) that assms(1) by (auto simp: expired_previews_def intro: job_wf_teardown)
  moreover have "distinct (map rt_ID (teardown_jobs (db w) @ js))" using assms(1) js(1,2) by (auto simp: wf_db_def)
  ultimately show ?thesis by (intro wf_put_jobs [OF assms(1) _ _ js(4)]) auto
qed

section \<open>Reachable worlds\<close>

text \<open>One step of the installation: a request is served, time passes, or the database's health
  changes.\<close>

inductive step :: "deps \<Rightarrow> world \<Rightarrow> world \<Rightarrow> bool" for D where
  serves: "step D w (snd (serve D q w))"
| tick: "t \<ge> now w \<Longrightarrow> step D w (w\<lparr>now := t\<rparr>)"
| outage: "step D w (w\<lparr>faults := f\<rparr>)"

inductive_cases stepE: "step D w w'"

inductive reachable :: "deps \<Rightarrow> world \<Rightarrow> world \<Rightarrow> bool" for D where
  start: "reachable D w w"
| later: "reachable D w w' \<Longrightarrow> step D w' w'' \<Longrightarrow> reachable D w w''"

lemma finish_succ: "finish c w = (Inr u, w') \<longleftrightarrow> (\<exists>x. c w = (Inr x, w'))"
  by (simp add: finish_def map_m_succ)

lemma finish_err: "finish c w = (Inl e, w') \<longleftrightarrow> c w = (Inl e, w')"
  by (auto simp: finish_def map_m_def bind_def split: prod.splits sum.splits)

lemma wf_agents:
  assumes "wf_db (db w)" and "obeys (db_rel touched) c"
  shows "wf_db (db (snd (c w)))"
  using assms wf_touched by (simp add: obeys_def db_rel_def)

lemma wf_atomic:
  assumes "wf_db (db w)" and "atomic c" and "\<And>x w'. c w = (Inr x, w') \<Longrightarrow> wf_db (db w')"
  shows "wf_db (db (snd (c w)))"
proof (cases "c w")
  case (Pair r w')
  then show ?thesis using assms(1,3) atomicD [OF assms(2)] by (cases r) fastforce+
qed

lemma wf_finish:
  assumes "wf_db (db w)" and "atomic c" and "\<And>x w'. c w = (Inr x, w') \<Longrightarrow> wf_db (db w')"
  shows "wf_db (db (snd (finish c w)))"
  using assms(1) atomic_finish [OF assms(2)] by (rule wf_atomic) (use assms(3) in \<open>auto simp: finish_succ\<close>)

lemma wf_read: "wf_db (db w) \<Longrightarrow> readonly c \<Longrightarrow> wf_db (db (snd (finish c w)))"
  using readonly_finish readonly_db by (metis prod.collapse)

lemma wf_db_serve:
  assumes "wf_db (db w)"
  shows "wf_db (db (snd (serve D q w)))"
proof -
  note writes = wf_finish [OF assms atomic_handlers(1) wf_CreateForService [OF assms]]
    wf_finish [OF assms atomic_handlers(2) wf_CreatePreview [OF assms]]
    wf_finish [OF assms atomic_handlers(3) wf_RollbackToDeployment [OF assms]]
    wf_finish [OF assms atomic_handlers(4) wf_TeardownPreview [OF assms]]
    wf_finish [OF assms atomic_handlers(9) wf_CreatePreviewForPR [OF assms]]
    wf_finish [OF assms atomic_ExpirePreviews wf_ExpirePreviews [OF assms]]
  note agents = touch.obeys_PollDeployment [THEN touch.obeys_finish, THEN wf_agents [OF assms]]
    touch.obeys_PollTeardownJob [THEN touch.obeys_finish, THEN wf_agents [OF assms]]
    touch.obeys_agent [THEN wf_agents [OF assms]]
  note reads = readonly_handlers [THEN wf_read [OF assms]]
  have close: "wf_db (db (snd (TeardownPreviewForPR D i n w)))" for i n
    using assms atomic_handlers(10) by (rule wf_atomic) (rule wf_TeardownPreviewForPR [OF assms])
  show ?thesis by (cases q) (simp_all add: serve_def writes agents reads close)
qed


text \<open>A well-formed database with a production deployment and a preview.\<close>

definition demo_pair :: "world" where
  "demo_pair = demo_world [demo_deployment ''d1'' KindProduction ''git'' StatusRunning 1,
     demo_deployment ''p1'' KindPreview (previewRouteKey ''git'' 7 []) StatusRunning 2]"

lemma wf_demo: "wf_db (db (demo_world []))"
  by (simp add: wf_db_def service_keys_def demo_defs)

lemma wf_demo_pair: "wf_db (db demo_pair)"
proof -
  have "\<exists>n ref. previewRouteKey ''git'' 7 [] = previewRouteKey ''git'' n ref" by blast
  then show ?thesis
    by (simp add: demo_pair_def wf_db_def row_wf_def service_keys_def server_keys_def deployment_statuses_def demo_defs)
qed


end
