(* ===== verification/Isolation.thy ===== *)
theory Isolation
  imports Lifecycle
begin

text \<open>
  Who can reach what: previews and production do not interfere, a dashboard caller changes only
  workspaces where they may deploy, an agent only the rows of its own server.
\<close>

section \<open>Previews and production\<close>

lemma route_keys_apart:
  assumes "wf_db d" and "p \<in> set (deployments d)" "rd_Kind p = KindPreview"
    and "r \<in> set (deployments d)" "rd_Kind r = KindProduction"
  shows "rd_RouteKey r \<noteq> rd_RouteKey p" and "rd_RouteKey p \<noteq> []"
proof -
  have p: "row_wf d p" and r: "row_wf d r" using assms(1,2,4) by (simp_all add: wf_db_def)
  obtain n ref where key: "rd_RouteKey p = previewRouteKey (rd_ServiceID p) n ref"
    using p assms(3) by (auto simp: row_wf_def)
  have "rd_RouteKey r = rd_ServiceID r" using r assms(5) by (auto simp: row_wf_def)
  moreover have "length (rd_ServiceID r) = length (rd_ServiceID p)"
  proof -
    obtain m where m: "\<forall>i \<in> fst ` set (service_keys d). length i = m" using assms(1) by (auto simp: wf_db_def)
    have "(rd_ServiceID r, rd_WorkspaceID r) \<in> set (service_keys d)" "(rd_ServiceID p, rd_WorkspaceID p) \<in> set (service_keys d)"
      using p r by (simp_all add: row_wf_def)
    from m [rule_format, OF this(1) [THEN imageI, of fst]] m [rule_format, OF this(2) [THEN imageI, of fst]]
    show ?thesis by simp
  qed
  ultimately show "rd_RouteKey r \<noteq> rd_RouteKey p" using previewRouteKey_longer [of "rd_ServiceID p" n ref] key by auto
  show "rd_RouteKey p \<noteq> []" using p assms(3) by (rule preview_route_key_nonempty)
qed

definition rows_of_kind :: "string \<Rightarrow> database \<Rightarrow> Deployment_row list" where
  "rows_of_kind k d = filter (\<lambda>r. rd_Kind r = k) (deployments d)"

lemma rows_of_kind_map:
  assumes "\<And>r. r \<in> set rs \<Longrightarrow> rd_Kind (f r) = rd_Kind r" and "\<And>r. r \<in> set rs \<Longrightarrow> rd_Kind r = k \<Longrightarrow> f r = r"
  shows "filter (\<lambda>r. rd_Kind r = k) (map f rs) = filter (\<lambda>r. rd_Kind r = k) rs"
  using assms by (induction rs) auto

lemma report_row_kind [simp]: "rd_Kind (report_row inp tm t r) = rd_Kind r"
  by (simp add: report_row_def set_deployment_status_def)

lemma torn_row_kind [simp]: "rd_Kind (torn_row k s tm r) = rd_Kind r"
  by (simp add: torn_row_def)

lemma report_spares_other_kind:
  assumes "wf_db d" and "t \<in> set (deployments d)" and "rd_ID t = ri_DeploymentID inp"
    and "r \<in> set (deployments d)" and "rd_Kind r \<noteq> rd_Kind t"
  shows "report_row inp tm t r = r"
proof -
  have kinds: "rd_Kind t \<in> {KindProduction, KindPreview}" "rd_Kind r \<in> {KindProduction, KindPreview}"
    using assms(1,2,4) by (auto simp: wf_db_def row_wf_def)
  have "rd_ID r \<noteq> ri_DeploymentID inp"
  proof
    assume "rd_ID r = ri_DeploymentID inp"
    then have "r = t" using assms(1-4) by (simp add: wf_db_def distinct_map inj_on_def)
    with assms(5) show False by simp
  qed
  moreover have "rd_RouteKey r \<noteq> (if rd_RouteKey t = [] then rd_ServiceID t else rd_RouteKey t)"
  proof (cases "rd_Kind t = KindPreview")
    case True
    then show ?thesis using kinds assms route_keys_apart [of d t r] by auto
  next
    case False
    then have t: "rd_Kind t = KindProduction" "rd_Kind r = KindPreview" using kinds assms(5) by auto
    then have "rd_RouteKey t = rd_ServiceID t" using assms(1,2) by (auto simp: wf_db_def row_wf_def)
    then show ?thesis using t assms route_keys_apart(1) [of d r t] by auto
  qed
  ultimately show ?thesis by (simp add: report_row_def supersedes_def)
qed

lemma reported_row:
  assumes "ReportDeployment D inp w = (Inr u, w')" and "wf_db (db w)"
    and "t \<in> set (deployments (db w))" "rd_ID t = ri_DeploymentID inp"
  shows "deployments (db w') = map (report_row inp (now w) t) (deployments (db w))"
    and "services (db w') = map (report_service inp (now w) t) (services (db w))"
proof -
  obtain a t' evs where t': "find (\<lambda>r. rd_ID r = ri_DeploymentID inp) (deployments (db w)) = Some t'"
    and d': "db w' = (db w)\<lparr>deployments := map (report_row inp (now w) t') (deployments (db w)),
           services := map (report_service inp (now w) t') (services (db w)),
           deployment_events := deployment_events (db w) @ evs\<rparr>"
    using assms(1) by (rule ReportDeployment_run) blast
  have "t' = t" using find_deployment [OF t'] assms(2-4) by (simp add: wf_db_def distinct_map inj_on_def)
  with d' show "deployments (db w') = map (report_row inp (now w) t) (deployments (db w))"
    and "services (db w') = map (report_service inp (now w) t) (services (db w))" by simp_all
qed

text \<open>C9: in a well-formed database, a report about a deployment of one kind never changes a deployment of
  the other: production keeps running whatever a preview's agent reports and conversely, and a
  preview's report leaves every service, hence its public URL, as it was.\<close>

theorem kinds_do_not_interfere:
  assumes "ReportDeployment D inp w = (Inr u, w')" and "wf_db (db w)"
    and "t \<in> set (deployments (db w))" and "rd_ID t = ri_DeploymentID inp"
  shows "(k \<noteq> rd_Kind t \<longrightarrow> rows_of_kind k (db w') = rows_of_kind k (db w)) \<and>
         (rd_Kind t = KindPreview \<longrightarrow> services (db w') = services (db w))"
  using reported_row [OF assms] report_spares_other_kind [OF assms(2-4)]
  by (auto simp: rows_of_kind_def report_service_id intro!: rows_of_kind_map)

theorem kinds_do_not_interfere_witness:
  "\<exists>w'. ReportDeployment demo_deps (demo_report ''p1'' StatusRunning 30000) demo_pair = (Inr (), w') \<and>
     rows_of_kind KindProduction (db w') = [demo_deployment ''d1'' KindProduction ''git'' StatusRunning 1] \<and>
     services (db w') = services (db demo_pair)"
proof -
  let ?t = "demo_deployment ''p1'' KindPreview (previewRouteKey ''git'' 7 []) StatusRunning 2"
  obtain w' where run: "ReportDeployment demo_deps (demo_report ''p1'' StatusRunning 30000) demo_pair = (Inr (), w')"
    by (simp add: demo_pair_def gateway_exec demo_defs demo_report_def)
  have t: "?t \<in> set (deployments (db demo_pair))" "rd_ID ?t = ri_DeploymentID (demo_report ''p1'' StatusRunning 30000)"
    by (simp_all add: demo_pair_def demo_defs demo_report_def)
  show ?thesis
    using run kinds_do_not_interfere [OF run wf_demo_pair t, of KindProduction]
    by (intro exI [of _ w']) (simp add: rows_of_kind_def demo_pair_def demo_defs)
qed

text \<open>In a well-formed database, no teardown report touches production: whatever an agent reports
  about a teardown job, every production deployment stays as it was.\<close>

theorem teardown_spares_production:
  assumes "ReportTeardownJob D inp w = (Inr u, w')" and "wf_db (db w)"
  shows "rows_of_kind KindProduction (db w') = rows_of_kind KindProduction (db w)"
  using assms(1)
proof (rule ReportTeardownJob_run)
  fix a j
  assume j: "find (\<lambda>r. rt_ID r = rp_TeardownID inp) (teardown_jobs (db w)) = Some j"
    and d': "db w' = (db w)\<lparr>teardown_jobs := update_where (\<lambda>r. rt_ID r = rp_TeardownID inp)
             (set_teardown_status (rp_Status inp) (rp_Message inp) (rp_Error inp) (now w)) (teardown_jobs (db w)),
           deployments := (if rp_Status inp = TeardownStatusSucceeded
             then map (torn_row (rt_RouteKey j) (rt_ServerID j) (now w)) (deployments (db w)) else deployments (db w))\<rparr>"
  have "job_wf (db w) j" using assms(2) find_teardown [OF j] by (simp add: wf_db_def)
  then obtain t where t: "t \<in> set (deployments (db w))" "rd_Kind t = KindPreview" "rt_RouteKey j = rd_RouteKey t"
    by (auto simp: job_wf_def)
  have "torn_row (rt_RouteKey j) (rt_ServerID j) (now w) r = r"
    if "r \<in> set (deployments (db w))" "rd_Kind r = KindProduction" for r
    using route_keys_apart(1) [OF assms(2) t(1,2) that] t(3) by (simp add: torn_row_def)
  then show ?thesis by (auto simp: d' rows_of_kind_def intro!: rows_of_kind_map)
qed

section \<open>Tenants\<close>

text \<open>What a database holds of other workspaces than \<open>ws\<close>.\<close>

definition outside :: "string \<Rightarrow> database \<Rightarrow> Deployment_row list \<times> TeardownJob_row list \<times> AuditEvent_row list" where
  "outside ws d = (filter (\<lambda>r. rd_WorkspaceID r \<noteq> ws) (deployments d),
     filter (\<lambda>j. rt_WorkspaceID j \<noteq> ws) (teardown_jobs d), filter (\<lambda>a. ae_WorkspaceID a \<noteq> Some ws) (audit_events d))"

definition caller_of :: "request \<Rightarrow> Principal option" where
  "caller_of q = (case q of
       CreateReq p _ \<Rightarrow> Some p | PreviewReq p _ \<Rightarrow> Some p | RollbackReq p _ \<Rightarrow> Some p | TeardownReq p _ \<Rightarrow> Some p
     | GetReq p _ \<Rightarrow> Some p | ListByServiceReq p _ \<Rightarrow> Some p | ListByEnvironmentReq p _ \<Rightarrow> Some p
     | ListByProjectReq p _ \<Rightarrow> Some p | ListByWorkspaceReq p _ \<Rightarrow> Some p | ListEventsReq p _ _ \<Rightarrow> Some p
     | ListTeardownsReq p _ \<Rightarrow> Some p | _ \<Rightarrow> None)"

definition tenant_write :: "Principal \<Rightarrow> database \<Rightarrow> database \<Rightarrow> bool" where
  "tenant_write p d d' \<longleftrightarrow> (\<exists>ws. permitted d p ActionDeploymentCreate ws \<and> outside ws d' = outside ws d)"

lemma permitted_nonempty: "permitted d p a ws \<Longrightarrow> ws \<noteq> []"
  by (simp add: permitted_def)

lemma tenant_write_deployment:
  assumes "permitted d p ActionDeploymentCreate ws" and "rd_WorkspaceID r = ws" and "audit_row_of act tt tid ws actor a"
    and "d' = d\<lparr>deployments := deployments d @ [r], audit_events := audit_events d @ [a]\<rparr>"
  shows "tenant_write p d d'"
  using assms permitted_nonempty [OF assms(1)]
  unfolding tenant_write_def by (intro exI [of _ ws]) (simp add: outside_def audit_row_of_def)

lemma tenant_write_job:
  assumes "permitted d p ActionDeploymentCreate ws" and "rt_WorkspaceID j = ws" and "audit_row_of act tt tid ws actor a"
    and "d' = d\<lparr>teardown_jobs := teardown_jobs d @ [j], audit_events := audit_events d @ [a]\<rparr>"
  shows "tenant_write p d d'"
  using assms permitted_nonempty [OF assms(1)]
  unfolding tenant_write_def by (intro exI [of _ ws]) (simp add: outside_def audit_row_of_def)

lemma tenant_create: "CreateForService D p inp w = (Inr dep, w') \<Longrightarrow> tenant_write p (db w) (db w')"
  by (erule CreateForService_run, erule tenant_write_deployment) (simp_all add: production_of_def)

lemma tenant_preview: "CreatePreview D p inp w = (Inr dep, w') \<Longrightarrow> tenant_write p (db w) (db w')"
  by (erule CreatePreview_run, erule tenant_write_deployment) (simp_all add: preview_of_def)

lemma tenant_rollback: "RollbackToDeployment D p i w = (Inr dep, w') \<Longrightarrow> tenant_write p (db w) (db w')"
  by (erule RollbackToDeployment_run, erule tenant_write_deployment) (simp_all add: rollback_of_def)

lemma tenant_teardown: "TeardownPreview D p i w = (Inr job, w') \<Longrightarrow> tenant_write p (db w) (db w')"
  by (erule TeardownPreview_run, erule tenant_write_job) (simp_all add: teardown_of_def)



section \<open>Agents\<close>

text \<open>What a database holds of other servers than \<open>s\<close>.\<close>

definition elsewhere :: "string \<Rightarrow> database \<Rightarrow> Deployment_row list \<times> TeardownJob_row list" where
  "elsewhere s d = (filter (\<lambda>r. rd_ServerID r \<noteq> s) (deployments d), filter (\<lambda>j. rt_ServerID j \<noteq> s) (teardown_jobs d))"

lemma filter_untouched:
  assumes "\<And>r. r \<in> set rs \<Longrightarrow> P (f r) = P r" and "\<And>r. r \<in> set rs \<Longrightarrow> P r \<Longrightarrow> f r = r"
  shows "filter P (map f rs) = filter P rs"
  using assms by (induction rs) auto

text \<open>All rows with this identifier are on this server.\<close>

definition owned :: "string \<Rightarrow> string \<Rightarrow> database \<Rightarrow> bool" where
  "owned s i d \<longleftrightarrow> (\<forall>r \<in> set (deployments d). rd_ID r = i \<longrightarrow> rd_ServerID r = s)"

lemma owned_unique: "wf_db d \<Longrightarrow> t \<in> set (deployments d) \<Longrightarrow> rd_ServerID t = s \<Longrightarrow> owned s (rd_ID t) d"
  unfolding owned_def wf_db_def by (metis distinct_map inj_onD)

lemma elsewhere_update:
  assumes "owned s i d" and "\<And>r. rd_ServerID (f r) = rd_ServerID r"
    and "deployments d' = update_where (\<lambda>r. rd_ID r = i) f (deployments d)" and "teardown_jobs d' = teardown_jobs d"
  shows "elsewhere s d' = elsewhere s d"
  using assms(1,2) unfolding elsewhere_def assms(3,4) update_where_def owned_def
  by (auto intro!: filter_untouched split: if_splits)

lemma elsewhere_failDeployment:
  assumes "owned s i (db w)" and "failDeployment i msg w = (r, w')"
  shows "elsewhere s (db w') = elsewhere s (db w)"
proof -
  let ?u = "\<lparr>su_DeploymentID = i, su_Status = StatusFailed, su_Message = msg, su_HostPort = 0, su_ContainerID = [],
     su_CommitSha = [], su_BuiltImageRef = [], su_RouteURL = []\<rparr>"
  let ?e = "\<lparr>ne_DeploymentID = i, ne_Kind = KindStatus, ne_Status = StatusFailed, ne_Message = msg, ne_Stream = []\<rparr>"
  obtain x w1 where tx: "WithinTx (bind (UpdateStatus ?u) (\<lambda>_. AppendEvent ?e)) w = (x, w1)"
    by (cases "WithinTx (bind (UpdateStatus ?u) (\<lambda>_. AppendEvent ?e)) w")
  with assms(2) have w': "w' = w1" by (cases x) (auto simp: failDeployment_def catch_def)
  show ?thesis
  proof (cases x)
    case (Inl e)
    with tx w' show ?thesis by (simp add: WithinTx_fail_db)
  next
    case (Inr v)
    with tx obtain w2 w3 where upd: "UpdateStatus ?u (w\<lparr>ops := Suc (ops w)\<rparr>) = (Inr (), w2)" and
      app: "AppendEvent ?e w2 = (Inr (), w3)" and w1: "w1 = w3\<lparr>ops := Suc (ops w3)\<rparr>"
      by (auto simp: WithinTx_succ bind_succ)
    from app obtain ev where "db w3 = (db w2)\<lparr>deployment_events := deployment_events (db w2) @ [ev]\<rparr>"
      by (rule AppendEvent_run) (simp add: logged_def)
    with UpdateStatus_run(1) [OF upd] w1 w' show ?thesis
      by (intro elsewhere_update [OF assms(1)]) (simp_all add: upd_deployments_def set_deployment_status_def)
  qed
qed

lemma elsewhere_withGit:
  assumes "owned s (dep_ID dep) (db w)" and "withGit D dep svc out w = (r, w')"
  shows "elsewhere s (db w') = elsewhere s (db w)"
  using assms(2) elsewhere_failDeployment [OF assms(1)]
  by (auto simp: withGit_def Let_def bind_def split: if_splits sum.splits option.splits prod.splits)

lemma elsewhere_handOut:
  assumes "owned s (dep_ID dep) (db w)" and "handOut D (Some dep) w = (r, w')"
  shows "elsewhere s (db w') = elsewhere s (db w)"
proof -
  let ?c = "bind (map_err (Internalf ''poll deployment'')
        (configEnvForService D (dep_ServiceID dep) (dep_Kind dep \<noteq> KindPreview))) (\<lambda>env.
      bind (map_err (Internalf ''poll deployment'') (store_ServiceForDeploy (dep_ServiceID dep))) (\<lambda>svc. ret (env, svc)))"
  have ro: "readonly ?c" by (intro reads.obeys_rules readonly_all)
  obtain x w1 where c: "?c w = (x, w1)" by (cases "?c w")
  then have same: "db w1 = db w" using ro by (rule readonly_db [rotated])
  have "w' = w1 \<or> (\<exists>svc env. withGit D dep svc (claimedOf dep svc env) w1 = (r, w'))"
    using assms(2) c by (auto simp: handOut_def bind_def split: prod.splits sum.splits option.splits)
  then show ?thesis using elsewhere_withGit [of s dep w1] assms(1) same by auto
qed

lemma elsewhere_claimed:
  assumes "wf_db (db w)" and "t \<in> set (deployments (db w))" and "rd_ServerID t = s"
  shows "elsewhere s (claimed_db w t e) = elsewhere s (db w)" and "owned s (rd_ID t) (claimed_db w t e)"
proof -
  have own: "owned s (rd_ID t) (db w)" using assms by (rule owned_unique)
  then show "elsewhere s (claimed_db w t e) = elsewhere s (db w)"
    by (rule elsewhere_update) (simp_all add: claimed_db_def assign_deployment_def)
  show "owned s (rd_ID t) (claimed_db w t e)"
    using own by (auto simp: owned_def claimed_db_def set_update_where assign_deployment_def split: if_splits)
qed

text \<open>An agent request that changed something passed authentication.\<close>

lemma agent_request:
  assumes "bind (resolveAgent i c) (\<lambda>(x, s). k s) w = (r, w')" and "db w' \<noteq> db w"
  obtains a n where "agent_of (db w) i c a" and "k (ag_ServerID a) (w\<lparr>ops := n\<rparr>) = (r, w')"
proof (cases "resolveAgent i c w")
  case (Pair x w1)
  then show ?thesis
  proof (cases x)
    case (Inl e)
    with Pair assms(1) have "w' = w1" by (simp add: bind_def)
    with assms(2) readonly_db [OF readonly_resolveAgent Pair] show ?thesis by simp
  next
    case (Inr p)
    with Pair assms(1) have k: "k (snd p) w1 = (r, w')" by (simp add: bind_def split: prod.splits)
    from Pair Inr have "resolveAgent i c w = (Inr p, w1)" by simp
    then obtain a where "agent_of (db w) i c a" "p = (ag_ID a, ag_ServerID a)" "w1 = w\<lparr>ops := Suc (ops w)\<rparr>"
      by (auto simp: resolveAgent_succ)
    with k that show ?thesis by simp
  qed
qed

lemma elsewhere_poll:
  assumes "wf_db (db w)" and "bind (map_err f (claimTx s)) (handOut D) w = (r, w')"
  shows "elsewhere s (db w') = elsewhere s (db w)"
proof -
  obtain x w1 where tx: "claimTx s w = (x, w1)" by (cases "claimTx s w")
  show ?thesis
  proof (cases x)
    case (Inl e)
    with tx assms(2) show ?thesis by (auto simp: bind_def map_err_def claimTx_def dest: WithinTx_fail_db)
  next
    case (Inr y)
    with tx assms(2) have out: "handOut D y w1 = (r, w')" by (simp add: bind_def map_err_def)
    from tx Inr have "claimTx s w = (Inr y, w1)" by simp
    then show ?thesis
    proof (cases rule: claimTx_run)
      case idle
      with out show ?thesis by (auto simp: handOut_def)
    next
      case (claimed t e)
      have "t \<in> set (deployments (db w))" "rd_ServerID t = s"
        using first_by_Some(1,2) [OF claimed(1)] by (simp_all add: job_waiting_def)
      note c = elsewhere_claimed [OF assms(1) this, of e]
      have "owned s (dep_ID (deploymentFromRow (assign_deployment (now w) t))) (db w1)"
        using c(2) claimed(4) by (simp add: assign_deployment_def)
      from elsewhere_handOut [OF this] out claimed(2) c(1) claimed(4) show ?thesis by simp
    qed
  qed
qed

lemma elsewhere_PollDeployment:
  assumes "wf_db (db w)" and "PollDeployment D inp w = (r, w')" and "db w' \<noteq> db w"
  shows "\<exists>a. agent_of (db w) (pi_AgentID inp) (pi_Credential inp) a \<and>
    elsewhere (ag_ServerID a) (db w') = elsewhere (ag_ServerID a) (db w)"
proof -
  from assms(2,3) have "bind (resolveAgent (pi_AgentID inp) (pi_Credential inp)) (\<lambda>(_, serverID).
     bind (map_err (Internalf ''poll deployment'') (claimTx serverID)) (handOut D)) w = (r, w')"
    by (auto simp: PollDeployment_def check_def split: if_splits)
  then obtain a n where "agent_of (db w) (pi_AgentID inp) (pi_Credential inp) a"
      "bind (map_err (Internalf ''poll deployment'') (claimTx (ag_ServerID a))) (handOut D) (w\<lparr>ops := n\<rparr>) = (r, w')"
    using assms(3) by (rule agent_request)
  with elsewhere_poll [of "w\<lparr>ops := n\<rparr>"] assms(1) show ?thesis by auto
qed

lemma elsewhere_ReportDeployment:
  assumes "wf_db (db w)" and "ReportDeployment D inp w = (Inr u, w')"
  shows "\<exists>a. agent_of (db w) (ri_AgentID inp) (ri_Credential inp) a \<and>
    elsewhere (ag_ServerID a) (db w') = elsewhere (ag_ServerID a) (db w)"
  using assms(2)
proof (rule ReportDeployment_run)
  fix a t evs
  assume a: "agent_of (db w) (ri_AgentID inp) (ri_Credential inp) a" "rd_ServerID t = ag_ServerID a"
    and t: "find (\<lambda>r. rd_ID r = ri_DeploymentID inp) (deployments (db w)) = Some t"
    and d': "db w' = (db w)\<lparr>deployments := map (report_row inp (now w) t) (deployments (db w)),
           services := map (report_service inp (now w) t) (services (db w)),
           deployment_events := deployment_events (db w) @ evs\<rparr>"
  have own: "owned (ag_ServerID a) (ri_DeploymentID inp) (db w)"
    using owned_unique [OF assms(1), of t] find_deployment [OF t] a(2) by auto
  have "rd_ServerID (report_row inp (now w) t r) = rd_ServerID r" for r
    by (simp add: report_row_def set_deployment_status_def)
  moreover have "report_row inp (now w) t r = r"
    if "r \<in> set (deployments (db w))" "rd_ServerID r \<noteq> ag_ServerID a" for r
    using own that a(2) by (auto simp: report_row_def supersedes_def owned_def)
  ultimately show ?thesis
    using a by (intro exI [of _ a]) (auto simp: d' elsewhere_def intro!: filter_untouched)
qed

lemma elsewhere_PollTeardownJob:
  assumes "wf_db (db w)" and "PollTeardownJob inp w = (Inr res, w')" and "db w' \<noteq> db w"
  shows "\<exists>a. agent_of (db w) (pi_AgentID inp) (pi_Credential inp) a \<and>
    elsewhere (ag_ServerID a) (db w') = elsewhere (ag_ServerID a) (db w)"
proof -
  from assms(2) obtain a n x w1 where a: "agent_of (db w) (pi_AgentID inp) (pi_Credential inp) a" and
    "ClaimNextTeardownForServer (ag_ServerID a) (w\<lparr>ops := n\<rparr>) = (Inr x, w1)" "db w' = db w1"
    by (auto simp: PollTeardownJob_def check_succ bind_succ map_err_succ WithinTx_succ resolveAgent_succ)
  with assms(3) obtain j where
    j: "first_by rt_CreatedAt (job_waiting rt_ServerID rt_Status (ag_ServerID a)) (teardown_jobs (db w)) = Some j" and
    d': "db w' = (db w)\<lparr>teardown_jobs := update_where (\<lambda>x. rt_ID x = rt_ID j) (assign_teardown (now w)) (teardown_jobs (db w))\<rparr>"
    by (auto simp: ClaimNextTeardownForServer_def claim_teardown_unfold absent_ok_update_one Let_def
        split: option.splits if_splits)
  have j': "j \<in> set (teardown_jobs (db w))" "rt_ServerID j = ag_ServerID a"
    using first_by_Some(1,2) [OF j] by (simp_all add: job_waiting_def)
  have "rt_ServerID i = ag_ServerID a" if "i \<in> set (teardown_jobs (db w))" "rt_ID i = rt_ID j" for i
    using that j' assms(1) by (metis distinct_map inj_onD wf_db_def)
  then show ?thesis
    using a by (intro exI [of _ a])
      (auto simp: d' elsewhere_def update_where_def assign_teardown_def intro!: filter_untouched split: if_splits)
qed

lemma elsewhere_ReportTeardownJob:
  assumes "wf_db (db w)" and "ReportTeardownJob D inp w = (Inr u, w')"
  shows "\<exists>a. agent_of (db w) (rp_AgentID inp) (rp_Credential inp) a \<and>
    elsewhere (ag_ServerID a) (db w') = elsewhere (ag_ServerID a) (db w)"
  using assms(2)
proof (rule ReportTeardownJob_run)
  fix a j
  assume a: "agent_of (db w) (rp_AgentID inp) (rp_Credential inp) a" and own: "rt_ServerID j = ag_ServerID a"
    and j: "find (\<lambda>r. rt_ID r = rp_TeardownID inp) (teardown_jobs (db w)) = Some j"
    and d': "db w' = (db w)\<lparr>teardown_jobs := update_where (\<lambda>r. rt_ID r = rp_TeardownID inp)
             (set_teardown_status (rp_Status inp) (rp_Message inp) (rp_Error inp) (now w)) (teardown_jobs (db w)),
           deployments := (if rp_Status inp = TeardownStatusSucceeded
             then map (torn_row (rt_RouteKey j) (rt_ServerID j) (now w)) (deployments (db w)) else deployments (db w))\<rparr>"
  have "rt_ServerID i = ag_ServerID a" if "i \<in> set (teardown_jobs (db w))" "rt_ID i = rp_TeardownID inp" for i
    using that find_teardown [OF j] own assms(1) by (metis distinct_map inj_onD wf_db_def)
  then have "filter (\<lambda>j. rt_ServerID j \<noteq> ag_ServerID a) (teardown_jobs (db w')) =
      filter (\<lambda>j. rt_ServerID j \<noteq> ag_ServerID a) (teardown_jobs (db w))"
    by (auto simp: d' update_where_def set_teardown_status_def intro!: filter_untouched split: if_splits)
  moreover have "filter (\<lambda>r. rd_ServerID r \<noteq> ag_ServerID a) (deployments (db w')) =
      filter (\<lambda>r. rd_ServerID r \<noteq> ag_ServerID a) (deployments (db w))"
    by (auto simp: d' torn_row_def own intro!: filter_untouched split: if_splits)
  ultimately show ?thesis using a by (intro exI [of _ a]) (simp add: elsewhere_def)
qed

definition credential_of :: "request \<Rightarrow> (string \<times> string) option" where
  "credential_of q = (case q of
       PollReq inp \<Rightarrow> Some (pi_AgentID inp, pi_Credential inp)
     | ReportReq inp \<Rightarrow> Some (ri_AgentID inp, ri_Credential inp)
     | PollTeardownReq inp \<Rightarrow> Some (pi_AgentID inp, pi_Credential inp)
     | ReportTeardownReq inp \<Rightarrow> Some (rp_AgentID inp, rp_Credential inp)
     | SyncRoutesReq inp \<Rightarrow> Some (sy_AgentID inp, sy_Credential inp)
     | _ \<Rightarrow> None)"



end
