(* ===== verification/Workspaces.thy ===== *)
theory Workspaces
  imports Lifecycle
begin

text \<open>
  The module \<^verbatim>\<open>internal/projects\<close>: projects, workspaces and their members, with the queries of
  \<^verbatim>\<open>projects.sql.go\<close> and \<^verbatim>\<open>membership.sql.go\<close>. Random identifiers that Go code draws itself
  (\<open>id.New\<close>) are arguments of the operations that draw them.
\<close>

section \<open>Domain types\<close>

record Project =
  prj_ID :: string
  prj_WorkspaceID :: string
  prj_Name :: string
  prj_Slug :: string
  prj_CreatedAt :: int

record Workspace =
  wsp_ID :: string
  wsp_Name :: string
  wsp_Slug :: string
  wsp_CreatedAt :: int

record Member =
  mem_UserID :: string
  mem_Email :: string
  mem_Role :: string
  mem_CreatedAt :: int

record InviteMemberInput =
  im_WorkspaceID :: string
  im_Email :: string
  im_Role :: string

record ChangeRoleInput =
  cr_WorkspaceID :: string
  cr_UserID :: string
  cr_Role :: string

record RemoveMemberInput =
  rm_WorkspaceID :: string
  rm_UserID :: string

section \<open>Queries\<close>

definition db_CreateProject :: "string \<Rightarrow> string \<Rightarrow> string \<Rightarrow> Project_row m" where
  "db_CreateProject workspaceID name slug =
     insert_unique
       (\<lambda>w. \<lparr>pj_ID = fresh_uuid w, pj_WorkspaceID = workspaceID, pj_Name = name, pj_Slug = slug, pj_CreatedAt = now w\<rparr>)
       (\<lambda>_. True)
       (\<lambda>d r. pj_ID r \<notin> pj_ID ` set (projects d) \<and>
              (pj_WorkspaceID r, pj_Slug r) \<notin> (\<lambda>x. (pj_WorkspaceID x, pj_Slug x)) ` set (projects d))
       (\<lambda>d r. pj_WorkspaceID r \<in> wk_ID ` set (workspaces d))
       (\<lambda>r d. d\<lparr>projects := projects d @ [r]\<rparr>)"

definition db_GetProject :: "string \<Rightarrow> Project_row m" where
  "db_GetProject i = select_one (\<lambda>d. find (\<lambda>r. pj_ID r = i) (projects d))"

definition db_ListProjectsByWorkspace :: "string \<Rightarrow> Project_row list m" where
  "db_ListProjectsByWorkspace i =
     select_many (\<lambda>d. sort_key (\<lambda>r. - pj_CreatedAt r) (filter (\<lambda>r. pj_WorkspaceID r = i) (projects d)))"

definition db_CreateWorkspace :: "string \<Rightarrow> string \<Rightarrow> Workspace_row m" where
  "db_CreateWorkspace name slug =
     insert_unique
       (\<lambda>w. \<lparr>wk_ID = fresh_uuid w, wk_Name = name, wk_Slug = slug, wk_CreatedAt = now w\<rparr>)
       (\<lambda>_. True)
       (\<lambda>d r. wk_ID r \<notin> wk_ID ` set (workspaces d) \<and> wk_Slug r \<notin> wk_Slug ` set (workspaces d))
       (\<lambda>_ _. True)
       (\<lambda>r d. d\<lparr>workspaces := workspaces d @ [r]\<rparr>)"

abbreviation member_key :: "WorkspaceMember_row \<Rightarrow> string \<times> string" where
  "member_key r \<equiv> (wm_WorkspaceID r, wm_UserID r)"

definition db_AddWorkspaceMember :: "string \<Rightarrow> string \<Rightarrow> string \<Rightarrow> unit m" where
  "db_AddWorkspaceMember workspaceID userID role =
     map_m (\<lambda>_. ()) (insert_unique
       (\<lambda>w. \<lparr>wm_WorkspaceID = workspaceID, wm_UserID = userID, wm_Role = role, wm_CreatedAt = now w\<rparr>)
       (\<lambda>r. wm_Role r \<in> {''owner'', ''admin'', ''member'', ''viewer''})
       (\<lambda>d r. member_key r \<notin> member_key ` set (workspace_members d))
       (\<lambda>d r. wm_WorkspaceID r \<in> wk_ID ` set (workspaces d) \<and> wm_UserID r \<in> us_ID ` set (users d))
       (\<lambda>r d. d\<lparr>workspace_members := workspace_members d @ [r]\<rparr>))"

definition db_UpdateMemberRole :: "string \<Rightarrow> string \<Rightarrow> string \<Rightarrow> unit m" where
  "db_UpdateMemberRole workspaceID userID role =
     query (\<lambda>w.
       if role \<notin> {''owner'', ''admin'', ''member'', ''viewer''} \<and>
          (workspaceID, userID) \<in> member_key ` set (workspace_members (db w))
       then (Inl (Opaque ''constraint violation''), w)
       else (Inr (), w\<lparr>db := (db w)\<lparr>workspace_members :=
               update_where (\<lambda>r. member_key r = (workspaceID, userID)) (\<lambda>r. r\<lparr>wm_Role := role\<rparr>)
                 (workspace_members (db w))\<rparr>\<rparr>))"

definition db_RemoveMember :: "string \<Rightarrow> string \<Rightarrow> unit m" where
  "db_RemoveMember workspaceID userID =
     exec_sql (\<lambda>w d. d\<lparr>workspace_members :=
       filter (\<lambda>r. member_key r \<noteq> (workspaceID, userID)) (workspace_members d)\<rparr>)"

definition db_ListWorkspacesForUser :: "string \<Rightarrow> Workspace_row list m" where
  "db_ListWorkspacesForUser userID =
     select_many (\<lambda>d. sort_key wk_CreatedAt
       (filter (\<lambda>k. (wk_ID k, userID) \<in> member_key ` set (workspace_members d)) (workspaces d)))"

definition db_ListMembers :: "string \<Rightarrow> (string \<times> string \<times> string \<times> int) list m" where
  "db_ListMembers workspaceID =
     select_many (\<lambda>d. concat (map (\<lambda>r.
         case find (\<lambda>u. us_ID u = wm_UserID r) (users d) of
           None \<Rightarrow> []
         | Some u \<Rightarrow> [(wm_UserID r, us_Email u, wm_Role r, wm_CreatedAt r)])
       (sort_key wm_CreatedAt (filter (\<lambda>r. wm_WorkspaceID r = workspaceID) (workspace_members d)))))"

definition db_GetUserByEmail :: "string \<Rightarrow> User_row m" where
  "db_GetUserByEmail email = select_one (\<lambda>d. find (\<lambda>r. us_Email r = email) (users d))"

section \<open>The repository\<close>

definition projectFromRow :: "Project_row \<Rightarrow> Project" where
  "projectFromRow r = \<lparr>prj_ID = pj_ID r, prj_WorkspaceID = pj_WorkspaceID r, prj_Name = pj_Name r,
     prj_Slug = pj_Slug r, prj_CreatedAt = pj_CreatedAt r\<rparr>"

definition workspaceFromRow :: "Workspace_row \<Rightarrow> Workspace" where
  "workspaceFromRow r = \<lparr>wsp_ID = wk_ID r, wsp_Name = wk_Name r, wsp_Slug = wk_Slug r, wsp_CreatedAt = wk_CreatedAt r\<rparr>"

definition InsertProject :: "Project \<Rightarrow> Project m" where
  "InsertProject p =
     map_m projectFromRow
       (on_unique (''a project named '' @ fmt_q (prj_Name p) @ '' already exists in this workspace'')
         (db_CreateProject (prj_WorkspaceID p) (prj_Name p) (prj_Slug p)))"

text \<open>\<open>if errors.Is(err, pgx.ErrNoRows) { return problem.NotFound(...) }\<close>.\<close>

definition or_not_found :: "string \<Rightarrow> 'a m \<Rightarrow> 'a m" where
  "or_not_found msg = map_err (\<lambda>e. if e = ErrNoRows then NotFound msg else e)"

definition store_GetProject :: "string \<Rightarrow> Project m" where
  "store_GetProject i = map_m projectFromRow (or_not_found (''project '' @ i @ '' not found'') (db_GetProject i))"

definition store_ListProjects :: "string \<Rightarrow> Project list m" where
  "store_ListProjects ws = map_m (map projectFromRow) (db_ListProjectsByWorkspace ws)"

definition InsertWorkspace :: "string \<Rightarrow> string \<Rightarrow> Workspace m" where
  "InsertWorkspace name slug =
     map_m workspaceFromRow (on_unique ''a workspace with that name already exists'' (db_CreateWorkspace name slug))"

definition AddMember :: "string \<Rightarrow> string \<Rightarrow> string \<Rightarrow> unit m" where
  "AddMember workspaceID userID role =
     on_unique ''already a member of this workspace'' (db_AddWorkspaceMember workspaceID userID role)"

definition MemberRole :: "string \<Rightarrow> string \<Rightarrow> string option m" where
  "MemberRole workspaceID userID = absent_ok (db_GetWorkspaceMemberRole workspaceID userID)"

definition store_ListWorkspacesForUser :: "string \<Rightarrow> Workspace list m" where
  "store_ListWorkspacesForUser userID = map_m (map workspaceFromRow) (db_ListWorkspacesForUser userID)"

definition store_ListMembers :: "string \<Rightarrow> Member list m" where
  "store_ListMembers ws =
     map_m (map (\<lambda>(u, e, r, t). \<lparr>mem_UserID = u, mem_Email = e, mem_Role = r, mem_CreatedAt = t\<rparr>)) (db_ListMembers ws)"

definition UpdateMemberRole :: "string \<Rightarrow> string \<Rightarrow> string \<Rightarrow> unit m" where
  "UpdateMemberRole workspaceID userID role = db_UpdateMemberRole workspaceID userID role"

definition store_RemoveMember :: "string \<Rightarrow> string \<Rightarrow> unit m" where
  "store_RemoveMember workspaceID userID = db_RemoveMember workspaceID userID"

definition UserIDByEmail :: "string \<Rightarrow> string option m" where
  "UserIDByEmail email = absent_ok (map_m us_ID (db_GetUserByEmail email))"

section \<open>The service\<close>

definition slugify :: "string \<Rightarrow> string" where
  "slugify s = strings_Trim (replace_runs (strings_ToLower (strings_TrimSpace s))) ''-''"

definition workspaceSlug :: "string \<Rightarrow> string \<Rightarrow> string" where
  "workspaceSlug newID name =
     (let base = slugify name; base = (if base = [] then ''workspace'' else base) in base @ ''-'' @ take 8 newID)"

abbreviation resource_in :: "string \<Rightarrow> string \<Rightarrow> Resource" where
  "resource_in typ ws \<equiv> \<lparr>res_Type = typ, res_WorkspaceID = ws, res_ID = []\<rparr>"

definition projects_Create :: "Principal \<Rightarrow> string \<Rightarrow> string \<Rightarrow> Project m" where
  "projects_Create caller workspaceID rawName =
     (let name = strings_TrimSpace rawName in
      check (name \<noteq> []) (InvalidInput ''project name is required'')
     (check (workspaceID \<noteq> []) (InvalidInput ''workspace_id is required'')
     (bind (Authorize caller ActionProjectCreate (resource_in ''project'' workspaceID)) (\<lambda>_.
      let slug = slugify name in
      check (slug \<noteq> []) (InvalidInput ''project name must contain at least one letter or number'')
     (map_err (mapErr ''create project'')
        (WithinTx
          (bind (InsertProject \<lparr>prj_ID = [], prj_WorkspaceID = workspaceID, prj_Name = name, prj_Slug = slug, prj_CreatedAt = 0\<rparr>)
            (\<lambda>created. bind (audit_Record ''project.create'' ''project'' (prj_ID created) (prj_WorkspaceID created) (UserID caller))
              (\<lambda>_. ret created))))))))) "

definition projects_Get :: "deps \<Rightarrow> Principal \<Rightarrow> string \<Rightarrow> Project m" where
  "projects_Get D caller projectID =
     check (id_Parse D projectID) (InvalidInput ''invalid project id'')
    (bind (store_GetProject projectID) (\<lambda>proj.
     bind (Authorize caller ActionProjectRead
             \<lparr>res_Type = ''project'', res_WorkspaceID = prj_WorkspaceID proj, res_ID = prj_ID proj\<rparr>)
       (\<lambda>_. ret proj)))"

definition projects_ListByWorkspace :: "Principal \<Rightarrow> string \<Rightarrow> Project list m" where
  "projects_ListByWorkspace caller workspaceID =
     check (workspaceID \<noteq> []) (InvalidInput ''workspace_id is required'')
    (bind (Authorize caller ActionProjectRead (resource_in ''project'' workspaceID)) (\<lambda>_. store_ListProjects workspaceID))"

definition createWorkspaceTx :: "string \<Rightarrow> string \<Rightarrow> string \<Rightarrow> string \<Rightarrow> Workspace m" where
  "createWorkspaceTx newID ownerID rawName actor =
     (let name = strings_TrimSpace rawName in
      check (name \<noteq> []) (InvalidInput ''workspace name is required'')
     (bind (InsertWorkspace name (workspaceSlug newID name)) (\<lambda>ws.
      bind (AddMember (wsp_ID ws) ownerID RoleOwner) (\<lambda>_.
      bind (audit_Record ''workspace.create'' ''workspace'' (wsp_ID ws) (wsp_ID ws) actor) (\<lambda>_. ret ws)))))"

definition CreateWorkspace :: "string \<Rightarrow> Principal \<Rightarrow> string \<Rightarrow> Workspace m" where
  "CreateWorkspace newID caller name =
     check (IsAuthenticated caller) (PermissionDenied ''authentication required'')
    (check (strings_TrimSpace name \<noteq> []) (InvalidInput ''workspace name is required'')
    (map_err (mapErr ''create workspace'') (WithinTx (createWorkspaceTx newID (UserID caller) name (UserID caller)))))"

definition CreateInitialWorkspace :: "string \<Rightarrow> string \<Rightarrow> string \<Rightarrow> string \<Rightarrow> string m" where
  "CreateInitialWorkspace newID userID name actor = map_m wsp_ID (createWorkspaceTx newID userID name actor)"

definition ListMyWorkspaces :: "string \<Rightarrow> Workspace list m" where
  "ListMyWorkspaces userID = store_ListWorkspacesForUser userID"

definition InviteMember :: "Principal \<Rightarrow> InviteMemberInput \<Rightarrow> unit m" where
  "InviteMember caller inp =
     bind (Authorize caller ActionMemberInvite (resource_in ''workspace'' (im_WorkspaceID inp))) (\<lambda>_.
     let role = strings_TrimSpace (im_Role inp) in
     check (role = RoleAdmin \<or> role = RoleMember \<or> role = RoleViewer)
       (InvalidInput ''role must be one of admin, member, viewer'')
    (let email = strings_ToLower (strings_TrimSpace (im_Email inp)) in
     bind (map_err (Internalf ''invite member'') (UserIDByEmail email)) (\<lambda>found.
     case found of
       None \<Rightarrow> fail (NotFound (''no Plorigo account exists for '' @ email @ ''; ask them to sign up first''))
     | Some userID \<Rightarrow>
         map_err (mapErr ''invite member'')
           (WithinTx
             (bind (AddMember (im_WorkspaceID inp) userID role) (\<lambda>_.
              audit_Record ''workspace.member.invite'' ''membership'' userID (im_WorkspaceID inp) (UserID caller)))))))"

definition ListMembers :: "Principal \<Rightarrow> string \<Rightarrow> Member list m" where
  "ListMembers caller workspaceID =
     bind (Authorize caller ActionMemberList (resource_in ''workspace'' workspaceID)) (\<lambda>_. store_ListMembers workspaceID)"

definition ChangeMemberRole :: "Principal \<Rightarrow> ChangeRoleInput \<Rightarrow> unit m" where
  "ChangeMemberRole caller inp =
     bind (Authorize caller ActionMemberRoleChange (resource_in ''workspace'' (cr_WorkspaceID inp))) (\<lambda>_.
     check (ValidRole (cr_Role inp)) (InvalidInput ''invalid role'')
    (bind (map_err (Internalf ''change member role'') (MemberRole (cr_WorkspaceID inp) (cr_UserID inp))) (\<lambda>found.
     case found of
       None \<Rightarrow> fail (NotFound ''that user is not a member of this workspace'')
     | Some role \<Rightarrow>
         check (\<not> (role = RoleOwner \<and> cr_Role inp \<noteq> RoleOwner))
           (PermissionDenied ''an owner cannot be demoted; promote another owner first'')
        (map_err (mapErr ''change member role'')
          (WithinTx
            (bind (UpdateMemberRole (cr_WorkspaceID inp) (cr_UserID inp) (cr_Role inp)) (\<lambda>_.
             audit_Record ''workspace.member.role.change'' ''membership'' (cr_UserID inp) (cr_WorkspaceID inp) (UserID caller))))))))"

definition RemoveMember :: "Principal \<Rightarrow> RemoveMemberInput \<Rightarrow> unit m" where
  "RemoveMember caller inp =
     bind (Authorize caller ActionMemberRemove (resource_in ''workspace'' (rm_WorkspaceID inp))) (\<lambda>_.
     bind (map_err (Internalf ''remove member'') (MemberRole (rm_WorkspaceID inp) (rm_UserID inp))) (\<lambda>found.
     case found of
       None \<Rightarrow> fail (NotFound ''that user is not a member of this workspace'')
     | Some role \<Rightarrow>
         check (role \<noteq> RoleOwner) (PermissionDenied ''an owner cannot be removed; promote another owner first'')
        (map_err (mapErr ''remove member'')
          (WithinTx
            (bind (store_RemoveMember (rm_WorkspaceID inp) (rm_UserID inp)) (\<lambda>_.
             audit_Record ''workspace.member.remove'' ''membership'' (rm_UserID inp) (rm_WorkspaceID inp) (UserID caller)))))))"

section \<open>Requests\<close>

datatype projects_request =
    CreateProjectReq string string
  | GetProjectReq string
  | ListProjectsReq string
  | CreateWorkspaceReq string string
  | InviteMemberReq InviteMemberInput
  | ListMembersReq string
  | ListMyWorkspacesReq
  | ChangeMemberRoleReq ChangeRoleInput
  | RemoveMemberReq RemoveMemberInput

definition projects_serve :: "deps \<Rightarrow> Principal \<Rightarrow> projects_request \<Rightarrow> unit m" where
  "projects_serve D p q =
     (case q of
        CreateProjectReq ws name \<Rightarrow> finish (projects_Create p ws name)
      | GetProjectReq i \<Rightarrow> finish (projects_Get D p i)
      | ListProjectsReq ws \<Rightarrow> finish (projects_ListByWorkspace p ws)
      | CreateWorkspaceReq newID name \<Rightarrow> finish (CreateWorkspace newID p name)
      | InviteMemberReq inp \<Rightarrow> InviteMember p inp
      | ListMembersReq ws \<Rightarrow> finish (ListMembers p ws)
      | ListMyWorkspacesReq \<Rightarrow> finish (ListMyWorkspaces (UserID p))
      | ChangeMemberRoleReq inp \<Rightarrow> ChangeMemberRole p inp
      | RemoveMemberReq inp \<Rightarrow> RemoveMember p inp)"

section \<open>Reads and errors\<close>

lemma readonly_map_m: "readonly c \<Longrightarrow> readonly (map_m f c)"
  unfolding map_m_def by (intro reads.obeys_rules)

lemma readonly_or_not_found: "readonly c \<Longrightarrow> readonly (or_not_found msg c)"
  unfolding or_not_found_def by (rule reads.obeys_map_err)

lemma or_not_found_succ [succ_iff]: "or_not_found msg c w = (Inr y, w') \<longleftrightarrow> c w = (Inr y, w')"
  by (simp add: or_not_found_def map_err_succ)

lemmas readonly_intros = readonly_map_m readonly_or_not_found readonly_absent_ok readonly_Authorize reads.obeys_rules

lemma readonly_workspace_store:
  "readonly (store_GetProject i)" "readonly (store_ListProjects ws)" "readonly (MemberRole ws u)"
  "readonly (store_ListWorkspacesForUser u)" "readonly (store_ListMembers ws)" "readonly (UserIDByEmail e)"
  unfolding store_GetProject_def store_ListProjects_def MemberRole_def store_ListWorkspacesForUser_def
    store_ListMembers_def UserIDByEmail_def db_GetProject_def db_ListProjectsByWorkspace_def
    db_GetWorkspaceMemberRole_def db_ListWorkspacesForUser_def db_ListMembers_def db_GetUserByEmail_def
  by (intro readonly_intros)+

lemma readonly_workspace_handlers:
  "readonly (projects_Get D p i)" "readonly (projects_ListByWorkspace p ws)" "readonly (ListMembers p ws)"
  "readonly (ListMyWorkspaces u)"
  unfolding projects_Get_def projects_ListByWorkspace_def ListMembers_def ListMyWorkspaces_def
  by (intro readonly_intros readonly_workspace_store)+

lemma atomic_workspace_handlers:
  "atomic (projects_Create p ws name)" "atomic (CreateWorkspace newID p name)" "atomic (InviteMember p ii)"
  "atomic (ChangeMemberRole p ci)" "atomic (RemoveMember p ri)"
  unfolding projects_Create_def CreateWorkspace_def InviteMember_def ChangeMemberRole_def RemoveMember_def Let_def
  by (auto intro!: atomic_rules atomic_read_bind readonly_workspace_store readonly_Authorize reads.obeys_map_err
        split: option.split)

lemma atomic_projects_serve: "atomic (projects_serve D p q)"
  by (cases q)
     (simp_all add: projects_serve_def atomic_finish atomic_workspace_handlers atomic_readonly readonly_finish
        readonly_workspace_handlers)

section \<open>What each operation does\<close>

text \<open>The stored role of a user.\<close>

definition member_role :: "database \<Rightarrow> string \<Rightarrow> string \<Rightarrow> string option" where
  "member_role d ws u =
     map_option wm_Role (find (\<lambda>r. wm_WorkspaceID r = ws \<and> wm_UserID r = u) (workspace_members d))"

lemma MemberRole_succ [succ_iff]:
  "MemberRole ws u w = (Inr x, w') \<longleftrightarrow>
     \<not> faults w (ops w) \<and> x = member_role (db w) ws u \<and> w' = w\<lparr>ops := Suc (ops w)\<rparr>"
  by (auto simp: MemberRole_def db_GetWorkspaceMemberRole_def succ_iff member_role_def)

lemma UserIDByEmail_succ [succ_iff]:
  "UserIDByEmail e w = (Inr x, w') \<longleftrightarrow>
     \<not> faults w (ops w) \<and> x = map_option us_ID (find (\<lambda>r. us_Email r = e) (users (db w))) \<and>
     w' = w\<lparr>ops := Suc (ops w)\<rparr>"
  by (auto simp: UserIDByEmail_def db_GetUserByEmail_def absent_ok_def map_m_def catch_def bind_def select_one_def
        query_def Let_def split: option.split)

lemma permitted_member_role:
  "permitted d p a ws \<longleftrightarrow>
     UserID p \<noteq> [] \<and> ws \<noteq> [] \<and> (\<exists>r. member_role d ws (UserID p) = Some r \<and> permissions r a)"
  by (auto simp: permitted_def member_role_def split: option.splits)

definition with_member :: "WorkspaceMember_row \<Rightarrow> database \<Rightarrow> database" where
  "with_member r d = d\<lparr>workspace_members := workspace_members d @ [r]\<rparr>"

definition with_audit :: "AuditEvent_row \<Rightarrow> database \<Rightarrow> database" where
  "with_audit a d = d\<lparr>audit_events := audit_events d @ [a]\<rparr>"

lemma AddMember_succ:
  "AddMember ws u role w = (Inr x, w') \<Longrightarrow>
     \<exists>r. r = \<lparr>wm_WorkspaceID = ws, wm_UserID = u, wm_Role = role, wm_CreatedAt = now w\<rparr> \<and>
         member_key r \<notin> member_key ` set (workspace_members (db w)) \<and> role \<in> {RoleOwner, RoleAdmin, RoleMember, RoleViewer} \<and>
         ws \<in> wk_ID ` set (workspaces (db w)) \<and> u \<in> us_ID ` set (users (db w)) \<and>
         db w' = with_member r (db w) \<and> now w' = now w"
  by (auto simp: AddMember_def db_AddWorkspaceMember_def map_m_def succ_iff with_member_def)

lemma audit_Record_db:
  assumes "audit_Record a tt tid ws actor w = (Inr u, w')"
  obtains r where "audit_row_of a tt tid ws actor r" "db w' = with_audit r (db w)"
  using trail.rec_ok [OF assms] by (auto simp: with_audit_def)

lemma InviteMember_run:
  assumes "InviteMember p inp w = (Inr u, w')"
  obtains r a where "permitted (db w) p ActionMemberInvite (im_WorkspaceID inp)"
    and "wm_WorkspaceID r = im_WorkspaceID inp" "wm_Role r \<in> {RoleAdmin, RoleMember, RoleViewer}"
    and "\<exists>x \<in> set (users (db w)). us_ID x = wm_UserID r \<and> us_Email x = strings_ToLower (strings_TrimSpace (im_Email inp))"
    and "member_key r \<notin> member_key ` set (workspace_members (db w))" "im_WorkspaceID inp \<in> wk_ID ` set (workspaces (db w))"
    and "audit_row_of ''workspace.member.invite'' ''membership'' (wm_UserID r) (im_WorkspaceID inp) (UserID p) a"
    and "db w' = with_audit a (with_member r (db w))"
proof -
  let ?e = "strings_ToLower (strings_TrimSpace (im_Email inp))"
  from assms obtain i n w2 w3 where p: "permitted (db w) p ActionMemberInvite (im_WorkspaceID inp)"
    and role: "strings_TrimSpace (im_Role inp) \<in> {RoleAdmin, RoleMember, RoleViewer}"
    and u: "map_option us_ID (find (\<lambda>r. us_Email r = ?e) (users (db w))) = Some i"
    and add: "AddMember (im_WorkspaceID inp) i (strings_TrimSpace (im_Role inp)) (w\<lparr>ops := n\<rparr>) = (Inr (), w2)"
    and rec: "audit_Record ''workspace.member.invite'' ''membership'' i (im_WorkspaceID inp) (UserID p) w2 = (Inr (), w3)"
    and "db w' = db w3"
    by (auto simp: InviteMember_def Let_def succ_iff split: option.splits)
  from u have "\<exists>x \<in> set (users (db w)). us_ID x = i \<and> us_Email x = ?e"
    using find_Some_mem by force
  moreover obtain r where r: "r = \<lparr>wm_WorkspaceID = im_WorkspaceID inp, wm_UserID = i, wm_Role = strings_TrimSpace (im_Role inp),
      wm_CreatedAt = now w\<rparr>" "member_key r \<notin> member_key ` set (workspace_members (db w))"
      "im_WorkspaceID inp \<in> wk_ID ` set (workspaces (db w))" "db w2 = with_member r (db w)"
    using AddMember_succ [OF add] by simp
  moreover obtain a where "audit_row_of ''workspace.member.invite'' ''membership'' i (im_WorkspaceID inp) (UserID p) a"
      "db w3 = with_audit a (db w2)"
    using rec by (rule audit_Record_db)
  ultimately show ?thesis using p role \<open>db w' = db w3\<close> by (intro that [of r a]) simp_all
qed

definition with_role :: "string \<Rightarrow> string \<Rightarrow> string \<Rightarrow> database \<Rightarrow> database" where
  "with_role ws u role d = d\<lparr>workspace_members :=
     update_where (\<lambda>r. member_key r = (ws, u)) (\<lambda>r. r\<lparr>wm_Role := role\<rparr>) (workspace_members d)\<rparr>"

definition without_member :: "string \<Rightarrow> string \<Rightarrow> database \<Rightarrow> database" where
  "without_member ws u d = d\<lparr>workspace_members := filter (\<lambda>r. member_key r \<noteq> (ws, u)) (workspace_members d)\<rparr>"

lemma ChangeMemberRole_run:
  assumes "ChangeMemberRole p inp w = (Inr u, w')"
  obtains old a where "permitted (db w) p ActionMemberRoleChange (cr_WorkspaceID inp)" "ValidRole (cr_Role inp)"
    and "member_role (db w) (cr_WorkspaceID inp) (cr_UserID inp) = Some old" "old = RoleOwner \<longrightarrow> cr_Role inp = RoleOwner"
    and "audit_row_of ''workspace.member.role.change'' ''membership'' (cr_UserID inp) (cr_WorkspaceID inp) (UserID p) a"
    and "db w' = with_audit a (with_role (cr_WorkspaceID inp) (cr_UserID inp) (cr_Role inp) (db w))"
proof -
  from assms obtain old n w2 w3 where *: "permitted (db w) p ActionMemberRoleChange (cr_WorkspaceID inp)" "ValidRole (cr_Role inp)"
      "member_role (db w) (cr_WorkspaceID inp) (cr_UserID inp) = Some old" "old = RoleOwner \<longrightarrow> cr_Role inp = RoleOwner"
    and upd: "UpdateMemberRole (cr_WorkspaceID inp) (cr_UserID inp) (cr_Role inp) (w\<lparr>ops := n\<rparr>) = (Inr (), w2)"
    and rec: "audit_Record ''workspace.member.role.change'' ''membership'' (cr_UserID inp) (cr_WorkspaceID inp) (UserID p) w2 = (Inr (), w3)"
    and "db w' = db w3"
    by (auto simp: ChangeMemberRole_def succ_iff split: option.splits)
  from upd have "db w2 = with_role (cr_WorkspaceID inp) (cr_UserID inp) (cr_Role inp) (db w)"
    by (auto simp: UpdateMemberRole_def db_UpdateMemberRole_def query_def with_role_def Let_def split: if_splits)
  with audit_Record_db [OF rec] that [OF *] \<open>db w' = db w3\<close> show ?thesis by metis
qed

lemma RemoveMember_run:
  assumes "RemoveMember p inp w = (Inr u, w')"
  obtains old a where "permitted (db w) p ActionMemberRemove (rm_WorkspaceID inp)"
    and "member_role (db w) (rm_WorkspaceID inp) (rm_UserID inp) = Some old" "old \<noteq> RoleOwner"
    and "audit_row_of ''workspace.member.remove'' ''membership'' (rm_UserID inp) (rm_WorkspaceID inp) (UserID p) a"
    and "db w' = with_audit a (without_member (rm_WorkspaceID inp) (rm_UserID inp) (db w))"
proof -
  from assms obtain old n w2 w3 where *: "permitted (db w) p ActionMemberRemove (rm_WorkspaceID inp)"
      "member_role (db w) (rm_WorkspaceID inp) (rm_UserID inp) = Some old" "old \<noteq> RoleOwner"
    and upd: "store_RemoveMember (rm_WorkspaceID inp) (rm_UserID inp) (w\<lparr>ops := n\<rparr>) = (Inr (), w2)"
    and rec: "audit_Record ''workspace.member.remove'' ''membership'' (rm_UserID inp) (rm_WorkspaceID inp) (UserID p) w2 = (Inr (), w3)"
    and "db w' = db w3"
    by (auto simp: RemoveMember_def succ_iff split: option.splits)
  from upd have "db w2 = without_member (rm_WorkspaceID inp) (rm_UserID inp) (db w)"
    by (auto simp: store_RemoveMember_def db_RemoveMember_def succ_iff without_member_def)
  with audit_Record_db [OF rec] that [OF *] \<open>db w' = db w3\<close> show ?thesis by metis
qed

definition with_workspace :: "Workspace_row \<Rightarrow> database \<Rightarrow> database" where
  "with_workspace k d = d\<lparr>workspaces := workspaces d @ [k]\<rparr>"

lemma createWorkspaceTx_run:
  assumes "createWorkspaceTx newID owner name actor w = (Inr ws, w')"
  obtains k r a where "wk_ID k = wsp_ID ws" "wk_ID k \<notin> wk_ID ` set (workspaces (db w))"
    and "wk_Name k = strings_TrimSpace name" "wk_Name k \<noteq> []"
    and "wk_Slug k = workspaceSlug newID (strings_TrimSpace name)" "wk_Slug k \<notin> wk_Slug ` set (workspaces (db w))"
    and "wm_WorkspaceID r = wk_ID k" "wm_UserID r = owner" "wm_Role r = RoleOwner"
    and "member_key r \<notin> member_key ` set (workspace_members (db w))" "owner \<in> us_ID ` set (users (db w))"
    and "audit_row_of ''workspace.create'' ''workspace'' (wk_ID k) (wk_ID k) actor a"
    and "db w' = with_audit a (with_member r (with_workspace k (db w)))"
proof -
  from assms obtain w1 w2 where name: "strings_TrimSpace name \<noteq> []"
    and ins: "InsertWorkspace (strings_TrimSpace name) (workspaceSlug newID (strings_TrimSpace name)) w = (Inr ws, w1)"
    and add: "AddMember (wsp_ID ws) owner RoleOwner w1 = (Inr (), w2)"
    and rec: "audit_Record ''workspace.create'' ''workspace'' (wsp_ID ws) (wsp_ID ws) actor w2 = (Inr (), w')"
    by (auto simp: createWorkspaceTx_def Let_def succ_iff)
  from ins obtain k where k: "ws = workspaceFromRow k" "wk_ID k \<notin> wk_ID ` set (workspaces (db w))"
      "wk_Name k = strings_TrimSpace name" "wk_Slug k = workspaceSlug newID (strings_TrimSpace name)"
      "wk_Slug k \<notin> wk_Slug ` set (workspaces (db w))" "db w1 = with_workspace k (db w)"
    by (auto simp: InsertWorkspace_def db_CreateWorkspace_def map_m_def succ_iff with_workspace_def)
  obtain r where "r = \<lparr>wm_WorkspaceID = wsp_ID ws, wm_UserID = owner, wm_Role = RoleOwner, wm_CreatedAt = now w1\<rparr>"
      "member_key r \<notin> member_key ` set (workspace_members (db w1))" "owner \<in> us_ID ` set (users (db w1))"
      "db w2 = with_member r (db w1)"
    using AddMember_succ [OF add] by blast
  then have r: "wm_WorkspaceID r = wk_ID k" "wm_UserID r = owner" "wm_Role r = RoleOwner"
      "member_key r \<notin> member_key ` set (workspace_members (db w))" "owner \<in> us_ID ` set (users (db w))"
      "db w2 = with_member r (with_workspace k (db w))"
    by (simp_all add: k workspaceFromRow_def with_workspace_def)
  obtain a where "audit_row_of ''workspace.create'' ''workspace'' (wsp_ID ws) (wsp_ID ws) actor a" "db w' = with_audit a (db w2)"
    using rec by (rule audit_Record_db)
  with k r name show ?thesis by (intro that [of k r a]) (simp_all add: workspaceFromRow_def)
qed

lemma CreateWorkspace_run:
  assumes "CreateWorkspace newID p name w = (Inr ws, w')"
  obtains w1 w2 where "UserID p \<noteq> []" "db w1 = db w" "db w' = db w2"
    and "createWorkspaceTx newID (UserID p) name (UserID p) w1 = (Inr ws, w2)"
proof -
  from assms obtain w2 where "UserID p \<noteq> []" "db w' = db w2"
    and "createWorkspaceTx newID (UserID p) name (UserID p) (w\<lparr>ops := Suc (ops w)\<rparr>) = (Inr ws, w2)"
    by (auto simp: CreateWorkspace_def IsAuthenticated_def succ_iff)
  then show ?thesis by (intro that [of "w\<lparr>ops := Suc (ops w)\<rparr>" w2]) simp_all
qed

definition with_project :: "Project_row \<Rightarrow> database \<Rightarrow> database" where
  "with_project r d = d\<lparr>projects := projects d @ [r]\<rparr>"

lemma projects_Create_run:
  assumes "projects_Create p ws name w = (Inr proj, w')"
  obtains r a where "permitted (db w) p ActionProjectCreate ws" "proj = projectFromRow r"
    and "pj_WorkspaceID r = ws" "pj_Name r = strings_TrimSpace name" "pj_Slug r = slugify (strings_TrimSpace name)" "pj_Slug r \<noteq> []"
    and "pj_ID r \<notin> pj_ID ` set (projects (db w))"
    and "(ws, pj_Slug r) \<notin> (\<lambda>x. (pj_WorkspaceID x, pj_Slug x)) ` set (projects (db w))" "ws \<in> wk_ID ` set (workspaces (db w))"
    and "audit_row_of ''project.create'' ''project'' (pj_ID r) ws (UserID p) a"
    and "db w' = with_audit a (with_project r (db w))"
proof -
  from assms obtain n w2 w3 where p: "permitted (db w) p ActionProjectCreate ws" and s: "slugify (strings_TrimSpace name) \<noteq> []"
    and ins: "InsertProject \<lparr>prj_ID = [], prj_WorkspaceID = ws, prj_Name = strings_TrimSpace name,
        prj_Slug = slugify (strings_TrimSpace name), prj_CreatedAt = 0\<rparr> (w\<lparr>ops := n\<rparr>) = (Inr proj, w2)"
    and rec: "audit_Record ''project.create'' ''project'' (prj_ID proj) (prj_WorkspaceID proj) (UserID p) w2 = (Inr (), w3)"
    and "db w' = db w3"
    by (auto simp: projects_Create_def Let_def succ_iff)
  from ins obtain r where r: "proj = projectFromRow r" "pj_WorkspaceID r = ws" "pj_Name r = strings_TrimSpace name"
      "pj_Slug r = slugify (strings_TrimSpace name)" "pj_ID r \<notin> pj_ID ` set (projects (db w))"
      "(ws, pj_Slug r) \<notin> (\<lambda>x. (pj_WorkspaceID x, pj_Slug x)) ` set (projects (db w))" "ws \<in> wk_ID ` set (workspaces (db w))"
      "db w2 = with_project r (db w)"
    by (auto simp: InsertProject_def db_CreateProject_def map_m_def succ_iff with_project_def)
  obtain a where "audit_row_of ''project.create'' ''project'' (prj_ID proj) (prj_WorkspaceID proj) (UserID p) a"
      "db w3 = with_audit a (db w2)"
    using rec by (rule audit_Record_db)
  with r p s \<open>db w' = db w3\<close> show ?thesis by (intro that [of r a]) (simp_all add: projectFromRow_def)
qed

section \<open>Roles\<close>

lemma member_role_unchanged [simp]:
  "member_role (with_audit a d) = member_role d"
  "member_role (with_workspace k d) = member_role d"
  "member_role (with_project r d) = member_role d"
  by (simp_all add: fun_eq_iff member_role_def with_audit_def with_workspace_def with_project_def)

lemma member_role_None:
  "member_role d ws u = None \<longleftrightarrow> (ws, u) \<notin> member_key ` set (workspace_members d)"
  by (auto simp: member_role_def find_None_iff)

lemma find_append: "find P (xs @ ys) = (case find P xs of None \<Rightarrow> find P ys | Some x \<Rightarrow> Some x)"
  by (induction xs) auto

lemma member_role_with_member:
  assumes "member_key r \<notin> member_key ` set (workspace_members d)"
  shows "member_role (with_member r d) ws u = (if member_key r = (ws, u) then Some (wm_Role r) else member_role d ws u)"
  using assms member_role_None [of d ws u]
  by (auto simp: member_role_def with_member_def find_append split: option.splits)

lemma member_role_with_role:
  "member_role (with_role ws u role d) ws' u' =
     (if (ws', u') = (ws, u) then map_option (\<lambda>_. role) (member_role d ws u) else member_role d ws' u')"
proof -
  have "find (\<lambda>r. member_key r = (ws', u')) (update_where (\<lambda>r. member_key r = (ws, u)) (\<lambda>r. r\<lparr>wm_Role := role\<rparr>) xs) =
      map_option (\<lambda>r. if member_key r = (ws, u) then r\<lparr>wm_Role := role\<rparr> else r) (find (\<lambda>r. member_key r = (ws', u')) xs)" for xs
    by (rule find_update_where) simp
  then show ?thesis
    by (auto simp: member_role_def with_role_def option.map_comp comp_def dest: find_Some_mem intro!: map_option_cong)
qed

lemma member_role_without_member:
  "member_role (without_member ws u d) ws' u' = (if (ws', u') = (ws, u) then None else member_role d ws' u')"
proof -
  have "find (\<lambda>r. wm_WorkspaceID r = ws' \<and> wm_UserID r = u') (filter (\<lambda>r. member_key r \<noteq> (ws, u)) xs) =
      (if (ws', u') = (ws, u) then None else find (\<lambda>r. wm_WorkspaceID r = ws' \<and> wm_UserID r = u') xs)" for xs
    by (induction xs) auto
  then show ?thesis by (simp add: member_role_def without_member_def)
qed

lemma role_change_is_owner: "permitted d p ActionMemberRoleChange ws \<Longrightarrow> member_role d ws (UserID p) = Some RoleOwner"
  by (auto simp: permitted_member_role permissions_def admin_actions_def member_actions_def viewer_actions_def split: if_splits)

lemma createWorkspaceTx_roles:
  assumes "createWorkspaceTx newID owner name actor w = (Inr k, w')"
  shows "member_role (db w') ws u = (if (ws, u) = (wsp_ID k, owner) then Some RoleOwner else member_role (db w) ws u)"
    and "wsp_ID k \<notin> wk_ID ` set (workspaces (db w))" and "member_role (db w) (wsp_ID k) owner = None"
proof -
  obtain k' r a where *: "wk_ID k' = wsp_ID k" "wk_ID k' \<notin> wk_ID ` set (workspaces (db w))"
    "wm_WorkspaceID r = wk_ID k'" "wm_UserID r = owner" "wm_Role r = RoleOwner"
    and new: "member_key r \<notin> member_key ` set (workspace_members (db w))"
    and db: "db w' = with_audit a (with_member r (with_workspace k' (db w)))"
    using assms by (rule createWorkspaceTx_run)
  from new have new': "member_key r \<notin> member_key ` set (workspace_members (with_workspace k' (db w)))"
    by (simp add: with_workspace_def)
  show "member_role (db w') ws u = (if (ws, u) = (wsp_ID k, owner) then Some RoleOwner else member_role (db w) ws u)"
    by (simp only: db member_role_unchanged member_role_with_member [OF new'] *) auto
  show "wsp_ID k \<notin> wk_ID ` set (workspaces (db w))" using *(1,2) by simp
  show "member_role (db w) (wsp_ID k) owner = None" using new * by (simp add: member_role_None)
qed

lemma projects_serve_Inr:
  assumes "projects_serve D p q w = (r, w')" and "db w' \<noteq> db w"
  shows "r = Inr ()"
  using atomicD [OF atomic_projects_serve] assms by (cases r) auto

lemma projects_serve_changed:
  assumes "projects_serve D p q w = (r, w')" and "db w' \<noteq> db w"
  obtains (project) ws name proj where "projects_Create p ws name w = (Inr proj, w')"
  | (workspace) newID name k where "CreateWorkspace newID p name w = (Inr k, w')"
  | (invite) inp where "InviteMember p inp w = (Inr (), w')"
  | (change) inp where "ChangeMemberRole p inp w = (Inr (), w')"
  | (remove) inp where "RemoveMember p inp w = (Inr (), w')"
proof -
  note r = projects_serve_Inr [OF assms]
  note quiet = readonly_db [OF readonly_workspace_handlers(1)] readonly_db [OF readonly_workspace_handlers(2)]
    readonly_db [OF readonly_workspace_handlers(3)] readonly_db [OF readonly_workspace_handlers(4)]
  from assms r that show ?thesis
    by (cases q) (auto simp: projects_serve_def finish_def map_m_def succ_iff dest: quiet)
qed

lemma projects_serve_roles:
  assumes "projects_serve D p q w = (r, w')" and "member_role (db w') ws u \<noteq> member_role (db w) ws u"
  shows "permitted (db w) p ActionMemberInvite ws \<and> member_role (db w) ws u = None \<and>
       member_role (db w') ws u \<in> Some ` {RoleAdmin, RoleMember, RoleViewer} \<or>
     member_role (db w) ws (UserID p) = Some RoleOwner \<and> member_role (db w) ws u \<notin> {None, Some RoleOwner} \<and>
       member_role (db w') ws u \<in> Some ` {RoleOwner, RoleAdmin, RoleMember, RoleViewer} \<or>
     permitted (db w) p ActionMemberRemove ws \<and> member_role (db w) ws u \<notin> {None, Some RoleOwner} \<and>
       member_role (db w') ws u = None \<or>
     ws \<notin> wk_ID ` set (workspaces (db w)) \<and> u = UserID p \<and> member_role (db w) ws u = None \<and>
       member_role (db w') ws u = Some RoleOwner"
proof -
  have "db w' \<noteq> db w" using assms(2) by metis
  with assms(1) show ?thesis
  proof (cases rule: projects_serve_changed)
    case (project ws' name proj)
    then show ?thesis using assms(2) by (auto elim!: projects_Create_run)
  next
    case (workspace newID name k)
    then obtain w1 w2 where tx: "UserID p \<noteq> []" "db w1 = db w" "db w' = db w2"
        "createWorkspaceTx newID (UserID p) name (UserID p) w1 = (Inr k, w2)"
      by (rule CreateWorkspace_run)
    from createWorkspaceTx_roles [OF tx(4)] show ?thesis
      using tx(2,3) assms(2) by (auto split: if_splits)
  next
    case (invite inp)
    then show ?thesis using assms(2)
      by (elim InviteMember_run) (auto simp: member_role_with_member member_role_None split: if_splits)
  next
    case (change inp)
    then show ?thesis using assms(2)
      by (elim ChangeMemberRole_run)
         (auto simp: member_role_with_role ValidRole_def dest!: role_change_is_owner split: if_splits)
  next
    case (remove inp)
    then show ?thesis using assms(2)
      by (elim RemoveMember_run) (auto simp: member_role_without_member split: if_splits)
  qed
qed

text \<open>C15: a membership changes only as the roles allow. Whatever request of the projects module changes
  what role a user has in a workspace: an admin or owner invited somebody new, never as an owner; or
  an owner changed the role of a member who is not an owner; or an admin or owner removed a member who
  is not an owner; or the workspace is new and the caller its first owner. So only owners make owners,
  and an owner's own role is beyond everybody's reach.\<close>

theorem roles_change_only_as_granted:
  assumes "projects_serve D p q w = (r, w')" and "member_role (db w') ws u \<noteq> member_role (db w) ws u"
  shows "permitted (db w) p ActionMemberInvite ws \<and> member_role (db w) ws u = None \<and>
       member_role (db w') ws u \<in> Some ` {RoleAdmin, RoleMember, RoleViewer} \<or>
     member_role (db w) ws (UserID p) = Some RoleOwner \<and> member_role (db w) ws u \<notin> {None, Some RoleOwner} \<and>
       member_role (db w') ws u \<in> Some ` {RoleOwner, RoleAdmin, RoleMember, RoleViewer} \<or>
     permitted (db w) p ActionMemberRemove ws \<and> member_role (db w) ws u \<notin> {None, Some RoleOwner} \<and>
       member_role (db w') ws u = None \<or>
     ws \<notin> wk_ID ` set (workspaces (db w)) \<and> u = UserID p \<and> member_role (db w) ws u = None \<and>
       member_role (db w') ws u = Some RoleOwner"
  using assms by (rule projects_serve_roles)

theorem roles_change_only_as_granted_witness:
  "\<exists>w'. projects_serve demo_deps alice (ChangeMemberRoleReq \<lparr>cr_WorkspaceID = ''ws'', cr_UserID = ''bob'', cr_Role = RoleOwner\<rparr>)
       (demo_world []) = (Inr (), w') \<and>
     member_role (db w') ''ws'' ''bob'' = Some RoleOwner \<and> member_role (db (demo_world [])) ''ws'' ''alice'' = Some RoleOwner"
proof -
  let ?q = "ChangeMemberRoleReq \<lparr>cr_WorkspaceID = ''ws'', cr_UserID = ''bob'', cr_Role = RoleOwner\<rparr>"
  obtain w' where run: "projects_serve demo_deps alice ?q (demo_world []) = (Inr (), w')"
      "member_role (db w') ''ws'' ''bob'' = Some RoleOwner"
    by (simp add: projects_serve_def ChangeMemberRole_def MemberRole_def UpdateMemberRole_def db_UpdateMemberRole_def
          ValidRole_def member_role_def exec_defs demo_defs)
  have old: "member_role (db (demo_world [])) ''ws'' ''bob'' = Some RoleViewer"
    by (simp add: member_role_def demo_defs)
  from roles_change_only_as_granted [OF run(1), of "''ws''" "''bob''"] run old show ?thesis by auto
qed

section \<open>No workspace loses its last owner\<close>

definition has_owner :: "database \<Rightarrow> string \<Rightarrow> bool" where
  "has_owner d ws \<longleftrightarrow> (\<exists>u. member_role d ws u = Some RoleOwner)"

definition members_wf :: "database \<Rightarrow> bool" where
  "members_wf d \<longleftrightarrow>
     distinct (map member_key (workspace_members d)) \<and> distinct (map wk_ID (workspaces d)) \<and>
     (\<forall>r \<in> set (workspace_members d). ValidRole (wm_Role r) \<and> wm_WorkspaceID r \<in> wk_ID ` set (workspaces d) \<and>
        wm_UserID r \<in> us_ID ` set (users d)) \<and>
     (\<forall>k \<in> set (workspaces d). has_owner d (wk_ID k))"

lemma owner_stays:
  assumes "projects_serve D p q w = (r, w')" and "has_owner (db w) ws"
  shows "has_owner (db w') ws"
proof -
  from assms(2) obtain u where u: "member_role (db w) ws u = Some RoleOwner" by (auto simp: has_owner_def)
  have "member_role (db w') ws u = Some RoleOwner"
  proof (rule ccontr)
    assume "member_role (db w') ws u \<noteq> Some RoleOwner"
    with projects_serve_roles [OF assms(1), of ws u] u show False by auto
  qed
  then show ?thesis by (auto simp: has_owner_def)
qed

lemma members_wf_new_member:
  assumes "members_wf d" and "member_key r \<notin> member_key ` set (workspace_members d)" and "ValidRole (wm_Role r)"
    and "wm_WorkspaceID r \<in> wk_ID ` set (workspaces d)" and "wm_UserID r \<in> us_ID ` set (users d)"
  shows "members_wf (with_audit a (with_member r d))"
proof -
  have "has_owner d ws \<Longrightarrow> has_owner (with_audit a (with_member r d)) ws" for ws
    unfolding has_owner_def member_role_unchanged member_role_with_member [OF assms(2)]
    using assms(2) member_role_None by (metis not_None_eq option.distinct(1))
  with assms show ?thesis
    unfolding members_wf_def by (simp add: with_audit_def with_member_def)
qed

lemma members_wf_other:
  assumes "workspace_members d' = workspace_members d" "workspaces d' = workspaces d" "users d' = users d"
  shows "members_wf d' = members_wf d"
  using assms by (simp add: members_wf_def has_owner_def member_role_def)

lemma members_wf_new_workspace:
  assumes "members_wf d" and "wk_ID k \<notin> wk_ID ` set (workspaces d)" and "wm_WorkspaceID r = wk_ID k"
    and "wm_UserID r \<in> us_ID ` set (users d)" and "wm_Role r = RoleOwner"
  shows "members_wf (with_audit a (with_member r (with_workspace k d)))"
proof -
  let ?d = "with_workspace k d"
  have "wm_WorkspaceID x \<noteq> wk_ID k" if "x \<in> set (workspace_members d)" for x
    using assms(1,2) that unfolding members_wf_def by metis
  then have fresh: "member_key r \<notin> member_key ` set (workspace_members ?d)"
    using assms(3) by (force simp: with_workspace_def)
  have "has_owner (with_audit a (with_member r ?d)) (wk_ID k)"
    using assms(3,5) by (auto simp: has_owner_def member_role_with_member [OF fresh])
  moreover have "has_owner d ws \<Longrightarrow> has_owner (with_audit a (with_member r ?d)) ws" for ws
    unfolding has_owner_def member_role_unchanged member_role_with_member [OF fresh]
    using assms(5) by metis
  ultimately show ?thesis
    using assms fresh unfolding members_wf_def
    by (simp add: with_audit_def with_member_def with_workspace_def ValidRole_def)
qed

lemma members_wf_roles:
  assumes "members_wf d" and "ValidRole role" and "\<And>ws'. has_owner d ws' \<Longrightarrow> has_owner (with_role ws u role d) ws'"
  shows "members_wf (with_audit a (with_role ws u role d))"
proof -
  let ?ms = "update_where (\<lambda>r. member_key r = (ws, u)) (\<lambda>r. r\<lparr>wm_Role := role\<rparr>) (workspace_members d)"
  have keys: "map member_key ?ms = map member_key (workspace_members d)"
    by (rule map_update_where) simp
  have "\<forall>r \<in> set ?ms. ValidRole (wm_Role r) \<and> wm_WorkspaceID r \<in> wk_ID ` set (workspaces d) \<and>
        wm_UserID r \<in> us_ID ` set (users d)"
    using assms(1,2) by (auto simp: set_update_where members_wf_def)
  moreover have "has_owner (with_audit a (with_role ws u role d)) = has_owner (with_role ws u role d)"
    by (simp add: has_owner_def fun_eq_iff)
  ultimately show ?thesis
    using assms(1,3) keys unfolding members_wf_def by (simp add: with_audit_def with_role_def)
qed

lemma members_wf_without:
  assumes "members_wf d" and "\<And>ws'. has_owner d ws' \<Longrightarrow> has_owner (without_member ws u d) ws'"
  shows "members_wf (with_audit a (without_member ws u d))"
proof -
  have "has_owner (with_audit a (without_member ws u d)) = has_owner (without_member ws u d)"
    by (simp add: has_owner_def fun_eq_iff)
  with assms show ?thesis
    unfolding members_wf_def by (simp add: with_audit_def without_member_def distinct_map_filter)
qed

lemma has_owner_audit [simp]: "has_owner (with_audit a d) = has_owner d"
  by (simp add: has_owner_def fun_eq_iff)

lemma members_wf_createWorkspaceTx:
  assumes "createWorkspaceTx newID owner name actor w = (Inr k, w')" and "members_wf (db w)"
  shows "members_wf (db w')"
proof -
  obtain k' r a where "wk_ID k' \<notin> wk_ID ` set (workspaces (db w))" "wm_WorkspaceID r = wk_ID k'" "wm_UserID r = owner"
      "wm_Role r = RoleOwner" "owner \<in> us_ID ` set (users (db w))"
    and db: "db w' = with_audit a (with_member r (with_workspace k' (db w)))"
    using assms(1) by (rule createWorkspaceTx_run)
  then show ?thesis unfolding db using assms(2) by (intro members_wf_new_workspace) simp_all
qed

lemma members_wf_projects:
  assumes "projects_serve D p q w = (r, w')" and wf: "members_wf (db w)"
  shows "members_wf (db w')"
proof (cases "db w' = db w")
  case True
  then show ?thesis using wf by simp
next
  case False
  note owners = owner_stays [OF assms(1)]
  from assms(1) False show ?thesis
  proof (cases rule: projects_serve_changed)
    case (project ws name proj)
    then obtain x a where "db w' = with_audit a (with_project x (db w))" by (rule projects_Create_run)
    then have "members_wf (db w') = members_wf (db w)"
      by (intro members_wf_other) (simp_all add: with_audit_def with_project_def)
    with wf show ?thesis by simp
  next
    case (workspace newID name k)
    then obtain w1 w2 where tx: "db w1 = db w" "db w' = db w2"
        "createWorkspaceTx newID (UserID p) name (UserID p) w1 = (Inr k, w2)"
      by (rule CreateWorkspace_run)
    from members_wf_createWorkspaceTx [OF tx(3)] wf show ?thesis unfolding tx(1,2) .
  next
    case (invite inp)
    then show ?thesis
    proof (rule InviteMember_run)
      fix x a
      assume *: "wm_WorkspaceID x = im_WorkspaceID inp" "wm_Role x \<in> {RoleAdmin, RoleMember, RoleViewer}"
        "\<exists>y \<in> set (users (db w)). us_ID y = wm_UserID x \<and> us_Email y = strings_ToLower (strings_TrimSpace (im_Email inp))"
        "member_key x \<notin> member_key ` set (workspace_members (db w))" "im_WorkspaceID inp \<in> wk_ID ` set (workspaces (db w))"
        and db: "db w' = with_audit a (with_member x (db w))"
      from *(2) have "ValidRole (wm_Role x)" by (auto simp: ValidRole_def)
      moreover from *(3) have "wm_UserID x \<in> us_ID ` set (users (db w))" by force
      ultimately show ?thesis unfolding db using wf *(1,4,5) by (intro members_wf_new_member) simp_all
    qed
  next
    case (change inp)
    then obtain a where "ValidRole (cr_Role inp)"
        "db w' = with_audit a (with_role (cr_WorkspaceID inp) (cr_UserID inp) (cr_Role inp) (db w))"
      by (rule ChangeMemberRole_run)
    with wf owners show ?thesis by (simp add: members_wf_roles)
  next
    case (remove inp)
    then obtain a where "db w' = with_audit a (without_member (rm_WorkspaceID inp) (rm_UserID inp) (db w))"
      by (rule RemoveMember_run)
    with wf owners show ?thesis by (simp add: members_wf_without)
  qed
qed

end
