(* ===== verification/Servers.thy ===== *)
theory Servers
  imports Workspaces
begin

text \<open>
  The modules \<^verbatim>\<open>internal/servers\<close> and \<^verbatim>\<open>internal/environments\<close> with their queries.
  Deleting a server is the destructive operation: the foreign keys of the migrations cascade to its
  agent, registration tokens, deployments (with their events and teardown jobs), backups and restores.
\<close>

section \<open>Cascades\<close>

text \<open>\<open>ON DELETE CASCADE\<close> from deployments to their events and teardown jobs, and \<open>ON DELETE SET NULL\<close>
  of \<open>rolled_back_from\<close>.\<close>

definition forget_rollback :: "string set \<Rightarrow> Deployment_row \<Rightarrow> Deployment_row" where
  "forget_rollback gone r =
     (case rd_RolledBackFrom r of None \<Rightarrow> r | Some i \<Rightarrow> if i \<in> gone then r\<lparr>rd_RolledBackFrom := None\<rparr> else r)"

definition purge_deployments :: "(Deployment_row \<Rightarrow> bool) \<Rightarrow> database \<Rightarrow> database" where
  "purge_deployments p d =
     (let gone = rd_ID ` set (filter p (deployments d)) in
      d\<lparr>deployments := map (forget_rollback gone) (filter (\<lambda>r. \<not> p r) (deployments d)),
        deployment_events := filter (\<lambda>e. re_DeploymentID e \<notin> gone) (deployment_events d),
        teardown_jobs := filter (\<lambda>j. rt_DeploymentID j \<notin> gone) (teardown_jobs d)\<rparr>)"

definition purge_backups :: "(Backup_row \<Rightarrow> bool) \<Rightarrow> database \<Rightarrow> database" where
  "purge_backups p d =
     (let gone = bk_ID ` set (filter p (backups d)) in
      d\<lparr>backups := filter (\<lambda>r. \<not> p r) (backups d),
        restore_jobs := filter (\<lambda>j. rj_BackupID j \<notin> gone) (restore_jobs d)\<rparr>)"

definition cascade_server :: "string \<Rightarrow> database \<Rightarrow> database" where
  "cascade_server i d =
     (let d1 = purge_backups (\<lambda>r. bk_ServerID r = i) (purge_deployments (\<lambda>r. rd_ServerID r = i) d) in
      d1\<lparr>servers := filter (\<lambda>r. sv_ID r \<noteq> i) (servers d),
         agents := filter (\<lambda>r. ag_ServerID r \<noteq> i) (agents d),
         agent_registration_tokens := filter (\<lambda>r. tk_ServerID r \<noteq> i) (agent_registration_tokens d),
         teardown_jobs := filter (\<lambda>j. rt_ServerID j \<noteq> i) (teardown_jobs d1),
         restore_jobs := filter (\<lambda>j. rj_ServerID j \<noteq> i) (restore_jobs d1)\<rparr>)"

section \<open>Queries\<close>

definition db_CreateServer :: "string \<Rightarrow> string \<Rightarrow> string \<Rightarrow> Server_row m" where
  "db_CreateServer workspaceID name slug =
     insert_unique
       (\<lambda>w. \<lparr>sv_ID = fresh_uuid w, sv_WorkspaceID = workspaceID, sv_Name = name, sv_Slug = slug,
             sv_CreatedAt = now w, sv_HostKeyFingerprint = []\<rparr>)
       (\<lambda>_. True)
       (\<lambda>d r. sv_ID r \<notin> sv_ID ` set (servers d) \<and>
              (sv_WorkspaceID r, sv_Slug r) \<notin> (\<lambda>x. (sv_WorkspaceID x, sv_Slug x)) ` set (servers d))
       (\<lambda>d r. sv_WorkspaceID r \<in> wk_ID ` set (workspaces d))
       (\<lambda>r d. d\<lparr>servers := servers d @ [r]\<rparr>)"

definition db_GetServer :: "string \<Rightarrow> Server_row m" where
  "db_GetServer i = select_one (\<lambda>d. find (\<lambda>r. sv_ID r = i) (servers d))"

definition db_ListServersByWorkspace :: "string \<Rightarrow> Server_row list m" where
  "db_ListServersByWorkspace i =
     select_many (\<lambda>d. sort_key (\<lambda>r. - sv_CreatedAt r) (filter (\<lambda>r. sv_WorkspaceID r = i) (servers d)))"

definition db_DeleteServer :: "string \<Rightarrow> string m" where
  "db_DeleteServer i =
     update_one (\<lambda>_. True) (\<lambda>w d.
       map_option (\<lambda>r. (sv_ID r, cascade_server i d)) (find (\<lambda>r. sv_ID r = i) (servers d)))"

definition db_CreateEnvironment :: "string \<Rightarrow> string \<Rightarrow> string \<Rightarrow> string \<Rightarrow> Environment_row m" where
  "db_CreateEnvironment projectID name slug typ =
     insert_unique
       (\<lambda>w. \<lparr>en_ID = fresh_uuid w, en_ProjectID = projectID, en_Name = name, en_Slug = slug, en_Type = typ,
             en_CreatedAt = now w\<rparr>)
       (\<lambda>r. en_Type r \<in> {''preview'', ''staging'', ''production'', ''custom''})
       (\<lambda>d r. en_ID r \<notin> en_ID ` set (environments d) \<and>
              (en_ProjectID r, en_Slug r) \<notin> (\<lambda>x. (en_ProjectID x, en_Slug x)) ` set (environments d))
       (\<lambda>d r. en_ProjectID r \<in> pj_ID ` set (projects d))
       (\<lambda>r d. d\<lparr>environments := environments d @ [r]\<rparr>)"

definition db_GetEnvironment :: "string \<Rightarrow> (Environment_row \<times> string) m" where
  "db_GetEnvironment i =
     select_one (\<lambda>d.
       case find (\<lambda>e. en_ID e = i) (environments d) of
         None \<Rightarrow> None
       | Some e \<Rightarrow> map_option (\<lambda>p. (e, pj_WorkspaceID p)) (find (\<lambda>p. pj_ID p = en_ProjectID e) (projects d)))"

definition db_ListEnvironmentsByProject :: "string \<Rightarrow> Environment_row list m" where
  "db_ListEnvironmentsByProject i =
     select_many (\<lambda>d. sort_key (\<lambda>r. - en_CreatedAt r) (filter (\<lambda>r. en_ProjectID r = i) (environments d)))"

section \<open>Servers\<close>

record Server =
  srv_ID :: string
  srv_WorkspaceID :: string
  srv_Name :: string
  srv_Slug :: string
  srv_CreatedAt :: int

definition serverFromRow :: "Server_row \<Rightarrow> Server" where
  "serverFromRow r = \<lparr>srv_ID = sv_ID r, srv_WorkspaceID = sv_WorkspaceID r, srv_Name = sv_Name r, srv_Slug = sv_Slug r,
     srv_CreatedAt = sv_CreatedAt r\<rparr>"

definition InsertServer :: "Server \<Rightarrow> Server m" where
  "InsertServer s =
     map_m serverFromRow
       (on_unique (''a server named '' @ fmt_q (srv_Name s) @ '' already exists in this workspace'')
         (db_CreateServer (srv_WorkspaceID s) (srv_Name s) (srv_Slug s)))"

definition store_GetServer :: "string \<Rightarrow> Server m" where
  "store_GetServer i = map_m serverFromRow (or_not_found (''server '' @ i @ '' not found'') (db_GetServer i))"

definition store_ListServers :: "string \<Rightarrow> Server list m" where
  "store_ListServers ws = map_m (map serverFromRow) (db_ListServersByWorkspace ws)"

definition store_DeleteServer :: "string \<Rightarrow> bool m" where
  "store_DeleteServer i = map_m (\<lambda>found. found \<noteq> None) (absent_ok (db_DeleteServer i))"

definition servers_Create :: "Principal \<Rightarrow> string \<Rightarrow> string \<Rightarrow> Server m" where
  "servers_Create caller workspaceID rawName =
     (let name = strings_TrimSpace rawName in
      check (name \<noteq> []) (InvalidInput ''server name is required'')
     (check (workspaceID \<noteq> []) (InvalidInput ''workspace_id is required'')
     (bind (Authorize caller ActionServerCreate (resource_in ''server'' workspaceID)) (\<lambda>_.
      let slug = slugify name in
      check (slug \<noteq> []) (InvalidInput ''server name must contain at least one letter or number'')
     (map_err (mapErr ''create server'')
        (WithinTx
          (bind (InsertServer \<lparr>srv_ID = [], srv_WorkspaceID = workspaceID, srv_Name = name, srv_Slug = slug, srv_CreatedAt = 0\<rparr>)
            (\<lambda>created. bind (audit_Record ''server.create'' ''server'' (srv_ID created) (srv_WorkspaceID created) (UserID caller))
              (\<lambda>_. ret created))))))))) "

definition servers_Get :: "deps \<Rightarrow> Principal \<Rightarrow> string \<Rightarrow> Server m" where
  "servers_Get D caller serverID =
     check (id_Parse D serverID) (InvalidInput ''invalid server id'')
    (bind (store_GetServer serverID) (\<lambda>srv.
     bind (Authorize caller ActionServerRead
             \<lparr>res_Type = ''server'', res_WorkspaceID = srv_WorkspaceID srv, res_ID = srv_ID srv\<rparr>)
       (\<lambda>_. ret srv)))"

definition servers_ListByWorkspace :: "Principal \<Rightarrow> string \<Rightarrow> Server list m" where
  "servers_ListByWorkspace caller workspaceID =
     check (workspaceID \<noteq> []) (InvalidInput ''workspace_id is required'')
    (bind (Authorize caller ActionServerRead (resource_in ''server'' workspaceID)) (\<lambda>_. store_ListServers workspaceID))"

definition servers_Delete :: "deps \<Rightarrow> Principal \<Rightarrow> string \<Rightarrow> unit m" where
  "servers_Delete D caller serverID =
     check (id_Parse D serverID) (InvalidInput ''invalid server id'')
    (bind (store_GetServer serverID) (\<lambda>srv.
     bind (Authorize caller ActionServerDelete
             \<lparr>res_Type = ''server'', res_WorkspaceID = srv_WorkspaceID srv, res_ID = srv_ID srv\<rparr>) (\<lambda>_.
     map_err (mapErr ''delete server'')
       (WithinTx
         (bind (store_DeleteServer serverID) (\<lambda>deleted.
          check deleted (NotFound (''server '' @ serverID @ '' not found''))
            (audit_Record ''server.delete'' ''server'' (srv_ID srv) (srv_WorkspaceID srv) (UserID caller))))))))"

section \<open>Environments\<close>

record Environment =
  env_ID :: string
  env_ProjectID :: string
  env_WorkspaceID :: string
  env_Name :: string
  env_Slug :: string
  env_Type :: string
  env_CreatedAt :: int

definition environmentFromRow :: "Environment_row \<Rightarrow> Environment" where
  "environmentFromRow r = \<lparr>env_ID = en_ID r, env_ProjectID = en_ProjectID r, env_WorkspaceID = [], env_Name = en_Name r,
     env_Slug = en_Slug r, env_Type = en_Type r, env_CreatedAt = en_CreatedAt r\<rparr>"

definition InsertEnvironment :: "Environment \<Rightarrow> Environment m" where
  "InsertEnvironment e =
     map_m environmentFromRow
       (on_unique (''an environment named '' @ fmt_q (env_Name e) @ '' already exists in this project'')
         (db_CreateEnvironment (env_ProjectID e) (env_Name e) (env_Slug e) (env_Type e)))"

definition store_GetEnvironment :: "string \<Rightarrow> Environment m" where
  "store_GetEnvironment i =
     map_m (\<lambda>(r, ws). (environmentFromRow r)\<lparr>env_WorkspaceID := ws\<rparr>)
       (or_not_found (''environment '' @ i @ '' not found'') (db_GetEnvironment i))"

definition store_ListEnvironments :: "string \<Rightarrow> Environment list m" where
  "store_ListEnvironments i = map_m (map environmentFromRow) (db_ListEnvironmentsByProject i)"

definition defaultEnvType :: string where
  "defaultEnvType = ''preview''"

definition validEnvType :: "string \<Rightarrow> bool" where
  "validEnvType t = (t \<in> {''preview'', ''staging'', ''production'', ''custom''})"

definition environments_Create :: "deps \<Rightarrow> Principal \<Rightarrow> string \<Rightarrow> string \<Rightarrow> string \<Rightarrow> Environment m" where
  "environments_Create D caller projectID rawName rawType =
     (let name = strings_TrimSpace rawName in
      check (name \<noteq> []) (InvalidInput ''environment name is required'')
     (check (id_Parse D projectID) (InvalidInput ''a valid project_id is required'')
     (let envType = strings_TrimSpace rawType; envType = (if envType = [] then defaultEnvType else envType) in
      check (validEnvType envType) (InvalidInput ''type must be one of preview, staging, production, custom'')
     (bind (map_err (Internalf ''create environment'') (WorkspaceForProject projectID)) (\<lambda>found.
      case found of
        None \<Rightarrow> fail (NotFound (''project '' @ projectID @ '' not found''))
      | Some workspaceID \<Rightarrow>
          bind (Authorize caller ActionEnvironmentCreate (resource_in ''environment'' workspaceID)) (\<lambda>_.
          let slug = slugify name in
          check (slug \<noteq> []) (InvalidInput ''environment name must contain at least one letter or number'')
         (map_m (\<lambda>created. created\<lparr>env_WorkspaceID := workspaceID\<rparr>)
           (map_err (mapErr ''create environment'')
            (WithinTx
              (bind (InsertEnvironment \<lparr>env_ID = [], env_ProjectID = projectID, env_WorkspaceID = workspaceID,
                       env_Name = name, env_Slug = slug, env_Type = envType, env_CreatedAt = 0\<rparr>)
                (\<lambda>created. bind (audit_Record ''environment.create'' ''environment'' (env_ID created) workspaceID (UserID caller))
                  (\<lambda>_. ret created)))))))))))) "

definition environments_Get :: "deps \<Rightarrow> Principal \<Rightarrow> string \<Rightarrow> Environment m" where
  "environments_Get D caller envID =
     check (id_Parse D envID) (InvalidInput ''invalid environment id'')
    (bind (store_GetEnvironment envID) (\<lambda>e.
     bind (Authorize caller ActionEnvironmentRead
             \<lparr>res_Type = ''environment'', res_WorkspaceID = env_WorkspaceID e, res_ID = env_ID e\<rparr>)
       (\<lambda>_. ret e)))"

definition environments_ListByProject :: "deps \<Rightarrow> Principal \<Rightarrow> string \<Rightarrow> Environment list m" where
  "environments_ListByProject D caller projectID =
     check (id_Parse D projectID) (InvalidInput ''a valid project_id is required'')
    (bind (map_err (Internalf ''list environments'') (WorkspaceForProject projectID)) (\<lambda>found.
     case found of
       None \<Rightarrow> fail (NotFound (''project '' @ projectID @ '' not found''))
     | Some workspaceID \<Rightarrow>
         bind (Authorize caller ActionEnvironmentRead (resource_in ''environment'' workspaceID))
           (\<lambda>_. store_ListEnvironments projectID)))"

section \<open>Requests\<close>

datatype servers_request =
    CreateServerReq string string
  | GetServerReq string
  | ListServersReq string
  | DeleteServerReq string
  | CreateEnvironmentReq string string string
  | GetEnvironmentReq string
  | ListEnvironmentsReq string

definition servers_serve :: "deps \<Rightarrow> Principal \<Rightarrow> servers_request \<Rightarrow> unit m" where
  "servers_serve D p q =
     (case q of
        CreateServerReq ws name \<Rightarrow> finish (servers_Create p ws name)
      | GetServerReq i \<Rightarrow> finish (servers_Get D p i)
      | ListServersReq ws \<Rightarrow> finish (servers_ListByWorkspace p ws)
      | DeleteServerReq i \<Rightarrow> servers_Delete D p i
      | CreateEnvironmentReq prj name typ \<Rightarrow> finish (environments_Create D p prj name typ)
      | GetEnvironmentReq i \<Rightarrow> finish (environments_Get D p i)
      | ListEnvironmentsReq prj \<Rightarrow> finish (environments_ListByProject D p prj))"

section \<open>Reads and errors\<close>

lemma readonly_server_store:
  "readonly (store_GetServer i)" "readonly (store_ListServers ws)" "readonly (store_GetEnvironment i)"
  "readonly (store_ListEnvironments i)"
  unfolding store_GetServer_def store_ListServers_def store_GetEnvironment_def store_ListEnvironments_def
    db_GetServer_def db_ListServersByWorkspace_def db_GetEnvironment_def db_ListEnvironmentsByProject_def
  by (intro readonly_intros)+

lemma readonly_server_handlers:
  "readonly (servers_Get D p i)" "readonly (servers_ListByWorkspace p ws)" "readonly (environments_Get D p i)"
  "readonly (environments_ListByProject D p i)"
  unfolding servers_Get_def servers_ListByWorkspace_def environments_Get_def environments_ListByProject_def
  by (auto intro!: reads.obeys_rules readonly_server_store readonly_Authorize readonly_store split: option.split)

lemma atomic_server_handlers:
  "atomic (servers_Create p ws name)" "atomic (servers_Delete D p i)" "atomic (environments_Create D p i name typ)"
  unfolding servers_Create_def servers_Delete_def environments_Create_def map_m_def Let_def
  by (auto intro!: atomic_rules atomic_read_bind readonly_server_store readonly_Authorize readonly_store reads.obeys_map_err
        split: option.split)

lemma atomic_servers_serve: "atomic (servers_serve D p q)"
  by (cases q)
     (simp_all add: servers_serve_def atomic_finish atomic_server_handlers atomic_readonly readonly_finish
        readonly_server_handlers)

section \<open>What each operation does\<close>

definition with_server :: "Server_row \<Rightarrow> database \<Rightarrow> database" where
  "with_server r d = d\<lparr>servers := servers d @ [r]\<rparr>"

definition with_environment :: "Environment_row \<Rightarrow> database \<Rightarrow> database" where
  "with_environment r d = d\<lparr>environments := environments d @ [r]\<rparr>"

lemma servers_Create_run:
  assumes "servers_Create p ws name w = (Inr srv, w')"
  obtains r a where "permitted (db w) p ActionServerCreate ws" "srv = serverFromRow r"
    and "sv_WorkspaceID r = ws" "sv_Name r = strings_TrimSpace name" "sv_Slug r = slugify (strings_TrimSpace name)" "sv_Slug r \<noteq> []"
    and "sv_ID r \<notin> sv_ID ` set (servers (db w))"
    and "(ws, sv_Slug r) \<notin> (\<lambda>x. (sv_WorkspaceID x, sv_Slug x)) ` set (servers (db w))" "ws \<in> wk_ID ` set (workspaces (db w))"
    and "audit_row_of ''server.create'' ''server'' (sv_ID r) ws (UserID p) a"
    and "db w' = with_audit a (with_server r (db w))"
proof -
  from assms obtain n w2 w3 where p: "permitted (db w) p ActionServerCreate ws" and s: "slugify (strings_TrimSpace name) \<noteq> []"
    and ins: "InsertServer \<lparr>srv_ID = [], srv_WorkspaceID = ws, srv_Name = strings_TrimSpace name,
        srv_Slug = slugify (strings_TrimSpace name), srv_CreatedAt = 0\<rparr> (w\<lparr>ops := n\<rparr>) = (Inr srv, w2)"
    and rec: "audit_Record ''server.create'' ''server'' (srv_ID srv) (srv_WorkspaceID srv) (UserID p) w2 = (Inr (), w3)"
    and "db w' = db w3"
    by (auto simp: servers_Create_def Let_def succ_iff)
  from ins obtain r where r: "srv = serverFromRow r" "sv_WorkspaceID r = ws" "sv_Name r = strings_TrimSpace name"
      "sv_Slug r = slugify (strings_TrimSpace name)" "sv_ID r \<notin> sv_ID ` set (servers (db w))"
      "(ws, sv_Slug r) \<notin> (\<lambda>x. (sv_WorkspaceID x, sv_Slug x)) ` set (servers (db w))" "ws \<in> wk_ID ` set (workspaces (db w))"
      "db w2 = with_server r (db w)"
    by (auto simp: InsertServer_def db_CreateServer_def map_m_def succ_iff with_server_def)
  obtain a where "audit_row_of ''server.create'' ''server'' (srv_ID srv) (srv_WorkspaceID srv) (UserID p) a"
      "db w3 = with_audit a (db w2)"
    using rec by (rule audit_Record_db)
  with r p s \<open>db w' = db w3\<close> show ?thesis by (intro that [of r a]) (simp_all add: serverFromRow_def)
qed

lemma store_GetServer_succ [succ_iff]:
  "store_GetServer i w = (Inr srv, w') \<longleftrightarrow>
     \<not> faults w (ops w) \<and> (\<exists>r. find (\<lambda>r. sv_ID r = i) (servers (db w)) = Some r \<and> srv = serverFromRow r) \<and>
     w' = w\<lparr>ops := Suc (ops w)\<rparr>"
  by (auto simp: store_GetServer_def db_GetServer_def map_m_def succ_iff)

lemma servers_Delete_run:
  assumes "servers_Delete D p i w = (Inr u, w')"
  obtains r a where "find (\<lambda>r. sv_ID r = i) (servers (db w)) = Some r"
    and "permitted (db w) p ActionServerDelete (sv_WorkspaceID r)"
    and "audit_row_of ''server.delete'' ''server'' i (sv_WorkspaceID r) (UserID p) a"
    and "db w' = with_audit a (cascade_server i (db w))"
proof -
  from assms obtain r n b w2 w3 where r: "find (\<lambda>r. sv_ID r = i) (servers (db w)) = Some r"
    and p: "permitted (db w) p ActionServerDelete (sv_WorkspaceID r)"
    and del: "store_DeleteServer i (w\<lparr>ops := n\<rparr>) = (Inr b, w2)" "b"
    and rec: "audit_Record ''server.delete'' ''server'' (sv_ID r) (sv_WorkspaceID r) (UserID p) w2 = (Inr (), w3)"
    and "db w' = db w3"
    by (auto simp: servers_Delete_def succ_iff serverFromRow_def)
  from del r have "db w2 = cascade_server i (db w)"
    by (auto simp: store_DeleteServer_def map_m_def absent_ok_def catch_def bind_def db_DeleteServer_def update_one_def
          query_def Let_def split: if_splits)
  moreover have "sv_ID r = i" using find_Some_mem [OF r] by simp
  ultimately show ?thesis using audit_Record_db [OF rec] that [OF r p] \<open>db w' = db w3\<close> by metis
qed

lemma environments_Create_run:
  assumes "environments_Create D p prj name typ w = (Inr e, w')"
  obtains k r a where "k \<in> set (projects (db w))" "pj_ID k = prj" "permitted (db w) p ActionEnvironmentCreate (pj_WorkspaceID k)"
    and "en_ProjectID r = prj" "en_Name r = strings_TrimSpace name" "en_Slug r = slugify (strings_TrimSpace name)" "en_Slug r \<noteq> []"
    and "validEnvType (en_Type r)" "en_ID r \<notin> en_ID ` set (environments (db w))"
    and "(prj, en_Slug r) \<notin> (\<lambda>x. (en_ProjectID x, en_Slug x)) ` set (environments (db w))"
    and "audit_row_of ''environment.create'' ''environment'' (en_ID r) (pj_WorkspaceID k) (UserID p) a"
    and "e = (environmentFromRow r)\<lparr>env_WorkspaceID := pj_WorkspaceID k\<rparr>"
    and "db w' = with_audit a (with_environment r (db w))"
proof -
  let ?t = "if strings_TrimSpace typ = [] then defaultEnvType else strings_TrimSpace typ"
  let ?c = "\<lambda>ws. \<lparr>env_ID = [], env_ProjectID = prj, env_WorkspaceID = ws, env_Name = strings_TrimSpace name,
      env_Slug = slugify (strings_TrimSpace name), env_Type = ?t, env_CreatedAt = 0\<rparr>"
  from assms obtain k n x w2 w3 where k: "find (\<lambda>r. pj_ID r = prj) (projects (db w)) = Some k"
    and p: "permitted (db w) p ActionEnvironmentCreate (pj_WorkspaceID k)" and s: "slugify (strings_TrimSpace name) \<noteq> []"
    and t: "validEnvType ?t"
    and ins: "InsertEnvironment (?c (pj_WorkspaceID k)) (w\<lparr>ops := n\<rparr>) = (Inr x, w2)"
    and rec: "audit_Record ''environment.create'' ''environment'' (env_ID x) (pj_WorkspaceID k) (UserID p) w2 = (Inr (), w3)"
    and e: "e = x\<lparr>env_WorkspaceID := pj_WorkspaceID k\<rparr>" and "db w' = db w3"
    by (auto simp: environments_Create_def Let_def map_m_def WorkspaceForProject_def db_GetProjectWorkspaceID_def succ_iff
          split: option.splits)
  from ins obtain r where r: "x = environmentFromRow r" "en_ProjectID r = prj" "en_Name r = strings_TrimSpace name"
      "en_Slug r = slugify (strings_TrimSpace name)" "en_Type r = ?t" "en_ID r \<notin> en_ID ` set (environments (db w))"
      "(prj, en_Slug r) \<notin> (\<lambda>x. (en_ProjectID x, en_Slug x)) ` set (environments (db w))"
      "db w2 = with_environment r (db w)"
    by (auto simp: InsertEnvironment_def db_CreateEnvironment_def map_m_def succ_iff with_environment_def)
  obtain a where "audit_row_of ''environment.create'' ''environment'' (env_ID x) (pj_WorkspaceID k) (UserID p) a"
      "db w3 = with_audit a (db w2)"
    using rec by (rule audit_Record_db)
  with k p s t r e find_Some_mem [OF k] \<open>db w' = db w3\<close> show ?thesis
    by (intro that [of k r a]) (simp_all add: environmentFromRow_def)
qed

lemma servers_serve_changed:
  assumes "servers_serve D p q w = (r, w')" and "db w' \<noteq> db w"
  obtains (server) ws name srv where "servers_Create p ws name w = (Inr srv, w')"
  | (environment) prj name kind e where "environments_Create D p prj name kind w = (Inr e, w')"
  | (delete) i where "servers_Delete D p i w = (Inr (), w')"
proof -
  have "r = Inr ()" using atomicD [OF atomic_servers_serve] assms by (cases r) auto
  note quiet = readonly_db [OF readonly_server_handlers(1)] readonly_db [OF readonly_server_handlers(2)]
    readonly_db [OF readonly_server_handlers(3)] readonly_db [OF readonly_server_handlers(4)]
  from assms \<open>r = Inr ()\<close> that show ?thesis
    by (cases q) (auto simp: servers_serve_def finish_def map_m_def succ_iff dest: quiet)
qed

end
