(* ===== verification/AgentRegistry.thy ===== *)
theory AgentRegistry
  imports Servers
begin

text \<open>
  The module \<^verbatim>\<open>internal/agents\<close>: one-time registration tokens, the exchange of a token for a durable
  credential, heartbeats, and the liveness and readiness derived from them. Random bytes
  (\<open>crypto/rand\<close>) are arguments of the operations that draw them, an error where the source of
  randomness fails. Times and durations are in nanoseconds, as in Go.
\<close>

section \<open>Tokens\<close>

text \<open>\<open>base64.RawURLEncoding\<close>: three bytes become four characters, without padding.\<close>

definition base64url_char :: "nat \<Rightarrow> char" where
  "base64url_char n = (''ABCDEFGHIJKLMNOPQRSTUVWXYZ'' @ ''abcdefghijklmnopqrstuvwxyz'' @ ''0123456789-_'') ! n"

fun base64url_Encode :: "nat list \<Rightarrow> string" where
  "base64url_Encode [] = []"
| "base64url_Encode [a] = [base64url_char (a div 4), base64url_char (a mod 4 * 16)]"
| "base64url_Encode [a, b] =
     [base64url_char (a div 4), base64url_char (a mod 4 * 16 + b div 16), base64url_char (b mod 16 * 4)]"
| "base64url_Encode (a # b # c # bs) =
     [base64url_char (a div 4), base64url_char (a mod 4 * 16 + b div 16), base64url_char (b mod 16 * 4 + c div 64),
      base64url_char (c mod 64)] @ base64url_Encode bs"

definition newPrefixedToken :: "string \<Rightarrow> err + nat list \<Rightarrow> err + (string \<times> nat list)" where
  "newPrefixedToken pre rnd =
     (case rnd of
        Inl e \<Rightarrow> Inl (Wrapped ''agents: read random'' e)
      | Inr b \<Rightarrow> (let raw = pre @ base64url_Encode b in Inr (raw, hashToken raw)))"

definition newRegistrationToken :: "err + nat list \<Rightarrow> err + (string \<times> nat list)" where
  "newRegistrationToken = newPrefixedToken ''plrt_''"

definition newAgentCredential :: "err + nat list \<Rightarrow> err + (string \<times> nat list)" where
  "newAgentCredential = newPrefixedToken ''plag_''"

section \<open>Domain types\<close>

abbreviation time_Second :: int where "time_Second \<equiv> 1000000000"

definition onlineWindow :: int where "onlineWindow = 90 * time_Second"
definition registrationTokenTTL :: int where "registrationTokenTTL = 3600 * time_Second"
definition heartbeatInterval :: int where "heartbeatInterval = 30 * time_Second"

record Agent =
  agt_ID :: string
  agt_ServerID :: string
  agt_WorkspaceID :: string
  agt_AgentVersion :: string
  agt_DockerAvailable :: "bool option"
  agt_DockerVersion :: string
  agt_OS :: string
  agt_Arch :: string
  agt_CaddyAvailable :: "bool option"
  agt_CaddyRunning :: bool
  agt_CaddyVersion :: string
  agt_DiskTotalBytes :: int
  agt_DiskFreeBytes :: int
  agt_MemTotalBytes :: int
  agt_MemAvailableBytes :: int
  agt_CPUCount :: int
  agt_LastSeenAt :: "int option"
  agt_CreatedAt :: int

record RegistrationToken =
  rtk_Raw :: string
  rtk_ServerID :: string
  rtk_ExpiresAt :: int

record RegisterInput =
  rg_RegistrationToken :: string
  rg_PublicKey :: string
  rg_AgentVersion :: string

record Registered =
  rgd_AgentID :: string
  rgd_Credential :: string

record HeartbeatFacts =
  hb_AgentVersion :: string
  hb_DockerAvailable :: "bool option"
  hb_DockerVersion :: string
  hb_OS :: string
  hb_Arch :: string
  hb_CaddyAvailable :: "bool option"
  hb_CaddyRunning :: bool
  hb_CaddyVersion :: string
  hb_DiskTotalBytes :: int
  hb_DiskFreeBytes :: int
  hb_MemTotalBytes :: int
  hb_MemAvailableBytes :: int
  hb_CPUCount :: int

record HeartbeatInput =
  hi_AgentID :: string
  hi_Credential :: string
  hi_Facts :: HeartbeatFacts

section \<open>Liveness and readiness\<close>

abbreviation StatusAwaiting :: string where "StatusAwaiting \<equiv> ''awaiting''"
abbreviation StatusOnline :: string where "StatusOnline \<equiv> ''online''"
abbreviation StatusOffline :: string where "StatusOffline \<equiv> ''offline''"
abbreviation ReadinessReady :: string where "ReadinessReady \<equiv> ''ready''"
abbreviation ReadinessDegraded :: string where "ReadinessDegraded \<equiv> ''degraded''"
abbreviation ReadinessBlocked :: string where "ReadinessBlocked \<equiv> ''blocked''"
abbreviation ReadinessUnknown :: string where "ReadinessUnknown \<equiv> ''unknown''"

definition diskCriticalFreeBytes :: int where "diskCriticalFreeBytes = 2 ^ 30"
definition diskLowFreeBytes :: int where "diskLowFreeBytes = 5 * 2 ^ 30"
definition memLowAvailableBytes :: int where "memLowAvailableBytes = 256 * 2 ^ 20"
definition minSupportedDockerMajor :: int where "minSupportedDockerMajor = 20"

definition Agent_Status :: "Agent \<Rightarrow> int \<Rightarrow> string" where
  "Agent_Status a t =
     (case agt_LastSeenAt a of
        None \<Rightarrow> StatusAwaiting
      | Some seen \<Rightarrow> if t - seen \<le> onlineWindow then StatusOnline else StatusOffline)"

text \<open>\<open>strconv.Atoi\<close>: an optional sign and decimal digits, in the range of \<open>int64\<close>.\<close>

fun digits_int :: "string \<Rightarrow> int \<Rightarrow> int" where
  "digits_int [] acc = acc"
| "digits_int (c # cs) acc = digits_int cs (10 * acc + (int (of_char c) - 48))"

definition strconv_Atoi :: "string \<Rightarrow> int option" where
  "strconv_Atoi s =
     (let neg = (s \<noteq> [] \<and> hd s = CHR ''-''); ds = (if s \<noteq> [] \<and> hd s \<in> {CHR ''-'', CHR ''+''} then tl s else s) in
      if ds = [] \<or> \<not> list_all is_digit ds then None
      else let n = (if neg then - digits_int ds 0 else digits_int ds 0) in
           if - (2 ^ 63) \<le> n \<and> n < 2 ^ 63 then Some n else None)"

definition dockerMajor :: "string \<Rightarrow> int" where
  "dockerMajor v =
     (case strconv_Atoi (takeWhile (\<lambda>c. c \<noteq> CHR ''.'') (strings_TrimSpace v)) of None \<Rightarrow> 0 | Some n \<Rightarrow> n)"

text \<open>\<open>humanBytes\<close>; the \<open>%.1f\<close> of a byte count in GiB rounds to the nearest tenth, ties to even (the
  conversion to \<open>float64\<close> is exact below \<open>2 ^ 53\<close>).\<close>

definition tenths :: "int \<Rightarrow> int" where
  "tenths b =
     (let q = b * 10 div 2 ^ 30; r = b * 10 mod 2 ^ 30 in
      if 2 * r < 2 ^ 30 \<or> (2 * r = 2 ^ 30 \<and> even q) then q else q + 1)"

definition humanBytes :: "int \<Rightarrow> string" where
  "humanBytes b =
     (if b \<ge> 2 ^ 30 then strconv_Itoa (tenths b div 10) @ ''.'' @ strconv_Itoa (tenths b mod 10) @ '' GiB''
      else if b \<ge> 2 ^ 20 then strconv_Itoa (b div 2 ^ 20) @ '' MiB''
      else strconv_Itoa b @ '' bytes'')"

definition Agent_Readiness :: "Agent \<Rightarrow> int \<Rightarrow> bool \<Rightarrow> string \<times> string" where
  "Agent_Readiness a t allowNonLinuxHost =
     (if Agent_Status a t = StatusAwaiting
      then (ReadinessUnknown, ''Waiting for the agent to connect. Run the install command on the server.'')
      else if Agent_Status a t = StatusOffline
      then (ReadinessUnknown, ''Agent offline '' @ em_dash @ '' no heartbeat in over 90 seconds. Check the machine is on and the plorigo-agent service is running.'')
      else if \<not> allowNonLinuxHost \<and> agt_OS a \<noteq> [] \<and> agt_OS a \<noteq> ''linux''
      then (ReadinessBlocked, ''Unsupported host OS '' @ fmt_q (agt_OS a) @ '' '' @ em_dash @ '' Plorigo deploys to Linux servers.'')
      else if agt_DockerAvailable a = Some False
      then (ReadinessBlocked, ''Docker isn't reachable on this server. Install or start Docker; the agent recovers automatically once it's running.'')
      else if agt_CPUCount a > 0 \<and> agt_CaddyAvailable a = Some False
      then (ReadinessBlocked, ''Caddy isn't installed, so the server can't route traffic to your apps. Re-run setup to install it.'')
      else if agt_CPUCount a > 0 \<and> agt_CaddyAvailable a = Some True \<and> \<not> agt_CaddyRunning a
      then (ReadinessBlocked, ''Caddy isn't running '' @ em_dash @ '' it may be stopped or unable to bind ports 80/443 (often another process is using them). The agent recovers it automatically; free the ports and it returns.'')
      else if agt_CPUCount a > 0 \<and> agt_DiskTotalBytes a > 0 \<and> agt_DiskFreeBytes a < diskCriticalFreeBytes
      then (ReadinessBlocked, ''Almost no disk space left ('' @ humanBytes (agt_DiskFreeBytes a) @ '' free). Free space before deploying.'')
      else if agt_DockerAvailable a = None
      then (ReadinessDegraded, ''Compatibility checks pending '' @ em_dash @ '' update the agent to the latest version so it reports Docker and host readiness.'')
      else if dockerMajor (agt_DockerVersion a) > 0 \<and> dockerMajor (agt_DockerVersion a) < minSupportedDockerMajor
      then (ReadinessDegraded, ''Docker '' @ agt_DockerVersion a @ '' is old; update it for reliable BuildKit builds.'')
      else if agt_CPUCount a > 0 \<and> agt_DiskTotalBytes a > 0 \<and> agt_DiskFreeBytes a < diskLowFreeBytes
      then (ReadinessDegraded, ''Low disk space ('' @ humanBytes (agt_DiskFreeBytes a) @ '' free). Deployments may fail once it runs out.'')
      else if agt_CPUCount a > 0 \<and> agt_MemTotalBytes a > 0 \<and> agt_MemAvailableBytes a < memLowAvailableBytes
      then (ReadinessDegraded, ''Low free memory ('' @ humanBytes (agt_MemAvailableBytes a) @ '' available). Builds or containers may be killed under load.'')
      else (ReadinessReady, []))"

section \<open>Queries\<close>

definition db_CreateAgentRegistrationToken ::
    "string \<Rightarrow> string \<Rightarrow> nat list \<Rightarrow> string \<Rightarrow> int \<Rightarrow> AgentRegistrationToken_row m" where
  "db_CreateAgentRegistrationToken serverID workspaceID tokenHash createdBy expiresAt =
     insert_unique
       (\<lambda>w. \<lparr>tk_ID = fresh_uuid w, tk_ServerID = serverID, tk_WorkspaceID = workspaceID, tk_TokenHash = tokenHash,
             tk_CreatedBy = createdBy, tk_CreatedAt = now w, tk_ExpiresAt = expiresAt, tk_ConsumedAt = None\<rparr>)
       (\<lambda>_. True)
       (\<lambda>d r. tk_ID r \<notin> tk_ID ` set (agent_registration_tokens d) \<and>
              tk_TokenHash r \<notin> tk_TokenHash ` set (agent_registration_tokens d))
       (\<lambda>d r. tk_ServerID r \<in> sv_ID ` set (servers d) \<and> tk_WorkspaceID r \<in> wk_ID ` set (workspaces d) \<and>
              tk_CreatedBy r \<in> us_ID ` set (users d))
       (\<lambda>r d. d\<lparr>agent_registration_tokens := agent_registration_tokens d @ [r]\<rparr>)"

definition redeemable :: "nat list \<Rightarrow> int \<Rightarrow> AgentRegistrationToken_row \<Rightarrow> bool" where
  "redeemable h t r \<longleftrightarrow> tk_TokenHash r = h \<and> tk_ConsumedAt r = None \<and> tk_ExpiresAt r > t"

definition db_ConsumeAgentRegistrationToken :: "nat list \<Rightarrow> AgentRegistrationToken_row m" where
  "db_ConsumeAgentRegistrationToken tokenHash =
     update_one (\<lambda>_. True) (\<lambda>w d.
       let f = (\<lambda>r. r\<lparr>tk_ConsumedAt := Some (now w)\<rparr>) in
       map_option (\<lambda>r. (f r, d\<lparr>agent_registration_tokens :=
           update_where (redeemable tokenHash (now w)) f (agent_registration_tokens d)\<rparr>))
         (find (redeemable tokenHash (now w)) (agent_registration_tokens d)))"

definition apply_heartbeat :: "HeartbeatFacts \<Rightarrow> int \<Rightarrow> Agent_row \<Rightarrow> Agent_row" where
  "apply_heartbeat h t r =
     r\<lparr>ag_LastSeenAt := Some t, ag_AgentVersion := hb_AgentVersion h, ag_DockerAvailable := hb_DockerAvailable h,
       ag_DockerVersion := hb_DockerVersion h, ag_Os := hb_OS h, ag_Arch := hb_Arch h,
       ag_CaddyAvailable := hb_CaddyAvailable h, ag_CaddyRunning := hb_CaddyRunning h, ag_CaddyVersion := hb_CaddyVersion h,
       ag_DiskTotalBytes := hb_DiskTotalBytes h, ag_DiskFreeBytes := hb_DiskFreeBytes h,
       ag_MemTotalBytes := hb_MemTotalBytes h, ag_MemAvailableBytes := hb_MemAvailableBytes h,
       ag_CpuCount := hb_CPUCount h\<rparr>"

definition db_HeartbeatAgent :: "nat list \<Rightarrow> HeartbeatFacts \<Rightarrow> Agent_row m" where
  "db_HeartbeatAgent credentialHash h =
     update_one (\<lambda>_. True) (\<lambda>w d.
       map_option (\<lambda>r. (apply_heartbeat h (now w) r, d\<lparr>agents :=
           update_where (\<lambda>r. ag_CredentialHash r = credentialHash) (apply_heartbeat h (now w)) (agents d)\<rparr>))
         (find (\<lambda>r. ag_CredentialHash r = credentialHash) (agents d)))"

definition db_ListAgentsByWorkspace :: "string \<Rightarrow> Agent_row list m" where
  "db_ListAgentsByWorkspace ws =
     select_many (\<lambda>d. sort_key (\<lambda>r. - ag_CreatedAt r) (filter (\<lambda>r. ag_WorkspaceID r = ws) (agents d)))"

text \<open>\<open>INSERT ... ON CONFLICT (server_id) DO UPDATE\<close>: the row of a server that already has an agent keeps
  its identifier, and every column that the statement does not name.\<close>

definition reregister :: "string \<Rightarrow> nat list \<Rightarrow> string \<Rightarrow> Agent_row \<Rightarrow> Agent_row" where
  "reregister publicKey credentialHash version r =
     r\<lparr>ag_PublicKey := publicKey, ag_CredentialHash := credentialHash, ag_AgentVersion := version,
       ag_LastSeenAt := None, ag_DockerAvailable := None, ag_DockerVersion := [], ag_Os := [], ag_Arch := []\<rparr>"

definition fresh_agent :: "world \<Rightarrow> string \<Rightarrow> string \<Rightarrow> string \<Rightarrow> nat list \<Rightarrow> string \<Rightarrow> Agent_row" where
  "fresh_agent w serverID workspaceID publicKey credentialHash version =
     \<lparr>ag_ID = fresh_uuid w, ag_ServerID = serverID, ag_WorkspaceID = workspaceID, ag_PublicKey = publicKey,
      ag_CredentialHash = credentialHash, ag_AgentVersion = version, ag_LastSeenAt = None, ag_CreatedAt = now w,
      ag_DockerAvailable = None, ag_DockerVersion = [], ag_Os = [], ag_Arch = [], ag_CaddyAvailable = None,
      ag_CaddyRunning = False, ag_CaddyVersion = [], ag_DiskTotalBytes = 0, ag_DiskFreeBytes = 0,
      ag_MemTotalBytes = 0, ag_MemAvailableBytes = 0, ag_CpuCount = 0\<rparr>"

definition db_UpsertAgent :: "string \<Rightarrow> string \<Rightarrow> string \<Rightarrow> nat list \<Rightarrow> string \<Rightarrow> Agent_row m" where
  "db_UpsertAgent serverID workspaceID publicKey credentialHash version =
     write_one (\<lambda>w d.
       if credentialHash \<in> ag_CredentialHash ` set (filter (\<lambda>r. ag_ServerID r \<noteq> serverID) (agents d))
       then Inl UniqueViolation
       else case find (\<lambda>r. ag_ServerID r = serverID) (agents d) of
              Some r \<Rightarrow>
                (let f = reregister publicKey credentialHash version in
                 Inr (f r, d\<lparr>agents := update_where (\<lambda>r. ag_ServerID r = serverID) f (agents d)\<rparr>))
            | None \<Rightarrow>
                (let r = fresh_agent w serverID workspaceID publicKey credentialHash version in
                 if ag_ID r \<in> ag_ID ` set (agents d) then Inl UniqueViolation
                 else if serverID \<notin> sv_ID ` set (servers d) \<or> workspaceID \<notin> wk_ID ` set (workspaces d)
                 then Inl (Opaque ''constraint violation'')
                 else Inr (r, d\<lparr>agents := agents d @ [r]\<rparr>)))"

section \<open>The repository\<close>

definition agentFromRow :: "Agent_row \<Rightarrow> Agent" where
  "agentFromRow r =
     \<lparr>agt_ID = ag_ID r, agt_ServerID = ag_ServerID r, agt_WorkspaceID = ag_WorkspaceID r,
      agt_AgentVersion = ag_AgentVersion r, agt_DockerAvailable = ag_DockerAvailable r,
      agt_DockerVersion = ag_DockerVersion r, agt_OS = ag_Os r, agt_Arch = ag_Arch r,
      agt_CaddyAvailable = ag_CaddyAvailable r, agt_CaddyRunning = ag_CaddyRunning r,
      agt_CaddyVersion = ag_CaddyVersion r, agt_DiskTotalBytes = ag_DiskTotalBytes r,
      agt_DiskFreeBytes = ag_DiskFreeBytes r, agt_MemTotalBytes = ag_MemTotalBytes r,
      agt_MemAvailableBytes = ag_MemAvailableBytes r, agt_CPUCount = ag_CpuCount r,
      agt_LastSeenAt = ag_LastSeenAt r, agt_CreatedAt = ag_CreatedAt r\<rparr>"

text \<open>\<open>UpsertAgent\<close> reads back fewer columns.\<close>

definition agentFromUpsertRow :: "Agent_row \<Rightarrow> Agent" where
  "agentFromUpsertRow r =
     (agentFromRow r)\<lparr>agt_CaddyAvailable := None, agt_CaddyRunning := False, agt_CaddyVersion := [],
        agt_DiskTotalBytes := 0, agt_DiskFreeBytes := 0, agt_MemTotalBytes := 0, agt_MemAvailableBytes := 0,
        agt_CPUCount := 0\<rparr>"

definition InsertRegistrationToken :: "string \<Rightarrow> string \<Rightarrow> nat list \<Rightarrow> string \<Rightarrow> int \<Rightarrow> unit m" where
  "InsertRegistrationToken serverID workspaceID tokenHash createdBy expiresAt =
     map_m (\<lambda>_. ()) (db_CreateAgentRegistrationToken serverID workspaceID tokenHash createdBy expiresAt)"

definition ConsumeRegistrationToken :: "nat list \<Rightarrow> (string \<times> string) option m" where
  "ConsumeRegistrationToken tokenHash =
     absent_ok (map_m (\<lambda>r. (tk_ServerID r, tk_WorkspaceID r)) (db_ConsumeAgentRegistrationToken tokenHash))"

definition UpsertAgent :: "string \<Rightarrow> string \<Rightarrow> string \<Rightarrow> nat list \<Rightarrow> string \<Rightarrow> Agent m" where
  "UpsertAgent serverID workspaceID publicKey credentialHash version =
     map_m agentFromUpsertRow (db_UpsertAgent serverID workspaceID publicKey credentialHash version)"

definition store_Heartbeat :: "nat list \<Rightarrow> HeartbeatFacts \<Rightarrow> Agent option m" where
  "store_Heartbeat credentialHash h = absent_ok (map_m agentFromRow (db_HeartbeatAgent credentialHash h))"

definition store_ListAgents :: "string \<Rightarrow> Agent list m" where
  "store_ListAgents ws = map_m (map agentFromRow) (db_ListAgentsByWorkspace ws)"

section \<open>The service\<close>

definition CreateRegistrationToken :: "deps \<Rightarrow> err + nat list \<Rightarrow> Principal \<Rightarrow> string \<Rightarrow> RegistrationToken m" where
  "CreateRegistrationToken D rnd caller serverID =
     check (id_Parse D serverID) (InvalidInput ''a valid server_id is required'')
    (bind (map_err (Internalf ''create registration token'') (WorkspaceForServer serverID)) (\<lambda>found.
     case found of
       None \<Rightarrow> fail (NotFound (''server '' @ serverID @ '' not found''))
     | Some workspaceID \<Rightarrow>
         bind (Authorize caller ActionAgentCreate \<lparr>res_Type = ''agent'', res_WorkspaceID = workspaceID, res_ID = serverID\<rparr>) (\<lambda>_.
         bind (map_err (Internalf ''create registration token'') (lift (newRegistrationToken rnd))) (\<lambda>(raw, hash) w.
         let expiresAt = now w + registrationTokenTTL in
         bind (map_err (Internalf ''create registration token'')
                (WithinTx
                  (bind (InsertRegistrationToken serverID workspaceID hash (UserID caller) expiresAt) (\<lambda>_.
                   audit_Record ''agent.registration_token.create'' ''server'' serverID workspaceID (UserID caller)))))
           (\<lambda>_. ret \<lparr>rtk_Raw = raw, rtk_ServerID = serverID, rtk_ExpiresAt = expiresAt\<rparr>) w))))"

definition agents_ListByWorkspace :: "Principal \<Rightarrow> string \<Rightarrow> Agent list m" where
  "agents_ListByWorkspace caller workspaceID =
     check (workspaceID \<noteq> []) (InvalidInput ''workspace_id is required'')
    (bind (Authorize caller ActionAgentRead (resource_in ''agent'' workspaceID)) (\<lambda>_. store_ListAgents workspaceID))"

definition agents_Register :: "err + nat list \<Rightarrow> RegisterInput \<Rightarrow> Registered m" where
  "agents_Register rnd inp =
     check (rg_RegistrationToken inp \<noteq> []) (InvalidInput ''a registration token is required'')
    (check (length (rg_PublicKey inp) = 32) (InvalidInput ''a valid ed25519 public key is required'')
    (bind (map_err (Internalf ''register agent'') (lift (newAgentCredential rnd))) (\<lambda>(credential, credHash).
     bind (map_err (mapErr ''register agent'')
            (WithinTx
              (bind (ConsumeRegistrationToken (hashToken (rg_RegistrationToken inp))) (\<lambda>found.
               case found of
                 None \<Rightarrow> fail (PermissionDenied ''registration token is invalid or expired'')
               | Some (serverID, workspaceID) \<Rightarrow>
                   bind (UpsertAgent serverID workspaceID (rg_PublicKey inp) credHash (rg_AgentVersion inp)) (\<lambda>agent.
                   bind (audit_Record ''agent.register'' ''agent'' (agt_ID agent) (agt_WorkspaceID agent)
                           (''agent:'' @ agt_ID agent)) (\<lambda>_. ret agent))))))
       (\<lambda>agent. ret \<lparr>rgd_AgentID = agt_ID agent, rgd_Credential = credential\<rparr>))))"

definition agents_Heartbeat :: "HeartbeatInput \<Rightarrow> int m" where
  "agents_Heartbeat inp =
     check (hi_Credential inp \<noteq> []) (InvalidInput ''a credential is required'')
    (bind (map_err (Internalf ''heartbeat'') (store_Heartbeat (hashToken (hi_Credential inp)) (hi_Facts inp))) (\<lambda>found.
     case found of
       None \<Rightarrow> fail (PermissionDenied ''unknown agent credential'')
     | Some _ \<Rightarrow> ret heartbeatInterval))"

section \<open>Requests\<close>

datatype agents_request =
    CreateTokenReq "err + nat list" Principal string
  | ListAgentsReq Principal string
  | RegisterReq "err + nat list" RegisterInput
  | HeartbeatReq HeartbeatInput

definition agents_serve :: "deps \<Rightarrow> agents_request \<Rightarrow> unit m" where
  "agents_serve D q =
     (case q of
        CreateTokenReq rnd p i \<Rightarrow> finish (CreateRegistrationToken D rnd p i)
      | ListAgentsReq p ws \<Rightarrow> finish (agents_ListByWorkspace p ws)
      | RegisterReq rnd inp \<Rightarrow> finish (agents_Register rnd inp)
      | HeartbeatReq inp \<Rightarrow> finish (agents_Heartbeat inp))"

section \<open>What each operation does\<close>

lemma readonly_agents_ListByWorkspace: "readonly (agents_ListByWorkspace p ws)"
  unfolding agents_ListByWorkspace_def store_ListAgents_def db_ListAgentsByWorkspace_def
  by (intro readonly_intros)

definition with_token :: "AgentRegistrationToken_row \<Rightarrow> database \<Rightarrow> database" where
  "with_token t d = d\<lparr>agent_registration_tokens := agent_registration_tokens d @ [t]\<rparr>"

lemma CreateRegistrationToken_run:
  assumes "CreateRegistrationToken D rnd p i w = (Inr tok, w')"
  obtains srv bs t a where "srv \<in> set (servers (db w))" "sv_ID srv = i" "permitted (db w) p ActionAgentCreate (sv_WorkspaceID srv)"
    and "rnd = Inr bs" "rtk_Raw tok = ''plrt_'' @ base64url_Encode bs" "rtk_ExpiresAt tok = now w + registrationTokenTTL"
    and "tk_ServerID t = i" "tk_WorkspaceID t = sv_WorkspaceID srv" "tk_TokenHash t = hashToken (rtk_Raw tok)"
    and "tk_TokenHash t \<notin> tk_TokenHash ` set (agent_registration_tokens (db w))"
    and "tk_ExpiresAt t = rtk_ExpiresAt tok" "tk_ConsumedAt t = None"
    and "audit_row_of ''agent.registration_token.create'' ''server'' i (sv_WorkspaceID srv) (UserID p) a"
    and "db w' = with_audit a (with_token t (db w))"
proof -
  from assms obtain srv bs n w2 w3 where srv: "find (\<lambda>r. sv_ID r = i) (servers (db w)) = Some srv"
    and p: "permitted (db w) p ActionAgentCreate (sv_WorkspaceID srv)" and rnd: "rnd = Inr bs"
    and tok: "tok = \<lparr>rtk_Raw = ''plrt_'' @ base64url_Encode bs, rtk_ServerID = i, rtk_ExpiresAt = now w + registrationTokenTTL\<rparr>"
    and ins: "InsertRegistrationToken i (sv_WorkspaceID srv) (hashToken (''plrt_'' @ base64url_Encode bs)) (UserID p)
        (now w + registrationTokenTTL) (w\<lparr>ops := n\<rparr>) = (Inr (), w2)"
    and rec: "audit_Record ''agent.registration_token.create'' ''server'' i (sv_WorkspaceID srv) (UserID p) w2 = (Inr (), w3)"
    and "db w' = db w3"
    by (auto simp: CreateRegistrationToken_def newRegistrationToken_def newPrefixedToken_def Let_def WorkspaceForServer_def
          db_GetServerWorkspace_def succ_iff split: option.splits sum.splits)
  define t where "t = \<lparr>tk_ID = fresh_uuid w, tk_ServerID = i, tk_WorkspaceID = sv_WorkspaceID srv, tk_TokenHash = hashToken (rtk_Raw tok),
      tk_CreatedBy = UserID p, tk_CreatedAt = now w, tk_ExpiresAt = rtk_ExpiresAt tok, tk_ConsumedAt = None\<rparr>"
  from ins have ins': "tk_TokenHash t \<notin> tk_TokenHash ` set (agent_registration_tokens (db w))" "db w2 = with_token t (db w)"
    by (auto simp: InsertRegistrationToken_def db_CreateAgentRegistrationToken_def map_m_def succ_iff with_token_def tok t_def
          fresh_uuid_def)
  have t: "tk_ServerID t = i" "tk_WorkspaceID t = sv_WorkspaceID srv" "tk_TokenHash t = hashToken (rtk_Raw tok)"
      "tk_ExpiresAt t = rtk_ExpiresAt tok" "tk_ConsumedAt t = None"
    by (simp_all add: t_def)
  obtain a where "audit_row_of ''agent.registration_token.create'' ''server'' i (sv_WorkspaceID srv) (UserID p) a"
      "db w3 = with_audit a (db w2)"
    using rec by (rule audit_Record_db)
  with p rnd t ins' find_Some_mem [OF srv] \<open>db w' = db w3\<close> show ?thesis by (intro that [of srv bs t a]) (simp_all add: tok)
qed

definition spend :: "nat list \<Rightarrow> int \<Rightarrow> AgentRegistrationToken_row list \<Rightarrow> AgentRegistrationToken_row list" where
  "spend h t = update_where (redeemable h t) (\<lambda>r. r\<lparr>tk_ConsumedAt := Some t\<rparr>)"

lemma ConsumeRegistrationToken_Some:
  assumes "ConsumeRegistrationToken h w = (Inr (Some (s, ws)), w')"
  obtains t where "find (redeemable h (now w)) (agent_registration_tokens (db w)) = Some t" "s = tk_ServerID t" "ws = tk_WorkspaceID t"
    and "db w' = (db w)\<lparr>agent_registration_tokens := spend h (now w) (agent_registration_tokens (db w))\<rparr>" "now w' = now w"
proof -
  from assms obtain t where "find (redeemable h (now w)) (agent_registration_tokens (db w)) = Some t" "s = tk_ServerID t"
      "ws = tk_WorkspaceID t" "db w' = (db w)\<lparr>agent_registration_tokens := spend h (now w) (agent_registration_tokens (db w))\<rparr>"
      "now w' = now w"
    by (auto simp: ConsumeRegistrationToken_def map_m_def absent_ok_def catch_def bind_def db_ConsumeAgentRegistrationToken_def
          update_one_def query_def Let_def spend_def split: if_splits sum.splits prod.splits option.splits)
  then show ?thesis by (rule that)
qed

text \<open>The agents table after a registration, and the row that speaks for the server from then on.\<close>

definition enrolled :: "Agent_row list \<Rightarrow> Agent_row \<Rightarrow> Agent_row list \<Rightarrow> bool" where
  "enrolled as r as' \<longleftrightarrow>
     (\<exists>old \<in> set as. ag_ServerID old = ag_ServerID r \<and> ag_ID old = ag_ID r \<and> ag_WorkspaceID old = ag_WorkspaceID r \<and>
        as' = update_where (\<lambda>x. ag_ServerID x = ag_ServerID r)
          (reregister (ag_PublicKey r) (ag_CredentialHash r) (ag_AgentVersion r)) as \<and>
        r = reregister (ag_PublicKey r) (ag_CredentialHash r) (ag_AgentVersion r) old) \<or>
     ag_ServerID r \<notin> ag_ServerID ` set as \<and> ag_ID r \<notin> ag_ID ` set as \<and> as' = as @ [r]"

lemma UpsertAgent_run:
  assumes "UpsertAgent s ws pk ch v w = (Inr x, w')"
  obtains r where "agt_ID x = ag_ID r" "agt_WorkspaceID x = ag_WorkspaceID r" "ag_ServerID r = s" "ag_CredentialHash r = ch" "ag_PublicKey r = pk"
    and "ag_LastSeenAt r = None" "enrolled (agents (db w)) r (agents (db w'))"
    and "ch \<notin> ag_CredentialHash ` set (filter (\<lambda>r. ag_ServerID r \<noteq> s) (agents (db w)))"
    and "ag_WorkspaceID r = ws \<or> (\<exists>old \<in> set (agents (db w)). ag_ServerID old = s \<and> ag_WorkspaceID old = ag_WorkspaceID r)"
    and "db w' = (db w)\<lparr>agents := agents (db w')\<rparr>"
proof -
  from assms obtain r n d where up: "x = agentFromUpsertRow r"
    and new: "ch \<notin> ag_CredentialHash ` set (filter (\<lambda>r. ag_ServerID r \<noteq> s) (agents (db w)))"
    and w': "db w' = d" and
    cases: "(\<exists>old. find (\<lambda>r. ag_ServerID r = s) (agents (db w)) = Some old \<and> r = reregister pk ch v old \<and>
        d = (db w)\<lparr>agents := update_where (\<lambda>r. ag_ServerID r = s) (reregister pk ch v) (agents (db w))\<rparr>) \<or>
      find (\<lambda>r. ag_ServerID r = s) (agents (db w)) = None \<and> r = fresh_agent (w\<lparr>ops := n\<rparr>) s ws pk ch v \<and>
        ag_ID r \<notin> ag_ID ` set (agents (db w)) \<and> d = (db w)\<lparr>agents := agents (db w) @ [r]\<rparr>"
    by (auto simp: UpsertAgent_def db_UpsertAgent_def map_m_def succ_iff Let_def split: if_splits option.splits)
  from cases show ?thesis
  proof (elim disjE exE conjE)
    fix old
    assume old: "find (\<lambda>r. ag_ServerID r = s) (agents (db w)) = Some old" and r: "r = reregister pk ch v old"
      and d: "d = (db w)\<lparr>agents := update_where (\<lambda>r. ag_ServerID r = s) (reregister pk ch v) (agents (db w))\<rparr>"
    from find_Some_mem [OF old] have m: "old \<in> set (agents (db w))" "ag_ServerID old = s" by simp_all
    have "enrolled (agents (db w)) r (agents (db w'))"
      unfolding enrolled_def by (intro disjI1 bexI [of _ old]) (simp_all add: w' d r m reregister_def)
    with m new show ?thesis
      by (intro that [of r]) (auto simp: up r w' d agentFromUpsertRow_def agentFromRow_def reregister_def)
  next
    assume no: "find (\<lambda>r. ag_ServerID r = s) (agents (db w)) = None" and r: "r = fresh_agent (w\<lparr>ops := n\<rparr>) s ws pk ch v"
      and i: "ag_ID r \<notin> ag_ID ` set (agents (db w))" and d: "d = (db w)\<lparr>agents := agents (db w) @ [r]\<rparr>"
    from no have "s \<notin> ag_ServerID ` set (agents (db w))" by (auto simp: find_None_iff)
    with i have "enrolled (agents (db w)) r (agents (db w'))"
      unfolding enrolled_def by (intro disjI2) (simp_all add: w' d r fresh_agent_def)
    with new show ?thesis
      by (intro that [of r]) (auto simp: up r w' d agentFromUpsertRow_def agentFromRow_def fresh_agent_def)
  qed
qed

lemma agents_Register_run:
  assumes "agents_Register rnd inp w = (Inr reg, w')"
  obtains bs t r a where "rnd = Inr bs" "rgd_Credential reg = ''plag_'' @ base64url_Encode bs"
    and "find (redeemable (hashToken (rg_RegistrationToken inp)) (now w)) (agent_registration_tokens (db w)) = Some t"
    and "rgd_AgentID reg = ag_ID r" "ag_ServerID r = tk_ServerID t" "ag_CredentialHash r = hashToken (rgd_Credential reg)"
    and "ag_LastSeenAt r = None" "enrolled (agents (db w)) r (agents (db w'))"
    and "ag_CredentialHash r \<notin> ag_CredentialHash ` set (filter (\<lambda>x. ag_ServerID x \<noteq> ag_ServerID r) (agents (db w)))"
    and "ag_WorkspaceID r = tk_WorkspaceID t \<or>
         (\<exists>old \<in> set (agents (db w)). ag_ServerID old = ag_ServerID r \<and> ag_WorkspaceID old = ag_WorkspaceID r)"
    and "audit_row_of ''agent.register'' ''agent'' (ag_ID r) (ag_WorkspaceID r) (''agent:'' @ ag_ID r) a"
    and "db w' = with_audit a ((db w)\<lparr>
           agent_registration_tokens := spend (hashToken (rg_RegistrationToken inp)) (now w) (agent_registration_tokens (db w)),
           agents := agents (db w')\<rparr>)"
proof -
  let ?h = "hashToken (rg_RegistrationToken inp)"
  from assms obtain bs s ws x n w1 w2 w3 where rnd: "rnd = Inr bs"
    and reg: "reg = \<lparr>rgd_AgentID = agt_ID x, rgd_Credential = ''plag_'' @ base64url_Encode bs\<rparr>"
    and con: "ConsumeRegistrationToken ?h (w\<lparr>ops := n\<rparr>) = (Inr (Some (s, ws)), w1)"
    and up: "UpsertAgent s ws (rg_PublicKey inp) (hashToken (''plag_'' @ base64url_Encode bs)) (rg_AgentVersion inp) w1 = (Inr x, w2)"
    and rec: "audit_Record ''agent.register'' ''agent'' (agt_ID x) (agt_WorkspaceID x) (''agent:'' @ agt_ID x) w2 = (Inr (), w3)"
    and "db w' = db w3"
    by (auto simp: agents_Register_def newAgentCredential_def newPrefixedToken_def Let_def succ_iff split: option.splits sum.splits)
  obtain t where t: "find (redeemable ?h (now w)) (agent_registration_tokens (db w)) = Some t" "s = tk_ServerID t" "ws = tk_WorkspaceID t"
      "db w1 = (db w)\<lparr>agent_registration_tokens := spend ?h (now w) (agent_registration_tokens (db w))\<rparr>"
    using con by (rule ConsumeRegistrationToken_Some) simp
  obtain r where r: "agt_ID x = ag_ID r" "agt_WorkspaceID x = ag_WorkspaceID r" "ag_ServerID r = s"
      "ag_CredentialHash r = hashToken (''plag_'' @ base64url_Encode bs)"
      "ag_LastSeenAt r = None" "enrolled (agents (db w1)) r (agents (db w2))"
      "hashToken (''plag_'' @ base64url_Encode bs) \<notin> ag_CredentialHash ` set (filter (\<lambda>r. ag_ServerID r \<noteq> s) (agents (db w1)))"
      "ag_WorkspaceID r = ws \<or> (\<exists>old \<in> set (agents (db w1)). ag_ServerID old = s \<and> ag_WorkspaceID old = ag_WorkspaceID r)"
      "db w2 = (db w1)\<lparr>agents := agents (db w2)\<rparr>"
    using up by (rule UpsertAgent_run)
  obtain a where a: "audit_row_of ''agent.register'' ''agent'' (agt_ID x) (agt_WorkspaceID x) (''agent:'' @ agt_ID x) a" "db w3 = with_audit a (db w2)"
    using rec by (rule audit_Record_db)
  have as: "agents (db w') = agents (db w2)" "agents (db w1) = agents (db w)"
    using a(2) t(4) \<open>db w' = db w3\<close> by (simp_all add: with_audit_def)
  have "db w2 = (db w)\<lparr>agent_registration_tokens := spend ?h (now w) (agent_registration_tokens (db w)), agents := agents (db w')\<rparr>"
    using r(9) t(4) as by simp
  with a t(1-3) r(1-8) rnd reg as \<open>db w' = db w3\<close> show ?thesis by (intro that [of bs t r a]) simp_all
qed

lemma store_Heartbeat_db:
  assumes "store_Heartbeat h f w = (x, w')"
  shows "db w' = db w \<or>
    (\<exists>y. x = Inr (Some y)) \<and> db w' = (db w)\<lparr>agents := update_where (\<lambda>r. ag_CredentialHash r = h) (apply_heartbeat f (now w)) (agents (db w))\<rparr>"
  using assms
  by (auto simp: store_Heartbeat_def map_m_def absent_ok_def catch_def bind_def db_HeartbeatAgent_def update_one_def query_def Let_def
        split: if_splits sum.splits prod.splits option.splits)

lemma agents_Heartbeat_db:
  assumes "agents_Heartbeat inp w = (x, w')"
  shows "db w' = db w \<or>
    (\<exists>y. x = Inr y) \<and> db w' = (db w)\<lparr>agents := update_where (\<lambda>r. ag_CredentialHash r = hashToken (hi_Credential inp))
      (apply_heartbeat (hi_Facts inp) (now w)) (agents (db w))\<rparr>"
proof (cases "store_Heartbeat (hashToken (hi_Credential inp)) (hi_Facts inp) w")
  case (Pair y w1)
  then show ?thesis
    using assms store_Heartbeat_db [OF Pair]
    by (auto simp: agents_Heartbeat_def check_def bind_def map_err_def split: if_splits sum.splits option.splits)
qed

lemma atomic_agent_handlers:
  "atomic (CreateRegistrationToken D rnd p i)" "atomic (agents_Register rnd inp)" "atomic (agents_Heartbeat hi)"
proof -
  have tx: "atomic (\<lambda>w. bind (map_err f (WithinTx (c w))) (\<lambda>x. ret (g w x)) w)" for f c and g :: "world \<Rightarrow> 'a \<Rightarrow> RegistrationToken"
    by (rule atomicI) (erule atomicD [OF atomic_bind_ret [OF atomic_map_err [OF atomic_WithinTx]]])
  show "atomic (CreateRegistrationToken D rnd p i)"
    unfolding CreateRegistrationToken_def Let_def
    by (auto intro!: atomic_rules atomic_read_bind readonly_Authorize readonly_store reads.obeys_rules tx split: option.split)
  show "atomic (agents_Register rnd inp)"
    unfolding agents_Register_def by (auto intro!: atomic_rules atomic_read_bind reads.obeys_rules)
  show "atomic (agents_Heartbeat hi)"
    using agents_Heartbeat_db by (metis Inl_Inr_False atomicI)
qed

lemma atomic_agents_serve: "atomic (agents_serve D q)"
  by (cases q)
     (simp_all add: agents_serve_def atomic_finish atomic_agent_handlers atomic_readonly readonly_agents_ListByWorkspace)

section \<open>The registry as an abstract key ring\<close>

text \<open>What the module promises, over two finite maps: each token (by its hash) with its server, expiry and
  whether it is spent, and each credential (by its hash) with the agent and the server it opens.\<close>

record registry =
  token_of :: "nat list \<rightharpoonup> string \<times> int \<times> bool"
  holder_of :: "nat list \<rightharpoonup> string \<times> string"

definition mint :: "nat list \<Rightarrow> string \<Rightarrow> int \<Rightarrow> registry \<Rightarrow> registry" where
  "mint h s t R = R\<lparr>token_of := (token_of R)(h \<mapsto> (s, t + registrationTokenTTL, False))\<rparr>"

text \<open>Redeeming a token spends it and makes the new credential the only one that opens its server.\<close>

definition redeem :: "nat list \<Rightarrow> nat list \<Rightarrow> string \<Rightarrow> registry \<Rightarrow> registry" where
  "redeem h c i R =
     (case token_of R h of
        None \<Rightarrow> R
      | Some (s, e, _) \<Rightarrow>
          R\<lparr>token_of := (token_of R)(h \<mapsto> (s, e, True)),
            holder_of := (\<lambda>x. if x = c then Some (i, s)
              else case holder_of R x of None \<Rightarrow> None | Some (j, s') \<Rightarrow> if s' = s then None else Some (j, s'))\<rparr>)"

definition token_map :: "AgentRegistrationToken_row list \<Rightarrow> nat list \<rightharpoonup> string \<times> int \<times> bool" where
  "token_map ts h =
     map_option (\<lambda>t. (tk_ServerID t, tk_ExpiresAt t, tk_ConsumedAt t \<noteq> None)) (find (\<lambda>t. tk_TokenHash t = h) ts)"

definition holder_map :: "Agent_row list \<Rightarrow> nat list \<rightharpoonup> string \<times> string" where
  "holder_map as h = map_option (\<lambda>a. (ag_ID a, ag_ServerID a)) (find (\<lambda>a. ag_CredentialHash a = h) as)"

definition abs_registry :: "database \<Rightarrow> registry" where
  "abs_registry d = \<lparr>token_of = token_map (agent_registration_tokens d), holder_of = holder_map (agents d)\<rparr>"

definition agents_wf :: "database \<Rightarrow> bool" where
  "agents_wf d \<longleftrightarrow>
     distinct (map ag_ServerID (agents d)) \<and> distinct (map ag_CredentialHash (agents d)) \<and>
     distinct (map tk_TokenHash (agent_registration_tokens d)) \<and>
     (\<forall>r \<in> set (agents d). (ag_ServerID r, ag_WorkspaceID r) \<in> set (server_keys d)) \<and>
     (\<forall>t \<in> set (agent_registration_tokens d). (tk_ServerID t, tk_WorkspaceID t) \<in> set (server_keys d))"

lemma token_map_spend:
  assumes "distinct (map tk_TokenHash ts)" and "find (redeemable h n) ts = Some t"
  shows "token_map (spend h n ts) = (token_map ts)(h \<mapsto> (tk_ServerID t, tk_ExpiresAt t, True))"
    and "token_map ts h = Some (tk_ServerID t, tk_ExpiresAt t, False)"
proof -
  from find_Some_mem [OF assms(2)] have t: "t \<in> set ts" "redeemable h n t" by auto
  with find_key_unique [OF assms(1), of t] have ft: "find (\<lambda>x. tk_TokenHash x = h) ts = Some t" by (simp add: redeemable_def)
  then show "token_map ts h = Some (tk_ServerID t, tk_ExpiresAt t, False)"
    using t(2) by (simp add: token_map_def redeemable_def)
  have "find (\<lambda>x. tk_TokenHash x = k) (spend h n ts) =
      map_option (\<lambda>x. if redeemable h n x then x\<lparr>tk_ConsumedAt := Some n\<rparr> else x) (find (\<lambda>x. tk_TokenHash x = k) ts)" for k
    unfolding spend_def by (rule find_update_where) simp
  then show "token_map (spend h n ts) = (token_map ts)(h \<mapsto> (tk_ServerID t, tk_ExpiresAt t, True))"
    using ft t(2)
    by (auto simp: fun_eq_iff token_map_def option.map_comp comp_def redeemable_def dest: find_Some_mem intro!: map_option_cong)
qed

lemma holder_map_Some:
  assumes "distinct (map ag_CredentialHash as)"
  shows "holder_map as h = Some (i, s) \<longleftrightarrow> (\<exists>a \<in> set as. ag_CredentialHash a = h \<and> ag_ID a = i \<and> ag_ServerID a = s)"
proof
  assume "holder_map as h = Some (i, s)"
  then show "\<exists>a \<in> set as. ag_CredentialHash a = h \<and> ag_ID a = i \<and> ag_ServerID a = s"
    by (auto simp: holder_map_def dest: find_Some_mem)
next
  assume "\<exists>a \<in> set as. ag_CredentialHash a = h \<and> ag_ID a = i \<and> ag_ServerID a = s"
  then show "holder_map as h = Some (i, s)"
    using find_key_unique [OF assms] by (auto simp: holder_map_def)
qed

lemma not_image_filterD: "y \<notin> f ` set (filter P xs) \<Longrightarrow> x \<in> set xs \<Longrightarrow> P x \<Longrightarrow> f x \<noteq> y"
  by auto

lemma enrolled_mem:
  assumes "enrolled as r as'" and "distinct (map ag_ServerID as)"
  shows "x \<in> set as' \<longleftrightarrow> x = r \<or> x \<in> set as \<and> ag_ServerID x \<noteq> ag_ServerID r"
  using assms(1) unfolding enrolled_def
proof (elim disjE bexE conjE)
  fix old
  assume old: "old \<in> set as" "ag_ServerID old = ag_ServerID r"
    and as': "as' = update_where (\<lambda>x. ag_ServerID x = ag_ServerID r)
      (reregister (ag_PublicKey r) (ag_CredentialHash r) (ag_AgentVersion r)) as"
    and r: "r = reregister (ag_PublicKey r) (ag_CredentialHash r) (ag_AgentVersion r) old"
  define f where "f = reregister (ag_PublicKey r) (ag_CredentialHash r) (ag_AgentVersion r)"
  have uniq: "y = old" if "y \<in> set as" "ag_ServerID y = ag_ServerID r" for y
    using that old assms(2) by (metis (no_types, lifting) distinct_map inj_onD)
  have fo: "f old = r" using r by (simp add: f_def)
  have "set as' = (\<lambda>y. if ag_ServerID y = ag_ServerID r then f y else y) ` set as"
    unfolding as' f_def by (rule set_update_where)
  also have "\<dots> = insert r {y \<in> set as. ag_ServerID y \<noteq> ag_ServerID r}"
  proof (intro set_eqI iffI)
    fix z
    assume "z \<in> insert r {y \<in> set as. ag_ServerID y \<noteq> ag_ServerID r}"
    then consider "z = r" | "z \<in> set as" "ag_ServerID z \<noteq> ag_ServerID r" by blast
    then show "z \<in> (\<lambda>y. if ag_ServerID y = ag_ServerID r then f y else y) ` set as"
    proof cases
      case 1
      then show ?thesis by (intro image_eqI [of _ _ old]) (simp_all add: old fo)
    next
      case 2
      then show ?thesis by (intro image_eqI [of _ _ z]) simp_all
    qed
  qed (auto simp: fo dest: uniq)
  finally show ?thesis by blast
next
  assume no: "ag_ServerID r \<notin> ag_ServerID ` set as" and as': "as' = as @ [r]"
  have "ag_ServerID x \<noteq> ag_ServerID r" if "x \<in> set as" using no imageI [OF that, of ag_ServerID] by auto
  then show ?thesis by (auto simp: as')
qed

lemma enrolled_distinct:
  assumes "enrolled as r as'" and "distinct (map ag_ServerID as)" and "distinct (map ag_CredentialHash as)"
    and "ag_CredentialHash r \<notin> ag_CredentialHash ` set (filter (\<lambda>x. ag_ServerID x \<noteq> ag_ServerID r) as)"
  shows "distinct (map ag_ServerID as')" and "distinct (map ag_CredentialHash as')"
proof -
  have "map ag_ServerID (update_where (\<lambda>x. ag_ServerID x = s) (reregister pk ch v) as) = map ag_ServerID as" for s pk ch v
    by (rule map_update_where) (simp add: reregister_def)
  then show s: "distinct (map ag_ServerID as')" using assms(1,2) by (auto simp: enrolled_def)
  have "distinct as'" using s by (simp add: distinct_map)
  moreover have "inj_on ag_CredentialHash (set as')"
  proof (rule inj_onI)
    fix x y
    assume xy: "x \<in> set as'" "y \<in> set as'" "ag_CredentialHash x = ag_CredentialHash y"
    have other: "ag_CredentialHash z \<noteq> ag_CredentialHash r" if "z \<in> set as" "ag_ServerID z \<noteq> ag_ServerID r" for z
      using not_image_filterD [OF assms(4) that] .
    show "x = y"
      using xy assms(3) unfolding enrolled_mem [OF assms(1,2)] distinct_map by (auto dest: inj_onD other)
  qed
  ultimately show "distinct (map ag_CredentialHash as')" by (simp add: distinct_map)
qed

lemma holder_map_enrolled:
  assumes "enrolled as r as'" and "distinct (map ag_ServerID as)" and "distinct (map ag_CredentialHash as)"
    and "ag_CredentialHash r \<notin> ag_CredentialHash ` set (filter (\<lambda>x. ag_ServerID x \<noteq> ag_ServerID r) as)"
  shows "holder_map as' = (\<lambda>x. if x = ag_CredentialHash r then Some (ag_ID r, ag_ServerID r)
      else case holder_map as x of None \<Rightarrow> None | Some (j, s') \<Rightarrow> if s' = ag_ServerID r then None else Some (j, s'))"
proof
  fix x
  note new = holder_map_Some [OF enrolled_distinct(2) [OF assms]] and old = holder_map_Some [OF assms(3)]
  note mem = enrolled_mem [OF assms(1,2)]
  show "holder_map as' x = (if x = ag_CredentialHash r then Some (ag_ID r, ag_ServerID r)
      else case holder_map as x of None \<Rightarrow> None | Some (j, s') \<Rightarrow> if s' = ag_ServerID r then None else Some (j, s'))"
  proof (cases "x = ag_CredentialHash r")
    case True
    have "r \<in> set as'" by (simp add: mem)
    with True have "holder_map as' x = Some (ag_ID r, ag_ServerID r)" by (intro new [THEN iffD2] bexI [of _ r]) simp_all
    with True show ?thesis by simp
  next
    case False
    have key: "holder_map as' x = Some (i, s) \<longleftrightarrow> holder_map as x = Some (i, s) \<and> s \<noteq> ag_ServerID r" for i s
      unfolding new old Bex_def mem using False by blast
    show ?thesis
    proof (cases "holder_map as x")
      case None
      then have "holder_map as' x = None" using key by (cases "holder_map as' x") auto
      with None False show ?thesis by simp
    next
      case (Some js)
      obtain j s' where js: "js = (j, s')" by (cases js)
      show ?thesis
      proof (cases "s' = ag_ServerID r")
        case True
        then have "holder_map as' x = None" using key Some js by (metis option.exhaust surj_pair option.inject prod.inject)
        with Some js True False show ?thesis by simp
      next
        case other: False
        then have "holder_map as' x = Some (j, s')" using key Some js by blast
        with Some js other False show ?thesis by simp
      qed
    qed
  qed
qed

lemma agents_wf_frame:
  assumes "agents d' = agents d" and "agent_registration_tokens d' = agent_registration_tokens d" and "servers d' = servers d"
  shows "agents_wf d' \<longleftrightarrow> agents_wf d" and "abs_registry d' = abs_registry d"
  by (simp_all add: agents_wf_def abs_registry_def server_keys_def assms)

lemma with_audit_frame [simp]:
  "agents (with_audit a d) = agents d" "agent_registration_tokens (with_audit a d) = agent_registration_tokens d"
  "servers (with_audit a d) = servers d" "server_keys (with_audit a d) = server_keys d"
  by (simp_all add: with_audit_def server_keys_def)

lemma server_keysI: "r \<in> set (servers d) \<Longrightarrow> (sv_ID r, sv_WorkspaceID r) \<in> set (server_keys d)"
  by (force simp: server_keys_def)

lemma create_token_refines:
  assumes "agents_wf (db w)" and "CreateRegistrationToken D rnd p i w = (Inr tok, w')"
  shows "token_of (abs_registry (db w)) (hashToken (rtk_Raw tok)) = None"
    and "abs_registry (db w') = mint (hashToken (rtk_Raw tok)) i (now w) (abs_registry (db w))"
    and "agents_wf (db w')"
proof -
  from CreateRegistrationToken_run [OF assms(2)] obtain srv t a where
    srv: "srv \<in> set (servers (db w))" "sv_ID srv = i"
    and t: "tk_ServerID t = i" "tk_WorkspaceID t = sv_WorkspaceID srv" "tk_TokenHash t = hashToken (rtk_Raw tok)"
      "tk_TokenHash t \<notin> tk_TokenHash ` set (agent_registration_tokens (db w))" "tk_ExpiresAt t = now w + registrationTokenTTL"
      "tk_ConsumedAt t = None"
    and w': "db w' = with_audit a (with_token t (db w))"
    by metis
  from t(3,4) have new: "find (\<lambda>x. tk_TokenHash x = hashToken (rtk_Raw tok)) (agent_registration_tokens (db w)) = None"
    unfolding find_None_iff by (metis imageI)
  then show "token_of (abs_registry (db w)) (hashToken (rtk_Raw tok)) = None" by (simp add: abs_registry_def token_map_def)
  have "token_map (agent_registration_tokens (db w) @ [t]) h =
      ((token_map (agent_registration_tokens (db w)))(hashToken (rtk_Raw tok) \<mapsto> (i, now w + registrationTokenTTL, False))) h" for h
    using new t by (auto simp: token_map_def find_append split: option.splits)
  then show "abs_registry (db w') = mint (hashToken (rtk_Raw tok)) i (now w) (abs_registry (db w))"
    by (simp add: w' with_token_def abs_registry_def mint_def fun_eq_iff)
  show "agents_wf (db w')"
    using assms(1) t server_keysI [OF srv(1)] srv(2) by (simp add: w' with_token_def agents_wf_def server_keys_def)
qed

lemma register_refines:
  assumes "agents_wf (db w)" and "agents_Register rnd inp w = (Inr reg, w')"
  obtains s e where "token_of (abs_registry (db w)) (hashToken (rg_RegistrationToken inp)) = Some (s, e, False)" "now w < e"
    and "abs_registry (db w') =
      redeem (hashToken (rg_RegistrationToken inp)) (hashToken (rgd_Credential reg)) (rgd_AgentID reg) (abs_registry (db w))"
    and "agents_wf (db w')"
    and "\<forall>j s'. holder_of (abs_registry (db w)) (hashToken (rgd_Credential reg)) = Some (j, s') \<longrightarrow> s' = s"
proof -
  let ?h = "hashToken (rg_RegistrationToken inp)"
  obtain bs t r a where "rnd = Inr bs" "rgd_Credential reg = ''plag_'' @ base64url_Encode bs"
    and t: "find (redeemable ?h (now w)) (agent_registration_tokens (db w)) = Some t"
    and r: "rgd_AgentID reg = ag_ID r" "ag_ServerID r = tk_ServerID t" "ag_CredentialHash r = hashToken (rgd_Credential reg)"
      "ag_LastSeenAt r = None" "enrolled (agents (db w)) r (agents (db w'))"
      "ag_CredentialHash r \<notin> ag_CredentialHash ` set (filter (\<lambda>x. ag_ServerID x \<noteq> ag_ServerID r) (agents (db w)))"
      "ag_WorkspaceID r = tk_WorkspaceID t \<or>
         (\<exists>old \<in> set (agents (db w)). ag_ServerID old = ag_ServerID r \<and> ag_WorkspaceID old = ag_WorkspaceID r)"
    and "audit_row_of ''agent.register'' ''agent'' (ag_ID r) (ag_WorkspaceID r) (''agent:'' @ ag_ID r) a"
    and w': "db w' = with_audit a ((db w)\<lparr>agent_registration_tokens := spend ?h (now w) (agent_registration_tokens (db w)),
           agents := agents (db w')\<rparr>)"
    using assms(2) by (rule agents_Register_run)
  from assms(1) have wf: "distinct (map ag_ServerID (agents (db w)))" "distinct (map ag_CredentialHash (agents (db w)))"
      "distinct (map tk_TokenHash (agent_registration_tokens (db w)))"
      "\<forall>r \<in> set (agents (db w)). (ag_ServerID r, ag_WorkspaceID r) \<in> set (server_keys (db w))"
      "\<forall>t \<in> set (agent_registration_tokens (db w)). (tk_ServerID t, tk_WorkspaceID t) \<in> set (server_keys (db w))"
    by (simp_all add: agents_wf_def)
  have toks: "agent_registration_tokens (db w') = spend ?h (now w) (agent_registration_tokens (db w))"
    and srvs: "server_keys (db w') = server_keys (db w)"
    by (subst w', simp add: server_keys_def)+
  note spent = token_map_spend [OF wf(3) t]
  have tok: "token_of (abs_registry (db w)) ?h = Some (tk_ServerID t, tk_ExpiresAt t, False)"
    using spent(2) by (simp add: abs_registry_def)
  have abs: "abs_registry (db w') = redeem ?h (hashToken (rgd_Credential reg)) (rgd_AgentID reg) (abs_registry (db w))"
    unfolding redeem_def tok option.case prod.case
    unfolding abs_registry_def toks spent(1) holder_map_enrolled [OF r(5) wf(1,2) r(6)] r(1-3)
    unfolding registry.simps by simp
  from find_Some_mem [OF t] have tm: "t \<in> set (agent_registration_tokens (db w))" "redeemable ?h (now w) t" by auto
  have "(ag_ServerID r, ag_WorkspaceID r) \<in> set (server_keys (db w))" using r(2,7) wf(4,5) tm(1) by auto
  then have keys: "\<forall>x \<in> set (agents (db w')). (ag_ServerID x, ag_WorkspaceID x) \<in> set (server_keys (db w'))"
    using wf(4) by (simp add: enrolled_mem [OF r(5) wf(1)] srvs Ball_def)
  have "agents_wf (db w')"
    unfolding agents_wf_def toks
    using enrolled_distinct [OF r(5) wf(1,2) r(6)] keys wf(3,5)
    by (simp add: srvs spend_def map_update_where) (auto simp: set_update_where)
  moreover have "\<forall>j s'. holder_of (abs_registry (db w)) (hashToken (rgd_Credential reg)) = Some (j, s') \<longrightarrow> s' = tk_ServerID t"
    using not_image_filterD [OF r(6)] r(2,3) by (auto simp: abs_registry_def holder_map_Some [OF wf(2)])
  ultimately show ?thesis using tok abs tm(2) by (intro that) (auto simp: redeemable_def)
qed

lemma heartbeat_refines:
  assumes "agents_wf (db w)" and "agents_Heartbeat inp w = (x, w')"
  shows "abs_registry (db w') = abs_registry (db w)" and "agents_wf (db w')"
proof -
  let ?f = "update_where (\<lambda>r. ag_CredentialHash r = hashToken (hi_Credential inp)) (apply_heartbeat (hi_Facts inp) (now w))"
  have keep: "ag_ServerID (apply_heartbeat f t r) = ag_ServerID r" "ag_CredentialHash (apply_heartbeat f t r) = ag_CredentialHash r"
      "ag_ID (apply_heartbeat f t r) = ag_ID r" "ag_WorkspaceID (apply_heartbeat f t r) = ag_WorkspaceID r" for f t r
    by (simp_all add: apply_heartbeat_def)
  have "find (\<lambda>a. ag_CredentialHash a = h) (?f as) = map_option (\<lambda>r. if ag_CredentialHash r = hashToken (hi_Credential inp)
      then apply_heartbeat (hi_Facts inp) (now w) r else r) (find (\<lambda>a. ag_CredentialHash a = h) as)" for h as
    by (rule find_update_where) (simp add: keep)
  then have hm: "holder_map (?f as) = holder_map as" for as
    by (auto simp: holder_map_def fun_eq_iff option.map_comp comp_def keep intro!: map_option_cong)
  from agents_Heartbeat_db [OF assms(2)] have "db w' = db w \<or> db w' = (db w)\<lparr>agents := ?f (agents (db w))\<rparr>" by auto
  moreover have "agents_wf ((db w)\<lparr>agents := ?f (agents (db w))\<rparr>)"
    using assms(1) by (auto simp: agents_wf_def keep map_update_where set_update_where server_keys_def)
  ultimately show "abs_registry (db w') = abs_registry (db w)" "agents_wf (db w')"
    using assms(1) by (auto simp: abs_registry_def hm)
qed

text \<open>C14: the registration module refines an abstract key ring. On every well-formed database, a minted
  registration token is new and enters the ring for its server, unspent, with an hour to live; a registration
  succeeds only with a token that is in the ring, unspent and unexpired, and then spends the token and
  makes the new credential the only one that opens the token's server, while the other servers keep
  theirs; heartbeats and every failed call leave the ring as it is; and the database stays well-formed:
  one agent per server and per credential, each in its server's workspace.\<close>

theorem agents_refine_registry:
  assumes "agents_wf (db w)"
  shows "(\<forall>tok w'. CreateRegistrationToken D rnd p i w = (Inr tok, w') \<longrightarrow>
            agents_wf (db w') \<and> token_of (abs_registry (db w)) (hashToken (rtk_Raw tok)) = None \<and>
            abs_registry (db w') = mint (hashToken (rtk_Raw tok)) i (now w) (abs_registry (db w))) \<and>
         (\<forall>reg w'. agents_Register rnd inp w = (Inr reg, w') \<longrightarrow>
            agents_wf (db w') \<and>
            (\<exists>s e. token_of (abs_registry (db w)) (hashToken (rg_RegistrationToken inp)) = Some (s, e, False) \<and> now w < e) \<and>
            abs_registry (db w') = redeem (hashToken (rg_RegistrationToken inp)) (hashToken (rgd_Credential reg))
              (rgd_AgentID reg) (abs_registry (db w))) \<and>
         (\<forall>x w'. agents_Heartbeat hi w = (x, w') \<longrightarrow>
            agents_wf (db w') \<and> abs_registry (db w') = abs_registry (db w)) \<and>
         (\<forall>e w'. agents_serve D q w = (Inl e, w') \<longrightarrow> db w' = db w)"
proof (intro conjI allI impI)
  fix e w'
  assume "agents_serve D q w = (Inl e, w')"
  then show "db w' = db w" by (rule atomicD [OF atomic_agents_serve])
qed (auto elim: register_refines [OF assms] dest: create_token_refines [OF assms] heartbeat_refines [OF assms])

definition demo_token :: AgentRegistrationToken_row where
  "demo_token = \<lparr>tk_ID = ''t'', tk_ServerID = ''srv'', tk_WorkspaceID = ''ws'', tk_TokenHash = hashToken ''plrt_A'',
     tk_CreatedBy = ''alice'', tk_CreatedAt = 0, tk_ExpiresAt = 1000, tk_ConsumedAt = None\<rparr>"

definition demo_registering :: world where
  "demo_registering = (demo_world [])\<lparr>db := demo_db\<lparr>agent_registration_tokens := [demo_token]\<rparr>\<rparr>"

abbreviation demo_register :: RegisterInput where
  "demo_register \<equiv> \<lparr>rg_RegistrationToken = ''plrt_A'', rg_PublicKey = replicate 32 CHR ''k'', rg_AgentVersion = ''2''\<rparr>"

lemma demo_registering_wf: "agents_wf (db demo_registering)"
  by (simp add: demo_registering_def agents_wf_def server_keys_def demo_token_def demo_defs)

lemma demo_registering_run:
  "fst (agents_Register (Inr [0, 16, 131]) demo_register demo_registering) =
      Inr \<lparr>rgd_AgentID = ''agent'', rgd_Credential = ''plag_ABCD''\<rparr>"
  by (simp add: agents_Register_def newAgentCredential_def newPrefixedToken_def base64url_char_def ConsumeRegistrationToken_def
        db_ConsumeAgentRegistrationToken_def UpsertAgent_def db_UpsertAgent_def agentFromUpsertRow_def agentFromRow_def
        reregister_def redeemable_def update_where_def run_defs Let_def absent_ok_def map_m_def
        audit_Record_def audit_Insert_def db_CreateAuditEvent_def nullableID_def fresh_uuid_def
        demo_registering_def demo_token_def demo_world_def demo_db_def demo_agent_def del: set_filter)

theorem agents_refine_registry_witness:
  "fst (agents_Register (Inr [0, 16, 131]) demo_register demo_registering) =
       Inr \<lparr>rgd_AgentID = ''agent'', rgd_Credential = ''plag_ABCD''\<rparr> \<and>
     (let R = abs_registry (db (snd (agents_Register (Inr [0, 16, 131]) demo_register demo_registering))) in
      token_of R (hashToken ''plrt_A'') = Some (''srv'', 1000, True) \<and>
      holder_of R (hashToken ''plag_ABCD'') = Some (''agent'', ''srv''))"
proof -
  obtain w' where run: "agents_Register (Inr [0, 16, 131]) demo_register demo_registering =
      (Inr \<lparr>rgd_AgentID = ''agent'', rgd_Credential = ''plag_ABCD''\<rparr>, w')"
    using demo_registering_run by (metis prod.collapse)
  have "token_of (abs_registry (db demo_registering)) (hashToken ''plrt_A'') = Some (''srv'', 1000, False)"
    by (simp add: abs_registry_def token_map_def demo_registering_def demo_token_def)
  with run agents_refine_registry [OF demo_registering_wf, of undefined "Inr [0, 16, 131]" undefined undefined demo_register]
  show ?thesis by (auto simp: redeem_def)
qed

lemma resolveAgent_registry:
  assumes "\<not> faults u (ops u)"
  shows "(\<exists>v. resolveAgent [] c u = (Inr (a, s), v)) \<longleftrightarrow> holder_of (abs_registry (db u)) (hashToken c) = Some (a, s)"
  using assms by (auto simp: succ_iff agent_of_def abs_registry_def holder_map_def)

lemma holder_of_redeem:
  assumes "token_of R h = Some (s, e, b)"
  shows "holder_of (redeem h c i R) x = Some (j, s') \<longleftrightarrow>
    (if x = c then j = i \<and> s' = s else holder_of R x = Some (j, s') \<and> s' \<noteq> s)"
  using assms by (auto simp: redeem_def split: option.splits if_splits)

text \<open>Re-registering an agent locks out everybody who held the old credential. After a successful
  registration with a token of server \<open>s\<close>, the agent endpoints resolve a credential to \<open>s\<close>
  exactly if it hashes like the one just issued, and resolve the credentials of every other server as before.\<close>

theorem registration_rotates_credential:
  assumes "agents_wf (db w)" and "agents_Register rnd inp w = (Inr reg, w')"
    and "find (\<lambda>t. tk_TokenHash t = hashToken (rg_RegistrationToken inp)) (agent_registration_tokens (db w)) = Some t"
    and "\<not> faults u (ops u)" and "db u = db w'"
  shows "((\<exists>v. resolveAgent [] c u = (Inr (a, tk_ServerID t), v)) \<longleftrightarrow>
            hashToken c = hashToken (rgd_Credential reg) \<and> a = rgd_AgentID reg) \<and>
         (s \<noteq> tk_ServerID t \<longrightarrow>
            ((\<exists>v. resolveAgent [] c u = (Inr (a, s), v)) \<longleftrightarrow> (\<exists>v. resolveAgent [] c (u\<lparr>db := db w\<rparr>) = (Inr (a, s), v))))"
proof -
  let ?h = "hashToken (rg_RegistrationToken inp)" and ?R = "abs_registry (db w)"
  from register_refines [OF assms(1,2)] obtain s0 e where tok: "token_of ?R ?h = Some (s0, e, False)"
    and abs: "abs_registry (db u) = redeem ?h (hashToken (rgd_Credential reg)) (rgd_AgentID reg) ?R"
    and new: "\<forall>j s'. holder_of ?R (hashToken (rgd_Credential reg)) = Some (j, s') \<longrightarrow> s' = s0"
    unfolding assms(5) by metis
  from tok assms(3) have s0: "s0 = tk_ServerID t" by (simp add: abs_registry_def token_map_def)
  have old: "(\<exists>v. resolveAgent [] c (u\<lparr>db := db w\<rparr>) = (Inr (a, s), v)) \<longleftrightarrow> holder_of ?R (hashToken c) = Some (a, s)"
    using resolveAgent_registry [of "u\<lparr>db := db w\<rparr>"] assms(4) by simp
  show ?thesis
    unfolding old resolveAgent_registry [OF assms(4)] abs holder_of_redeem [OF tok] using new s0 by auto
qed

end
