(* ===== verification/Json.thy ===== *)
theory Json
  imports AgentRegistry
begin

text \<open>
  What the code uses of Go's \<open>encoding/json\<close> and \<open>encoding/base64\<close>: parsing a document, reading it into
  struct fields, writing string fields, and decoding of unpadded URL-safe base64. Documents and strings are byte
  strings; UTF-8 is decoded where the library does. The library refuses documents nested deeper than 10000
  levels; here this is the depth budget of the parser.
\<close>

section \<open>UTF-8\<close>

abbreviation byte_of :: "char \<Rightarrow> nat" where "byte_of \<equiv> of_char"

abbreviation byte_char :: "nat \<Rightarrow> char" where "byte_char \<equiv> char_of"

definition in_range :: "nat \<Rightarrow> nat \<Rightarrow> char \<Rightarrow> bool" where
  "in_range a b c \<longleftrightarrow> a \<le> byte_of c \<and> byte_of c \<le> b"

text \<open>The first two bytes of an encoding of three or four bytes.\<close>

definition lead3 :: "char \<Rightarrow> char \<Rightarrow> bool" where
  "lead3 a b \<longleftrightarrow>
     byte_of a = 224 \<and> in_range 160 191 b \<or> byte_of a = 237 \<and> in_range 128 159 b \<or>
     in_range 225 239 a \<and> byte_of a \<noteq> 237 \<and> in_range 128 191 b"

definition lead4 :: "char \<Rightarrow> char \<Rightarrow> bool" where
  "lead4 a b \<longleftrightarrow>
     byte_of a = 240 \<and> in_range 144 191 b \<or> byte_of a = 244 \<and> in_range 128 143 b \<or>
     in_range 241 243 a \<and> in_range 128 191 b"

text \<open>The number of bytes of the well-formed encoding at the front, 0 if there is none.\<close>

fun utf8_size :: "string \<Rightarrow> nat" where
  "utf8_size [] = 0"
| "utf8_size (a # s) =
     (if in_range 0 127 a then 1
      else if length s \<ge> 1 \<and> in_range 194 223 a \<and> in_range 128 191 (s ! 0) then 2
      else if length s \<ge> 2 \<and> lead3 a (s ! 0) \<and> in_range 128 191 (s ! 1) then 3
      else if length s \<ge> 3 \<and> lead4 a (s ! 0) \<and> in_range 128 191 (s ! 1) \<and> in_range 128 191 (s ! 2) then 4
      else 0)"

text \<open>The encoding of a code point below 0x110000.\<close>

definition utf8_Encode :: "nat \<Rightarrow> string" where
  "utf8_Encode r =
     (if r < 128 then [byte_char r]
      else if r < 2048 then [byte_char (192 + r div 64), byte_char (128 + r mod 64)]
      else if r < 65536 then
        [byte_char (224 + r div 4096), byte_char (128 + r div 64 mod 64), byte_char (128 + r mod 64)]
      else [byte_char (240 + r div 262144), byte_char (128 + r div 4096 mod 64), byte_char (128 + r div 64 mod 64),
            byte_char (128 + r mod 64)])"

abbreviation replacement :: string where "replacement \<equiv> [CHR 0xEF, CHR 0xBF, CHR 0xBD]"

lemma utf8_size_le: "utf8_size s \<le> length s"
  by (cases s) auto

function utf8_Valid :: "string \<Rightarrow> bool" where
  "utf8_Valid s = (if s = [] then True else if utf8_size s = 0 then False else utf8_Valid (drop (utf8_size s) s))"
  by pat_completeness auto
termination
  by (relation "measure length") auto

declare utf8_Valid.simps [simp del]

section \<open>Strings\<close>

definition hex_value :: "char \<Rightarrow> nat option" where
  "hex_value c =
     (if in_range 48 57 c then Some (byte_of c - 48)
      else if in_range 97 102 c then Some (byte_of c - 87)
      else if in_range 65 70 c then Some (byte_of c - 55)
      else None)"

text \<open>Four hexadecimal digits after \<open>\u\<close>.\<close>

fun getu4 :: "string \<Rightarrow> (nat \<times> string) option" where
  "getu4 (a # b # c # d # s) =
     (case (hex_value a, hex_value b, hex_value c, hex_value d) of
        (Some w, Some x, Some y, Some z) \<Rightarrow> Some (4096 * w + 256 * x + 16 * y + z, s)
      | _ \<Rightarrow> None)"
| "getu4 _ = None"

lemma getu4_length: "getu4 s = Some (r, t) \<Longrightarrow> length t < length s"
  by (cases s rule: getu4.cases) (auto split: option.splits)

text \<open>After a high surrogate: the low one, if it follows.\<close>

definition low_surrogate :: "nat \<Rightarrow> string \<Rightarrow> (nat \<times> string) option" where
  "low_surrogate hi s =
     (case s of
        b # u # s' \<Rightarrow>
          if b = CHR 0x5C \<and> u = CHR ''u'' then
            (case getu4 s' of
               Some (lo, t) \<Rightarrow> if hi < 56320 \<and> 56320 \<le> lo \<and> lo < 57344
                               then Some (65536 + (hi - 55296) * 1024 + (lo - 56320), t) else None
             | None \<Rightarrow> None)
          else None
      | _ \<Rightarrow> None)"

text \<open>The escape after a backslash: the bytes it stands for and the rest.\<close>

definition unescape :: "string \<Rightarrow> (string \<times> string) option" where
  "unescape s =
     (case s of
        [] \<Rightarrow> None
      | c # t \<Rightarrow>
          if c \<in> {CHR 0x22, CHR 0x5C, CHR ''/''} then Some ([c], t)
          else if c = CHR ''b'' then Some ([CHR 0x08], t)
          else if c = CHR ''f'' then Some ([CHR 0x0C], t)
          else if c = CHR ''n'' then Some ([CHR 0x0A], t)
          else if c = CHR ''r'' then Some ([CHR 0x0D], t)
          else if c = CHR ''t'' then Some ([CHR 0x09], t)
          else if c = CHR ''u'' then
            (case getu4 t of
               None \<Rightarrow> None
             | Some (r, u) \<Rightarrow>
                 if 55296 \<le> r \<and> r < 57344
                 then (case low_surrogate r u of Some (r', v) \<Rightarrow> Some (utf8_Encode r', v) | None \<Rightarrow> Some (replacement, u))
                 else Some (utf8_Encode r, u))
          else None)"

lemma low_surrogate_length: "low_surrogate hi s = Some (r, t) \<Longrightarrow> length t < length s"
  by (auto simp: low_surrogate_def dest!: getu4_length split: list.splits option.splits if_splits)

lemma unescape_length: "unescape s = Some (bs, t) \<Longrightarrow> length t < length s"
  by (auto simp: unescape_def split: list.splits option.splits if_splits
        dest!: getu4_length low_surrogate_length)

text \<open>The contents of a string literal up to its closing quote, and what follows.\<close>

function json_chars :: "string \<Rightarrow> (string \<times> string) option" where
  "json_chars s =
     (case s of
        [] \<Rightarrow> None
      | c # t \<Rightarrow>
          if c = CHR 0x22 then Some ([], t)
          else if c = CHR 0x5C then
            (case unescape t of
               None \<Rightarrow> None
             | Some (bs, u) \<Rightarrow> map_option (\<lambda>(cs, v). (bs @ cs, v)) (json_chars u))
          else if in_range 0 31 c then None
          else if utf8_size s = 0 then map_option (\<lambda>(cs, v). (replacement @ cs, v)) (json_chars t)
          else map_option (\<lambda>(cs, v). (take (utf8_size s) s @ cs, v)) (json_chars (drop (utf8_size s) s)))"
  by pat_completeness auto
termination
  by (relation "measure length") (auto dest: unescape_length)

declare json_chars.simps [simp del]

text \<open>How a string field is written: \<open>json.Marshal\<close> also escapes what is special in HTML and the
  JavaScript line separators.\<close>

definition escape_byte :: "char \<Rightarrow> string" where
  "escape_byte c =
     (if c = CHR 0x22 \<or> c = CHR 0x5C then [CHR 0x5C, c]
      else if c = CHR 0x08 then [CHR 0x5C, CHR ''b'']
      else if c = CHR 0x0C then [CHR 0x5C, CHR ''f'']
      else if c = CHR 0x0A then [CHR 0x5C, CHR ''n'']
      else if c = CHR 0x0D then [CHR 0x5C, CHR ''r'']
      else if c = CHR 0x09 then [CHR 0x5C, CHR ''t'']
      else if in_range 0 31 c \<or> c \<in> {CHR ''<'', CHR ''>'', CHR ''&''}
      then [CHR 0x5C, CHR ''u'', CHR ''0'', CHR ''0'', hex_digit (byte_of c div 16), hex_digit (byte_of c mod 16)]
      else [c])"

function escape_string :: "string \<Rightarrow> string" where
  "escape_string s =
     (case s of
        [] \<Rightarrow> []
      | c # t \<Rightarrow>
          if utf8_size s = 0 then [CHR 0x5C] @ ''ufffd'' @ escape_string t
          else if utf8_size s = 1 then escape_byte c @ escape_string t
          else if take (utf8_size s) s = [CHR 0xE2, CHR 0x80, CHR 0xA8] then [CHR 0x5C] @ ''u2028'' @ escape_string (drop (utf8_size s) s)
          else if take (utf8_size s) s = [CHR 0xE2, CHR 0x80, CHR 0xA9] then [CHR 0x5C] @ ''u2029'' @ escape_string (drop (utf8_size s) s)
          else take (utf8_size s) s @ escape_string (drop (utf8_size s) s))"
  by pat_completeness auto
termination
  by (relation "measure length") auto

declare escape_string.simps [simp del]

definition json_quote :: "string \<Rightarrow> string" where
  "json_quote s = [CHR 0x22] @ escape_string s @ [CHR 0x22]"

section \<open>Documents\<close>

datatype json = JNull | JBool bool | JNum string | JStr string | JArr "json list" | JObj "(string \<times> json) list"

definition skip_ws :: "string \<Rightarrow> string" where
  "skip_ws = dropWhile (\<lambda>c. c \<in> {CHR '' '', CHR 0x09, CHR 0x0A, CHR 0x0D})"

lemma skip_ws_length: "length (skip_ws s) \<le> length s"
  by (simp add: skip_ws_def length_dropWhile_le)

text \<open>A number literal: its text and the rest.\<close>

definition some_digits :: "string \<Rightarrow> (string \<times> string) option" where
  "some_digits s = (if takeWhile is_digit s = [] then None else Some (takeWhile is_digit s, dropWhile is_digit s))"

definition json_int :: "string \<Rightarrow> (string \<times> string) option" where
  "json_int s = (case s of c # t \<Rightarrow> if c = CHR ''0'' then Some (''0'', t) else some_digits s | [] \<Rightarrow> None)"

definition json_frac :: "string \<Rightarrow> (string \<times> string) option" where
  "json_frac s =
     (case s of
        c # t \<Rightarrow> if c = CHR ''.'' then map_option (\<lambda>(ds, u). (c # ds, u)) (some_digits t) else Some ([], s)
      | [] \<Rightarrow> Some ([], s))"

definition json_exp :: "string \<Rightarrow> (string \<times> string) option" where
  "json_exp s =
     (case s of
        c # t \<Rightarrow>
          if c \<in> {CHR ''e'', CHR ''E''} then
            (case t of
               g # u \<Rightarrow> if g \<in> {CHR ''+'', CHR ''-''} then map_option (\<lambda>(ds, v). (c # g # ds, v)) (some_digits u)
                        else map_option (\<lambda>(ds, v). (c # ds, v)) (some_digits t)
             | [] \<Rightarrow> None)
          else Some ([], s)
      | [] \<Rightarrow> Some ([], s))"

definition json_number :: "string \<Rightarrow> (string \<times> string) option" where
  "json_number s =
     (let (sign, s0) = (if s \<noteq> [] \<and> hd s = CHR ''-'' then (''-'', tl s) else ([], s)) in
      case json_int s0 of None \<Rightarrow> None | Some (i, s1) \<Rightarrow>
      case json_frac s1 of None \<Rightarrow> None | Some (f, s2) \<Rightarrow>
      case json_exp s2 of None \<Rightarrow> None | Some (e, s3) \<Rightarrow> Some (sign @ i @ f @ e, s3))"

definition json_literal :: "string \<Rightarrow> (json \<times> string) option" where
  "json_literal s =
     (if take 4 s = ''true'' then Some (JBool True, drop 4 s)
      else if take 5 s = ''false'' then Some (JBool False, drop 5 s)
      else if take 4 s = ''null'' then Some (JNull, drop 4 s)
      else map_option (\<lambda>(n, t). (JNum n, t)) (json_number s))"

text \<open>The parser. The first argument is fuel for the recursion, one more than the bytes left is always enough;
  the second is the nesting depth still allowed.\<close>

fun json_value :: "nat \<Rightarrow> nat \<Rightarrow> string \<Rightarrow> (json \<times> string) option"
  and json_elems :: "nat \<Rightarrow> nat \<Rightarrow> string \<Rightarrow> (json list \<times> string) option"
  and json_members :: "nat \<Rightarrow> nat \<Rightarrow> string \<Rightarrow> ((string \<times> json) list \<times> string) option" where
  "json_value 0 d s = None"
| "json_value (Suc n) d s =
     (case skip_ws s of
        [] \<Rightarrow> None
      | c # t \<Rightarrow>
          if c = CHR 0x22 then map_option (\<lambda>(cs, u). (JStr cs, u)) (json_chars t)
          else if c = CHR ''['' then
            (if d = 0 then None
             else case skip_ws t of
                    [] \<Rightarrow> None
                  | c' # t' \<Rightarrow> if c' = CHR '']'' then Some (JArr [], t')
                               else map_option (\<lambda>(vs, u). (JArr vs, u)) (json_elems n (d - 1) t))
          else if c = CHR ''{'' then
            (if d = 0 then None
             else case skip_ws t of
                    [] \<Rightarrow> None
                  | c' # t' \<Rightarrow> if c' = CHR ''}'' then Some (JObj [], t')
                               else map_option (\<lambda>(ms, u). (JObj ms, u)) (json_members n (d - 1) t))
          else json_literal (c # t))"
| "json_elems 0 d s = None"
| "json_elems (Suc n) d s =
     (case json_value n d s of
        None \<Rightarrow> None
      | Some (v, t) \<Rightarrow>
          (case skip_ws t of
             [] \<Rightarrow> None
           | c # u \<Rightarrow> if c = CHR '','' then map_option (\<lambda>(vs, r). (v # vs, r)) (json_elems n d u)
                      else if c = CHR '']'' then Some ([v], u) else None))"
| "json_members 0 d s = None"
| "json_members (Suc n) d s =
     (case skip_ws s of
        [] \<Rightarrow> None
      | q # t \<Rightarrow>
          if q \<noteq> CHR 0x22 then None
          else case json_chars t of
                 None \<Rightarrow> None
               | Some (k, u) \<Rightarrow>
                   (case skip_ws u of
                      [] \<Rightarrow> None
                    | c # u' \<Rightarrow>
                        if c \<noteq> CHR '':'' then None
                        else case json_value n d u' of
                               None \<Rightarrow> None
                             | Some (v, r) \<Rightarrow>
                                 (case skip_ws r of
                                    [] \<Rightarrow> None
                                  | e # r' \<Rightarrow>
                                      if e = CHR '','' then map_option (\<lambda>(ms, x). ((k, v) # ms, x)) (json_members n d r')
                                      else if e = CHR ''}'' then Some ([(k, v)], r') else None)))"

definition json_Parse :: "string \<Rightarrow> json option" where
  "json_Parse s =
     (case json_value (Suc (length s)) 10000 s of
        Some (v, t) \<Rightarrow> if skip_ws t = [] then Some v else None
      | None \<Rightarrow> None)"

section \<open>Reading a document into fields\<close>

text \<open>A member sets the field whose name equals its key up to case; so does Unicode's long s and the
  Kelvin sign.\<close>

fun fold_name :: "string \<Rightarrow> string" where
  "fold_name (a # b # c # s) =
     (if [a, b, c] = [CHR 0xE2, CHR 0x84, CHR 0xAA] then CHR ''k'' # fold_name s
      else if [a, b] = [CHR 0xC5, CHR 0xBF] then CHR ''s'' # fold_name (c # s)
      else ascii_lower a # fold_name (b # c # s))"
| "fold_name [a, b] = (if [a, b] = [CHR 0xC5, CHR 0xBF] then ''s'' else [ascii_lower a, ascii_lower b])"
| "fold_name [a] = [ascii_lower a]"
| "fold_name [] = []"

definition members_named :: "string \<Rightarrow> (string \<times> json) list \<Rightarrow> json list" where
  "members_named name ms = map snd (filter (\<lambda>(k, v). fold_name k = fold_name name) ms)"

text \<open>Repeated members are stored one after the other, \<open>null\<close> leaves a scalar as it is, and a value of
  another type makes the whole call fail.\<close>

fun store_string :: "string \<Rightarrow> json list \<Rightarrow> string option" where
  "store_string x [] = Some x"
| "store_string x (JStr y # vs) = store_string y vs"
| "store_string x (JNull # vs) = store_string x vs"
| "store_string x (_ # vs) = None"

fun store_int64 :: "int \<Rightarrow> json list \<Rightarrow> int option" where
  "store_int64 x [] = Some x"
| "store_int64 x (JNum y # vs) = (case strconv_Atoi y of None \<Rightarrow> None | Some z \<Rightarrow> store_int64 z vs)"
| "store_int64 x (JNull # vs) = store_int64 x vs"
| "store_int64 x (_ # vs) = None"

text \<open>A \<open>map[string]string\<close>: an object adds its members to the map, \<open>null\<close> clears it.\<close>

fun add_members :: "(string \<rightharpoonup> string) \<Rightarrow> (string \<times> json) list \<Rightarrow> (string \<rightharpoonup> string) option" where
  "add_members m [] = Some m"
| "add_members m ((k, JStr v) # ms) = add_members (m(k \<mapsto> v)) ms"
| "add_members m ((k, JNull) # ms) = add_members (m(k \<mapsto> [])) ms"
| "add_members m ((k, _) # ms) = None"

fun store_string_map :: "(string \<rightharpoonup> string) \<Rightarrow> json list \<Rightarrow> (string \<rightharpoonup> string) option" where
  "store_string_map m [] = Some m"
| "store_string_map m (JObj ms # vs) = (case add_members m ms of None \<Rightarrow> None | Some m' \<Rightarrow> store_string_map m' vs)"
| "store_string_map m (JNull # vs) = store_string_map Map.empty vs"
| "store_string_map m (_ # vs) = None"

section \<open>What is written is read back\<close>

lemma in_range_of_char [simp]: "n < 256 \<Longrightarrow> in_range a b (byte_char n) \<longleftrightarrow> a \<le> n \<and> n \<le> b"
  by (simp add: in_range_def)

lemma utf8_size_append:
  assumes "utf8_size s \<noteq> 0"
  shows "utf8_size (take (utf8_size s) s @ x) = utf8_size s"
proof (cases s)
  case (Cons a t)
  then show ?thesis using assms by (simp add: nth_append split: if_splits)
qed (use assms in simp)

lemma utf8_size_multi: "utf8_size (c # t) > 1 \<Longrightarrow> \<not> in_range 0 127 c"
  by auto

lemma utf8_size_ascii: "utf8_size (c # t) = 1 \<longleftrightarrow> in_range 0 127 c"
  by simp

declare utf8_size.simps(2) [simp del]

lemma escape_string_Nil [simp]: "escape_string [] = []"
  by (subst escape_string.simps) simp

lemma json_chars_quote [simp]: "json_chars (CHR 0x22 # t) = Some ([], t)"
  by (subst json_chars.simps) simp

lemma json_chars_escape:
  "json_chars (CHR 0x5C # t) =
     (case unescape t of None \<Rightarrow> None | Some (bs, u) \<Rightarrow> map_option (\<lambda>(cs, v). (bs @ cs, v)) (json_chars u))"
  by (subst json_chars.simps) simp

lemma hex_value_digit:
  assumes "n < 16"
  shows "hex_value (hex_digit n) = Some n"
proof -
  have "list_all (\<lambda>n. hex_value (hex_digit n) = Some n) [0..<16]" by code_simp
  with assms show ?thesis by (simp add: list_all_iff)
qed

lemma json_chars_byte:
  assumes "in_range 0 127 c"
  shows "json_chars (escape_byte c @ t) = map_option (\<lambda>(cs, v). (c # cs, v)) (json_chars t)"
proof -
  have n: "byte_of c < 128" using assms by (simp add: in_range_def)
  have u: "getu4 (CHR ''0'' # CHR ''0'' # hex_digit (byte_of c div 16) # hex_digit (byte_of c mod 16) # t) = Some (byte_of c, t)"
    using n by (simp add: hex_value_digit) (simp add: hex_value_def in_range_def)
  have plain: "json_chars (c # t) = map_option (\<lambda>(cs, v). (c # cs, v)) (json_chars t)"
    if "c \<noteq> CHR 0x22" "c \<noteq> CHR 0x5C" "\<not> in_range 0 31 c"
    using that assms utf8_size_ascii [of c t] by (subst json_chars.simps) simp
  show ?thesis
    using u n plain by (auto simp: escape_byte_def json_chars_escape unescape_def utf8_Encode_def)
qed

lemma json_chars_multi:
  assumes "utf8_size s > 1"
  shows "json_chars (take (utf8_size s) s @ t) = map_option (\<lambda>(cs, v). (take (utf8_size s) s @ cs, v)) (json_chars t)"
proof -
  let ?k = "utf8_size s"
  obtain c u where s: "s = c # u" using assms by (cases s) auto
  then have "\<not> in_range 0 127 c" using assms utf8_size_multi by blast
  then have c: "c \<noteq> CHR 0x22" "c \<noteq> CHR 0x5C" "\<not> in_range 0 31 c" by (auto simp: in_range_def)
  have k: "utf8_size (take ?k s @ t) = ?k" using assms by (intro utf8_size_append) simp
  have l: "length (take ?k s) = ?k" using utf8_size_le [of s] by simp
  obtain r where r: "take ?k s @ t = c # r" using s assms by (cases ?k) auto
  have "json_chars (take ?k s @ t) = map_option (\<lambda>(cs, v). (take ?k (take ?k s @ t) @ cs, v)) (json_chars (drop ?k (take ?k s @ t)))"
    using k c assms unfolding r by (subst json_chars.simps) simp
  then show ?thesis using l by simp
qed

abbreviation line_separator :: string where "line_separator \<equiv> [CHR 0xE2, CHR 0x80, CHR 0xA8]"

abbreviation paragraph_separator :: string where "paragraph_separator \<equiv> [CHR 0xE2, CHR 0x80, CHR 0xA9]"

lemma byte_char_separators:
  "byte_char 226 = CHR 0xE2" "byte_char 128 = CHR 0x80" "byte_char 168 = CHR 0xA8" "byte_char 169 = CHR 0xA9"
  by (simp_all add: char_of_eq_iff take_bit_eq_mod)

lemma json_chars_separators:
  "json_chars (CHR 0x5C # ''u2028'' @ t) = map_option (\<lambda>(cs, v). (line_separator @ cs, v)) (json_chars t)"
  "json_chars (CHR 0x5C # ''u2029'' @ t) = map_option (\<lambda>(cs, v). (paragraph_separator @ cs, v)) (json_chars t)"
  by (simp_all add: json_chars_escape unescape_def hex_value_def in_range_def utf8_Encode_def byte_char_separators)

text \<open>Reading what was written gives back every well-formed string.\<close>

lemma json_chars_escape_string:
  assumes "utf8_Valid s"
  shows "json_chars (escape_string s @ CHR 0x22 # t) = Some (s, t)"
  using assms
proof (induction s rule: utf8_Valid.induct)
  case (1 s)
  let ?k = "utf8_size s"
  show ?case
  proof (cases s)
    case (Cons c u)
    then have k: "?k \<noteq> 0" and v: "utf8_Valid (drop ?k s)"
      using "1.prems" utf8_Valid.simps [of s] by (auto split: if_splits)
    note ih = "1.IH" [OF _ k v]
    show ?thesis
    proof (cases "?k = 1")
      case True
      then have "in_range 0 127 c" using Cons utf8_size_ascii by blast
      with True Cons ih show ?thesis by (subst escape_string.simps) (simp add: json_chars_byte)
    next
      case False
      then have multi: "?k > 1" using k by simp
      let ?r = "escape_string (drop ?k s) @ CHR 0x22 # t"
      have e: "escape_string s @ CHR 0x22 # t =
         (if take ?k s = line_separator then CHR 0x5C # ''u2028'' @ ?r
          else if take ?k s = paragraph_separator then CHR 0x5C # ''u2029'' @ ?r
          else take ?k s @ ?r)"
        using Cons k False by (subst escape_string.simps) simp
      have "json_chars (escape_string s @ CHR 0x22 # t) = map_option (\<lambda>(cs, v). (take ?k s @ cs, v)) (json_chars ?r)"
        unfolding e using json_chars_separators [of ?r] json_chars_multi [OF multi, of ?r] by presburger
      then show ?thesis using ih Cons by simp
    qed
  qed simp
qed

text \<open>Numbers.\<close>

lemma digits_int_append: "digits_int (xs @ [c]) acc = 10 * digits_int xs acc + (int (of_char c) - 48)"
  by (induction xs arbitrary: acc) simp_all

lemma digits_int_nat_digits: "digits_int (nat_digits n) 0 = int n"
proof (induction n rule: nat_digits.induct)
  case (1 n)
  show ?case
  proof (cases "n < 10")
    case False
    with 1 show ?thesis by (subst nat_digits.simps) (simp add: digits_int_append of_char_of zdiv_int zmod_int)
  qed (subst nat_digits.simps, simp add: of_char_of)
qed

lemma nat_digits_hd: "0 < n \<Longrightarrow> hd (nat_digits n) \<noteq> CHR ''0''"
proof (induction n rule: nat_digits.induct)
  case (1 n)
  show ?case
  proof (cases "n < 10")
    case True
    have "(of_char (char_of (48 + n) :: char) :: nat) = 48 + n" using True by (simp add: of_char_of)
    moreover have "(of_char (CHR ''0'') :: nat) = 48" by simp
    ultimately have "char_of (48 + n) \<noteq> CHR ''0''" using "1.prems" by (metis add_cancel_left_right less_irrefl)
    with True show ?thesis by (subst nat_digits.simps) simp
  next
    case False
    with 1 show ?thesis by (subst nat_digits.simps) simp
  qed
qed

lemma strconv_Atoi_Itoa: "0 \<le> e \<Longrightarrow> e < 2 ^ 63 \<Longrightarrow> strconv_Atoi (strconv_Itoa e) = Some e"
proof -
  assume e: "0 \<le> e" "e < 2 ^ 63"
  let ?s = "nat_digits (nat e)"
  have all: "list_all is_digit ?s" using nat_digits_digits by (simp add: list_all_iff)
  then have "is_digit (hd ?s)" by (simp add: list_all_iff)
  then have "hd ?s \<noteq> CHR ''-''" "hd ?s \<noteq> CHR ''+''" by (auto simp: is_digit_def)
  with e all show ?thesis by (simp add: strconv_Atoi_def strconv_Itoa_def digits_int_nat_digits)
qed

lemma json_literal_Itoa:
  assumes "0 \<le> e" and "c \<in> {CHR '','', CHR ''}''}"
  shows "json_literal (strconv_Itoa e @ c # t) = Some (JNum (strconv_Itoa e), c # t)"
proof -
  let ?s = "nat_digits (nat e)"
  obtain d ds where s: "?s = d # ds" by (cases ?s) auto
  have digits: "\<forall>x \<in> set ?s. is_digit x" by (rule nat_digits_digits)
  with s have "is_digit d" by simp
  then have d: "d \<notin> {CHR ''t'', CHR ''f'', CHR ''n'', CHR ''-''}" by (auto simp: is_digit_def)
  have c: "\<not> is_digit c" using assms(2) by (auto simp: is_digit_def)
  have "json_int (?s @ c # t) = Some (?s, c # t)"
  proof (cases "nat e = 0")
    case True
    then have "?s = ''0''" by (subst nat_digits.simps) (simp add: char_of_eq_iff take_bit_eq_mod)
    then show ?thesis by (simp add: json_int_def)
  next
    case False
    then have "d \<noteq> CHR ''0''" using nat_digits_hd [of "nat e"] s by simp
    with s digits c show ?thesis by (simp add: json_int_def some_digits_def takeWhile_append2 dropWhile_append2)
  qed
  then have "json_number (?s @ c # t) = Some (?s, c # t)"
    using s d assms(2) by (auto simp: json_number_def json_frac_def json_exp_def)
  then show ?thesis using assms(1) s d by (simp add: json_literal_def strconv_Itoa_def)
qed

text \<open>Members of an object.\<close>

lemma skip_ws_idle: "s \<noteq> [] \<Longrightarrow> hd s \<notin> {CHR '' '', CHR 0x09, CHR 0x0A, CHR 0x0D} \<Longrightarrow> skip_ws s = s"
  by (cases s) (auto simp: skip_ws_def)

lemma skip_ws_punctuation [simp]:
  "skip_ws (CHR 0x22 # s) = CHR 0x22 # s" "skip_ws (CHR '':'' # s) = CHR '':'' # s" "skip_ws (CHR '','' # s) = CHR '','' # s"
  "skip_ws (CHR ''}'' # s) = CHR ''}'' # s" "skip_ws (CHR ''{'' # s) = CHR ''{'' # s" "skip_ws [] = []"
  by (simp_all add: skip_ws_def)

lemma json_members_string:
  assumes "utf8_Valid k" and "utf8_Valid v"
  shows "json_members (Suc (Suc n)) d (json_quote k @ CHR '':'' # json_quote v @ CHR '','' # r) =
    map_option (\<lambda>(ms, x). ((k, JStr v) # ms, x)) (json_members (Suc n) d r)"
  using json_chars_escape_string [OF assms(1)] json_chars_escape_string [OF assms(2)]
  by (simp add: json_quote_def del: json_members.simps json_value.simps json_elems.simps)
     (simp add: json_members.simps(2) [of "Suc n"] json_value.simps(2) del: json_members.simps)

lemma json_members_last_int:
  assumes "utf8_Valid k" and "0 \<le> e"
  shows "json_members (Suc (Suc n)) d (json_quote k @ CHR '':'' # strconv_Itoa e @ CHR ''}'' # r) =
    Some ([(k, JNum (strconv_Itoa e))], r)"
proof -
  obtain c t where s: "strconv_Itoa e = c # t" using assms(2) by (cases "strconv_Itoa e") (auto simp: strconv_Itoa_def)
  have "is_digit c" using nat_digits_digits [of "nat e"] s assms(2) by (auto simp: strconv_Itoa_def)
  then have c: "c \<notin> {CHR 0x22, CHR ''['', CHR ''{''}" "c \<notin> {CHR '' '', CHR 0x09, CHR 0x0A, CHR 0x0D}" by (auto simp: is_digit_def)
  have "json_value (Suc n) d (strconv_Itoa e @ CHR ''}'' # r) = json_literal (strconv_Itoa e @ CHR ''}'' # r)"
    using c skip_ws_idle [of "strconv_Itoa e @ CHR ''}'' # r"] by (simp add: s)
  also have "\<dots> = Some (JNum (strconv_Itoa e), CHR ''}'' # r)" using assms(2) by (intro json_literal_Itoa) simp_all
  finally show ?thesis using json_chars_escape_string [OF assms(1)] by (simp add: json_quote_def del: json_value.simps)
qed

section \<open>Base64\<close>

definition base64url_value :: "char \<Rightarrow> nat option" where
  "base64url_value c =
     (if in_range 65 90 c then Some (byte_of c - 65)
      else if in_range 97 122 c then Some (byte_of c - 71)
      else if in_range 48 57 c then Some (byte_of c + 4)
      else if c = CHR ''-'' then Some 62
      else if c = CHR ''_'' then Some 63
      else None)"

fun base64_bytes :: "nat list \<Rightarrow> nat list option" where
  "base64_bytes [] = Some []"
| "base64_bytes [a] = None"
| "base64_bytes [a, b] = Some [a * 4 + b div 16]"
| "base64_bytes [a, b, c] = Some [a * 4 + b div 16, b mod 16 * 16 + c div 4]"
| "base64_bytes (a # b # c # d # s) =
     map_option (\<lambda>r. [a * 4 + b div 16, b mod 16 * 16 + c div 4, c mod 4 * 64 + d] @ r) (base64_bytes s)"

text \<open>\<open>base64.RawURLEncoding.DecodeString\<close>: line breaks are skipped.\<close>

definition base64url_Decode :: "string \<Rightarrow> nat list option" where
  "base64url_Decode s =
     (let cs = filter (\<lambda>c. c \<noteq> CHR 0x0A \<and> c \<noteq> CHR 0x0D) s in
      if list_all (\<lambda>c. base64url_value c \<noteq> None) cs then base64_bytes (map (the \<circ> base64url_value) cs) else None)"

lemma base64url_char_value:
  assumes "n < 64"
  shows "base64url_value (base64url_char n) = Some n" and "base64url_char n \<noteq> CHR 0x0A" and "base64url_char n \<noteq> CHR 0x0D"
proof -
  let ?cs = "''ABCDEFGHIJKLMNOPQRSTUVWXYZ'' @ ''abcdefghijklmnopqrstuvwxyz'' @ ''0123456789-_''"
  have all: "map base64url_value ?cs = map Some [0..<64]" by code_simp
  have "base64url_value (?cs ! n) = map base64url_value ?cs ! n" using assms by (intro nth_map [symmetric]) simp
  then show v: "base64url_value (base64url_char n) = Some n" using assms unfolding all by (simp add: base64url_char_def)
  have "base64url_value (CHR 0x0A) = None" "base64url_value (CHR 0x0D) = None" by (simp_all add: base64url_value_def in_range_def)
  with v show "base64url_char n \<noteq> CHR 0x0A" "base64url_char n \<noteq> CHR 0x0D" by auto
qed

lemma unpack: "y < (k :: nat) \<Longrightarrow> (x * k + y) div k = x" "y < k \<Longrightarrow> (x * k + y) mod k = y"
  by simp_all

lemma base64_index:
  assumes "a < 256" and "b < 256" and "c < (256 :: nat)"
  shows "a div 4 < 64" "a mod 4 * 16 + b div 16 < 64" "b mod 16 * 4 + c div 64 < 64" "c mod 64 < 64"
  using assms by (simp_all add: div_less_iff_less_mult)

lemma base64url_Decode_Encode: "\<forall>b \<in> set bs. b < 256 \<Longrightarrow> base64url_Decode (base64url_Encode bs) = Some bs"
proof (induction bs rule: base64url_Encode.induct)
  case (4 a b c bs)
  then have lt: "a < 256" "b < 256" "c < 256" and ih: "base64url_Decode (base64url_Encode bs) = Some bs" by simp_all
  note idx = base64_index [OF lt]
  note v = idx [THEN base64url_char_value(1)] idx [THEN base64url_char_value(2)] idx [THEN base64url_char_value(3)]
  have e: "a div 4 * 4 + (a mod 4 * 16 + b div 16) div 16 = a"
    "(a mod 4 * 16 + b div 16) mod 16 * 16 + (b mod 16 * 4 + c div 64) div 4 = b"
    "(b mod 16 * 4 + c div 64) mod 4 * 64 + c mod 64 = c"
    using lt unpack [of "b div 16" 16 "a mod 4"] unpack [of "c div 64" 4 "b mod 16"] by (simp_all add: div_less_iff_less_mult)
  from ih v e show ?case by (auto simp: base64url_Decode_def Let_def split: if_splits)
next
  case (2 a)
  then have idx: "a div 4 < 64" "a mod 4 * 16 < 64" by simp_all
  have "a div 4 * 4 + a mod 4 * 16 div 16 = a" by simp
  with idx show ?case using idx [THEN base64url_char_value(1)] idx [THEN base64url_char_value(2)] idx [THEN base64url_char_value(3)]
    by (simp add: base64url_Decode_def)
next
  case (3 a b)
  then have lt: "a < 256" "b < 256" by simp_all
  have idx: "a div 4 < 64" "a mod 4 * 16 + b div 16 < 64" "b mod 16 * 4 < 64" using lt by simp_all
  have e: "a div 4 * 4 + (a mod 4 * 16 + b div 16) div 16 = a" "(a mod 4 * 16 + b div 16) mod 16 * 16 + b mod 16 * 4 div 4 = b"
    using lt unpack [of "b div 16" 16 "a mod 4"] by (simp_all add: div_less_iff_less_mult)
  with idx show ?case using idx [THEN base64url_char_value(1)] idx [THEN base64url_char_value(2)] idx [THEN base64url_char_value(3)]
    by (simp add: base64url_Decode_def)
qed (simp add: base64url_Decode_def)

end
