(* ===== verification/Configuration.thy ===== *)
theory Configuration
  imports AgentRegistry
begin

text \<open>
  The module \<^verbatim>\<open>internal/config\<close> with its queries and the sealing of secrets
  (\<^verbatim>\<open>internal/platform/crypto\<close>): variables and secrets of services and environments, from the request
  that sets them to the environment of the container that gets them. The AES-GCM primitive of Go's library is a
  parameter of the box built on it, and the nonce it draws an argument.
\<close>

section \<open>Sealing\<close>

record AEAD =
  aead_Seal :: "string \<Rightarrow> string \<Rightarrow> string"
  aead_Open :: "string \<Rightarrow> string \<Rightarrow> string option"

definition NonceSize :: nat where "NonceSize = 12"

definition ErrMalformed :: err where "ErrMalformed = Opaque ''crypto: malformed or tampered ciphertext''"

definition Box_Seal :: "AEAD \<Rightarrow> err + string \<Rightarrow> string \<Rightarrow> err + string" where
  "Box_Seal A rnd plaintext =
     (case rnd of
        Inl e \<Rightarrow> Inl (Wrapped ''crypto: read nonce'' e)
      | Inr nonce \<Rightarrow> Inr (nonce @ aead_Seal A nonce plaintext))"

definition Box_Open :: "AEAD \<Rightarrow> string \<Rightarrow> err + string" where
  "Box_Open A sealed =
     (if length sealed < NonceSize then Inl ErrMalformed
      else case aead_Open A (take NonceSize sealed) (drop NonceSize sealed) of
             None \<Rightarrow> Inl ErrMalformed
           | Some plaintext \<Rightarrow> Inr plaintext)"

text \<open>What \<open>crypto/cipher\<close> documents of an AEAD, and \<open>crypto/rand\<close> of a read.\<close>

definition aead_law :: "AEAD \<Rightarrow> bool" where
  "aead_law A \<longleftrightarrow> (\<forall>nonce p. length nonce = NonceSize \<longrightarrow> aead_Open A nonce (aead_Seal A nonce p) = Some p)"

lemma Box_Open_Seal:
  assumes "aead_law A" and "length nonce = NonceSize" and "Box_Seal A (Inr nonce) p = Inr c"
  shows "Box_Open A c = Inr p" and "c \<noteq> []"
  using assms by (auto simp: Box_Seal_def Box_Open_def aead_law_def NonceSize_def)

section \<open>Domain types\<close>

abbreviation TypeVariable :: string where "TypeVariable \<equiv> ''variable''"
abbreviation TypeSecret :: string where "TypeSecret \<equiv> ''secret''"
abbreviation ScopeService :: string where "ScopeService \<equiv> ''service''"
abbreviation ScopeEnvironment :: string where "ScopeEnvironment \<equiv> ''environment''"

record Entry =
  cfg_ID :: string
  cfg_Type :: string
  cfg_Scope :: string
  cfg_ServiceID :: string
  cfg_EnvironmentID :: string
  cfg_WorkspaceID :: string
  cfg_Key :: string
  cfg_Value :: string
  cfg_CreatedAt :: int
  cfg_UpdatedAt :: int

record SetInput =
  si_Type :: string
  si_Scope :: string
  si_ServiceID :: string
  si_EnvironmentID :: string
  si_Key :: string
  si_Value :: string

record ConfigDeleteInput =
  cdi_Scope :: string
  cdi_ServiceID :: string
  cdi_EnvironmentID :: string
  cdi_Key :: string

section \<open>Validation\<close>

definition maxKeyLen :: nat where "maxKeyLen = 128"
definition maxValueLen :: nat where "maxValueLen = 32768"

definition is_upper :: "char \<Rightarrow> bool" where
  "is_upper c \<longleftrightarrow> 65 \<le> (of_char c :: nat) \<and> (of_char c :: nat) \<le> 90"

text \<open>\<open>^[A-Z_][A-Z0-9_]*$\<close>.\<close>

fun keyRe_MatchString :: "string \<Rightarrow> bool" where
  "keyRe_MatchString [] = False"
| "keyRe_MatchString (c # cs) =
     ((is_upper c \<or> c = CHR ''_'') \<and> list_all (\<lambda>c. is_upper c \<or> is_digit c \<or> c = CHR ''_'') cs)"

definition validateType :: "string \<Rightarrow> err + string" where
  "validateType t =
     (if t \<in> {TypeVariable, TypeSecret} then Inr t else Inl (InvalidInput ''type must be variable or secret''))"

definition validateScope :: "string \<Rightarrow> err + string" where
  "validateScope sc =
     (if sc \<in> {ScopeService, ScopeEnvironment} then Inr sc
      else Inl (InvalidInput ''scope must be service or environment''))"

definition validateKey :: "string \<Rightarrow> err + string" where
  "validateKey raw =
     (let key = strings_TrimSpace raw in
      if key = [] then Inl (InvalidInput ''config key is required'')
      else if length key > maxKeyLen then Inl (InvalidInput ''key must be at most 128 characters'')
      else if \<not> keyRe_MatchString key
      then Inl (InvalidInput ''key must match ^[A-Z_][A-Z0-9_]*$ (e.g. DATABASE_URL)'')
      else Inr key)"

section \<open>Queries\<close>

text \<open>The \<open>CHECK\<close> constraints of \<open>config_entries\<close>.\<close>

definition config_entry_ok :: "ConfigEntry_row \<Rightarrow> bool" where
  "config_entry_ok r \<longleftrightarrow>
     keyRe_MatchString (ce_Key r) \<and> length (ce_Key r) \<le> 128 \<and>
     (\<forall>v. ce_Value r = Some v \<longrightarrow> length v \<le> 32768) \<and> length (ce_Ciphertext r) \<le> 65536 \<and>
     (ce_Scope r = ScopeService \<and> ce_ServiceID r \<noteq> None \<and> ce_EnvironmentID r = None \<or>
      ce_Scope r = ScopeEnvironment \<and> ce_EnvironmentID r \<noteq> None \<and> ce_ServiceID r = None) \<and>
     (ce_Type r = TypeVariable \<and> ce_Value r \<noteq> None \<and> ce_Ciphertext r = [] \<or>
      ce_Type r = TypeSecret \<and> ce_Ciphertext r \<noteq> [] \<and> ce_Value r = None)"

definition upsert_config ::
    "(ConfigEntry_row \<Rightarrow> bool) \<Rightarrow> (database \<Rightarrow> ConfigEntry_row \<Rightarrow> bool) \<Rightarrow> (world \<Rightarrow> ConfigEntry_row) \<Rightarrow> ConfigEntry_row m" where
  "upsert_config same fk mk =
     write_one (\<lambda>w d.
       let r = mk w;
           f = (\<lambda>e. e\<lparr>ce_Type := ce_Type r, ce_Value := ce_Value r, ce_Ciphertext := ce_Ciphertext r, ce_UpdatedAt := now w\<rparr>)
       in if \<not> config_entry_ok r then Inl (Opaque ''constraint violation'')
          else case find same (config_entries d) of
                 Some e \<Rightarrow> if config_entry_ok (f e)
                            then Inr (f e, d\<lparr>config_entries := update_where same f (config_entries d)\<rparr>)
                            else Inl (Opaque ''constraint violation'')
               | None \<Rightarrow>
                   if ce_ID r \<in> ce_ID ` set (config_entries d) then Inl UniqueViolation
                   else if \<not> fk d r then Inl (Opaque ''constraint violation'')
                   else Inr (r, d\<lparr>config_entries := config_entries d @ [r]\<rparr>))"

definition db_UpsertServiceConfig :: "string \<Rightarrow> string \<Rightarrow> string \<Rightarrow> string option \<Rightarrow> string \<Rightarrow> ConfigEntry_row m" where
  "db_UpsertServiceConfig kind serviceID key val ciphertext =
     upsert_config (\<lambda>e. ce_ServiceID e = Some serviceID \<and> ce_Key e = key)
       (\<lambda>d _. serviceID \<in> rs_ID ` set (services d))
       (\<lambda>w. \<lparr>ce_ID = fresh_uuid w, ce_Type = kind, ce_Scope = ScopeService, ce_ServiceID = Some serviceID,
             ce_EnvironmentID = None, ce_Key = key, ce_Value = val, ce_Ciphertext = ciphertext,
             ce_CreatedAt = now w, ce_UpdatedAt = now w\<rparr>)"

definition db_UpsertEnvironmentConfig :: "string \<Rightarrow> string \<Rightarrow> string \<Rightarrow> string option \<Rightarrow> string \<Rightarrow> ConfigEntry_row m" where
  "db_UpsertEnvironmentConfig kind environmentID key val ciphertext =
     upsert_config (\<lambda>e. ce_EnvironmentID e = Some environmentID \<and> ce_Key e = key)
       (\<lambda>d _. environmentID \<in> en_ID ` set (environments d))
       (\<lambda>w. \<lparr>ce_ID = fresh_uuid w, ce_Type = kind, ce_Scope = ScopeEnvironment, ce_ServiceID = None,
             ce_EnvironmentID = Some environmentID, ce_Key = key, ce_Value = val, ce_Ciphertext = ciphertext,
             ce_CreatedAt = now w, ce_UpdatedAt = now w\<rparr>)"

definition delete_config :: "(ConfigEntry_row \<Rightarrow> bool) \<Rightarrow> string m" where
  "delete_config p =
     update_one (\<lambda>_. True) (\<lambda>w d.
       map_option (\<lambda>e. (ce_ID e, d\<lparr>config_entries := filter (\<lambda>e. \<not> p e) (config_entries d)\<rparr>)) (find p (config_entries d)))"

definition db_DeleteServiceConfig :: "string \<Rightarrow> string \<Rightarrow> string m" where
  "db_DeleteServiceConfig serviceID key = delete_config (\<lambda>e. ce_ServiceID e = Some serviceID \<and> ce_Key e = key)"

definition db_DeleteEnvironmentConfig :: "string \<Rightarrow> string \<Rightarrow> string m" where
  "db_DeleteEnvironmentConfig environmentID key = delete_config (\<lambda>e. ce_EnvironmentID e = Some environmentID \<and> ce_Key e = key)"

definition db_GetServiceWorkspaceID :: "string \<Rightarrow> string m" where
  "db_GetServiceWorkspaceID i = select_one (\<lambda>d. map_option rs_WorkspaceID (find (\<lambda>r. rs_ID r = i) (services d)))"

definition environment_workspace :: "database \<Rightarrow> string \<Rightarrow> string option" where
  "environment_workspace d i =
     (case find (\<lambda>e. en_ID e = i) (environments d) of
        None \<Rightarrow> None
      | Some e \<Rightarrow> map_option pj_WorkspaceID (find (\<lambda>p. pj_ID p = en_ProjectID e) (projects d)))"

definition db_GetEnvironmentWorkspaceID :: "string \<Rightarrow> string m" where
  "db_GetEnvironmentWorkspaceID i = select_one (\<lambda>d. environment_workspace d i)"

section \<open>The repository\<close>

definition entryFromRow :: "ConfigEntry_row \<Rightarrow> Entry" where
  "entryFromRow r =
     \<lparr>cfg_ID = ce_ID r, cfg_Type = ce_Type r, cfg_Scope = ce_Scope r,
      cfg_ServiceID = (case ce_ServiceID r of None \<Rightarrow> [] | Some i \<Rightarrow> i),
      cfg_EnvironmentID = (case ce_EnvironmentID r of None \<Rightarrow> [] | Some i \<Rightarrow> i), cfg_WorkspaceID = [],
      cfg_Key = ce_Key r, cfg_Value = (case ce_Value r of None \<Rightarrow> [] | Some v \<Rightarrow> v),
      cfg_CreatedAt = ce_CreatedAt r, cfg_UpdatedAt = ce_UpdatedAt r\<rparr>"

definition UpsertServiceConfig :: "string \<Rightarrow> string \<Rightarrow> string \<Rightarrow> string option \<Rightarrow> string \<Rightarrow> Entry m" where
  "UpsertServiceConfig kind serviceID key val ciphertext =
     map_m entryFromRow (db_UpsertServiceConfig kind serviceID key val ciphertext)"

definition UpsertEnvironmentConfig :: "string \<Rightarrow> string \<Rightarrow> string \<Rightarrow> string option \<Rightarrow> string \<Rightarrow> Entry m" where
  "UpsertEnvironmentConfig kind environmentID key val ciphertext =
     map_m entryFromRow (db_UpsertEnvironmentConfig kind environmentID key val ciphertext)"

definition store_ListConfig :: "string \<Rightarrow> Entry list m" where
  "store_ListConfig serviceID = map_m (map entryFromRow) (db_ListConfigForService serviceID)"

definition DeleteServiceConfig :: "string \<Rightarrow> string \<Rightarrow> string option m" where
  "DeleteServiceConfig serviceID key = absent_ok (db_DeleteServiceConfig serviceID key)"

definition DeleteEnvironmentConfig :: "string \<Rightarrow> string \<Rightarrow> string option m" where
  "DeleteEnvironmentConfig environmentID key = absent_ok (db_DeleteEnvironmentConfig environmentID key)"

definition WorkspaceIDForService :: "string \<Rightarrow> string option m" where
  "WorkspaceIDForService i = absent_ok (db_GetServiceWorkspaceID i)"

definition WorkspaceIDForEnvironment :: "string \<Rightarrow> string option m" where
  "WorkspaceIDForEnvironment i = absent_ok (db_GetEnvironmentWorkspaceID i)"

section \<open>The service\<close>

definition resolveScope :: "deps \<Rightarrow> string \<Rightarrow> string \<Rightarrow> string \<Rightarrow> (string \<times> string) m" where
  "resolveScope D scope serviceID environmentID =
     (if scope = ScopeService then
        check (id_Parse D serviceID) (InvalidInput ''a valid service_id is required for service scope'')
       (bind (map_err (Internalf ''resolve service'') (WorkspaceIDForService serviceID)) (\<lambda>found.
        case found of
          None \<Rightarrow> fail (NotFound (''service '' @ serviceID @ '' not found''))
        | Some ws \<Rightarrow> ret (ws, serviceID)))
      else if scope = ScopeEnvironment then
        check (id_Parse D environmentID) (InvalidInput ''a valid environment_id is required for environment scope'')
       (bind (map_err (Internalf ''resolve environment'') (WorkspaceIDForEnvironment environmentID)) (\<lambda>found.
        case found of
          None \<Rightarrow> fail (NotFound (''environment '' @ environmentID @ '' not found''))
        | Some ws \<Rightarrow> ret (ws, environmentID)))
      else fail (InvalidInput ''scope must be service or environment''))"

text \<open>Variables are stored as they are, secrets sealed.\<close>

definition stored_form :: "AEAD \<Rightarrow> err + string \<Rightarrow> string \<Rightarrow> string \<Rightarrow> err + (string option \<times> string)" where
  "stored_form A rnd kind val =
     (if kind = TypeSecret then
        (case Box_Seal A rnd val of
           Inl e \<Rightarrow> Inl (Internalf ''seal secret'' e)
         | Inr c \<Rightarrow> Inr (None, c))
      else Inr (Some val, []))"

definition setTx ::
    "string \<Rightarrow> string \<Rightarrow> string \<Rightarrow> string \<Rightarrow> string option \<Rightarrow> string \<Rightarrow> string \<Rightarrow> Principal \<Rightarrow> Entry m" where
  "setTx scope kind scopeID key val ciphertext workspaceID caller =
     bind (if scope = ScopeService then UpsertServiceConfig kind scopeID key val ciphertext
           else UpsertEnvironmentConfig kind scopeID key val ciphertext) (\<lambda>saved.
     bind (audit_Record ''config.set'' ''config'' (cfg_ID saved) workspaceID (UserID caller)) (\<lambda>_. ret saved))"

definition config_Set :: "deps \<Rightarrow> AEAD \<Rightarrow> err + string \<Rightarrow> Principal \<Rightarrow> SetInput \<Rightarrow> Entry m" where
  "config_Set D A rnd caller inp =
     bind (lift (validateType (si_Type inp))) (\<lambda>kind.
     bind (lift (validateScope (si_Scope inp))) (\<lambda>scope.
     bind (lift (validateKey (si_Key inp))) (\<lambda>key.
     check (length (si_Value inp) \<le> maxValueLen) (InvalidInput ''value must be at most 32768 bytes'')
    (bind (resolveScope D scope (si_ServiceID inp) (si_EnvironmentID inp)) (\<lambda>(workspaceID, scopeID).
     bind (Authorize caller ActionConfigSet (resource_in ''config'' workspaceID)) (\<lambda>_.
     bind (lift (stored_form A rnd kind (si_Value inp))) (\<lambda>(val, ciphertext).
     map_m (\<lambda>saved. saved\<lparr>cfg_WorkspaceID := workspaceID\<rparr>)
      (map_err (mapErr ''set config'')
       (WithinTx (setTx scope kind scopeID key val ciphertext workspaceID caller))))))))))"

text \<open>\<open>vars\<close> is a Go map: an association list with distinct keys, iterated in the order of its keys.\<close>

definition SetWithinTx :: "deps \<Rightarrow> string \<Rightarrow> (string \<times> string) list \<Rightarrow> unit m" where
  "SetWithinTx D serviceID vars =
     check (id_Parse D serviceID) (InvalidInput ''a valid service_id is required'')
    (for_each (sort_key fst vars) (\<lambda>(raw, val).
       bind (lift (validateKey raw)) (\<lambda>key.
       check (length val \<le> maxValueLen) (InvalidInput ''value must be at most 32768 bytes'')
         (map_m (\<lambda>_. ()) (UpsertServiceConfig TypeVariable serviceID key (Some val) [])))))"

definition config_ListForService :: "deps \<Rightarrow> Principal \<Rightarrow> string \<Rightarrow> Entry list m" where
  "config_ListForService D caller serviceID =
     check (id_Parse D serviceID) (InvalidInput ''a valid service_id is required'')
    (bind (map_err (Internalf ''list config'') (WorkspaceIDForService serviceID)) (\<lambda>found.
     case found of
       None \<Rightarrow> fail (NotFound (''service '' @ serviceID @ '' not found''))
     | Some workspaceID \<Rightarrow>
         bind (Authorize caller ActionConfigRead (resource_in ''config'' workspaceID)) (\<lambda>_.
         map_m (map (\<lambda>e. e\<lparr>cfg_WorkspaceID := workspaceID\<rparr>)) (store_ListConfig serviceID))))"

definition deleteTx :: "string \<Rightarrow> string \<Rightarrow> string \<Rightarrow> string \<Rightarrow> Principal \<Rightarrow> unit m" where
  "deleteTx scope scopeID key workspaceID caller =
     bind (if scope = ScopeService then DeleteServiceConfig scopeID key else DeleteEnvironmentConfig scopeID key) (\<lambda>deleted.
     case deleted of
       None \<Rightarrow> fail (NotFound (''config '' @ fmt_q key @ '' not found''))
     | Some deletedID \<Rightarrow> audit_Record ''config.delete'' ''config'' deletedID workspaceID (UserID caller))"

definition config_Delete :: "deps \<Rightarrow> Principal \<Rightarrow> ConfigDeleteInput \<Rightarrow> unit m" where
  "config_Delete D caller inp =
     bind (lift (validateScope (cdi_Scope inp))) (\<lambda>scope.
     bind (lift (validateKey (cdi_Key inp))) (\<lambda>key.
     bind (resolveScope D scope (cdi_ServiceID inp) (cdi_EnvironmentID inp)) (\<lambda>(workspaceID, scopeID).
     bind (Authorize caller ActionConfigDelete (resource_in ''config'' workspaceID)) (\<lambda>_.
     map_err (mapErr ''delete config'') (WithinTx (deleteTx scope scopeID key workspaceID caller))))))"

section \<open>Requests\<close>

datatype config_request =
    SetConfigReq "err + string" SetInput
  | ListConfigReq string
  | DeleteConfigReq ConfigDeleteInput

definition config_serve :: "deps \<Rightarrow> AEAD \<Rightarrow> Principal \<Rightarrow> config_request \<Rightarrow> unit m" where
  "config_serve D A p q =
     (case q of
        SetConfigReq rnd inp \<Rightarrow> finish (config_Set D A rnd p inp)
      | ListConfigReq i \<Rightarrow> finish (config_ListForService D p i)
      | DeleteConfigReq inp \<Rightarrow> config_Delete D p inp)"

section \<open>Reads and errors\<close>

lemma readonly_config_store:
  "readonly (store_ListConfig i)" "readonly (WorkspaceIDForService i)" "readonly (WorkspaceIDForEnvironment i)"
  unfolding store_ListConfig_def WorkspaceIDForService_def WorkspaceIDForEnvironment_def db_ListConfigForService_def
    db_GetServiceWorkspaceID_def db_GetEnvironmentWorkspaceID_def absent_ok_def
  by (auto intro!: readonly_intros reads.obeys_rules)

lemma readonly_resolveScope: "readonly (resolveScope D sc i j)"
  unfolding resolveScope_def
  by (intro reads.obeys_rules reads.obeys_cases readonly_config_store)

lemma readonly_config_ListForService: "readonly (config_ListForService D p i)"
  unfolding config_ListForService_def map_m_def
  by (intro reads.obeys_rules reads.obeys_cases readonly_config_store readonly_Authorize)

lemma atomic_config_handlers: "atomic (config_Set D A rnd p inp)" "atomic (config_Delete D p del)"
  unfolding config_Set_def config_Delete_def map_m_def
  by (auto intro!: atomic_rules atomic_read_bind readonly_resolveScope readonly_Authorize reads.obeys_rules atomic_cases)

lemma atomic_config_serve: "atomic (config_serve D A p q)"
  by (cases q)
     (simp_all add: config_serve_def atomic_finish atomic_config_handlers atomic_readonly readonly_config_ListForService)

section \<open>The configuration as a map\<close>

text \<open>What the module promises: for each service or environment and each key at most one entry, a plain
  variable or a sealed secret.\<close>

datatype config_target = ServiceTarget string | EnvironmentTarget string

datatype content = Plain string | Sealed string

fun at_target :: "config_target \<Rightarrow> string \<Rightarrow> ConfigEntry_row \<Rightarrow> bool" where
  "at_target (ServiceTarget i) k e = (ce_ServiceID e = Some i \<and> ce_Key e = k)"
| "at_target (EnvironmentTarget i) k e = (ce_EnvironmentID e = Some i \<and> ce_Key e = k)"

fun target_key :: "config_target \<Rightarrow> string \<Rightarrow> string option \<times> string option \<times> string" where
  "target_key (ServiceTarget i) k = (Some i, None, k)"
| "target_key (EnvironmentTarget i) k = (None, Some i, k)"

definition entry_key :: "ConfigEntry_row \<Rightarrow> string option \<times> string option \<times> string" where
  "entry_key e = (ce_ServiceID e, ce_EnvironmentID e, ce_Key e)"

definition content_of :: "ConfigEntry_row \<Rightarrow> content" where
  "content_of e = (case ce_Value e of Some v \<Rightarrow> Plain v | None \<Rightarrow> Sealed (ce_Ciphertext e))"

definition abs_config :: "database \<Rightarrow> config_target \<times> string \<rightharpoonup> content" where
  "abs_config d = (\<lambda>(t, k). map_option content_of (find (at_target t k) (config_entries d)))"

definition config_wf :: "database \<Rightarrow> bool" where
  "config_wf d \<longleftrightarrow> distinct (map entry_key (config_entries d)) \<and> (\<forall>e \<in> set (config_entries d). config_entry_ok e)"

fun target_workspace :: "database \<Rightarrow> config_target \<Rightarrow> string option" where
  "target_workspace d (ServiceTarget i) = map_option rs_WorkspaceID (find (\<lambda>r. rs_ID r = i) (services d))"
| "target_workspace d (EnvironmentTarget i) = environment_workspace d i"

definition scope_target :: "string \<Rightarrow> string \<Rightarrow> string \<Rightarrow> config_target" where
  "scope_target scope serviceID environmentID =
     (if scope = ScopeService then ServiceTarget serviceID else EnvironmentTarget environmentID)"

lemma at_target_iff: "config_entry_ok e \<Longrightarrow> at_target t k e \<longleftrightarrow> entry_key e = target_key t k"
  by (cases t) (auto simp: config_entry_ok_def entry_key_def)

lemma target_key_inject [simp]: "target_key t k = target_key t' k' \<longleftrightarrow> t = t' \<and> k = k'"
  by (cases t; cases t') auto

lemma find_at_target:
  assumes "config_wf d"
  shows "find (at_target t k) (config_entries d) = find (\<lambda>e. entry_key e = target_key t k) (config_entries d)"
  using assms at_target_iff by (intro find_cong) (auto simp: config_wf_def)

lemma abs_config_Some:
  assumes "config_wf d"
  shows "abs_config d (t, k) = Some c \<longleftrightarrow>
    (\<exists>e \<in> set (config_entries d). entry_key e = target_key t k \<and> content_of e = c)"
proof
  assume "abs_config d (t, k) = Some c"
  then show "\<exists>e \<in> set (config_entries d). entry_key e = target_key t k \<and> content_of e = c"
    by (auto simp: abs_config_def find_at_target [OF assms] dest: find_Some_mem)
next
  assume "\<exists>e \<in> set (config_entries d). entry_key e = target_key t k \<and> content_of e = c"
  then obtain e where e: "e \<in> set (config_entries d)" "entry_key e = target_key t k" "content_of e = c" by blast
  have "find (\<lambda>x. entry_key x = entry_key e) (config_entries d) = Some e"
    using assms e(1) by (intro find_key_unique) (auto simp: config_wf_def)
  with e show "abs_config d (t, k) = Some c" by (simp add: abs_config_def find_at_target [OF assms])
qed

lemma upsert_config_run:
  assumes "upsert_config (at_target t k) fk mk w = (Inr r, w')" and "config_wf (db w)"
    and "\<And>v. entry_key (mk v) = target_key t k"
  obtains es where "db w' = (db w)\<lparr>config_entries := es\<rparr>" and "config_wf (db w')" and "config_entry_ok r"
    and "entry_key r = target_key t k" and "content_of r = content_of (mk (w\<lparr>ops := Suc (ops w)\<rparr>))"
    and "ce_Type r = ce_Type (mk (w\<lparr>ops := Suc (ops w)\<rparr>))"
    and "abs_config (db w') = (abs_config (db w))((t, k) \<mapsto> content_of r)"
proof -
  let ?n = "mk (w\<lparr>ops := Suc (ops w)\<rparr>)"
  let ?f = "\<lambda>e. e\<lparr>ce_Type := ce_Type ?n, ce_Value := ce_Value ?n, ce_Ciphertext := ce_Ciphertext ?n, ce_UpdatedAt := now w\<rparr>"
  have keep: "entry_key (?f e) = entry_key e" "content_of (?f e) = content_of ?n" for e
    by (simp_all add: entry_key_def content_of_def split: option.split)
  from assms(1) have ok: "config_entry_ok ?n" and cases:
    "(\<exists>e. find (at_target t k) (config_entries (db w)) = Some e \<and> r = ?f e \<and> config_entry_ok (?f e) \<and>
        db w' = (db w)\<lparr>config_entries := update_where (at_target t k) ?f (config_entries (db w))\<rparr>) \<or>
     find (at_target t k) (config_entries (db w)) = None \<and> r = ?n \<and> db w' = (db w)\<lparr>config_entries := config_entries (db w) @ [?n]\<rparr>"
    by (auto simp: upsert_config_def succ_iff Let_def split: if_splits option.splits)
  from cases show ?thesis
  proof (elim disjE exE conjE)
    fix e
    assume e: "find (at_target t k) (config_entries (db w)) = Some e" and r: "r = ?f e" "config_entry_ok (?f e)"
      and w': "db w' = (db w)\<lparr>config_entries := update_where (at_target t k) ?f (config_entries (db w))\<rparr>"
    from find_Some_mem [OF e] assms(2) have ek: "entry_key e = target_key t k" "e \<in> set (config_entries (db w))"
      using at_target_iff by (auto simp: config_wf_def)
    have only: "x = e" if "x \<in> set (config_entries (db w))" "at_target t k x" for x
    proof -
      have "entry_key x = entry_key e" using that at_target_iff assms(2) ek(1) by (auto simp: config_wf_def)
      with that(1) ek(2) assms(2) show ?thesis unfolding config_wf_def distinct_map by (meson inj_onD)
    qed
    have wf: "config_wf (db w')"
      using assms(2) r(2) only by (auto simp: config_wf_def w' map_update_where keep(1) set_update_where)
    have "abs_config (db w') (t', k') = ((abs_config (db w))((t, k) \<mapsto> content_of r)) (t', k')" for t' k'
    proof -
      have "find (\<lambda>x. entry_key x = target_key t' k') (config_entries (db w')) =
          map_option (\<lambda>x. if at_target t k x then ?f x else x) (find (\<lambda>x. entry_key x = target_key t' k') (config_entries (db w)))"
        unfolding w' by (simp, rule find_update_where) (simp add: keep(1))
      with assms(2) show ?thesis
        using r(1) ek(1) e
        by (auto simp: abs_config_def find_at_target [OF wf] find_at_target [OF assms(2)] keep(2) option.map_comp comp_def
              config_wf_def at_target_iff dest!: find_Some_mem intro!: map_option_cong split: option.splits)
    qed
    then show ?thesis
      using wf r ek(1) keep by (intro that [OF w' wf]) (auto simp: fun_eq_iff keep)
  next
    assume no: "find (at_target t k) (config_entries (db w)) = None" and r: "r = ?n"
      and w': "db w' = (db w)\<lparr>config_entries := config_entries (db w) @ [?n]\<rparr>"
    have new: "entry_key ?n \<notin> entry_key ` set (config_entries (db w))"
      using no assms(3) unfolding find_at_target [OF assms(2)] find_None_iff by (metis imageE)
    then have wf: "config_wf (db w')" using assms(2) ok by (simp add: config_wf_def w')
    have "find (at_target t' k') (config_entries (db w')) =
        find (\<lambda>e. entry_key e = target_key t' k') (config_entries (db w) @ [?n])" for t' k'
      unfolding find_at_target [OF wf] by (simp add: w')
    then have "abs_config (db w') (t', k') = ((abs_config (db w))((t, k) \<mapsto> content_of r)) (t', k')" for t' k'
      using no r assms(3)
      by (auto simp: abs_config_def find_at_target [OF assms(2)] find_append split: option.splits)
    then show ?thesis
      using wf r ok assms(3) by (intro that [OF w' wf]) (auto simp: fun_eq_iff)
  qed
qed

lemma delete_config_run:
  assumes "delete_config (at_target t k) w = (Inr i, w')" and "config_wf (db w)"
  obtains e where "e \<in> set (config_entries (db w))" "ce_ID e = i" "entry_key e = target_key t k"
    and "abs_config (db w) (t, k) \<noteq> None" and "abs_config (db w') = (abs_config (db w))((t, k) := None)"
    and "config_wf (db w')"
    and "db w' = (db w)\<lparr>config_entries := filter (\<lambda>e. \<not> at_target t k e) (config_entries (db w))\<rparr>"
proof -
  from assms(1) obtain e where e: "find (at_target t k) (config_entries (db w)) = Some e" "i = ce_ID e"
    and w': "db w' = (db w)\<lparr>config_entries := filter (\<lambda>e. \<not> at_target t k e) (config_entries (db w))\<rparr>"
    by (auto simp: delete_config_def succ_iff)
  have wf: "config_wf (db w')" using assms(2) by (auto simp: config_wf_def w' distinct_map_filter)
  from find_Some_mem [OF e(1)] assms(2) have ek: "e \<in> set (config_entries (db w))" "entry_key e = target_key t k"
    using at_target_iff by (auto simp: config_wf_def)
  have "abs_config (db w') (t', k') = Some c \<longleftrightarrow> ((abs_config (db w))((t, k) := None)) (t', k') = Some c" for t' k' c
  proof -
    have "(\<exists>e \<in> set (config_entries (db w')). entry_key e = target_key t' k' \<and> content_of e = c) \<longleftrightarrow>
        (t', k') \<noteq> (t, k) \<and> (\<exists>e \<in> set (config_entries (db w)). entry_key e = target_key t' k' \<and> content_of e = c)"
      using assms(2) by (auto simp: w' config_wf_def at_target_iff)
    then show ?thesis by (simp add: abs_config_Some [OF wf] abs_config_Some [OF assms(2)])
  qed
  then have "abs_config (db w') x = ((abs_config (db w))((t, k) := None)) x" for x
    by (cases x) (metis (no_types, lifting) option.exhaust)
  then show ?thesis
    using e ek by (intro that [OF _ _ _ _ _ wf w', of e]) (auto simp: abs_config_def)
qed

lemma WorkspaceID_succ [succ_iff]:
  "WorkspaceIDForService i w = (Inr x, w') \<longleftrightarrow>
     \<not> faults w (ops w) \<and> w' = w\<lparr>ops := Suc (ops w)\<rparr> \<and> x = target_workspace (db w) (ServiceTarget i)"
  "WorkspaceIDForEnvironment i w = (Inr x, w') \<longleftrightarrow>
     \<not> faults w (ops w) \<and> w' = w\<lparr>ops := Suc (ops w)\<rparr> \<and> x = target_workspace (db w) (EnvironmentTarget i)"
  by (auto simp: WorkspaceIDForService_def WorkspaceIDForEnvironment_def db_GetServiceWorkspaceID_def
        db_GetEnvironmentWorkspaceID_def absent_ok_def catch_def bind_def select_one_def query_def Let_def
        split: if_splits option.splits)

definition resolves :: "deps \<Rightarrow> database \<Rightarrow> string \<Rightarrow> string \<Rightarrow> string \<Rightarrow> string \<times> string \<Rightarrow> bool" where
  "resolves D d sc i j y \<longleftrightarrow>
     target_workspace d (scope_target sc i j) = Some (fst y) \<and>
     (sc = ScopeService \<and> id_Parse D i \<and> snd y = i \<or> sc = ScopeEnvironment \<and> id_Parse D j \<and> snd y = j)"

lemma resolveScope_succ [succ_iff]:
  "resolveScope D sc i j w = (Inr y, w') \<longleftrightarrow>
     \<not> faults w (ops w) \<and> w' = w\<lparr>ops := Suc (ops w)\<rparr> \<and> resolves D (db w) sc i j y"
proof -
  have "resolveScope D sc i j w = (Inr y, w') \<longleftrightarrow>
      (sc = ScopeService \<and> id_Parse D i \<and> snd y = i \<or> sc = ScopeEnvironment \<and> id_Parse D j \<and> snd y = j) \<and>
      \<not> faults w (ops w) \<and> w' = w\<lparr>ops := Suc (ops w)\<rparr> \<and> target_workspace (db w) (scope_target sc i j) = Some (fst y)"
    by (cases "sc = ScopeService"; cases y) (auto simp: resolveScope_def scope_target_def succ_iff split: option.splits)
  then show ?thesis by (auto simp: resolves_def)
qed

lemma validateKey_Inr: "validateKey raw = Inr k \<longleftrightarrow> k = strings_TrimSpace raw \<and> length k \<le> 128 \<and> keyRe_MatchString k"
  by (auto simp: validateKey_def Let_def maxKeyLen_def)

definition known_type :: "string \<Rightarrow> bool" where "known_type x \<longleftrightarrow> x \<in> {TypeVariable, TypeSecret}"
definition known_scope :: "string \<Rightarrow> bool" where "known_scope x \<longleftrightarrow> x \<in> {ScopeService, ScopeEnvironment}"

lemma validate_id:
  "validateType x = Inr y \<longleftrightarrow> y = x \<and> known_type x" "validateScope x = Inr y \<longleftrightarrow> y = x \<and> known_scope x"
  by (auto simp: validateType_def validateScope_def known_type_def known_scope_def split: if_splits)

lemma Upsert_run:
  assumes "(if sc = ScopeService then UpsertServiceConfig kind x k val c else UpsertEnvironmentConfig kind x k val c) w = (Inr saved, w')"
    and "config_wf (db w)" and "sc = ScopeService \<and> x = i \<or> sc = ScopeEnvironment \<and> x = j"
  obtains r es where "saved = entryFromRow r" "config_wf (db w')" "db w' = (db w)\<lparr>config_entries := es\<rparr>"
    and "abs_config (db w') = (abs_config (db w))((scope_target sc i j, k) \<mapsto> (case val of Some v \<Rightarrow> Plain v | None \<Rightarrow> Sealed c))"
    and "ce_Type r = kind" "content_of r = (case val of Some v \<Rightarrow> Plain v | None \<Rightarrow> Sealed c)" "config_entry_ok r"
    and "entry_key r = target_key (scope_target sc i j) k"
proof -
  define mk where "mk w' = \<lparr>ce_ID = fresh_uuid w', ce_Type = kind, ce_Scope = sc,
      ce_ServiceID = (if sc = ScopeService then Some x else None), ce_EnvironmentID = (if sc = ScopeService then None else Some x),
      ce_Key = k, ce_Value = val, ce_Ciphertext = c, ce_CreatedAt = now w', ce_UpdatedAt = now w'\<rparr>" for w'
  from assms(1,3) obtain fk r where up: "upsert_config (at_target (scope_target sc i j) k) fk mk w = (Inr r, w')"
    and saved: "saved = entryFromRow r"
    by (auto simp: UpsertServiceConfig_def UpsertEnvironmentConfig_def db_UpsertServiceConfig_def db_UpsertEnvironmentConfig_def
          map_m_def succ_iff scope_target_def mk_def [abs_def] at_target.simps [abs_def] split: if_splits)
  have key: "entry_key (mk v) = target_key (scope_target sc i j) k" for v
    using assms(3) by (auto simp: mk_def entry_key_def scope_target_def)
  have c: "content_of (mk v) = (case val of Some v \<Rightarrow> Plain v | None \<Rightarrow> Sealed c)" and ty: "ce_Type (mk v) = kind" for v
    by (simp_all add: mk_def content_of_def split: option.split)
  obtain es where "db w' = (db w)\<lparr>config_entries := es\<rparr>" "config_wf (db w')" "config_entry_ok r"
      "entry_key r = target_key (scope_target sc i j) k" "content_of r = content_of (mk (w\<lparr>ops := Suc (ops w)\<rparr>))"
      "ce_Type r = ce_Type (mk (w\<lparr>ops := Suc (ops w)\<rparr>))"
      "abs_config (db w') = (abs_config (db w))((scope_target sc i j, k) \<mapsto> content_of r)"
    using up assms(2) key by (rule upsert_config_run)
  with saved c ty show ?thesis by (intro that [of r es]) simp_all
qed

lemma config_wf_frame: "config_entries d' = config_entries d \<Longrightarrow> config_wf d' = config_wf d \<and> abs_config d' = abs_config d"
  by (simp add: config_wf_def abs_config_def)

definition stored_content :: "AEAD \<Rightarrow> err + string \<Rightarrow> SetInput \<Rightarrow> content \<Rightarrow> bool" where
  "stored_content A rnd inp c \<longleftrightarrow>
     (if si_Type inp = TypeSecret then \<exists>x. Box_Seal A rnd (si_Value inp) = Inr x \<and> c = Sealed x
      else c = Plain (si_Value inp))"

lemma config_Set_run:
  assumes "config_Set D A rnd p inp w = (Inr saved, w')" and "config_wf (db w)"
  obtains t k ws c r a es where "t = scope_target (si_Scope inp) (si_ServiceID inp) (si_EnvironmentID inp)" "validateKey (si_Key inp) = Inr k"
    and "target_workspace (db w) t = Some ws" "permitted (db w) p ActionConfigSet ws" "si_Type inp \<in> {TypeVariable, TypeSecret}"
    and "si_Scope inp \<in> {ScopeService, ScopeEnvironment}" "stored_content A rnd inp c"
    and "saved = (entryFromRow r)\<lparr>cfg_WorkspaceID := ws\<rparr>" "content_of r = c" "ce_Type r = si_Type inp" "config_entry_ok r"
    and "entry_key r = target_key t k"
    and "config_wf (db w')" "abs_config (db w') = (abs_config (db w))((t, k) \<mapsto> c)"
    and "audit_row_of ''config.set'' ''config'' (ce_ID r) ws (UserID p) a"
    and "db w' = with_audit a ((db w)\<lparr>config_entries := es\<rparr>)"
proof -
  let ?t = "scope_target (si_Scope inp) (si_ServiceID inp) (si_EnvironmentID inp)"
  from assms(1) obtain k ws x n val ct e w0 where
    ty: "known_type (si_Type inp)" and sc: "known_scope (si_Scope inp)"
    and k: "validateKey (si_Key inp) = Inr k"
    and res: "resolves D (db w) (si_Scope inp) (si_ServiceID inp) (si_EnvironmentID inp) (ws, x)"
    and p: "permitted (db w) p ActionConfigSet ws" and st: "stored_form A rnd (si_Type inp) (si_Value inp) = Inr (val, ct)"
    and tx: "setTx (si_Scope inp) (si_Type inp) x k val ct ws p (w\<lparr>ops := n\<rparr>) = (Inr e, w0)"
    and "db w' = db w0" and saved: "saved = e\<lparr>cfg_WorkspaceID := ws\<rparr>"
    by (auto simp: config_Set_def map_m_def succ_iff validate_id)
  from tx obtain w1 w2 where
    up: "(if si_Scope inp = ScopeService then UpsertServiceConfig (si_Type inp) x k val ct
        else UpsertEnvironmentConfig (si_Type inp) x k val ct) (w\<lparr>ops := n\<rparr>) = (Inr e, w1)"
    and rec: "audit_Record ''config.set'' ''config'' (cfg_ID e) ws (UserID p) w1 = (Inr (), w2)" and "db w0 = db w2"
    by (auto simp: setTx_def bind_succ simp del: if_split)
  with \<open>db w' = db w0\<close> have "db w' = db w2" by simp
  have t: "target_workspace (db w) ?t = Some ws"
      "si_Scope inp = ScopeService \<and> x = si_ServiceID inp \<or> si_Scope inp = ScopeEnvironment \<and> x = si_EnvironmentID inp"
    using res by (auto simp: resolves_def)
  obtain r es where r: "e = entryFromRow r" "config_wf (db w1)" "db w1 = (db w)\<lparr>config_entries := es\<rparr>"
      "abs_config (db w1) = (abs_config (db w))((?t, k) \<mapsto> (case val of Some v \<Rightarrow> Plain v | None \<Rightarrow> Sealed ct))"
      "ce_Type r = si_Type inp" "content_of r = (case val of Some v \<Rightarrow> Plain v | None \<Rightarrow> Sealed ct)" "config_entry_ok r"
      "entry_key r = target_key ?t k"
    using Upsert_run [OF up _ t(2)] assms(2) by auto
  obtain a where a: "audit_row_of ''config.set'' ''config'' (cfg_ID e) ws (UserID p) a" "db w2 = with_audit a (db w1)"
    using rec by (rule audit_Record_db)
  have fr: "config_entries (db w') = config_entries (db w1)" using a(2) \<open>db w' = db w2\<close> by (simp add: with_audit_def)
  have "stored_content A rnd inp (content_of r)"
    using st r(6) by (auto simp: stored_content_def stored_form_def split: if_splits sum.splits)
  moreover from ty sc have "si_Type inp \<in> {TypeVariable, TypeSecret}" "si_Scope inp \<in> {ScopeService, ScopeEnvironment}"
    by (simp_all add: known_type_def known_scope_def)
  ultimately show ?thesis using k t(1) p r a saved config_wf_frame [OF fr] \<open>db w' = db w2\<close>
    by (intro that [of ?t k ws "content_of r" r a es]) (simp_all add: entryFromRow_def)
qed

lemma config_Delete_run:
  assumes "config_Delete D p inp w = (Inr u, w')" and "config_wf (db w)"
  obtains t k ws e a where "t = scope_target (cdi_Scope inp) (cdi_ServiceID inp) (cdi_EnvironmentID inp)" "validateKey (cdi_Key inp) = Inr k"
    and "target_workspace (db w) t = Some ws" "permitted (db w) p ActionConfigDelete ws" "e \<in> set (config_entries (db w))"
    and "abs_config (db w) (t, k) \<noteq> None" "abs_config (db w') = (abs_config (db w))((t, k) := None)" "config_wf (db w')"
    and "audit_row_of ''config.delete'' ''config'' (ce_ID e) ws (UserID p) a"
    and "db w' = with_audit a ((db w)\<lparr>config_entries := filter (\<lambda>e. \<not> at_target t k e) (config_entries (db w))\<rparr>)"
proof -
  let ?t = "scope_target (cdi_Scope inp) (cdi_ServiceID inp) (cdi_EnvironmentID inp)"
  from assms(1) obtain k ws x n w0 where k: "validateKey (cdi_Key inp) = Inr k"
    and res: "resolves D (db w) (cdi_Scope inp) (cdi_ServiceID inp) (cdi_EnvironmentID inp) (ws, x)"
    and p: "permitted (db w) p ActionConfigDelete ws"
    and tx: "deleteTx (cdi_Scope inp) x k ws p (w\<lparr>ops := n\<rparr>) = (Inr (), w0)" and "db w' = db w0"
    by (auto simp: config_Delete_def succ_iff validate_id)
  from tx obtain i w1 where
    del: "(if cdi_Scope inp = ScopeService then DeleteServiceConfig x k else DeleteEnvironmentConfig x k) (w\<lparr>ops := n\<rparr>) = (Inr (Some i), w1)"
    and rec: "audit_Record ''config.delete'' ''config'' i ws (UserID p) w1 = (Inr (), w0)"
    by (auto simp: deleteTx_def bind_succ simp del: if_split split: option.splits)
  have t: "target_workspace (db w) ?t = Some ws"
      "cdi_Scope inp = ScopeService \<and> x = cdi_ServiceID inp \<or> cdi_Scope inp = ScopeEnvironment \<and> x = cdi_EnvironmentID inp"
    using res by (auto simp: resolves_def)
  have "delete_config (at_target ?t k) (w\<lparr>ops := n\<rparr>) = (Inr i, w1)"
    using del t(2)
    by (auto simp: DeleteServiceConfig_def DeleteEnvironmentConfig_def db_DeleteServiceConfig_def db_DeleteEnvironmentConfig_def
          scope_target_def absent_ok_def catch_def bind_def at_target.simps [abs_def]
          split: if_splits sum.splits prod.splits)
  from delete_config_run [OF this, simplified, OF assms(2)]
  obtain e where e: "e \<in> set (config_entries (db w))" "ce_ID e = i" "abs_config (db w) (?t, k) \<noteq> None"
      "abs_config (db w1) = (abs_config (db w))((?t, k) := None)" "config_wf (db w1)"
      "db w1 = (db w)\<lparr>config_entries := filter (\<lambda>e. \<not> at_target ?t k e) (config_entries (db w))\<rparr>"
    by (metis option.distinct(1))
  obtain a where a: "audit_row_of ''config.delete'' ''config'' i ws (UserID p) a" "db w0 = with_audit a (db w1)"
    using rec by (rule audit_Record_db)
  have fr: "config_entries (db w') = config_entries (db w1)" using a(2) \<open>db w' = db w0\<close> by (simp add: with_audit_def)
  from k t(1) p e a config_wf_frame [OF fr] \<open>db w' = db w0\<close> show ?thesis
    by (intro that [of ?t k ws e a]) simp_all
qed

section \<open>From the map to the container\<close>

text \<open>The value a container gets of an entry, if the deployment may see it.\<close>

definition content_value :: "deps \<Rightarrow> bool \<Rightarrow> content \<Rightarrow> string option" where
  "content_value D includeSecrets c =
     (case c of
        Plain v \<Rightarrow> Some v
      | Sealed x \<Rightarrow> if includeSecrets then (case opener_Open D x of Inl _ \<Rightarrow> None | Inr v \<Rightarrow> Some v) else None)"

definition seen :: "deps \<Rightarrow> bool \<Rightarrow> content option \<Rightarrow> string option" where
  "seen D b x = (case x of None \<Rightarrow> None | Some c \<Rightarrow> content_value D b c)"

lemma layer_Some:
  assumes "distinct (map cfd_Key es)"
  shows "layer D es k = Some v \<longleftrightarrow> (\<exists>e \<in> set es. cfd_Key e = k \<and> value_of D e = v)"
proof -
  have "distinct (map fst (rev (map (\<lambda>e. (cfd_Key e, value_of D e)) es)))"
    using assms by (simp add: comp_def flip: rev_map)
  then show ?thesis unfolding layer_def by (auto simp: map_of_eq_Some_iff)
qed

definition rows_of :: "database \<Rightarrow> config_target \<Rightarrow> ConfigEntry_row list" where
  "rows_of d t = filter (\<lambda>e. at_target t (ce_Key e) e) (config_entries d)"

lemma distinct_rows_of:
  assumes "config_wf d"
  shows "distinct (map ce_Key (rows_of d t))"
proof -
  have "distinct (map entry_key (rows_of d t))" using assms by (simp add: config_wf_def rows_of_def distinct_map_filter)
  moreover have "entry_key e = target_key t (ce_Key e)" if "e \<in> set (rows_of d t)" for e
    using that assms by (auto simp: rows_of_def config_wf_def at_target_iff)
  ultimately show ?thesis unfolding distinct_map inj_on_def by auto
qed

lemma value_of_configFromRow:
  assumes "config_entry_ok e" and "\<exists>v. configValue D (configFromRow e) = Inr v" and "b \<or> ce_Type e \<noteq> ''secret''"
  shows "content_value D b (content_of e) = Some (value_of D (configFromRow e))"
  using assms
  by (auto simp: config_entry_ok_def content_value_def content_of_def value_of_def configValue_def configFromRow_def split: if_splits)

lemma content_value_hidden:
  assumes "config_entry_ok e" and "\<not> (b \<or> ce_Type e \<noteq> ''secret'')"
  shows "content_value D b (content_of e) = None"
  using assms by (auto simp: config_entry_ok_def content_value_def content_of_def)

text \<open>One layer of the container's environment is what the abstract map holds for its target.\<close>

lemma layer_target:
  assumes wf: "config_wf d" and es: "set es = configFromRow ` {e \<in> set (rows_of d t). b \<or> ce_Type e \<noteq> ''secret''}" "distinct (map cfd_Key es)"
    and ok: "\<forall>e \<in> set es. \<exists>v. configValue D e = Inr v"
  shows "layer D es k = seen D b (abs_config d (t, k))"
proof -
  have row: "e \<in> set (rows_of d t) \<and> ce_Key e = k \<longleftrightarrow> e \<in> set (config_entries d) \<and> entry_key e = target_key t k" for e
    using wf by (cases t) (auto simp: rows_of_def config_wf_def config_entry_ok_def entry_key_def)
  have "layer D es k = Some v \<longleftrightarrow> seen D b (abs_config d (t, k)) = Some v" for v
  proof -
    have "layer D es k = Some v \<longleftrightarrow>
        (\<exists>e. e \<in> set (config_entries d) \<and> entry_key e = target_key t k \<and> (b \<or> ce_Type e \<noteq> ''secret'') \<and> value_of D (configFromRow e) = v)"
      unfolding layer_Some [OF es(2)] es(1) using row by (auto simp: configFromRow_def)
    also have "\<dots> \<longleftrightarrow> (\<exists>e. e \<in> set (config_entries d) \<and> entry_key e = target_key t k \<and> content_value D b (content_of e) = Some v)"
    proof (intro ex_cong1 conj_cong refl)
      fix e
      assume e: "e \<in> set (config_entries d)" "entry_key e = target_key t k"
      then have "config_entry_ok e" using wf by (simp add: config_wf_def)
      moreover have "\<exists>v. configValue D (configFromRow e) = Inr v" if "b \<or> ce_Type e \<noteq> ''secret''"
        using ok row [of e] e that unfolding es(1) by blast
      ultimately show "(b \<or> ce_Type e \<noteq> ''secret'') \<and> value_of D (configFromRow e) = v \<longleftrightarrow> content_value D b (content_of e) = Some v"
        using value_of_configFromRow content_value_hidden by (metis option.distinct(1) option.inject)
    qed
    also have "\<dots> \<longleftrightarrow> (\<exists>c. abs_config d (t, k) = Some c \<and> content_value D b c = Some v)"
      unfolding abs_config_Some [OF wf] by blast
    finally show ?thesis by (auto simp: seen_def split: option.splits)
  qed
  then show ?thesis by (metis option.exhaust)
qed

lemma visible_config_of:
  assumes wf: "config_wf d" and s: "find (\<lambda>r. rs_ID r = sid) (services d) = Some s"
    and t: "sc = ScopeService \<and> t = ServiceTarget sid \<or> sc = ScopeEnvironment \<and> t = EnvironmentTarget (rs_EnvironmentID s)"
  shows "set (visible b sc (config_of d sid)) = configFromRow ` {e \<in> set (rows_of d t). b \<or> ce_Type e \<noteq> ''secret''}"
    and "distinct (map cfd_Key (visible b sc (config_of d sid)))"
proof -
  have sel: "e \<in> set (config_entries d) \<and> (ce_ServiceID e = Some sid \<or> ce_EnvironmentID e = Some (rs_EnvironmentID s)) \<and> ce_Scope e = sc \<longleftrightarrow>
      e \<in> set (rows_of d t)" for e
    using wf t by (auto simp: rows_of_def config_wf_def config_entry_ok_def)
  show set: "set (visible b sc (config_of d sid)) = configFromRow ` {e \<in> set (rows_of d t). b \<or> ce_Type e \<noteq> ''secret''}"
  proof -
    have "set (visible b sc (config_of d sid)) = configFromRow ` {e. (e \<in> set (config_entries d) \<and>
        (ce_ServiceID e = Some sid \<or> ce_EnvironmentID e = Some (rs_EnvironmentID s)) \<and> ce_Scope e = sc) \<and> (b \<or> ce_Type e \<noteq> ''secret'')}"
      using s by (auto simp: visible_def config_of_def configFromRow_def image_iff)
    then show ?thesis unfolding sel by simp
  qed
  define xs where "xs = filter (\<lambda>e. ce_Scope e = sc \<and> (b \<or> ce_Type e \<noteq> ''secret'')) (sort_key (\<lambda>e. (ce_Scope e, ce_Key e))
      (filter (\<lambda>e. ce_ServiceID e = Some sid \<or> ce_EnvironmentID e = Some (rs_EnvironmentID s)) (config_entries d)))"
  have vis: "visible b sc (config_of d sid) = map configFromRow xs"
    using s by (simp add: visible_def config_of_def xs_def filter_map comp_def configFromRow_def)
  have "distinct (config_entries d)" using wf by (auto simp: config_wf_def distinct_map)
  then have "distinct xs" by (simp add: xs_def)
  moreover have "set xs \<subseteq> set (rows_of d t)" using sel by (auto simp: xs_def)
  ultimately have "distinct (map ce_Key xs)"
    using distinct_rows_of [OF wf, of t] unfolding distinct_map by (meson inj_on_subset)
  then show "distinct (map cfd_Key (visible b sc (config_of d sid)))" by (simp add: vis comp_def configFromRow_def)
qed

lemma container_env:
  assumes wf: "config_wf d" and s: "find (\<lambda>r. rs_ID r = sid) (services d) = Some s"
    and env: "configEnv D b (config_of d sid) = Inr env"
  shows "env k = (case seen D b (abs_config d (ServiceTarget sid, k)) of
      Some v \<Rightarrow> Some v | None \<Rightarrow> seen D b (abs_config d (EnvironmentTarget (rs_EnvironmentID s), k)))"
proof -
  let ?s = "visible b ''service'' (config_of d sid)" and ?e = "visible b ''environment'' (config_of d sid)"
  from env have vals: "\<forall>x \<in> set ?e \<union> set ?s. \<exists>v. configValue D x = Inr v" and env: "env = layer D ?e ++ layer D ?s"
    unfolding configEnv_env by blast+
  have "layer D ?s k = seen D b (abs_config d (ServiceTarget sid, k))"
    by (rule layer_target [OF wf visible_config_of [OF wf s]]) (use vals in auto)
  moreover have "layer D ?e k = seen D b (abs_config d (EnvironmentTarget (rs_EnvironmentID s), k))"
    by (rule layer_target [OF wf visible_config_of [OF wf s]]) (use vals in auto)
  ultimately show ?thesis by (simp add: env map_add_def split: option.split)
qed

section \<open>Properties\<close>

text \<open>C13: the config module refines a finite map from (service or environment, key) to a plain value or
  a sealed secret. Setting an entry needs the permission on the workspace that owns the target and changes the map at
  exactly one point, replacing whatever the key held before; deleting needs the entry to exist and
  removes exactly that point; a failed request changes nothing; and the table keeps its shape: one
  well-formed entry per target and key.\<close>

theorem config_refines_map:
  assumes "config_wf (db w)"
  shows "(\<forall>saved w'. config_Set D A rnd p inp w = (Inr saved, w') \<longrightarrow>
            (\<exists>t k ws c. t = scope_target (si_Scope inp) (si_ServiceID inp) (si_EnvironmentID inp) \<and> validateKey (si_Key inp) = Inr k \<and>
               target_workspace (db w) t = Some ws \<and> permitted (db w) p ActionConfigSet ws \<and> stored_content A rnd inp c \<and>
               abs_config (db w') = (abs_config (db w))((t, k) \<mapsto> c)) \<and> config_wf (db w')) \<and>
         (\<forall>u w'. config_Delete D p del w = (Inr u, w') \<longrightarrow>
            (\<exists>t k ws. t = scope_target (cdi_Scope del) (cdi_ServiceID del) (cdi_EnvironmentID del) \<and> validateKey (cdi_Key del) = Inr k \<and>
               target_workspace (db w) t = Some ws \<and> permitted (db w) p ActionConfigDelete ws \<and> abs_config (db w) (t, k) \<noteq> None \<and>
               abs_config (db w') = (abs_config (db w))((t, k) := None)) \<and> config_wf (db w')) \<and>
         (\<forall>e w'. config_serve D A p q w = (Inl e, w') \<longrightarrow> db w' = db w)"
proof (intro conjI allI impI)
  fix saved w'
  assume "config_Set D A rnd p inp w = (Inr saved, w')"
  then show "\<exists>t k ws c. t = scope_target (si_Scope inp) (si_ServiceID inp) (si_EnvironmentID inp) \<and> validateKey (si_Key inp) = Inr k \<and>
       target_workspace (db w) t = Some ws \<and> permitted (db w) p ActionConfigSet ws \<and> stored_content A rnd inp c \<and>
       abs_config (db w') = (abs_config (db w))((t, k) \<mapsto> c)" "config_wf (db w')"
    using assms by (rule config_Set_run, blast)+
next
  fix u w'
  assume "config_Delete D p del w = (Inr u, w')"
  then show "\<exists>t k ws. t = scope_target (cdi_Scope del) (cdi_ServiceID del) (cdi_EnvironmentID del) \<and> validateKey (cdi_Key del) = Inr k \<and>
       target_workspace (db w) t = Some ws \<and> permitted (db w) p ActionConfigDelete ws \<and> abs_config (db w) (t, k) \<noteq> None \<and>
       abs_config (db w') = (abs_config (db w))((t, k) := None)" "config_wf (db w')"
    using assms by (rule config_Delete_run, blast)+
next
  fix e w'
  assume "config_serve D A p q w = (Inl e, w')"
  then show "db w' = db w" by (rule atomicD [OF atomic_config_serve])
qed

definition demo_aead :: AEAD where
  "demo_aead = \<lparr>aead_Seal = (\<lambda>nonce p. rev p), aead_Open = (\<lambda>nonce c. Some (rev c))\<rparr>"

abbreviation demo_nonce :: string where "demo_nonce \<equiv> replicate 12 CHR ''n''"

definition demo_set :: "string \<Rightarrow> string \<Rightarrow> SetInput" where
  "demo_set kind val = \<lparr>si_Type = kind, si_Scope = ''service'', si_ServiceID = ''git'', si_EnvironmentID = [], si_Key = '' DB_URL '', si_Value = val\<rparr>"

lemma demo_trim: "strings_TrimSpace '' DB_URL '' = ''DB_URL''"
  by code_simp

lemma demo_config_wf: "config_wf (db (demo_world []))"
  by (simp add: config_wf_def demo_world_def demo_db_def)

lemma demo_set_runs:
  "isl (fst (config_Set demo_deps demo_aead (Inr demo_nonce) alice (demo_set TypeSecret ''hunter2'') (demo_world []))) = False"
  by (simp add: config_Set_def setTx_def resolveScope_def validateType_def validateScope_def validateKey_def demo_trim
        is_upper_def is_digit_def of_char_def maxKeyLen_def maxValueLen_def WorkspaceIDForService_def db_GetServiceWorkspaceID_def
        stored_form_def Box_Seal_def UpsertServiceConfig_def db_UpsertServiceConfig_def upsert_config_def config_entry_ok_def
        entryFromRow_def demo_set_def demo_aead_def exec_defs demo_defs)

lemma demo_set_run:
  obtains saved w' where "config_Set demo_deps demo_aead (Inr demo_nonce) alice (demo_set TypeSecret ''hunter2'') (demo_world []) = (Inr saved, w')"
  using demo_set_runs by (metis isl_def old.prod.exhaust fst_conv old.sum.exhaust)

lemma demo_key: "validateKey '' DB_URL '' = Inr ''DB_URL''"
  by (simp add: validateKey_def demo_trim is_upper_def is_digit_def of_char_def maxKeyLen_def)

theorem config_refines_map_witness:
  "\<exists>saved w'. config_Set demo_deps demo_aead (Inr demo_nonce) alice (demo_set TypeSecret ''hunter2'') (demo_world []) = (Inr saved, w') \<and>
     abs_config (db w') (ServiceTarget ''git'', ''DB_URL'') = Some (Sealed (demo_nonce @ ''2retnuh''))"
proof -
  obtain saved w' where run: "config_Set demo_deps demo_aead (Inr demo_nonce) alice (demo_set TypeSecret ''hunter2'') (demo_world []) = (Inr saved, w')"
    by (rule demo_set_run)
  from config_refines_map [OF demo_config_wf, of demo_deps demo_aead "Inr demo_nonce" alice "demo_set TypeSecret ''hunter2''"] run
  have "\<exists>c. stored_content demo_aead (Inr demo_nonce) (demo_set TypeSecret ''hunter2'') c \<and>
      abs_config (db w') (ServiceTarget ''git'', ''DB_URL'') = Some c"
    by (fastforce simp: scope_target_def demo_set_def demo_key)
  then show ?thesis using run by (auto simp: stored_content_def demo_set_def Box_Seal_def demo_aead_def)
qed

text \<open>C16: a value set in the dashboard is the value the container sees. After a variable or secret of a service was
  set, and as long as the configuration table is left alone, every environment computed for a deployment of
  that service maps the (trimmed) key to exactly the plaintext that was set, whether it was stored
  plain or sealed. The one exception is the intended one: a preview gets the environment's variable of that
  name, if any, in place of a service's secret.\<close>

theorem set_value_reaches_container:
  assumes "config_wf (db w)" and "config_Set D A (Inr nonce) p inp w = (Inr saved, w')" and "si_Scope inp = ScopeService"
    and "aead_law A" and "length nonce = NonceSize" and "opener_Open D = Box_Open A"
    and "config_entries (db u) = config_entries (db w')" and "services (db u) = services (db w')"
    and "configEnvForService D (si_ServiceID inp) includeSecrets u = (Inr env, u')"
  shows "\<exists>s \<in> set (services (db u)). rs_ID s = si_ServiceID inp \<and>
    env (strings_TrimSpace (si_Key inp)) =
      (if includeSecrets \<or> si_Type inp = TypeVariable then Some (si_Value inp)
       else seen D False (abs_config (db u) (EnvironmentTarget (rs_EnvironmentID s), strings_TrimSpace (si_Key inp))))"
proof -
  let ?k = "strings_TrimSpace (si_Key inp)"
  obtain t k ws c r a es where t: "t = scope_target (si_Scope inp) (si_ServiceID inp) (si_EnvironmentID inp)" "validateKey (si_Key inp) = Inr k"
    and ws: "target_workspace (db w) t = Some ws" and "permitted (db w) p ActionConfigSet ws"
    and ty: "si_Type inp \<in> {TypeVariable, TypeSecret}"
    and "si_Scope inp \<in> {ScopeService, ScopeEnvironment}" and c: "stored_content A (Inr nonce) inp c"
    and "saved = (entryFromRow r)\<lparr>cfg_WorkspaceID := ws\<rparr>" "content_of r = c" "ce_Type r = si_Type inp" "config_entry_ok r"
      "entry_key r = target_key t k"
    and wf: "config_wf (db w')" and abs: "abs_config (db w') = (abs_config (db w))((t, k) \<mapsto> c)"
    and "audit_row_of ''config.set'' ''config'' (ce_ID r) ws (UserID p) a"
    and w': "db w' = with_audit a ((db w)\<lparr>config_entries := es\<rparr>)"
    using assms(2,1) by (rule config_Set_run)
  have k: "k = ?k" using t(2) by (simp add: validateKey_Inr)
  have t': "t = ServiceTarget (si_ServiceID inp)" using t(1) assms(3) by (simp add: scope_target_def)
  have "services (db u) = services (db w)" using assms(8) w' by (simp add: with_audit_def)
  then obtain s where s: "find (\<lambda>r. rs_ID r = si_ServiceID inp) (services (db u)) = Some s" using ws t' by auto
  have fr: "config_wf (db u)" "abs_config (db u) = abs_config (db w')" using config_wf_frame [OF assms(7)] wf by simp_all
  have seen: "seen D includeSecrets (Some c) = (if includeSecrets \<or> si_Type inp = TypeVariable then Some (si_Value inp) else None)"
    using c ty assms(6) Box_Open_Seal [OF assms(4,5)]
    by (auto simp: seen_def stored_content_def content_value_def split: if_splits)
  have "env ?k = (case seen D includeSecrets (Some c) of Some v \<Rightarrow> Some v
      | None \<Rightarrow> seen D includeSecrets (abs_config (db u) (EnvironmentTarget (rs_EnvironmentID s), ?k)))"
    using container_env [OF fr(1) s, of D includeSecrets env ?k] assms(9) fr(2) abs k t'
    by (simp add: configEnvForService_succ)
  then show ?thesis using seen find_Some_mem [OF s] by (intro bexI [of _ s]) auto
qed

definition demo_sealing :: deps where
  "demo_sealing = demo_deps\<lparr>opener_Open := Box_Open demo_aead\<rparr>"

definition demo_sealed :: ConfigEntry_row where
  "demo_sealed = \<lparr>ce_ID = ''uuid-'' @ nat_digits 0, ce_Type = ''secret'', ce_Scope = ''service'', ce_ServiceID = Some ''git'', ce_EnvironmentID = None,
     ce_Key = ''DB_URL'', ce_Value = None, ce_Ciphertext = demo_nonce @ ''2retnuh'', ce_CreatedAt = 100, ce_UpdatedAt = 100\<rparr>"

definition demo_sealed_world :: world where
  "demo_sealed_world = (demo_world [])\<lparr>db := demo_db\<lparr>config_entries := [demo_sealed]\<rparr>\<rparr>"

lemma demo_sealing_run:
  "isl (fst (config_Set demo_sealing demo_aead (Inr demo_nonce) alice (demo_set TypeSecret ''hunter2'') (demo_world []))) = False"
  "let d = db (snd (config_Set demo_sealing demo_aead (Inr demo_nonce) alice (demo_set TypeSecret ''hunter2'') (demo_world []))) in
   config_entries d = [demo_sealed] \<and> services d = services demo_db"
  by (simp_all add: config_Set_def setTx_def resolveScope_def validateType_def validateScope_def validateKey_def demo_trim
        is_upper_def is_digit_def of_char_def maxKeyLen_def maxValueLen_def WorkspaceIDForService_def db_GetServiceWorkspaceID_def
        stored_form_def Box_Seal_def UpsertServiceConfig_def db_UpsertServiceConfig_def upsert_config_def config_entry_ok_def
        entryFromRow_def demo_sealing_def demo_set_def demo_aead_def demo_sealed_def exec_defs demo_defs)

theorem set_value_reaches_container_witness:
  "\<exists>env u'. configEnvForService demo_sealing ''git'' True demo_sealed_world = (Inr env, u') \<and> env ''DB_URL'' = Some ''hunter2''"
proof -
  obtain saved w' where run: "config_Set demo_sealing demo_aead (Inr demo_nonce) alice (demo_set TypeSecret ''hunter2'') (demo_world []) = (Inr saved, w')"
    using demo_sealing_run(1) by (metis isl_def old.prod.exhaust fst_conv old.sum.exhaust)
  have w': "config_entries (db w') = [demo_sealed]" "services (db w') = services demo_db" using demo_sealing_run(2) run by (simp_all add: Let_def)
  have law: "aead_law demo_aead" by (simp add: aead_law_def demo_aead_def)
  obtain env u' where env: "configEnvForService demo_sealing ''git'' True demo_sealed_world = (Inr env, u')"
    by (simp add: configEnvForService_def ConfigForService_def db_ListConfigForService_def configEnv_def configValue_def configFromRow_def
          Box_Open_def NonceSize_def demo_sealed_world_def demo_sealing_def demo_sealed_def demo_aead_def run_defs map_m_def Let_def demo_defs)
  have "env (strings_TrimSpace '' DB_URL '') = Some ''hunter2''"
    using set_value_reaches_container [OF demo_config_wf run _ law, of demo_sealed_world True env u'] env w'
    by (auto simp: demo_set_def demo_sealing_def demo_sealed_world_def NonceSize_def)
  with env show ?thesis by (auto simp: demo_trim)
qed

definition reseal :: "(ConfigEntry_row \<Rightarrow> string) \<Rightarrow> database \<Rightarrow> database" where
  "reseal f d = d\<lparr>config_entries := map (\<lambda>e. e\<lparr>ce_Ciphertext := f e\<rparr>) (config_entries d)\<rparr>"

lemma insort_key_map: "insort_key k (g x) (map g xs) = map g (insort_key (\<lambda>y. k (g y)) x xs)"
  by (induction xs) auto

lemma sort_key_map: "sort_key k (map g xs) = map g (sort_key (\<lambda>y. k (g y)) xs)"
  by (induction xs) (simp_all add: insort_key_map)

lemma reseal_frame [simp]:
  "services (reseal f d) = services d" "workspace_members (reseal f d) = workspace_members d"
  by (simp_all add: reseal_def)

definition listed :: "database \<Rightarrow> string \<Rightarrow> Entry list" where
  "listed d serviceID = map entryFromRow (sort_key (\<lambda>e. (ce_Scope e, ce_Key e))
     (filter (\<lambda>e. ce_ServiceID e = Some serviceID \<or>
        (case find (\<lambda>r. rs_ID r = serviceID) (services d) of
           None \<Rightarrow> False | Some r \<Rightarrow> ce_EnvironmentID e = Some (rs_EnvironmentID r))) (config_entries d)))"

lemma entryFromRow_reseal [simp]: "entryFromRow (e\<lparr>ce_Ciphertext := c\<rparr>) = entryFromRow e"
  by (simp add: entryFromRow_def)

lemma listed_reseal [simp]: "listed (reseal f d) i = listed d i"
  by (cases "find (\<lambda>r. rs_ID r = i) (services d)") (simp_all add: listed_def reseal_def filter_map sort_key_map comp_def)

lemma store_ListConfig_run:
  "store_ListConfig i w =
     (if faults w (ops w) then Inl (Opaque ''database unavailable'') else Inr (listed (db w) i), w\<lparr>ops := Suc (ops w)\<rparr>)"
  by (simp add: store_ListConfig_def db_ListConfigForService_def map_m_def listed_def run_defs Let_def)

text \<open>C17: secrets are write-only. What a listing returns does not depend on any ciphertext in the table, and
  no entry returned by a listing or by the request that set it carries a secret's value.\<close>

theorem secrets_write_only:
  "fst (config_ListForService D p sid (w\<lparr>db := reseal f (db w)\<rparr>)) = fst (config_ListForService D p sid w) \<and>
   (config_wf (db w) \<longrightarrow>
     (\<forall>es w'. config_ListForService D p sid w = (Inr es, w') \<longrightarrow> (\<forall>e \<in> set es. cfg_Type e = TypeSecret \<longrightarrow> cfg_Value e = [])) \<and>
     (\<forall>saved w'. config_Set D A rnd p inp w = (Inr saved, w') \<longrightarrow> cfg_Type saved = TypeSecret \<longrightarrow> cfg_Value saved = []))"
proof (intro conjI impI allI ballI)
  show "fst (config_ListForService D p sid (w\<lparr>db := reseal f (db w)\<rparr>)) = fst (config_ListForService D p sid w)"
    by (simp add: config_ListForService_def WorkspaceIDForService_def db_GetServiceWorkspaceID_def absent_ok_def map_m_def run_defs Let_def
          store_ListConfig_run Authorize_def RoleForUser_def db_GetWorkspaceMemberRole_def
          split: option.split)
next
  fix es w' e
  assume wf: "config_wf (db w)" and "config_ListForService D p sid w = (Inr es, w')" and e: "e \<in> set es" "cfg_Type e = TypeSecret"
  then obtain r where "r \<in> set (config_entries (db w))" "cfg_Type e = ce_Type r" "cfg_Value e = (case ce_Value r of None \<Rightarrow> [] | Some v \<Rightarrow> v)"
    by (auto simp: config_ListForService_def map_m_def store_ListConfig_def db_ListConfigForService_def succ_iff entryFromRow_def
          split: option.splits)
  then show "cfg_Value e = []" using wf e(2) by (auto simp: config_wf_def config_entry_ok_def)
next
  fix saved w'
  assume "config_wf (db w)" and "config_Set D A rnd p inp w = (Inr saved, w')" and s: "cfg_Type saved = TypeSecret"
  then obtain r ws where "saved = (entryFromRow r)\<lparr>cfg_WorkspaceID := ws\<rparr>" "config_entry_ok r" by (metis config_Set_run)
  then show "cfg_Value saved = []" using s by (auto simp: entryFromRow_def config_entry_ok_def)
qed

theorem secrets_write_only_witness:
  "\<exists>saved w'. config_Set demo_sealing demo_aead (Inr demo_nonce) alice (demo_set TypeSecret ''hunter2'') (demo_world []) = (Inr saved, w') \<and>
     cfg_Type saved = TypeSecret \<and> cfg_Value saved = []"
proof -
  obtain saved w' where run: "config_Set demo_sealing demo_aead (Inr demo_nonce) alice (demo_set TypeSecret ''hunter2'') (demo_world []) = (Inr saved, w')"
    using demo_sealing_run(1) by (metis isl_def old.prod.exhaust fst_conv old.sum.exhaust)
  then have "cfg_Type saved = TypeSecret"
    by (rule config_Set_run [OF _ demo_config_wf]) (simp add: entryFromRow_def demo_set_def)
  with run secrets_write_only [where D = demo_sealing and p = alice and w = "demo_world []" and A = demo_aead and rnd = "Inr demo_nonce" and inp = "demo_set TypeSecret ''hunter2''"]
    demo_config_wf show ?thesis by blast
qed

end
