(* ===== verification/Domains.thy ===== *)
theory Domains
  imports Configuration
begin

text \<open>
  The module \<^verbatim>\<open>internal/domains\<close> with its queries: attaching a hostname to a service, checking that
  its DNS records point at the service's generated host, and listing and deleting. DNS, the public
  suffix list and the parsing of IP addresses and URLs are the fields of a parameter: each request sees one answer
  per name.
\<close>

section \<open>Network libraries\<close>

record netlib =
  LookupHost :: "string \<Rightarrow> err + string list"
  LookupCNAME :: "string \<Rightarrow> err + string"
  EffectiveTLDPlusOne :: "string \<Rightarrow> err + string"
  ParseIP :: "string \<Rightarrow> string option"
  url_Hostname :: "string \<Rightarrow> string option"

text \<open>\<open>strings.TrimSuffix(s, ".")\<close>, \<open>strings.Contains\<close>, \<open>strings.Split(s, sep)\<close> for a one-byte separator.\<close>

definition trim_dot :: "string \<Rightarrow> string" where
  "trim_dot s = (if s \<noteq> [] \<and> last s = CHR ''.'' then butlast s else s)"

fun strings_Contains :: "string \<Rightarrow> string \<Rightarrow> bool" where
  "strings_Contains [] sub = (sub = [])"
| "strings_Contains (c # cs) sub = (take (length sub) (c # cs) = sub \<or> strings_Contains cs sub)"

fun strings_Split :: "char \<Rightarrow> string \<Rightarrow> string list" where
  "strings_Split sep [] = [[]]"
| "strings_Split sep (c # cs) =
     (if c = sep then [] # strings_Split sep cs
      else case strings_Split sep cs of [] \<Rightarrow> [[c]] | p # ps \<Rightarrow> (c # p) # ps)"

text \<open>\<open>strings.EqualFold\<close>, exact on ASCII; the two runes that fold onto ASCII letters (U+212A onto
  \<open>k\<close>, U+017F onto \<open>s\<close>) are written out, other non-ASCII bytes compare as they are.\<close>

fun fold_case :: "string \<Rightarrow> string" where
  "fold_case [] = []"
| "fold_case (c # cs) =
     (if c = CHR 0xC5 \<and> take 1 cs = [CHR 0xBF] then CHR ''s'' # fold_case (drop 1 cs)
      else if c = CHR 0xE2 \<and> take 2 cs = [CHR 0x84, CHR 0xAA] then CHR ''k'' # fold_case (drop 2 cs)
      else ascii_lower c # fold_case cs)"

definition strings_EqualFold :: "string \<Rightarrow> string \<Rightarrow> bool" where
  "strings_EqualFold a b \<longleftrightarrow> fold_case a = fold_case b"

section \<open>Hostnames\<close>

definition maxHostnameLen :: nat where "maxHostnameLen = 253"

definition label_char :: "char \<Rightarrow> bool" where
  "label_char c \<longleftrightarrow> (97 \<le> (of_char c :: nat) \<and> (of_char c :: nat) \<le> 122) \<or> is_digit c \<or> c = CHR ''-''"

text \<open>\<open>%q\<close> of a rune, on ASCII.\<close>

definition fmt_rune_q :: "char \<Rightarrow> string" where
  "fmt_rune_q c =
     (if c = CHR 0x27 then [CHR 0x27, CHR 0x5C, CHR 0x27, CHR 0x27]
      else if c = CHR 0x22 then [CHR 0x27, CHR 0x22, CHR 0x27]
      else [CHR 0x27] @ quote_char c @ [CHR 0x27])"

definition validateLabel :: "string \<Rightarrow> err option" where
  "validateLabel label =
     (if label = [] then Some (InvalidInput ''domain labels must not be empty'')
      else if length label > 63 then Some (InvalidInput (''domain label '' @ fmt_q label @ '' is too long''))
      else if hd label = CHR ''-'' \<or> last label = CHR ''-''
      then Some (InvalidInput (''domain label '' @ fmt_q label @ '' must not start or end with '' @ fmt_rune_q (CHR ''-'')))
      else case find (\<lambda>c. \<not> label_char c) label of
             None \<Rightarrow> None
           | Some c \<Rightarrow> Some (InvalidInput (''domain label '' @ fmt_q label @ '' contains invalid character '' @ fmt_rune_q c)))"

fun first_error :: "('a \<Rightarrow> err option) \<Rightarrow> 'a list \<Rightarrow> err option" where
  "first_error f [] = None"
| "first_error f (x # xs) = (case f x of Some e \<Rightarrow> Some e | None \<Rightarrow> first_error f xs)"

definition normalizeHostname :: "string \<Rightarrow> err + string" where
  "normalizeHostname raw =
     (let host = trim_dot (strings_TrimSpace (strings_ToLower raw)); labels = strings_Split (CHR ''.'') host in
      if host = [] then Inl (InvalidInput ''domain is required'')
      else if strings_Contains host ''://'' then Inl (InvalidInput ''domain must not include http:// or https://'')
      else if strings_ContainsAny host ''/?#'' then Inl (InvalidInput ''domain must not include a path or query string'')
      else if strings_Contains host '':'' then Inl (InvalidInput ''domain must not include a port'')
      else if take 2 host = ''*.'' then Inl (InvalidInput ''wildcard domains are not supported yet'')
      else if strings_Contains host ''*'' then Inl (InvalidInput ''wildcard domains are not supported yet'')
      else if length host > maxHostnameLen then Inl (InvalidInput ''domain must be at most 253 characters'')
      else if length labels < 2 then Inl (InvalidInput ''domain must include a public suffix, e.g. app.example.com'')
      else case first_error validateLabel labels of Some e \<Rightarrow> Inl e | None \<Rightarrow> Inr host)"

section \<open>Domain types and queries\<close>

abbreviation StatusBlocked :: string where "StatusBlocked \<equiv> ''blocked''"
abbreviation StatusPendingDNS :: string where "StatusPendingDNS \<equiv> ''pending_dns''"
abbreviation StatusVerified :: string where "StatusVerified \<equiv> ''verified''"
abbreviation StatusActive :: string where "StatusActive \<equiv> ''active''"
abbreviation DomainFailed :: string where "DomainFailed \<equiv> ''failed''"
abbreviation RecordCNAME :: string where "RecordCNAME \<equiv> ''CNAME''"
abbreviation RecordA :: string where "RecordA \<equiv> ''A''"

record Domain =
  dom_ID :: string
  dom_ServiceID :: string
  dom_EnvironmentID :: string
  dom_ProjectID :: string
  dom_WorkspaceID :: string
  dom_Hostname :: string
  dom_Status :: string
  dom_StatusMessage :: string
  dom_DNSRecordType :: string
  dom_DNSRecordName :: string
  dom_DNSRecordValue :: string
  dom_CreatedAt :: int
  dom_UpdatedAt :: int
  dom_LastCheckedAt :: "int option"

record ServiceRoute =
  sr_ID :: string
  sr_EnvironmentID :: string
  sr_ProjectID :: string
  sr_WorkspaceID :: string
  sr_Visibility :: string
  sr_RouteURL :: string

definition domain_statuses :: "string set" where
  "domain_statuses = {StatusBlocked, StatusPendingDNS, StatusVerified, StatusActive, DomainFailed}"

definition db_CreateDomain :: "Domain \<Rightarrow> Domain_row m" where
  "db_CreateDomain d0 =
     insert_unique
       (\<lambda>w. \<lparr>dm_ID = fresh_uuid w, dm_ServiceID = dom_ServiceID d0, dm_EnvironmentID = dom_EnvironmentID d0,
             dm_ProjectID = dom_ProjectID d0, dm_WorkspaceID = dom_WorkspaceID d0, dm_Hostname = dom_Hostname d0,
             dm_Status = dom_Status d0, dm_StatusMessage = dom_StatusMessage d0, dm_LastCheckedAt = None,
             dm_CreatedAt = now w, dm_UpdatedAt = now w\<rparr>)
       (\<lambda>r. dm_Status r \<in> domain_statuses)
       (\<lambda>d r. dm_ID r \<notin> dm_ID ` set (domains d) \<and>
              (dm_WorkspaceID r, dm_Hostname r) \<notin> (\<lambda>x. (dm_WorkspaceID x, dm_Hostname x)) ` set (domains d))
       (\<lambda>d r. dm_ServiceID r \<in> rs_ID ` set (services d) \<and> dm_EnvironmentID r \<in> en_ID ` set (environments d) \<and>
              dm_ProjectID r \<in> pj_ID ` set (projects d) \<and> dm_WorkspaceID r \<in> wk_ID ` set (workspaces d))
       (\<lambda>r d. d\<lparr>domains := domains d @ [r]\<rparr>)"

definition db_DeleteDomain :: "string \<Rightarrow> string m" where
  "db_DeleteDomain i =
     update_one (\<lambda>_. True) (\<lambda>w d.
       map_option (\<lambda>r. (dm_ID r, d\<lparr>domains := filter (\<lambda>r. dm_ID r \<noteq> i) (domains d)\<rparr>)) (find (\<lambda>r. dm_ID r = i) (domains d)))"

definition db_GetDomain :: "string \<Rightarrow> Domain_row m" where
  "db_GetDomain i = select_one (\<lambda>d. find (\<lambda>r. dm_ID r = i) (domains d))"

definition db_GetDomainServiceForCreate :: "string \<Rightarrow> Service_row m" where
  "db_GetDomainServiceForCreate i = select_one (\<lambda>d. find (\<lambda>r. rs_ID r = i) (services d))"

definition list_domains :: "(Domain_row \<Rightarrow> bool) \<Rightarrow> Domain_row list m" where
  "list_domains p = select_many (\<lambda>d. sort_key (\<lambda>r. - dm_CreatedAt r) (filter p (domains d)))"

definition db_ListDomainsByProject :: "string \<Rightarrow> Domain_row list m" where
  "db_ListDomainsByProject i = list_domains (\<lambda>r. dm_ProjectID r = i)"

definition db_ListDomainsByService :: "string \<Rightarrow> Domain_row list m" where
  "db_ListDomainsByService i = list_domains (\<lambda>r. dm_ServiceID r = i)"

definition db_ListDomainsByWorkspace :: "string \<Rightarrow> Domain_row list m" where
  "db_ListDomainsByWorkspace i = list_domains (\<lambda>r. dm_WorkspaceID r = i)"

definition checked :: "string \<Rightarrow> string \<Rightarrow> int \<Rightarrow> Domain_row \<Rightarrow> Domain_row" where
  "checked status msg t r = r\<lparr>dm_Status := status, dm_StatusMessage := msg, dm_LastCheckedAt := Some t, dm_UpdatedAt := t\<rparr>"

definition db_UpdateDomainVerification :: "string \<Rightarrow> string \<Rightarrow> string \<Rightarrow> Domain_row m" where
  "db_UpdateDomainVerification i status msg =
     update_one (\<lambda>r. dm_Status r \<in> domain_statuses) (\<lambda>w d.
       map_option (\<lambda>r. (checked status msg (now w) r,
           d\<lparr>domains := update_where (\<lambda>r. dm_ID r = i) (checked status msg (now w)) (domains d)\<rparr>))
         (find (\<lambda>r. dm_ID r = i) (domains d)))"

section \<open>The repository\<close>

definition domainFromRow :: "Domain_row \<Rightarrow> Domain" where
  "domainFromRow r =
     \<lparr>dom_ID = dm_ID r, dom_ServiceID = dm_ServiceID r, dom_EnvironmentID = dm_EnvironmentID r, dom_ProjectID = dm_ProjectID r,
      dom_WorkspaceID = dm_WorkspaceID r, dom_Hostname = dm_Hostname r, dom_Status = dm_Status r,
      dom_StatusMessage = dm_StatusMessage r, dom_DNSRecordType = [], dom_DNSRecordName = [], dom_DNSRecordValue = [],
      dom_CreatedAt = dm_CreatedAt r, dom_UpdatedAt = dm_UpdatedAt r, dom_LastCheckedAt = dm_LastCheckedAt r\<rparr>"

definition serviceRouteFromRow :: "Service_row \<Rightarrow> ServiceRoute" where
  "serviceRouteFromRow r =
     \<lparr>sr_ID = rs_ID r, sr_EnvironmentID = rs_EnvironmentID r, sr_ProjectID = rs_ProjectID r, sr_WorkspaceID = rs_WorkspaceID r,
      sr_Visibility = rs_Visibility r, sr_RouteURL = rs_RouteUrl r\<rparr>"

definition store_CreateDomain :: "Domain \<Rightarrow> Domain m" where
  "store_CreateDomain d =
     map_m domainFromRow
       (on_unique (''domain '' @ fmt_q (dom_Hostname d) @ '' is already attached in this workspace'') (db_CreateDomain d))"

definition store_GetDomain :: "string \<Rightarrow> Domain option m" where
  "store_GetDomain i = absent_ok (map_m domainFromRow (db_GetDomain i))"

definition store_ListDomains :: "Domain_row list m \<Rightarrow> Domain list m" where
  "store_ListDomains q = map_m (map domainFromRow) q"

definition UpdateVerification :: "string \<Rightarrow> string \<Rightarrow> string \<Rightarrow> Domain m" where
  "UpdateVerification i status msg = map_m domainFromRow (db_UpdateDomainVerification i status msg)"

definition store_DeleteDomain :: "string \<Rightarrow> string option m" where
  "store_DeleteDomain i = absent_ok (db_DeleteDomain i)"

definition store_ServiceRoute :: "string \<Rightarrow> ServiceRoute option m" where
  "store_ServiceRoute i = absent_ok (map_m serviceRouteFromRow (db_GetDomainServiceForCreate i))"

definition domains_WorkspaceForProject :: "string \<Rightarrow> string option m" where
  "domains_WorkspaceForProject i = absent_ok (map_m pj_WorkspaceID (db_GetProject i))"

section \<open>Verification\<close>

definition generatedHost :: "netlib \<Rightarrow> string \<Rightarrow> string option" where
  "generatedHost N routeURL =
     (case url_Hostname N routeURL of
        None \<Rightarrow> None
      | Some h \<Rightarrow> if h = [] then None else Some (strings_ToLower (trim_dot h)))"

definition isApexDomain :: "netlib \<Rightarrow> string \<Rightarrow> bool" where
  "isApexDomain N host \<longleftrightarrow> EffectiveTLDPlusOne N host = Inr host"

fun collect_hosts :: "netlib \<Rightarrow> string list \<Rightarrow> string list \<Rightarrow> string list" where
  "collect_hosts N out [] = out"
| "collect_hosts N out (h # hs) =
     (let h = (case ParseIP N h of None \<Rightarrow> h | Some ip \<Rightarrow> ip) in
      if h = [] \<or> h \<in> set out then collect_hosts N out hs else collect_hosts N (out @ [h]) hs)"

definition hosts :: "netlib \<Rightarrow> string list \<Rightarrow> string list" where
  "hosts N hs = sort (collect_hosts N [] hs)"

definition intersects :: "string list \<Rightarrow> string list \<Rightarrow> bool" where
  "intersects a b = list_ex (\<lambda>v. v \<in> set a) b"

definition sameDNSName :: "string \<Rightarrow> string \<Rightarrow> bool" where
  "sameDNSName a b = strings_EqualFold (trim_dot a) (trim_dot b)"

definition resolveIPs :: "netlib \<Rightarrow> string \<Rightarrow> string list" where
  "resolveIPs N host = (case LookupHost N host of Inl _ \<Rightarrow> [] | Inr got \<Rightarrow> hosts N got)"

definition verify :: "netlib \<Rightarrow> Domain \<Rightarrow> ServiceRoute \<Rightarrow> string \<times> string" where
  "verify N d svc =
     (if sr_Visibility svc = ''private''
      then (StatusBlocked, ''Make the service public before attaching a custom domain.'')
      else case generatedHost N (sr_RouteURL svc) of
        None \<Rightarrow> (StatusBlocked, ''Deploy this public service first so Plorigo can create its generated domain.'')
      | Some target \<Rightarrow>
          if isApexDomain N (dom_Hostname d) then
            (case LookupHost N (dom_Hostname d) of
               Inl _ \<Rightarrow> (StatusPendingDNS, ''DNS is not pointing here yet. Add the shown A/AAAA records, wait for propagation, then verify again.'')
             | Inr got \<Rightarrow>
                 (case LookupHost N target of
                    Inl _ \<Rightarrow> (StatusPendingDNS, ''Plorigo could not resolve the generated domain yet. Wait for the generated route to resolve, then verify again.'')
                  | Inr want \<Rightarrow>
                      if want = []
                      then (StatusPendingDNS, ''Plorigo could not resolve the generated domain yet. Wait for the generated route to resolve, then verify again.'')
                      else if intersects (hosts N got) (hosts N want)
                      then (StatusVerified, ''DNS is verified. The agent will activate this domain on the next route sync.'')
                      else (StatusPendingDNS, ''DNS is not pointing to this service yet. Update the shown A/AAAA records, then verify again.'')))
          else (case LookupCNAME N (dom_Hostname d) of
                  Inr cname \<Rightarrow>
                    if sameDNSName cname target
                    then (StatusVerified, ''DNS is verified. The agent will activate this domain on the next route sync.'')
                    else (StatusPendingDNS, ''DNS is not pointing here yet. Add the shown CNAME record, wait for propagation, then verify again.'')
                | Inl _ \<Rightarrow> (StatusPendingDNS, ''DNS is not pointing here yet. Add the shown CNAME record, wait for propagation, then verify again.'')))"

definition initialStatus :: "ServiceRoute \<Rightarrow> string \<times> string" where
  "initialStatus svc =
     (if sr_Visibility svc = ''private''
      then (StatusBlocked, ''Make the service public before attaching a custom domain.'')
      else if sr_RouteURL svc = []
      then (StatusBlocked, ''Deploy this public service first so Plorigo can create its generated domain.'')
      else (StatusPendingDNS, ''Add the shown DNS record at your DNS provider, then verify this domain.''))"

text \<open>\<open>strings.Join(xs, ", ")\<close>.\<close>

fun join_comma :: "string list \<Rightarrow> string" where
  "join_comma [] = []"
| "join_comma [x] = x"
| "join_comma (x # y # xs) = x @ '', '' @ join_comma (y # xs)"

definition enrichWithService :: "netlib \<Rightarrow> Domain \<Rightarrow> ServiceRoute \<Rightarrow> Domain" where
  "enrichWithService N d0 svc =
     (let d = d0\<lparr>dom_DNSRecordName := dom_Hostname d0\<rparr> in
      if sr_Visibility svc = ''private'' \<or> sr_RouteURL svc = [] then d
      else case generatedHost N (sr_RouteURL svc) of
             None \<Rightarrow> d
           | Some target \<Rightarrow>
               if isApexDomain N (dom_Hostname d) then
                 let v = join_comma (resolveIPs N target) in
                 d\<lparr>dom_DNSRecordType := RecordA, dom_DNSRecordValue := (if v = [] then target else v)\<rparr>
               else d\<lparr>dom_DNSRecordType := RecordCNAME, dom_DNSRecordValue := target\<rparr>)"

section \<open>The service\<close>

text \<open>This module's \<open>mapErr\<close> repeats the operation in the wrapped error.\<close>

definition domains_mapErr :: "string \<Rightarrow> err \<Rightarrow> err" where
  "domains_mapErr op e = (case errors_As_problem e of Some _ \<Rightarrow> e | None \<Rightarrow> Internalf op (Wrapped op e))"

definition enrich :: "netlib \<Rightarrow> Domain \<Rightarrow> Domain m" where
  "enrich N d =
     catch (bind (store_ServiceRoute (dom_ServiceID d)) (\<lambda>found.
              ret (case found of None \<Rightarrow> d | Some svc \<Rightarrow> enrichWithService N d svc)))
       (\<lambda>_. ret d)"

fun enrichRows :: "netlib \<Rightarrow> Domain list \<Rightarrow> Domain list m" where
  "enrichRows N [] = ret []"
| "enrichRows N (d # ds) = bind (enrich N d) (\<lambda>d'. bind (enrichRows N ds) (\<lambda>ds'. ret (d' # ds')))"

definition domainAndService :: "string \<Rightarrow> (Domain \<times> ServiceRoute) m" where
  "domainAndService domainID =
     bind (map_err (Internalf ''get domain'') (store_GetDomain domainID)) (\<lambda>found.
     case found of
       None \<Rightarrow> fail (NotFound (''domain '' @ domainID @ '' not found''))
     | Some d \<Rightarrow>
         bind (map_err (Internalf ''get domain'') (store_ServiceRoute (dom_ServiceID d))) (\<lambda>found.
         case found of
           None \<Rightarrow> fail (NotFound (''service '' @ dom_ServiceID d @ '' not found''))
         | Some svc \<Rightarrow> ret (d, svc)))"

abbreviation domain_resource :: "string \<Rightarrow> string \<Rightarrow> Resource" where
  "domain_resource ws i \<equiv> \<lparr>res_Type = ''domain'', res_WorkspaceID = ws, res_ID = i\<rparr>"

definition createDomainTx :: "Domain \<Rightarrow> Principal \<Rightarrow> Domain m" where
  "createDomainTx candidate caller =
     bind (store_CreateDomain candidate) (\<lambda>saved.
     bind (audit_Record ''domain.create'' ''domain'' (dom_ID saved) (dom_WorkspaceID candidate) (UserID caller)) (\<lambda>_. ret saved))"

definition CreateDomain :: "deps \<Rightarrow> netlib \<Rightarrow> Principal \<Rightarrow> string \<Rightarrow> string \<Rightarrow> Domain m" where
  "CreateDomain D N caller serviceID rawHostname =
     check (id_Parse D serviceID) (InvalidInput ''a valid service_id is required'')
    (bind (lift (normalizeHostname rawHostname)) (\<lambda>hostname.
     bind (map_err (Internalf ''create domain'') (store_ServiceRoute serviceID)) (\<lambda>found.
     case found of
       None \<Rightarrow> fail (NotFound (''service '' @ serviceID @ '' not found''))
     | Some svc \<Rightarrow>
         bind (Authorize caller ActionDomainCreate (domain_resource (sr_WorkspaceID svc) [])) (\<lambda>_.
         let candidate = \<lparr>dom_ID = [], dom_ServiceID = sr_ID svc, dom_EnvironmentID = sr_EnvironmentID svc,
               dom_ProjectID = sr_ProjectID svc, dom_WorkspaceID = sr_WorkspaceID svc, dom_Hostname = hostname,
               dom_Status = fst (initialStatus svc), dom_StatusMessage = snd (initialStatus svc), dom_DNSRecordType = [],
               dom_DNSRecordName = [], dom_DNSRecordValue = [], dom_CreatedAt = 0, dom_UpdatedAt = 0, dom_LastCheckedAt = None\<rparr> in
         bind (map_err (domains_mapErr ''create domain'') (WithinTx (createDomainTx candidate caller))) (\<lambda>saved. enrich N saved)))))"

definition domains_ListByService :: "deps \<Rightarrow> netlib \<Rightarrow> Principal \<Rightarrow> string \<Rightarrow> Domain list m" where
  "domains_ListByService D N caller serviceID =
     check (id_Parse D serviceID) (InvalidInput ''a valid service_id is required'')
    (bind (map_err (Internalf ''list domains'') (store_ServiceRoute serviceID)) (\<lambda>found.
     case found of
       None \<Rightarrow> fail (NotFound (''service '' @ serviceID @ '' not found''))
     | Some svc \<Rightarrow>
         bind (Authorize caller ActionDomainRead (domain_resource (sr_WorkspaceID svc) [])) (\<lambda>_.
         bind (map_err (Internalf ''list domains'') (store_ListDomains (db_ListDomainsByService serviceID))) (\<lambda>rows.
         ret (map (\<lambda>d. enrichWithService N d svc) rows)))))"

definition domains_ListByProject :: "deps \<Rightarrow> netlib \<Rightarrow> Principal \<Rightarrow> string \<Rightarrow> Domain list m" where
  "domains_ListByProject D N caller projectID =
     check (id_Parse D projectID) (InvalidInput ''a valid project_id is required'')
    (bind (map_err (Internalf ''list domains'') (domains_WorkspaceForProject projectID)) (\<lambda>found.
     case found of
       None \<Rightarrow> fail (NotFound (''project '' @ projectID @ '' not found''))
     | Some workspaceID \<Rightarrow>
         bind (Authorize caller ActionDomainRead (domain_resource workspaceID [])) (\<lambda>_.
         bind (map_err (Internalf ''list domains'') (store_ListDomains (db_ListDomainsByProject projectID))) (enrichRows N))))"

definition domains_ListByWorkspace :: "deps \<Rightarrow> netlib \<Rightarrow> Principal \<Rightarrow> string \<Rightarrow> Domain list m" where
  "domains_ListByWorkspace D N caller workspaceID =
     check (id_Parse D workspaceID) (InvalidInput ''a valid workspace_id is required'')
    (bind (Authorize caller ActionDomainRead (domain_resource workspaceID [])) (\<lambda>_.
     bind (map_err (Internalf ''list domains'') (store_ListDomains (db_ListDomainsByWorkspace workspaceID))) (enrichRows N)))"

definition verifyTx :: "Domain \<Rightarrow> string \<times> string \<Rightarrow> Principal \<Rightarrow> Domain m" where
  "verifyTx d verdict caller =
     bind (UpdateVerification (dom_ID d) (fst verdict) (snd verdict)) (\<lambda>saved.
     bind (audit_Record ''domain.verify'' ''domain'' (dom_ID d) (dom_WorkspaceID d) (UserID caller)) (\<lambda>_. ret saved))"

definition VerifyDomain :: "deps \<Rightarrow> netlib \<Rightarrow> Principal \<Rightarrow> string \<Rightarrow> Domain m" where
  "VerifyDomain D N caller domainID =
     check (id_Parse D domainID) (InvalidInput ''a valid domain id is required'')
    (bind (domainAndService domainID) (\<lambda>(d, svc).
     bind (Authorize caller ActionDomainVerify (domain_resource (dom_WorkspaceID d) (dom_ID d))) (\<lambda>_.
     bind (map_err (domains_mapErr ''verify domain'') (WithinTx (verifyTx d (verify N d svc) caller))) (\<lambda>saved.
     ret (enrichWithService N saved svc)))))"

definition deleteDomainTx :: "Domain \<Rightarrow> Principal \<Rightarrow> unit m" where
  "deleteDomainTx d caller =
     bind (store_DeleteDomain (dom_ID d)) (\<lambda>deleted.
     case deleted of
       None \<Rightarrow> fail (NotFound (''domain '' @ dom_ID d @ '' not found''))
     | Some deletedID \<Rightarrow> audit_Record ''domain.delete'' ''domain'' deletedID (dom_WorkspaceID d) (UserID caller))"

definition DeleteDomain :: "deps \<Rightarrow> Principal \<Rightarrow> string \<Rightarrow> unit m" where
  "DeleteDomain D caller domainID =
     check (id_Parse D domainID) (InvalidInput ''a valid domain id is required'')
    (bind (domainAndService domainID) (\<lambda>(d, svc).
     bind (Authorize caller ActionDomainDelete (domain_resource (dom_WorkspaceID d) (dom_ID d))) (\<lambda>_.
     map_err (domains_mapErr ''delete domain'') (WithinTx (deleteDomainTx d caller)))))"

section \<open>Requests\<close>

datatype domains_request =
    CreateDomainReq string string
  | ListServiceDomainsReq string
  | ListProjectDomainsReq string
  | ListWorkspaceDomainsReq string
  | VerifyDomainReq string
  | DeleteDomainReq string

definition domains_serve :: "deps \<Rightarrow> netlib \<Rightarrow> Principal \<Rightarrow> domains_request \<Rightarrow> unit m" where
  "domains_serve D N p q =
     (case q of
        CreateDomainReq i h \<Rightarrow> finish (CreateDomain D N p i h)
      | ListServiceDomainsReq i \<Rightarrow> finish (domains_ListByService D N p i)
      | ListProjectDomainsReq i \<Rightarrow> finish (domains_ListByProject D N p i)
      | ListWorkspaceDomainsReq i \<Rightarrow> finish (domains_ListByWorkspace D N p i)
      | VerifyDomainReq i \<Rightarrow> finish (VerifyDomain D N p i)
      | DeleteDomainReq i \<Rightarrow> DeleteDomain D p i)"

section \<open>Reads and errors\<close>

lemma readonly_domain_store:
  "readonly (store_GetDomain i)" "readonly (store_ServiceRoute i)" "readonly (domains_WorkspaceForProject i)"
  "readonly (store_ListDomains (db_ListDomainsByService i))" "readonly (store_ListDomains (db_ListDomainsByProject i))"
  "readonly (store_ListDomains (db_ListDomainsByWorkspace i))"
  unfolding store_GetDomain_def store_ServiceRoute_def domains_WorkspaceForProject_def store_ListDomains_def
    db_ListDomainsByService_def db_ListDomainsByProject_def db_ListDomainsByWorkspace_def list_domains_def db_GetDomain_def
    db_GetDomainServiceForCreate_def db_GetProject_def
  by (intro readonly_intros)+

lemma readonly_enrich: "readonly (enrich N d)"
  unfolding enrich_def by (intro reads.obeys_rules readonly_domain_store)

lemma readonly_enrichRows: "readonly (enrichRows N ds)"
proof (induction ds)
  case Nil
  show ?case unfolding enrichRows.simps by (rule reads.obeys_ret)
next
  case (Cons d ds)
  then show ?case unfolding enrichRows.simps by (intro reads.obeys_rules readonly_enrich)
qed

lemma readonly_domainAndService: "readonly (domainAndService i)"
  unfolding domainAndService_def by (intro reads.obeys_rules reads.obeys_cases readonly_domain_store)

lemma readonly_domain_handlers:
  "readonly (domains_ListByService D N p i)" "readonly (domains_ListByProject D N p i)" "readonly (domains_ListByWorkspace D N p i)"
  unfolding domains_ListByService_def domains_ListByProject_def domains_ListByWorkspace_def
  by (intro reads.obeys_rules reads.obeys_cases readonly_domain_store readonly_Authorize readonly_enrichRows)+

lemma enrich_total: "\<exists>x. enrich N d w = (Inr x, w\<lparr>ops := Suc (ops w)\<rparr>)"
  by (auto simp: enrich_def store_ServiceRoute_def db_GetDomainServiceForCreate_def absent_ok_def map_m_def run_defs Let_def split: option.splits)

lemma atomic_bind_total: "atomic c \<Longrightarrow> (\<And>x w. \<exists>y w'. k x w = (Inr y, w')) \<Longrightarrow> atomic (bind c k)"
  unfolding atomic_def by (auto simp: bind_def split: prod.splits sum.splits) (metis Inl_Inr_False prod.inject)

lemma atomic_domain_handlers:
  "atomic (CreateDomain D N p i h)" "atomic (VerifyDomain D N p i)" "atomic (DeleteDomain D p i)"
proof -
  have "\<exists>y w'. enrich N x w = (Inr y, w')" for x w using enrich_total by blast
  then show "atomic (CreateDomain D N p i h)"
    unfolding CreateDomain_def Let_def
    by (intro atomic_check atomic_read_bind atomic_option atomic_bind_total atomic_map_err atomic_WithinTx atomic_simple
          reads.obeys_rules readonly_domain_store readonly_Authorize)
  show "atomic (VerifyDomain D N p i)" "atomic (DeleteDomain D p i)"
    unfolding VerifyDomain_def DeleteDomain_def
    by (intro atomic_rules atomic_read_bind atomic_cases readonly_domainAndService readonly_Authorize)+
qed

lemma atomic_domains_serve: "atomic (domains_serve D N p q)"
  by (cases q)
     (simp_all add: domains_serve_def atomic_finish atomic_domain_handlers atomic_readonly readonly_domain_handlers)

section \<open>Canonical hostnames\<close>

definition host_label :: "string \<Rightarrow> bool" where
  "host_label l \<longleftrightarrow> l \<noteq> [] \<and> length l \<le> 63 \<and> hd l \<noteq> CHR ''-'' \<and> last l \<noteq> CHR ''-'' \<and> list_all label_char l"

definition canonical_hostname :: "string \<Rightarrow> bool" where
  "canonical_hostname h \<longleftrightarrow>
     length h \<le> 253 \<and> 2 \<le> length (strings_Split (CHR ''.'') h) \<and> list_all host_label (strings_Split (CHR ''.'') h)"

lemma validateLabel_None: "validateLabel l = None \<longleftrightarrow> host_label l"
  by (auto simp: validateLabel_def host_label_def list_all_iff find_None_iff split: option.splits dest: find_Some_mem)

lemma first_error_None: "first_error f xs = None \<longleftrightarrow> list_all (\<lambda>x. f x = None) xs"
  by (induction xs) (auto split: option.splits)

lemma first_error_labels: "first_error validateLabel xs = None \<longleftrightarrow> list_all host_label xs"
  by (simp add: first_error_None validateLabel_None)

lemma strings_Split_ne: "strings_Split c s \<noteq> []"
  by (induction s) (auto split: list.splits)

lemma split_no_sep: "sep \<notin> set s \<Longrightarrow> strings_Split sep (s @ sep # t) = s # strings_Split sep t"
  by (induction s) auto

lemma split_whole: "sep \<notin> set s \<Longrightarrow> strings_Split sep s = [s]"
  by (induction s) auto

lemma set_strings_Split: "x \<in> set s \<Longrightarrow> x = c \<or> (\<exists>l \<in> set (strings_Split c s). x \<in> set l)"
proof (induction s)
  case (Cons y s)
  then show ?case by (cases "strings_Split c s") (auto simp: strings_Split_ne)
qed simp

lemma hd_strings_Split: "hd (strings_Split c s) = takeWhile (\<lambda>x. x \<noteq> c) s"
proof (induction s)
  case (Cons y s)
  then show ?case by (cases "strings_Split c s") (auto simp: strings_Split_ne)
qed simp

lemma last_strings_Split: "last (strings_Split c s) = after_last c s"
proof (induction s rule: rev_induct)
  case Nil
  then show ?case by (simp add: after_last_def)
next
  case (snoc y s)
  have "strings_Split c (s @ [y]) =
      (if y = c then strings_Split c s @ [[]] else butlast (strings_Split c s) @ [last (strings_Split c s) @ [y]])"
    by (induction s) (auto simp: strings_Split_ne split: list.splits)
  with snoc show ?case by (simp add: after_last_def)
qed

lemma canonical_ends:
  assumes "canonical_hostname h"
  shows "h \<noteq> []" and "label_char (hd h)" and "label_char (last h)" and "\<forall>c \<in> set h. label_char c \<or> c = CHR ''.''"
proof -
  let ?ls = "strings_Split (CHR ''.'') h"
  from assms have all: "\<forall>l \<in> set ?ls. host_label l" by (simp add: canonical_hostname_def list_all_iff)
  then have hd: "host_label (takeWhile (\<lambda>x. x \<noteq> CHR ''.'') h)" and last: "host_label (after_last (CHR ''.'') h)"
    using strings_Split_ne hd_strings_Split last_strings_Split by (metis hd_in_set, metis last_in_set)
  then show ne: "h \<noteq> []" by (auto simp: host_label_def)
  show "label_char (hd h)" using hd ne by (cases h) (auto simp: host_label_def split: if_splits)
  show "label_char (last h)"
    using last ne by (cases "rev h") (auto simp: host_label_def after_last_def split: if_splits)
  show "\<forall>c \<in> set h. label_char c \<or> c = CHR ''.''"
    using all set_strings_Split by (fastforce simp: host_label_def list_all_iff)
qed

lemma visible_not_space:
  assumes "s \<noteq> []" and "32 < (of_char (hd s) :: nat)" and "(of_char (hd s) :: nat) < 127"
  shows "space_len s = 0" and "space_len_rev s = 0"
proof -
  have h: "hd s \<noteq> CHR 0xC2 \<and> hd s \<noteq> CHR 0xE1 \<and> hd s \<noteq> CHR 0xE2 \<and> hd s \<noteq> CHR 0xE3" "\<not> ascii_space (hd s)"
    using assms(2,3) by (auto simp: ascii_space_def)
  with assms(1) show "space_len s = 0"
    by (cases s) (auto simp: space_len_def space2_def space3_def)
  have "\<forall>x \<in> set space2 \<union> set space3. 127 < (of_char (last x) :: nat)" by (simp add: space2_def space3_def)
  moreover have "last (rev (take n s)) = hd s" if "0 < n" for n using assms(1) that by (cases s; cases n) auto
  ultimately show "space_len_rev s = 0"
    using assms(3) h(2) by (auto simp: space_len_rev_def) (metis UnCI not_less_iff_gr_or_eq order_less_trans zero_less_numeral)+
qed

lemma TrimSpace_visible:
  assumes "s \<noteq> []" and "\<forall>c \<in> {hd s, last s}. 32 < (of_char c :: nat) \<and> (of_char c :: nat) < 127"
  shows "strings_TrimSpace s = s"
proof -
  have "drop_spaces space_len s = s" using assms by (intro drop_spaces_idle visible_not_space) auto
  moreover have "drop_spaces space_len_rev (rev s) = rev s"
    using assms by (intro drop_spaces_idle visible_not_space) (auto simp: hd_rev)
  ultimately show ?thesis by (simp add: strings_TrimSpace_def)
qed

lemma ToLower_visible:
  assumes "\<forall>c \<in> set s. (of_char c :: nat) < 128 \<and> \<not> is_upper c"
  shows "strings_ToLower s = s"
  using assms
proof (induction s)
  case (Cons c s)
  then have "c \<noteq> CHR 0xC4" "c \<noteq> CHR 0xE2" "ascii_lower c = c" by (auto simp: ascii_lower_def is_upper_def)
  with Cons show ?case by simp
qed simp

lemma label_char_range: "label_char c \<Longrightarrow> 32 < (of_char c :: nat) \<and> (of_char c :: nat) < 127 \<and> \<not> is_upper c \<and> c \<notin> set ''/?#:*.''"
  by (auto simp: label_char_def is_digit_def is_upper_def)

lemma strings_Contains_set: "strings_Contains s sub \<Longrightarrow> set sub \<subseteq> set s"
  by (induction s) (auto dest: in_set_takeD split: if_splits, metis in_set_takeD set_ConsD)

lemma normalizeHostname_Inr:
  "normalizeHostname raw = Inr h \<longleftrightarrow>
     h = trim_dot (strings_TrimSpace (strings_ToLower raw)) \<and> canonical_hostname h"
proof -
  let ?h = "trim_dot (strings_TrimSpace (strings_ToLower raw))"
  have "\<not> strings_Contains ?h ''://''" "\<not> strings_ContainsAny ?h ''/?#''" "\<not> strings_Contains ?h '':''" "take 2 ?h \<noteq> ''*.''"
      "\<not> strings_Contains ?h ''*''" "?h \<noteq> []" if c: "canonical_hostname ?h"
  proof -
    have no: "x \<notin> set ?h" if "x \<in> set ''/?#:*''" for x using canonical_ends(4) [OF c] label_char_range that by fastforce
    have colon: "CHR '':'' \<notin> set ?h" and star: "CHR ''*'' \<notin> set ?h" and path: "CHR ''/'' \<notin> set ?h" "CHR ''?'' \<notin> set ?h" "CHR ''#'' \<notin> set ?h"
      by (rule no; simp)+
    show "\<not> strings_Contains ?h ''://''" using strings_Contains_set [of ?h "''://''"] colon by auto
    show "\<not> strings_Contains ?h '':''" using strings_Contains_set [of ?h "'':''"] colon by auto
    show "\<not> strings_Contains ?h ''*''" using strings_Contains_set [of ?h "''*''"] star by auto
    show "\<not> strings_ContainsAny ?h ''/?#''" using path by (auto simp: strings_ContainsAny_def list_ex_iff)
    show "take 2 ?h \<noteq> ''*.''" using in_set_takeD [of "CHR ''*''" 2 ?h] star by auto
    show "?h \<noteq> []" by (rule canonical_ends(1) [OF c])
  qed
  then show ?thesis
    using first_error_labels [of "strings_Split (CHR ''.'') ?h"]
    by (cases "first_error validateLabel (strings_Split (CHR ''.'') ?h)")
       (auto simp: normalizeHostname_def Let_def canonical_hostname_def maxHostnameLen_def split: if_splits)
qed

text \<open>C19: hostnames are stored in canonical form. What the normaliser accepts is a lower-case DNS name of at most
  253 bytes with at least two labels, each 1 to 63 letters, digits and inner hyphens; and canonical
  names are exactly its fixed points, so that one hostname can not be attached twice under
  two spellings.\<close>

theorem normalizeHostname_canonical:
  "(normalizeHostname raw = Inr h \<longrightarrow> canonical_hostname h) \<and> (canonical_hostname h \<longleftrightarrow> normalizeHostname h = Inr h)"
proof -
  have "trim_dot (strings_TrimSpace (strings_ToLower h)) = h" if c: "canonical_hostname h"
  proof -
    note e = canonical_ends [OF c]
    have "strings_ToLower h = h" using e(4) label_char_range by (intro ToLower_visible) (fastforce simp: is_upper_def)
    moreover have "strings_TrimSpace h = h" using e(1-3) label_char_range by (intro TrimSpace_visible) auto
    moreover have "trim_dot h = h" using e(3) label_char_range by (fastforce simp: trim_dot_def)
    ultimately show ?thesis by simp
  qed
  then show ?thesis by (metis normalizeHostname_Inr)
qed

theorem normalizeHostname_canonical_witness:
  "normalizeHostname '' App.Example.com. '' = Inr ''app.example.com'' \<and> canonical_hostname ''app.example.com''"
proof -
  have "normalizeHostname '' App.Example.com. '' = Inr ''app.example.com''" by code_simp
  with normalizeHostname_canonical [of "'' App.Example.com. ''" "''app.example.com''"] show ?thesis by blast
qed

section \<open>What each operation does\<close>

lemma store_ServiceRoute_succ [succ_iff]:
  "store_ServiceRoute i w = (Inr x, w') \<longleftrightarrow>
     \<not> faults w (ops w) \<and> w' = w\<lparr>ops := Suc (ops w)\<rparr> \<and> x = map_option serviceRouteFromRow (find (\<lambda>r. rs_ID r = i) (services (db w)))"
  by (auto simp: store_ServiceRoute_def db_GetDomainServiceForCreate_def absent_ok_def map_m_def catch_def bind_def select_one_def
        query_def Let_def split: if_splits option.splits)

lemma store_GetDomain_succ [succ_iff]:
  "store_GetDomain i w = (Inr x, w') \<longleftrightarrow>
     \<not> faults w (ops w) \<and> w' = w\<lparr>ops := Suc (ops w)\<rparr> \<and> x = map_option domainFromRow (find (\<lambda>r. dm_ID r = i) (domains (db w)))"
  by (auto simp: store_GetDomain_def db_GetDomain_def absent_ok_def map_m_def catch_def bind_def select_one_def
        query_def Let_def split: if_splits option.splits)

lemma domainAndService_run:
  assumes "domainAndService i w = (Inr (d, svc), w')"
  obtains r s n where "find (\<lambda>r. dm_ID r = i) (domains (db w)) = Some r" "d = domainFromRow r"
    and "find (\<lambda>s. rs_ID s = dm_ServiceID r) (services (db w)) = Some s" "svc = serviceRouteFromRow s" "w' = w\<lparr>ops := n\<rparr>"
proof -
  from assms obtain r s n where "find (\<lambda>r. dm_ID r = i) (domains (db w)) = Some r" "d = domainFromRow r"
      "find (\<lambda>s. rs_ID s = dm_ServiceID r) (services (db w)) = Some s" "svc = serviceRouteFromRow s" "w' = w\<lparr>ops := n\<rparr>"
    by (auto simp: domainAndService_def succ_iff domainFromRow_def split: option.splits)
  then show ?thesis by (rule that)
qed

definition with_domain :: "Domain_row \<Rightarrow> database \<Rightarrow> database" where
  "with_domain r d = d\<lparr>domains := domains d @ [r]\<rparr>"

lemma CreateDomain_run:
  assumes "CreateDomain D N p i h w = (Inr x, w')"
  obtains s r a where "find (\<lambda>s. rs_ID s = i) (services (db w)) = Some s" "permitted (db w) p ActionDomainCreate (rs_WorkspaceID s)"
    and "normalizeHostname h = Inr (dm_Hostname r)" "dm_ServiceID r = i" "dm_EnvironmentID r = rs_EnvironmentID s"
    and "dm_ProjectID r = rs_ProjectID s" "dm_WorkspaceID r = rs_WorkspaceID s"
    and "(dm_Status r, dm_StatusMessage r) = initialStatus (serviceRouteFromRow s)" "dm_ID r \<notin> dm_ID ` set (domains (db w))"
    and "(dm_WorkspaceID r, dm_Hostname r) \<notin> (\<lambda>x. (dm_WorkspaceID x, dm_Hostname x)) ` set (domains (db w))"
    and "audit_row_of ''domain.create'' ''domain'' (dm_ID r) (rs_WorkspaceID s) (UserID p) a"
    and "db w' = with_audit a (with_domain r (db w))"
proof -
  let ?c = "\<lambda>svc hn. \<lparr>dom_ID = [], dom_ServiceID = sr_ID svc, dom_EnvironmentID = sr_EnvironmentID svc,
               dom_ProjectID = sr_ProjectID svc, dom_WorkspaceID = sr_WorkspaceID svc, dom_Hostname = hn,
               dom_Status = fst (initialStatus svc), dom_StatusMessage = snd (initialStatus svc), dom_DNSRecordType = [],
               dom_DNSRecordName = [], dom_DNSRecordValue = [], dom_CreatedAt = 0, dom_UpdatedAt = 0, dom_LastCheckedAt = None\<rparr>"
  from assms obtain hn s n y w1 where hn: "normalizeHostname h = Inr hn" and s: "find (\<lambda>s. rs_ID s = i) (services (db w)) = Some s"
    and p: "permitted (db w) p ActionDomainCreate (sr_WorkspaceID (serviceRouteFromRow s))"
    and tx: "createDomainTx (?c (serviceRouteFromRow s) hn) p (w\<lparr>ops := n\<rparr>) = (Inr y, w1)"
    and w1: "enrich N y (w1\<lparr>ops := Suc (ops w1)\<rparr>) = (Inr x, w')"
    by (auto simp: CreateDomain_def Let_def succ_iff split: option.splits)
  obtain z where "enrich N y (w1\<lparr>ops := Suc (ops w1)\<rparr>) = (Inr z, w1\<lparr>ops := Suc (Suc (ops w1))\<rparr>)"
    using enrich_total [of N y "w1\<lparr>ops := Suc (ops w1)\<rparr>"] by auto
  with w1 have "db w' = db w1" by auto
  from tx obtain w2 where ins: "store_CreateDomain (?c (serviceRouteFromRow s) hn) (w\<lparr>ops := n\<rparr>) = (Inr y, w2)"
    and rec: "audit_Record ''domain.create'' ''domain'' (dom_ID y) (rs_WorkspaceID s) (UserID p) w2 = (Inr (), w1)"
    by (auto simp: createDomainTx_def succ_iff serviceRouteFromRow_def)
  from ins obtain r where r: "y = domainFromRow r" "dm_Hostname r = hn" "dm_ServiceID r = rs_ID s" "dm_EnvironmentID r = rs_EnvironmentID s"
      "dm_ProjectID r = rs_ProjectID s" "dm_WorkspaceID r = rs_WorkspaceID s" "dm_ID r \<notin> dm_ID ` set (domains (db w))"
      "(dm_WorkspaceID r, dm_Hostname r) \<notin> (\<lambda>x. (dm_WorkspaceID x, dm_Hostname x)) ` set (domains (db w))"
      "dm_Status r = fst (initialStatus (serviceRouteFromRow s))" "dm_StatusMessage r = snd (initialStatus (serviceRouteFromRow s))"
      "db w2 = with_domain r (db w)"
    by (auto simp: store_CreateDomain_def db_CreateDomain_def map_m_def succ_iff with_domain_def serviceRouteFromRow_def)
  obtain a where "audit_row_of ''domain.create'' ''domain'' (dom_ID y) (rs_WorkspaceID s) (UserID p) a" "db w1 = with_audit a (db w2)"
    using rec by (rule audit_Record_db)
  with hn s p r find_Some_mem [OF s] \<open>db w' = db w1\<close> show ?thesis
    by (intro that [of s r a]) (simp_all add: domainFromRow_def serviceRouteFromRow_def)
qed

lemma VerifyDomain_run:
  assumes "VerifyDomain D N p i w = (Inr x, w')"
  obtains r s a where "find (\<lambda>r. dm_ID r = i) (domains (db w)) = Some r"
    and "find (\<lambda>s. rs_ID s = dm_ServiceID r) (services (db w)) = Some s" "permitted (db w) p ActionDomainVerify (dm_WorkspaceID r)"
    and "dom_Status x = fst (verify N (domainFromRow r) (serviceRouteFromRow s))" "dom_Status x \<in> domain_statuses"
    and "audit_row_of ''domain.verify'' ''domain'' i (dm_WorkspaceID r) (UserID p) a"
    and "db w' = with_audit a ((db w)\<lparr>domains := update_where (\<lambda>r. dm_ID r = i)
           (case verify N (domainFromRow r) (serviceRouteFromRow s) of (st, msg) \<Rightarrow> checked st msg (now w)) (domains (db w))\<rparr>)"
proof -
  from assms obtain d svc w0 n y w1 where ds: "domainAndService i w = (Inr (d, svc), w0)"
    and p: "permitted (db w0) p ActionDomainVerify (dom_WorkspaceID d)"
    and tx: "verifyTx d (verify N d svc) p (w0\<lparr>ops := n\<rparr>) = (Inr y, w1)"
    and w': "db w' = db w1" and x: "x = enrichWithService N y svc"
    by (auto simp: VerifyDomain_def succ_iff)
  obtain r s m where r: "find (\<lambda>r. dm_ID r = i) (domains (db w)) = Some r" "d = domainFromRow r"
    and s: "find (\<lambda>s. rs_ID s = dm_ServiceID r) (services (db w)) = Some s" "svc = serviceRouteFromRow s" and w0: "w0 = w\<lparr>ops := m\<rparr>"
    using ds by (rule domainAndService_run)
  obtain st msg where v: "verify N d svc = (st, msg)" by (cases "verify N d svc")
  have d: "dom_ID d = i" "dom_WorkspaceID d = dm_WorkspaceID r" using find_Some_mem [OF r(1)] by (simp_all add: r(2) domainFromRow_def)
  from tx obtain w2 where up: "UpdateVerification i st msg (w\<lparr>ops := n\<rparr>) = (Inr y, w2)"
    and rec: "audit_Record ''domain.verify'' ''domain'' i (dm_WorkspaceID r) (UserID p) w2 = (Inr (), w1)"
    by (auto simp: verifyTx_def bind_succ v d w0)
  from up r(1) have y: "y = domainFromRow (checked st msg (now w) r)" "st \<in> domain_statuses"
    "db w2 = (db w)\<lparr>domains := update_where (\<lambda>r. dm_ID r = i) (checked st msg (now w)) (domains (db w))\<rparr>"
    by (auto simp: UpdateVerification_def db_UpdateDomainVerification_def map_m_def succ_iff checked_def)
  have "dom_Status x = st"
    using x y(1) by (simp add: enrichWithService_def Let_def domainFromRow_def checked_def split: option.splits)
  moreover obtain a where "audit_row_of ''domain.verify'' ''domain'' i (dm_WorkspaceID r) (UserID p) a" "db w1 = with_audit a (db w2)"
    using rec by (rule audit_Record_db)
  ultimately show ?thesis
    using p v w' y(2,3) r(2) s(2) w0 by (intro that [OF r(1) s(1), of a]) (simp_all add: domainFromRow_def)
qed

lemma DeleteDomain_run:
  assumes "DeleteDomain D p i w = (Inr u, w')"
  obtains r a where "find (\<lambda>r. dm_ID r = i) (domains (db w)) = Some r" "permitted (db w) p ActionDomainDelete (dm_WorkspaceID r)"
    and "audit_row_of ''domain.delete'' ''domain'' i (dm_WorkspaceID r) (UserID p) a"
    and "db w' = with_audit a ((db w)\<lparr>domains := filter (\<lambda>r. dm_ID r \<noteq> i) (domains (db w))\<rparr>)"
proof -
  from assms obtain d svc w0 n w1 where ds: "domainAndService i w = (Inr (d, svc), w0)"
    and p: "permitted (db w0) p ActionDomainDelete (dom_WorkspaceID d)"
    and tx: "deleteDomainTx d p (w0\<lparr>ops := n\<rparr>) = (Inr (), w1)" and w': "db w' = db w1"
    by (auto simp: DeleteDomain_def succ_iff)
  obtain r s m where r: "find (\<lambda>r. dm_ID r = i) (domains (db w)) = Some r" "d = domainFromRow r"
    and "find (\<lambda>s. rs_ID s = dm_ServiceID r) (services (db w)) = Some s" "svc = serviceRouteFromRow s" and w0: "w0 = w\<lparr>ops := m\<rparr>"
    using ds by (rule domainAndService_run)
  have i: "dm_ID r = i" using find_Some_mem [OF r(1)] by simp
  from tx obtain j w2 where del: "store_DeleteDomain i (w\<lparr>ops := n\<rparr>) = (Inr (Some j), w2)"
    and rec: "audit_Record ''domain.delete'' ''domain'' j (dm_WorkspaceID r) (UserID p) w2 = (Inr (), w1)"
    by (auto simp: deleteDomainTx_def succ_iff r(2) domainFromRow_def w0 i split: option.splits)
  from del r(1) i have j: "j = i" "db w2 = (db w)\<lparr>domains := filter (\<lambda>r. dm_ID r \<noteq> i) (domains (db w))\<rparr>"
    by (auto simp: store_DeleteDomain_def db_DeleteDomain_def absent_ok_def catch_def bind_def update_one_def query_def Let_def
          split: if_splits)
  obtain a where "audit_row_of ''domain.delete'' ''domain'' j (dm_WorkspaceID r) (UserID p) a" "db w1 = with_audit a (db w2)"
    using rec by (rule audit_Record_db)
  with r p w' j w0 show ?thesis by (intro that [of r a]) (simp_all add: domainFromRow_def)
qed

lemma domains_serve_changed:
  assumes "domains_serve D N p q w = (r, w')" and "db w' \<noteq> db w"
  obtains (create) i h x where "q = CreateDomainReq i h" "CreateDomain D N p i h w = (Inr x, w')"
  | (verify) i x where "q = VerifyDomainReq i" "VerifyDomain D N p i w = (Inr x, w')"
  | (delete) i where "q = DeleteDomainReq i" "DeleteDomain D p i w = (Inr (), w')"
proof -
  have "r = Inr ()" using atomicD [OF atomic_domains_serve] assms by (cases r) auto
  note quiet = readonly_db [OF readonly_domain_handlers(1)] readonly_db [OF readonly_domain_handlers(2)]
    readonly_db [OF readonly_domain_handlers(3)]
  from assms \<open>r = Inr ()\<close> that show ?thesis
    by (cases q) (auto simp: domains_serve_def finish_def map_m_def succ_iff dest: quiet)
qed

section \<open>A hostname is routed only after its DNS was checked\<close>

text \<open>The evidence that a hostname's records point at a service's generated host.\<close>

definition dns_points_at :: "netlib \<Rightarrow> string \<Rightarrow> Service_row \<Rightarrow> bool" where
  "dns_points_at N h s \<longleftrightarrow>
     (\<exists>target. generatedHost N (rs_RouteUrl s) = Some target \<and>
        (if isApexDomain N h
         then \<exists>got want. LookupHost N h = Inr got \<and> LookupHost N target = Inr want \<and> set (hosts N got) \<inter> set (hosts N want) \<noteq> {}
         else \<exists>cname. LookupCNAME N h = Inr cname \<and> sameDNSName cname target))"

lemma set_collect_hosts:
  "set (collect_hosts N out hs) = set out \<union> {h \<in> (\<lambda>h. case ParseIP N h of None \<Rightarrow> h | Some ip \<Rightarrow> ip) ` set hs. h \<noteq> []}"
  by (induction N out hs rule: collect_hosts.induct) (auto simp: Let_def)

lemma verify_status: "fst (verify N d svc) \<in> {StatusBlocked, StatusPendingDNS, StatusVerified}"
  by (auto simp: verify_def split: option.split sum.split)

lemma verify_verified:
  "fst (verify N (domainFromRow r) (serviceRouteFromRow s)) = StatusVerified \<longleftrightarrow>
     rs_Visibility s \<noteq> ''private'' \<and> dns_points_at N (dm_Hostname r) s"
proof -
  have "intersects (hosts N got) (hosts N []) = False" for got by (simp add: intersects_def hosts_def)
  then show ?thesis
    by (auto simp: verify_def dns_points_at_def domainFromRow_def serviceRouteFromRow_def intersects_def list_ex_iff
          split: option.splits sum.splits if_splits)
qed

text \<open>The statuses a hostname has once its DNS was verified: the agents route the first two.\<close>

definition cleared :: "Domain_row \<Rightarrow> bool" where
  "cleared r \<longleftrightarrow> dm_Status r \<in> {StatusVerified, StatusActive, DomainFailed}"

definition domain_quiet :: "database \<Rightarrow> database \<Rightarrow> bool" where
  "domain_quiet d d' \<longleftrightarrow>
     list_all2 (\<lambda>r r'. frozen_domain r' = frozen_domain r \<and> (cleared r' \<longrightarrow> cleared r)) (domains d) (domains d')"

lemma domain_quiet_refl: "domain_quiet d d"
  by (simp add: domain_quiet_def list_all2_refl)

lemma domain_quiet_trans: "domain_quiet d d' \<Longrightarrow> domain_quiet d' d'' \<Longrightarrow> domain_quiet d d''"
  unfolding domain_quiet_def by (erule (1) list_all2_trans [rotated]) auto

lemma domain_quiet_same: "domains d' = domains d \<Longrightarrow> domain_quiet d d'"
  by (simp add: domain_quiet_def list_all2_refl)

interpretation dq0: world_relation "db_rel domain_quiet"
  by (rule db_rel_world_relation) (rule domain_quiet_refl, rule domain_quiet_trans)

lemma domain_quiet_updates:
  "obeys (db_rel domain_quiet) (db_ClaimNextDeploymentForServer s)"
  "obeys (db_rel domain_quiet) (db_UpdateDeploymentStatus st msg hp cid sha img url i)"
  "obeys (db_rel domain_quiet) (db_ClaimNextTeardownForServer s)"
  "obeys (db_rel domain_quiet) (db_UpdateTeardownStatus st msg er i)"
  unfolding db_ClaimNextDeploymentForServer_def db_UpdateDeploymentStatus_def db_ClaimNextTeardownForServer_def db_UpdateTeardownStatus_def
  by (rule dq0.obeys_update_one,
      auto simp: db_rel_def Let_def upd_deployments_def split: option.splits intro!: domain_quiet_same)+

lemma domain_quiet_execs:
  "obeys (db_rel domain_quiet) (db_SupersedePreviousRunning k s i)" "obeys (db_rel domain_quiet) (db_MarkPreviewTornDown k s)"
  "obeys (db_rel domain_quiet) (db_UpdateServiceRouteURL i url)"
  unfolding db_SupersedePreviousRunning_def db_MarkPreviewTornDown_def db_UpdateServiceRouteURL_def
  by (rule dq0.obeys_exec_sql, simp add: db_rel_def upd_deployments_def domain_quiet_same)+

lemma domain_quiet_sync: "obeys (db_rel domain_quiet) (db_MarkDomainsRouteSync i hs st msg)"
  unfolding db_MarkDomainsRouteSync_def
  by (rule dq0.obeys_exec_sql)
     (auto simp: db_rel_def domain_quiet_def frozen_domain_def cleared_def list_all2_refl intro!: list_all2_update_where)

lemma domain_quiet_event: "obeys (db_rel domain_quiet) (db_AppendDeploymentEvent i kind st msg stream)"
  unfolding db_AppendDeploymentEvent_def
  by (rule dq0.obeys_query) (simp add: Let_def db_rel_def domain_quiet_same)

lemma domain_quiet_inserts:
  "obeys (db_rel domain_quiet) (db_CreateDeployment sid k e p ws srv img port back)"
  "obeys (db_rel domain_quiet) (db_CreateDeploymentFromGit sid k e p ws srv port acc url ref back)"
  "obeys (db_rel domain_quiet) (db_CreatePreviewDeployment sid k e p ws srv port acc url ref n purl u h)"
  "obeys (db_rel domain_quiet) (db_CreateTeardownJob i sid k e p ws srv)"
  "obeys (db_rel domain_quiet) (db_CreateAuditEvent ws' actor action tt tid)"
  unfolding db_CreateDeployment_def db_CreateDeploymentFromGit_def db_CreatePreviewDeployment_def
    db_CreateTeardownJob_def db_CreateAuditEvent_def
  by (rule dq0.obeys_insert_row; simp add: db_rel_def put_deployment_def domain_quiet_same)+

interpretation dq: write_relation "db_rel domain_quiet"
  by unfold_locales (rule domain_quiet_updates domain_quiet_execs domain_quiet_sync domain_quiet_event domain_quiet_inserts)+

lemma domain_quiet_mem:
  assumes "domain_quiet d d'" and "r' \<in> set (domains d')"
  shows "\<exists>r \<in> set (domains d). frozen_domain r' = frozen_domain r \<and> (cleared r' \<longrightarrow> cleared r)"
  using assms list_all2_mem2 unfolding domain_quiet_def by fast

lemma frozen_domain_keys:
  assumes "frozen_domain r' = frozen_domain r"
  shows "dm_ID r' = dm_ID r" and "dm_ServiceID r' = dm_ServiceID r" and "dm_WorkspaceID r' = dm_WorkspaceID r" and "dm_Hostname r' = dm_Hostname r"
  using assms [THEN arg_cong, of dm_ID] assms [THEN arg_cong, of dm_ServiceID] assms [THEN arg_cong, of dm_WorkspaceID]
    assms [THEN arg_cong, of dm_Hostname]
  by (simp_all add: frozen_domain_def)

lemma with_domain_audit [simp]: "domains (with_audit a d) = domains d"
  by (simp add: with_audit_def)

lemma initialStatus_not_cleared: "fst (initialStatus svc) \<notin> {StatusVerified, StatusActive, DomainFailed}"
  by (simp add: initialStatus_def)


definition demo_net :: netlib where
  "demo_net =
     \<lparr>LookupHost = (\<lambda>_. Inl (Opaque ''no such host'')),
      LookupCNAME = (\<lambda>h. if h = ''www.acme.io'' then Inr ''Git.plorigo.app.'' else Inl (Opaque ''no such host'')),
      EffectiveTLDPlusOne = (\<lambda>h. Inr ''acme.io''), ParseIP = (\<lambda>_. None),
      url_Hostname = (\<lambda>u. if u = ''https://git.plorigo.app'' then Some ''git.plorigo.app'' else None)\<rparr>"

definition demo_domain :: Domain_row where
  "demo_domain = \<lparr>dm_ID = ''dom'', dm_ServiceID = ''git'', dm_EnvironmentID = ''env'', dm_ProjectID = ''prj'', dm_WorkspaceID = ''ws'',
     dm_Hostname = ''www.acme.io'', dm_Status = ''pending_dns'', dm_StatusMessage = [], dm_LastCheckedAt = None, dm_CreatedAt = 0, dm_UpdatedAt = 0\<rparr>"

definition demo_domains :: world where
  "demo_domains = (demo_world [])\<lparr>db := demo_db\<lparr>domains := [demo_domain],
     services := [(demo_service ''git'' ''git'')\<lparr>rs_RouteUrl := ''https://git.plorigo.app''\<rparr>]\<rparr>\<rparr>"

lemma demo_verified:
  "\<exists>w'. domains_serve demo_deps demo_net alice (VerifyDomainReq ''dom'') demo_domains = (Inr (), w') \<and>
     (\<exists>d. domains (db w') = [d] \<and> dm_ID d = ''dom'' \<and> dm_Status d = StatusVerified \<and> dm_Hostname d = ''www.acme.io'')"
proof -
  have fold: "sameDNSName ''Git.plorigo.app.'' ''git.plorigo.app''" "strings_ToLower (trim_dot ''git.plorigo.app'') = ''git.plorigo.app''"
    by code_simp+
  show ?thesis
    by (simp add: domains_serve_def finish_def VerifyDomain_def domainAndService_def store_GetDomain_def store_ServiceRoute_def db_GetDomain_def
          db_GetDomainServiceForCreate_def verifyTx_def UpdateVerification_def db_UpdateDomainVerification_def checked_def
          verify_def generatedHost_def isApexDomain_def domainFromRow_def serviceRouteFromRow_def domain_statuses_def fold
          demo_domains_def demo_domain_def demo_net_def exec_defs demo_defs)
qed


end
