(* ===== verification/Sources.thy ===== *)
theory Sources
  imports Json Domains
begin

text \<open>
  The module \<^verbatim>\<open>internal/sources\<close>: a workspace's connections to Git providers. Modelled are the provider
  seam with its GitHub adapter and registry, the OAuth and App-installation connect flows with their sealed state,
  listing and disconnecting, and the seams for other modules (installation tokens, repository validation). The
  GitHub client and the resolver of the App's configuration are parameters, as they are ports of the module.
\<close>

section \<open>The provider seam\<close>

record Account =
  acc_Login :: string
  acc_ID :: "int option"

record Repo =
  rp_Owner :: string
  rp_Name :: string
  rp_FullName :: string
  rp_DefaultBranch :: string
  rp_HTMLURL :: string
  rp_Description :: string
  rp_Private :: bool

record Conn =
  pc_Kind :: string
  pc_Token :: string
  pc_InstallationID :: string

record Provider =
  prv_ID :: string
  prv_DisplayName :: string
  prv_OAuthConfigured :: bool
  prv_AppConfigured :: bool
  prv_AuthorizeURL :: "string \<Rightarrow> string"
  prv_ExchangeCode :: "string \<Rightarrow> err + (string \<times> string \<times> Account)"
  prv_RevokeToken :: "string \<Rightarrow> err + unit"
  prv_InstallURL :: "string \<Rightarrow> string option"
  prv_ResolveInstallation :: "string \<Rightarrow> err + Account"
  prv_InstallationToken :: "string \<Rightarrow> err + string"
  prv_ListRepos :: "Conn \<Rightarrow> string \<Rightarrow> int \<Rightarrow> err + Repo list"
  prv_ListBranches :: "Conn \<Rightarrow> string \<Rightarrow> string \<Rightarrow> err + string list"
  prv_GetRepository :: "Conn \<Rightarrow> string \<Rightarrow> string \<Rightarrow> err + Repo"
  prv_GetBranch :: "Conn \<Rightarrow> string \<Rightarrow> string \<Rightarrow> string \<Rightarrow> err + unit"
  prv_GetPullRequest :: "Conn \<Rightarrow> string \<Rightarrow> string \<Rightarrow> int \<Rightarrow> err + PullRequest"
  prv_VerifyWebhook :: "string \<Rightarrow> string \<Rightarrow> string \<Rightarrow> bool"
  prv_Buildable :: "string \<Rightarrow> bool"

record Registry =
  reg_byID :: "string \<rightharpoonup> Provider"
  reg_order :: "string list"

text \<open>A \<open>nil\<close> provider is skipped.\<close>

fun NewRegistry :: "Provider option list \<Rightarrow> Registry" where
  "NewRegistry ps =
     fold (\<lambda>p r. case p of None \<Rightarrow> r
                 | Some p \<Rightarrow> \<lparr>reg_byID = (reg_byID r)(prv_ID p \<mapsto> p), reg_order = reg_order r @ [prv_ID p]\<rparr>)
       ps \<lparr>reg_byID = Map.empty, reg_order = []\<rparr>"

definition Registry_Get :: "Registry \<Rightarrow> string \<Rightarrow> Provider option" where
  "Registry_Get r i = reg_byID r i"

definition Registry_All :: "Registry \<Rightarrow> Provider list" where
  "Registry_All r = map (the \<circ> reg_byID r) (reg_order r)"

section \<open>Webhook signatures\<close>

text \<open>\<open>hmac.New(sha256.New, key)\<close>: HMAC with a block size of 64 bytes.\<close>

definition hmac_key :: "string \<Rightarrow> nat list" where
  "hmac_key key =
     (let k = (if length key > 64 then sha256_Sum256 key else map byte_of key) in k @ replicate (64 - length k) 0)"

definition xor_pad :: "nat \<Rightarrow> nat list \<Rightarrow> string" where
  "xor_pad pad k = map (\<lambda>b. byte_char (Bit_Operations.xor b pad)) k"

definition hmac_sha256 :: "string \<Rightarrow> string \<Rightarrow> nat list" where
  "hmac_sha256 key msg =
     sha256_Sum256 (xor_pad 92 (hmac_key key) @ map byte_char (sha256_Sum256 (xor_pad 54 (hmac_key key) @ msg)))"

text \<open>\<open>hex.DecodeString\<close>: pairs of hexadecimal digits of either case.\<close>

fun hex_DecodeString :: "string \<Rightarrow> nat list option" where
  "hex_DecodeString [] = Some []"
| "hex_DecodeString [a] = None"
| "hex_DecodeString (a # b # s) =
     (case (hex_value a, hex_value b, hex_DecodeString s) of
        (Some x, Some y, Some r) \<Rightarrow> Some ((16 * x + y) # r)
      | _ \<Rightarrow> None)"

definition VerifyWebhookSignature :: "string \<Rightarrow> string \<Rightarrow> string \<Rightarrow> bool" where
  "VerifyWebhookSignature secret body signatureHeader \<longleftrightarrow>
     secret \<noteq> [] \<and> take 7 signatureHeader = ''sha256='' \<and>
     (case hex_DecodeString (drop 7 signatureHeader) of None \<Rightarrow> False | Some want \<Rightarrow> hmac_sha256 secret body = want)"

section \<open>The GitHub adapter\<close>

record github_RepoInfo =
  gr_Owner :: string
  gr_Name :: string
  gr_FullName :: string
  gr_DefaultBranch :: string
  gr_HTMLURL :: string
  gr_Description :: string
  gr_Private :: bool

text \<open>The methods of \<open>*github.Client\<close> that the adapter calls.\<close>

record GitHubClient =
  ghc_AuthorizeURL :: "string \<Rightarrow> string \<Rightarrow> string \<Rightarrow> string \<Rightarrow> string"
  ghc_ExchangeCode :: "string \<Rightarrow> string \<Rightarrow> string \<Rightarrow> string \<Rightarrow> err + (string \<times> string)"
  ghc_GetAuthenticatedUser :: "string \<Rightarrow> err + (string \<times> int)"
  ghc_RevokeToken :: "string \<Rightarrow> string \<Rightarrow> string \<Rightarrow> err + unit"
  ghc_GetInstallation :: "string \<Rightarrow> err + (string \<times> int)"
  ghc_InstallationToken :: "string \<Rightarrow> err + string"
  ghc_ListUserRepos :: "string \<Rightarrow> int \<Rightarrow> string \<Rightarrow> err + github_RepoInfo list"
  ghc_ListInstallationRepos :: "string \<Rightarrow> int \<Rightarrow> err + github_RepoInfo list"
  ghc_ListBranches :: "string \<Rightarrow> string \<Rightarrow> string \<Rightarrow> err + string list"
  ghc_GetRepository :: "string \<Rightarrow> string \<Rightarrow> string \<Rightarrow> err + github_RepoInfo"
  ghc_GetBranch :: "string \<Rightarrow> string \<Rightarrow> string \<Rightarrow> string \<Rightarrow> err + unit"
  ghc_GetPullRequest :: "string \<Rightarrow> string \<Rightarrow> string \<Rightarrow> int \<Rightarrow> err + PullRequest"
  ghc_GetFileContent :: "string \<Rightarrow> string \<Rightarrow> string \<Rightarrow> string \<Rightarrow> string \<Rightarrow> err + string option"

record GitHubAppConfig =
  gac_configured :: bool
  gac_InstallURL :: "string \<Rightarrow> string option"

record OAuthConfig =
  oc_ClientID :: string
  oc_ClientSecret :: string
  oc_Scopes :: string
  oc_RedirectURL :: string

definition toRepo :: "github_RepoInfo \<Rightarrow> Repo" where
  "toRepo r = \<lparr>rp_Owner = gr_Owner r, rp_Name = gr_Name r, rp_FullName = gr_FullName r, rp_DefaultBranch = gr_DefaultBranch r,
     rp_HTMLURL = gr_HTMLURL r, rp_Description = gr_Description r, rp_Private = gr_Private r\<rparr>"

definition provider_mapGitHubErr :: "err \<Rightarrow> err" where
  "provider_mapGitHubErr e =
     (if errors_Is e GitHubErrNotFound then ProviderErrNotFound
      else if errors_Is e GitHubErrUnauthorized then ProviderErrUnauthorized
      else if errors_Is e GitHubErrForbidden then ProviderErrForbidden
      else if errors_Is e GitHubErrRateLimited then ProviderErrRateLimited
      else e)"

definition GitHub_OAuthConfigured :: "OAuthConfig \<Rightarrow> bool" where
  "GitHub_OAuthConfigured oa \<longleftrightarrow> oc_ClientID oa \<noteq> [] \<and> oc_ClientSecret oa \<noteq> []"

definition GitHub_ExchangeCode :: "GitHubClient \<Rightarrow> OAuthConfig \<Rightarrow> string \<Rightarrow> err + (string \<times> string \<times> Account)" where
  "GitHub_ExchangeCode C oa code =
     (case ghc_ExchangeCode C (oc_ClientID oa) (oc_ClientSecret oa) code (oc_RedirectURL oa) of
        Inl e \<Rightarrow> Inl (provider_mapGitHubErr e)
      | Inr (accessToken, scope) \<Rightarrow>
          (case ghc_GetAuthenticatedUser C accessToken of
             Inl e \<Rightarrow> Inl (provider_mapGitHubErr e)
           | Inr (login, i) \<Rightarrow> Inr (accessToken, scope, \<lparr>acc_Login = login, acc_ID = Some i\<rparr>)))"

definition GitHub_RevokeToken :: "GitHubClient \<Rightarrow> OAuthConfig \<Rightarrow> string \<Rightarrow> err + unit" where
  "GitHub_RevokeToken C oa token =
     (if token = [] \<or> \<not> GitHub_OAuthConfigured oa then Inr ()
      else ghc_RevokeToken C (oc_ClientID oa) (oc_ClientSecret oa) token)"

definition GitHub_ListRepos :: "GitHubClient \<Rightarrow> Conn \<Rightarrow> string \<Rightarrow> int \<Rightarrow> err + Repo list" where
  "GitHub_ListRepos C c rawQuery page =
     (let q = strings_ToLower (strings_TrimSpace rawQuery) in
      case (if pc_Kind c = ''app'' then ghc_ListInstallationRepos C (pc_Token c) page
            else ghc_ListUserRepos C (pc_Token c) page ''updated'') of
        Inl e \<Rightarrow> Inl (provider_mapGitHubErr e)
      | Inr infos \<Rightarrow> Inr (map toRepo (filter (\<lambda>r. q = [] \<or> strings_Contains (strings_ToLower (gr_FullName r)) q) infos)))"

definition GitHub_Buildable :: "string \<Rightarrow> bool" where
  "GitHub_Buildable kind \<longleftrightarrow> kind = ''app''"

text \<open>\<open>NewGitHub\<close> as an implementation of \<open>Provider\<close>.\<close>

definition NewGitHub :: "GitHubClient \<Rightarrow> OAuthConfig \<Rightarrow> GitHubAppConfig \<Rightarrow> Provider" where
  "NewGitHub C oa app =
     \<lparr>prv_ID = ''github'', prv_DisplayName = ''GitHub'', prv_OAuthConfigured = GitHub_OAuthConfigured oa,
      prv_AppConfigured = gac_configured app,
      prv_AuthorizeURL = ghc_AuthorizeURL C (oc_ClientID oa) (oc_RedirectURL oa) (oc_Scopes oa),
      prv_ExchangeCode = GitHub_ExchangeCode C oa,
      prv_RevokeToken = GitHub_RevokeToken C oa,
      prv_InstallURL = gac_InstallURL app,
      prv_ResolveInstallation = (\<lambda>i. map_sum provider_mapGitHubErr (\<lambda>(login, j). \<lparr>acc_Login = login, acc_ID = Some j\<rparr>) (ghc_GetInstallation C i)),
      prv_InstallationToken = (\<lambda>i. map_sum provider_mapGitHubErr id (ghc_InstallationToken C i)),
      prv_ListRepos = GitHub_ListRepos C,
      prv_ListBranches = (\<lambda>c owner repo. map_sum provider_mapGitHubErr id (ghc_ListBranches C (pc_Token c) owner repo)),
      prv_GetRepository = (\<lambda>c owner repo. map_sum provider_mapGitHubErr toRepo (ghc_GetRepository C (pc_Token c) owner repo)),
      prv_GetBranch = (\<lambda>c owner repo branch. map_sum provider_mapGitHubErr id (ghc_GetBranch C (pc_Token c) owner repo branch)),
      prv_GetPullRequest = (\<lambda>c owner repo n. map_sum provider_mapGitHubErr id (ghc_GetPullRequest C (pc_Token c) owner repo n)),
      prv_VerifyWebhook = VerifyWebhookSignature,
      prv_Buildable = GitHub_Buildable\<rparr>"

section \<open>Domain types\<close>

abbreviation kindOAuth :: string where "kindOAuth \<equiv> ''oauth''"
abbreviation kindApp :: string where "kindApp \<equiv> ''app''"

record Connection =
  cn_ID :: string
  cn_WorkspaceID :: string
  cn_Provider :: string
  cn_Kind :: string
  cn_AccountLogin :: string
  cn_AccountID :: "int option"
  cn_InstallationID :: "string option"
  cn_Scopes :: string
  cn_ConnectedBy :: "string option"
  cn_CreatedAt :: int
  cn_UpdatedAt :: int

record ProviderStatus =
  pst_Provider :: string
  pst_DisplayName :: string
  pst_OAuthConfigured :: bool
  pst_AppConfigured :: bool
  pst_Available :: bool

record ResolvedRepo =
  rr_Owner :: string
  rr_Name :: string
  rr_FullName :: string
  rr_DefaultBranch :: string
  rr_HTMLURL :: string
  rr_IsPrivate :: bool
  rr_Branch :: string
  rr_Provider :: string
  rr_Kind :: string
  rr_AccountLogin :: string
  rr_Buildable :: bool

record CompleteOAuthInput =
  co_Provider :: string
  co_Code :: string
  co_State :: string
  co_CookieState :: string

record CompleteAppInput =
  ca_Provider :: string
  ca_InstallationID :: string
  ca_SetupAction :: string
  ca_State :: string
  ca_CookieState :: string

section \<open>Queries and the repository\<close>

abbreviation connection_providers :: "string set" where "connection_providers \<equiv> {''github'', ''gitlab''}"

text \<open>The \<open>CHECK\<close> constraints of the table; an absent ciphertext is the empty string.\<close>

definition connection_ok :: "SourceConnection_row \<Rightarrow> bool" where
  "connection_ok r \<longleftrightarrow>
     sc_Provider r \<in> connection_providers \<and> length (sc_AccessTokenCiphertext r) \<le> 65536 \<and>
     (sc_Kind r = kindOAuth \<and> sc_AccessTokenCiphertext r \<noteq> [] \<and> sc_InstallationID r = None \<or>
      sc_Kind r = kindApp \<and> sc_InstallationID r \<noteq> None \<and> sc_AccessTokenCiphertext r = [])"

definition connection_fks :: "database \<Rightarrow> SourceConnection_row \<Rightarrow> bool" where
  "connection_fks d r \<longleftrightarrow>
     sc_WorkspaceID r \<in> wk_ID ` set (workspaces d) \<and>
     (case sc_ConnectedBy r of None \<Rightarrow> True | Some u \<Rightarrow> u \<in> us_ID ` set (users d))"

text \<open>The partial unique indexes: one row per installation, one per account of a workspace.\<close>

definition same_installation :: "SourceConnection_row \<Rightarrow> SourceConnection_row \<Rightarrow> bool" where
  "same_installation r s \<longleftrightarrow> sc_InstallationID r \<noteq> None \<and> sc_Provider s = sc_Provider r \<and> sc_InstallationID s = sc_InstallationID r"

definition same_account :: "SourceConnection_row \<Rightarrow> SourceConnection_row \<Rightarrow> bool" where
  "same_account r s \<longleftrightarrow>
     sc_AccountID r \<noteq> None \<and> sc_WorkspaceID s = sc_WorkspaceID r \<and> sc_Provider s = sc_Provider r \<and> sc_Kind s = sc_Kind r \<and>
     sc_AccountID s = sc_AccountID r"

text \<open>\<open>INSERT ... ON CONFLICT (key) DO UPDATE\<close>: the row with the same key is refreshed, otherwise the new one is
  appended; a clash on the other index or on the primary key is an error either way.\<close>

definition upsert_connection ::
    "(SourceConnection_row \<Rightarrow> SourceConnection_row \<Rightarrow> bool) \<Rightarrow> (SourceConnection_row \<Rightarrow> SourceConnection_row \<Rightarrow> bool) \<Rightarrow>
     (SourceConnection_row \<Rightarrow> SourceConnection_row \<Rightarrow> SourceConnection_row) \<Rightarrow> (world \<Rightarrow> SourceConnection_row) \<Rightarrow>
     SourceConnection_row m" where
  "upsert_connection key other refresh mk =
     write_one (\<lambda>w d. let r = mk w in
       if \<not> connection_ok r then Inl (Opaque ''constraint violation'')
       else case find (key r) (source_connections d) of
              Some s \<Rightarrow>
                let s' = refresh r s in
                if \<not> connection_ok s' then Inl (Opaque ''constraint violation'')
                else if \<exists>t \<in> set (source_connections d). sc_ID t \<noteq> sc_ID s \<and> other s' t then Inl UniqueViolation
                else if \<not> connection_fks d s' then Inl (Opaque ''constraint violation'')
                else Inr (s', d\<lparr>source_connections := update_where (\<lambda>t. sc_ID t = sc_ID s) (\<lambda>_. s') (source_connections d)\<rparr>)
            | None \<Rightarrow>
                if \<exists>t \<in> set (source_connections d). sc_ID t = sc_ID r \<or> other r t then Inl UniqueViolation
                else if \<not> connection_fks d r then Inl (Opaque ''constraint violation'')
                else Inr (r, d\<lparr>source_connections := source_connections d @ [r]\<rparr>))"

definition oauth_row :: "string \<Rightarrow> string \<Rightarrow> string \<Rightarrow> int option \<Rightarrow> string \<Rightarrow> string \<Rightarrow> string option \<Rightarrow> world \<Rightarrow> SourceConnection_row" where
  "oauth_row ws provider login accountID ciphertext scopes connectedBy w =
     \<lparr>sc_ID = fresh_uuid w, sc_WorkspaceID = ws, sc_Provider = provider, sc_AccountLogin = login, sc_AccountID = accountID,
      sc_AccessTokenCiphertext = ciphertext, sc_Scopes = scopes, sc_ConnectedBy = connectedBy, sc_CreatedAt = now w,
      sc_UpdatedAt = now w, sc_InstallationID = None, sc_Kind = kindOAuth\<rparr>"

definition refresh_oauth :: "SourceConnection_row \<Rightarrow> SourceConnection_row \<Rightarrow> SourceConnection_row" where
  "refresh_oauth r s =
     s\<lparr>sc_AccountLogin := sc_AccountLogin r, sc_AccessTokenCiphertext := sc_AccessTokenCiphertext r, sc_Scopes := sc_Scopes r,
       sc_ConnectedBy := sc_ConnectedBy r, sc_UpdatedAt := sc_UpdatedAt r\<rparr>"

definition db_InsertOAuthConnection ::
    "string \<Rightarrow> string \<Rightarrow> string \<Rightarrow> int option \<Rightarrow> string \<Rightarrow> string \<Rightarrow> string option \<Rightarrow> SourceConnection_row m" where
  "db_InsertOAuthConnection ws provider login accountID ciphertext scopes connectedBy =
     upsert_connection same_account same_installation refresh_oauth
       (oauth_row ws provider login accountID ciphertext scopes connectedBy)"

definition app_row :: "string \<Rightarrow> string \<Rightarrow> string \<Rightarrow> int option \<Rightarrow> string option \<Rightarrow> string option \<Rightarrow> world \<Rightarrow> SourceConnection_row" where
  "app_row ws provider login accountID installationID connectedBy w =
     \<lparr>sc_ID = fresh_uuid w, sc_WorkspaceID = ws, sc_Provider = provider, sc_AccountLogin = login, sc_AccountID = accountID,
      sc_AccessTokenCiphertext = [], sc_Scopes = [], sc_ConnectedBy = connectedBy, sc_CreatedAt = now w,
      sc_UpdatedAt = now w, sc_InstallationID = installationID, sc_Kind = kindApp\<rparr>"

definition refresh_app :: "SourceConnection_row \<Rightarrow> SourceConnection_row \<Rightarrow> SourceConnection_row" where
  "refresh_app r s =
     s\<lparr>sc_WorkspaceID := sc_WorkspaceID r, sc_AccountLogin := sc_AccountLogin r, sc_AccountID := sc_AccountID r,
       sc_ConnectedBy := sc_ConnectedBy r, sc_UpdatedAt := sc_UpdatedAt r\<rparr>"

definition db_InsertAppConnection ::
    "string \<Rightarrow> string \<Rightarrow> string \<Rightarrow> int option \<Rightarrow> string option \<Rightarrow> string option \<Rightarrow> SourceConnection_row m" where
  "db_InsertAppConnection ws provider login accountID installationID connectedBy =
     upsert_connection same_installation same_account refresh_app
       (app_row ws provider login accountID installationID connectedBy)"

definition db_GetConnectionByID :: "string \<Rightarrow> SourceConnection_row m" where
  "db_GetConnectionByID i = select_one (\<lambda>d. find (\<lambda>r. sc_ID r = i) (source_connections d))"

definition db_GetSealedTokenByConnection :: "string \<Rightarrow> string m" where
  "db_GetSealedTokenByConnection i = select_one (\<lambda>d. map_option sc_AccessTokenCiphertext (find (\<lambda>r. sc_ID r = i) (source_connections d)))"

definition db_ListConnectionsByWorkspace :: "string \<Rightarrow> SourceConnection_row list m" where
  "db_ListConnectionsByWorkspace ws =
     select_many (\<lambda>d. sort_key (\<lambda>r. - sc_CreatedAt r) (filter (\<lambda>r. sc_WorkspaceID r = ws) (source_connections d)))"

definition db_CountServicesByConnection :: "string \<Rightarrow> nat m" where
  "db_CountServicesByConnection i = select_many (\<lambda>d. length (filter (\<lambda>s. rs_ConnectionID s = Some i) (services d)))"

text \<open>The foreign key of \<open>services.connection_id\<close> restricts the deletion.\<close>

definition db_DeleteConnectionByID :: "string \<Rightarrow> string m" where
  "db_DeleteConnectionByID i =
     write_one (\<lambda>w d.
       if i \<notin> sc_ID ` set (source_connections d) then Inl ErrNoRows
       else if Some i \<in> rs_ConnectionID ` set (services d) then Inl (Opaque ''constraint violation'')
       else Inr (i, d\<lparr>source_connections := filter (\<lambda>r. sc_ID r \<noteq> i) (source_connections d)\<rparr>))"

definition connectionFromRow :: "SourceConnection_row \<Rightarrow> Connection" where
  "connectionFromRow r =
     \<lparr>cn_ID = sc_ID r, cn_WorkspaceID = sc_WorkspaceID r, cn_Provider = sc_Provider r, cn_Kind = sc_Kind r,
      cn_AccountLogin = sc_AccountLogin r, cn_AccountID = sc_AccountID r, cn_InstallationID = sc_InstallationID r,
      cn_Scopes = sc_Scopes r, cn_ConnectedBy = sc_ConnectedBy r, cn_CreatedAt = sc_CreatedAt r, cn_UpdatedAt = sc_UpdatedAt r\<rparr>"

definition ListConnectionsByWorkspace :: "string \<Rightarrow> Connection list m" where
  "ListConnectionsByWorkspace ws = map_m (map connectionFromRow) (db_ListConnectionsByWorkspace ws)"

definition GetConnectionByID :: "string \<Rightarrow> Connection option m" where
  "GetConnectionByID i = absent_ok (map_m connectionFromRow (db_GetConnectionByID i))"

definition GetSealedTokenByConnection :: "string \<Rightarrow> string option m" where
  "GetSealedTokenByConnection i =
     map_m (\<lambda>t. case t of None \<Rightarrow> None | Some ct \<Rightarrow> if ct = [] then None else Some ct)
       (absent_ok (db_GetSealedTokenByConnection i))"

definition InsertOAuthConnection ::
    "string \<Rightarrow> string \<Rightarrow> string \<Rightarrow> int option \<Rightarrow> string \<Rightarrow> string \<Rightarrow> string option \<Rightarrow> Connection m" where
  "InsertOAuthConnection ws provider login accountID ciphertext scopes connectedBy =
     map_m connectionFromRow (db_InsertOAuthConnection ws provider login accountID ciphertext scopes connectedBy)"

definition InsertAppConnection :: "string \<Rightarrow> string \<Rightarrow> string \<Rightarrow> int option \<Rightarrow> string \<Rightarrow> string option \<Rightarrow> Connection m" where
  "InsertAppConnection ws provider login accountID installationID connectedBy =
     map_m connectionFromRow (db_InsertAppConnection ws provider login accountID (Some installationID) connectedBy)"

definition DeleteConnectionByID :: "string \<Rightarrow> string option m" where
  "DeleteConnectionByID i = absent_ok (db_DeleteConnectionByID i)"

definition CountServicesByConnection :: "string \<Rightarrow> nat m" where
  "CountServicesByConnection i = db_CountServicesByConnection i"

section \<open>The connect state\<close>

definition stateTTL :: int where "stateTTL = 600 * time_Second"

abbreviation defaultProvider :: string where "defaultProvider \<equiv> ''github''"

record connectState =
  cst_WorkspaceID :: string
  cst_UserID :: string
  cst_Provider :: string
  cst_Nonce :: string
  cst_ExpiresAt :: int

definition time_Now :: "int m" where
  "time_Now w = (Inr (now w), w)"

definition time_Unix :: "int \<Rightarrow> int" where
  "time_Unix t = t div time_Second"

text \<open>\<open>json.Marshal\<close> and \<open>json.Unmarshal\<close> of the state.\<close>

definition marshal_connectState :: "connectState \<Rightarrow> string" where
  "marshal_connectState st =
     CHR ''{'' # json_quote ''w'' @ CHR '':'' # json_quote (cst_WorkspaceID st) @ CHR '','' #
       json_quote ''u'' @ CHR '':'' # json_quote (cst_UserID st) @ CHR '','' #
       json_quote ''p'' @ CHR '':'' # json_quote (cst_Provider st) @ CHR '','' #
       json_quote ''n'' @ CHR '':'' # json_quote (cst_Nonce st) @ CHR '','' #
       json_quote ''e'' @ CHR '':'' # strconv_Itoa (cst_ExpiresAt st) @ ''}''"

definition connectState_of :: "(string \<times> json) list \<Rightarrow> connectState option" where
  "connectState_of ms =
     (case (store_string [] (members_named ''w'' ms), store_string [] (members_named ''u'' ms),
            store_string [] (members_named ''p'' ms), store_string [] (members_named ''n'' ms),
            store_int64 0 (members_named ''e'' ms)) of
        (Some w, Some u, Some p, Some n, Some e) \<Rightarrow>
          Some \<lparr>cst_WorkspaceID = w, cst_UserID = u, cst_Provider = p, cst_Nonce = n, cst_ExpiresAt = e\<rparr>
      | _ \<Rightarrow> None)"

definition unmarshal_connectState :: "string \<Rightarrow> connectState option" where
  "unmarshal_connectState plain =
     (case json_Parse plain of
        Some (JObj ms) \<Rightarrow> connectState_of ms
      | Some JNull \<Rightarrow> connectState_of []
      | _ \<Rightarrow> None)"

text \<open>\<open>newNonce\<close>: 16 random bytes in hexadecimal.\<close>

definition newNonce :: "err + nat list \<Rightarrow> err + string" where
  "newNonce rnd = map_sum id hex_EncodeToString rnd"

definition sealState :: "AEAD \<Rightarrow> err + nat list \<Rightarrow> err + string \<Rightarrow> Principal \<Rightarrow> string \<Rightarrow> string \<Rightarrow> (string \<times> string) m" where
  "sealState A rnd boxNonce caller workspaceID providerID =
     bind (map_err (Internalf ''begin connect'') (lift (newNonce rnd))) (\<lambda>nonce.
     bind time_Now (\<lambda>t.
     let payload = marshal_connectState \<lparr>cst_WorkspaceID = workspaceID, cst_UserID = UserID caller, cst_Provider = providerID,
                     cst_Nonce = nonce, cst_ExpiresAt = time_Unix (t + stateTTL)\<rparr> in
     bind (map_err (Internalf ''seal state'') (lift (Box_Seal A boxNonce payload))) (\<lambda>b.
     ret (base64url_Encode (map byte_of b), nonce))))"

definition openState :: "AEAD \<Rightarrow> string \<Rightarrow> err + connectState" where
  "openState A cookie =
     (let bad = Inl (InvalidInput ''invalid connect state; please try again'') in
      if strings_TrimSpace cookie = [] then Inl (InvalidInput ''missing connect state; please try again'')
      else case base64url_Decode cookie of
             None \<Rightarrow> bad
           | Some sealed \<Rightarrow>
               (case Box_Open A (map byte_char sealed) of
                  Inl _ \<Rightarrow> bad
                | Inr plain \<Rightarrow> (case unmarshal_connectState plain of None \<Rightarrow> bad | Some st \<Rightarrow> Inr st)))"

section \<open>Helpers\<close>

definition mapProviderErr :: "err \<Rightarrow> err" where
  "mapProviderErr e =
     (if errors_Is e ProviderErrNotFound then NotFound ''repository not found or not accessible by this integration''
      else if errors_Is e ProviderErrUnauthorized then PermissionDenied ''the provider rejected the request; reconnect the integration''
      else if errors_Is e ProviderErrForbidden then PermissionDenied ''the provider denied access''
      else if errors_Is e ProviderErrRateLimited then Internalf ''the provider is rate limiting requests; try again shortly'' e
      else Internalf ''provider request failed'' e)"

abbreviation source_resource :: "string \<Rightarrow> Resource" where
  "source_resource ws \<equiv> \<lparr>res_Type = ''source'', res_WorkspaceID = ws, res_ID = []\<rparr>"

definition provider_for :: "Registry \<Rightarrow> string \<Rightarrow> err + Provider" where
  "provider_for R idStr =
     (let i = (if strings_TrimSpace idStr = [] then defaultProvider else idStr) in
      case Registry_Get R i of None \<Rightarrow> Inl (InvalidInput (''unknown provider '' @ fmt_q i)) | Some p \<Rightarrow> Inr p)"

definition beginConnect :: "deps \<Rightarrow> Registry \<Rightarrow> Principal \<Rightarrow> string \<Rightarrow> string \<Rightarrow> Provider m" where
  "beginConnect D R caller workspaceID providerID =
     check (id_Parse D workspaceID) (InvalidInput ''a valid workspace_id is required'')
    (bind (Authorize caller ActionSourceConnect (source_resource workspaceID)) (\<lambda>_.
     lift (provider_for R providerID)))"

definition openAndVerify :: "AEAD \<Rightarrow> Registry \<Rightarrow> Principal \<Rightarrow> string \<Rightarrow> string \<Rightarrow> string \<Rightarrow> (connectState \<times> Provider) m" where
  "openAndVerify A R caller routeProvider echoedNonce cookieState =
     bind (lift (openState A cookieState)) (\<lambda>st.
     check (echoedNonce \<noteq> [] \<and> cst_Nonce st = echoedNonce) (InvalidInput ''connect state mismatch; please try again'')
    (bind time_Now (\<lambda>t.
     check (time_Unix t \<le> cst_ExpiresAt st) (InvalidInput ''the connect request expired; please try again'')
    (check (routeProvider = [] \<or> routeProvider = cst_Provider st) (InvalidInput ''connect provider mismatch; please try again'')
    (check (IsAuthenticated caller \<and> UserID caller = cst_UserID st)
       (PermissionDenied ''this connect flow was started by a different session'')
    (bind (Authorize caller ActionSourceConnect (source_resource (cst_WorkspaceID st))) (\<lambda>_.
     bind (lift (provider_for R (cst_Provider st))) (\<lambda>p.
     ret (st, p)))))))))"

definition requireConnection :: "deps \<Rightarrow> string \<Rightarrow> Connection m" where
  "requireConnection D connectionID =
     check (id_Parse D connectionID) (InvalidInput ''a valid connection_id is required'')
    (bind (map_err (Internalf ''resolve connection'') (GetConnectionByID connectionID)) (\<lambda>found.
     case found of
       None \<Rightarrow> fail (NotFound (''connection '' @ connectionID @ '' not found''))
     | Some conn \<Rightarrow> ret conn))"

definition openToken :: "AEAD \<Rightarrow> string \<Rightarrow> string option m" where
  "openToken A connectionID =
     bind (map_err (Internalf ''load token'') (GetSealedTokenByConnection connectionID)) (\<lambda>found.
     case found of
       None \<Rightarrow> ret None
     | Some cipher \<Rightarrow> bind (map_err (Internalf ''open token'') (lift (Box_Open A cipher))) (\<lambda>plain. ret (Some plain)))"

definition resolveConn :: "AEAD \<Rightarrow> Registry \<Rightarrow> Connection \<Rightarrow> (Conn \<times> Provider) m" where
  "resolveConn A R conn =
     (case Registry_Get R (cn_Provider conn) of
        None \<Rightarrow> fail (InvalidInput (''unknown provider '' @ fmt_q (cn_Provider conn)))
      | Some p \<Rightarrow>
          if cn_Kind conn = kindApp then
            (case cn_InstallationID conn of
               None \<Rightarrow> fail (Internalf ''resolve connection'' (Opaque ''app connection missing installation id''))
             | Some i \<Rightarrow>
                 if i = [] then fail (Internalf ''resolve connection'' (Opaque ''app connection missing installation id''))
                 else bind (map_err mapProviderErr (lift (prv_InstallationToken p i))) (\<lambda>token.
                      ret (\<lparr>pc_Kind = cn_Kind conn, pc_Token = token, pc_InstallationID = i\<rparr>, p)))
          else
            bind (openToken A (cn_ID conn)) (\<lambda>found.
            case found of
              None \<Rightarrow> fail (NotFound ''this integration has no stored credential; reconnect it'')
            | Some token \<Rightarrow> ret (\<lparr>pc_Kind = cn_Kind conn, pc_Token = token, pc_InstallationID = []\<rparr>, p)))"

definition providerStatuses :: "Registry \<Rightarrow> ProviderStatus list" where
  "providerStatuses R =
     map (\<lambda>p. \<lparr>pst_Provider = prv_ID p, pst_DisplayName = prv_DisplayName p, pst_OAuthConfigured = prv_OAuthConfigured p,
               pst_AppConfigured = prv_AppConfigured p, pst_Available = True\<rparr>) (Registry_All R)"

section \<open>Operations\<close>

definition BeginOAuth ::
    "deps \<Rightarrow> AEAD \<Rightarrow> Registry \<Rightarrow> err + nat list \<Rightarrow> err + string \<Rightarrow> Principal \<Rightarrow> string \<Rightarrow> string \<Rightarrow> (string \<times> string) m" where
  "BeginOAuth D A R rnd boxNonce caller workspaceID providerID =
     bind (beginConnect D R caller workspaceID providerID) (\<lambda>p.
     check (prv_OAuthConfigured p) (InvalidInput (prv_DisplayName p @ '' OAuth is not configured on this server''))
    (bind (sealState A rnd boxNonce caller workspaceID (prv_ID p)) (\<lambda>(sealed, nonce).
     ret (prv_AuthorizeURL p nonce, sealed))))"

definition connectOAuthTx :: "connectState \<Rightarrow> Provider \<Rightarrow> Account \<Rightarrow> string \<Rightarrow> string \<Rightarrow> Connection m" where
  "connectOAuthTx st p account sealedToken scopes =
     bind (InsertOAuthConnection (cst_WorkspaceID st) (prv_ID p) (acc_Login account) (acc_ID account) sealedToken scopes
             (Some (cst_UserID st))) (\<lambda>conn.
     bind (audit_Record ''source.oauth.connect'' ''source_connection'' (cn_ID conn) (cst_WorkspaceID st) (cst_UserID st)) (\<lambda>_.
     ret conn))"

definition CompleteOAuth :: "AEAD \<Rightarrow> Registry \<Rightarrow> err + string \<Rightarrow> Principal \<Rightarrow> CompleteOAuthInput \<Rightarrow> (string \<times> string) m" where
  "CompleteOAuth A R boxNonce caller inp =
     bind (openAndVerify A R caller (co_Provider inp) (co_State inp) (co_CookieState inp)) (\<lambda>(st, p).
     check (strings_TrimSpace (co_Code inp) \<noteq> []) (InvalidInput ''missing authorization code'')
    (bind (map_err mapProviderErr (lift (prv_ExchangeCode p (co_Code inp)))) (\<lambda>(token, scopes, account).
     bind (map_err (Internalf ''seal token'') (lift (Box_Seal A boxNonce token))) (\<lambda>sealedToken.
     bind (map_err (Internalf ''connect oauth'') (WithinTx (connectOAuthTx st p account sealedToken scopes))) (\<lambda>_.
     ret (cst_WorkspaceID st, acc_Login account))))))"

definition BeginAppInstall ::
    "deps \<Rightarrow> AEAD \<Rightarrow> Registry \<Rightarrow> err + nat list \<Rightarrow> err + string \<Rightarrow> Principal \<Rightarrow> string \<Rightarrow> string \<Rightarrow> (string \<times> string) m" where
  "BeginAppInstall D A R rnd boxNonce caller workspaceID providerID =
     bind (beginConnect D R caller workspaceID providerID) (\<lambda>p.
     let unconfigured = InvalidInput (''the '' @ prv_DisplayName p @ '' App is not configured on this server'') in
     check (prv_AppConfigured p) unconfigured
    (bind (sealState A rnd boxNonce caller workspaceID (prv_ID p)) (\<lambda>(sealed, nonce).
     case prv_InstallURL p nonce of
       None \<Rightarrow> fail unconfigured
     | Some installURL \<Rightarrow> ret (installURL, sealed))))"

definition connectAppTx :: "connectState \<Rightarrow> Provider \<Rightarrow> Account \<Rightarrow> string \<Rightarrow> Connection m" where
  "connectAppTx st p account installationID =
     bind (InsertAppConnection (cst_WorkspaceID st) (prv_ID p) (acc_Login account) (acc_ID account) installationID
             (Some (cst_UserID st))) (\<lambda>conn.
     bind (audit_Record ''source.app.connect'' ''source_connection'' (cn_ID conn) (cst_WorkspaceID st) (cst_UserID st)) (\<lambda>_.
     ret conn))"

definition CompleteAppInstall :: "AEAD \<Rightarrow> Registry \<Rightarrow> Principal \<Rightarrow> CompleteAppInput \<Rightarrow> (string \<times> string) m" where
  "CompleteAppInstall A R caller inp =
     check (strings_TrimSpace (ca_InstallationID inp) \<noteq> []) (InvalidInput ''missing installation id'')
    (bind (openAndVerify A R caller (ca_Provider inp) (ca_State inp) (ca_CookieState inp)) (\<lambda>(st, p).
     bind (map_err mapProviderErr (lift (prv_ResolveInstallation p (ca_InstallationID inp)))) (\<lambda>account.
     bind (map_err (Internalf ''connect app'') (WithinTx (connectAppTx st p account (ca_InstallationID inp)))) (\<lambda>_.
     ret (cst_WorkspaceID st, acc_Login account)))))"

definition ListConnections :: "deps \<Rightarrow> Registry \<Rightarrow> Principal \<Rightarrow> string \<Rightarrow> (Connection list \<times> ProviderStatus list) m" where
  "ListConnections D R caller workspaceID =
     check (id_Parse D workspaceID) (InvalidInput ''a valid workspace_id is required'')
    (bind (Authorize caller ActionSourceRead (source_resource workspaceID)) (\<lambda>_.
     bind (map_err (Internalf ''list connections'') (ListConnectionsByWorkspace workspaceID)) (\<lambda>conns.
     ret (conns, providerStatuses R))))"

text \<open>Revoking the token at the provider is best effort: whatever it returns is only logged.\<close>

definition revokeToken :: "AEAD \<Rightarrow> Registry \<Rightarrow> Connection \<Rightarrow> unit m" where
  "revokeToken A R conn =
     (if cn_Kind conn = kindOAuth then
        catch (bind (openToken A (cn_ID conn)) (\<lambda>found.
               case found of
                 None \<Rightarrow> ret ()
               | Some token \<Rightarrow>
                   (case Registry_Get R (cn_Provider conn) of
                      None \<Rightarrow> ret ()
                    | Some p \<Rightarrow> lift (prv_RevokeToken p token))))
          (\<lambda>_. ret ())
      else ret ())"

definition disconnectTx :: "Connection \<Rightarrow> string \<Rightarrow> Principal \<Rightarrow> unit m" where
  "disconnectTx conn connectionID caller =
     bind (DeleteConnectionByID connectionID) (\<lambda>deleted.
     case deleted of
       None \<Rightarrow> fail (NotFound (''connection '' @ connectionID @ '' not found''))
     | Some deletedID \<Rightarrow>
         audit_Record ''source.disconnect'' ''source_connection'' deletedID (cn_WorkspaceID conn) (UserID caller))"

definition DisconnectConnection :: "deps \<Rightarrow> AEAD \<Rightarrow> Registry \<Rightarrow> Principal \<Rightarrow> string \<Rightarrow> unit m" where
  "DisconnectConnection D A R caller connectionID =
     bind (requireConnection D connectionID) (\<lambda>conn.
     bind (Authorize caller ActionSourceDisconnect (source_resource (cn_WorkspaceID conn))) (\<lambda>_.
     bind (map_err (Internalf ''disconnect'') (CountServicesByConnection connectionID)) (\<lambda>inUse.
     check (inUse = 0)
       (InvalidInput (''this integration is used by '' @ nat_digits inUse @ '' service(s); remove or repoint them first''))
    (bind (revokeToken A R conn) (\<lambda>_.
     map_err (mapErr ''disconnect'') (WithinTx (disconnectTx conn connectionID caller)))))))"

definition ListRepositories :: "deps \<Rightarrow> AEAD \<Rightarrow> Registry \<Rightarrow> Principal \<Rightarrow> string \<Rightarrow> string \<Rightarrow> int \<Rightarrow> Repo list m" where
  "ListRepositories D A R caller connectionID rawQuery page =
     bind (requireConnection D connectionID) (\<lambda>conn.
     bind (Authorize caller ActionSourceConnect (source_resource (cn_WorkspaceID conn))) (\<lambda>_.
     bind (resolveConn A R conn) (\<lambda>(pc, p).
     map_err mapProviderErr (lift (prv_ListRepos p pc rawQuery page)))))"

definition ListBranches :: "deps \<Rightarrow> AEAD \<Rightarrow> Registry \<Rightarrow> Principal \<Rightarrow> string \<Rightarrow> string \<Rightarrow> string \<Rightarrow> string list m" where
  "ListBranches D A R caller connectionID owner repo =
     check (strings_TrimSpace owner \<noteq> [] \<and> strings_TrimSpace repo \<noteq> []) (InvalidInput ''owner and repo are required'')
    (bind (requireConnection D connectionID) (\<lambda>conn.
     bind (Authorize caller ActionSourceConnect (source_resource (cn_WorkspaceID conn))) (\<lambda>_.
     bind (resolveConn A R conn) (\<lambda>(pc, p).
     map_err mapProviderErr (lift (prv_ListBranches p pc owner repo))))))"

definition InstallationToken :: "Registry \<Rightarrow> string \<Rightarrow> string option m" where
  "InstallationToken R connectionID =
     bind (map_err (Internalf ''resolve connection'') (GetConnectionByID connectionID)) (\<lambda>found.
     case found of
       None \<Rightarrow> ret None
     | Some conn \<Rightarrow>
         (case (if cn_Kind conn = kindApp then cn_InstallationID conn else None) of
            None \<Rightarrow> ret None
          | Some i \<Rightarrow>
              if i = [] then ret None
              else (case Registry_Get R (cn_Provider conn) of
                      None \<Rightarrow> ret None
                    | Some p \<Rightarrow> map_m Some (map_err mapProviderErr (lift (prv_InstallationToken p i))))))"

definition GetConnectionMeta :: "deps \<Rightarrow> string \<Rightarrow> Connection option m" where
  "GetConnectionMeta D connectionID =
     check (id_Parse D connectionID) (InvalidInput ''a valid connection_id is required'')
       (map_err (Internalf ''resolve connection'') (GetConnectionByID connectionID))"

definition validateBranch :: "Provider \<Rightarrow> Conn \<Rightarrow> Repo \<Rightarrow> string \<Rightarrow> err + string" where
  "validateBranch p pc info branch =
     (if branch = [] then Inr (rp_DefaultBranch info)
      else case prv_GetBranch p pc (rp_Owner info) (rp_Name info) branch of
             Inr _ \<Rightarrow> Inr branch
           | Inl e \<Rightarrow>
               if errors_Is e ProviderErrNotFound
               then Inl (InvalidInput (''branch '' @ fmt_q branch @ '' was not found in '' @ rp_FullName info))
               else Inl (mapProviderErr e))"

definition ValidateRepo :: "deps \<Rightarrow> AEAD \<Rightarrow> Registry \<Rightarrow> string \<Rightarrow> string \<Rightarrow> string \<Rightarrow> string \<Rightarrow> ResolvedRepo m" where
  "ValidateRepo D A R connectionID owner repo branch =
     bind (requireConnection D connectionID) (\<lambda>conn.
     check (strings_TrimSpace owner \<noteq> [] \<and> strings_TrimSpace repo \<noteq> []) (InvalidInput ''owner and repo are required'')
    (bind (resolveConn A R conn) (\<lambda>(pc, p).
     bind (map_err mapProviderErr (lift (prv_GetRepository p pc (strings_TrimSpace owner) (strings_TrimSpace repo)))) (\<lambda>info.
     bind (lift (validateBranch p pc info (strings_TrimSpace branch))) (\<lambda>resolvedBranch.
     ret \<lparr>rr_Owner = rp_Owner info, rr_Name = rp_Name info, rr_FullName = rp_FullName info,
          rr_DefaultBranch = rp_DefaultBranch info, rr_HTMLURL = rp_HTMLURL info, rr_IsPrivate = rp_Private info,
          rr_Branch = resolvedBranch, rr_Provider = cn_Provider conn, rr_Kind = cn_Kind conn,
          rr_AccountLogin = cn_AccountLogin conn, rr_Buildable = prv_Buildable p (cn_Kind conn)\<rparr>)))))"

section \<open>Requests\<close>

datatype sources_request =
    BeginOAuthReq "err + nat list" "err + string" string string
  | CompleteOAuthReq "err + string" CompleteOAuthInput
  | BeginAppInstallReq "err + nat list" "err + string" string string
  | CompleteAppInstallReq CompleteAppInput
  | ListConnectionsReq string
  | DisconnectConnectionReq string
  | ListRepositoriesReq string string int
  | ListBranchesReq string string string

definition sources_serve :: "deps \<Rightarrow> AEAD \<Rightarrow> Registry \<Rightarrow> Principal \<Rightarrow> sources_request \<Rightarrow> unit m" where
  "sources_serve D A R p q =
     (case q of
        BeginOAuthReq rnd n ws i \<Rightarrow> finish (BeginOAuth D A R rnd n p ws i)
      | CompleteOAuthReq n inp \<Rightarrow> finish (CompleteOAuth A R n p inp)
      | BeginAppInstallReq rnd n ws i \<Rightarrow> finish (BeginAppInstall D A R rnd n p ws i)
      | CompleteAppInstallReq inp \<Rightarrow> finish (CompleteAppInstall A R p inp)
      | ListConnectionsReq ws \<Rightarrow> finish (ListConnections D R p ws)
      | DisconnectConnectionReq i \<Rightarrow> DisconnectConnection D A R p i
      | ListRepositoriesReq i s n \<Rightarrow> finish (ListRepositories D A R p i s n)
      | ListBranchesReq i owner repo \<Rightarrow> finish (ListBranches D A R p i owner repo))"

lemma readonly_time_Now: "readonly time_Now"
  by (simp add: obeys_def time_Now_def reads.R_refl)

lemma time_Now_succ [succ_iff]: "time_Now w = (Inr t, w') \<longleftrightarrow> t = now w \<and> w' = w"
  by (auto simp: time_Now_def)

lemma readonly_sources_store:
  "readonly (ListConnectionsByWorkspace ws)" "readonly (GetConnectionByID i)" "readonly (GetSealedTokenByConnection i)"
  "readonly (CountServicesByConnection i)"
  unfolding ListConnectionsByWorkspace_def GetConnectionByID_def GetSealedTokenByConnection_def CountServicesByConnection_def
    db_ListConnectionsByWorkspace_def db_GetConnectionByID_def db_GetSealedTokenByConnection_def db_CountServicesByConnection_def
  by (auto intro!: readonly_intros reads.obeys_rules)

lemma readonly_sources_helpers:
  "readonly (sealState A rnd n p ws i)" "readonly (beginConnect D R p ws i)" "readonly (openAndVerify A R p i m c)"
  "readonly (requireConnection D i)" "readonly (openToken A i)" "readonly (resolveConn A R conn)" "readonly (revokeToken A R conn)"
proof -
  show t: "readonly (openToken A i)" for i
    unfolding openToken_def by (intro reads.obeys_rules reads.obeys_cases readonly_sources_store)
  show "readonly (sealState A rnd n p ws i)"
    unfolding sealState_def Let_def by (intro reads.obeys_rules reads.obeys_cases readonly_time_Now)
  show "readonly (beginConnect D R p ws i)"
    unfolding beginConnect_def by (intro reads.obeys_rules reads.obeys_cases readonly_Authorize)
  show "readonly (openAndVerify A R p i m c)"
    unfolding openAndVerify_def by (intro reads.obeys_rules reads.obeys_cases readonly_Authorize readonly_time_Now)
  show "readonly (requireConnection D i)"
    unfolding requireConnection_def by (intro reads.obeys_rules reads.obeys_cases readonly_sources_store)
  show "readonly (resolveConn A R conn)"
    unfolding resolveConn_def by (intro reads.obeys_rules reads.obeys_cases t)
  show "readonly (revokeToken A R conn)"
    unfolding revokeToken_def by (intro reads.obeys_rules reads.obeys_cases t)
qed

lemma readonly_sources_reads:
  "readonly (BeginOAuth D A R rnd n p ws i)" "readonly (BeginAppInstall D A R rnd n p ws i)" "readonly (ListConnections D R p ws)"
  "readonly (ListRepositories D A R p i s pg)" "readonly (ListBranches D A R p i owner repo)" "readonly (InstallationToken R i)"
  "readonly (GetConnectionMeta D i)" "readonly (ValidateRepo D A R i owner repo b)"
  unfolding BeginOAuth_def BeginAppInstall_def ListConnections_def ListRepositories_def ListBranches_def InstallationToken_def
    GetConnectionMeta_def ValidateRepo_def Let_def map_m_def
  by (intro reads.obeys_rules reads.obeys_cases readonly_Authorize readonly_sources_store readonly_sources_helpers)+

lemma atomic_sources_handlers:
  "atomic (CompleteOAuth A R n p co)" "atomic (CompleteAppInstall A R p ca)" "atomic (DisconnectConnection D A R p i)"
  unfolding CompleteOAuth_def CompleteAppInstall_def DisconnectConnection_def
  by (auto intro!: atomic_rules atomic_read_bind readonly_sources_helpers readonly_sources_store readonly_Authorize
        reads.obeys_rules atomic_cases)

lemma atomic_sources_serve: "atomic (sources_serve D A R p q)"
  by (cases q)
     (simp_all add: sources_serve_def atomic_finish atomic_sources_handlers atomic_readonly readonly_sources_reads)

section \<open>The table of connections\<close>

text \<open>The shape of the table: identifiers are unique, every row has the credential of its kind, an
  installation belongs to one row, and so does an account within a workspace.\<close>

definition connections_wf :: "SourceConnection_row list \<Rightarrow> bool" where
  "connections_wf cs \<longleftrightarrow>
     distinct (map sc_ID cs) \<and> list_all connection_ok cs \<and>
     (\<forall>r \<in> set cs. \<forall>t \<in> set cs. same_installation r t \<or> same_account r t \<longrightarrow> t = r)"

lemma same_symmetric: "same_installation r t \<longleftrightarrow> same_installation t r" "same_account r t \<longleftrightarrow> same_account t r"
  by (auto simp: same_installation_def same_account_def)

text \<open>Replacing a row or adding one keeps the shape if the new row clashes with no other.\<close>

lemma connections_wf_append:
  assumes "connections_wf cs" and "connection_ok r" and "sc_ID r \<notin> sc_ID ` set cs"
    and "\<forall>t \<in> set cs. \<not> same_installation r t \<and> \<not> same_account r t"
  shows "connections_wf (cs @ [r])"
  using assms same_symmetric unfolding connections_wf_def by auto

lemma connections_wf_replace:
  assumes wf: "connections_wf cs" and s: "s \<in> set cs" and r: "connection_ok r" "sc_ID r = sc_ID s"
    and no: "\<forall>t \<in> set cs. sc_ID t \<noteq> sc_ID s \<longrightarrow> \<not> same_installation r t \<and> \<not> same_account r t"
  shows "connections_wf (update_where (\<lambda>t. sc_ID t = sc_ID s) (\<lambda>_. r) cs)"
proof -
  let ?cs = "update_where (\<lambda>t. sc_ID t = sc_ID s) (\<lambda>_. r) cs"
  have ids: "map sc_ID ?cs = map sc_ID cs" using r(2) by (intro map_update_where) simp
  have mem: "t = r \<or> t \<in> set cs \<and> sc_ID t \<noteq> sc_ID s" if "t \<in> set ?cs" for t
    using that by (auto simp: set_update_where)
  have "u = t" if "t \<in> set ?cs" "u \<in> set ?cs" "same_installation t u \<or> same_account t u" for t u
    using mem [OF that(1)] mem [OF that(2)] that(3) no wf same_symmetric unfolding connections_wf_def by metis
  moreover have "list_all connection_ok ?cs"
    using wf r(1) mem by (auto simp: list_all_iff connections_wf_def)
  ultimately show ?thesis using wf ids unfolding connections_wf_def by auto
qed

lemma connections_wf_filter: "connections_wf cs \<Longrightarrow> connections_wf (filter p cs)"
  by (auto simp: connections_wf_def list_all_iff distinct_map inj_on_def)

text \<open>What an upsert writes: one row, refreshed or new.\<close>

definition one_row_changed :: "SourceConnection_row \<Rightarrow> SourceConnection_row list \<Rightarrow> SourceConnection_row list \<Rightarrow> bool" where
  "one_row_changed r cs cs' \<longleftrightarrow>
     r \<in> set cs' \<and> (\<forall>c \<in> set cs'. sc_ID c \<noteq> sc_ID r \<longrightarrow> c \<in> set cs) \<and> (\<forall>c \<in> set cs. sc_ID c \<noteq> sc_ID r \<longrightarrow> c \<in> set cs')"

lemma upsert_connection_run:
  assumes "upsert_connection key other refresh mk w = (Inr r, w')" and "connections_wf (source_connections (db w))"
    and "{key, other} = {same_installation, same_account}"
    and "\<And>x s. key x s \<Longrightarrow> sc_ID (refresh x s) = sc_ID s"
    and "\<And>x s t. key x s \<Longrightarrow> connection_ok s \<Longrightarrow> key (refresh x s) t = key s t"
  shows "\<exists>cs. db w' = (db w)\<lparr>source_connections := cs\<rparr> \<and> connections_wf cs \<and>
    one_row_changed r (source_connections (db w)) cs \<and> connection_fks (db w) r \<and>
    (r = mk (w\<lparr>ops := Suc (ops w)\<rparr>) \<or> (\<exists>s. key (mk (w\<lparr>ops := Suc (ops w)\<rparr>)) s \<and> r = refresh (mk (w\<lparr>ops := Suc (ops w)\<rparr>)) s))"
proof -
  let ?cs = "source_connections (db w)" and ?x = "mk (w\<lparr>ops := Suc (ops w)\<rparr>)"
  show ?thesis
  proof (cases "find (key ?x) ?cs")
    case None
    then have nk: "\<forall>t \<in> set ?cs. \<not> key ?x t" by (auto simp: find_None_iff)
    from assms(1) None have r: "r = ?x" "connection_ok r" "connection_fks (db w) r" "\<forall>t \<in> set ?cs. sc_ID t \<noteq> sc_ID r \<and> \<not> other r t"
      and w': "w' = w\<lparr>ops := Suc (ops w), next_uuid := Suc (next_uuid w), db := (db w)\<lparr>source_connections := ?cs @ [r]\<rparr>\<rparr>"
      by (auto simp: upsert_connection_def succ_iff Let_def split: if_splits)
    have "connections_wf (?cs @ [r])"
      using assms(2,3) nk r by (intro connections_wf_append) (auto simp: doubleton_eq_iff)
    with w' r show ?thesis by (intro exI [of _ "?cs @ [r]"]) (simp add: one_row_changed_def)
  next
    case (Some s)
    then have s: "s \<in> set ?cs" "key ?x s" by (auto simp: find_Some_iff)
    let ?cs' = "update_where (\<lambda>t. sc_ID t = sc_ID s) (\<lambda>_. refresh ?x s) ?cs"
    from assms(1) Some have r: "r = refresh ?x s" "connection_ok r" "connection_fks (db w) r"
        "\<forall>t \<in> set ?cs. sc_ID t \<noteq> sc_ID s \<longrightarrow> \<not> other r t"
      and w': "w' = w\<lparr>ops := Suc (ops w), next_uuid := Suc (next_uuid w), db := (db w)\<lparr>source_connections := ?cs'\<rparr>\<rparr>"
      by (auto simp: upsert_connection_def succ_iff Let_def split: if_splits)
    have id: "sc_ID r = sc_ID s" using assms(4) s(2) r(1) by simp
    have "\<not> key r t" if "t \<in> set ?cs" "sc_ID t \<noteq> sc_ID s" for t
    proof
      assume "key r t"
      then have "key s t" using assms(2,5) s r(1) by (auto simp: connections_wf_def list_all_iff)
      then have "t = s" using assms(2,3) s(1) that(1) unfolding connections_wf_def by (auto simp: doubleton_eq_iff)
      with that(2) show False by simp
    qed
    then have "connections_wf ?cs'"
      unfolding r(1) [symmetric] using assms(2,3) s(1) r id
      by (intro connections_wf_replace) (auto simp: doubleton_eq_iff)
    moreover have "one_row_changed r ?cs ?cs'"
      using s(1) id r(1) by (auto simp: one_row_changed_def set_update_where)
    ultimately show ?thesis using w' r s by (intro exI [of _ ?cs']) auto
  qed
qed

section \<open>Runs\<close>

text \<open>What a completed connect flow has shown: the cookie is a state that the box opens, the nonce came
  back through the provider, the state has not expired, and the caller is the user who started the flow and may
  still connect sources in the workspace.\<close>

definition flow_verified :: "AEAD \<Rightarrow> Principal \<Rightarrow> world \<Rightarrow> string \<Rightarrow> string \<Rightarrow> connectState \<Rightarrow> bool" where
  "flow_verified A p w nonce cookie st \<longleftrightarrow>
     openState A cookie = Inr st \<and> nonce \<noteq> [] \<and> cst_Nonce st = nonce \<and> time_Unix (now w) \<le> cst_ExpiresAt st \<and>
     UserID p = cst_UserID st \<and> permitted (db w) p ActionSourceConnect (cst_WorkspaceID st)"

lemma openAndVerify_succ:
  "openAndVerify A R p i nonce cookie w = (Inr (st, prv), w') \<longleftrightarrow>
     flow_verified A p w nonce cookie st \<and> (i = [] \<or> i = cst_Provider st) \<and> provider_for R (cst_Provider st) = Inr prv \<and>
     \<not> faults w (ops w) \<and> w' = w\<lparr>ops := Suc (ops w)\<rparr>"
  by (auto simp: openAndVerify_def succ_iff flow_verified_def IsAuthenticated_def permitted_def)

text \<open>The effect of connecting: one row of the workspace, by the caller, and its audit row.\<close>

definition connected :: "connectState \<Rightarrow> string \<Rightarrow> database \<Rightarrow> database \<Rightarrow> bool" where
  "connected st kind d d' \<longleftrightarrow>
     (\<exists>r cs a. sc_Kind r = kind \<and> sc_WorkspaceID r = cst_WorkspaceID st \<and> sc_ConnectedBy r = Some (cst_UserID st) \<and>
        one_row_changed r (source_connections d) cs \<and>
        audit_row_of (''source.'' @ kind @ ''.connect'') ''source_connection'' (sc_ID r) (cst_WorkspaceID st) (cst_UserID st) a \<and>
        d' = with_audit a (d\<lparr>source_connections := cs\<rparr>)) \<and>
     connections_wf (source_connections d')"

lemma InsertOAuthConnection_run:
  assumes "db_InsertOAuthConnection ws pid login acc sealed scopes by_user w = (Inr r, w')" and "connections_wf (source_connections (db w))"
  shows "\<exists>cs. db w' = (db w)\<lparr>source_connections := cs\<rparr> \<and> connections_wf cs \<and> one_row_changed r (source_connections (db w)) cs \<and>
    sc_Kind r = kindOAuth \<and> sc_WorkspaceID r = ws \<and> sc_ConnectedBy r = by_user"
proof -
  let ?x = "oauth_row ws pid login acc sealed scopes by_user (w\<lparr>ops := Suc (ops w)\<rparr>)"
  have idx: "{same_account, same_installation} = {same_installation, same_account}" by auto
  have keep: "sc_ID (refresh_oauth x s) = sc_ID s" "same_account (refresh_oauth x s) t = same_account s t" for x s t
    by (simp_all add: same_account_def refresh_oauth_def)
  from upsert_connection_run [OF assms(1) [unfolded db_InsertOAuthConnection_def], OF assms(2), OF idx, OF keep(1), OF keep(2)]
  obtain cs where "db w' = (db w)\<lparr>source_connections := cs\<rparr>" "connections_wf cs" "one_row_changed r (source_connections (db w)) cs"
    "r = ?x \<or> (\<exists>s. same_account ?x s \<and> r = refresh_oauth ?x s)" by blast
  then show ?thesis by (intro exI [of _ cs]) (auto simp: same_account_def refresh_oauth_def oauth_row_def)
qed

lemma InsertAppConnection_run:
  assumes "db_InsertAppConnection ws pid login acc inst by_user w = (Inr r, w')" and "connections_wf (source_connections (db w))"
    and "inst \<noteq> None"
  shows "\<exists>cs. db w' = (db w)\<lparr>source_connections := cs\<rparr> \<and> connections_wf cs \<and> one_row_changed r (source_connections (db w)) cs \<and>
    sc_Kind r = kindApp \<and> sc_WorkspaceID r = ws \<and> sc_ConnectedBy r = by_user"
proof -
  let ?x = "app_row ws pid login acc inst by_user (w\<lparr>ops := Suc (ops w)\<rparr>)"
  have keep: "sc_ID (refresh_app x s) = sc_ID s" "same_installation (refresh_app x s) t = same_installation s t" for x s t
    by (simp_all add: same_installation_def refresh_app_def)
  from upsert_connection_run [OF assms(1) [unfolded db_InsertAppConnection_def], OF assms(2), OF refl, OF keep(1), OF keep(2)]
  obtain cs where w': "db w' = (db w)\<lparr>source_connections := cs\<rparr>"
    and cs: "connections_wf cs" "one_row_changed r (source_connections (db w)) cs"
    and r: "r = ?x \<or> (\<exists>s. same_installation ?x s \<and> r = refresh_app ?x s)" by blast
  have "connection_ok r" using cs by (simp add: connections_wf_def one_row_changed_def list_all_iff)
  moreover have "sc_InstallationID r \<noteq> None" using r assms(3) by (auto simp: same_installation_def refresh_app_def app_row_def)
  ultimately have "sc_Kind r = kindApp" by (auto simp: connection_ok_def)
  moreover have "sc_WorkspaceID r = ws" "sc_ConnectedBy r = by_user" using r by (auto simp: refresh_app_def app_row_def)
  ultimately show ?thesis using w' cs by blast
qed

lemma connectOAuthTx_run:
  assumes "connectOAuthTx st p account sealed scopes w = (Inr conn, w')" and "connections_wf (source_connections (db w))"
  shows "connected st kindOAuth (db w) (db w')"
proof -
  from assms(1) obtain r w1 where ins: "db_InsertOAuthConnection (cst_WorkspaceID st) (prv_ID p) (acc_Login account) (acc_ID account)
        sealed scopes (Some (cst_UserID st)) w = (Inr r, w1)"
    and rec: "audit_Record ''source.oauth.connect'' ''source_connection'' (sc_ID r) (cst_WorkspaceID st) (cst_UserID st) w1 = (Inr (), w')"
    by (auto simp: connectOAuthTx_def InsertOAuthConnection_def bind_succ map_m_succ connectionFromRow_def)
  from InsertOAuthConnection_run [OF ins assms(2)] trail.rec_ok [OF rec]
  show ?thesis unfolding connected_def with_audit_def by force
qed

lemma connectAppTx_run:
  assumes "connectAppTx st p account i w = (Inr conn, w')" and "connections_wf (source_connections (db w))"
  shows "connected st kindApp (db w) (db w')"
proof -
  from assms(1) obtain r w1 where ins: "db_InsertAppConnection (cst_WorkspaceID st) (prv_ID p) (acc_Login account) (acc_ID account)
        (Some i) (Some (cst_UserID st)) w = (Inr r, w1)"
    and rec: "audit_Record ''source.app.connect'' ''source_connection'' (sc_ID r) (cst_WorkspaceID st) (cst_UserID st) w1 = (Inr (), w')"
    by (auto simp: connectAppTx_def InsertAppConnection_def bind_succ map_m_succ connectionFromRow_def)
  from InsertAppConnection_run [OF ins assms(2)] trail.rec_ok [OF rec]
  show ?thesis unfolding connected_def with_audit_def by force
qed

lemma CompleteOAuth_run:
  assumes "CompleteOAuth A R n p inp w = (Inr x, w')" and "connections_wf (source_connections (db w))"
  obtains st where "flow_verified A p w (co_State inp) (co_CookieState inp) st" and "connected st kindOAuth (db w) (db w')"
    and "fst x = cst_WorkspaceID st"
proof -
  from assms(1) obtain st prv account token scopes sealed conn m w0 where
    "flow_verified A p w (co_State inp) (co_CookieState inp) st" and x: "x = (cst_WorkspaceID st, acc_Login account)"
    and tx: "connectOAuthTx st prv account sealed scopes (w\<lparr>ops := m\<rparr>) = (Inr conn, w0)" and "db w' = db w0"
    by (auto simp: CompleteOAuth_def bind_succ check_succ map_err_succ lift_succ WithinTx_succ openAndVerify_succ)
  with that connectOAuthTx_run [OF tx] assms(2) show thesis by simp
qed

lemma CompleteAppInstall_run:
  assumes "CompleteAppInstall A R p inp w = (Inr x, w')" and "connections_wf (source_connections (db w))"
  obtains st where "flow_verified A p w (ca_State inp) (ca_CookieState inp) st" and "connected st kindApp (db w) (db w')"
    and "fst x = cst_WorkspaceID st"
proof -
  from assms(1) obtain st prv account conn m w0 where
    "flow_verified A p w (ca_State inp) (ca_CookieState inp) st" and x: "x = (cst_WorkspaceID st, acc_Login account)"
    and tx: "connectAppTx st prv account (ca_InstallationID inp) (w\<lparr>ops := m\<rparr>) = (Inr conn, w0)" and "db w' = db w0"
    by (auto simp: CompleteAppInstall_def bind_succ check_succ map_err_succ lift_succ WithinTx_succ openAndVerify_succ)
  with that connectAppTx_run [OF tx] assms(2) show thesis by simp
qed

lemma requireConnection_succ:
  "requireConnection D i w = (Inr conn, w') \<longleftrightarrow>
     id_Parse D i \<and> (\<exists>r. find (\<lambda>r. sc_ID r = i) (source_connections (db w)) = Some r \<and> conn = connectionFromRow r) \<and>
     \<not> faults w (ops w) \<and> w' = w\<lparr>ops := Suc (ops w)\<rparr>"
  by (auto simp: requireConnection_def GetConnectionByID_def db_GetConnectionByID_def absent_ok_def catch_def bind_def
        run_defs map_m_def Let_def split: option.splits if_splits)

text \<open>The effect of a disconnection.\<close>

definition disconnected :: "string \<Rightarrow> string \<Rightarrow> string \<Rightarrow> database \<Rightarrow> database \<Rightarrow> bool" where
  "disconnected i ws actor d d' \<longleftrightarrow>
     (\<forall>s \<in> set (services d). rs_ConnectionID s \<noteq> Some i) \<and>
     (\<exists>a. audit_row_of ''source.disconnect'' ''source_connection'' i ws actor a \<and>
        d' = with_audit a (d\<lparr>source_connections := filter (\<lambda>r. sc_ID r \<noteq> i) (source_connections d)\<rparr>))"

lemma disconnectTx_run:
  assumes "disconnectTx conn i p w = (Inr u, w')"
  shows "disconnected i (cn_WorkspaceID conn) (UserID p) (db w) (db w')"
proof -
  from assms obtain j w1 where del: "DeleteConnectionByID i w = (Inr (Some j), w1)"
    and rec: "audit_Record ''source.disconnect'' ''source_connection'' j (cn_WorkspaceID conn) (UserID p) w1 = (Inr (), w')"
    by (auto simp: disconnectTx_def bind_succ split: option.splits)
  from del have d: "j = i" "\<forall>s \<in> set (services (db w)). rs_ConnectionID s \<noteq> Some i"
      "db w1 = (db w)\<lparr>source_connections := filter (\<lambda>r. sc_ID r \<noteq> i) (source_connections (db w))\<rparr>"
    by (auto simp: DeleteConnectionByID_def db_DeleteConnectionByID_def absent_ok_def catch_def run_defs Let_def image_iff
          split: if_splits)
  with trail.rec_ok [OF rec] show ?thesis by (auto simp: disconnected_def with_audit_def)
qed

lemma DisconnectConnection_run:
  assumes "DisconnectConnection D A R p i w = (Inr u, w')"
  obtains c where "c \<in> set (source_connections (db w))" "sc_ID c = i" "permitted (db w) p ActionSourceDisconnect (sc_WorkspaceID c)"
    and "disconnected i (sc_WorkspaceID c) (UserID p) (db w) (db w')"
proof -
  from assms obtain c m w0 w1 w2 where c: "find (\<lambda>r. sc_ID r = i) (source_connections (db w)) = Some c"
    and p: "permitted (db w) p ActionSourceDisconnect (sc_WorkspaceID c)"
    and rev: "revokeToken A R (connectionFromRow c) w0 = (Inr (), w1)" "db w0 = db w"
    and tx: "disconnectTx (connectionFromRow c) i p (w1\<lparr>ops := m\<rparr>) = (Inr (), w2)" "db w' = db w2"
    by (auto simp: DisconnectConnection_def bind_succ check_succ map_err_succ Authorize_succ requireConnection_succ
          WithinTx_succ CountServicesByConnection_def db_CountServicesByConnection_def select_many_succ connectionFromRow_def)
  have "db w1 = db w" using readonly_db [OF readonly_sources_helpers(7) rev(1)] rev(2) by simp
  with disconnectTx_run [OF tx(1)] tx(2)
  have "disconnected i (sc_WorkspaceID c) (UserID p) (db w) (db w')" by (simp add: connectionFromRow_def)
  with find_Some_mem [OF c] p show thesis by (intro that [of c]) simp_all
qed

section \<open>The connect flow\<close>

text \<open>C20: connections change only through completed flows and permitted disconnections. Whatever request of the
  module changes the database, either a connect flow was completed by the user who started it, with the nonce and
  before the expiry of its sealed state, by a caller who may connect sources in the state's workspace, and then
  exactly one connection, of that workspace, was added or refreshed; or a permitted caller removed a connection that no
  service uses. Either way exactly one audit row names it, and the table keeps its shape: one row per
  installation and per account, each with the credential of its kind and no other.\<close>

theorem connections_change_only_as_permitted:
  assumes "sources_serve D A R p q w = (r, w')" and "db w' \<noteq> db w" and "connections_wf (source_connections (db w))"
  shows "connections_wf (source_connections (db w')) \<and>
    ((\<exists>n inp st. q = CompleteOAuthReq n inp \<and> flow_verified A p w (co_State inp) (co_CookieState inp) st \<and>
        connected st kindOAuth (db w) (db w')) \<or>
     (\<exists>inp st. q = CompleteAppInstallReq inp \<and> flow_verified A p w (ca_State inp) (ca_CookieState inp) st \<and>
        connected st kindApp (db w) (db w')) \<or>
     (\<exists>c \<in> set (source_connections (db w)). q = DisconnectConnectionReq (sc_ID c) \<and>
        permitted (db w) p ActionSourceDisconnect (sc_WorkspaceID c) \<and>
        disconnected (sc_ID c) (sc_WorkspaceID c) (UserID p) (db w) (db w')))"
proof -
  have "r = Inr ()" using atomicD [OF atomic_sources_serve] assms(1,2) by (cases r) auto
  with assms(1) have run: "sources_serve D A R p q w = (Inr (), w')" by simp
  note quiet = readonly_sources_reads [THEN readonly_db]
  show ?thesis
  proof (cases q)
    case (CompleteOAuthReq n inp)
    with run obtain x where "CompleteOAuth A R n p inp w = (Inr x, w')"
      by (auto simp: sources_serve_def finish_def map_m_succ)
    from CompleteOAuth_run [OF this assms(3)] CompleteOAuthReq show ?thesis unfolding connected_def by metis
  next
    case (CompleteAppInstallReq inp)
    with run obtain x where "CompleteAppInstall A R p inp w = (Inr x, w')"
      by (auto simp: sources_serve_def finish_def map_m_succ)
    from CompleteAppInstall_run [OF this assms(3)] CompleteAppInstallReq show ?thesis unfolding connected_def by metis
  next
    case (DisconnectConnectionReq i)
    with run have "DisconnectConnection D A R p i w = (Inr (), w')" by (simp add: sources_serve_def)
    from DisconnectConnection_run [OF this] obtain c where c: "c \<in> set (source_connections (db w))" "sc_ID c = i"
      "permitted (db w) p ActionSourceDisconnect (sc_WorkspaceID c)" "disconnected i (sc_WorkspaceID c) (UserID p) (db w) (db w')"
      by blast
    then have "connections_wf (source_connections (db w'))"
      using assms(3) by (auto simp: disconnected_def with_audit_def connections_wf_filter)
    with c DisconnectConnectionReq show ?thesis by blast
  qed (use run assms(2) quiet in \<open>auto simp: sources_serve_def finish_def map_m_succ\<close>)
qed

text \<open>What a flow seals, it opens: until its expiry and for the caller that started it.\<close>

lemma unmarshal_marshal:
  assumes "utf8_Valid (cst_WorkspaceID st)" "utf8_Valid (cst_UserID st)" "utf8_Valid (cst_Provider st)" "utf8_Valid (cst_Nonce st)"
    and "0 \<le> cst_ExpiresAt st" "cst_ExpiresAt st < 2 ^ 63"
  shows "unmarshal_connectState (marshal_connectState st) = Some st"
proof -
  have k: "utf8_Valid [c]" if "in_range 0 127 c" for c using that utf8_size_ascii [of c "[]"] by (simp add: utf8_Valid.simps)
  have keys: "utf8_Valid ''w''" "utf8_Valid ''u''" "utf8_Valid ''p''" "utf8_Valid ''n''" "utf8_Valid ''e''"
    by (rule k, simp add: in_range_def)+
  let ?ms = "[(''w'', JStr (cst_WorkspaceID st)), (''u'', JStr (cst_UserID st)), (''p'', JStr (cst_Provider st)),
    (''n'', JStr (cst_Nonce st)), (''e'', JNum (strconv_Itoa (cst_ExpiresAt st)))]"
  obtain body where body: "marshal_connectState st = CHR ''{'' # CHR 0x22 # body"
    by (simp add: marshal_connectState_def json_quote_def)
  have len: "length (marshal_connectState st) \<ge> 6" by (simp add: marshal_connectState_def json_quote_def)
  then obtain n where n: "length (marshal_connectState st) = Suc (Suc (Suc (Suc (Suc (Suc n)))))"
    by (intro that [of "length (marshal_connectState st) - 6"]) simp
  have "json_members (Suc (Suc (Suc (Suc (Suc (Suc n)))))) 9999 (tl (marshal_connectState st)) = Some (?ms, [])"
    unfolding marshal_connectState_def list.sel
    using json_members_last_int [OF keys(5) assms(5), where r = "[]"]
    by (simp add: json_members_string keys assms del: json_members.simps)
  then have "json_members (Suc (Suc (Suc (Suc (Suc (Suc n)))))) 9999 (CHR 0x22 # body) = Some (?ms, [])"
    unfolding body list.sel .
  then have "json_value (Suc (length (marshal_connectState st))) 10000 (marshal_connectState st) = Some (JObj ?ms, [])"
    unfolding n using body by (simp del: json_members.simps)
  then show ?thesis
    using assms(5,6)
    by (simp add: unmarshal_connectState_def json_Parse_def connectState_of_def members_named_def strconv_Atoi_Itoa ascii_lower_def del: json_value.simps)
qed

lemma utf8_Valid_ascii: "list_all (in_range 0 127) s \<Longrightarrow> utf8_Valid s"
proof (induction s)
  case (Cons c s)
  then have "utf8_size (c # s) = 1" unfolding utf8_size_ascii by simp
  with Cons show ?case by (simp add: utf8_Valid.simps [of "c # s"])
qed (simp add: utf8_Valid.simps)

lemma base64url_char_visible:
  assumes "n < 64"
  shows "32 < byte_of (base64url_char n)" and "byte_of (base64url_char n) < 127"
proof -
  let ?c = "base64url_char n"
  have "base64url_value ?c \<noteq> None" using base64url_char_value(1) [OF assms] by simp
  then have "in_range 65 90 ?c \<or> in_range 97 122 ?c \<or> in_range 48 57 ?c \<or> ?c = CHR ''-'' \<or> ?c = CHR ''_''"
    by (auto simp: base64url_value_def split: if_splits)
  then show "32 < byte_of ?c" "byte_of ?c < 127" by (auto simp: in_range_def)
qed

lemma base64url_Encode_visible:
  "\<forall>b \<in> set bs. b < 256 \<Longrightarrow> \<forall>c \<in> set (base64url_Encode bs). 32 < byte_of c \<and> byte_of c < 127"
proof (induction bs rule: base64url_Encode.induct)
  case (4 a b c bs)
  then have idx: "a div 4 < 64" "a mod 4 * 16 + b div 16 < 64" "b mod 16 * 4 + c div 64 < 64" "c mod 64 < 64"
    using base64_index [of a b c] by simp_all
  from 4 idx [THEN base64url_char_visible(1)] idx [THEN base64url_char_visible(2)] show ?case by auto
next
  case (3 a b)
  then have idx: "a div 4 < 64" "a mod 4 * 16 + b div 16 < 64" "b mod 16 * 4 < 64"
    using base64_index [of a b 0] by simp_all
  from idx [THEN base64url_char_visible(1)] idx [THEN base64url_char_visible(2)] show ?case by auto
next
  case (2 a)
  then have idx: "a div 4 < 64" "a mod 4 * 16 < 64" by simp_all
  from idx [THEN base64url_char_visible(1)] idx [THEN base64url_char_visible(2)] show ?case by auto
qed simp

lemma base64url_Encode_Nil_iff: "base64url_Encode bs = [] \<longleftrightarrow> bs = []"
  by (cases bs rule: base64url_Encode.cases) simp_all

text \<open>The box and the cookie encoding carry a state unchanged.\<close>

lemma openState_sealed:
  assumes "aead_law A" "length n = NonceSize" and "Box_Seal A (Inr n) (marshal_connectState st) = Inr b"
    and "unmarshal_connectState (marshal_connectState st) = Some st"
  shows "openState A (base64url_Encode (map byte_of b)) = Inr st"
proof -
  let ?c = "base64url_Encode (map byte_of b)"
  have lt: "\<forall>x \<in> set (map byte_of b). x < (256 :: nat)" by auto
  have "b \<noteq> []" and o: "Box_Open A b = Inr (marshal_connectState st)" using Box_Open_Seal [OF assms(1,2,3)] by simp_all
  then have "?c \<noteq> []" by (simp add: base64url_Encode_Nil_iff)
  then have "strings_TrimSpace ?c = ?c" using base64url_Encode_visible [OF lt] by (intro TrimSpace_visible) auto
  moreover have "map byte_char (map byte_of b) = b" by (simp add: comp_def)
  ultimately show ?thesis
    using \<open>?c \<noteq> []\<close> base64url_Decode_Encode [OF lt] o assms(4) by (simp add: openState_def Let_def comp_def)
qed

lemma sealState_run:
  assumes "sealState A (Inr bs) (Inr n) p ws i w = (Inr (cookie, nonce), w')" and "aead_law A" "length n = NonceSize"
    and "utf8_Valid ws" "utf8_Valid (UserID p)" "utf8_Valid i" and "0 \<le> now w" "now w + stateTTL < 2 ^ 63"
  shows "nonce = hex_EncodeToString bs \<and> openState A cookie = Inr \<lparr>cst_WorkspaceID = ws, cst_UserID = UserID p, cst_Provider = i,
     cst_Nonce = nonce, cst_ExpiresAt = time_Unix (now w + stateTTL)\<rparr>"
proof -
  let ?st = "\<lparr>cst_WorkspaceID = ws, cst_UserID = UserID p, cst_Provider = i, cst_Nonce = hex_EncodeToString bs,
     cst_ExpiresAt = time_Unix (now w + stateTTL)\<rparr>"
  from assms(1) obtain b where b: "Box_Seal A (Inr n) (marshal_connectState ?st) = Inr b"
    and r: "cookie = base64url_Encode (map byte_of b)" "nonce = hex_EncodeToString bs"
    by (auto simp: sealState_def newNonce_def succ_iff Let_def)
  have "utf8_Valid (hex_EncodeToString bs)"
    using hex_Encode_slug [of bs] by (intro utf8_Valid_ascii) (auto simp: list_all_iff slug_char_def is_digit_def in_range_def)
  then have "unmarshal_connectState (marshal_connectState ?st) = Some ?st"
    using assms(4-8) by (intro unmarshal_marshal) (simp_all add: time_Unix_def stateTTL_def)
  from openState_sealed [OF assms(2,3) b this] r show ?thesis by simp
qed

text \<open>C25: a connect flow that was begun can be completed, by whom and when it should. What \<open>BeginOAuth\<close>
  puts into the URL and into the cookie passes the verification of the callback exactly for the user who began the flow,
  while that user may still connect sources in the workspace, until ten minutes later; and the verified state names the
  workspace the flow was begun for.\<close>

theorem connect_flow_roundtrip:
  assumes "R = NewRegistry [Some (NewGitHub C oa app)]"
    and "BeginOAuth D A R (Inr bs) (Inr n) p ws i w = (Inr (url, cookie), w1)"
    and "aead_law A" "length n = NonceSize" "bs \<noteq> []" "utf8_Valid ws" "utf8_Valid (UserID p)" "0 \<le> now w" "now w + stateTTL < 2 ^ 63"
  shows "\<exists>nonce. url = ghc_AuthorizeURL C (oc_ClientID oa) (oc_RedirectURL oa) (oc_Scopes oa) nonce \<and>
    (\<forall>caller u. \<not> faults u (ops u) \<longrightarrow>
      ((\<exists>st prv u'. openAndVerify A R caller ''github'' nonce cookie u = (Inr (st, prv), u') \<and> cst_WorkspaceID st = ws) \<longleftrightarrow>
       UserID caller = UserID p \<and> permitted (db u) caller ActionSourceConnect ws \<and>
       time_Unix (now u) \<le> time_Unix (now w + stateTTL)))"
proof -
  let ?g = "NewGitHub C oa app"
  have reg: "provider_for R j = Inr prv \<Longrightarrow> prv = ?g" "provider_for R ''github'' = Inr ?g" for j prv
    by (auto simp: assms(1) provider_for_def Registry_Get_def NewGitHub_def Let_def split: if_splits option.splits)
  from assms(2) obtain prv nonce w0 where prv: "provider_for R i = Inr prv"
    and seal: "sealState A (Inr bs) (Inr n) p ws (prv_ID prv) w0 = (Inr (cookie, nonce), w1)" and "now w0 = now w"
    and url: "url = prv_AuthorizeURL prv nonce"
    by (auto simp: BeginOAuth_def beginConnect_def bind_succ check_succ lift_succ Authorize_succ)
  have g: "prv_ID ?g = ''github''" "utf8_Valid (prv_ID ?g)"
    by (simp_all add: NewGitHub_def utf8_Valid_ascii in_range_def)
  have nonce: "nonce = hex_EncodeToString bs" and st: "openState A cookie = Inr \<lparr>cst_WorkspaceID = ws, cst_UserID = UserID p,
      cst_Provider = ''github'', cst_Nonce = nonce, cst_ExpiresAt = time_Unix (now w + stateTTL)\<rparr>"
    using sealState_run [OF seal assms(3,4,6,7)] g assms(8,9) reg(1) [OF prv] \<open>now w0 = now w\<close> by simp_all
  have "nonce \<noteq> []" using nonce assms(5) length_hex_Encode [of bs] by auto
  with st reg(2) show ?thesis
    by (intro exI [of _ nonce] conjI) (auto simp: url reg(1) [OF prv] NewGitHub_def openAndVerify_succ flow_verified_def)
qed

section \<open>Witnesses\<close>

definition demo_client :: GitHubClient where
  "demo_client =
     \<lparr>ghc_AuthorizeURL = (\<lambda>_ _ _ state. ''https://github.com/login/oauth/authorize?state='' @ state),
      ghc_ExchangeCode = (\<lambda>_ _ _ _. Inr (''gho_token'', ''repo'')), ghc_GetAuthenticatedUser = (\<lambda>_. Inr (''acme'', 7)),
      ghc_RevokeToken = (\<lambda>_ _ _. Inr ()), ghc_GetInstallation = (\<lambda>i. Inr (''acme'', 7)),
      ghc_InstallationToken = (\<lambda>i. Inr (''ghs_'' @ i)), ghc_ListUserRepos = (\<lambda>_ _ _. Inr []),
      ghc_ListInstallationRepos = (\<lambda>_ _. Inr []), ghc_ListBranches = (\<lambda>_ _ _. Inr [''main'']),
      ghc_GetRepository = (\<lambda>_ owner repo. Inr \<lparr>gr_Owner = owner, gr_Name = repo, gr_FullName = owner @ ''/'' @ repo,
        gr_DefaultBranch = ''main'', gr_HTMLURL = ''https://github.com/'' @ owner @ ''/'' @ repo, gr_Description = [], gr_Private = False\<rparr>),
      ghc_GetBranch = (\<lambda>_ _ _ branch. if branch = ''main'' then Inr () else Inl GitHubErrNotFound),
      ghc_GetPullRequest = (\<lambda>_ _ _ _. Inl GitHubErrNotFound),
      ghc_GetFileContent = (\<lambda>_ _ _ _ _. Inr None)\<rparr>"

definition demo_registry :: Registry where
  "demo_registry = NewRegistry [Some (NewGitHub demo_client
     \<lparr>oc_ClientID = ''id'', oc_ClientSecret = ''secret'', oc_Scopes = ''repo'', oc_RedirectURL = ''/cb''\<rparr>
     \<lparr>gac_configured = True, gac_InstallURL = (\<lambda>s. Some (''https://github.com/apps/plorigo?state='' @ s))\<rparr>)]"

abbreviation carol :: Principal where "carol \<equiv> \<lparr>UserID = ''carol'', pr_Method = MethodSession\<rparr>"

text \<open>A box whose ciphertexts are the plaintexts.\<close>

definition plain_aead :: AEAD where
  "plain_aead = \<lparr>aead_Seal = (\<lambda>nonce p. p), aead_Open = (\<lambda>nonce c. Some c)\<rparr>"

definition demo_connection :: SourceConnection_row where
  "demo_connection = \<lparr>sc_ID = ''conn'', sc_WorkspaceID = ''ws'', sc_Provider = ''github'', sc_AccountLogin = ''acme'', sc_AccountID = Some 7,
     sc_AccessTokenCiphertext = [], sc_Scopes = [], sc_ConnectedBy = Some ''alice'', sc_CreatedAt = 0, sc_UpdatedAt = 0,
     sc_InstallationID = Some ''42'', sc_Kind = kindApp\<rparr>"

text \<open>The demo installation with an App connection of workspace \<open>ws\<close> that its git service builds from.\<close>

definition connected_world :: world where
  "connected_world = (demo_world [])\<lparr>db := (db (demo_world []))\<lparr>source_connections := [demo_connection],
     services := [(demo_service ''git'' ''git'')\<lparr>rs_SourceAccess := ''app'', rs_ConnectionID := Some ''conn''\<rparr>]\<rparr>\<rparr>"

text \<open>The state of a flow that \<open>user\<close> began for \<open>ws\<close>.\<close>

definition demo_state :: "string \<Rightarrow> string \<Rightarrow> connectState" where
  "demo_state ws user = \<lparr>cst_WorkspaceID = ws, cst_UserID = user, cst_Provider = ''github'', cst_Nonce = ''00'', cst_ExpiresAt = 600\<rparr>"

definition demo_cookie :: "string \<Rightarrow> string \<Rightarrow> string" where
  "demo_cookie ws user = base64url_Encode (map byte_of (replicate 12 CHR ''n'' @ marshal_connectState (demo_state ws user)))"

lemma demo_openState:
  assumes "list_all (in_range 0 127) ws" "list_all (in_range 0 127) user"
  shows "openState plain_aead (demo_cookie ws user) = Inr (demo_state ws user)"
proof -
  let ?st = "demo_state ws user"
  have law: "aead_law plain_aead" by (simp add: aead_law_def plain_aead_def)
  have "utf8_Valid ''github''" "utf8_Valid ''00''" by (simp_all add: utf8_Valid_ascii in_range_def)
  then have "unmarshal_connectState (marshal_connectState ?st) = Some ?st"
    using assms by (intro unmarshal_marshal) (simp_all add: demo_state_def utf8_Valid_ascii)
  then show ?thesis
    unfolding demo_cookie_def by (intro openState_sealed [OF law]) (simp_all add: NonceSize_def Box_Seal_def plain_aead_def)
qed

abbreviation demo_callback :: CompleteAppInput where
  "demo_callback \<equiv> \<lparr>ca_Provider = ''github'', ca_InstallationID = ''42'', ca_SetupAction = ''install'', ca_State = ''00'',
     ca_CookieState = demo_cookie ''ws2'' ''carol''\<rparr>"

lemmas connect_exec = CompleteAppInstall_def openAndVerify_def time_Now_def time_Unix_def provider_for_def
  Registry_Get_def demo_registry_def NewGitHub_def demo_client_def connectAppTx_def InsertAppConnection_def db_InsertAppConnection_def
  upsert_connection_def same_installation_def same_account_def connection_ok_def connection_fks_def app_row_def refresh_app_def
  connectionFromRow_def connected_world_def demo_connection_def demo_state_def

lemma carol_connects:
  "\<exists>w'. CompleteAppInstall plain_aead demo_registry carol demo_callback connected_world = (Inr (''ws2'', ''acme''), w') \<and>
     source_connections (db w') = [demo_connection\<lparr>sc_WorkspaceID := ''ws2'', sc_ConnectedBy := Some ''carol'', sc_UpdatedAt := 100\<rparr>] \<and>
     services (db w') = services (db connected_world) \<and> workspace_members (db w') = workspace_members demo_db \<and> faults w' = (\<lambda>_. False)"
proof -
  have st: "openState plain_aead (demo_cookie ''ws2'' ''carol'') = Inr (demo_state ''ws2'' ''carol'')"
    by (rule demo_openState) (simp_all add: in_range_def)
  have trim: "strings_TrimSpace ''42'' = ''42''" "strings_TrimSpace ''github'' = ''github''" by (simp_all add: TrimSpace_visible)
  show ?thesis
    using st trim by (simp add: connect_exec exec_defs demo_defs mapProviderErr_def)
qed

theorem connections_change_only_as_permitted_witness:
  "\<exists>w' st. sources_serve demo_deps plain_aead demo_registry carol (CompleteAppInstallReq demo_callback) connected_world = (Inr (), w') \<and>
     flow_verified plain_aead carol connected_world ''00'' (demo_cookie ''ws2'' ''carol'') st \<and>
     connected st kindApp (db connected_world) (db w') \<and> connections_wf (source_connections (db w'))"
proof -
  obtain w' where c: "CompleteAppInstall plain_aead demo_registry carol demo_callback connected_world = (Inr (''ws2'', ''acme''), w')"
    and "source_connections (db w') = [demo_connection\<lparr>sc_WorkspaceID := ''ws2'', sc_ConnectedBy := Some ''carol'', sc_UpdatedAt := 100\<rparr>]"
    using carol_connects by blast
  then have "db w' \<noteq> db connected_world" by (auto simp: connected_world_def demo_connection_def)
  moreover have "sources_serve demo_deps plain_aead demo_registry carol (CompleteAppInstallReq demo_callback) connected_world = (Inr (), w')"
    using c by (simp add: sources_serve_def finish_def map_m_succ)
  moreover have "connections_wf (source_connections (db connected_world))"
    by (simp add: connections_wf_def connected_world_def demo_connection_def connection_ok_def)
  ultimately show ?thesis using connections_change_only_as_permitted by fastforce
qed

lemma demo_begin:
  "BeginOAuth demo_deps plain_aead demo_registry (Inr [7]) (Inr (replicate 12 CHR ''n'')) alice ''ws'' [] (demo_world []) =
     (Inr (''https://github.com/login/oauth/authorize?state=07'',
           base64url_Encode (map byte_of (replicate 12 CHR ''n'' @ marshal_connectState
             \<lparr>cst_WorkspaceID = ''ws'', cst_UserID = ''alice'', cst_Provider = ''github'', cst_Nonce = ''07'', cst_ExpiresAt = 600\<rparr>))),
      (demo_world [])\<lparr>ops := 1\<rparr>)"
  by (simp add: BeginOAuth_def beginConnect_def provider_for_def Registry_Get_def demo_registry_def NewGitHub_def demo_client_def
        GitHub_OAuthConfigured_def sealState_def newNonce_def hex_EncodeToString_def hex_digit_def time_Now_def time_Unix_def stateTTL_def
        Box_Seal_def plain_aead_def exec_defs demo_defs)

theorem connect_flow_roundtrip_witness:
  "\<exists>nonce cookie st prv u.
     BeginOAuth demo_deps plain_aead demo_registry (Inr [7]) (Inr (replicate 12 CHR ''n'')) alice ''ws'' [] (demo_world []) =
       (Inr (''https://github.com/login/oauth/authorize?state='' @ nonce, cookie), (demo_world [])\<lparr>ops := 1\<rparr>) \<and>
     openAndVerify plain_aead demo_registry alice ''github'' nonce cookie (demo_world []) = (Inr (st, prv), u) \<and> cst_WorkspaceID st = ''ws''"
proof -
  have law: "aead_law plain_aead" by (simp add: aead_law_def plain_aead_def)
  have v: "utf8_Valid ''ws''" "utf8_Valid (UserID alice)" by (simp_all add: utf8_Valid_ascii in_range_def)
  have may: "permitted (db (demo_world [])) alice ActionSourceConnect ''ws''"
    by (simp add: permitted_def demo_defs permissions_def owner_actions_def)
  obtain nonce cookie where b: "BeginOAuth demo_deps plain_aead demo_registry (Inr [7]) (Inr (replicate 12 CHR ''n'')) alice ''ws'' [] (demo_world []) =
       (Inr (''https://github.com/login/oauth/authorize?state='' @ nonce, cookie), (demo_world [])\<lparr>ops := 1\<rparr>)"
    using demo_begin by (intro that [of "''07''"]) simp
  from connect_flow_roundtrip [OF demo_registry_def b law _ _ v]
  obtain nonce' where "nonce' = nonce"
    and all: "\<not> faults u (ops u) \<longrightarrow>
      ((\<exists>st prv u'. openAndVerify plain_aead demo_registry caller ''github'' nonce' cookie u = (Inr (st, prv), u') \<and> cst_WorkspaceID st = ''ws'') \<longleftrightarrow>
       UserID caller = UserID alice \<and> permitted (db u) caller ActionSourceConnect ''ws'' \<and>
       time_Unix (now u) \<le> time_Unix (now (demo_world []) + stateTTL))" for caller u
    by (auto simp: NonceSize_def demo_client_def stateTTL_def demo_world_def)
  with b may all [of "demo_world []" alice] show ?thesis by (force simp: time_Unix_def stateTTL_def demo_world_def)
qed

text \<open>An App's connection follows whoever completes a callback with its installation id. The callback takes the
  installation id from the request and checks nothing that ties it to the caller: \<open>carol\<close>, who is no member of workspace
  \<open>ws\<close>, completes a flow she began for her own workspace with the id of the installation connected to \<open>ws\<close>. The
  connection is now hers: she holds the row, the service of \<open>ws\<close> still builds from it, tokens for the installation are still
  minted through it, and \<open>alice\<close>, the owner of \<open>ws\<close>, can no longer remove it.\<close>

theorem app_callback_takes_over_connection:
  "\<exists>w'. CompleteAppInstall plain_aead demo_registry carol demo_callback connected_world = (Inr (''ws2'', ''acme''), w') \<and>
     member_role (db connected_world) ''ws'' ''carol'' = None \<and>
     map (\<lambda>c. (sc_ID c, sc_WorkspaceID c)) (source_connections (db connected_world)) = [(''conn'', ''ws'')] \<and>
     map (\<lambda>c. (sc_ID c, sc_WorkspaceID c)) (source_connections (db w')) = [(''conn'', ''ws2'')] \<and>
     map (\<lambda>s. (rs_WorkspaceID s, rs_ConnectionID s)) (services (db w')) = [(''ws'', Some ''conn'')] \<and>
     fst (InstallationToken demo_registry ''conn'' w') = Inr (Some ''ghs_42'') \<and>
     isl (fst (DisconnectConnection demo_deps plain_aead demo_registry alice ''conn'' w'))"
proof -
  obtain w' where run: "CompleteAppInstall plain_aead demo_registry carol demo_callback connected_world = (Inr (''ws2'', ''acme''), w')"
    and cs: "source_connections (db w') = [demo_connection\<lparr>sc_WorkspaceID := ''ws2'', sc_ConnectedBy := Some ''carol'', sc_UpdatedAt := 100\<rparr>]"
    and sv: "services (db w') = services (db connected_world)"
    and wm: "workspace_members (db w') = workspace_members demo_db" and ok: "faults w' = (\<lambda>_. False)"
    using carol_connects by blast
  have "fst (InstallationToken demo_registry ''conn'' w') = Inr (Some ''ghs_42'')"
    using cs ok
    by (simp add: InstallationToken_def GetConnectionByID_def db_GetConnectionByID_def connectionFromRow_def demo_connection_def
          Registry_Get_def demo_registry_def NewGitHub_def demo_client_def run_defs absent_ok_def map_m_def Let_def)
  moreover have "isl (fst (DisconnectConnection demo_deps plain_aead demo_registry alice ''conn'' w'))"
    using cs ok wm
    by (simp add: DisconnectConnection_def requireConnection_def GetConnectionByID_def db_GetConnectionByID_def connectionFromRow_def
          demo_connection_def exec_defs demo_deps_def demo_db_def)
  moreover have "member_role (db connected_world) ''ws'' ''carol'' = None"
    "map (\<lambda>c. (sc_ID c, sc_WorkspaceID c)) (source_connections (db connected_world)) = [(''conn'', ''ws'')]"
    "map (\<lambda>s. (rs_WorkspaceID s, rs_ConnectionID s)) (services (db connected_world)) = [(''ws'', Some ''conn'')]"
    by (simp_all add: member_role_def connected_world_def demo_connection_def demo_defs)
  ultimately show ?thesis using run cs sv by (intro exI [of _ w']) (simp add: demo_connection_def)
qed

end
