(* ===== verification/Builder.thy ===== *)
theory Builder
  imports Json
begin

text \<open>
  The package \<^verbatim>\<open>internal/builder\<close>: detection of a repository's framework and the Dockerfile that is generated for
  it. A repository is a function that reads a file (an error, absent, or its bytes); the control plane instantiates it with the GitHub
  contents API for previews, the agent with a local clone.
\<close>

section \<open>Plans and package.json\<close>

type_synonym files = "string \<Rightarrow> err + string option"

abbreviation StatusDetected :: string where "StatusDetected \<equiv> ''detected''"
abbreviation StatusHasDockerfile :: string where "StatusHasDockerfile \<equiv> ''dockerfile''"
abbreviation StatusUnsupported :: string where "StatusUnsupported \<equiv> ''unsupported''"
abbreviation RuntimeNext :: string where "RuntimeNext \<equiv> ''nextjs''"
abbreviation RuntimeVite :: string where "RuntimeVite \<equiv> ''vite''"
abbreviation RuntimeNode :: string where "RuntimeNode \<equiv> ''nodejs''"

record Plan =
  pl_Status :: string
  pl_Runtime :: string
  pl_PackageManager :: string
  pl_NodeVersion :: string
  pl_BuildCommand :: string
  pl_StartCommand :: string
  pl_Port :: int
  pl_Dockerfile :: string
  pl_NextSteps :: string

definition no_plan :: Plan where
  "no_plan = \<lparr>pl_Status = [], pl_Runtime = [], pl_PackageManager = [], pl_NodeVersion = [], pl_BuildCommand = [],
     pl_StartCommand = [], pl_Port = 0, pl_Dockerfile = [], pl_NextSteps = []\<rparr>"

definition RuntimeLabel :: "Plan \<Rightarrow> string" where
  "RuntimeLabel p =
     (if pl_Runtime p = RuntimeNext then ''Next.js''
      else if pl_Runtime p = RuntimeVite then ''Vite''
      else if pl_Runtime p = RuntimeNode then ''Node.js''
      else pl_Runtime p)"

definition defaultPort :: int where "defaultPort = 3000"

definition defaultNodeMajor :: string where "defaultNodeMajor = ''22''"

definition stepsNoPackageJSON :: string where
  "stepsNoPackageJSON = ''No Dockerfile and no package.json were found at the repository root. '' @
     ''Plorigo builds Node, Vite, and Next.js apps automatically, or any app with a Dockerfile. '' @
     ''Add a Dockerfile, or deploy from the root of a Node project.''"

definition stepsBadPackageJSON :: string where
  "stepsBadPackageJSON = ''package.json could not be parsed as JSON. Fix it, or add a Dockerfile to control the build yourself.''"

definition stepsNodeNoStart :: string where
  "stepsNodeNoStart =
     ''This looks like a Node project, but it has no '' @ [CHR 0x22] @ ''start'' @ [CHR 0x22] @
     '' script and isn'' @ [CHR 0x27] @ ''t a Next.js or Vite app. '' @
     ''Add a '' @ [CHR 0x22] @ ''start'' @ [CHR 0x22] @ '' script to package.json (for example '' @ [CHR 0x22] @ ''node server.js'' @
     [CHR 0x22] @ ''), or add a Dockerfile.''"

record packageJSON =
  pk_Scripts :: "string \<rightharpoonup> string"
  pk_Dependencies :: "string \<rightharpoonup> string"
  pk_DevDependencies :: "string \<rightharpoonup> string"
  pk_EngineNode :: string

text \<open>\<open>json.Unmarshal\<close> into the struct; the engines are a struct of their own.\<close>

fun store_engines :: "string \<Rightarrow> json list \<Rightarrow> string option" where
  "store_engines x [] = Some x"
| "store_engines x (JObj ms # vs) =
     (case store_string x (members_named ''node'' ms) of None \<Rightarrow> None | Some y \<Rightarrow> store_engines y vs)"
| "store_engines x (JNull # vs) = store_engines x vs"
| "store_engines x (_ # vs) = None"

definition packageJSON_of :: "(string \<times> json) list \<Rightarrow> packageJSON option" where
  "packageJSON_of ms =
     (case (store_string_map Map.empty (members_named ''scripts'' ms), store_string_map Map.empty (members_named ''dependencies'' ms),
            store_string_map Map.empty (members_named ''devDependencies'' ms), store_engines [] (members_named ''engines'' ms)) of
        (Some s, Some d, Some dd, Some e) \<Rightarrow>
          Some \<lparr>pk_Scripts = s, pk_Dependencies = d, pk_DevDependencies = dd, pk_EngineNode = e\<rparr>
      | _ \<Rightarrow> None)"

definition unmarshal_packageJSON :: "string \<Rightarrow> packageJSON option" where
  "unmarshal_packageJSON raw =
     (case json_Parse raw of
        Some (JObj ms) \<Rightarrow> packageJSON_of ms
      | Some JNull \<Rightarrow> packageJSON_of []
      | _ \<Rightarrow> None)"

definition hasDep :: "packageJSON \<Rightarrow> string \<Rightarrow> bool" where
  "hasDep p name \<longleftrightarrow> pk_Dependencies p name \<noteq> None \<or> pk_DevDependencies p name \<noteq> None"

definition pkg_script :: "packageJSON \<Rightarrow> string \<Rightarrow> string" where
  "pkg_script p name = strings_TrimSpace (case pk_Scripts p name of None \<Rightarrow> [] | Some s \<Rightarrow> s)"

section \<open>Detection\<close>

definition lockfiles :: "(string \<times> string) list" where
  "lockfiles = [(''pnpm-lock.yaml'', ''pnpm''), (''yarn.lock'', ''yarn''), (''bun.lockb'', ''bun''),
     (''package-lock.json'', ''npm''), (''npm-shrinkwrap.json'', ''npm'')]"

fun first_lockfile :: "files \<Rightarrow> (string \<times> string) list \<Rightarrow> err + (string \<times> bool)" where
  "first_lockfile f [] = Inr (''npm'', False)"
| "first_lockfile f ((file, pm) # cs) =
     (case f file of
        Inl e \<Rightarrow> Inl e
      | Inr (Some _) \<Rightarrow> Inr (pm, True)
      | Inr None \<Rightarrow> first_lockfile f cs)"

definition detectPackageManager :: "files \<Rightarrow> err + (string \<times> bool)" where
  "detectPackageManager f = first_lockfile f lockfiles"

text \<open>\<open>digits.FindString\<close>: the first run of digits.\<close>

definition find_digits :: "string \<Rightarrow> string" where
  "find_digits s = takeWhile is_digit (dropWhile (\<lambda>c. \<not> is_digit c) s)"

fun first_major :: "string list \<Rightarrow> string" where
  "first_major [] = defaultNodeMajor"
| "first_major (src # srcs) =
     (let m = find_digits (strings_TrimSpace src) in
      case (if m = [] then None else strconv_Atoi m) of
        None \<Rightarrow> first_major srcs
      | Some n \<Rightarrow> if 18 \<le> n \<and> n \<le> 24 then strconv_Itoa n else first_major srcs)"

definition nodeMajor :: "string \<Rightarrow> string \<Rightarrow> string" where
  "nodeMajor nvmrc engines = first_major [nvmrc, engines]"

section \<open>Rendering\<close>

record dockerfileParams =
  df_BaseImage :: string
  df_EnableCorepack :: bool
  df_InstallCmd :: string
  df_BuildCmd :: string
  df_StartCmd :: string
  df_Port :: int
  df_NodeMajor :: string
  df_OutputDir :: string

definition line :: "string \<Rightarrow> string" where
  "line s = s @ [CHR 0x0A]"

text \<open>\<open>CMD ["sh", "-c", "..."]\<close>.\<close>

definition cmd_json :: "string \<Rightarrow> string" where
  "cmd_json c = ''['' @ [CHR 0x22] @ ''sh'' @ [CHR 0x22] @ '', '' @ [CHR 0x22] @ ''-c'' @ [CHR 0x22] @ '', '' @ [CHR 0x22] @ c @ [CHR 0x22] @ '']''"

definition serverTemplate :: "dockerfileParams \<Rightarrow> string" where
  "serverTemplate p =
     line (''FROM '' @ df_BaseImage p) @ line ''WORKDIR /app'' @
     (if df_EnableCorepack p then line ''RUN corepack enable'' else []) @
     line ''COPY . .'' @ line (''RUN '' @ df_InstallCmd p) @
     (if df_BuildCmd p \<noteq> [] then line (''RUN '' @ df_BuildCmd p) else []) @
     line ''ENV NODE_ENV=production'' @ line (''ENV PORT='' @ strconv_Itoa (df_Port p)) @
     line (''EXPOSE '' @ strconv_Itoa (df_Port p)) @ line (''CMD '' @ cmd_json (df_StartCmd p))"

definition viteTemplate :: "dockerfileParams \<Rightarrow> string" where
  "viteTemplate p =
     line (''FROM '' @ df_BaseImage p @ '' AS build'') @ line ''WORKDIR /app'' @
     (if df_EnableCorepack p then line ''RUN corepack enable'' else []) @
     line ''COPY . .'' @ line (''RUN '' @ df_InstallCmd p) @ line (''RUN '' @ df_BuildCmd p) @ line [] @
     line (''FROM node:'' @ df_NodeMajor p @ ''-bookworm-slim'') @ line ''WORKDIR /app'' @ line ''RUN npm install -g serve@14'' @
     line (''COPY --from=build /app/'' @ df_OutputDir p @ '' ./'' @ df_OutputDir p) @
     line ''ENV NODE_ENV=production'' @ line (''ENV PORT='' @ strconv_Itoa (df_Port p)) @
     line (''EXPOSE '' @ strconv_Itoa (df_Port p)) @
     line (''CMD '' @ cmd_json (''serve -s '' @ df_OutputDir p @ '' -l '' @ strconv_Itoa (df_Port p)))"

definition baseImage :: "string \<Rightarrow> string \<Rightarrow> string" where
  "baseImage pm node = (if pm = ''bun'' then ''oven/bun:1'' else ''node:'' @ node @ ''-bookworm-slim'')"

definition enableCorepack :: "string \<Rightarrow> bool" where
  "enableCorepack pm \<longleftrightarrow> pm = ''pnpm'' \<or> pm = ''yarn''"

definition installCmd :: "string \<Rightarrow> bool \<Rightarrow> string" where
  "installCmd pm hasLock =
     (if pm = ''pnpm'' then ''pnpm install''
      else if pm = ''yarn'' then ''yarn install''
      else if pm = ''bun'' then ''bun install''
      else if hasLock then ''npm ci || npm install'' else ''npm install'')"

definition runScript :: "string \<Rightarrow> string \<Rightarrow> string" where
  "runScript pm name =
     (if pm = ''yarn'' then ''yarn '' @ name
      else if pm = ''bun'' then ''bun run '' @ name
      else if pm = ''pnpm'' then ''pnpm run '' @ name
      else ''npm run '' @ name)"

definition runBinary :: "string \<Rightarrow> string \<Rightarrow> string" where
  "runBinary pm argv =
     (if pm = ''yarn'' then ''yarn '' @ argv
      else if pm = ''bun'' then ''bun x '' @ argv
      else if pm = ''pnpm'' then ''pnpm exec '' @ argv
      else ''npm exec -- '' @ argv)"

definition renderNext :: "string \<Rightarrow> bool \<Rightarrow> string \<Rightarrow> packageJSON \<Rightarrow> Plan" where
  "renderNext pm hasLock node pkg =
     (let build = (if pkg_script pkg ''build'' = [] then runBinary pm ''next build'' else runScript pm ''build'');
          start = (if pkg_script pkg ''start'' = [] then runBinary pm ''next start'' else runScript pm ''start'') in
      \<lparr>pl_Status = StatusDetected, pl_Runtime = RuntimeNext, pl_PackageManager = pm, pl_NodeVersion = node,
       pl_BuildCommand = build, pl_StartCommand = start, pl_Port = defaultPort,
       pl_Dockerfile = serverTemplate \<lparr>df_BaseImage = baseImage pm node, df_EnableCorepack = enableCorepack pm,
         df_InstallCmd = installCmd pm hasLock, df_BuildCmd = build, df_StartCmd = start, df_Port = defaultPort,
         df_NodeMajor = [], df_OutputDir = []\<rparr>,
       pl_NextSteps = []\<rparr>)"

definition renderNode :: "string \<Rightarrow> bool \<Rightarrow> string \<Rightarrow> packageJSON \<Rightarrow> Plan" where
  "renderNode pm hasLock node pkg =
     (let build = (if pkg_script pkg ''build'' \<noteq> [] then runScript pm ''build'' else []);
          start = runScript pm ''start'' in
      \<lparr>pl_Status = StatusDetected, pl_Runtime = RuntimeNode, pl_PackageManager = pm, pl_NodeVersion = node,
       pl_BuildCommand = build, pl_StartCommand = start, pl_Port = defaultPort,
       pl_Dockerfile = serverTemplate \<lparr>df_BaseImage = baseImage pm node, df_EnableCorepack = enableCorepack pm,
         df_InstallCmd = installCmd pm hasLock, df_BuildCmd = build, df_StartCmd = start, df_Port = defaultPort,
         df_NodeMajor = [], df_OutputDir = []\<rparr>,
       pl_NextSteps = []\<rparr>)"

definition renderVite :: "string \<Rightarrow> bool \<Rightarrow> string \<Rightarrow> packageJSON \<Rightarrow> Plan" where
  "renderVite pm hasLock node pkg =
     (let build = (if pkg_script pkg ''build'' = [] then runBinary pm ''vite build'' else runScript pm ''build''); outputDir = ''dist'' in
      \<lparr>pl_Status = StatusDetected, pl_Runtime = RuntimeVite, pl_PackageManager = pm, pl_NodeVersion = node,
       pl_BuildCommand = build, pl_StartCommand = ''serve -s '' @ outputDir, pl_Port = defaultPort,
       pl_Dockerfile = viteTemplate \<lparr>df_BaseImage = baseImage pm node, df_EnableCorepack = enableCorepack pm,
         df_InstallCmd = installCmd pm hasLock, df_BuildCmd = build, df_StartCmd = [], df_Port = defaultPort,
         df_NodeMajor = node, df_OutputDir = outputDir\<rparr>,
       pl_NextSteps = []\<rparr>)"

definition classify :: "string \<Rightarrow> bool \<Rightarrow> string \<Rightarrow> packageJSON \<Rightarrow> Plan" where
  "classify pm hasLock node pkg =
     (if hasDep pkg ''next'' then renderNext pm hasLock node pkg
      else if hasDep pkg ''vite'' then renderVite pm hasLock node pkg
      else if pkg_script pkg ''start'' \<noteq> [] then renderNode pm hasLock node pkg
      else no_plan\<lparr>pl_Status := StatusUnsupported, pl_NextSteps := stepsNodeNoStart\<rparr>)"

definition Detect :: "files \<Rightarrow> err + Plan" where
  "Detect f =
     (case f ''Dockerfile'' of
        Inl e \<Rightarrow> Inl e
      | Inr (Some _) \<Rightarrow> Inr (no_plan\<lparr>pl_Status := StatusHasDockerfile\<rparr>)
      | Inr None \<Rightarrow>
     (case f ''package.json'' of
        Inl e \<Rightarrow> Inl e
      | Inr None \<Rightarrow> Inr (no_plan\<lparr>pl_Status := StatusUnsupported, pl_NextSteps := stepsNoPackageJSON\<rparr>)
      | Inr (Some raw) \<Rightarrow>
     (case unmarshal_packageJSON raw of
        None \<Rightarrow> Inr (no_plan\<lparr>pl_Status := StatusUnsupported, pl_NextSteps := stepsBadPackageJSON\<rparr>)
      | Some pkg \<Rightarrow>
     (case detectPackageManager f of
        Inl e \<Rightarrow> Inl e
      | Inr (pm, hasLock) \<Rightarrow>
     (case f ''.nvmrc'' of
        Inl e \<Rightarrow> Inl e
      | Inr nvmrc \<Rightarrow>
          Inr (classify pm hasLock (nodeMajor (case nvmrc of None \<Rightarrow> [] | Some s \<Rightarrow> s) (pk_EngineNode pkg)) pkg))))))"

section \<open>What detection depends on\<close>

text \<open>The files detection reads.\<close>

definition detect_paths :: "string set" where
  "detect_paths = {''Dockerfile'', ''package.json'', ''.nvmrc''} \<union> fst ` set lockfiles"

lemma first_lockfile_cong:
  "(\<And>x. x \<in> fst ` set cs \<Longrightarrow> f x = g x) \<Longrightarrow> first_lockfile f cs = first_lockfile g cs"
  by (induction f cs rule: first_lockfile.induct) (auto split: sum.splits option.splits)

lemma Detect_cong:
  assumes "\<And>x. x \<in> detect_paths \<Longrightarrow> f x = g x"
  shows "Detect f = Detect g"
proof -
  have e: "detectPackageManager f = detectPackageManager g"
    unfolding detectPackageManager_def using assms by (intro first_lockfile_cong) (simp add: detect_paths_def)
  have "f ''Dockerfile'' = g ''Dockerfile''" "f ''package.json'' = g ''package.json''" "f ''.nvmrc'' = g ''.nvmrc''"
    using assms by (simp_all add: detect_paths_def)
  then show ?thesis unfolding Detect_def e by (simp only:)
qed

section \<open>What is generated\<close>

definition package_managers :: "string set" where
  "package_managers = {''npm'', ''pnpm'', ''yarn'', ''bun''}"

lemma first_lockfile_range:
  "first_lockfile f cs = Inr (pm, l) \<Longrightarrow> snd ` set cs \<subseteq> package_managers \<Longrightarrow> pm \<in> package_managers"
  by (induction f cs rule: first_lockfile.induct) (auto simp: package_managers_def split: sum.splits option.splits)

lemma detectPackageManager_range: "detectPackageManager f = Inr (pm, l) \<Longrightarrow> pm \<in> package_managers"
proof -
  have "snd ` set lockfiles \<subseteq> package_managers" by (simp add: lockfiles_def package_managers_def)
  then show "detectPackageManager f = Inr (pm, l) \<Longrightarrow> pm \<in> package_managers"
    unfolding detectPackageManager_def by (rule first_lockfile_range [rotated])
qed

lemma first_major_range: "\<exists>n \<in> {18..24}. first_major srcs = strconv_Itoa n"
proof (induction srcs)
  case Nil
  have "strconv_Itoa 22 = ''22''" by code_simp
  then show ?case by (intro bexI [of _ 22]) (simp_all add: defaultNodeMajor_def)
qed (auto simp: Let_def split: option.splits)

text \<open>The commands of a plan are words of the catalogue: printable, without quotes and backslashes.\<close>

definition quotable :: "string \<Rightarrow> bool" where
  "quotable = list_all (\<lambda>c. in_range 32 126 c \<and> c \<noteq> CHR 0x22 \<and> c \<noteq> CHR 0x5C)"

lemma quotable_append [simp]: "quotable (xs @ ys) \<longleftrightarrow> quotable xs \<and> quotable ys"
  by (simp add: quotable_def)

lemma quotable_commands:
  "quotable (runScript pm ''build'')" "quotable (runScript pm ''start'')" "quotable (runBinary pm ''next start'')"
  "quotable ''serve -s dist -l 3000''"
  by (simp_all add: runScript_def runBinary_def quotable_def in_range_def)

lemma json_chars_quotable: "quotable c \<Longrightarrow> json_chars (c @ CHR 0x22 # t) = Some (c, t)"
proof (induction c)
  case (Cons x c)
  then have x: "in_range 32 126 x" "x \<noteq> CHR 0x22" "x \<noteq> CHR 0x5C" and c: "json_chars (c @ CHR 0x22 # t) = Some (c, t)"
    by (simp_all add: quotable_def)
  from x(1) have ascii: "in_range 0 127 x" "\<not> in_range 0 31 x" by (auto simp: in_range_def)
  then have "utf8_size (x # c @ CHR 0x22 # t) = 1" unfolding utf8_size_ascii by simp
  with x ascii c show ?case by (subst json_chars.simps) simp
qed simp

lemma skip_ws_bracket [simp]: "skip_ws (CHR ''['' # s) = CHR ''['' # s" "skip_ws (CHR '']'' # s) = CHR '']'' # s" "skip_ws (CHR '' '' # s) = skip_ws s"
  by (simp_all add: skip_ws_def)

lemma json_elems_string:
  assumes "quotable c"
  shows "json_elems (Suc (Suc n)) d (CHR 0x22 # c @ CHR 0x22 # CHR '','' # t) =
      map_option (\<lambda>(vs, r). (JStr c # vs, r)) (json_elems (Suc n) d t)"
    and "json_elems (Suc (Suc n)) d (CHR 0x22 # c @ CHR 0x22 # CHR '']'' # t) = Some ([JStr c], t)"
  using json_chars_quotable [OF assms] by (simp_all add: json_elems.simps(2) [of "Suc n"] del: json_elems.simps)

lemma json_elems_space: "json_elems (Suc (Suc n)) d (CHR '' '' # t) = json_elems (Suc (Suc n)) d t"
  by simp

lemma json_Parse_cmd:
  assumes "quotable c"
  shows "json_Parse (cmd_json c) = Some (JArr [JStr ''sh'', JStr ''-c'', JStr c])"
proof -
  define n where "n = length c + 12"
  have n: "length (cmd_json c) = Suc (Suc (Suc (Suc n)))" by (simp add: cmd_json_def n_def)
  have q: "quotable ''sh''" "quotable ''-c''" by (simp_all add: quotable_def in_range_def)
  have "json_elems (Suc (Suc (Suc (Suc n)))) 9999 (tl (cmd_json c)) = Some ([JStr ''sh'', JStr ''-c'', JStr c], [])"
    using json_elems_string(1) [OF q(1), of "Suc (Suc n)" 9999] json_elems_string(1) [OF q(2), of "Suc n" 9999]
      json_elems_string(2) [OF assms, of n 9999 "[]"] json_elems_space [of "Suc n"] json_elems_space [of n]
    by (simp add: cmd_json_def del: json_elems.simps)
  then show ?thesis
    unfolding json_Parse_def n by (simp add: cmd_json_def del: json_elems.simps)
qed

text \<open>A package is one of sixteen as far as the generated text goes: which of the two frameworks it depends on, and
  which of the two scripts it has.\<close>

definition canonical_pkg :: "bool \<Rightarrow> bool \<Rightarrow> bool \<Rightarrow> bool \<Rightarrow> packageJSON" where
  "canonical_pkg next_dep vite_dep build start =
     \<lparr>pk_Scripts = (\<lambda>k. if k = ''build'' \<and> build \<or> k = ''start'' \<and> start then Some ''x'' else None),
      pk_Dependencies = (\<lambda>k. if k = ''next'' \<and> next_dep \<or> k = ''vite'' \<and> vite_dep then Some ''*'' else None),
      pk_DevDependencies = Map.empty, pk_EngineNode = []\<rparr>"

lemma classify_canonical:
  "classify pm l node pkg = classify pm l node
     (canonical_pkg (hasDep pkg ''next'') (hasDep pkg ''vite'') (pkg_script pkg ''build'' \<noteq> []) (pkg_script pkg ''start'' \<noteq> []))"
proof -
  have x: "strings_TrimSpace ''x'' = ''x''" by code_simp
  have s: "pkg_script (canonical_pkg a b c d) ''build'' = [] \<longleftrightarrow> \<not> c" "pkg_script (canonical_pkg a b c d) ''start'' = [] \<longleftrightarrow> \<not> d"
    "hasDep (canonical_pkg a b c d) ''next'' \<longleftrightarrow> a" "hasDep (canonical_pkg a b c d) ''vite'' \<longleftrightarrow> b" for a b c d
    by (simp_all add: canonical_pkg_def pkg_script_def hasDep_def x)
  show ?thesis unfolding classify_def renderNext_def renderVite_def renderNode_def Let_def s by (simp only: not_not if_cancel)
qed

text \<open>The commands a detected plan ends with.\<close>

lemma classify_sound:
  assumes "p = classify pm l node pkg" and "pl_Status p = StatusDetected"
  shows "pl_PackageManager p = pm \<and> pl_NodeVersion p = node \<and> pl_NextSteps p = [] \<and>
    (\<exists>front c. pl_Dockerfile p = front @ ''CMD '' @ cmd_json c @ [CHR 0x0A] \<and> quotable c)"
proof -
  have port: "strconv_Itoa defaultPort = ''3000''" unfolding defaultPort_def by code_simp
  have t: "\<exists>front. serverTemplate x = front @ ''CMD '' @ cmd_json (df_StartCmd x) @ [CHR 0x0A]"
    "\<exists>front. viteTemplate x = front @ ''CMD '' @ cmd_json (''serve -s '' @ df_OutputDir x @ '' -l '' @ strconv_Itoa (df_Port x)) @ [CHR 0x0A]" for x
    by (simp_all add: serverTemplate_def viteTemplate_def line_def flip: append_assoc)
  consider (nx) "p = renderNext pm l node pkg" | (vt) "p = renderVite pm l node pkg" | (nd) "p = renderNode pm l node pkg"
    using assms by (auto simp: classify_def no_plan_def split: if_splits)
  then show ?thesis
  proof cases
    case nx
    then show ?thesis using t(1) quotable_commands by (simp add: renderNext_def Let_def) (metis dockerfileParams.select_convs(5))
  next
    case vt
    have q: "quotable (''serve -s '' @ ''dist'' @ '' -l '' @ ''3000'')" using quotable_commands(4) by simp
    obtain x where x: "pl_Dockerfile p = viteTemplate x" "df_OutputDir x = ''dist''" "df_Port x = defaultPort"
      using vt by (auto simp: renderVite_def Let_def)
    with t(2) [of x] port have "\<exists>front. pl_Dockerfile p = front @ ''CMD '' @ cmd_json (''serve -s '' @ ''dist'' @ '' -l '' @ ''3000'') @ [CHR 0x0A]"
      by (simp only:)
    then have "\<exists>front c. pl_Dockerfile p = front @ ''CMD '' @ cmd_json c @ [CHR 0x0A] \<and> quotable c" using q by blast
    moreover have "pl_PackageManager p = pm" "pl_NodeVersion p = node" "pl_NextSteps p = []"
      unfolding vt renderVite_def Let_def by simp_all
    ultimately show ?thesis by blast
  next
    case nd
    then show ?thesis using t(1) quotable_commands by (simp add: renderNode_def Let_def) (metis dockerfileParams.select_convs(5))
  qed
qed

lemma Detect_detected:
  assumes "Detect f = Inr p" and "pl_Status p = StatusDetected"
  obtains pm l n pkg where "detectPackageManager f = Inr (pm, l)" and "n \<in> {18..24}" and "p = classify pm l (strconv_Itoa n) pkg"
proof -
  from assms obtain raw pkg pm l s where "detectPackageManager f = Inr (pm, l)" "p = classify pm l (nodeMajor s (pk_EngineNode pkg)) pkg"
    by (auto simp: Detect_def no_plan_def split: sum.splits option.splits)
  moreover obtain n where "n \<in> {18..24}" "nodeMajor s (pk_EngineNode pkg) = strconv_Itoa n"
    unfolding nodeMajor_def using first_major_range by blast
  ultimately show thesis using that by metis
qed


definition demo_repo :: files where
  "demo_repo x =
     Inr (if x = ''package.json'' then Some (''{'' @ [CHR 0x22] @ ''scripts'' @ [CHR 0x22] @ '':{'' @ [CHR 0x22] @ ''start'' @ [CHR 0x22] @ '':'' @
            [CHR 0x22] @ ''node .'' @ [CHR 0x22] @ ''}}'')
          else None)"

lemma demo_Detect: "map_sum id pl_Status (Detect demo_repo) = Inr StatusDetected"
  by code_simp


end
