(* ===== verification/Services.thy ===== *)
theory Services
  imports Sources Builder
begin

text \<open>
  The module \<^verbatim>\<open>internal/services\<close>: a project's deployable components. Its two resolvers turn what the
  caller typed (an image, a template, a public repository URL, a repository behind a connection) into a
  validated source; its mutations write the row, its generated configuration and its first
  deployment in one transaction. GitHub's API (\<open>GitHubClient\<close>), the provider registry and the random
  bytes of a generated password are arguments.
\<close>

text \<open>Identifiers of rows.\<close>

type_synonym uuid = string

section \<open>Strings\<close>

definition strings_CutPrefix :: "string \<Rightarrow> string \<Rightarrow> string option" where
  "strings_CutPrefix pre s = (if take (length pre) s = pre then Some (drop (length pre) s) else None)"

definition strings_TrimPrefix :: "string \<Rightarrow> string \<Rightarrow> string" where
  "strings_TrimPrefix pre s = (case strings_CutPrefix pre s of None \<Rightarrow> s | Some rest \<Rightarrow> rest)"

definition strings_TrimSuffix :: "string \<Rightarrow> string \<Rightarrow> string" where
  "strings_TrimSuffix suf s =
     (if length suf \<le> length s \<and> drop (length s - length suf) s = suf then take (length s - length suf) s else s)"

definition en_dash :: string where "en_dash = [CHR 0xE2, CHR 0x80, CHR 0x93]"

section \<open>Domain types\<close>

abbreviation SourceTemplate :: string where "SourceTemplate \<equiv> ''template''"
abbreviation accessOAuth :: string where "accessOAuth \<equiv> ''oauth''"
abbreviation accessPublic :: string where "accessPublic \<equiv> ''public''"
abbreviation accessApp :: string where "accessApp \<equiv> ''app''"
abbreviation VisibilityPublic :: string where "VisibilityPublic \<equiv> ''public''"
abbreviation VisibilityPrivate :: string where "VisibilityPrivate \<equiv> ''private''"
abbreviation services_provider :: string where "services_provider \<equiv> ''github''"

record Service =
  svc_ID :: string
  svc_EnvironmentID :: string
  svc_ProjectID :: string
  svc_WorkspaceID :: string
  svc_Name :: string
  svc_Slug :: string
  svc_SourceKind :: string
  svc_ImageRef :: string
  svc_TemplateID :: string
  svc_ConnectionID :: string
  svc_Provider :: string
  svc_Owner :: string
  svc_Repo :: string
  svc_FullName :: string
  svc_Branch :: string
  svc_DefaultBranch :: string
  svc_IsPrivate :: bool
  svc_HTMLURL :: string
  svc_SourceAccess :: string
  svc_ContainerPort :: int
  svc_Visibility :: string
  svc_RouteURL :: string
  svc_GitHubLogin :: string
  svc_CreatedAt :: int
  svc_UpdatedAt :: int

record CreateInput =
  ci_EnvironmentID :: string
  ci_Name :: string
  ci_SourceKind :: string
  ci_ImageRef :: string
  ci_TemplateID :: string
  ci_RepoURL :: string
  ci_ConnectionID :: string
  ci_Owner :: string
  ci_Repo :: string
  ci_Branch :: string
  ci_ContainerPort :: int
  ci_Visibility :: string
  ci_ServerID :: string
  ci_DeployNow :: bool

record UpdateSourceInput =
  ui_ID :: string
  ui_SourceKind :: string
  ui_ImageRef :: string
  ui_TemplateID :: string
  ui_RepoURL :: string
  ui_ConnectionID :: string
  ui_Owner :: string
  ui_Repo :: string
  ui_Branch :: string
  ui_ContainerPort :: int

record DatabaseInput =
  di_EnvironmentID :: string
  di_Name :: string
  di_TemplateID :: string
  di_DatabaseName :: string
  di_Username :: string
  di_Password :: string
  di_ServerID :: string
  di_DeployNow :: bool

record Detection =
  dt_Status :: string
  dt_Runtime :: string
  dt_RuntimeLabel :: string
  dt_PackageManager :: string
  dt_NodeVersion :: string
  dt_BuildCommand :: string
  dt_StartCommand :: string
  dt_ContainerPort :: int
  dt_Dockerfile :: string
  dt_NextSteps :: string

record resolvedSource =
  rso_kind :: string
  rso_imageRef :: string
  rso_templateID :: string
  rso_access :: string
  rso_connectionID :: string
  rso_owner :: string
  rso_repo :: string
  rso_fullName :: string
  rso_branch :: string
  rso_defaultBranch :: string
  rso_htmlURL :: string
  rso_isPrivate :: bool
  rso_githubLogin :: string
  rso_buildable :: bool

definition no_source :: resolvedSource where
  "no_source = \<lparr>rso_kind = [], rso_imageRef = [], rso_templateID = [], rso_access = [], rso_connectionID = [], rso_owner = [],
     rso_repo = [], rso_fullName = [], rso_branch = [], rso_defaultBranch = [], rso_htmlURL = [], rso_isPrivate = False,
     rso_githubLogin = [], rso_buildable = False\<rparr>"

record ServiceWrite =
  sw_EnvironmentID :: string
  sw_ProjectID :: string
  sw_WorkspaceID :: string
  sw_Name :: string
  sw_Slug :: string
  sw_SourceKind :: string
  sw_ImageRef :: string
  sw_TemplateID :: string
  sw_ContainerPort :: int
  sw_Visibility :: string

record GitServiceWrite =
  gw_EnvironmentID :: string
  gw_ProjectID :: string
  gw_WorkspaceID :: string
  gw_Name :: string
  gw_Slug :: string
  gw_SourceAccess :: string
  gw_ConnectionID :: string
  gw_Provider :: string
  gw_Owner :: string
  gw_Repo :: string
  gw_FullName :: string
  gw_Branch :: string
  gw_DefaultBranch :: string
  gw_IsPrivate :: bool
  gw_HTMLURL :: string
  gw_ContainerPort :: int
  gw_Visibility :: string

record SourceWrite =
  uw_ID :: string
  uw_SourceKind :: string
  uw_ImageRef :: string
  uw_TemplateID :: string
  uw_ConnectionID :: string
  uw_Provider :: string
  uw_Owner :: string
  uw_Repo :: string
  uw_FullName :: string
  uw_Branch :: string
  uw_DefaultBranch :: string
  uw_IsPrivate :: bool
  uw_HTMLURL :: string
  uw_SourceAccess :: string
  uw_ContainerPort :: int

section \<open>Queries\<close>

text \<open>The \<open>CHECK\<close>s of \<^verbatim>\<open>migrations/00017_services.sql\<close>, among them \<open>services_git_access_ck\<close>.\<close>

definition service_ok :: "Service_row \<Rightarrow> bool" where
  "service_ok r \<longleftrightarrow>
     rs_SourceKind r \<in> {SourceImage, SourceGit, SourceTemplate} \<and> rs_Provider r \<in> {[], services_provider} \<and>
     rs_SourceAccess r \<in> {[], accessOAuth, accessPublic, accessApp} \<and> rs_Visibility r \<in> {VisibilityPublic, VisibilityPrivate} \<and>
     (rs_SourceKind r \<noteq> SourceGit \<or> rs_SourceAccess r = accessPublic \<and> rs_ConnectionID r = None \<or>
      rs_SourceAccess r \<in> {accessOAuth, accessApp} \<and> rs_ConnectionID r \<noteq> None)"

definition connection_exists :: "database \<Rightarrow> string option \<Rightarrow> bool" where
  "connection_exists d c = (case c of None \<Rightarrow> True | Some i \<Rightarrow> i \<in> sc_ID ` set (source_connections d))"

definition service_fks :: "database \<Rightarrow> Service_row \<Rightarrow> bool" where
  "service_fks d r \<longleftrightarrow>
     rs_EnvironmentID r \<in> en_ID ` set (environments d) \<and> rs_ProjectID r \<in> pj_ID ` set (projects d) \<and>
     rs_WorkspaceID r \<in> wk_ID ` set (workspaces d) \<and> connection_exists d (rs_ConnectionID r)"

definition service_fresh :: "database \<Rightarrow> Service_row \<Rightarrow> bool" where
  "service_fresh d r \<longleftrightarrow>
     rs_ID r \<notin> rs_ID ` set (services d) \<and>
     (rs_EnvironmentID r, rs_Slug r) \<notin> (\<lambda>x. (rs_EnvironmentID x, rs_Slug x)) ` set (services d)"

definition put_service :: "Service_row \<Rightarrow> database \<Rightarrow> database" where
  "put_service r d = d\<lparr>services := services d @ [r]\<rparr>"

text \<open>The columns' defaults.\<close>

definition service_defaults :: "world \<Rightarrow> Service_row" where
  "service_defaults w =
     \<lparr>rs_ID = fresh_uuid w, rs_EnvironmentID = [], rs_ProjectID = [], rs_WorkspaceID = [], rs_Name = [], rs_Slug = [],
      rs_SourceKind = SourceImage, rs_ImageRef = [], rs_TemplateID = [], rs_ConnectionID = None, rs_Provider = [], rs_Owner = [],
      rs_Repo = [], rs_FullName = [], rs_Branch = [], rs_DefaultBranch = [], rs_IsPrivate = False, rs_HtmlUrl = [],
      rs_SourceAccess = [], rs_ContainerPort = 0, rs_Visibility = VisibilityPublic, rs_RouteUrl = [],
      rs_CreatedAt = now w, rs_UpdatedAt = now w\<rparr>"

definition db_CreateService :: "ServiceWrite \<Rightarrow> Service_row m" where
  "db_CreateService s =
     insert_unique
       (\<lambda>w. (service_defaults w)\<lparr>rs_EnvironmentID := sw_EnvironmentID s, rs_ProjectID := sw_ProjectID s,
          rs_WorkspaceID := sw_WorkspaceID s, rs_Name := sw_Name s, rs_Slug := sw_Slug s, rs_SourceKind := sw_SourceKind s,
          rs_ImageRef := sw_ImageRef s, rs_TemplateID := sw_TemplateID s, rs_ContainerPort := sw_ContainerPort s,
          rs_Visibility := sw_Visibility s\<rparr>)
       service_ok service_fresh service_fks put_service"

text \<open>\<open>nullableStr\<close> and \<open>deref\<close> of the repository.\<close>

definition nullableStr :: "string \<Rightarrow> string option" where
  "nullableStr s = (if s = [] then None else Some s)"

definition deref :: "string option \<Rightarrow> string" where
  "deref p = (case p of None \<Rightarrow> [] | Some s \<Rightarrow> s)"

definition db_CreateGitService :: "GitServiceWrite \<Rightarrow> Service_row m" where
  "db_CreateGitService s =
     insert_unique
       (\<lambda>w. (service_defaults w)\<lparr>rs_EnvironmentID := gw_EnvironmentID s, rs_ProjectID := gw_ProjectID s,
          rs_WorkspaceID := gw_WorkspaceID s, rs_Name := gw_Name s, rs_Slug := gw_Slug s, rs_SourceKind := SourceGit,
          rs_SourceAccess := gw_SourceAccess s, rs_ConnectionID := nullableStr (gw_ConnectionID s), rs_Provider := gw_Provider s,
          rs_Owner := gw_Owner s, rs_Repo := gw_Repo s, rs_FullName := gw_FullName s, rs_Branch := gw_Branch s,
          rs_DefaultBranch := gw_DefaultBranch s, rs_IsPrivate := gw_IsPrivate s, rs_HtmlUrl := gw_HTMLURL s,
          rs_ContainerPort := gw_ContainerPort s, rs_Visibility := gw_Visibility s\<rparr>)
       service_ok service_fresh service_fks put_service"

definition db_GetService :: "string \<Rightarrow> Service_row m" where
  "db_GetService i = select_one (\<lambda>d. find (\<lambda>r. rs_ID r = i) (services d))"

definition newest_services :: "(Service_row \<Rightarrow> bool) \<Rightarrow> database \<Rightarrow> Service_row list" where
  "newest_services p d = sort_key (\<lambda>r. - rs_CreatedAt r) (filter p (services d))"

definition db_ListServicesByEnvironment :: "string \<Rightarrow> Service_row list m" where
  "db_ListServicesByEnvironment i = select_many (newest_services (\<lambda>r. rs_EnvironmentID r = i))"

definition db_ListServicesByProject :: "string \<Rightarrow> Service_row list m" where
  "db_ListServicesByProject i = select_many (newest_services (\<lambda>r. rs_ProjectID r = i))"

definition db_ListServicesByWorkspace :: "string \<Rightarrow> Service_row list m" where
  "db_ListServicesByWorkspace i = select_many (newest_services (\<lambda>r. rs_WorkspaceID r = i))"

text \<open>\<open>UPDATE services SET ... WHERE id = $1 RETURNING *\<close>.\<close>

definition update_service :: "string \<Rightarrow> (Service_row \<Rightarrow> Service_row) \<Rightarrow> Service_row m" where
  "update_service i f =
     query (\<lambda>w. case find (\<lambda>r. rs_ID r = i) (services (db w)) of
                  None \<Rightarrow> (Inl ErrNoRows, w)
                | Some r \<Rightarrow>
                    let r' = (f r)\<lparr>rs_UpdatedAt := now w\<rparr> in
                    if service_ok r' \<and> connection_exists (db w) (rs_ConnectionID r')
                    then (Inr r', w\<lparr>db := (db w)\<lparr>services := update_where (\<lambda>x. rs_ID x = i) (\<lambda>_. r') (services (db w))\<rparr>\<rparr>)
                    else (Inl (Opaque ''constraint violation''), w))"

definition set_source :: "SourceWrite \<Rightarrow> Service_row \<Rightarrow> Service_row" where
  "set_source s r =
     r\<lparr>rs_SourceKind := uw_SourceKind s, rs_ImageRef := uw_ImageRef s, rs_TemplateID := uw_TemplateID s,
       rs_ConnectionID := nullableStr (uw_ConnectionID s), rs_Provider := uw_Provider s, rs_Owner := uw_Owner s,
       rs_Repo := uw_Repo s, rs_FullName := uw_FullName s, rs_Branch := uw_Branch s, rs_DefaultBranch := uw_DefaultBranch s,
       rs_IsPrivate := uw_IsPrivate s, rs_HtmlUrl := uw_HTMLURL s, rs_SourceAccess := uw_SourceAccess s,
       rs_ContainerPort := uw_ContainerPort s\<rparr>"

definition db_UpdateServiceSource :: "SourceWrite \<Rightarrow> Service_row m" where
  "db_UpdateServiceSource s = update_service (uw_ID s) (set_source s)"

definition db_UpdateServiceVisibility :: "string \<Rightarrow> string \<Rightarrow> Service_row m" where
  "db_UpdateServiceVisibility i v = update_service i (\<lambda>r. r\<lparr>rs_Visibility := v\<rparr>)"

text \<open>\<open>ON DELETE CASCADE\<close> from a service: deployments (with their events and teardown jobs), backups (with
  their restores), configuration, domains.\<close>

definition cascade_service :: "string \<Rightarrow> database \<Rightarrow> database" where
  "cascade_service i d =
     (let d1 = purge_backups (\<lambda>r. bk_ServiceID r = i) (purge_deployments (\<lambda>r. rd_ServiceID r = i) d) in
      d1\<lparr>services := filter (\<lambda>r. rs_ID r \<noteq> i) (services d),
         config_entries := filter (\<lambda>e. ce_ServiceID e \<noteq> Some i) (config_entries d),
         domains := filter (\<lambda>x. dm_ServiceID x \<noteq> i) (domains d),
         teardown_jobs := filter (\<lambda>j. rt_ServiceID j \<noteq> i) (teardown_jobs d1),
         restore_jobs := filter (\<lambda>j. rj_ServiceID j \<noteq> i) (restore_jobs d1)\<rparr>)"

definition db_DeleteService :: "string \<Rightarrow> string m" where
  "db_DeleteService i =
     update_one (\<lambda>_. True) (\<lambda>w d.
       map_option (\<lambda>r. (rs_ID r, cascade_service i d)) (find (\<lambda>r. rs_ID r = i) (services d)))"

section \<open>The repository\<close>

definition serviceFromRow :: "Service_row \<Rightarrow> Service" where
  "serviceFromRow r =
     \<lparr>svc_ID = rs_ID r, svc_EnvironmentID = rs_EnvironmentID r, svc_ProjectID = rs_ProjectID r, svc_WorkspaceID = rs_WorkspaceID r,
      svc_Name = rs_Name r, svc_Slug = rs_Slug r, svc_SourceKind = rs_SourceKind r, svc_ImageRef = rs_ImageRef r,
      svc_TemplateID = rs_TemplateID r, svc_ConnectionID = deref (rs_ConnectionID r), svc_Provider = rs_Provider r,
      svc_Owner = rs_Owner r, svc_Repo = rs_Repo r, svc_FullName = rs_FullName r, svc_Branch = rs_Branch r,
      svc_DefaultBranch = rs_DefaultBranch r, svc_IsPrivate = rs_IsPrivate r, svc_HTMLURL = rs_HtmlUrl r,
      svc_SourceAccess = rs_SourceAccess r, svc_ContainerPort = rs_ContainerPort r, svc_Visibility = rs_Visibility r,
      svc_RouteURL = rs_RouteUrl r, svc_GitHubLogin = [], svc_CreatedAt = rs_CreatedAt r, svc_UpdatedAt = rs_UpdatedAt r\<rparr>"

definition name_taken :: "string \<Rightarrow> string" where
  "name_taken name = ''a service named '' @ fmt_q name @ '' already exists in this environment''"

definition InsertService :: "ServiceWrite \<Rightarrow> Service m" where
  "InsertService s = map_m serviceFromRow (on_unique (name_taken (sw_Name s)) (db_CreateService s))"

definition InsertGitService :: "GitServiceWrite \<Rightarrow> Service m" where
  "InsertGitService s = map_m serviceFromRow (on_unique (name_taken (gw_Name s)) (db_CreateGitService s))"

definition store_GetService :: "string \<Rightarrow> Service option m" where
  "store_GetService i = map_m (map_option serviceFromRow) (absent_ok (db_GetService i))"

definition store_ServicesByEnvironment :: "string \<Rightarrow> Service list m" where
  "store_ServicesByEnvironment i = map_m (map serviceFromRow) (db_ListServicesByEnvironment i)"

definition store_ServicesByProject :: "string \<Rightarrow> Service list m" where
  "store_ServicesByProject i = map_m (map serviceFromRow) (db_ListServicesByProject i)"

definition store_ServicesByWorkspace :: "string \<Rightarrow> Service list m" where
  "store_ServicesByWorkspace i = map_m (map serviceFromRow) (db_ListServicesByWorkspace i)"

definition store_UpdateServiceSource :: "SourceWrite \<Rightarrow> Service m" where
  "store_UpdateServiceSource s = map_m serviceFromRow (db_UpdateServiceSource s)"

definition store_UpdateVisibility :: "string \<Rightarrow> string \<Rightarrow> Service m" where
  "store_UpdateVisibility i v = map_m serviceFromRow (db_UpdateServiceVisibility i v)"

definition store_DeleteService :: "string \<Rightarrow> string option m" where
  "store_DeleteService i = absent_ok (db_DeleteService i)"

section \<open>Validation\<close>

definition services_maxNameLen :: nat where "services_maxNameLen = 100"

definition validateName :: "string \<Rightarrow> err + (string \<times> string)" where
  "validateName raw =
     (let name = strings_TrimSpace raw in
      if name = [] then Inl (InvalidInput ''a service name is required'')
      else if length name > services_maxNameLen then Inl (InvalidInput ''name must be at most 100 characters'')
      else let slug = strings_Trim (replace_runs (strings_ToLower name)) ''-'' in
           if slug = [] then Inl (InvalidInput ''name must contain a letter or number'')
           else Inr (name, slug))"

definition validateVisibility :: "string \<Rightarrow> err + string" where
  "validateVisibility raw =
     (let v = strings_TrimSpace raw in
      if v = [] then Inr VisibilityPublic
      else if v \<noteq> VisibilityPublic \<and> v \<noteq> VisibilityPrivate
      then Inl (InvalidInput (''visibility must be '' @ fmt_q VisibilityPublic @ '' or '' @ fmt_q VisibilityPrivate))
      else Inr v)"

definition validatePort :: "string \<Rightarrow> int \<Rightarrow> err + int" where
  "validatePort kind port =
     (if port < 0 \<or> port > maxPort then Inl (InvalidInput ''container_port must be between 1 and 65535'')
      else if kind \<noteq> SourceGit \<and> port < 1 then Inl (InvalidInput ''a container_port is required for an image service'')
      else Inr port)"

fun firstNonEmpty :: "string list \<Rightarrow> string" where
  "firstNonEmpty [] = []"
| "firstNonEmpty (v # vs) = (let t = strings_TrimSpace v in if t \<noteq> [] then t else firstNonEmpty vs)"

definition bad_repo :: err where
  "bad_repo = InvalidInput ''enter a public GitHub repository URL like https://github.com/owner/repo''"

text \<open>The part of a repository reference after its scheme and host, if the host is GitHub's.\<close>

definition repo_path :: "string \<Rightarrow> string option" where
  "repo_path str =
     (case strings_CutPrefix ''git@github.com:'' str of
        Some rest \<Rightarrow> Some rest
      | None \<Rightarrow>
          let str = strings_TrimPrefix ''www.'' (strings_TrimPrefix ''http://'' (strings_TrimPrefix ''https://'' str)) in
          (case strings_CutPrefix ''github.com/'' str of
             Some rest \<Rightarrow> Some rest
           | None \<Rightarrow> if CHR ''/'' \<in> set str \<and> CHR ''.'' \<in> set (takeWhile (\<lambda>c. c \<noteq> CHR ''/'') str) then None else Some str))"

definition parsePublicRepo :: "string \<Rightarrow> err + (string \<times> string)" where
  "parsePublicRepo raw =
     (let str = strings_TrimSpace raw in
      if str = [] then Inl bad_repo
      else case repo_path str of
             None \<Rightarrow> Inl bad_repo
           | Some str \<Rightarrow>
               (case strings_Split (CHR ''/'') (strings_TrimPrefix ''/'' str) of
                  owner # second # _ \<Rightarrow>
                    (let repo = strings_TrimSuffix ''.git'' second in
                     if owner = [] \<or> repo = [] then Inl bad_repo else Inr (owner, repo))
                | _ \<Rightarrow> Inl bad_repo))"

definition services_mapGitHubErr :: "err \<Rightarrow> err" where
  "services_mapGitHubErr e =
     (if errors_Is e GitHubErrNotFound then NotFound ''repository not found, or your GitHub access can't see it''
      else if errors_Is e GitHubErrUnauthorized
      then InvalidInput (''GitHub rejected the request; the connection may have been revoked '' @ em_dash @ '' reconnect GitHub'')
      else if errors_Is e GitHubErrForbidden then PermissionDenied ''GitHub denied access to this repository''
      else if errors_Is e GitHubErrRateLimited then Internalf ''GitHub rate limit reached; please try again shortly'' e
      else Internalf ''could not reach GitHub'' e)"

section \<open>Database templates\<close>

record databaseTemplate =
  tm_id :: string
  tm_displayName :: string
  tm_image :: string
  tm_port :: int
  tm_scheme :: string
  tm_defaultUser :: string
  tm_defaultDB :: string

definition databaseTemplates :: "string \<rightharpoonup> databaseTemplate" where
  "databaseTemplates = [''postgres'' \<mapsto>
     \<lparr>tm_id = ''postgres'', tm_displayName = ''PostgreSQL'', tm_image = ''postgres:16-alpine'', tm_port = 5432,
      tm_scheme = ''postgresql'', tm_defaultUser = ''plorigo'', tm_defaultDB = ''app''\<rparr>]"

definition lookupDatabaseTemplate :: "string \<Rightarrow> databaseTemplate option" where
  "lookupDatabaseTemplate i = databaseTemplates (strings_TrimSpace i)"

definition template_env :: "databaseTemplate \<Rightarrow> string \<Rightarrow> string \<Rightarrow> string \<Rightarrow> (string \<times> string) list" where
  "template_env t user password dbn =
     (if tm_id t = ''postgres''
      then [(''POSTGRES_USER'', user), (''POSTGRES_PASSWORD'', password), (''POSTGRES_DB'', dbn)]
      else [])"

text \<open>\<open>net/url\<close>: \<open>shouldEscape\<close> and \<open>escape\<close> for the userinfo, the host and the path.\<close>

datatype encoding = encodeUserPassword | encodeHost | encodePath

definition is_alnum :: "char \<Rightarrow> bool" where
  "is_alnum c \<longleftrightarrow> slug_char c \<or> is_upper c"

definition shouldEscape :: "encoding \<Rightarrow> char \<Rightarrow> bool" where
  "shouldEscape mode c \<longleftrightarrow>
     \<not> is_alnum c \<and> c \<notin> set ''-_.~'' \<and>
     (case mode of
        encodeUserPassword \<Rightarrow> c \<notin> set ''$&+,;=''
      | encodeHost \<Rightarrow> c \<notin> set ''!$&()*+,;=:[]<>'' \<union> {CHR 0x22, CHR 0x27}
      | encodePath \<Rightarrow> c \<notin> set ''$&+,/:;=@'')"

definition upper_hex :: "nat \<Rightarrow> char" where
  "upper_hex n = (if n < 10 then char_of (48 + n) else char_of (55 + n))"

definition escape_char :: "encoding \<Rightarrow> char \<Rightarrow> string" where
  "escape_char mode c =
     (if shouldEscape mode c then [CHR ''%'', upper_hex (of_char c div 16), upper_hex (of_char c mod 16)] else [c])"

definition url_escape :: "encoding \<Rightarrow> string \<Rightarrow> string" where
  "url_escape mode s = concat (map (escape_char mode) s)"

text \<open>\<open>url.URL.String\<close> for a URL with a scheme, a user and password, a host and a path that starts
  with a slash.\<close>

definition url_String :: "string \<Rightarrow> string \<Rightarrow> string \<Rightarrow> string \<Rightarrow> string \<Rightarrow> string" where
  "url_String scheme user password host path =
     scheme @ ''://'' @ url_escape encodeUserPassword user @ '':'' @ url_escape encodeUserPassword password @ ''@'' @
     url_escape encodeHost host @ url_escape encodePath path"

definition connectionURI :: "databaseTemplate \<Rightarrow> string \<Rightarrow> string \<Rightarrow> string \<Rightarrow> string \<Rightarrow> string" where
  "connectionURI t host user password dbn =
     url_String (tm_scheme t) user password (host @ '':'' @ strconv_Itoa (tm_port t)) (''/'' @ dbn)"

text \<open>The 24 bytes come from \<open>crypto/rand\<close>.\<close>

definition generateDatabasePassword :: "err + nat list \<Rightarrow> err + string" where
  "generateDatabasePassword rnd = map_sum id base64url_Encode rnd"

definition pg_char :: "char \<Rightarrow> bool" where
  "pg_char c \<longleftrightarrow> is_alnum c \<or> c = CHR ''_''"

text \<open>\<^verbatim>\<open>^[A-Za-z_][A-Za-z0-9_]{0,62}$\<close> and \<^verbatim>\<open>^[\x21-\x7E]{8,128}$\<close>.\<close>

definition pgIdentifierRe :: "string \<Rightarrow> bool" where
  "pgIdentifierRe s \<longleftrightarrow> s \<noteq> [] \<and> length s \<le> 63 \<and> list_all pg_char s \<and> \<not> is_digit (hd s)"

definition dbPasswordRe :: "string \<Rightarrow> bool" where
  "dbPasswordRe s \<longleftrightarrow> 8 \<le> length s \<and> length s \<le> 128 \<and> list_all (in_range 0x21 0x7E) s"

definition validatePGIdentifier :: "string \<Rightarrow> string \<Rightarrow> err + unit" where
  "validatePGIdentifier label s =
     (if pgIdentifierRe s then Inr ()
      else Inl (InvalidInput (label @ '' must be 1'' @ en_dash @
                  ''63 chars: a letter or underscore, then letters, digits, or underscores'')))"

definition validateDBPassword :: "string \<Rightarrow> err + unit" where
  "validateDBPassword s =
     (if dbPasswordRe s then Inr ()
      else Inl (InvalidInput (''password must be 8'' @ en_dash @ ''128 characters with no spaces or control characters'')))"

section \<open>Resolving a source\<close>

definition resolveBranch :: "GitHubClient \<Rightarrow> string \<Rightarrow> github_RepoInfo \<Rightarrow> string \<Rightarrow> err + string" where
  "resolveBranch C token info branch =
     (if branch = [] then Inr (gr_DefaultBranch info)
      else case ghc_GetBranch C token (gr_Owner info) (gr_Name info) branch of
             Inr _ \<Rightarrow> Inr branch
           | Inl e \<Rightarrow>
               if errors_Is e GitHubErrNotFound
               then Inl (InvalidInput (''branch '' @ fmt_q branch @ '' was not found in '' @ gr_FullName info))
               else Inl (services_mapGitHubErr e))"

text \<open>The two paths of \<open>resolveGitSource\<close>: a public repository read without a credential, and a repository
  reached through a connection of the same workspace.\<close>

definition resolvePublic :: "GitHubClient \<Rightarrow> string \<Rightarrow> string \<Rightarrow> err + resolvedSource" where
  "resolvePublic C repoURL branch =
     (case parsePublicRepo repoURL of
        Inl e \<Rightarrow> Inl e
      | Inr (owner, repo) \<Rightarrow>
     (case ghc_GetRepository C [] owner repo of
        Inl e \<Rightarrow> Inl (services_mapGitHubErr e)
      | Inr info \<Rightarrow>
          if gr_Private info
          then Inl (InvalidInput (gr_FullName info @ '' is private; connect an integration to deploy a private repository''))
          else (case resolveBranch C [] info branch of
                  Inl e \<Rightarrow> Inl e
                | Inr b \<Rightarrow>
                    Inr (no_source\<lparr>rso_kind := SourceGit, rso_access := accessPublic, rso_owner := gr_Owner info,
                      rso_repo := gr_Name info, rso_fullName := gr_FullName info, rso_branch := b,
                      rso_defaultBranch := gr_DefaultBranch info, rso_htmlURL := gr_HTMLURL info, rso_isPrivate := False,
                      rso_buildable := True\<rparr>))))"

definition resolveConnected ::
    "deps \<Rightarrow> AEAD \<Rightarrow> Registry \<Rightarrow> string \<Rightarrow> string \<Rightarrow> string \<Rightarrow> string \<Rightarrow> string \<Rightarrow> resolvedSource m" where
  "resolveConnected D A R workspaceID connectionID owner repo branch =
     check (strings_TrimSpace connectionID \<noteq> [])
       (InvalidInput ''a public repository URL, or a connection plus owner and repo, is required'')
    (check (strings_TrimSpace owner \<noteq> [] \<and> strings_TrimSpace repo \<noteq> [])
       (InvalidInput ''owner and repo are required for a connected source'')
    (bind (GetConnectionMeta D connectionID) (\<lambda>conn.
     check (map_option cn_WorkspaceID conn = Some workspaceID) (NotFound ''connection not found in this workspace'')
    (bind (ValidateRepo D A R connectionID (strings_TrimSpace owner) (strings_TrimSpace repo) branch) (\<lambda>rr.
     ret (no_source\<lparr>rso_kind := SourceGit, rso_access := (if rr_Kind rr = ''app'' then accessApp else accessOAuth),
       rso_connectionID := connectionID, rso_owner := rr_Owner rr, rso_repo := rr_Name rr, rso_fullName := rr_FullName rr,
       rso_branch := rr_Branch rr, rso_defaultBranch := rr_DefaultBranch rr, rso_htmlURL := rr_HTMLURL rr,
       rso_isPrivate := rr_IsPrivate rr, rso_githubLogin := rr_AccountLogin rr, rso_buildable := rr_Buildable rr\<rparr>))))))"

definition resolveGitSource ::
    "deps \<Rightarrow> AEAD \<Rightarrow> Registry \<Rightarrow> GitHubClient \<Rightarrow> uuid \<Rightarrow> string \<Rightarrow> string \<Rightarrow> string \<Rightarrow> string \<Rightarrow> string \<Rightarrow> resolvedSource m" where
  "resolveGitSource D A R C workspaceID repoURL connectionID owner repo rawBranch =
     (let branch = strings_TrimSpace rawBranch in
      if strings_TrimSpace repoURL \<noteq> [] then lift (resolvePublic C repoURL branch)
      else resolveConnected D A R workspaceID connectionID owner repo branch)"

definition resolveSource ::
    "deps \<Rightarrow> AEAD \<Rightarrow> Registry \<Rightarrow> GitHubClient \<Rightarrow> uuid \<Rightarrow> string \<Rightarrow> string \<Rightarrow> string \<Rightarrow> string \<Rightarrow> string \<Rightarrow> string \<Rightarrow> string \<Rightarrow> string \<Rightarrow> resolvedSource m" where
  "resolveSource D A R C workspaceID kind imageRef templateID repoURL connectionID owner repo branch =
     (if kind = SourceImage then
        bind (lift (validateImageRef imageRef)) (\<lambda>ref.
        ret (no_source\<lparr>rso_kind := SourceImage, rso_imageRef := ref, rso_buildable := True\<rparr>))
      else if kind = SourceTemplate then
        bind (lift (validateImageRef imageRef)) (\<lambda>ref.
        check (strings_TrimSpace templateID \<noteq> []) (InvalidInput ''a template_id is required for a template service'')
          (ret (no_source\<lparr>rso_kind := SourceTemplate, rso_imageRef := ref, rso_templateID := strings_TrimSpace templateID,
             rso_buildable := True\<rparr>)))
      else if kind = SourceGit then resolveGitSource D A R C workspaceID repoURL connectionID owner repo branch
      else fail (InvalidInput (''source_kind must be one of '' @ fmt_q SourceImage @ '', '' @ fmt_q SourceGit @ '', or '' @
                   fmt_q SourceTemplate)))"

definition providerFor :: "string \<Rightarrow> string" where
  "providerFor kind = (if kind = SourceGit then services_provider else [])"

section \<open>The service\<close>

abbreviation service_resource :: "string \<Rightarrow> string \<Rightarrow> Resource" where
  "service_resource ws i \<equiv> \<lparr>res_Type = ''service'', res_WorkspaceID = ws, res_ID = i\<rparr>"

text \<open>The cross-tenant guard that \<open>CreateService\<close> and \<open>CreateDatabase\<close> apply before a first deployment.\<close>

definition deployServer :: "deps \<Rightarrow> string \<Rightarrow> string \<Rightarrow> bool \<Rightarrow> string \<Rightarrow> string m" where
  "deployServer D op workspaceID deploy serverID =
     (if deploy then
        check (id_Parse D serverID) (InvalidInput ''a valid server_id is required to deploy'')
       (bind (map_err (Internalf op) (WorkspaceForServer serverID)) (\<lambda>serverWorkspace.
        check (serverWorkspace = Some workspaceID) (NotFound (''server '' @ serverID @ '' not found in this workspace''))
          (ret serverID)))
      else ret [])"

text \<open>Inserting the row, in the git and in the image or template form.\<close>

definition insertResolved :: "CreateInput \<Rightarrow> string \<Rightarrow> string \<Rightarrow> string \<Rightarrow> string \<Rightarrow> string \<Rightarrow> resolvedSource \<Rightarrow> int \<Rightarrow> Service m" where
  "insertResolved inp projectID workspaceID name slug visibility rs port =
     (if rso_kind rs = SourceGit then
        InsertGitService \<lparr>gw_EnvironmentID = ci_EnvironmentID inp, gw_ProjectID = projectID, gw_WorkspaceID = workspaceID,
          gw_Name = name, gw_Slug = slug, gw_SourceAccess = rso_access rs, gw_ConnectionID = rso_connectionID rs,
          gw_Provider = services_provider, gw_Owner = rso_owner rs, gw_Repo = rso_repo rs, gw_FullName = rso_fullName rs,
          gw_Branch = rso_branch rs, gw_DefaultBranch = rso_defaultBranch rs, gw_IsPrivate = rso_isPrivate rs,
          gw_HTMLURL = rso_htmlURL rs, gw_ContainerPort = port, gw_Visibility = visibility\<rparr>
      else
        InsertService \<lparr>sw_EnvironmentID = ci_EnvironmentID inp, sw_ProjectID = projectID, sw_WorkspaceID = workspaceID,
          sw_Name = name, sw_Slug = slug, sw_SourceKind = rso_kind rs, sw_ImageRef = rso_imageRef rs,
          sw_TemplateID = rso_templateID rs, sw_ContainerPort = port, sw_Visibility = visibility\<rparr>)"

text \<open>\<open>if deploy { deploymentID, txErr = s.enqueuer.EnqueueFirstDeployment(...) }\<close>.\<close>

definition firstDeployment :: "bool \<Rightarrow> string \<Rightarrow> string \<Rightarrow> string m" where
  "firstDeployment deploy serviceID serverID =
     (if deploy then EnqueueFirstDeployment serviceID serverID else ret [])"

definition createServiceTx ::
    "CreateInput \<Rightarrow> string \<Rightarrow> string \<Rightarrow> string \<Rightarrow> string \<Rightarrow> string \<Rightarrow> resolvedSource \<Rightarrow> int \<Rightarrow> bool \<Rightarrow> string \<Rightarrow> Principal \<Rightarrow>
     (Service \<times> string) m" where
  "createServiceTx inp projectID workspaceID name slug visibility rs port deploy serverID caller =
     bind (insertResolved inp projectID workspaceID name slug visibility rs port) (\<lambda>saved.
     bind (audit_Record ''service.create'' ''service'' (svc_ID saved) workspaceID (UserID caller)) (\<lambda>_.
     bind (firstDeployment deploy (svc_ID saved) serverID) (\<lambda>deploymentID. ret (saved, deploymentID))))"

definition CreateService ::
    "deps \<Rightarrow> AEAD \<Rightarrow> Registry \<Rightarrow> GitHubClient \<Rightarrow> Principal \<Rightarrow> CreateInput \<Rightarrow> (Service \<times> string) m" where
  "CreateService D A R C caller inp =
     check (id_Parse D (ci_EnvironmentID inp)) (InvalidInput ''a valid environment_id is required'')
    (bind (lift (validateName (ci_Name inp))) (\<lambda>(name, slug).
     bind (lift (validateVisibility (ci_Visibility inp))) (\<lambda>visibility.
     bind (map_err (Internalf ''create service'') (WorkspaceAndProjectForEnvironment (ci_EnvironmentID inp))) (\<lambda>found.
     case found of
       None \<Rightarrow> fail (NotFound (''environment '' @ ci_EnvironmentID inp @ '' not found''))
     | Some (workspaceID, projectID) \<Rightarrow>
         bind (Authorize caller ActionServiceCreate (service_resource workspaceID [])) (\<lambda>_.
         bind (resolveSource D A R C workspaceID (ci_SourceKind inp) (ci_ImageRef inp) (ci_TemplateID inp) (ci_RepoURL inp)
                 (ci_ConnectionID inp) (ci_Owner inp) (ci_Repo inp) (ci_Branch inp)) (\<lambda>rs.
         bind (lift (validatePort (rso_kind rs) (ci_ContainerPort inp))) (\<lambda>port.
         let deploy = (ci_DeployNow inp \<and> rso_buildable rs) in
         bind (deployServer D ''create service'' workspaceID deploy (ci_ServerID inp)) (\<lambda>serverID.
         map_m (\<lambda>(saved, deploymentID). (saved\<lparr>svc_GitHubLogin := rso_githubLogin rs\<rparr>, deploymentID))
           (map_err (mapErr ''create service'')
             (WithinTx (createServiceTx inp projectID workspaceID name slug visibility rs port deploy serverID caller)))))))))))"

definition createDatabaseTx ::
    "deps \<Rightarrow> DatabaseInput \<Rightarrow> databaseTemplate \<Rightarrow> uuid \<Rightarrow> uuid \<Rightarrow> string \<Rightarrow> string \<Rightarrow> string \<Rightarrow> string \<Rightarrow> string \<Rightarrow> uuid \<Rightarrow> Principal \<Rightarrow>
     (Service \<times> string) m" where
  "createDatabaseTx D inp tmpl projectID workspaceID name slug user password dbName serverID caller =
     bind (InsertService \<lparr>sw_EnvironmentID = di_EnvironmentID inp, sw_ProjectID = projectID, sw_WorkspaceID = workspaceID,
             sw_Name = name, sw_Slug = slug, sw_SourceKind = SourceTemplate, sw_ImageRef = tm_image tmpl,
             sw_TemplateID = tm_id tmpl, sw_ContainerPort = tm_port tmpl, sw_Visibility = VisibilityPrivate\<rparr>) (\<lambda>saved.
     bind (SetWithinTx D (svc_ID saved) (template_env tmpl user password dbName)) (\<lambda>_.
     bind (audit_Record ''service.create_database'' ''service'' (svc_ID saved) workspaceID (UserID caller)) (\<lambda>_.
     bind (firstDeployment (di_DeployNow inp) (svc_ID saved) serverID) (\<lambda>deploymentID. ret (saved, deploymentID)))))"

definition CreateDatabase ::
    "deps \<Rightarrow> err + nat list \<Rightarrow> Principal \<Rightarrow> DatabaseInput \<Rightarrow> (Service \<times> string \<times> string) m" where
  "CreateDatabase D rnd caller inp =
     check (id_Parse D (di_EnvironmentID inp)) (InvalidInput ''a valid environment_id is required'')
    (case lookupDatabaseTemplate (di_TemplateID inp) of
       None \<Rightarrow> fail (InvalidInput (''unknown database template '' @ fmt_q (di_TemplateID inp)))
     | Some tmpl \<Rightarrow>
     bind (lift (validateName (di_Name inp))) (\<lambda>(name, slug).
     let dbName = firstNonEmpty [di_DatabaseName inp, tm_defaultDB tmpl]; user = firstNonEmpty [di_Username inp, tm_defaultUser tmpl] in
     bind (lift (validatePGIdentifier ''database name'' dbName)) (\<lambda>_.
     bind (lift (validatePGIdentifier ''username'' user)) (\<lambda>_.
     bind (if di_Password inp \<noteq> [] then lift (validateDBPassword (di_Password inp)) else ret ()) (\<lambda>_.
     bind (map_err (Internalf ''create database'') (WorkspaceAndProjectForEnvironment (di_EnvironmentID inp))) (\<lambda>found.
     case found of
       None \<Rightarrow> fail (NotFound (''environment '' @ di_EnvironmentID inp @ '' not found''))
     | Some (workspaceID, projectID) \<Rightarrow>
         bind (Authorize caller ActionServiceCreate (service_resource workspaceID [])) (\<lambda>_.
         bind (deployServer D ''create database'' workspaceID (di_DeployNow inp) (di_ServerID inp)) (\<lambda>serverID.
         bind (if di_Password inp = [] then map_err (Internalf ''create database'') (lift (generateDatabasePassword rnd))
               else ret (di_Password inp)) (\<lambda>password.
         map_m (\<lambda>(saved, deploymentID). (saved, deploymentID, connectionURI tmpl (svc_Slug saved) user password dbName))
           (map_err (mapErr ''create database'')
             (WithinTx (createDatabaseTx D inp tmpl projectID workspaceID name slug user password dbName serverID caller))))))))))))"

definition services_Get :: "deps \<Rightarrow> Principal \<Rightarrow> string \<Rightarrow> Service m" where
  "services_Get D caller serviceID =
     check (id_Parse D serviceID) (InvalidInput ''a valid service id is required'')
    (bind (map_err (Internalf ''get service'') (store_GetService serviceID)) (\<lambda>found.
     case found of
       None \<Rightarrow> fail (serviceNotFound serviceID)
     | Some svc \<Rightarrow>
         bind (Authorize caller ActionServiceRead (service_resource (svc_WorkspaceID svc) (svc_ID svc))) (\<lambda>_. ret svc)))"

definition services_ListByEnvironment :: "deps \<Rightarrow> Principal \<Rightarrow> string \<Rightarrow> Service list m" where
  "services_ListByEnvironment D caller environmentID =
     check (id_Parse D environmentID) (InvalidInput ''a valid environment_id is required'')
    (bind (map_err (Internalf ''list services'') (WorkspaceAndProjectForEnvironment environmentID)) (\<lambda>found.
     case found of
       None \<Rightarrow> fail (NotFound (''environment '' @ environmentID @ '' not found''))
     | Some (workspaceID, _) \<Rightarrow>
         bind (Authorize caller ActionServiceRead (service_resource workspaceID [])) (\<lambda>_. store_ServicesByEnvironment environmentID)))"

definition services_ListByProject :: "deps \<Rightarrow> Principal \<Rightarrow> string \<Rightarrow> Service list m" where
  "services_ListByProject D caller projectID =
     check (id_Parse D projectID) (InvalidInput ''a valid project_id is required'')
    (bind (map_err (Internalf ''list services'') (WorkspaceForProject projectID)) (\<lambda>found.
     case found of
       None \<Rightarrow> fail (NotFound (''project '' @ projectID @ '' not found''))
     | Some workspaceID \<Rightarrow>
         bind (Authorize caller ActionServiceRead (service_resource workspaceID [])) (\<lambda>_. store_ServicesByProject projectID)))"

definition services_ListByWorkspace :: "deps \<Rightarrow> Principal \<Rightarrow> string \<Rightarrow> Service list m" where
  "services_ListByWorkspace D caller workspaceID =
     check (id_Parse D workspaceID) (InvalidInput ''a valid workspace_id is required'')
    (bind (Authorize caller ActionServiceRead (service_resource workspaceID [])) (\<lambda>_. store_ServicesByWorkspace workspaceID))"

definition UpdateSource :: "deps \<Rightarrow> AEAD \<Rightarrow> Registry \<Rightarrow> GitHubClient \<Rightarrow> Principal \<Rightarrow> UpdateSourceInput \<Rightarrow> Service m" where
  "UpdateSource D A R C caller inp =
     check (id_Parse D (ui_ID inp)) (InvalidInput ''a valid service id is required'')
    (bind (map_err (Internalf ''update service source'') (WorkspaceAndProjectForService (ui_ID inp))) (\<lambda>found.
     case found of
       None \<Rightarrow> fail (serviceNotFound (ui_ID inp))
     | Some (workspaceID, _) \<Rightarrow>
         bind (Authorize caller ActionServiceUpdate (service_resource workspaceID (ui_ID inp))) (\<lambda>_.
         bind (resolveSource D A R C workspaceID (ui_SourceKind inp) (ui_ImageRef inp) (ui_TemplateID inp) (ui_RepoURL inp)
                 (ui_ConnectionID inp) (ui_Owner inp) (ui_Repo inp) (ui_Branch inp)) (\<lambda>rs.
         bind (lift (validatePort (rso_kind rs) (ui_ContainerPort inp))) (\<lambda>port.
         map_m (\<lambda>saved. saved\<lparr>svc_GitHubLogin := rso_githubLogin rs\<rparr>)
           (map_err (mapErr ''update service source'')
             (WithinTx
               (bind (store_UpdateServiceSource
                   \<lparr>uw_ID = ui_ID inp, uw_SourceKind = rso_kind rs, uw_ImageRef = rso_imageRef rs, uw_TemplateID = rso_templateID rs,
                    uw_ConnectionID = rso_connectionID rs, uw_Provider = providerFor (rso_kind rs), uw_Owner = rso_owner rs,
                    uw_Repo = rso_repo rs, uw_FullName = rso_fullName rs, uw_Branch = rso_branch rs,
                    uw_DefaultBranch = rso_defaultBranch rs, uw_IsPrivate = rso_isPrivate rs, uw_HTMLURL = rso_htmlURL rs,
                    uw_SourceAccess = rso_access rs, uw_ContainerPort = port\<rparr>) (\<lambda>saved.
                bind (audit_Record ''service.update'' ''service'' (ui_ID inp) workspaceID (UserID caller)) (\<lambda>_. ret saved))))))))))"

definition UpdateVisibility :: "deps \<Rightarrow> Principal \<Rightarrow> string \<Rightarrow> string \<Rightarrow> Service m" where
  "UpdateVisibility D caller serviceID visibility =
     check (id_Parse D serviceID) (InvalidInput ''a valid service id is required'')
    (bind (lift (validateVisibility visibility)) (\<lambda>vis.
     bind (map_err (Internalf ''update service visibility'') (WorkspaceAndProjectForService serviceID)) (\<lambda>found.
     case found of
       None \<Rightarrow> fail (serviceNotFound serviceID)
     | Some (workspaceID, _) \<Rightarrow>
         bind (Authorize caller ActionServiceUpdate (service_resource workspaceID serviceID)) (\<lambda>_.
         map_err (mapErr ''update service visibility'')
           (WithinTx
             (bind (store_UpdateVisibility serviceID vis) (\<lambda>saved.
              bind (audit_Record ''service.update'' ''service'' serviceID workspaceID (UserID caller)) (\<lambda>_. ret saved)))))))) "

definition DeleteService :: "deps \<Rightarrow> Principal \<Rightarrow> string \<Rightarrow> unit m" where
  "DeleteService D caller serviceID =
     check (id_Parse D serviceID) (InvalidInput ''a valid service id is required'')
    (bind (map_err (Internalf ''delete service'') (WorkspaceAndProjectForService serviceID)) (\<lambda>found.
     case found of
       None \<Rightarrow> fail (serviceNotFound serviceID)
     | Some (workspaceID, _) \<Rightarrow>
         bind (Authorize caller ActionServiceDelete (service_resource workspaceID serviceID)) (\<lambda>_.
         map_err (mapErr ''delete service'')
           (WithinTx
             (bind (store_DeleteService serviceID) (\<lambda>deleted.
              case deleted of
                None \<Rightarrow> fail (serviceNotFound serviceID)
              | Some deletedID \<Rightarrow> audit_Record ''service.delete'' ''service'' deletedID workspaceID (UserID caller)))))))"

definition githubFiles :: "GitHubClient \<Rightarrow> string \<Rightarrow> string \<Rightarrow> string \<Rightarrow> files" where
  "githubFiles C owner repo ref path = ghc_GetFileContent C [] owner repo ref path"

definition DetectFramework :: "GitHubClient \<Rightarrow> string \<Rightarrow> string \<Rightarrow> err + Detection" where
  "DetectFramework C repoURL branch =
     (case parsePublicRepo repoURL of
        Inl e \<Rightarrow> Inl e
      | Inr (owner, repo) \<Rightarrow>
     (case ghc_GetRepository C [] owner repo of
        Inl e \<Rightarrow> Inl (services_mapGitHubErr e)
      | Inr info \<Rightarrow>
          if gr_Private info
          then Inl (InvalidInput (gr_FullName info @ '' is private; connect GitHub to deploy a private repository''))
          else
            let ref = strings_TrimSpace branch; ref = (if ref = [] then gr_DefaultBranch info else ref) in
            (case Detect (githubFiles C (gr_Owner info) (gr_Name info) ref) of
               Inl e \<Rightarrow> Inl (Internalf ''detect framework'' e)
             | Inr plan \<Rightarrow>
                 Inr \<lparr>dt_Status = pl_Status plan, dt_Runtime = pl_Runtime plan, dt_RuntimeLabel = RuntimeLabel plan,
                      dt_PackageManager = pl_PackageManager plan, dt_NodeVersion = pl_NodeVersion plan,
                      dt_BuildCommand = pl_BuildCommand plan, dt_StartCommand = pl_StartCommand plan,
                      dt_ContainerPort = pl_Port plan, dt_Dockerfile = pl_Dockerfile plan, dt_NextSteps = pl_NextSteps plan\<rparr>)))"

section \<open>Requests\<close>

datatype services_request =
    CreateServiceReq CreateInput
  | CreateDatabaseReq "err + nat list" DatabaseInput
  | GetServiceReq string
  | ListServicesByEnvironmentReq string
  | ListServicesByProjectReq string
  | ListServicesByWorkspaceReq string
  | UpdateSourceReq UpdateSourceInput
  | UpdateVisibilityReq string string
  | DeleteServiceReq string
  | DetectFrameworkReq string string

definition services_serve :: "deps \<Rightarrow> AEAD \<Rightarrow> Registry \<Rightarrow> GitHubClient \<Rightarrow> Principal \<Rightarrow> services_request \<Rightarrow> unit m" where
  "services_serve D A R C p q =
     (case q of
        CreateServiceReq inp \<Rightarrow> finish (CreateService D A R C p inp)
      | CreateDatabaseReq rnd inp \<Rightarrow> finish (CreateDatabase D rnd p inp)
      | GetServiceReq i \<Rightarrow> finish (services_Get D p i)
      | ListServicesByEnvironmentReq i \<Rightarrow> finish (services_ListByEnvironment D p i)
      | ListServicesByProjectReq i \<Rightarrow> finish (services_ListByProject D p i)
      | ListServicesByWorkspaceReq i \<Rightarrow> finish (services_ListByWorkspace D p i)
      | UpdateSourceReq inp \<Rightarrow> finish (UpdateSource D A R C p inp)
      | UpdateVisibilityReq i v \<Rightarrow> finish (UpdateVisibility D p i v)
      | DeleteServiceReq i \<Rightarrow> DeleteService D p i
      | DetectFrameworkReq url branch \<Rightarrow> finish (lift (DetectFramework C url branch)))"

section \<open>Reads and errors\<close>

lemma readonly_services_store:
  "readonly (store_GetService i)" "readonly (store_ServicesByEnvironment i)" "readonly (store_ServicesByProject i)"
  "readonly (store_ServicesByWorkspace i)"
  unfolding store_GetService_def store_ServicesByEnvironment_def store_ServicesByProject_def store_ServicesByWorkspace_def
    db_GetService_def db_ListServicesByEnvironment_def db_ListServicesByProject_def db_ListServicesByWorkspace_def
  by (auto intro!: readonly_intros reads.obeys_rules)

lemma readonly_resolveSource: "readonly (resolveSource D A R C ws k img t url conn owner repo b)"
  unfolding resolveSource_def resolveGitSource_def resolveConnected_def Let_def
  by (intro reads.obeys_rules readonly_sources_reads)

lemma readonly_deployServer: "readonly (deployServer D op ws b srv)"
  unfolding deployServer_def by (intro reads.obeys_rules readonly_store)

lemma readonly_services_handlers:
  "readonly (services_Get D p i)" "readonly (services_ListByEnvironment D p i)" "readonly (services_ListByProject D p i)"
  "readonly (services_ListByWorkspace D p i)"
  unfolding services_Get_def services_ListByEnvironment_def services_ListByProject_def services_ListByWorkspace_def
  by (intro reads.obeys_rules reads.obeys_cases readonly_services_store readonly_store readonly_Authorize)+

lemma atomic_services_handlers:
  "atomic (CreateService D A R C p ci)" "atomic (CreateDatabase D rnd p di)" "atomic (UpdateSource D A R C p ui)"
  "atomic (UpdateVisibility D p i v)" "atomic (DeleteService D p i)"
  unfolding CreateService_def CreateDatabase_def UpdateSource_def UpdateVisibility_def DeleteService_def Let_def map_m_def
  by (auto intro!: atomic_rules atomic_read_bind atomic_cases reads.obeys_rules readonly_store readonly_Authorize readonly_resolveSource
        readonly_deployServer)

lemma atomic_services_serve: "atomic (services_serve D A R C p q)"
  by (cases q)
     (simp_all add: services_serve_def atomic_finish atomic_services_handlers atomic_readonly readonly_finish readonly_services_handlers
        reads.obeys_lift)

end
