(* ===== verification/Provisioning.thy ===== *)
theory Provisioning
  imports Services
begin

text \<open>
  What the operations of the services module do to the database, and the properties of the module: the
  shape and tenancy of the table of services, who may change it, what deleting a service leaves, that a
  managed database starts with the credentials its connection URI carries, and the repository references
  that are understood.
\<close>

section \<open>Steps\<close>

lemma readonly_run: "readonly c \<Longrightarrow> c w = (r, w') \<Longrightarrow> \<exists>n. w' = w\<lparr>ops := n\<rparr>"
  using reads.obeysD unfolding only_ops_def by blast

text \<open>The workspace and project of an environment.\<close>

definition environment_parents :: "database \<Rightarrow> string \<Rightarrow> (string \<times> string) option" where
  "environment_parents d i =
     (case find (\<lambda>e. en_ID e = i) (environments d) of
        None \<Rightarrow> None
      | Some e \<Rightarrow> map_option (\<lambda>p. (pj_WorkspaceID p, pj_ID p)) (find (\<lambda>p. pj_ID p = en_ProjectID e) (projects d)))"

lemma parents_succ:
  "WorkspaceAndProjectForEnvironment i w = (Inr x, w') \<longleftrightarrow>
     \<not> faults w (ops w) \<and> x = environment_parents (db w) i \<and> w' = w\<lparr>ops := Suc (ops w)\<rparr>"
  by (auto simp: WorkspaceAndProjectForEnvironment_def db_GetEnvironmentWorkspaceAndProject_def environment_parents_def
        absent_ok_select_one select_many_succ)

lemma service_parents_succ:
  "WorkspaceAndProjectForService i w = (Inr (Some (ws, prj)), w') \<longleftrightarrow>
     \<not> faults w (ops w) \<and> w' = w\<lparr>ops := Suc (ops w)\<rparr> \<and>
     (\<exists>r. find (\<lambda>r. rs_ID r = i) (services (db w)) = Some r \<and> rs_WorkspaceID r = ws \<and> rs_ProjectID r = prj)"
  by (cases "find (\<lambda>r. rs_ID r = i) (services (db w))") (auto simp: store_succ)

text \<open>What a resolved source guarantees: a public repository without a connection, or a connection of the
  same workspace with the access of its kind, or an image.\<close>

definition resolved_ok :: "database \<Rightarrow> string \<Rightarrow> resolvedSource \<Rightarrow> bool" where
  "resolved_ok d ws rs \<longleftrightarrow>
     (if rso_kind rs = SourceGit then
        rso_access rs = accessPublic \<and> rso_connectionID rs = [] \<and> \<not> rso_isPrivate rs \<and> rso_buildable rs \<or>
        rso_connectionID rs \<noteq> [] \<and>
        (\<exists>c \<in> set (source_connections d). sc_ID c = rso_connectionID rs \<and> sc_WorkspaceID c = ws \<and>
           rso_access rs = (if sc_Kind c = kindApp then accessApp else accessOAuth))
      else
        rso_kind rs \<in> {SourceImage, SourceTemplate} \<and> rso_connectionID rs = [] \<and> rso_access rs = [] \<and> rso_buildable rs \<and>
        (\<exists>img. validateImageRef img = Inr (rso_imageRef rs)))"

lemma resolveConnected_run:
  assumes "resolveConnected D A R ws conn owner repo b w = (Inr rs, w')"
  shows "rso_kind rs = SourceGit \<and> resolved_ok (db w) ws rs"
proof -
  from assms obtain c rr n w1 where c: "find (\<lambda>r. sc_ID r = conn) (source_connections (db w)) = Some c"
    and ws: "sc_WorkspaceID c = ws" and conn: "strings_TrimSpace conn \<noteq> []"
    and v: "ValidateRepo D A R conn (strings_TrimSpace owner) (strings_TrimSpace repo) b (w\<lparr>ops := n\<rparr>) = (Inr rr, w1)"
    and rs: "rso_kind rs = SourceGit" "rso_access rs = (if rr_Kind rr = ''app'' then accessApp else accessOAuth)" "rso_connectionID rs = conn"
    by (auto simp: resolveConnected_def check_succ bind_succ GetConnectionMeta_def map_err_succ GetConnectionByID_def
          db_GetConnectionByID_def map_m_succ absent_ok_select_one select_many_succ connectionFromRow_def no_source_def)
  from v c have "rr_Kind rr = sc_Kind c"
    by (auto simp: ValidateRepo_def bind_succ check_succ requireConnection_succ connectionFromRow_def)
  moreover have "conn \<noteq> []" using conn by auto
  ultimately show ?thesis using rs ws find_Some_mem [OF c] by (auto simp: resolved_ok_def)
qed

lemma resolveSource_run:
  assumes "resolveSource D A R C ws k img t url conn owner repo b w = (Inr rs, w')"
  shows "resolved_ok (db w) ws rs" and "\<exists>n. w' = w\<lparr>ops := n\<rparr>"
proof -
  show "\<exists>n. w' = w\<lparr>ops := n\<rparr>" by (rule readonly_run [OF readonly_resolveSource assms])
  have pub: "resolvePublic C url c = Inr rs \<Longrightarrow> resolved_ok (db w) ws rs" for c
    by (auto simp: resolvePublic_def resolved_ok_def no_source_def split: sum.splits if_splits prod.splits)
  have conn: "resolveConnected D A R ws conn owner repo c w = (Inr rs, w') \<Longrightarrow> resolved_ok (db w) ws rs" for c
    using resolveConnected_run by blast
  have image: "validateImageRef img = Inr x \<Longrightarrow> resolved_ok d ws (no_source\<lparr>rso_kind := SourceImage, rso_imageRef := x, rso_buildable := True\<rparr>)"
    "validateImageRef img = Inr x \<Longrightarrow>
       resolved_ok d ws (no_source\<lparr>rso_kind := SourceTemplate, rso_imageRef := x, rso_templateID := i, rso_buildable := True\<rparr>)" for x i d
    by (auto simp: resolved_ok_def no_source_def)
  show "resolved_ok (db w) ws rs"
    using assms pub conn
    by (auto simp: resolveSource_def resolveGitSource_def Let_def bind_succ lift_succ check_succ image split: if_splits)
qed

text \<open>The row that creating a service leaves: in the workspace and project of its environment, with a fresh
  identifier and a slug that is free in the environment, satisfying the table's constraints.\<close>

definition new_service :: "database \<Rightarrow> string \<Rightarrow> Service_row \<Rightarrow> bool" where
  "new_service d env r \<longleftrightarrow>
     rs_EnvironmentID r = env \<and> environment_parents d env = Some (rs_WorkspaceID r, rs_ProjectID r) \<and>
     service_fresh d r \<and> service_ok r \<and> service_fks d r"

lemma insertResolved_run:
  assumes "insertResolved inp prj ws name slug vis rs port w = (Inr saved, w')"
  obtains r where "saved = serviceFromRow r" "service_fresh (db w) r" "service_ok r" "service_fks (db w) r"
    and "db w' = put_service r (db w)" "rs_EnvironmentID r = ci_EnvironmentID inp" "rs_ProjectID r = prj" "rs_WorkspaceID r = ws"
    and "rs_Name r = name" "rs_Slug r = slug" "rs_Visibility r = vis" "rs_ContainerPort r = port" "rs_SourceKind r = rso_kind rs"
    and "rs_ConnectionID r = (if rso_kind rs = SourceGit then nullableStr (rso_connectionID rs) else None)"
    and "rs_SourceAccess r = (if rso_kind rs = SourceGit then rso_access rs else [])"
    and "rs_ImageRef r = (if rso_kind rs = SourceGit then [] else rso_imageRef rs)"
proof (cases "rso_kind rs = SourceGit")
  case True
  with assms that show ?thesis
    by (auto simp: insertResolved_def InsertGitService_def map_m_succ on_unique_succ db_CreateGitService_def insert_unique_succ
          service_defaults_def)
next
  case False
  with assms that show ?thesis
    by (auto simp: insertResolved_def InsertService_def map_m_succ on_unique_succ db_CreateService_def insert_unique_succ
          service_defaults_def)
qed

text \<open>The first deployment of a service: one queued production deployment of it on the server.\<close>

definition first_deployed :: "Service_row \<Rightarrow> string \<Rightarrow> string \<Rightarrow> database \<Rightarrow> database \<Rightarrow> bool" where
  "first_deployed r srv i d d' \<longleftrightarrow>
     (\<exists>x. production_of r srv 0 [] x \<and> rd_ID x = i \<and> rd_Status x = StatusQueued \<and> deployment_ok d x \<and> d' = put_deployment x d)"

lemma firstDeployment_run:
  assumes "firstDeployment b (rs_ID r) srv w = (Inr i, w')" and "find (\<lambda>x. rs_ID x = rs_ID r) (services (db w)) = Some r"
  shows "if b then first_deployed r srv i (db w) (db w') else i = [] \<and> db w' = db w"
proof (cases b)
  case True
  with assms obtain dep w1 where "buildAndInsert (rs_ID r) (serviceForDeployFromRow r) srv 0 [] w1 = (Inr dep, w')"
    and w1: "db w1 = db w" and i: "i = dep_ID dep"
    by (auto simp: firstDeployment_def EnqueueFirstDeployment_def bind_succ store_succ)
  then obtain x where "dep = deploymentFromRow x" "fresh_deployment w1 x" "deployment_ok (db w1) x"
      "db w' = put_deployment x (db w1)" "production_of r srv 0 [] x"
    by (elim buildAndInsert_row)
  with True w1 i show ?thesis by (auto simp: first_deployed_def fresh_deployment_def deploymentFromRow_def)
qed (use assms in \<open>simp add: firstDeployment_def\<close>)

lemma find_put_service:
  assumes "service_fresh d r"
  shows "find (\<lambda>x. rs_ID x = rs_ID r) (services (put_service r d)) = Some r"
  using assms find_None_iff [of "\<lambda>x. rs_ID x = rs_ID r" "services d"]
  by (auto simp: service_fresh_def put_service_def find_append image_iff)

lemma deployServer_run:
  assumes "deployServer D op ws b srv w = (Inr i, w')"
  shows "\<exists>n. w' = w\<lparr>ops := n\<rparr>" and "b \<Longrightarrow> i = srv \<and> (\<exists>s \<in> set (servers (db w)). sv_ID s = srv \<and> sv_WorkspaceID s = ws)"
proof -
  show "\<exists>n. w' = w\<lparr>ops := n\<rparr>" by (rule readonly_run [OF readonly_deployServer assms])
  show "b \<Longrightarrow> i = srv \<and> (\<exists>s \<in> set (servers (db w)). sv_ID s = srv \<and> sv_WorkspaceID s = ws)"
    using assms by (auto simp: deployServer_def check_succ bind_succ map_err_succ store_succ dest!: sym [of "Some ws"] dest: find_Some_mem)
qed

section \<open>Runs\<close>

text \<open>What creating a service changed: its row, its audit row and, if it was deployed at once, its first
  deployment on a server of the workspace.\<close>

definition created_in :: "database \<Rightarrow> Service_row \<Rightarrow> string \<Rightarrow> string \<Rightarrow> bool \<Rightarrow> string \<Rightarrow> string \<Rightarrow> database \<Rightarrow> bool" where
  "created_in d r action actor deployed srv i d' \<longleftrightarrow>
     (\<exists>a es. audit_row_of action ''service'' (rs_ID r) (rs_WorkspaceID r) actor a \<and>
        (let d1 = with_audit a ((put_service r d)\<lparr>config_entries := es\<rparr>) in
         if deployed
         then first_deployed r srv i d1 d' \<and> (\<exists>s \<in> set (servers d). sv_ID s = srv \<and> sv_WorkspaceID s = rs_WorkspaceID r)
         else i = [] \<and> d' = d1))"

lemma createServiceTx_run:
  assumes "createServiceTx inp prj ws name slug vis rs port b srv p w = (Inr (saved, i), w')"
  obtains r a where "saved = serviceFromRow r" "service_fresh (db w) r" "service_ok r" "service_fks (db w) r"
    and "rs_EnvironmentID r = ci_EnvironmentID inp" "rs_ProjectID r = prj" "rs_WorkspaceID r = ws"
    and "rs_Name r = name" "rs_Slug r = slug" "rs_Visibility r = vis" "rs_ContainerPort r = port" "rs_SourceKind r = rso_kind rs"
    and "rs_ConnectionID r = (if rso_kind rs = SourceGit then nullableStr (rso_connectionID rs) else None)"
    and "rs_SourceAccess r = (if rso_kind rs = SourceGit then rso_access rs else [])"
    and "rs_ImageRef r = (if rso_kind rs = SourceGit then [] else rso_imageRef rs)"
    and "audit_row_of ''service.create'' ''service'' (rs_ID r) ws (UserID p) a"
    and "if b then first_deployed r srv i (with_audit a (put_service r (db w))) (db w') else i = [] \<and> db w' = with_audit a (put_service r (db w))"
proof -
  from assms obtain w1 w2 where ins: "insertResolved inp prj ws name slug vis rs port w = (Inr saved, w1)"
    and rec: "audit_Record ''service.create'' ''service'' (svc_ID saved) ws (UserID p) w1 = (Inr (), w2)"
    and dep: "firstDeployment b (svc_ID saved) srv w2 = (Inr i, w')"
    by (auto simp: createServiceTx_def bind_succ)
  from ins obtain r where r: "saved = serviceFromRow r" "service_fresh (db w) r" "service_ok r" "service_fks (db w) r"
      "db w1 = put_service r (db w)" "rs_EnvironmentID r = ci_EnvironmentID inp" "rs_ProjectID r = prj" "rs_WorkspaceID r = ws"
      "rs_Name r = name" "rs_Slug r = slug" "rs_Visibility r = vis" "rs_ContainerPort r = port" "rs_SourceKind r = rso_kind rs"
      "rs_ConnectionID r = (if rso_kind rs = SourceGit then nullableStr (rso_connectionID rs) else None)"
      "rs_SourceAccess r = (if rso_kind rs = SourceGit then rso_access rs else [])"
      "rs_ImageRef r = (if rso_kind rs = SourceGit then [] else rso_imageRef rs)"
    by (rule insertResolved_run)
  obtain a where a: "audit_row_of ''service.create'' ''service'' (rs_ID r) ws (UserID p) a"
      "db w2 = with_audit a (put_service r (db w))"
    using audit_Record_db [OF rec] r(1,5) by (auto simp: serviceFromRow_def)
  have "find (\<lambda>x. rs_ID x = rs_ID r) (services (db w2)) = Some r"
    using find_put_service [OF r(2)] a(2) by (simp add: with_audit_def)
  then have "if b then first_deployed r srv i (db w2) (db w') else i = [] \<and> db w' = db w2"
    using dep r(1) by (intro firstDeployment_run) (simp_all add: serviceFromRow_def)
  then show ?thesis unfolding a(2) by (rule that [OF r(1-4) r(6-16) a(1)])
qed

lemma CreateService_run:
  assumes "CreateService D A R C p inp w = (Inr (svc, i), w')"
  obtains r rs where "new_service (db w) (ci_EnvironmentID inp) r" "permitted (db w) p ActionServiceCreate (rs_WorkspaceID r)"
    and "resolved_ok (db w) (rs_WorkspaceID r) rs" "validateName (ci_Name inp) = Inr (rs_Name r, rs_Slug r)"
    and "validateVisibility (ci_Visibility inp) = Inr (rs_Visibility r)" "validatePort (rs_SourceKind r) (ci_ContainerPort inp) = Inr (rs_ContainerPort r)"
    and "rs_SourceKind r = rso_kind rs" "rs_ConnectionID r = nullableStr (rso_connectionID rs)" "rs_SourceAccess r = rso_access rs"
    and "rs_ImageRef r = (if rso_kind rs = SourceGit then [] else rso_imageRef rs)"
    and "svc = (serviceFromRow r)\<lparr>svc_GitHubLogin := rso_githubLogin rs\<rparr>"
    and "created_in (db w) r ''service.create'' (UserID p) (ci_DeployNow inp \<and> rso_buildable rs) (ci_ServerID inp) i (db w')"
proof -
  from assms obtain ws prj name slug vis rs port n1 w1 w2 srv w3 saved where
    par: "environment_parents (db w) (ci_EnvironmentID inp) = Some (ws, prj)" and p: "permitted (db w) p ActionServiceCreate ws"
    and v: "validateName (ci_Name inp) = Inr (name, slug)" "validateVisibility (ci_Visibility inp) = Inr vis"
      "validatePort (rso_kind rs) (ci_ContainerPort inp) = Inr port"
    and rsv: "resolveSource D A R C ws (ci_SourceKind inp) (ci_ImageRef inp) (ci_TemplateID inp) (ci_RepoURL inp)
        (ci_ConnectionID inp) (ci_Owner inp) (ci_Repo inp) (ci_Branch inp) (w\<lparr>ops := n1\<rparr>) = (Inr rs, w1)"
    and srv: "deployServer D ''create service'' ws (ci_DeployNow inp \<and> rso_buildable rs) (ci_ServerID inp) w1 = (Inr srv, w2)"
    and tx: "createServiceTx inp prj ws name slug vis rs port (ci_DeployNow inp \<and> rso_buildable rs) srv p (w2\<lparr>ops := Suc (ops w2)\<rparr>)
        = (Inr (saved, i), w3)"
    and out: "svc = saved\<lparr>svc_GitHubLogin := rso_githubLogin rs\<rparr>" "db w' = db w3"
    by (auto simp: CreateService_def check_succ bind_succ lift_succ map_err_succ parents_succ Authorize_succ map_m_succ WithinTx_succ Let_def
          split: option.splits)
  from rsv have rs: "resolved_ok (db w) ws rs" and w1: "db w1 = db w" by (auto dest: resolveSource_run)
  from srv have w2: "db w2 = db w" using w1 deployServer_run(1) by fastforce
  have on: "srv = ci_ServerID inp \<and> (\<exists>s \<in> set (servers (db w)). sv_ID s = srv \<and> sv_WorkspaceID s = ws)"
    if "ci_DeployNow inp \<and> rso_buildable rs"
    using deployServer_run(2) [OF srv that] w1 by simp
  have w0: "db (w2\<lparr>ops := Suc (ops w2)\<rparr>) = db w" using w2 by simp
  from tx obtain r a where r: "saved = serviceFromRow r" "service_fresh (db w) r" "service_ok r" "service_fks (db w) r"
      "rs_EnvironmentID r = ci_EnvironmentID inp" "rs_ProjectID r = prj" "rs_WorkspaceID r = ws" "rs_Name r = name" "rs_Slug r = slug"
      "rs_Visibility r = vis" "rs_ContainerPort r = port" "rs_SourceKind r = rso_kind rs"
      "rs_ConnectionID r = (if rso_kind rs = SourceGit then nullableStr (rso_connectionID rs) else None)"
      "rs_SourceAccess r = (if rso_kind rs = SourceGit then rso_access rs else [])"
      "rs_ImageRef r = (if rso_kind rs = SourceGit then [] else rso_imageRef rs)"
      "audit_row_of ''service.create'' ''service'' (rs_ID r) ws (UserID p) a"
      "if ci_DeployNow inp \<and> rso_buildable rs then first_deployed r srv i (with_audit a (put_service r (db w))) (db w3)
       else i = [] \<and> db w3 = with_audit a (put_service r (db w))"
    unfolding w0 [symmetric] by (rule createServiceTx_run)
  have same: "with_audit a ((put_service r (db w))\<lparr>config_entries := config_entries (db w)\<rparr>) = with_audit a (put_service r (db w))"
    by (simp add: put_service_def with_audit_def)
  have "created_in (db w) r ''service.create'' (UserID p) (ci_DeployNow inp \<and> rso_buildable rs) (ci_ServerID inp) i (db w')"
    unfolding created_in_def Let_def
    by (rule exI [of _ a], rule exI [of _ "config_entries (db w)"]) (use r on out(2) same in auto)
  with r rs par p v out show ?thesis
    by (intro that [of r rs]) (auto simp: new_service_def resolved_ok_def nullableStr_def split: if_splits)
qed

text \<open>Writing generated variables.\<close>

definition with_vars :: "string \<Rightarrow> (string \<times> string) list \<Rightarrow> (config_target \<times> string \<rightharpoonup> content) \<Rightarrow> config_target \<times> string \<rightharpoonup> content" where
  "with_vars sid = fold (\<lambda>(raw, v) m. m((ServiceTarget sid, strings_TrimSpace raw) \<mapsto> Plain v))"

lemma set_vars_run:
  assumes "for_each xs (\<lambda>(raw, val). bind (lift (validateKey raw)) (\<lambda>key.
       check (length val \<le> maxValueLen) e (map_m (\<lambda>_. ()) (UpsertServiceConfig TypeVariable sid key (Some val) [])))) w = (Inr u, w')"
    and "config_wf (db w)"
  shows "config_wf (db w') \<and> (\<exists>es. db w' = (db w)\<lparr>config_entries := es\<rparr>) \<and> abs_config (db w') = with_vars sid xs (abs_config (db w))"
  using assms
proof (induction xs arbitrary: w)
  case Nil
  then show ?case by (auto simp: with_vars_def intro: exI [of _ "config_entries (db w)"])
next
  case (Cons x xs)
  obtain raw v where x: "x = (raw, v)" by (cases x)
  from Cons.prems(1) x obtain k saved w1 where k: "validateKey raw = Inr k"
    and up: "UpsertServiceConfig TypeVariable sid k (Some v) [] w = (Inr saved, w1)"
    and rest: "for_each xs (\<lambda>(raw, val). bind (lift (validateKey raw)) (\<lambda>key.
       check (length val \<le> maxValueLen) e (map_m (\<lambda>_. ()) (UpsertServiceConfig TypeVariable sid key (Some val) [])))) w1 = (Inr u, w')"
    by (auto simp: bind_succ lift_succ check_succ map_m_succ)
  from up obtain r es where w1: "config_wf (db w1)" "db w1 = (db w)\<lparr>config_entries := es\<rparr>"
      "abs_config (db w1) = (abs_config (db w))((ServiceTarget sid, k) \<mapsto> Plain v)"
    using Upsert_run [of ScopeService TypeVariable sid k "Some v" "[]" w saved w1 sid "[]"] Cons.prems(2)
    by (auto simp: scope_target_def)
  have "k = strings_TrimSpace raw" using k by (simp add: validateKey_Inr)
  with Cons.IH [OF rest w1(1)] w1 x show ?case by (auto simp: with_vars_def fun_upd_def)
qed

lemma SetWithinTx_run:
  assumes "SetWithinTx D sid vars w = (Inr u, w')" and "config_wf (db w)"
  shows "config_wf (db w') \<and> (\<exists>es. db w' = (db w)\<lparr>config_entries := es\<rparr>) \<and>
    abs_config (db w') = with_vars sid (sort_key fst vars) (abs_config (db w))"
  using assms by (auto simp: SetWithinTx_def check_succ intro!: set_vars_run)

text \<open>The variables of a PostgreSQL container.\<close>

definition pg_vars :: "string \<Rightarrow> string \<Rightarrow> string \<Rightarrow> string \<Rightarrow> (config_target \<times> string \<rightharpoonup> content) \<Rightarrow> config_target \<times> string \<rightharpoonup> content" where
  "pg_vars sid user password dbn m = m((ServiceTarget sid, ''POSTGRES_DB'') \<mapsto> Plain dbn,
     (ServiceTarget sid, ''POSTGRES_PASSWORD'') \<mapsto> Plain password, (ServiceTarget sid, ''POSTGRES_USER'') \<mapsto> Plain user)"

lemma with_template_env:
  assumes "tm_id t = ''postgres''"
  shows "with_vars sid (sort_key fst (template_env t user password dbn)) m = pg_vars sid user password dbn m"
proof -
  have "sort_key fst (template_env t user password dbn) =
      [(''POSTGRES_DB'', dbn), (''POSTGRES_PASSWORD'', password), (''POSTGRES_USER'', user)]"
    using assms by (simp add: template_env_def)
  then show ?thesis by (simp add: with_vars_def pg_vars_def TrimSpace_visible)
qed

text \<open>The password of a managed database: the caller's, or 24 random bytes in base64.\<close>

definition db_password :: "err + nat list \<Rightarrow> DatabaseInput \<Rightarrow> string \<Rightarrow> bool" where
  "db_password rnd inp pw \<longleftrightarrow>
     (if di_Password inp = [] then \<exists>bs. rnd = Inr bs \<and> pw = base64url_Encode bs else pw = di_Password inp \<and> dbPasswordRe pw)"

lemma createDatabaseTx_run:
  assumes "createDatabaseTx D inp t prj ws name slug user pw dbn srv p w = (Inr (saved, i), w')" and "config_wf (db w)" "tm_id t = ''postgres''"
  obtains r a es where "saved = serviceFromRow r" "service_fresh (db w) r" "service_ok r" "service_fks (db w) r"
    and "rs_EnvironmentID r = di_EnvironmentID inp" "rs_ProjectID r = prj" "rs_WorkspaceID r = ws"
    and "rs_Name r = name" "rs_Slug r = slug" "rs_Visibility r = VisibilityPrivate" "rs_ContainerPort r = tm_port t"
    and "rs_SourceKind r = SourceTemplate" "rs_ImageRef r = tm_image t" "rs_ConnectionID r = None" "rs_SourceAccess r = []"
    and "audit_row_of ''service.create_database'' ''service'' (rs_ID r) ws (UserID p) a"
    and "if di_DeployNow inp then first_deployed r srv i (with_audit a ((put_service r (db w))\<lparr>config_entries := es\<rparr>)) (db w')
      else i = [] \<and> db w' = with_audit a ((put_service r (db w))\<lparr>config_entries := es\<rparr>)"
    and "config_wf (db w')" "abs_config (db w') = pg_vars (rs_ID r) user pw dbn (abs_config (db w))"
proof -
  from assms(1) obtain w1 w2 w3 where
    ins: "InsertService \<lparr>sw_EnvironmentID = di_EnvironmentID inp, sw_ProjectID = prj, sw_WorkspaceID = ws,
             sw_Name = name, sw_Slug = slug, sw_SourceKind = SourceTemplate, sw_ImageRef = tm_image t,
             sw_TemplateID = tm_id t, sw_ContainerPort = tm_port t, sw_Visibility = VisibilityPrivate\<rparr> w = (Inr saved, w1)"
    and set: "SetWithinTx D (svc_ID saved) (template_env t user pw dbn) w1 = (Inr (), w2)"
    and rec: "audit_Record ''service.create_database'' ''service'' (svc_ID saved) ws (UserID p) w2 = (Inr (), w3)"
    and dep: "firstDeployment (di_DeployNow inp) (svc_ID saved) srv w3 = (Inr i, w')"
    by (auto simp: createDatabaseTx_def bind_succ)
  from ins obtain r where r: "saved = serviceFromRow r" "service_fresh (db w) r" "service_ok r" "service_fks (db w) r"
      "rs_EnvironmentID r = di_EnvironmentID inp" "rs_ProjectID r = prj" "rs_WorkspaceID r = ws" "rs_Name r = name" "rs_Slug r = slug"
      "rs_Visibility r = VisibilityPrivate" "rs_ContainerPort r = tm_port t" "rs_SourceKind r = SourceTemplate" "rs_ImageRef r = tm_image t"
      "rs_ConnectionID r = None" "rs_SourceAccess r = []"
    and w1: "db w1 = put_service r (db w)"
    by (auto simp: InsertService_def map_m_succ on_unique_succ db_CreateService_def insert_unique_succ service_defaults_def)
  have wf1: "config_wf (db w1)" and abs1: "abs_config (db w1) = abs_config (db w)"
    using config_wf_frame [of "db w1" "db w"] assms(2) w1 by (simp_all add: put_service_def)
  obtain es where w2: "db w2 = (put_service r (db w))\<lparr>config_entries := es\<rparr>" "config_wf (db w2)"
      "abs_config (db w2) = pg_vars (rs_ID r) user pw dbn (abs_config (db w))"
    using SetWithinTx_run [OF set wf1] with_template_env [OF assms(3)] r(1) abs1 w1 by (auto simp: serviceFromRow_def)
  obtain a where a: "audit_row_of ''service.create_database'' ''service'' (rs_ID r) ws (UserID p) a" "db w3 = with_audit a (db w2)"
    using audit_Record_db [OF rec] r(1) by (auto simp: serviceFromRow_def)
  have "find (\<lambda>x. rs_ID x = rs_ID r) (services (db w3)) = Some r"
    using find_put_service [OF r(2)] a(2) w2(1) by (simp add: with_audit_def)
  then have last: "if di_DeployNow inp then first_deployed r srv i (db w3) (db w') else i = [] \<and> db w' = db w3"
    using dep r(1) by (intro firstDeployment_run) (simp_all add: serviceFromRow_def)
  then have "config_entries (db w') = config_entries (db w2)"
    using a(2) by (auto simp: first_deployed_def put_deployment_def with_audit_def split: if_splits)
  from config_wf_frame [OF this] w2(2,3) have cfg: "config_wf (db w')" "abs_config (db w') = pg_vars (rs_ID r) user pw dbn (abs_config (db w))"
    by simp_all
  show ?thesis using last unfolding a(2) w2(1) by (rule that [OF r a(1) _ cfg])
qed

lemma postgres_template: "lookupDatabaseTemplate i = Some t \<Longrightarrow>
    tm_id t = ''postgres'' \<and> tm_image t = ''postgres:16-alpine'' \<and> tm_port t = 5432 \<and> tm_scheme t = ''postgresql''"
  by (auto simp: lookupDatabaseTemplate_def databaseTemplates_def split: if_splits)

lemma CreateDatabase_run:
  assumes "CreateDatabase D rnd p inp w = (Inr (svc, i, uri), w')" and "config_wf (db w)"
  obtains r t user pw dbn where "new_service (db w) (di_EnvironmentID inp) r" "permitted (db w) p ActionServiceCreate (rs_WorkspaceID r)"
    and "lookupDatabaseTemplate (di_TemplateID inp) = Some t" "validateName (di_Name inp) = Inr (rs_Name r, rs_Slug r)"
    and "svc = serviceFromRow r" "rs_Visibility r = VisibilityPrivate" "rs_ContainerPort r = 5432"
    and "rs_SourceKind r = SourceTemplate" "rs_ImageRef r = ''postgres:16-alpine''" "rs_ConnectionID r = None" "rs_SourceAccess r = []"
    and "pgIdentifierRe user" "pgIdentifierRe dbn" "db_password rnd inp pw" "uri = connectionURI t (rs_Slug r) user pw dbn"
    and "created_in (db w) r ''service.create_database'' (UserID p) (di_DeployNow inp) (di_ServerID inp) i (db w')"
    and "config_wf (db w')" "abs_config (db w') = pg_vars (rs_ID r) user pw dbn (abs_config (db w))"
proof -
  from assms(1) obtain t ws prj name slug user dbn pw n1 srv w2 w3 saved where
    t: "lookupDatabaseTemplate (di_TemplateID inp) = Some t" and v: "validateName (di_Name inp) = Inr (name, slug)"
    and ids: "pgIdentifierRe dbn" "pgIdentifierRe user" and pw: "db_password rnd inp pw"
    and par: "environment_parents (db w) (di_EnvironmentID inp) = Some (ws, prj)" and p: "permitted (db w) p ActionServiceCreate ws"
    and srv: "deployServer D ''create database'' ws (di_DeployNow inp) (di_ServerID inp) (w\<lparr>ops := n1\<rparr>) = (Inr srv, w2)"
    and tx: "createDatabaseTx D inp t prj ws name slug user pw dbn srv p (w2\<lparr>ops := Suc (ops w2)\<rparr>) = (Inr (saved, i), w3)"
    and out: "svc = saved" "uri = connectionURI t (svc_Slug saved) user pw dbn" "db w' = db w3"
    by (auto simp: CreateDatabase_def check_succ bind_succ lift_succ map_err_succ parents_succ Authorize_succ map_m_succ WithinTx_succ
          Let_def validatePGIdentifier_def validateDBPassword_def generateDatabasePassword_def db_password_def
          elim!: map_sum_InrE split: option.splits if_splits)
  have w0: "db (w2\<lparr>ops := Suc (ops w2)\<rparr>) = db w" using deployServer_run(1) [OF srv] by auto
  note T = postgres_template [OF t]
  have wf: "config_wf (db (w2\<lparr>ops := Suc (ops w2)\<rparr>))" using assms(2) w0 by simp
  from tx wf T [THEN conjunct1] obtain r a es where r: "saved = serviceFromRow r" "service_fresh (db w) r" "service_ok r" "service_fks (db w) r"
      "rs_EnvironmentID r = di_EnvironmentID inp" "rs_ProjectID r = prj" "rs_WorkspaceID r = ws"
      "rs_Name r = name" "rs_Slug r = slug" "rs_Visibility r = VisibilityPrivate" "rs_ContainerPort r = tm_port t"
      "rs_SourceKind r = SourceTemplate" "rs_ImageRef r = tm_image t" "rs_ConnectionID r = None" "rs_SourceAccess r = []"
      "audit_row_of ''service.create_database'' ''service'' (rs_ID r) ws (UserID p) a"
      "if di_DeployNow inp then first_deployed r srv i (with_audit a ((put_service r (db w))\<lparr>config_entries := es\<rparr>)) (db w3)
       else i = [] \<and> db w3 = with_audit a ((put_service r (db w))\<lparr>config_entries := es\<rparr>)"
      "config_wf (db w3)" "abs_config (db w3) = pg_vars (rs_ID r) user pw dbn (abs_config (db w))"
    unfolding w0 [symmetric] by (rule createDatabaseTx_run)
  have "created_in (db w) r ''service.create_database'' (UserID p) (di_DeployNow inp) (di_ServerID inp) i (db w')"
    unfolding created_in_def Let_def
    by (rule exI [of _ a], rule exI [of _ es]) (use r out(3) deployServer_run(2) [OF srv] in auto)
  with r t v ids pw par p out T show ?thesis
    by (intro that [of r t user dbn pw]) (simp_all add: new_service_def serviceFromRow_def)
qed

lemma update_service_succ:
  "update_service i f w = (Inr r', w') \<longleftrightarrow>
     \<not> faults w (ops w) \<and>
     (\<exists>r. find (\<lambda>r. rs_ID r = i) (services (db w)) = Some r \<and> r' = (f r)\<lparr>rs_UpdatedAt := now w\<rparr> \<and> service_ok r' \<and>
        connection_exists (db w) (rs_ConnectionID r') \<and>
        w' = w\<lparr>ops := Suc (ops w), db := (db w)\<lparr>services := update_where (\<lambda>x. rs_ID x = i) (\<lambda>_. r') (services (db w))\<rparr>\<rparr>)"
  by (auto simp: update_service_def query_def Let_def split: option.splits if_splits)

text \<open>An update: one row gets new contents, and keeps its identity and its place.\<close>

definition same_identity :: "Service_row \<Rightarrow> Service_row \<Rightarrow> bool" where
  "same_identity r r' \<longleftrightarrow>
     rs_ID r' = rs_ID r \<and> rs_EnvironmentID r' = rs_EnvironmentID r \<and> rs_ProjectID r' = rs_ProjectID r \<and>
     rs_WorkspaceID r' = rs_WorkspaceID r \<and> rs_Name r' = rs_Name r \<and> rs_Slug r' = rs_Slug r \<and> rs_CreatedAt r' = rs_CreatedAt r"

definition updated_in :: "database \<Rightarrow> Service_row \<Rightarrow> Service_row \<Rightarrow> string \<Rightarrow> database \<Rightarrow> bool" where
  "updated_in d r r' actor d' \<longleftrightarrow>
     same_identity r r' \<and> service_ok r' \<and>
     (\<exists>a. audit_row_of ''service.update'' ''service'' (rs_ID r) (rs_WorkspaceID r) actor a \<and>
        d' = with_audit a (d\<lparr>services := update_where (\<lambda>x. rs_ID x = rs_ID r) (\<lambda>_. r') (services d)\<rparr>))"

lemma UpdateSource_run:
  assumes "UpdateSource D A R C p inp w = (Inr svc, w')"
  obtains r r' rs where "r \<in> set (services (db w))" "rs_ID r = ui_ID inp" "permitted (db w) p ActionServiceUpdate (rs_WorkspaceID r)"
    and "resolved_ok (db w) (rs_WorkspaceID r) rs" "rs_SourceKind r' = rso_kind rs" "rs_ConnectionID r' = nullableStr (rso_connectionID rs)"
    and "rs_SourceAccess r' = rso_access rs" "validatePort (rs_SourceKind r') (ui_ContainerPort inp) = Inr (rs_ContainerPort r')"
    and "rs_ImageRef r' = rso_imageRef rs" "rs_Visibility r' = rs_Visibility r"
    and "updated_in (db w) r r' (UserID p) (db w')"
proof -
  from assms obtain r rs port n w1 s r' w2 w3 where r: "find (\<lambda>r. rs_ID r = ui_ID inp) (services (db w)) = Some r"
    and p: "permitted (db w) p ActionServiceUpdate (rs_WorkspaceID r)"
    and rsv: "resolveSource D A R C (rs_WorkspaceID r) (ui_SourceKind inp) (ui_ImageRef inp) (ui_TemplateID inp) (ui_RepoURL inp)
        (ui_ConnectionID inp) (ui_Owner inp) (ui_Repo inp) (ui_Branch inp) (w\<lparr>ops := n\<rparr>) = (Inr rs, w1)"
    and v: "validatePort (rso_kind rs) (ui_ContainerPort inp) = Inr port"
    and up: "update_service (ui_ID inp) (set_source s) (w1\<lparr>ops := Suc (ops w1)\<rparr>) = (Inr r', w2)"
    and s: "uw_SourceKind s = rso_kind rs" "uw_ConnectionID s = rso_connectionID rs" "uw_SourceAccess s = rso_access rs"
      "uw_ContainerPort s = port" "uw_ImageRef s = rso_imageRef rs"
    and rec: "audit_Record ''service.update'' ''service'' (ui_ID inp) (rs_WorkspaceID r) (UserID p) w2 = (Inr (), w3)" "db w' = db w3"
    by (auto simp: UpdateSource_def check_succ bind_succ lift_succ map_err_succ service_parents_succ Authorize_succ map_m_succ WithinTx_succ
          store_UpdateServiceSource_def db_UpdateServiceSource_def split: option.splits)
  from rsv have rs: "resolved_ok (db w) (rs_WorkspaceID r) rs" and w1: "db w1 = db w" by (auto dest: resolveSource_run)
  from up r w1 have r': "r' = (set_source s r)\<lparr>rs_UpdatedAt := now w1\<rparr>" "service_ok r'"
    and w2: "db w2 = (db w)\<lparr>services := update_where (\<lambda>x. rs_ID x = ui_ID inp) (\<lambda>_. r') (services (db w))\<rparr>"
    by (auto simp: update_service_succ)
  obtain a where a: "audit_row_of ''service.update'' ''service'' (ui_ID inp) (rs_WorkspaceID r) (UserID p) a" "db w3 = with_audit a (db w2)"
    using rec(1) by (rule audit_Record_db)
  have mem: "r \<in> set (services (db w))" "rs_ID r = ui_ID inp" using find_Some_mem [OF r] by simp_all
  have "updated_in (db w) r r' (UserID p) (db w')"
    unfolding updated_in_def using r' w2 a rec(2) mem by (auto simp: same_identity_def set_source_def)
  with mem p rs r'(1) s v show ?thesis by (intro that [of r rs r']) (simp_all add: set_source_def)
qed

lemma UpdateVisibility_run:
  assumes "UpdateVisibility D p i v w = (Inr svc, w')"
  obtains r r' vis where "r \<in> set (services (db w))" "rs_ID r = i" "permitted (db w) p ActionServiceUpdate (rs_WorkspaceID r)"
    and "validateVisibility v = Inr vis" "r' = r\<lparr>rs_Visibility := vis, rs_UpdatedAt := now w\<rparr>" "updated_in (db w) r r' (UserID p) (db w')"
proof -
  from assms obtain r vis n r' w2 w3 where r: "find (\<lambda>r. rs_ID r = i) (services (db w)) = Some r"
    and p: "permitted (db w) p ActionServiceUpdate (rs_WorkspaceID r)" and v: "validateVisibility v = Inr vis"
    and up: "update_service i (\<lambda>r. r\<lparr>rs_Visibility := vis\<rparr>) (w\<lparr>ops := n\<rparr>) = (Inr r', w2)"
    and rec: "audit_Record ''service.update'' ''service'' i (rs_WorkspaceID r) (UserID p) w2 = (Inr (), w3)" "db w' = db w3"
    by (auto simp: UpdateVisibility_def check_succ bind_succ lift_succ map_err_succ service_parents_succ Authorize_succ map_m_succ WithinTx_succ
          store_UpdateVisibility_def db_UpdateServiceVisibility_def split: option.splits)
  from up r have r': "r' = r\<lparr>rs_Visibility := vis, rs_UpdatedAt := now w\<rparr>" "service_ok r'"
    and w2: "db w2 = (db w)\<lparr>services := update_where (\<lambda>x. rs_ID x = i) (\<lambda>_. r') (services (db w))\<rparr>"
    by (auto simp: update_service_succ)
  obtain a where a: "audit_row_of ''service.update'' ''service'' i (rs_WorkspaceID r) (UserID p) a" "db w3 = with_audit a (db w2)"
    using rec(1) by (rule audit_Record_db)
  have mem: "r \<in> set (services (db w))" "rs_ID r = i" using find_Some_mem [OF r] by simp_all
  have "updated_in (db w) r r' (UserID p) (db w')"
    unfolding updated_in_def using r' w2 a rec(2) mem by (auto simp: same_identity_def)
  with mem p v r' show ?thesis by (intro that [of r vis r']) simp_all
qed

definition deleted_in :: "database \<Rightarrow> Service_row \<Rightarrow> string \<Rightarrow> database \<Rightarrow> bool" where
  "deleted_in d r actor d' \<longleftrightarrow>
     (\<exists>a. audit_row_of ''service.delete'' ''service'' (rs_ID r) (rs_WorkspaceID r) actor a \<and> d' = with_audit a (cascade_service (rs_ID r) d))"

lemma DeleteService_run:
  assumes "DeleteService D p i w = (Inr u, w')"
  obtains r where "r \<in> set (services (db w))" "rs_ID r = i" "permitted (db w) p ActionServiceDelete (rs_WorkspaceID r)"
    and "deleted_in (db w) r (UserID p) (db w')"
proof -
  from assms obtain r n j w2 w3 where r: "find (\<lambda>r. rs_ID r = i) (services (db w)) = Some r"
    and p: "permitted (db w) p ActionServiceDelete (rs_WorkspaceID r)"
    and del: "store_DeleteService i (w\<lparr>ops := n\<rparr>) = (Inr (Some j), w2)"
    and rec: "audit_Record ''service.delete'' ''service'' j (rs_WorkspaceID r) (UserID p) w2 = (Inr (), w3)" "db w' = db w3"
    by (auto simp: DeleteService_def check_succ bind_succ map_err_succ service_parents_succ Authorize_succ WithinTx_succ split: option.splits)
  have mem: "r \<in> set (services (db w))" "rs_ID r = i" using find_Some_mem [OF r] by simp_all
  from del r mem have "j = i" "db w2 = cascade_service i (db w)"
    by (auto simp: store_DeleteService_def absent_ok_def catch_def bind_def db_DeleteService_def update_one_def query_def Let_def
          split: if_splits)
  with audit_Record_db [OF rec(1)] rec(2) mem have "deleted_in (db w) r (UserID p) (db w')" by (auto simp: deleted_in_def)
  with mem p that show ?thesis by blast
qed

section \<open>The table of services\<close>

text \<open>A row in its place: the workspace and project of its environment, a connection (if any) of the same
  workspace with the access of its kind, a usable port, and a slug of letters, digits and inner hyphens.\<close>

definition in_environment :: "database \<Rightarrow> Service_row \<Rightarrow> bool" where
  "in_environment d r \<longleftrightarrow>
     (\<exists>e \<in> set (environments d). \<exists>k \<in> set (projects d). en_ID e = rs_EnvironmentID r \<and> pj_ID k = en_ProjectID e \<and>
        rs_ProjectID r = pj_ID k \<and> rs_WorkspaceID r = pj_WorkspaceID k)"

definition own_connection :: "database \<Rightarrow> Service_row \<Rightarrow> bool" where
  "own_connection d r \<longleftrightarrow>
     (\<forall>i. rs_ConnectionID r = Some i \<longrightarrow>
        (\<exists>c \<in> set (source_connections d). sc_ID c = i \<and> sc_WorkspaceID c = rs_WorkspaceID r \<and>
           rs_SourceAccess r = (if sc_Kind c = kindApp then accessApp else accessOAuth)))"

definition usable_port :: "Service_row \<Rightarrow> bool" where
  "usable_port r \<longleftrightarrow> (if rs_SourceKind r = SourceGit then 0 else 1) \<le> rs_ContainerPort r \<and> rs_ContainerPort r \<le> maxPort"

definition slug_ok :: "string \<Rightarrow> bool" where
  "slug_ok s \<longleftrightarrow> s \<noteq> [] \<and> list_all dns_char s \<and> hd s \<noteq> CHR ''-'' \<and> last s \<noteq> CHR ''-''"

definition service_row_ok :: "database \<Rightarrow> Service_row \<Rightarrow> bool" where
  "service_row_ok d r \<longleftrightarrow> service_ok r \<and> in_environment d r \<and> own_connection d r \<and> usable_port r \<and> slug_ok (rs_Slug r)"

definition services_wf :: "database \<Rightarrow> bool" where
  "services_wf d \<longleftrightarrow>
     distinct (map rs_ID (services d)) \<and> distinct (map (\<lambda>r. (rs_EnvironmentID r, rs_Slug r)) (services d)) \<and>
     (\<forall>r \<in> set (services d). service_row_ok d r)"

lemma validateName_slug: "validateName raw = Inr (name, slug) \<Longrightarrow> slug_ok slug"
  using Trim_hd Trim_last replace_runs_dns list_all_Trim
  by (fastforce simp: validateName_def slug_ok_def Let_def split: if_splits)

lemma parents_in_environment:
  assumes "environment_parents d (rs_EnvironmentID r) = Some (rs_WorkspaceID r, rs_ProjectID r)"
  shows "in_environment d r"
  using assms by (force simp: environment_parents_def in_environment_def split: option.splits dest: find_Some_mem)

lemma resolved_own_connection:
  assumes "resolved_ok d (rs_WorkspaceID r) rs" "rs_ConnectionID r = nullableStr (rso_connectionID rs)" "rs_SourceAccess r = rso_access rs"
  shows "own_connection d r"
  using assms by (auto simp: resolved_ok_def own_connection_def nullableStr_def split: if_splits)

lemma validatePort_usable: "validatePort (rs_SourceKind r) x = Inr (rs_ContainerPort r) \<Longrightarrow> usable_port r"
  by (auto simp: validatePort_def usable_port_def split: if_splits)

lemma service_row_ok_frame:
  "environments d' = environments d \<Longrightarrow> projects d' = projects d \<Longrightarrow> source_connections d' = source_connections d \<Longrightarrow>
     service_row_ok d' r = service_row_ok d r"
  by (simp add: service_row_ok_def in_environment_def own_connection_def)

text \<open>Creating, updating and deleting keep the table well-formed.\<close>

lemma created_frame:
  assumes "created_in d r action actor b srv i d'"
  shows "services d' = services d @ [r]" "environments d' = environments d" "projects d' = projects d"
    "source_connections d' = source_connections d"
  using assms
  by (auto simp: created_in_def Let_def first_deployed_def put_deployment_def with_audit_def put_service_def split: if_splits)

lemma services_wf_created:
  assumes "services_wf d" "service_fresh d r" "service_row_ok d r" "created_in d r action actor b srv i d'"
  shows "services_wf d'"
  using assms(1-3) created_frame [OF assms(4)] service_row_ok_frame [of d' d]
  by (auto simp: services_wf_def service_fresh_def)

lemma services_wf_updated:
  assumes "services_wf d" "r \<in> set (services d)" "service_row_ok d r'" "updated_in d r r' actor d'"
  shows "services_wf d'"
proof -
  from assms(4) have same: "same_identity r r'" and s: "services d' = update_where (\<lambda>x. rs_ID x = rs_ID r) (\<lambda>_. r') (services d)"
    and fr: "environments d' = environments d" "projects d' = projects d" "source_connections d' = source_connections d"
    by (auto simp: updated_in_def with_audit_def)
  have only: "x = r" if "x \<in> set (services d)" "rs_ID x = rs_ID r" for x
    using assms(1,2) that by (auto simp: services_wf_def distinct_map inj_on_def)
  have keys: "map f (services d') = map f (services d)" if "f r' = f r" for f :: "Service_row \<Rightarrow> 'b"
    unfolding s update_where_def using only that by (auto simp: comp_def)
  have "map rs_ID (services d') = map rs_ID (services d)"
    "map (\<lambda>r. (rs_EnvironmentID r, rs_Slug r)) (services d') = map (\<lambda>r. (rs_EnvironmentID r, rs_Slug r)) (services d)"
    using same by (auto intro!: keys simp: same_identity_def)
  with assms(1,3) fr s show ?thesis
    by (auto simp: services_wf_def set_update_where service_row_ok_frame [OF fr])
qed

lemma services_wf_deleted:
  assumes "services_wf d" "deleted_in d r actor d'"
  shows "services_wf d'"
proof -
  from assms(2) have s: "services d' = filter (\<lambda>x. rs_ID x \<noteq> rs_ID r) (services d)"
    and fr: "environments d' = environments d" "projects d' = projects d" "source_connections d' = source_connections d"
    by (auto simp: deleted_in_def with_audit_def cascade_service_def purge_backups_def purge_deployments_def Let_def)
  show ?thesis
    using assms(1) by (auto simp: services_wf_def s service_row_ok_frame [OF fr] distinct_map_filter)
qed

text \<open>What each mutation may do, and what permission it needs.\<close>

definition services_effect :: "services_request \<Rightarrow> Principal \<Rightarrow> database \<Rightarrow> database \<Rightarrow> bool" where
  "services_effect q p d d' \<longleftrightarrow>
     (case q of
        CreateServiceReq inp \<Rightarrow>
          \<exists>r b i. new_service d (ci_EnvironmentID inp) r \<and> permitted d p ActionServiceCreate (rs_WorkspaceID r) \<and>
            (b \<longrightarrow> ci_DeployNow inp) \<and> created_in d r ''service.create'' (UserID p) b (ci_ServerID inp) i d'
      | CreateDatabaseReq rnd inp \<Rightarrow>
          \<exists>r i. new_service d (di_EnvironmentID inp) r \<and> permitted d p ActionServiceCreate (rs_WorkspaceID r) \<and>
            rs_Visibility r = VisibilityPrivate \<and>
            created_in d r ''service.create_database'' (UserID p) (di_DeployNow inp) (di_ServerID inp) i d'
      | UpdateSourceReq inp \<Rightarrow>
          \<exists>r r'. r \<in> set (services d) \<and> rs_ID r = ui_ID inp \<and> permitted d p ActionServiceUpdate (rs_WorkspaceID r) \<and>
            rs_Visibility r' = rs_Visibility r \<and> updated_in d r r' (UserID p) d'
      | UpdateVisibilityReq i v \<Rightarrow>
          \<exists>r vis t. r \<in> set (services d) \<and> rs_ID r = i \<and> permitted d p ActionServiceUpdate (rs_WorkspaceID r) \<and>
            validateVisibility v = Inr vis \<and> updated_in d r (r\<lparr>rs_Visibility := vis, rs_UpdatedAt := t\<rparr>) (UserID p) d'
      | DeleteServiceReq i \<Rightarrow>
          \<exists>r. r \<in> set (services d) \<and> rs_ID r = i \<and> permitted d p ActionServiceDelete (rs_WorkspaceID r) \<and> deleted_in d r (UserID p) d'
      | _ \<Rightarrow> False)"

lemma CreateService_effect:
  assumes "CreateService D A R C p inp w = (Inr (svc, i), w')" and "services_wf (db w)"
  shows "services_wf (db w') \<and> services_effect (CreateServiceReq inp) p (db w) (db w')"
proof -
  from assms(1) obtain r rs where r: "new_service (db w) (ci_EnvironmentID inp) r" "permitted (db w) p ActionServiceCreate (rs_WorkspaceID r)"
      "resolved_ok (db w) (rs_WorkspaceID r) rs" "validateName (ci_Name inp) = Inr (rs_Name r, rs_Slug r)"
      "validateVisibility (ci_Visibility inp) = Inr (rs_Visibility r)" "validatePort (rs_SourceKind r) (ci_ContainerPort inp) = Inr (rs_ContainerPort r)"
      "rs_SourceKind r = rso_kind rs" "rs_ConnectionID r = nullableStr (rso_connectionID rs)" "rs_SourceAccess r = rso_access rs"
      "rs_ImageRef r = (if rso_kind rs = SourceGit then [] else rso_imageRef rs)"
      "svc = (serviceFromRow r)\<lparr>svc_GitHubLogin := rso_githubLogin rs\<rparr>"
      "created_in (db w) r ''service.create'' (UserID p) (ci_DeployNow inp \<and> rso_buildable rs) (ci_ServerID inp) i (db w')"
    by (rule CreateService_run)
  have "service_row_ok (db w) r"
    using r(1) parents_in_environment [of "db w" r] resolved_own_connection [OF r(3) r(8) r(9)] validatePort_usable [OF r(6)] validateName_slug [OF r(4)]
    by (auto simp: new_service_def service_row_ok_def)
  then have "services_wf (db w')"
    using services_wf_created [OF assms(2), OF r(1) [unfolded new_service_def, THEN conjunct2, THEN conjunct2, THEN conjunct1]] r(12) by blast
  moreover have "services_effect (CreateServiceReq inp) p (db w) (db w')"
    unfolding services_effect_def services_request.case using r(1,2,12)
    by (intro exI [of _ r] exI [of _ "ci_DeployNow inp \<and> rso_buildable rs"] exI [of _ i]) simp
  ultimately show ?thesis by blast
qed

lemma CreateDatabase_effect:
  assumes "CreateDatabase D rnd p inp w = (Inr (svc, i, uri), w')" and "services_wf (db w)" "config_wf (db w)"
  shows "services_wf (db w') \<and> services_effect (CreateDatabaseReq rnd inp) p (db w) (db w')"
proof -
  from assms(1,3) obtain r t user pw dbn where r: "new_service (db w) (di_EnvironmentID inp) r" "permitted (db w) p ActionServiceCreate (rs_WorkspaceID r)"
      "lookupDatabaseTemplate (di_TemplateID inp) = Some t" "validateName (di_Name inp) = Inr (rs_Name r, rs_Slug r)"
      "svc = serviceFromRow r" "rs_Visibility r = VisibilityPrivate" "rs_ContainerPort r = 5432"
      "rs_SourceKind r = SourceTemplate" "rs_ImageRef r = ''postgres:16-alpine''" "rs_ConnectionID r = None" "rs_SourceAccess r = []"
      "pgIdentifierRe user" "pgIdentifierRe dbn" "db_password rnd inp pw" "uri = connectionURI t (rs_Slug r) user pw dbn"
      "created_in (db w) r ''service.create_database'' (UserID p) (di_DeployNow inp) (di_ServerID inp) i (db w')"
      "config_wf (db w')" "abs_config (db w') = pg_vars (rs_ID r) user pw dbn (abs_config (db w))"
    by (rule CreateDatabase_run)
  have "service_row_ok (db w) r"
    using r(1,7,8,10) parents_in_environment [of "db w" r] validateName_slug [OF r(4)]
    by (auto simp: new_service_def service_row_ok_def usable_port_def own_connection_def)
  then have "services_wf (db w')"
    using services_wf_created [OF assms(2), OF r(1) [unfolded new_service_def, THEN conjunct2, THEN conjunct2, THEN conjunct1]] r(16) by blast
  moreover have "services_effect (CreateDatabaseReq rnd inp) p (db w) (db w')"
    unfolding services_effect_def services_request.case using r(1,2,6,16) by blast
  ultimately show ?thesis by blast
qed

lemma UpdateSource_effect:
  assumes "UpdateSource D A R C p inp w = (Inr svc, w')" and "services_wf (db w)"
  shows "services_wf (db w') \<and> services_effect (UpdateSourceReq inp) p (db w) (db w')"
proof -
  from assms(1) obtain r r' rs where r: "r \<in> set (services (db w))" "rs_ID r = ui_ID inp" "permitted (db w) p ActionServiceUpdate (rs_WorkspaceID r)"
      "resolved_ok (db w) (rs_WorkspaceID r) rs" "rs_SourceKind r' = rso_kind rs" "rs_ConnectionID r' = nullableStr (rso_connectionID rs)"
      "rs_SourceAccess r' = rso_access rs" "validatePort (rs_SourceKind r') (ui_ContainerPort inp) = Inr (rs_ContainerPort r')"
      "rs_ImageRef r' = rso_imageRef rs" "rs_Visibility r' = rs_Visibility r"
      "updated_in (db w) r r' (UserID p) (db w')"
    by (rule UpdateSource_run)
  have same: "same_identity r r'" "service_ok r'" using r(11) by (simp_all add: updated_in_def)
  have "service_row_ok (db w) r" using assms(2) r(1) by (simp add: services_wf_def)
  moreover have "own_connection (db w) r'" using same r(4,6,7) by (intro resolved_own_connection) (simp_all add: same_identity_def)
  ultimately have "service_row_ok (db w) r'"
    using same validatePort_usable [OF r(8)] by (simp add: service_row_ok_def same_identity_def in_environment_def)
  then have "services_wf (db w')" using services_wf_updated [OF assms(2) r(1)] r(11) by blast
  moreover have "services_effect (UpdateSourceReq inp) p (db w) (db w')"
    unfolding services_effect_def services_request.case using r(1,2,3,10,11) by blast
  ultimately show ?thesis by blast
qed

lemma UpdateVisibility_effect:
  assumes "UpdateVisibility D p i v w = (Inr svc, w')" and "services_wf (db w)"
  shows "services_wf (db w') \<and> services_effect (UpdateVisibilityReq i v) p (db w) (db w')"
proof -
  from assms(1) obtain r r' vis where r: "r \<in> set (services (db w))" "rs_ID r = i" "permitted (db w) p ActionServiceUpdate (rs_WorkspaceID r)"
      "validateVisibility v = Inr vis" "r' = r\<lparr>rs_Visibility := vis, rs_UpdatedAt := now w\<rparr>" "updated_in (db w) r r' (UserID p) (db w')"
    by (rule UpdateVisibility_run)
  have "service_row_ok (db w) r" using assms(2) r(1) by (simp add: services_wf_def)
  moreover have "service_ok r'" using r(6) by (simp add: updated_in_def)
  ultimately have "service_row_ok (db w) r'"
    using r(5) by (simp add: service_row_ok_def in_environment_def own_connection_def usable_port_def)
  then have "services_wf (db w')" using services_wf_updated [OF assms(2) r(1)] r(6) by blast
  moreover have "services_effect (UpdateVisibilityReq i v) p (db w) (db w')"
    unfolding services_effect_def services_request.case using r(1-4) r(6) [unfolded r(5)] by blast
  ultimately show ?thesis by blast
qed


section \<open>Deleting a service\<close>

text \<open>Every row that refers to a service, a deployment or a backup refers to one that exists.\<close>

definition refs_ok :: "database \<Rightarrow> bool" where
  "refs_ok d \<longleftrightarrow>
     (let svcs = rs_ID ` set (services d); deps = rd_ID ` set (deployments d); baks = bk_ID ` set (backups d) in
      (\<forall>x \<in> set (deployments d). rd_ServiceID x \<in> svcs \<and> (\<forall>i. rd_RolledBackFrom x = Some i \<longrightarrow> i \<in> deps)) \<and>
      (\<forall>e \<in> set (deployment_events d). re_DeploymentID e \<in> deps) \<and>
      (\<forall>j \<in> set (teardown_jobs d). rt_DeploymentID j \<in> deps \<and> rt_ServiceID j \<in> svcs) \<and>
      (\<forall>b \<in> set (backups d). bk_ServiceID b \<in> svcs) \<and>
      (\<forall>j \<in> set (restore_jobs d). rj_BackupID j \<in> baks \<and> rj_ServiceID j \<in> svcs) \<and>
      (\<forall>x \<in> set (domains d). dm_ServiceID x \<in> svcs) \<and>
      (\<forall>e \<in> set (config_entries d). \<forall>i. ce_ServiceID e = Some i \<longrightarrow> i \<in> svcs))"

lemma forget_rollback_fields [simp]:
  "rd_ID (forget_rollback gone x) = rd_ID x" "rd_ServiceID (forget_rollback gone x) = rd_ServiceID x"
  by (simp_all add: forget_rollback_def split: option.split)

lemma forget_rollback_Some:
  "rd_RolledBackFrom (forget_rollback gone x) = Some i \<longleftrightarrow> rd_RolledBackFrom x = Some i \<and> i \<notin> gone"
  by (auto simp: forget_rollback_def split: option.split)

lemma cascade_service_tables:
  "services (cascade_service i d) = filter (\<lambda>r. rs_ID r \<noteq> i) (services d)"
  "config_entries (cascade_service i d) = filter (\<lambda>e. ce_ServiceID e \<noteq> Some i) (config_entries d)"
  "domains (cascade_service i d) = filter (\<lambda>x. dm_ServiceID x \<noteq> i) (domains d)"
  "backups (cascade_service i d) = filter (\<lambda>x. bk_ServiceID x \<noteq> i) (backups d)"
  "deployments (cascade_service i d) =
     map (forget_rollback (rd_ID ` {x \<in> set (deployments d). rd_ServiceID x = i})) (filter (\<lambda>x. rd_ServiceID x \<noteq> i) (deployments d))"
  "deployment_events (cascade_service i d) =
     filter (\<lambda>e. re_DeploymentID e \<notin> rd_ID ` {x \<in> set (deployments d). rd_ServiceID x = i}) (deployment_events d)"
  "teardown_jobs (cascade_service i d) =
     filter (\<lambda>j. rt_ServiceID j \<noteq> i \<and> rt_DeploymentID j \<notin> rd_ID ` {x \<in> set (deployments d). rd_ServiceID x = i}) (teardown_jobs d)"
  "restore_jobs (cascade_service i d) =
     filter (\<lambda>j. rj_ServiceID j \<noteq> i \<and> rj_BackupID j \<notin> bk_ID ` {x \<in> set (backups d). bk_ServiceID x = i}) (restore_jobs d)"
  by (simp_all add: cascade_service_def purge_backups_def purge_deployments_def Let_def conj_commute cong: filter_cong)

lemma refs_ok_cascade:
  assumes "refs_ok d"
  shows "refs_ok (cascade_service i d)"
proof -
  let ?gone = "rd_ID ` {x \<in> set (deployments d). rd_ServiceID x = i}"
  note d = assms [unfolded refs_ok_def Let_def]
  have svc: "s \<in> rs_ID ` set (services d) \<Longrightarrow> s \<noteq> i \<Longrightarrow> s \<in> rs_ID ` set (services (cascade_service i d))" for s
    by (auto simp: cascade_service_tables)
  have dep: "x \<in> rd_ID ` set (deployments d) \<Longrightarrow> x \<notin> ?gone \<Longrightarrow> x \<in> rd_ID ` set (deployments (cascade_service i d))" for x
    by (force simp: cascade_service_tables image_iff)
  have bak: "b \<in> bk_ID ` set (backups d) \<Longrightarrow> b \<notin> bk_ID ` {x \<in> set (backups d). bk_ServiceID x = i} \<Longrightarrow>
      b \<in> bk_ID ` set (backups (cascade_service i d))" for b
    by (auto simp: cascade_service_tables)
  have "rd_ServiceID x \<in> rs_ID ` set (services (cascade_service i d)) \<and>
      (\<forall>j. rd_RolledBackFrom x = Some j \<longrightarrow> j \<in> rd_ID ` set (deployments (cascade_service i d)))"
    if "x \<in> set (deployments (cascade_service i d))" for x
  proof -
    from that obtain y where y: "y \<in> set (deployments d)" "rd_ServiceID y \<noteq> i" "x = forget_rollback ?gone y"
      by (auto simp: cascade_service_tables(5))
    with d have "rd_ServiceID y \<in> rs_ID ` set (services d)" "\<forall>j. rd_RolledBackFrom y = Some j \<longrightarrow> j \<in> rd_ID ` set (deployments d)"
      by blast+
    with y svc dep show ?thesis by (simp add: forget_rollback_Some)
  qed
  moreover have "\<forall>e \<in> set (deployment_events (cascade_service i d)). re_DeploymentID e \<in> rd_ID ` set (deployments (cascade_service i d))"
    unfolding cascade_service_tables(6) using d dep by simp
  moreover have "\<forall>j \<in> set (teardown_jobs (cascade_service i d)). rt_DeploymentID j \<in> rd_ID ` set (deployments (cascade_service i d)) \<and>
      rt_ServiceID j \<in> rs_ID ` set (services (cascade_service i d))"
    unfolding cascade_service_tables(7) using d dep svc by simp
  moreover have "\<forall>b \<in> set (backups (cascade_service i d)). bk_ServiceID b \<in> rs_ID ` set (services (cascade_service i d))"
    unfolding cascade_service_tables(4) using d svc by simp
  moreover have "\<forall>j \<in> set (restore_jobs (cascade_service i d)). rj_BackupID j \<in> bk_ID ` set (backups (cascade_service i d)) \<and>
      rj_ServiceID j \<in> rs_ID ` set (services (cascade_service i d))"
    unfolding cascade_service_tables(8) using d bak svc by simp
  moreover have "\<forall>x \<in> set (domains (cascade_service i d)). dm_ServiceID x \<in> rs_ID ` set (services (cascade_service i d))"
    unfolding cascade_service_tables(3) using d svc by simp
  moreover have "\<forall>e \<in> set (config_entries (cascade_service i d)). \<forall>j. ce_ServiceID e = Some j \<longrightarrow> j \<in> rs_ID ` set (services (cascade_service i d))"
    unfolding cascade_service_tables(2) using d svc by auto
  ultimately show ?thesis unfolding refs_ok_def Let_def by blast
qed


section \<open>The connection URI\<close>

text \<open>The reader of a userinfo component: percent decoding, after splitting at the first colon.\<close>

definition unhex :: "char \<Rightarrow> nat" where
  "unhex c = (if is_digit c then of_char c - 48 else of_char c - 55)"

fun url_unescape :: "string \<Rightarrow> string" where
  "url_unescape (c # a # b # cs) = (if c = CHR ''%'' then char_of (16 * unhex a + unhex b) # url_unescape cs else c # url_unescape (a # b # cs))"
| "url_unescape cs = cs"

definition uri_parts :: "string \<Rightarrow> string \<Rightarrow> (string \<times> string \<times> string \<times> string) option" where
  "uri_parts scheme uri =
     (case strings_CutPrefix (scheme @ ''://'') uri of
        None \<Rightarrow> None
      | Some rest \<Rightarrow>
          let ui = takeWhile (\<lambda>c. c \<noteq> CHR ''@'') rest; hp = drop (Suc (length ui)) rest;
              user = takeWhile (\<lambda>c. c \<noteq> CHR '':'') ui; host = takeWhile (\<lambda>c. c \<noteq> CHR ''/'') hp
          in Some (url_unescape user, url_unescape (drop (Suc (length user)) ui), host, drop (Suc (length host)) hp))"

lemma byte_bound: "of_char (c :: char) < (256 :: nat)"
  using range_nat_of_char rangeI [of "of_char :: char \<Rightarrow> nat" c] by auto

lemma upper_hex_unhex:
  assumes "n < 16"
  shows "unhex (upper_hex n) = n" and "upper_hex n \<notin> {CHR '':'', CHR ''@'', CHR ''/'', CHR ''%''}"
proof -
  show "unhex (upper_hex n) = n" using assms by (simp add: unhex_def upper_hex_def is_digit_def of_char_of)
  have v: "(of_char (upper_hex n) :: nat) = (if n < 10 then 48 + n else 55 + n)" using assms by (simp add: upper_hex_def of_char_of)
  show "upper_hex n \<notin> {CHR '':'', CHR ''@'', CHR ''/'', CHR ''%''}"
  proof
    assume "upper_hex n \<in> {CHR '':'', CHR ''@'', CHR ''/'', CHR ''%''}"
    then have "(of_char (upper_hex n) :: nat) \<in> {58, 64, 47, 37}" by auto
    with v assms show False by (auto split: if_splits)
  qed
qed

lemma escape_userinfo_chars: "c \<in> set (url_escape encodeUserPassword s) \<Longrightarrow> c \<notin> {CHR '':'', CHR ''@'', CHR ''/''}"
proof (induction s)
  case (Cons x xs)
  have lt: "of_char x div 16 < (16 :: nat)" "of_char x mod 16 < (16 :: nat)" by (simp_all add: byte_bound less_mult_imp_div_less)
  have "\<not> is_alnum CHR '':''" "\<not> is_alnum CHR ''@''" "\<not> is_alnum CHR ''/''" by code_simp+
  then have "c \<notin> {CHR '':'', CHR ''@'', CHR ''/''}" if "c \<in> set (escape_char encodeUserPassword x)"
    using that upper_hex_unhex(2) [OF lt(1)] upper_hex_unhex(2) [OF lt(2)]
    by (auto simp: escape_char_def shouldEscape_def split: if_splits)
  with Cons show ?case by (auto simp: url_escape_def)
qed (simp add: url_escape_def)

lemma unescape_escape: "url_unescape (url_escape mode s) = s"
proof (induction s)
  case (Cons x xs)
  have lt: "of_char x div 16 < (16 :: nat)" "of_char x mod 16 < (16 :: nat)" by (simp_all add: byte_bound less_mult_imp_div_less)
  have pct: "\<not> is_alnum CHR ''%''" by code_simp
  show ?case
  proof (cases "shouldEscape mode x")
    case True
    then show ?thesis using Cons upper_hex_unhex(1) [OF lt(1)] upper_hex_unhex(1) [OF lt(2)] by (simp add: url_escape_def escape_char_def)
  next
    case False
    then have "x \<noteq> CHR ''%''" using pct by (cases mode) (auto simp: shouldEscape_def)
    then have "url_unescape (x # t) = x # url_unescape t" for t
      by (cases t rule: url_unescape.cases) (auto split: list.splits)
    with False Cons show ?thesis by (simp add: url_escape_def escape_char_def)
  qed
qed (simp add: url_escape_def)

lemma url_escape_idle: "list_all (\<lambda>c. \<not> shouldEscape mode c) s \<Longrightarrow> url_escape mode s = s"
  by (induction s) (simp_all add: url_escape_def escape_char_def)

lemma takeWhile_stop: "c \<notin> set xs \<Longrightarrow> takeWhile (\<lambda>x. x \<noteq> c) (xs @ c # ys) = xs"
  by (induction xs) auto

lemma connectionURI_parts:
  assumes "tm_scheme t = ''postgresql''" "tm_port t = 5432" "slug_ok slug" "pgIdentifierRe dbn"
  shows "uri_parts ''postgresql'' (connectionURI t slug user pw dbn) = Some (user, pw, slug @ '':5432'', dbn)"
proof -
  let ?u = "url_escape encodeUserPassword user" and ?p = "url_escape encodeUserPassword pw"
  have port: "strconv_Itoa 5432 = ''5432''" by (simp add: strconv_Itoa_def nat_digits.simps char_of_def bit_0)
  have dns: "dns_char c \<Longrightarrow> \<not> shouldEscape encodeHost c" for c
    by (auto simp: dns_char_def shouldEscape_def is_alnum_def)
  have host: "url_escape encodeHost (slug @ '':5432'') = slug @ '':5432''"
  proof (intro url_escape_idle)
    have "list_all (\<lambda>c. \<not> shouldEscape encodeHost c) '':5432''" by code_simp
    then show "list_all (\<lambda>c. \<not> shouldEscape encodeHost c) (slug @ '':5432'')"
      using assms(3) dns by (auto simp: slug_ok_def list_all_iff)
  qed
  have path: "url_escape encodePath (CHR ''/'' # dbn) = CHR ''/'' # dbn"
    using assms(4) by (intro url_escape_idle) (auto simp: pgIdentifierRe_def pg_char_def list_all_iff shouldEscape_def)
  have uri: "connectionURI t slug user pw dbn = ''postgresql://'' @ (?u @ CHR '':'' # ?p) @ CHR ''@'' # (slug @ '':5432'') @ CHR ''/'' # dbn"
    by (simp add: connectionURI_def url_String_def assms(1,2) port host path)
  have ats: "CHR ''@'' \<notin> set (?u @ CHR '':'' # ?p)" "CHR '':'' \<notin> set ?u"
    using escape_userinfo_chars by auto
  have "CHR ''/'' \<notin> set (slug @ '':5432'')"
    using assms(3) by (auto simp: slug_ok_def list_all_iff dns_char_def slug_char_def is_digit_def)
  then show ?thesis
    unfolding uri_parts_def uri strings_CutPrefix_def Let_def
    using takeWhile_stop [OF ats(1), of "(slug @ '':5432'') @ CHR ''/'' # dbn"] takeWhile_stop [OF ats(2), of ?p]
      takeWhile_stop [of "CHR ''/''" "slug @ '':5432''" dbn]
    by (simp add: unescape_escape)
qed


section \<open>Repository references\<close>

text \<open>A name as GitHub has them: no slash and no white space at its ends (here: visible ASCII).\<close>

definition repo_name :: "string \<Rightarrow> bool" where
  "repo_name s \<longleftrightarrow> s \<noteq> [] \<and> list_all (in_range 33 126) s \<and> CHR ''/'' \<notin> set s"

text \<open>The ways to write a public repository.\<close>

definition repo_hosts :: "string list" where
  "repo_hosts = [''https://github.com/'', ''http://github.com/'', ''https://www.github.com/'', ''github.com/'', ''www.github.com/'', ''git@github.com:'']"

definition repo_tails :: "string list" where
  "repo_tails = [[], ''.git'', ''/'', ''.git/'', ''/tree/main'']"

definition account_name :: "string \<Rightarrow> bool" where
  "account_name s \<longleftrightarrow> list_all (\<lambda>c. is_alnum c \<or> c = CHR ''-'') s"

lemma CutPrefix_simps:
  "strings_CutPrefix [] s = Some s" "strings_CutPrefix (p # ps) [] = None"
  "strings_CutPrefix (p # ps) (c # cs) = (if p = c then strings_CutPrefix ps cs else None)"
  by (auto simp: strings_CutPrefix_def)

lemma TrimSuffix_append: "strings_TrimSuffix suf (s @ suf) = s"
  by (simp add: strings_TrimSuffix_def)

lemma repo_name_ends:
  assumes "repo_name s"
  shows "hd s \<noteq> CHR ''/''" "32 < (of_char (hd s) :: nat)" "(of_char (hd s) :: nat) < 127" "32 < (of_char (last s) :: nat)" "(of_char (last s) :: nat) < 127"
proof -
  from assms have "s \<noteq> []" and ok: "\<forall>c \<in> set s. 33 \<le> (of_char c :: nat) \<and> (of_char c :: nat) \<le> 126 \<and> c \<noteq> CHR ''/''"
    by (auto simp: repo_name_def list_all_iff in_range_def)
  then have "hd s \<in> set s" "last s \<in> set s" by simp_all
  with ok have "33 \<le> (of_char (hd s) :: nat) \<and> (of_char (hd s) :: nat) \<le> 126 \<and> hd s \<noteq> CHR ''/''"
    "33 \<le> (of_char (last s) :: nat) \<and> (of_char (last s) :: nat) \<le> 126" by blast+
  then show "hd s \<noteq> CHR ''/''" "32 < (of_char (hd s) :: nat)" "(of_char (hd s) :: nat) < 127" "32 < (of_char (last s) :: nat)" "(of_char (last s) :: nat) < 127"
    by simp_all
qed

lemma parse_rest:
  assumes "repo_name owner" "repo_name repo" "strings_TrimSuffix ''.git'' repo = repo"
    and "strings_TrimSpace raw = raw" "raw \<noteq> []" "repo_path raw = Some (owner @ CHR ''/'' # repo @ t)"
    and "t \<in> set repo_tails"
  shows "parsePublicRepo raw = Inr (owner, repo)"
proof -
  have sep: "CHR ''/'' \<notin> set owner" "CHR ''/'' \<notin> set repo" "CHR ''/'' \<notin> set (repo @ ''.git'')" using assms(1,2) by (auto simp: repo_name_def)
  have "strings_TrimPrefix ''/'' (owner @ u) = owner @ u" for u
    using assms(1) repo_name_ends(1) [OF assms(1)]
    by (cases owner) (auto simp: strings_TrimPrefix_def strings_CutPrefix_def repo_name_def)
  moreover have "\<exists>us. strings_Split (CHR ''/'') (repo @ t) = repo # us \<or> strings_Split (CHR ''/'') (repo @ t) = (repo @ ''.git'') # us"
    using assms(7) [unfolded repo_tails_def] split_whole [OF sep(2)] split_whole [OF sep(3)] split_no_sep [OF sep(2)] split_no_sep [OF sep(3)] by auto
  ultimately show ?thesis
    using assms(1-6) split_no_sep [OF sep(1)] TrimSuffix_append [of "''.git''" repo]
    by (auto simp: parsePublicRepo_def Let_def repo_name_def)
qed

lemma spelled_ends:
  assumes "repo_name repo" "t \<in> set repo_tails"
    and "h \<noteq> []" "32 < (of_char (hd h) :: nat)" "(of_char (hd h) :: nat) < 127"
  shows "strings_TrimSpace (h @ owner @ CHR ''/'' # repo @ t) = h @ owner @ CHR ''/'' # repo @ t"
  using assms repo_name_ends(4,5) [OF assms(1)] by (intro TrimSpace_visible) (auto simp: repo_name_def repo_tails_def)

lemma no_prefix:
  assumes "account_name owner" "CHR ''/'' \<notin> set x" "y \<in> {CHR ''.'', CHR '':'', CHR ''@''}"
  shows "strings_CutPrefix (x @ y # z) (owner @ CHR ''/'' # u) = None"
proof (rule ccontr)
  assume "\<not> ?thesis"
  then obtain v where v: "owner @ CHR ''/'' # u = x @ y # v"
    unfolding strings_CutPrefix_def by (metis append.assoc append_Cons append_take_drop_id)
  have "\<not> is_alnum CHR ''.''" "\<not> is_alnum CHR '':''" "\<not> is_alnum CHR ''@''" by code_simp+
  then have "y \<notin> set owner" using assms(1,3) by (auto simp: account_name_def list_all_iff)
  with v assms(2,3) show False by (auto simp: append_eq_append_conv2 append_eq_Cons_conv Cons_eq_append_conv)
qed

lemma repo_path_bare:
  assumes "account_name owner"
  shows "repo_path (owner @ CHR ''/'' # u) = Some (owner @ CHR ''/'' # u)"
proof -
  note none = no_prefix [OF assms, of "''git''" "CHR ''@''" "''github.com:''" u] no_prefix [OF assms, of "''https''" "CHR '':''" "''//''" u]
    no_prefix [OF assms, of "''http''" "CHR '':''" "''//''" u] no_prefix [OF assms, of "''www''" "CHR ''.''" "[]" u]
    no_prefix [OF assms, of "''github''" "CHR ''.''" "''com/''" u]
  have no: "CHR ''.'' \<notin> set owner" "CHR ''/'' \<notin> set owner"
  proof -
    have "\<not> is_alnum CHR ''.''" "\<not> is_alnum CHR ''/''" by code_simp+
    with assms show "CHR ''.'' \<notin> set owner" "CHR ''/'' \<notin> set owner" by (auto simp: account_name_def list_all_iff)
  qed
  have "takeWhile (\<lambda>c. c \<noteq> CHR ''/'') (owner @ CHR ''/'' # u) = owner" using no(2) by (rule takeWhile_stop)
  then show ?thesis using none no(1) by (simp add: repo_path_def strings_TrimPrefix_def)
qed

text \<open>Every usual way to write a public repository means the same repository: with or without scheme,
  \<open>www.\<close>, the SSH form, a bare \<open>owner/repo\<close>, a trailing slash, \<open>.git\<close> or a path below it.\<close>

theorem parsePublicRepo_understands:
  assumes "repo_name owner" "repo_name repo" "strings_TrimSuffix ''.git'' repo = repo" "t \<in> set repo_tails"
  shows "(\<forall>h \<in> set repo_hosts. parsePublicRepo (h @ owner @ ''/'' @ repo @ t) = Inr (owner, repo)) \<and>
    (account_name owner \<longrightarrow> parsePublicRepo (owner @ ''/'' @ repo @ t) = Inr (owner, repo))"
proof (intro conjI impI)
  show "\<forall>h \<in> set repo_hosts. parsePublicRepo (h @ owner @ ''/'' @ repo @ t) = Inr (owner, repo)"
  proof
    fix h
    assume h: "h \<in> set repo_hosts"
    let ?raw = "h @ owner @ CHR ''/'' # repo @ t"
    have "repo_path ?raw = Some (owner @ CHR ''/'' # repo @ t)"
      using h by (auto simp: repo_hosts_def repo_path_def CutPrefix_simps strings_TrimPrefix_def)
    moreover have "strings_TrimSpace ?raw = ?raw" using h assms(2,4) by (intro spelled_ends) (auto simp: repo_hosts_def)
    ultimately show "parsePublicRepo (h @ owner @ ''/'' @ repo @ t) = Inr (owner, repo)"
      using parse_rest [OF assms(1-3), of ?raw t] assms(4) by simp
  qed
next
  assume "account_name owner"
  from repo_path_bare [OF this] have "repo_path (owner @ CHR ''/'' # repo @ t) = Some (owner @ CHR ''/'' # repo @ t)" .
  moreover have "strings_TrimSpace (owner @ [] @ CHR ''/'' # repo @ t) = owner @ [] @ CHR ''/'' # repo @ t"
    using assms(1,2,4) repo_name_ends(2,3) [OF assms(1)] by (intro spelled_ends) (auto simp: repo_name_def)
  ultimately show "parsePublicRepo (owner @ ''/'' @ repo @ t) = Inr (owner, repo)"
    using parse_rest [OF assms(1-3), of "owner @ CHR ''/'' # repo @ t" t] assms(4) by simp
qed

section \<open>Witnesses\<close>

lemma connected_services_wf: "services_wf (db connected_world)" "config_wf (db connected_world)" "refs_ok (db connected_world)"
  by (simp_all add: services_wf_def service_row_ok_def service_ok_def in_environment_def own_connection_def usable_port_def slug_ok_def
        dns_char_def slug_char_def is_digit_def connected_world_def demo_defs demo_connection_def config_wf_def refs_ok_def)

lemmas services_exec = services_serve_def finish_def DeleteService_def store_DeleteService_def db_DeleteService_def connected_world_def
  CreateDatabase_def createDatabaseTx_def deployServer_def InsertService_def db_CreateService_def service_ok_def service_fresh_def
  service_fks_def service_defaults_def connection_exists_def put_service_def firstDeployment_def

lemma alice_deletes:
  "\<exists>w'. DeleteService demo_deps alice ''git'' connected_world = (Inr (), w') \<and> services (db w') = []"
  by (simp add: services_exec exec_defs demo_defs cascade_service_tables)


abbreviation demo_database :: DatabaseInput where
  "demo_database \<equiv> \<lparr>di_EnvironmentID = ''env'', di_Name = ''Main DB'', di_TemplateID = ''postgres'', di_DatabaseName = ''shop'', di_Username = [],
     di_Password = ''p@ss:w0rd'', di_ServerID = ''srv'', di_DeployNow = True\<rparr>"

lemma demo_database_input:
  "validateName ''Main DB'' = Inr (''Main DB'', ''main-db'')" "lookupDatabaseTemplate ''postgres'' = databaseTemplates ''postgres''"
  "strings_TrimSpace ''shop'' = ''shop''" "strings_TrimSpace ''plorigo'' = ''plorigo''"
  "validatePGIdentifier l ''shop'' = Inr ()" "validatePGIdentifier l ''plorigo'' = Inr ()" "validateDBPassword ''p@ss:w0rd'' = Inr ()"
  "validateImageRef ''postgres:16-alpine'' = Inr ''postgres:16-alpine''"
proof -
  have trim: "strings_TrimSpace ''Main DB'' = ''Main DB''" "strings_TrimSpace ''postgres'' = ''postgres''" "strings_TrimSpace ''shop'' = ''shop''"
    "strings_TrimSpace ''plorigo'' = ''plorigo''" "strings_TrimSpace ''postgres:16-alpine'' = ''postgres:16-alpine''"
    by (simp_all add: TrimSpace_visible)
  have slug: "strings_Trim (replace_runs (strings_ToLower ''Main DB'')) ''-'' = ''main-db''" by code_simp
  show "validateName ''Main DB'' = Inr (''Main DB'', ''main-db'')"
    unfolding validateName_def Let_def trim slug by (simp add: services_maxNameLen_def)
  show "lookupDatabaseTemplate ''postgres'' = databaseTemplates ''postgres''" by (simp add: lookupDatabaseTemplate_def trim)
  show "strings_TrimSpace ''shop'' = ''shop''" "strings_TrimSpace ''plorigo'' = ''plorigo''" by (simp_all add: trim)
  have "pgIdentifierRe ''shop''" "pgIdentifierRe ''plorigo''" "dbPasswordRe ''p@ss:w0rd''" by code_simp+
  then show "validatePGIdentifier l ''shop'' = Inr ()" "validatePGIdentifier l ''plorigo'' = Inr ()" "validateDBPassword ''p@ss:w0rd'' = Inr ()"
    by (simp_all add: validatePGIdentifier_def validateDBPassword_def)
  show "validateImageRef ''postgres:16-alpine'' = Inr ''postgres:16-alpine''"
    by (simp add: validateImageRef_def trim strings_ContainsAny_def after_last_def)
qed

lemma demo_vars:
  "validateKey ''POSTGRES_DB'' = Inr ''POSTGRES_DB''" "validateKey ''POSTGRES_PASSWORD'' = Inr ''POSTGRES_PASSWORD''"
  "validateKey ''POSTGRES_USER'' = Inr ''POSTGRES_USER''"
  by code_simp+

lemma demo_keys:
  "keyRe_MatchString ''POSTGRES_DB''" "keyRe_MatchString ''POSTGRES_PASSWORD''" "keyRe_MatchString ''POSTGRES_USER''"
  by code_simp+

lemma sorted_template_env:
  "tm_id t = ''postgres'' \<Longrightarrow> sort_key fst (template_env t user password dbn) =
     [(''POSTGRES_DB'', dbn), (''POSTGRES_PASSWORD'', password), (''POSTGRES_USER'', user)]"
  by (simp add: template_env_def)

lemmas set_vars_exec = SetWithinTx_def UpsertServiceConfig_def db_UpsertServiceConfig_def upsert_config_def config_entry_ok_def
  entryFromRow_def maxValueLen_def

lemma healthy_upsert:
  assumes "\<forall>n. \<not> faults w n" "find same (config_entries (db w)) = None"
    and "config_entry_ok (mk (w\<lparr>ops := Suc (ops w)\<rparr>))" "fk (db w) (mk (w\<lparr>ops := Suc (ops w)\<rparr>))"
    and "ce_ID (mk (w\<lparr>ops := Suc (ops w)\<rparr>)) \<notin> ce_ID ` set (config_entries (db w))"
  shows "upsert_config same fk mk w = (Inr (mk (w\<lparr>ops := Suc (ops w)\<rparr>)), w\<lparr>ops := Suc (ops w), next_uuid := Suc (next_uuid w),
     db := (db w)\<lparr>config_entries := config_entries (db w) @ [mk (w\<lparr>ops := Suc (ops w)\<rparr>)]\<rparr>\<rparr>)"
  using assms by (simp add: upsert_config_def write_one_succ Let_def)

text \<open>The installation while the database service is being created.\<close>

definition pg_row :: Service_row where
  "pg_row = (service_defaults (demo_world []))\<lparr>rs_EnvironmentID := ''env'', rs_ProjectID := ''prj'', rs_WorkspaceID := ''ws'',
     rs_Name := ''Main DB'', rs_Slug := ''main-db'', rs_SourceKind := SourceTemplate, rs_ImageRef := ''postgres:16-alpine'',
     rs_TemplateID := ''postgres'', rs_ContainerPort := 5432, rs_Visibility := VisibilityPrivate\<rparr>"

definition pg_entry :: "nat \<Rightarrow> string \<Rightarrow> string \<Rightarrow> ConfigEntry_row" where
  "pg_entry n k v = \<lparr>ce_ID = ''uuid-'' @ nat_digits n, ce_Type = TypeVariable, ce_Scope = ScopeService, ce_ServiceID = Some (rs_ID pg_row),
     ce_EnvironmentID = None, ce_Key = k, ce_Value = Some v, ce_Ciphertext = [], ce_CreatedAt = 100, ce_UpdatedAt = 100\<rparr>"

definition pg_world :: "nat \<Rightarrow> nat \<Rightarrow> ConfigEntry_row list \<Rightarrow> world" where
  "pg_world n k es = connected_world\<lparr>ops := n, next_uuid := k, db := (put_service pg_row (db connected_world))\<lparr>config_entries := es\<rparr>\<rparr>"

lemma small_digits:
  "nat_digits 0 = ''0''" "nat_digits 1 = ''1''" "nat_digits (Suc 0) = ''1''" "nat_digits (Suc (Suc 0)) = ''2''" "nat_digits (Suc (Suc (Suc 0))) = ''3''"
  by (simp_all add: nat_digits.simps char_of_def bit_0)

lemma pg_world_fields [simp]:
  "ops (pg_world n k es) = n" "faults (pg_world n k es) = (\<lambda>_. False)" "config_entries (db (pg_world n k es)) = es"
  "pg_world n k es\<lparr>ops := m\<rparr> = pg_world m k es"
  by (simp_all add: pg_world_def connected_world_def demo_world_def)

lemma pg_fresh: "service_fresh (db connected_world) pg_row"
  by (simp add: service_fresh_def pg_row_def service_defaults_def fresh_uuid_def connected_world_def demo_defs)

lemma pg_inserted:
  "InsertService \<lparr>sw_EnvironmentID = ''env'', sw_ProjectID = ''prj'', sw_WorkspaceID = ''ws'', sw_Name = ''Main DB'', sw_Slug = ''main-db'',
     sw_SourceKind = SourceTemplate, sw_ImageRef = ''postgres:16-alpine'', sw_TemplateID = ''postgres'', sw_ContainerPort = 5432,
     sw_Visibility = VisibilityPrivate\<rparr> (connected_world\<lparr>ops := n\<rparr>) = (Inr (serviceFromRow pg_row), pg_world (Suc n) 1 [])"
proof -
  have "rs_ID pg_row = ''uuid-0''" by (simp add: pg_row_def service_defaults_def fresh_uuid_def demo_defs small_digits)
  moreover have "service_ok pg_row" by (simp add: pg_row_def service_ok_def service_defaults_def)
  moreover have "service_fks (db connected_world) pg_row"
    by (simp add: service_fks_def pg_row_def connection_exists_def service_defaults_def connected_world_def demo_defs)
  ultimately show ?thesis
    by (auto simp: InsertService_def db_CreateService_def map_m_succ on_unique_succ insert_unique_succ pg_world_def pg_row_def
        service_defaults_def fresh_uuid_def connected_world_def demo_world_def service_fresh_def demo_defs put_service_def small_digits)
qed


lemma pg_set:
  assumes "\<forall>e \<in> set es. ce_Key e \<noteq> k \<and> ce_ID e \<noteq> ''uuid-'' @ nat_digits j" "keyRe_MatchString k" "length k \<le> 128" "length v \<le> 32768"
  shows "UpsertServiceConfig TypeVariable (rs_ID pg_row) k (Some v) [] (pg_world n j es) =
     (Inr (entryFromRow (pg_entry j k v)), pg_world (Suc n) (Suc j) (es @ [pg_entry j k v]))"
proof -
  have "find (\<lambda>e. ce_ServiceID e = Some (rs_ID pg_row) \<and> ce_Key e = k) es = None" using assms(1) by (auto simp: find_None_iff)
  moreover have "rs_ID pg_row \<in> rs_ID ` set (services (db (pg_world m j' es)))" for m j' by (simp add: pg_world_def put_service_def)
  moreover have "config_entry_ok (pg_entry j k v)" using assms(2-4) by (simp add: config_entry_ok_def pg_entry_def)
  moreover have "ce_ID (pg_entry j k v) \<notin> ce_ID ` set es" using assms(1) by (auto simp: pg_entry_def)
  moreover have "\<lparr>ce_ID = fresh_uuid (pg_world m j es), ce_Type = TypeVariable, ce_Scope = ScopeService, ce_ServiceID = Some (rs_ID pg_row),
      ce_EnvironmentID = None, ce_Key = k, ce_Value = Some v, ce_Ciphertext = [], ce_CreatedAt = now (pg_world m j es),
      ce_UpdatedAt = now (pg_world m j es)\<rparr> = pg_entry j k v" for m
    by (simp add: pg_entry_def fresh_uuid_def pg_world_def connected_world_def demo_world_def)
  ultimately show ?thesis
    by (simp add: UpsertServiceConfig_def map_m_succ db_UpsertServiceConfig_def healthy_upsert)
       (simp add: pg_world_def connected_world_def demo_world_def)
qed

lemma pg_vars_set:
  "\<exists>m j es. SetWithinTx demo_deps (rs_ID pg_row) (template_env t ''plorigo'' ''p@ss:w0rd'' ''shop'') (pg_world n 1 []) = (Inr (), pg_world m j es)"
  if "tm_id t = ''postgres''"
proof -
  have "id_Parse demo_deps (rs_ID pg_row)" by (simp add: id_Parse_def demo_defs pg_row_def service_defaults_def fresh_uuid_def)
  then show ?thesis
    by (simp add: SetWithinTx_def check_succ sorted_template_env that bind_succ lift_succ demo_vars map_m_succ maxValueLen_def
          pg_set [OF _ demo_keys(1)] pg_set [OF _ demo_keys(2)] pg_set [OF _ demo_keys(3)] small_digits pg_entry_def) blast
qed


lemma InsertDeployment_succeeds:
  assumes "faults w = (\<lambda>_. False)" "deployments (db w) = []" "nd_ServiceID n \<in> rs_ID ` set (services (db w))"
    and "nd_EnvironmentID n \<in> en_ID ` set (environments (db w))" "nd_ProjectID n \<in> pj_ID ` set (projects (db w))"
    and "nd_ServerID n \<in> sv_ID ` set (servers (db w))" "nd_RolledBackFrom n = []"
  shows "\<exists>dep w'. InsertDeployment n w = (Inr dep, w') \<and> faults w' = (\<lambda>_. False)"
  using assms
  by (simp add: InsertDeployment_def map_m_succ db_CreateDeployment_def insert_row_succ deployment_ok_def deployment_fks_def
        deployment_statuses_def deployment_defaults_def nullableID_def)

lemma pg_tx:
  assumes "databaseTemplates ''postgres'' = Some t"
  shows "\<exists>i w'. createDatabaseTx demo_deps demo_database t ''prj'' ''ws'' ''Main DB'' ''main-db'' ''plorigo'' ''p@ss:w0rd'' ''shop'' ''srv'' alice
    (connected_world\<lparr>ops := n\<rparr>) = (Inr (serviceFromRow pg_row, i), w') \<and> faults w' = (\<lambda>_. False)"
proof -
  have t: "tm_id t = ''postgres''" "tm_image t = ''postgres:16-alpine''" "tm_port t = 5432"
    using assms by (auto simp: databaseTemplates_def)
  obtain m j es where set: "SetWithinTx demo_deps (rs_ID pg_row) (template_env t ''plorigo'' ''p@ss:w0rd'' ''shop'') (pg_world (Suc n) 1 []) =
      (Inr (), pg_world m j es)"
    using pg_vars_set [OF t(1)] by blast
  have "\<exists>i w'. firstDeployment True (rs_ID pg_row) ''srv'' w = (Inr i, w') \<and> faults w' = (\<lambda>_. False)"
    if w: "db w = with_audit a (db (pg_world m j es))" "faults w = (\<lambda>_. False)" for w a
  proof -
    have "find (\<lambda>r. rs_ID r = rs_ID pg_row) (services (db w)) = Some pg_row"
      using w find_put_service [of "db connected_world" pg_row] by (simp add: with_audit_def pg_world_def pg_fresh)
    moreover have "validateImageRef (rs_ImageRef pg_row) = Inr ''postgres:16-alpine''" "rs_SourceKind pg_row = SourceTemplate"
        "rs_ContainerPort pg_row = 5432" "rs_EnvironmentID pg_row = ''env''" "rs_ProjectID pg_row = ''prj''"
      by (simp_all add: pg_row_def demo_database_input)
    moreover have "\<exists>dep w'. InsertDeployment \<lparr>nd_ServiceID = rs_ID pg_row, nd_EnvironmentID = ''env'', nd_ProjectID = ''prj'',
        nd_WorkspaceID = rs_WorkspaceID pg_row, nd_ServerID = ''srv'', nd_ImageRef = ''postgres:16-alpine'', nd_ContainerPort = 5432,
        nd_RolledBackFrom = []\<rparr> (w\<lparr>ops := q\<rparr>) = (Inr dep, w') \<and> faults w' = (\<lambda>_. False)" for q
      using w by (intro InsertDeployment_succeeds)
        (simp_all add: with_audit_def pg_world_def put_service_def connected_world_def demo_world_def demo_db_def demo_server_def)
    ultimately show ?thesis
      using w(2) by (simp add: firstDeployment_def EnqueueFirstDeployment_def bind_succ store_succ buildAndInsert_def lift_succ check_succ
            serviceForDeployFromRow_def) blast
  qed
  note dep = this
  have "\<exists>w1. audit_Record ''service.create_database'' ''service'' (rs_ID pg_row) ''ws'' ''alice'' (pg_world m j es) = (Inr (), w1) \<and>
      faults w1 = (\<lambda>_. False)"
    by (simp only: audit_Record_succ) (rule exI, rule conjI, rule conjI [rotated], rule refl, simp_all)
  then obtain w1 where rec: "audit_Record ''service.create_database'' ''service'' (rs_ID pg_row) ''ws'' ''alice'' (pg_world m j es) = (Inr (), w1)"
      "faults w1 = (\<lambda>_. False)" by blast
  obtain a where a: "db w1 = with_audit a (db (pg_world m j es))" using rec(1) by (rule audit_Record_db)
  from dep [OF a rec(2)] obtain i w' where last: "firstDeployment True (rs_ID pg_row) ''srv'' w1 = (Inr i, w')" "faults w' = (\<lambda>_. False)" by blast
  have ID: "svc_ID (serviceFromRow pg_row) = rs_ID pg_row" by (simp add: serviceFromRow_def)
  have "createDatabaseTx demo_deps demo_database t ''prj'' ''ws'' ''Main DB'' ''main-db'' ''plorigo'' ''p@ss:w0rd'' ''shop'' ''srv'' alice
      (connected_world\<lparr>ops := n\<rparr>) = (Inr (serviceFromRow pg_row, i), w')"
    by (simp only: createDatabaseTx_def t DatabaseInput.select_convs Principal.select_convs bind_def pg_inserted prod.case sum.case ID set
        rec(1) last(1) ret_apply)
  with last(2) show ?thesis by blast
qed


lemma alice_creates_database:
  "\<exists>svc i uri w'. CreateDatabase demo_deps (Inl ErrNoRows) alice demo_database connected_world = (Inr (svc, i, uri), w')"
proof -
  obtain t where t: "databaseTemplates ''postgres'' = Some t" "tm_defaultUser t = ''plorigo''" by (simp add: databaseTemplates_def)
  have env: "environment_parents (db connected_world) ''env'' = Some (''ws'', ''prj'')"
    by (simp add: environment_parents_def connected_world_def demo_defs)
  have perm: "permitted (db connected_world) alice ActionServiceCreate ''ws''"
    by (simp add: permitted_def connected_world_def demo_defs permissions_def owner_actions_def)
  have srv: "find (\<lambda>r. sv_ID r = ''srv'') (servers (db connected_world)) = Some (demo_server ''srv'' ''ws'')"
    by (simp add: connected_world_def demo_defs)
  have f: "faults connected_world = (\<lambda>_. False)" by (simp add: connected_world_def demo_world_def)
  have parse: "id_Parse demo_deps ''env''" "id_Parse demo_deps ''srv''" by (simp_all add: id_Parse_def demo_deps_def)
  have "\<exists>saved i w'. createDatabaseTx demo_deps demo_database t ''prj'' ''ws'' ''Main DB'' ''main-db'' ''plorigo'' ''p@ss:w0rd'' ''shop'' ''srv'' alice
      (connected_world\<lparr>ops := n\<rparr>) = (Inr (saved, i), w') \<and> \<not> faults w' (ops w')" for n
    using pg_tx [OF t(1), of n] by auto
  then show ?thesis
    by (simp add: CreateDatabase_def Let_def check_succ parse demo_database_input t bind_succ lift_succ map_err_succ parents_succ env f Authorize_succ perm
          deployServer_def store_succ srv map_m_succ WithinTx_succ demo_server_def)
qed





end
