(* ===== verification/Caddy.thy ===== *)
theory Caddy
  imports Domains "HOL-Library.State_Monad" "HOL-Library.AList"
begin

text \<open>
  The agent's reverse proxy: \<^verbatim>\<open>internal/agentcore/caddy.go\<close>. The first half is pure: names and ports, the
  desired routes and the Caddyfile they are rendered into. The second half, \<open>caddy_apply\<close>, replaces the
  configuration file and reloads Caddy; files and commands are the operations of the record \<open>caddy_host\<close>, on a host
  state \<open>'h\<close> the model does not look into. Errors of the agent are their texts.

  A reader \<open>caddy_sites\<close> of the generated file shows what Caddy is told to serve; the theorems say that
  this is exactly the normalised routes, that normalising does not depend on the order of the containers,
  and that a configuration that could not be activated is not left behind.
\<close>

section \<open>Calls that can fail\<close>

text \<open>\<open>x, err := m; if err != nil { return onerr(err) }\<close>, and the same where only an error is returned.\<close>

definition attempt :: "('h, 'e + 'a) state \<Rightarrow> ('e \<Rightarrow> ('h, 'b) state) \<Rightarrow> ('a \<Rightarrow> ('h, 'b) state) \<Rightarrow> ('h, 'b) state" where
  "attempt m onerr k = do { r \<leftarrow> m; case r of Inl e \<Rightarrow> onerr e | Inr x \<Rightarrow> k x }"

definition unless_err :: "('h, 'e option) state \<Rightarrow> ('e \<Rightarrow> ('h, 'b) state) \<Rightarrow> ('h, 'b) state \<Rightarrow> ('h, 'b) state" where
  "unless_err m onerr k = do { r \<leftarrow> m; case r of Some e \<Rightarrow> onerr e | None \<Rightarrow> k }"

text \<open>\<open>defer cleanup()\<close>.\<close>

definition deferring :: "('h, unit) state \<Rightarrow> ('h, 'a) state \<Rightarrow> ('h, 'a) state" where
  "deferring cleanup m = do { x \<leftarrow> m; _ \<leftarrow> cleanup; State_Monad.return x }"

lemma run_attempt [simp]:
  "run_state (attempt m f k) h = (case run_state m h of (Inl e, h1) \<Rightarrow> run_state (f e) h1 | (Inr x, h1) \<Rightarrow> run_state (k x) h1)"
  by (auto simp: attempt_def split: sum.splits prod.splits)

lemma run_unless_err [simp]:
  "run_state (unless_err m f k) h = (case run_state m h of (Some e, h1) \<Rightarrow> run_state (f e) h1 | (None, h1) \<Rightarrow> run_state k h1)"
  by (auto simp: unless_err_def split: option.splits prod.splits)

section \<open>Paths\<close>

text \<open>\<^verbatim>\<open>path/filepath\<close> on Unix.\<close>

definition join_with :: "string \<Rightarrow> string list \<Rightarrow> string" where
  "join_with sep xs = (case xs of [] \<Rightarrow> [] | y # ys \<Rightarrow> y @ concat (map (\<lambda>z. sep @ z) ys))"

fun clean_elems :: "bool \<Rightarrow> string list \<Rightarrow> string list \<Rightarrow> string list" where
  "clean_elems rooted out [] = rev out"
| "clean_elems rooted out (e # es) =
     (if e = [] \<or> e = ''.'' then clean_elems rooted out es
      else if e = ''..'' then
        (case out of
           [] \<Rightarrow> clean_elems rooted (if rooted then [] else [e]) es
         | p # ps \<Rightarrow> clean_elems rooted (if p = ''..'' then e # out else ps) es)
      else clean_elems rooted (e # out) es)"

definition filepath_Clean :: "string \<Rightarrow> string" where
  "filepath_Clean path =
     (let rooted = (take 1 path = ''/'');
          s = (if rooted then ''/'' else []) @ join_with ''/'' (clean_elems rooted [] (strings_Split (CHR ''/'') path)) in
      if s = [] then ''.'' else s)"

definition filepath_Join :: "string list \<Rightarrow> string" where
  "filepath_Join elems =
     (case dropWhile (\<lambda>e. e = []) elems of [] \<Rightarrow> [] | es \<Rightarrow> filepath_Clean (join_with ''/'' es))"

definition filepath_Dir :: "string \<Rightarrow> string" where
  "filepath_Dir path = filepath_Clean (rev (dropWhile (\<lambda>c. c \<noteq> CHR ''/'') (rev path)))"

section \<open>Names and ports\<close>

definition validateDNSLabel :: "string \<Rightarrow> string \<Rightarrow> string option" where
  "validateDNSLabel name label =
     (if label = [] then Some (name @ '' is required'')
      else if length label > 63 then Some (name @ '' '' @ fmt_q label @ '' is too long'')
      else if hd label = CHR ''-'' \<or> last label = CHR ''-''
      then Some (name @ '' '' @ fmt_q label @ '' must not start or end with '' @ [CHR 0x27] @ ''-'' @ [CHR 0x27])
      else case find (\<lambda>c. \<not> label_char c) label of
             None \<Rightarrow> None
           | Some c \<Rightarrow> Some (name @ '' '' @ fmt_q label @ '' contains invalid character '' @ fmt_rune_q c))"

fun first_bad_label :: "string list \<Rightarrow> string option" where
  "first_bad_label [] = None"
| "first_bad_label (l # ls) = (case validateDNSLabel ''domain label'' l of Some e \<Rightarrow> Some e | None \<Rightarrow> first_bad_label ls)"

definition validateDomainName :: "string \<Rightarrow> string option" where
  "validateDomainName domain =
     (if domain = [] then Some ''domain is required''
      else if length domain > 253 then Some ''domain is too long''
      else if strings_Contains domain ''://'' then Some ''domain must not include a scheme''
      else first_bad_label (strings_Split (CHR ''.'') domain))"

definition caddy_validatePort :: "string \<Rightarrow> int \<Rightarrow> string option" where
  "caddy_validatePort name port = (if port < 1 \<or> port > 65535 then Some (name @ '' must be between 1 and 65535'') else None)"

definition validateCaddyToken :: "string \<Rightarrow> string \<Rightarrow> string option" where
  "validateCaddyToken name value =
     (if value = [] then Some (name @ '' is required'')
      else if strings_ContainsAny value ('' '' @ [CHR 0x09, CHR 0x0D, CHR 0x0A] @ ''{}'')
      then Some (name @ '' must not contain whitespace or Caddyfile control characters'')
      else None)"

definition routeHost :: "string \<Rightarrow> string \<Rightarrow> string + string" where
  "routeHost serviceID baseDomain =
     (let svc = strings_ToLower (strings_TrimSpace serviceID); base = strings_ToLower (strings_TrimSpace baseDomain) in
      case validateDNSLabel ''service route label'' svc of
        Some e \<Rightarrow> Inl e
      | None \<Rightarrow> (case validateDomainName base of Some e \<Rightarrow> Inl e | None \<Rightarrow> Inr (svc @ ''.'' @ base)))"

definition siteAddress :: "string \<Rightarrow> int \<Rightarrow> string" where
  "siteAddress host port = (if port = 80 then ''http://'' @ host else ''http://'' @ host @ '':'' @ strconv_Itoa port)"

section \<open>Routes\<close>

record managedRoute =
  mg_ServiceID :: string
  mg_DeploymentID :: string
  mg_ContainerID :: string
  mg_HostPort :: int
  mg_CustomHosts :: "string list"
  mg_BasicAuthUser :: string
  mg_BasicAuthHash :: string
  mg_RouteHost :: string

definition routeTieBreak :: "managedRoute \<Rightarrow> managedRoute \<Rightarrow> int" where
  "routeTieBreak a b =
     (if mg_DeploymentID a \<noteq> mg_DeploymentID b then (if mg_DeploymentID a > mg_DeploymentID b then 1 else -1)
      else if mg_ContainerID a > mg_ContainerID b then 1
      else if mg_ContainerID a < mg_ContainerID b then -1 else 0)"

text \<open>The list \<open>out\<close> holds the hosts already seen.\<close>

fun collectCustomHosts :: "string list \<Rightarrow> string list \<Rightarrow> string + string list" where
  "collectCustomHosts out [] = Inr out"
| "collectCustomHosts out (h # hs) =
     (let host = strings_ToLower (strings_TrimSpace (trim_dot h)) in
      if host = [] \<or> host \<in> set out then collectCustomHosts out hs
      else if strings_Contains host ''*''
      then Inl (''custom host '' @ fmt_q host @ '' uses a wildcard, which is not supported yet'')
      else case validateDomainName host of
             Some e \<Rightarrow> Inl (''custom host '' @ fmt_q host @ '': '' @ e)
           | None \<Rightarrow> collectCustomHosts (out @ [host]) hs)"

definition normalizeCustomHosts :: "string list \<Rightarrow> string + string list" where
  "normalizeCustomHosts hs = map_sum id sort (collectCustomHosts [] hs)"

text \<open>The map \<open>byService\<close>, as an association list.\<close>

definition keep_route :: "managedRoute \<Rightarrow> (string \<times> managedRoute) list \<Rightarrow> (string \<times> managedRoute) list" where
  "keep_route r byService =
     (case map_of byService (mg_ServiceID r) of
        None \<Rightarrow> AList.update (mg_ServiceID r) r byService
      | Some cur \<Rightarrow> if routeTieBreak r cur > 0 then AList.update (mg_ServiceID r) r byService else byService)"

definition normalizeRoute :: "managedRoute \<Rightarrow> string + managedRoute" where
  "normalizeRoute r =
     (let svc = strings_ToLower (strings_TrimSpace (mg_ServiceID r)) in
      case validateDNSLabel ''service route label'' svc of
        Some e \<Rightarrow> Inl e
      | None \<Rightarrow>
          if mg_HostPort r \<le> 0 \<or> mg_HostPort r > 65535
          then Inl (''route for service '' @ svc @ '' has invalid host port '' @ strconv_Itoa (mg_HostPort r))
          else case normalizeCustomHosts (mg_CustomHosts r) of
                 Inl e \<Rightarrow> Inl e
               | Inr hs \<Rightarrow> Inr (r\<lparr>mg_ServiceID := svc, mg_CustomHosts := hs\<rparr>))"

fun collectRoutes :: "(string \<times> managedRoute) list \<Rightarrow> managedRoute list \<Rightarrow> string + (string \<times> managedRoute) list" where
  "collectRoutes byService [] = Inr byService"
| "collectRoutes byService (r # rs) =
     (case normalizeRoute r of Inl e \<Rightarrow> Inl e | Inr r' \<Rightarrow> collectRoutes (keep_route r' byService) rs)"

fun claimHosts :: "string \<Rightarrow> (string \<rightharpoonup> string) \<Rightarrow> string list \<Rightarrow> string + (string \<rightharpoonup> string)" where
  "claimHosts svc seenHosts [] = Inr seenHosts"
| "claimHosts svc seenHosts (h # hs) =
     (case seenHosts h of
        Some owner \<Rightarrow> if owner \<noteq> svc then Inl (''custom host '' @ h @ '' is attached to multiple services'')
                      else claimHosts svc (seenHosts(h \<mapsto> svc)) hs
      | None \<Rightarrow> claimHosts svc (seenHosts(h \<mapsto> svc)) hs)"

fun checkHosts :: "(string \<rightharpoonup> string) \<Rightarrow> managedRoute list \<Rightarrow> string option" where
  "checkHosts seenHosts [] = None"
| "checkHosts seenHosts (r # rs) =
     (case claimHosts (mg_ServiceID r) seenHosts (mg_CustomHosts r) of Inl e \<Rightarrow> Some e | Inr seen' \<Rightarrow> checkHosts seen' rs)"

definition normalizeRoutes :: "managedRoute list \<Rightarrow> string + managedRoute list" where
  "normalizeRoutes routes =
     (case collectRoutes [] routes of
        Inl e \<Rightarrow> Inl e
      | Inr byService \<Rightarrow>
          (case checkHosts Map.empty (map snd byService) of
             Some e \<Rightarrow> Inl e
           | None \<Rightarrow> Inr (sort_key mg_ServiceID (map snd byService))))"

section \<open>The manager and the generated Caddyfile\<close>

definition defaultCaddyBin :: string where "defaultCaddyBin = ''caddy''"
definition defaultCaddyBaseDomain :: string where "defaultCaddyBaseDomain = ''localhost''"
definition defaultCaddyHTTPPort :: int where "defaultCaddyHTTPPort = 80"
definition defaultCaddyAdmin :: string where "defaultCaddyAdmin = ''localhost:2019''"
definition caddyManagedMarker :: string where "caddyManagedMarker = ''# plorigo-managed-caddyfile: true''"

record Options =
  op_ControlPlaneURL :: string
  op_RegistrationToken :: string
  op_DataDir :: string
  op_HeartbeatInterval :: int
  op_PollInterval :: int
  op_CaddyBin :: string
  op_CaddyConfig :: string
  op_CaddyBaseDomain :: string
  op_CaddyHTTPPort :: int
  op_CaddyAdmin :: string

record caddyManager =
  cm_bin :: string
  cm_configPath :: string
  cm_baseDomain :: string
  cm_httpPort :: int
  cm_admin :: string

definition or_default :: "string \<Rightarrow> string \<Rightarrow> string" where
  "or_default s d = (if s = [] then d else s)"

definition newCaddyManager :: "Options \<Rightarrow> string + caddyManager" where
  "newCaddyManager opts =
     (let bin = or_default (strings_TrimSpace (op_CaddyBin opts)) defaultCaddyBin;
          baseDomain = or_default (strings_ToLower (strings_TrimSpace (op_CaddyBaseDomain opts))) defaultCaddyBaseDomain;
          httpPort = (if op_CaddyHTTPPort opts = 0 then defaultCaddyHTTPPort else op_CaddyHTTPPort opts);
          admin = or_default (strings_TrimSpace (op_CaddyAdmin opts)) defaultCaddyAdmin;
          configPath = or_default (strings_TrimSpace (op_CaddyConfig opts)) (filepath_Join [op_DataDir opts, ''Caddyfile'']) in
      case validateDomainName baseDomain of
        Some e \<Rightarrow> Inl (''caddy base domain: '' @ e)
      | None \<Rightarrow>
      (case caddy_validatePort ''caddy http port'' httpPort of
        Some e \<Rightarrow> Inl e
      | None \<Rightarrow>
      (case validateCaddyToken ''caddy admin address'' admin of
        Some e \<Rightarrow> Inl e
      | None \<Rightarrow>
          if configPath = [] then Inl ''caddy config path is required''
          else Inr \<lparr>cm_bin = bin, cm_configPath = configPath, cm_baseDomain = baseDomain, cm_httpPort = httpPort, cm_admin = admin\<rparr>)))"

definition routeURL :: "caddyManager \<Rightarrow> string \<Rightarrow> string + string" where
  "routeURL m serviceID =
     (case routeHost serviceID (cm_baseDomain m) of
        Inl e \<Rightarrow> Inl e
      | Inr host \<Rightarrow>
          Inr (if cm_httpPort m = 80 then ''http://'' @ host else ''http://'' @ host @ '':'' @ strconv_Itoa (cm_httpPort m)))"

abbreviation tab :: string where "tab \<equiv> [CHR 0x09]"

definition config_header :: "caddyManager \<Rightarrow> string list" where
  "config_header m =
     [caddyManagedMarker, ''# Generated by the Plorigo agent. Do not edit by hand.'', ''{'', tab @ ''admin '' @ cm_admin m,
      tab @ ''auto_https off'', ''}'', []]"

definition site_block :: "caddyManager \<Rightarrow> managedRoute \<Rightarrow> string \<Rightarrow> string list" where
  "site_block m r siteHost =
     [siteAddress siteHost (cm_httpPort m) @ '' {''] @
     (if mg_BasicAuthUser r \<noteq> [] \<and> mg_BasicAuthHash r \<noteq> []
      then [tab @ ''basic_auth {'', tab @ tab @ mg_BasicAuthUser r @ '' '' @ mg_BasicAuthHash r, tab @ ''}''] else []) @
     [tab @ ''reverse_proxy 127.0.0.1:'' @ strconv_Itoa (mg_HostPort r), ''}'', []]"

text \<open>What is written is lines, each ended by a newline.\<close>

definition unlines :: "string list \<Rightarrow> string" where
  "unlines ls = concat (map (\<lambda>l. l @ [CHR 0x0A]) ls)"

definition route_label :: "managedRoute \<Rightarrow> string" where
  "route_label r = (if mg_RouteHost r = [] then mg_ServiceID r else mg_RouteHost r)"

fun renderRoutes :: "caddyManager \<Rightarrow> managedRoute list \<Rightarrow> string + string list" where
  "renderRoutes m [] = Inr []"
| "renderRoutes m (r # rs) =
     (case routeHost (route_label r) (cm_baseDomain m) of
        Inl e \<Rightarrow> Inl e
      | Inr host \<Rightarrow>
          map_sum id (\<lambda>ls. concat (map (site_block m r) (host # mg_CustomHosts r)) @ ls) (renderRoutes m rs))"

definition caddy_render :: "caddyManager \<Rightarrow> managedRoute list \<Rightarrow> string + string" where
  "caddy_render m routes =
     (case normalizeRoutes routes of
        Inl e \<Rightarrow> Inl e
      | Inr normalized \<Rightarrow> map_sum id (\<lambda>ls. unlines (config_header m @ ls)) (renderRoutes m normalized))"

section \<open>Activating a configuration\<close>

text \<open>What the code uses of \<^verbatim>\<open>os\<close> and \<^verbatim>\<open>os/exec\<close>. A path that does not exist is told apart from other
  errors (\<open>os.IsNotExist\<close>), and so is a program that is not in the path (\<open>exec.ErrNotFound\<close>).\<close>

datatype file_error = NotExist string | FileError string

fun file_error_text :: "file_error \<Rightarrow> string" where
  "file_error_text (NotExist s) = s"
| "file_error_text (FileError s) = s"

datatype cmd_error = ErrNotFound | CommandError string

record 'h caddy_host =
  os_ReadFile :: "string \<Rightarrow> ('h, file_error + string) state"
  os_MkdirAll :: "string \<Rightarrow> ('h, string option) state"
  os_CreateTemp :: "string \<Rightarrow> string \<Rightarrow> ('h, string + string) state"
  tmp_WriteString :: "string \<Rightarrow> string \<Rightarrow> ('h, string option) state"
  tmp_Close :: "string \<Rightarrow> ('h, string option) state"
  os_Chmod :: "string \<Rightarrow> nat \<Rightarrow> ('h, string option) state"
  os_Rename :: "string \<Rightarrow> string \<Rightarrow> ('h, string option) state"
  os_Remove :: "string \<Rightarrow> ('h, file_error option) state"
  os_WriteFile :: "string \<Rightarrow> string \<Rightarrow> ('h, string option) state"
  caddy_run :: "string \<Rightarrow> string list \<Rightarrow> ('h, string \<times> cmd_error option) state"

text \<open>\<open>tailLines\<close> of \<^verbatim>\<open>docker.go\<close>: the non-blank lines, at most the last \<open>limit\<close>.\<close>

fun crlf_to_lf :: "string \<Rightarrow> string" where
  "crlf_to_lf [] = []"
| "crlf_to_lf [c] = [c]"
| "crlf_to_lf (c # d # cs) = (if c = CHR 0x0D \<and> d = CHR 0x0A then CHR 0x0A # crlf_to_lf cs else c # crlf_to_lf (d # cs))"

definition trim_cr :: "string \<Rightarrow> string" where
  "trim_cr l = rev (dropWhile (\<lambda>c. c = CHR 0x0D) (rev l))"

definition last_n :: "nat \<Rightarrow> 'a list \<Rightarrow> 'a list" where
  "last_n n xs = drop (length xs - n) xs"

definition tailLines :: "string \<Rightarrow> nat \<Rightarrow> string list" where
  "tailLines s limit =
     last_n limit (filter (\<lambda>l. strings_TrimSpace l \<noteq> []) (map trim_cr (strings_Split (CHR 0x0A) (crlf_to_lf s))))"

definition maxReportLogLines :: nat where "maxReportLogLines = 200"

definition appendCommandOutput :: "string list \<Rightarrow> string \<Rightarrow> string \<Rightarrow> string list" where
  "appendCommandOutput logs prefix' out = logs @ map (\<lambda>l. prefix' @ '': '' @ l) (tailLines out maxReportLogLines)"

definition commandError :: "string \<Rightarrow> cmd_error \<Rightarrow> string \<Rightarrow> string" where
  "commandError action e out =
     (case e of
        ErrNotFound \<Rightarrow> action @ '': Caddy CLI was not found in PATH; install Caddy or set --caddy-bin / PLORIGO_AGENT_CADDY_BIN to its path''
      | CommandError s \<Rightarrow>
          (let msg = strings_TrimSpace out in if msg = [] then action @ '': '' @ s else action @ '': '' @ s @ '': '' @ msg))"

definition readExistingConfig :: "'h caddy_host \<Rightarrow> caddyManager \<Rightarrow> ('h, string + string option) state" where
  "readExistingConfig H m = do {
     r \<leftarrow> os_ReadFile H (cm_configPath m);
     State_Monad.return (case r of
       Inl (NotExist _) \<Rightarrow> Inr None
     | Inl (FileError e) \<Rightarrow> Inl (''read existing Caddy config: '' @ e)
     | Inr s \<Rightarrow>
         if \<not> strings_Contains s caddyManagedMarker
         then Inl (''refusing to overwrite non-Plorigo Caddy config at '' @ cm_configPath m)
         else Inr (Some s)) }"

definition restoreConfig :: "'h caddy_host \<Rightarrow> string \<Rightarrow> string option \<Rightarrow> ('h, string option) state" where
  "restoreConfig H path old =
     (case old of
        None \<Rightarrow> do {
          r \<leftarrow> os_Remove H path;
          State_Monad.return (case r of Some (FileError e) \<Rightarrow> Some e | _ \<Rightarrow> None) }
      | Some s \<Rightarrow> os_WriteFile H path s)"

definition could_not_restore :: string where
  "could_not_restore = ''; additionally could not restore previous Caddy config: ''"

text \<open>The result of \<open>apply\<close>: the log lines and the error.\<close>

definition activateConfig :: "'h caddy_host \<Rightarrow> caddyManager \<Rightarrow> string option \<Rightarrow> string \<Rightarrow> ('h, string list \<times> string option) state" where
  "activateConfig H m old tmpPath = do {
     (out, e) \<leftarrow> caddy_run H (cm_bin m) [''validate'', ''--config'', tmpPath, ''--adapter'', ''caddyfile''];
     let logs = appendCommandOutput [] ''caddy validate'' out;
     case e of
       Some e \<Rightarrow> State_Monad.return (logs, Some (commandError ''validate Caddy config'' e out))
     | None \<Rightarrow>
         unless_err (os_Rename H tmpPath (cm_configPath m)) (\<lambda>e. State_Monad.return (logs, Some (''activate Caddy config: '' @ e))) (do {
           (out, e) \<leftarrow> caddy_run H (cm_bin m)
             [''reload'', ''--config'', cm_configPath m, ''--adapter'', ''caddyfile'', ''--address'', cm_admin m];
           let logs = appendCommandOutput logs ''caddy reload'' out;
           case e of
             None \<Rightarrow> State_Monad.return (logs, None)
           | Some e \<Rightarrow> do {
               (startOut, startErr) \<leftarrow> caddy_run H (cm_bin m) [''start'', ''--config'', cm_configPath m, ''--adapter'', ''caddyfile''];
               let logs = appendCommandOutput logs ''caddy start'' startOut;
               case startErr of
                 None \<Rightarrow> State_Monad.return (logs, None)
               | Some se \<Rightarrow> do {
                   restoreErr \<leftarrow> restoreConfig H (cm_configPath m) old;
                   State_Monad.return (logs, Some (commandError ''reload Caddy config'' e out @ ''; starting Caddy also failed: '' @
                     commandError ''start Caddy'' se startOut @
                     (case restoreErr of None \<Rightarrow> []
                      | Some re \<Rightarrow> could_not_restore @ re))) } } }) }"

definition temp_pattern :: string where "temp_pattern = ''.plorigo-caddy-*.caddyfile''"

definition writeAndActivate ::
    "'h caddy_host \<Rightarrow> caddyManager \<Rightarrow> string option \<Rightarrow> string \<Rightarrow> string \<Rightarrow> ('h, string list \<times> string option) state" where
  "writeAndActivate H m old rendered tmpPath =
     (let bad = (\<lambda>e. State_Monad.return ([], Some e)) in
      deferring (do { _ \<leftarrow> os_Remove H tmpPath; State_Monad.return () })
     (unless_err (tmp_WriteString H tmpPath rendered)
        (\<lambda>e. do { _ \<leftarrow> tmp_Close H tmpPath; bad (''write temporary Caddy config: '' @ e) })
     (unless_err (tmp_Close H tmpPath) (\<lambda>e. bad (''close temporary Caddy config: '' @ e))
     (unless_err (os_Chmod H tmpPath 0x180) (\<lambda>e. bad (''chmod temporary Caddy config: '' @ e))
       (activateConfig H m old tmpPath)))))"

definition caddy_apply :: "'h caddy_host \<Rightarrow> caddyManager \<Rightarrow> managedRoute list \<Rightarrow> ('h, string list \<times> string option) state" where
  "caddy_apply H m routes =
     (let bad = (\<lambda>e. State_Monad.return ([], Some e)) in
      case caddy_render m routes of
        Inl e \<Rightarrow> bad e
      | Inr rendered \<Rightarrow>
          attempt (readExistingConfig H m) bad (\<lambda>old.
          let dir = filepath_Dir (cm_configPath m) in
          unless_err (os_MkdirAll H dir) (\<lambda>e. bad (''create Caddy config directory: '' @ e))
         (attempt (os_CreateTemp H dir temp_pattern) (\<lambda>e. bad (''create temporary Caddy config: '' @ e))
           (writeAndActivate H m old rendered))))"

section \<open>The routes that are rendered\<close>

text \<open>The order of two containers of one service.\<close>

definition route_age :: "managedRoute \<Rightarrow> string \<times> string" where
  "route_age r = (mg_DeploymentID r, mg_ContainerID r)"

lemma routeTieBreak_pos: "routeTieBreak r cur > 0 \<longleftrightarrow> route_age cur < route_age r"
  by (auto simp: routeTieBreak_def route_age_def less_prod_def)

definition newest_route :: "managedRoute set \<Rightarrow> managedRoute \<Rightarrow> bool" where
  "newest_route R r \<longleftrightarrow> r \<in> R \<and> (\<forall>r' \<in> R. mg_ServiceID r' = mg_ServiceID r \<longrightarrow> route_age r' \<le> route_age r)"

definition one_per_age :: "managedRoute set \<Rightarrow> bool" where
  "one_per_age R \<longleftrightarrow> inj_on (\<lambda>r. (mg_ServiceID r, route_age r)) R"

text \<open>No custom host belongs to two services.\<close>

definition hosts_exclusive :: "managedRoute set \<Rightarrow> bool" where
  "hosts_exclusive R \<longleftrightarrow>
     (\<forall>r \<in> R. \<forall>r' \<in> R. mg_ServiceID r \<noteq> mg_ServiceID r' \<longrightarrow> set (mg_CustomHosts r) \<inter> set (mg_CustomHosts r') = {})"

text \<open>One route per service, its newest, in the order of the services.\<close>

definition newest_routes :: "managedRoute set \<Rightarrow> managedRoute list \<Rightarrow> bool" where
  "newest_routes R out \<longleftrightarrow>
     sorted_wrt (<) (map mg_ServiceID out) \<and> (\<forall>r \<in> set out. newest_route R r) \<and> mg_ServiceID ` set out = mg_ServiceID ` R"

lemma collectRoutes_Inr:
  "collectRoutes al rs = Inr al' \<longleftrightarrow> (\<exists>ns. map normalizeRoute rs = map Inr ns \<and> al' = fold keep_route ns al)"
proof (induction rs arbitrary: al)
  case (Cons r rs)
  show ?case
  proof (cases "normalizeRoute r")
    case (Inr r')
    with Cons show ?thesis by (auto simp: Cons_eq_map_conv)
  qed (auto simp: Cons_eq_map_conv)
qed auto

definition kept :: "managedRoute set \<Rightarrow> (string \<times> managedRoute) list \<Rightarrow> bool" where
  "kept R al \<longleftrightarrow> distinct (map fst al) \<and> dom (map_of al) = mg_ServiceID ` R \<and>
     (\<forall>s r. map_of al s = Some r \<longrightarrow> mg_ServiceID r = s \<and> newest_route R r)"

lemma kept_insert:
  assumes "kept R al"
  shows "kept (insert r R) (keep_route r al)"
proof (cases "\<exists>cur. map_of al (mg_ServiceID r) = Some cur \<and> \<not> route_age cur < route_age r")
  case True
  have "newest_route (insert r R) x" if x: "map_of al s = Some x" for s x
  proof -
    from assms x have "mg_ServiceID x = s" "newest_route R x" by (simp_all add: kept_def)
    moreover have "route_age r \<le> route_age x" if "s = mg_ServiceID r" using True x that by (auto simp: not_less)
    ultimately show ?thesis by (auto simp: newest_route_def)
  qed
  moreover have "keep_route r al = al" using True by (auto simp: keep_route_def routeTieBreak_pos)
  moreover have "mg_ServiceID r \<in> mg_ServiceID ` R" using assms True by (auto simp: kept_def)
  ultimately show ?thesis
    using assms unfolding kept_def by (simp add: insert_absorb)
next
  case False
  then have upd: "keep_route r al = AList.update (mg_ServiceID r) r al"
    by (auto simp: keep_route_def routeTieBreak_pos split: option.splits)
  have old: "route_age x \<le> route_age r" if x: "x \<in> R" "mg_ServiceID x = mg_ServiceID r" for x
  proof -
    from x(1) assms have "mg_ServiceID x \<in> dom (map_of al)" by (auto simp: kept_def)
    then obtain cur where "map_of al (mg_ServiceID r) = Some cur" using x(2) by auto
    moreover from this False have "route_age cur < route_age r" by auto
    moreover from calculation assms have "newest_route R cur" "mg_ServiceID cur = mg_ServiceID r" by (auto simp: kept_def)
    ultimately show ?thesis using x by (fastforce simp: newest_route_def)
  qed
  then have "newest_route (insert r R) r" by (auto simp: newest_route_def)
  moreover have "newest_route (insert r R) x" if "newest_route R x" "mg_ServiceID x \<noteq> mg_ServiceID r" for x
    using that by (auto simp: newest_route_def)
  ultimately show ?thesis
    using assms unfolding kept_def upd by (auto simp: update_conv' distinct_update)
qed

lemma kept_fold: "kept R al \<Longrightarrow> kept (set ns \<union> R) (fold keep_route ns al)"
  by (induction ns arbitrary: R al) (use kept_insert in fastforce)+

lemma claimHosts_Inr:
  "claimHosts svc seen' hs = Inr seen2 \<longleftrightarrow>
     (\<forall>h \<in> set hs. seen' h \<in> {None, Some svc}) \<and> seen2 = (\<lambda>h. if h \<in> set hs then Some svc else seen' h)"
  by (induction hs arbitrary: seen') (auto simp: fun_eq_iff split: option.splits)

lemma checkHosts_None:
  assumes "distinct (map mg_ServiceID rs)"
  shows "checkHosts seen' rs = None \<longleftrightarrow>
     (\<forall>r \<in> set rs. \<forall>h \<in> set (mg_CustomHosts r). seen' h \<in> {None, Some (mg_ServiceID r)}) \<and> hosts_exclusive (set rs)"
  using assms
proof (induction rs arbitrary: seen')
  case (Cons r rs)
  show ?case
  proof (cases "claimHosts (mg_ServiceID r) seen' (mg_CustomHosts r)")
    case (Inl e)
    then have "\<not> (\<forall>h \<in> set (mg_CustomHosts r). seen' h \<in> {None, Some (mg_ServiceID r)})"
      using claimHosts_Inr [of "mg_ServiceID r" seen' "mg_CustomHosts r"] by auto
    then show ?thesis using Inl by auto
  next
    case (Inr seen2)
    then have s: "\<forall>h \<in> set (mg_CustomHosts r). seen' h \<in> {None, Some (mg_ServiceID r)}"
      "seen2 = (\<lambda>h. if h \<in> set (mg_CustomHosts r) then Some (mg_ServiceID r) else seen' h)"
      by (auto simp: claimHosts_Inr)
    have other: "mg_ServiceID x \<noteq> mg_ServiceID r" if "x \<in> set rs" for x using Cons.prems that by (auto simp: image_iff)
    have "seen2 h \<in> {None, Some (mg_ServiceID x)} \<longleftrightarrow> h \<notin> set (mg_CustomHosts r) \<and> seen' h \<in> {None, Some (mg_ServiceID x)}"
      if "x \<in> set rs" for x h
      using other [OF that] s(2) by auto
    then have "(\<forall>x \<in> set rs. \<forall>h \<in> set (mg_CustomHosts x). seen2 h \<in> {None, Some (mg_ServiceID x)}) \<longleftrightarrow>
        (\<forall>x \<in> set rs. \<forall>h \<in> set (mg_CustomHosts x). seen' h \<in> {None, Some (mg_ServiceID x)}) \<and>
        (\<forall>x \<in> set rs. set (mg_CustomHosts r) \<inter> set (mg_CustomHosts x) = {})"
      by (simp add: disjoint_iff) blast
    moreover have "hosts_exclusive (set (r # rs)) \<longleftrightarrow>
        (\<forall>x \<in> set rs. set (mg_CustomHosts r) \<inter> set (mg_CustomHosts x) = {}) \<and> hosts_exclusive (set rs)"
      using other by (simp add: hosts_exclusive_def Int_commute) blast
    ultimately show ?thesis using Inr Cons.IH [of seen2] Cons.prems s(1) by simp
  qed
qed (simp add: hosts_exclusive_def)


definition normal_routes :: "managedRoute list \<Rightarrow> managedRoute set \<Rightarrow> bool" where
  "normal_routes rs R \<longleftrightarrow> (\<exists>ns. map normalizeRoute rs = map Inr ns \<and> R = set ns)"

lemma strict_sort_key:
  assumes "distinct (map f xs)"
  shows "sorted_wrt (<) (map f (sort_key f xs))"
proof -
  have "distinct (map f (sort_key f xs))" using assms by (simp add: distinct_map)
  then show ?thesis using strict_sorted_iff [of "map f (sort_key f xs)"] by simp
qed

lemma newest_routes_unique:
  assumes "newest_routes R out" and "newest_routes R out'" and "one_per_age R"
  shows "out' = out"
proof -
  have sub: "set a \<subseteq> set b" if "newest_routes R a" "newest_routes R b" for a b
  proof
    fix r
    assume r: "r \<in> set a"
    with that have "mg_ServiceID r \<in> mg_ServiceID ` set b" by (auto simp: newest_routes_def)
    then obtain r' where r': "r' \<in> set b" "mg_ServiceID r' = mg_ServiceID r" by auto
    with r that have "newest_route R r" "newest_route R r'" by (auto simp: newest_routes_def)
    with r' have "route_age r = route_age r'" "r \<in> R" "r' \<in> R" by (auto simp: newest_route_def intro: antisym)
    with assms(3) r'(2) have "r = r'" by (intro inj_onD [OF assms(3) [unfolded one_per_age_def]]) auto
    with r'(1) show "r \<in> set b" by simp
  qed
  have "set out' = set out" using sub assms by blast
  moreover have "inj_on mg_ServiceID (set out)" "sorted_wrt (<) (map mg_ServiceID out)" "sorted_wrt (<) (map mg_ServiceID out')"
    using assms by (auto simp: newest_routes_def strict_sorted_iff distinct_map)
  ultimately show ?thesis
    by (metis (no_types, lifting) inj_on_map_eq_map inj_on_Un list.set_map map_inj_on strict_sorted_equal sup.idem)
qed

lemma kept_sorted:
  assumes "kept R al"
  shows "distinct (map mg_ServiceID (map snd al))" and "newest_routes R (sort_key mg_ServiceID (map snd al))"
proof -
  from assms have keys: "map mg_ServiceID (map snd al) = map fst al" by (auto simp: kept_def)
  then show dist: "distinct (map mg_ServiceID (map snd al))" using assms unfolding keys by (simp add: kept_def)
  let ?out = "sort_key mg_ServiceID (map snd al)"
  have "mg_ServiceID ` set ?out = set (map fst al)" using keys by (metis list.set_map set_sort)
  also have "\<dots> = mg_ServiceID ` R" using assms by (auto simp: kept_def dom_map_of_conv_image_fst)
  finally show "newest_routes R ?out"
    using strict_sort_key [OF dist] assms by (auto simp: newest_routes_def kept_def)
qed

lemma normalizeRoutes_Inr:
  assumes "\<And>R. normal_routes rs R \<Longrightarrow> one_per_age R"
  shows "normalizeRoutes rs = Inr out \<longleftrightarrow> (\<exists>R. normal_routes rs R \<and> newest_routes R out \<and> hosts_exclusive (set out))"
proof (cases "\<exists>ns. map normalizeRoute rs = map Inr ns")
  case True
  then obtain ns where ns: "map normalizeRoute rs = map Inr ns" ..
  then have R: "normal_routes rs R \<longleftrightarrow> R = set ns" for R
    by (auto simp: normal_routes_def)
  have kept: "kept (set ns) (fold keep_route ns [])" using kept_fold [of "{}" "[]" ns] by (simp add: kept_def)
  let ?out = "sort_key mg_ServiceID (map snd (fold keep_route ns []))"
  note sorted = kept_sorted [OF kept]
  have "normalizeRoutes rs = Inr out \<longleftrightarrow> hosts_exclusive (set ?out) \<and> out = ?out"
    using ns checkHosts_None [OF sorted(1), of Map.empty]
    by (auto simp: normalizeRoutes_def collectRoutes_Inr [THEN iffD2, OF exI, OF conjI, OF ns refl] split: option.splits)
  also have "\<dots> \<longleftrightarrow> newest_routes (set ns) out \<and> hosts_exclusive (set out)"
  proof -
    have "out = ?out" if "newest_routes (set ns) out"
      using newest_routes_unique [OF sorted(2) that] assms R by simp
    then show ?thesis using sorted(2) by blast
  qed
  finally show ?thesis by (simp add: R)
next
  case False
  then show ?thesis by (auto simp: normalizeRoutes_def collectRoutes_Inr normal_routes_def split: sum.splits)
qed

text \<open>C39: the rendered routes do not depend on the order in which Docker lists the containers or in which a map
  is walked. Provided no two of them carry the same service, deployment and container, normalising succeeds
  exactly when every route is valid and no custom host belongs to two services, and then gives one route per
  service, that of the greatest deployment and container identifier, in the order of the services; any list
  of the same routes gives the same result.\<close>

theorem normalizeRoutes_reference:
  assumes "\<And>R. normal_routes rs R \<Longrightarrow> one_per_age R"
  shows "(normalizeRoutes rs = Inr out \<longleftrightarrow> (\<exists>R. normal_routes rs R \<and> newest_routes R out \<and> hosts_exclusive (set out))) \<and>
    (set rs' = set rs \<longrightarrow> (normalizeRoutes rs' = Inr out \<longleftrightarrow> normalizeRoutes rs = Inr out))"
proof -
  have sub: "normal_routes a R" if "normal_routes b R" "set a = set b" for a b R
  proof -
    from that(1) obtain ns where ns: "map normalizeRoute b = map Inr ns" "R = set ns" by (auto simp: normal_routes_def)
    have "normalizeRoute ` set a = Inr ` R" using that(2) ns by (metis list.set_map)
    then have "\<forall>r \<in> set a. \<exists>x. normalizeRoute r = Inr x" by (metis image_iff imageI)
    then obtain f where f: "\<forall>r \<in> set a. normalizeRoute r = Inr (f r)" by metis
    then have "map normalizeRoute a = map Inr (map f a)" by simp
    moreover have "Inr ` f ` set a = normalizeRoute ` set a" using f unfolding image_image by (intro image_cong) simp_all
    then have "(Inr :: _ \<Rightarrow> string + _) ` f ` set a = Inr ` R" using \<open>normalizeRoute ` set a = Inr ` R\<close> by simp
    then have "set (map f a) = R" by (simp add: inj_image_eq_iff [OF inj_Inr])
    ultimately show ?thesis unfolding normal_routes_def by (intro exI [of _ "map f a"]) simp
  qed
  then have "normal_routes rs' R \<longleftrightarrow> normal_routes rs R" if "set rs' = set rs" for R using that by metis
  then show ?thesis using normalizeRoutes_Inr [of rs out] normalizeRoutes_Inr [of rs' out] assms by blast
qed

section \<open>What Caddy is told to serve\<close>

text \<open>A reader of the part of the Caddyfile syntax the agent writes: lines of words, comments, one block of global options,
  and site blocks with an optional \<open>basic_auth\<close> and one \<open>reverse_proxy\<close>.\<close>

record site =
  si_Address :: string
  si_Auth :: "(string \<times> string) option"
  si_Upstream :: string

definition config_words :: "string \<Rightarrow> string list" where
  "config_words l = filter (\<lambda>w. w \<noteq> []) (strings_Split (CHR '' '') (map (\<lambda>c. if c = CHR 0x09 then CHR '' '' else c) l))"

definition config_lines :: "string \<Rightarrow> string list list" where
  "config_lines s = filter (\<lambda>ws. ws \<noteq> [] \<and> hd (hd ws) \<noteq> CHR ''#'') (map config_words (strings_Split (CHR 0x0A) s))"

fun after_block :: "string list list \<Rightarrow> string list list" where
  "after_block [] = []"
| "after_block (l # ls) = (if l = [''}''] then ls else after_block ls)"

fun read_auth :: "string list list \<Rightarrow> (string \<times> string) option \<times> string list list" where
  "read_auth ([d, b] # [u, h] # [c] # ls) =
     (if d = ''basic_auth'' \<and> b = ''{'' \<and> c = ''}'' then (Some (u, h), ls) else (None, [d, b] # [u, h] # [c] # ls))"
| "read_auth ls = (None, ls)"

fun read_sites :: "nat \<Rightarrow> string list list \<Rightarrow> site list option" where
  "read_sites n [] = Some []"
| "read_sites 0 (l # ls) = None"
| "read_sites (Suc n) (l # ls) =
     (case (l, read_auth ls) of
        ([address, b], auth, [d, up] # [c] # rest) \<Rightarrow>
          if b = ''{'' \<and> d = ''reverse_proxy'' \<and> c = ''}''
          then map_option ((#) \<lparr>si_Address = address, si_Auth = auth, si_Upstream = up\<rparr>) (read_sites n rest) else None
      | _ \<Rightarrow> None)"

definition caddy_sites :: "string \<Rightarrow> site list option" where
  "caddy_sites s =
     (let ls = config_lines s in read_sites (length ls) (if take 1 ls = [[''{'']] then after_block (tl ls) else ls))"

definition route_hosts :: "caddyManager \<Rightarrow> managedRoute \<Rightarrow> string list" where
  "route_hosts m r = (case routeHost (route_label r) (cm_baseDomain m) of Inl _ \<Rightarrow> [] | Inr host \<Rightarrow> host # mg_CustomHosts r)"

definition route_auth :: "managedRoute \<Rightarrow> (string \<times> string) option" where
  "route_auth r = (if mg_BasicAuthUser r \<noteq> [] \<and> mg_BasicAuthHash r \<noteq> [] then Some (mg_BasicAuthUser r, mg_BasicAuthHash r) else None)"

definition route_sites :: "caddyManager \<Rightarrow> managedRoute \<Rightarrow> site list" where
  "route_sites m r =
     map (\<lambda>h. \<lparr>si_Address = siteAddress h (cm_httpPort m), si_Auth = route_auth r,
       si_Upstream = ''127.0.0.1:'' @ strconv_Itoa (mg_HostPort r)\<rparr>) (route_hosts m r)"

text \<open>A word of the Caddyfile that needs no quoting.\<close>

definition plain_word :: "string \<Rightarrow> bool" where
  "plain_word w \<longleftrightarrow> w \<noteq> [] \<and> hd w \<noteq> CHR ''#'' \<and> list_all (\<lambda>c. c \<notin> {CHR '' '', CHR 0x09, CHR 0x0A, CHR 0x0D, CHR ''{'', CHR ''}''}) w"

definition auth_plain :: "managedRoute \<Rightarrow> bool" where
  "auth_plain r \<longleftrightarrow> mg_BasicAuthUser r \<noteq> [] \<and> mg_BasicAuthHash r \<noteq> [] \<longrightarrow> plain_word (mg_BasicAuthUser r) \<and> plain_word (mg_BasicAuthHash r)"

lemma split_unlines: "\<forall>l \<in> set ls. CHR 0x0A \<notin> set l \<Longrightarrow> strings_Split (CHR 0x0A) (unlines ls) = ls @ [[]]"
  by (induction ls) (simp_all add: unlines_def split_no_sep)

lemma plain_word_simps:
  assumes "plain_word w"
  shows "w \<noteq> []" "hd w \<noteq> CHR ''#''" "CHR '' '' \<notin> set w" "CHR 0x09 \<notin> set w" "CHR 0x0A \<notin> set w" "w \<noteq> ''}''" "w \<noteq> ''{''"
    "map (\<lambda>c. if c = CHR 0x09 then CHR '' '' else c) w = w"
proof -
  show w: "w \<noteq> []" "hd w \<noteq> CHR ''#''" "CHR '' '' \<notin> set w" "CHR 0x09 \<notin> set w" "CHR 0x0A \<notin> set w"
    using assms unfolding plain_word_def list_all_iff by blast+
  have "CHR ''}'' \<notin> set w" "CHR ''{'' \<notin> set w" using assms unfolding plain_word_def list_all_iff by blast+
  then show "w \<noteq> ''}''" "w \<noteq> ''{''" by auto
  show "map (\<lambda>c. if c = CHR 0x09 then CHR '' '' else c) w = w" using w(4) by (intro map_idI) auto
qed

lemma config_words_word: "plain_word w \<Longrightarrow> config_words w = [w]"
  by (simp add: config_words_def plain_word_simps split_whole)

lemma config_words_tab: "config_words (tab @ l) = config_words l"
  by (simp add: config_words_def)

lemma config_words_two: "plain_word v \<Longrightarrow> config_words (v @ CHR '' '' # l) = v # config_words l"
  by (simp add: config_words_def split_no_sep plain_word_simps(1,3,8))

lemma config_words_pair: "plain_word v \<Longrightarrow> plain_word w \<Longrightarrow> config_words (v @ '' '' @ w) = [v, w]"
  by (simp add: config_words_two config_words_word)

lemma fixed_words:
  "config_words ''{'' = [''{'']" "config_words ''}'' = [''}'']" "config_words [] = []"
  "plain_word ''basic_auth''" "plain_word ''reverse_proxy''" "plain_word ''admin''" "plain_word ''auto_https''" "plain_word ''off''"
  by code_simp+

lemma site_block_words:
  assumes "plain_word (siteAddress h (cm_httpPort m))" and "plain_word (''127.0.0.1:'' @ strconv_Itoa (mg_HostPort r))" and "auth_plain r"
  shows "filter (\<lambda>ws. ws \<noteq> [] \<and> hd (hd ws) \<noteq> CHR ''#'') (map config_words (site_block m r h)) =
     [[siteAddress h (cm_httpPort m), ''{'']] @
     (if mg_BasicAuthUser r \<noteq> [] \<and> mg_BasicAuthHash r \<noteq> []
      then [[''basic_auth'', ''{''], [mg_BasicAuthUser r, mg_BasicAuthHash r], [''}'']] else []) @
     [[''reverse_proxy'', ''127.0.0.1:'' @ strconv_Itoa (mg_HostPort r)], [''}'']]"
proof -
  have "config_words (siteAddress h (cm_httpPort m) @ '' {'') = [siteAddress h (cm_httpPort m), ''{'']"
    using config_words_two [OF assms(1), of "''{''"] by (simp add: fixed_words)
  moreover have "config_words (tab @ ''basic_auth {'') = [''basic_auth'', ''{'']" "config_words (tab @ ''}'') = [''}'']"
    by code_simp+
  moreover have "config_words (tab @ ''reverse_proxy 127.0.0.1:'' @ strconv_Itoa (mg_HostPort r)) =
      [''reverse_proxy'', ''127.0.0.1:'' @ strconv_Itoa (mg_HostPort r)]"
    using config_words_pair [OF fixed_words(5) assms(2)] by (simp only: config_words_tab) simp
  moreover have "config_words (tab @ tab @ mg_BasicAuthUser r @ '' '' @ mg_BasicAuthHash r) = [mg_BasicAuthUser r, mg_BasicAuthHash r]"
    if "mg_BasicAuthUser r \<noteq> [] \<and> mg_BasicAuthHash r \<noteq> []"
    using assms(3) that config_words_pair unfolding config_words_tab auth_plain_def by blast
  moreover have "hd (siteAddress h (cm_httpPort m)) \<noteq> CHR ''#''" using assms(1) by (rule plain_word_simps)
  moreover have "hd (mg_BasicAuthUser r) \<noteq> CHR ''#''" if "mg_BasicAuthUser r \<noteq> [] \<and> mg_BasicAuthHash r \<noteq> []"
    using assms(3) that by (simp add: auth_plain_def plain_word_simps(2))
  ultimately show ?thesis
    unfolding site_block_def map_append filter_append list.map if_distrib [of "map config_words"] if_distrib [of "filter _"]
    by (simp only: fixed_words filter.simps list.sel list.simps simp_thms char.inject if_True if_False append_Nil append_Cons cong: if_cong)
qed

definition site_words :: "site \<Rightarrow> string list list" where
  "site_words s =
     [[si_Address s, ''{'']] @ (case si_Auth s of None \<Rightarrow> [] | Some (u, h) \<Rightarrow> [[''basic_auth'', ''{''], [u, h], [''}'']]) @
     [[''reverse_proxy'', si_Upstream s], [''}'']]"

lemma read_site_words:
  "read_sites (Suc n) (site_words s @ rest) = map_option ((#) s) (read_sites n rest)"
  by (cases s) (simp add: site_words_def split: option.splits)

lemma read_sites_words: "length ss \<le> n \<Longrightarrow> read_sites n (concat (map site_words ss)) = Some ss"
proof (induction ss arbitrary: n)
  case (Cons s ss)
  then obtain k where "n = Suc k" "length ss \<le> k" by (cases n) auto
  with Cons.IH [of k] show ?case by (simp add: read_site_words)
qed simp

lemma length_site_words: "length ss \<le> length (concat (map site_words ss))"
  by (induction ss) (simp_all add: site_words_def)

lemma validateDNSLabel_None: "validateDNSLabel n l = None \<longleftrightarrow> host_label l"
  by (auto simp: validateDNSLabel_def host_label_def list_all_iff find_None_iff split: option.splits dest: find_Some_mem)

lemma first_bad_label_None: "first_bad_label ls = None \<longleftrightarrow> list_all host_label ls"
  by (induction ls) (auto simp: validateDNSLabel_None [of "''domain label''", symmetric] split: option.splits)

definition host_chars :: "string \<Rightarrow> bool" where
  "host_chars h \<longleftrightarrow> (\<forall>c \<in> set h. label_char c \<or> c = CHR ''.'')"

lemma host_label_chars: "host_label l \<Longrightarrow> host_chars l"
  by (auto simp: host_label_def host_chars_def list_all_iff)

lemma validateDomainName_None:
  assumes "validateDomainName d = None"
  shows "d \<noteq> []" "length d \<le> 253" "list_all host_label (strings_Split (CHR ''.'') d)" "host_chars d"
proof -
  from assms show d: "d \<noteq> []" "length d \<le> 253" "list_all host_label (strings_Split (CHR ''.'') d)"
    by (simp_all add: validateDomainName_def first_bad_label_None split: if_splits)
  show "host_chars d"
    unfolding host_chars_def using d(3) set_strings_Split [of _ d "CHR ''.''"] by (fastforce simp: host_label_def list_all_iff)
qed

lemma routeHost_Inr:
  "routeHost l base = Inr h \<Longrightarrow> host_chars h"
  using validateDomainName_None(4) [of "strings_ToLower (strings_TrimSpace base)"]
    host_label_chars [of "strings_ToLower (strings_TrimSpace l)"]
  by (auto simp: routeHost_def Let_def validateDNSLabel_None host_chars_def split: option.splits)

lemma collectCustomHosts_chars:
  "collectCustomHosts out hs = Inr hs' \<Longrightarrow> list_all host_chars out \<Longrightarrow> list_all host_chars hs'"
  by (induction out hs rule: collectCustomHosts.induct)
     (auto simp: Let_def validateDomainName_None split: if_splits option.splits)

lemma normalizeRoute_Inr:
  assumes "normalizeRoute r0 = Inr r"
  shows "host_label (mg_ServiceID r)" "0 < mg_HostPort r" "mg_HostPort r \<le> 65535" "list_all host_chars (mg_CustomHosts r)"
    "mg_HostPort r = mg_HostPort r0" "mg_BasicAuthUser r = mg_BasicAuthUser r0" "mg_BasicAuthHash r = mg_BasicAuthHash r0"
    "mg_DeploymentID r = mg_DeploymentID r0" "mg_ContainerID r = mg_ContainerID r0" "mg_RouteHost r = mg_RouteHost r0"
  using assms collectCustomHosts_chars [of "[]" "mg_CustomHosts r0"]
  by (auto simp: normalizeRoute_def normalizeCustomHosts_def Let_def validateDNSLabel_None list_all_iff
           split: option.splits if_splits sum.splits elim!: map_sum_InrE)

lemma normalizeRoutes_from:
  assumes "normalizeRoutes rs = Inr out"
  obtains ns where "map normalizeRoute rs = map Inr ns" and "newest_routes (set ns) out"
proof -
  from assms obtain al where al: "collectRoutes [] rs = Inr al" and out: "out = sort_key mg_ServiceID (map snd al)"
    by (auto simp: normalizeRoutes_def split: sum.splits option.splits)
  from al obtain ns where ns: "map normalizeRoute rs = map Inr ns" "al = fold keep_route ns []"
    by (auto simp: collectRoutes_Inr)
  have "kept (set ns) al" using kept_fold [of "{}" "[]" ns] ns by (simp add: kept_def)
  from kept_sorted(2) [OF this] that [OF ns(1)] show thesis unfolding out by blast
qed

lemma normalizeRoutes_member:
  assumes "normalizeRoutes rs = Inr out" and "r \<in> set out"
  obtains r0 where "r0 \<in> set rs" and "normalizeRoute r0 = Inr r"
proof -
  from assms(1) obtain ns where ns: "map normalizeRoute rs = map Inr ns" "newest_routes (set ns) out"
    by (rule normalizeRoutes_from)
  with assms(2) have "r \<in> set ns" by (auto simp: newest_routes_def newest_route_def)
  then have "Inr r \<in> normalizeRoute ` set rs" using ns(1) by (metis image_eqI list.set_map)
  with that show thesis by auto
qed

lemma label_char_plain: "label_char c \<or> c = CHR ''.'' \<or> c = CHR '':'' \<or> c = CHR ''/'' \<Longrightarrow>
    c \<notin> {CHR '' '', CHR 0x09, CHR 0x0A, CHR 0x0D, CHR ''{'', CHR ''}'', CHR ''#''}"
  by (auto simp: label_char_def is_digit_def)

lemma Itoa_chars: "\<forall>c \<in> set (strconv_Itoa i). label_char c"
  using nat_digits_digits by (auto simp: strconv_Itoa_def label_char_def)

lemma plain_wordI:
  assumes "w \<noteq> []" and "\<forall>c \<in> set w. label_char c \<or> c = CHR ''.'' \<or> c = CHR '':'' \<or> c = CHR ''/''"
  shows "plain_word w"
  using assms label_char_plain hd_in_set [OF assms(1)] unfolding plain_word_def list_all_iff by blast

lemma plain_siteAddress:
  assumes "host_chars h"
  shows "plain_word (siteAddress h p)"
proof (rule plain_wordI)
  have "\<forall>c \<in> set ''http://''. label_char c \<or> c = CHR '':'' \<or> c = CHR ''/''" by (simp add: label_char_def)
  then show "\<forall>c \<in> set (siteAddress h p). label_char c \<or> c = CHR ''.'' \<or> c = CHR '':'' \<or> c = CHR ''/''"
    using assms Itoa_chars [of p] by (auto simp: siteAddress_def host_chars_def)
qed (simp add: siteAddress_def)

lemma plain_upstream: "plain_word (''127.0.0.1:'' @ strconv_Itoa p)"
proof (rule plain_wordI)
  have "\<forall>c \<in> set ''127.0.0.1:''. label_char c \<or> c = CHR ''.'' \<or> c = CHR '':''" by (simp add: label_char_def is_digit_def)
  then show "\<forall>c \<in> set (''127.0.0.1:'' @ strconv_Itoa p). label_char c \<or> c = CHR ''.'' \<or> c = CHR '':'' \<or> c = CHR ''/''"
    using Itoa_chars [of p] by auto
qed simp

definition block_ok :: "string list \<Rightarrow> string list list \<Rightarrow> bool" where
  "block_ok ls ws \<longleftrightarrow> (\<forall>l \<in> set ls. CHR 0x0A \<notin> set l) \<and>
     filter (\<lambda>ws. ws \<noteq> [] \<and> hd (hd ws) \<noteq> CHR ''#'') (map config_words ls) = ws"

lemma block_ok_append: "block_ok ls ws \<Longrightarrow> block_ok ls' ws' \<Longrightarrow> block_ok (ls @ ls') (ws @ ws')"
  by (auto simp: block_ok_def)

lemma block_ok_concat: "(\<And>x. x \<in> set xs \<Longrightarrow> block_ok (f x) (g x)) \<Longrightarrow> block_ok (concat (map f xs)) (concat (map g xs))"
  by (induction xs) (simp_all add: block_ok_append, simp add: block_ok_def)

lemma config_lines_unlines: "block_ok ls ws \<Longrightarrow> config_lines (unlines ls) = ws"
  by (simp add: block_ok_def config_lines_def split_unlines fixed_words)

lemma block_ok_site:
  assumes "host_chars h" and "auth_plain r"
  shows "block_ok (site_block m r h)
    (site_words \<lparr>si_Address = siteAddress h (cm_httpPort m), si_Auth = route_auth r, si_Upstream = ''127.0.0.1:'' @ strconv_Itoa (mg_HostPort r)\<rparr>)"
proof -
  note address = plain_siteAddress [OF assms(1), of "cm_httpPort m"] and up = plain_upstream [of "mg_HostPort r"]
  have "CHR 0x0A \<notin> set l" if "l \<in> set (site_block m r h)" for l
    using that assms(2) plain_word_simps(5) [OF address] plain_word_simps(5) [OF up] plain_word_simps(5)
    by (auto simp: site_block_def auth_plain_def split: if_splits)
  then show ?thesis
    using site_block_words [OF address up assms(2)] by (simp add: block_ok_def site_words_def route_auth_def)
qed

lemma block_ok_header:
  assumes "CHR 0x0A \<notin> set (cm_admin m)"
  shows "block_ok (config_header m) [[''{''], ''admin'' # config_words (cm_admin m), [''auto_https'', ''off''], [''}'']]"
proof -
  have "config_words (tab @ ''admin '' @ cm_admin m) = ''admin'' # config_words (cm_admin m)"
    unfolding config_words_tab using config_words_two [OF fixed_words(6), of "cm_admin m"] by simp
  moreover have "config_words (tab @ ''auto_https off'') = [''auto_https'', ''off'']" by code_simp
  moreover have "hd (hd (config_words caddyManagedMarker)) = CHR ''#''" by code_simp
  moreover have "hd (hd (config_words ''# Generated by the Plorigo agent. Do not edit by hand.'')) = CHR ''#''" by code_simp
  moreover have "CHR 0x0A \<notin> set caddyManagedMarker" by (simp add: caddyManagedMarker_def)
  ultimately show ?thesis
    using assms unfolding block_ok_def config_header_def by (simp add: fixed_words)
qed

lemma renderRoutes_Inr:
  "renderRoutes m rs = Inr ls \<Longrightarrow>
     ls = concat (map (\<lambda>r. concat (map (site_block m r) (route_hosts m r))) rs) \<and>
     (\<forall>r \<in> set rs. \<exists>host. routeHost (route_label r) (cm_baseDomain m) = Inr host)"
  by (induction rs arbitrary: ls) (auto simp: route_hosts_def split: sum.splits elim!: map_sum_InrE)

lemma concat_map_concat: "concat (concat (map f xs)) = concat (map (\<lambda>x. concat (f x)) xs)"
  by (induction xs) simp_all

lemma validateCaddyToken_None: "validateCaddyToken n v = None \<Longrightarrow> CHR 0x0A \<notin> set v"
  by (auto simp: validateCaddyToken_def strings_ContainsAny_def list_ex_iff split: if_splits)

lemma newCaddyManager_admin: "newCaddyManager opts = Inr m \<Longrightarrow> CHR 0x0A \<notin> set (cm_admin m)"
  by (rule validateCaddyToken_None [of "''caddy admin address''"]) (auto simp: newCaddyManager_def Let_def split: option.splits if_splits)


definition demo_options :: Options where
  "demo_options = \<lparr>op_ControlPlaneURL = ''http://localhost:8080'', op_RegistrationToken = [], op_DataDir = ''/var/lib/plorigo/'',
     op_HeartbeatInterval = 0, op_PollInterval = 0, op_CaddyBin = [], op_CaddyConfig = [], op_CaddyBaseDomain = ''Apps.Test'',
     op_CaddyHTTPPort = 8081, op_CaddyAdmin = []\<rparr>"

definition demo_manager :: caddyManager where
  "demo_manager = \<lparr>cm_bin = ''caddy'', cm_configPath = ''/var/lib/plorigo/Caddyfile'', cm_baseDomain = ''apps.test'',
     cm_httpPort = 8081, cm_admin = ''localhost:2019''\<rparr>"

definition demo_route :: "string \<Rightarrow> string \<Rightarrow> int \<Rightarrow> managedRoute" where
  "demo_route svc dep port = \<lparr>mg_ServiceID = svc, mg_DeploymentID = dep, mg_ContainerID = ''c-'' @ dep, mg_HostPort = port,
     mg_CustomHosts = [], mg_BasicAuthUser = [], mg_BasicAuthHash = [], mg_RouteHost = []\<rparr>"

definition demo_routes :: "managedRoute list" where
  "demo_routes =
     [(demo_route ''web'' ''d2'' 3002)\<lparr>mg_CustomHosts := [''www.Example.com.'']\<rparr>,
      (demo_route ''pr-7'' ''d3'' 3003)\<lparr>mg_BasicAuthUser := ''ann'', mg_BasicAuthHash := ''$2a$10$terces'', mg_RouteHost := ''web-pr-7''\<rparr>,
      demo_route ''web'' ''d1'' 3001]"

lemma demo_ports: "strconv_Itoa 8081 = ''8081''" "strconv_Itoa 3002 = ''3002''" "strconv_Itoa 3003 = ''3003''"
  by (simp_all add: strconv_Itoa_def nat_digits.simps char_of_def bit_0)

lemma demo_manager_new: "newCaddyManager demo_options = Inr demo_manager"
  by code_simp

lemma demo_normalized:
  "normalizeRoutes demo_routes =
     Inr [(demo_route ''pr-7'' ''d3'' 3003)\<lparr>mg_BasicAuthUser := ''ann'', mg_BasicAuthHash := ''$2a$10$terces'', mg_RouteHost := ''web-pr-7''\<rparr>,
          (demo_route ''web'' ''d2'' 3002)\<lparr>mg_CustomHosts := [''www.example.com'']\<rparr>]"
  by code_simp


theorem normalizeRoutes_reference_witness:
  "normalizeRoutes (rev demo_routes) = normalizeRoutes demo_routes \<and> \<not> isl (normalizeRoutes demo_routes)"
proof -
  let ?out = "[(demo_route ''pr-7'' ''d3'' 3003)\<lparr>mg_BasicAuthUser := ''ann'', mg_BasicAuthHash := ''$2a$10$terces'', mg_RouteHost := ''web-pr-7''\<rparr>,
          (demo_route ''web'' ''d2'' 3002)\<lparr>mg_CustomHosts := [''www.example.com'']\<rparr>]"
  have norm: "map normalizeRoute demo_routes = map Inr [(demo_route ''web'' ''d2'' 3002)\<lparr>mg_CustomHosts := [''www.example.com'']\<rparr>,
      (demo_route ''pr-7'' ''d3'' 3003)\<lparr>mg_BasicAuthUser := ''ann'', mg_BasicAuthHash := ''$2a$10$terces'', mg_RouteHost := ''web-pr-7''\<rparr>,
      demo_route ''web'' ''d1'' 3001]" by code_simp
  have "one_per_age R" if "normal_routes demo_routes R" for R
  proof -
    from that norm have "R = set [(demo_route ''web'' ''d2'' 3002)\<lparr>mg_CustomHosts := [''www.example.com'']\<rparr>,
      (demo_route ''pr-7'' ''d3'' 3003)\<lparr>mg_BasicAuthUser := ''ann'', mg_BasicAuthHash := ''$2a$10$terces'', mg_RouteHost := ''web-pr-7''\<rparr>,
      demo_route ''web'' ''d1'' 3001]" by (auto simp: normal_routes_def)
    then show ?thesis by (simp add: one_per_age_def route_age_def demo_route_def)
  qed
  from normalizeRoutes_reference [OF this, of demo_routes ?out "rev demo_routes"] demo_normalized
  show ?thesis by simp
qed

section \<open>A configuration that fails is not left behind\<close>

text \<open>What the file operations are documented to do, for the content \<open>files\<close> of the host's paths. An operation that fails
  leaves other files alone; a failed rename changes nothing; a failed write may leave anything in its own file.
  Commands, directories and modes change no file's content.\<close>

definition quiet_files :: "('h \<Rightarrow> string \<Rightarrow> string option) \<Rightarrow> ('h, 'a) state \<Rightarrow> bool" where
  "quiet_files files m \<longleftrightarrow> state_io_rel (\<lambda>h h'. files h' = files h) m"

text \<open>A name \<open>os.CreateTemp\<close> may choose for the pattern.\<close>

definition temp_named :: "string \<Rightarrow> bool" where
  "temp_named p \<longleftrightarrow> (\<exists>x. p = x @ ''.caddyfile'')"

definition host_law :: "'h caddy_host \<Rightarrow> ('h \<Rightarrow> string \<Rightarrow> string option) \<Rightarrow> bool" where
  "host_law H files \<longleftrightarrow>
     (\<forall>p. quiet_files files (os_ReadFile H p)) \<and>
     (\<forall>p h s h'. run_state (os_ReadFile H p) h = (Inr s, h') \<longrightarrow> files h p = Some s) \<and>
     (\<forall>p h e h'. run_state (os_ReadFile H p) h = (Inl (NotExist e), h') \<longrightarrow> files h p = None) \<and>
     (\<forall>p. quiet_files files (os_MkdirAll H p)) \<and> (\<forall>p n. quiet_files files (os_Chmod H p n)) \<and>
     (\<forall>p. quiet_files files (tmp_Close H p)) \<and> (\<forall>b args. quiet_files files (caddy_run H b args)) \<and>
     (\<forall>d pat h p h'. run_state (os_CreateTemp H d pat) h = (Inr p, h') \<longrightarrow> files h p = None \<and> files h' = (files h)(p \<mapsto> [])) \<and>
     (\<forall>d pat h e h'. run_state (os_CreateTemp H d pat) h = (Inl e, h') \<longrightarrow> files h' = files h) \<and>
     (\<forall>d h p h'. run_state (os_CreateTemp H d temp_pattern) h = (Inr p, h') \<longrightarrow> temp_named p) \<and>
     (\<forall>p s h r h'. run_state (tmp_WriteString H p s) h = (r, h') \<longrightarrow>
        (\<forall>q. q \<noteq> p \<longrightarrow> files h' q = files h q) \<and> (r = None \<longrightarrow> files h' p = map_option (\<lambda>t. t @ s) (files h p))) \<and>
     (\<forall>a b h r h'. run_state (os_Rename H a b) h = (r, h') \<longrightarrow>
        files h' = (if r = None then (files h)(b := files h a, a := None) else files h)) \<and>
     (\<forall>p h r h'. run_state (os_Remove H p) h = (r, h') \<longrightarrow> files h' = (if r = None then (files h)(p := None) else files h)) \<and>
     (\<forall>p h e h'. run_state (os_Remove H p) h = (Some (NotExist e), h') \<longrightarrow> files h p = None) \<and>
     (\<forall>p s h r h'. run_state (os_WriteFile H p s) h = (r, h') \<longrightarrow>
        (\<forall>q. q \<noteq> p \<longrightarrow> files h' q = files h q) \<and> (r = None \<longrightarrow> files h' p = Some s))"

lemma quiet_filesD: "quiet_files files m \<Longrightarrow> run_state m h = (x, h') \<Longrightarrow> files h' = files h"
  by (auto simp: quiet_files_def dest: state_io_relD)

lemma host_lawD:
  assumes "host_law H files"
  shows "run_state (os_ReadFile H p) h = (x1, h') \<Longrightarrow> files h' = files h"
    and "run_state (os_ReadFile H p) h = (Inr s, h') \<Longrightarrow> files h p = Some s"
    and "run_state (os_ReadFile H p) h = (Inl (NotExist e), h') \<Longrightarrow> files h p = None"
    and "run_state (os_MkdirAll H p) h = (r, h') \<Longrightarrow> files h' = files h"
    and "run_state (os_Chmod H p n) h = (r, h') \<Longrightarrow> files h' = files h"
    and "run_state (tmp_Close H p) h = (r, h') \<Longrightarrow> files h' = files h"
    and "run_state (caddy_run H p args) h = (x2, h') \<Longrightarrow> files h' = files h"
    and "run_state (os_CreateTemp H d pat) h = (Inr p, h') \<Longrightarrow> files h p = None \<and> files h' = (files h)(p \<mapsto> [])"
    and "run_state (os_CreateTemp H d pat) h = (Inl s, h') \<Longrightarrow> files h' = files h"
    and "run_state (tmp_WriteString H p s) h = (r, h') \<Longrightarrow> q \<noteq> p \<Longrightarrow> files h' q = files h q"
    and "run_state (tmp_WriteString H p s) h = (None, h') \<Longrightarrow> files h' p = map_option (\<lambda>t. t @ s) (files h p)"
    and "run_state (os_Rename H p q) h = (r, h') \<Longrightarrow> files h' = (if r = None then (files h)(q := files h p, p := None) else files h)"
    and "run_state (os_Remove H p) h = (x3, h') \<Longrightarrow> files h' = (if x3 = None then (files h)(p := None) else files h)"
    and "run_state (os_Remove H p) h = (Some (NotExist e), h') \<Longrightarrow> files h p = None"
    and "run_state (os_WriteFile H p s) h = (r, h') \<Longrightarrow> q \<noteq> p \<Longrightarrow> files h' q = files h q"
    and "run_state (os_WriteFile H p s) h = (None, h') \<Longrightarrow> files h' p = Some s"
  using assms quiet_filesD unfolding host_law_def by metis+

lemma temp_name: "host_law H files \<Longrightarrow> run_state (os_CreateTemp H d temp_pattern) h = (Inr p, h') \<Longrightarrow> temp_named p"
  unfolding host_law_def by metis

lemmas readLaw = host_lawD(1,2,3) and quietLaw = host_lawD(4-7) and tempLaw = host_lawD(8,9) and writeLaw = host_lawD(10,11)
  and renameLaw = host_lawD(12) and removeLaw = host_lawD(13,14) and storeLaw = host_lawD(15,16)

lemma readExistingConfig_run:
  assumes "host_law H files" and "run_state (readExistingConfig H m) h = (r, h')"
  shows "files h' = files h"
    and "r = Inr old \<Longrightarrow> files h (cm_configPath m) = old"
    and "files h (cm_configPath m) = Some s \<Longrightarrow> \<not> strings_Contains s caddyManagedMarker \<Longrightarrow> \<exists>e. r = Inl e"
proof -
  from assms(2) obtain x where x: "run_state (os_ReadFile H (cm_configPath m)) h = (x, h')"
    and r: "r = (case x of Inl (NotExist _) \<Rightarrow> Inr None | Inl (FileError e) \<Rightarrow> Inl (''read existing Caddy config: '' @ e)
      | Inr s \<Rightarrow> if \<not> strings_Contains s caddyManagedMarker
          then Inl (''refusing to overwrite non-Plorigo Caddy config at '' @ cm_configPath m) else Inr (Some s))"
    by (auto simp: readExistingConfig_def split: prod.splits)
  show "files h' = files h" by (rule readLaw(1) [OF assms(1) x])
  show "r = Inr old \<Longrightarrow> files h (cm_configPath m) = old"
    using r x readLaw(2,3) [OF assms(1)] by (auto split: sum.splits file_error.splits if_splits)
  show "files h (cm_configPath m) = Some s \<Longrightarrow> \<not> strings_Contains s caddyManagedMarker \<Longrightarrow> \<exists>e. r = Inl e"
    using r x readLaw(2,3) [OF assms(1)] by (cases x) (fastforce split: file_error.splits)+
qed

lemma restoreConfig_run:
  assumes "host_law H files" and "run_state (restoreConfig H p old) h = (r, h')"
  shows "q \<noteq> p \<Longrightarrow> files h' q = files h q" and "r = None \<Longrightarrow> files h' p = old"
proof -
  show "q \<noteq> p \<Longrightarrow> files h' q = files h q"
    using assms(2) storeLaw(1) [OF assms(1)] removeLaw(1) [OF assms(1)]
    by (auto simp: restoreConfig_def split: option.splits prod.splits file_error.splits if_splits)
  show "files h' p = old" if "r = None"
  proof (cases old)
    case None
    with assms(2) that obtain x where x: "run_state (os_Remove H p) h = (x, h')" "x = None \<or> (\<exists>e. x = Some (NotExist e))"
      by (auto simp: restoreConfig_def split: option.splits prod.splits file_error.splits)
    then show ?thesis using None removeLaw [OF assms(1)] by (auto split: if_splits)
  qed (use assms that storeLaw(2) [OF assms(1)] in \<open>auto simp: restoreConfig_def\<close>)
qed

lemma strings_Contains_infix: "strings_Contains (xs @ sub @ ys) sub"
proof (induction xs)
  case Nil
  have "take (length sub) (sub @ ys) = sub" by simp
  then show ?case by (cases "sub @ ys") (simp_all del: take_append)
qed (simp add: take_Cons')

definition restore_failed :: "string \<Rightarrow> bool" where
  "restore_failed e \<longleftrightarrow> strings_Contains e could_not_restore"

lemma restore_failedI:
  "restore_failed (could_not_restore @ e)" "restore_failed e \<Longrightarrow> restore_failed (xs @ e)" "restore_failed e \<Longrightarrow> restore_failed (c # e)"
proof -
  show "restore_failed (could_not_restore @ e)" using strings_Contains_infix [of "[]"] by (simp add: restore_failed_def)
  show "restore_failed e \<Longrightarrow> restore_failed (xs @ e)" by (induction xs) (simp_all add: restore_failed_def)
  show "restore_failed e \<Longrightarrow> restore_failed (c # e)" by (simp add: restore_failed_def)
qed

text \<open>Either the configuration is the new one, or it is the old one, or the error says that it could not be restored.\<close>

definition applied :: "string option \<Rightarrow> string \<Rightarrow> string option \<Rightarrow> string option \<Rightarrow> bool" where
  "applied old new e now' \<longleftrightarrow> (case e of None \<Rightarrow> now' = Some new | Some e \<Rightarrow> now' = old \<or> restore_failed e)"

lemma activateConfig_run:
  assumes law: "host_law H files" and run: "run_state (activateConfig H m (files h (cm_configPath m)) tmp) h = ((logs, e), h')"
    and tmp: "files h tmp = Some new" "tmp \<noteq> cm_configPath m"
  shows "applied (files h (cm_configPath m)) new e (files h' (cm_configPath m)) \<and>
    (\<forall>q. q \<noteq> cm_configPath m \<longrightarrow> q \<noteq> tmp \<longrightarrow> files h' q = files h q)"
proof -
  let ?cfg = "cm_configPath m"
  obtain out1 e1 h1 where r1: "run_state (caddy_run H (cm_bin m) [''validate'', ''--config'', tmp, ''--adapter'', ''caddyfile'']) h = ((out1, e1), h1)"
    by (metis prod.exhaust)
  note f1 = quietLaw(4) [OF law r1]
  show ?thesis
  proof (cases e1)
    case (Some x)
    then show ?thesis using run r1 f1 by (auto simp: activateConfig_def applied_def Let_def)
  next
    case None
    obtain e2 h2 where r2: "run_state (os_Rename H tmp ?cfg) h1 = (e2, h2)" by (metis prod.exhaust)
    note f2 = renameLaw [OF law r2]
    show ?thesis
    proof (cases e2)
      case (Some x)
      then show ?thesis using run r1 None r2 f1 f2 by (auto simp: activateConfig_def applied_def Let_def)
    next
      case e2: None
      obtain out3 e3 h3 where r3: "run_state (caddy_run H (cm_bin m) [''reload'', ''--config'', ?cfg, ''--adapter'', ''caddyfile'', ''--address'', cm_admin m]) h2 = ((out3, e3), h3)"
        by (metis prod.exhaust)
      obtain out4 e4 h4 where r4: "run_state (caddy_run H (cm_bin m) [''start'', ''--config'', ?cfg, ''--adapter'', ''caddyfile'']) h3 = ((out4, e4), h4)"
        by (metis prod.exhaust)
      obtain e5 h5 where r5: "run_state (restoreConfig H ?cfg (files h ?cfg)) h4 = (e5, h5)" by (metis prod.exhaust)
      note fs = f1 f2 quietLaw(4) [OF law r3] quietLaw(4) [OF law r4]
      have up: "files h3 ?cfg = Some new" "files h4 ?cfg = Some new" "\<And>q. q \<noteq> ?cfg \<Longrightarrow> q \<noteq> tmp \<Longrightarrow> files h4 q = files h q"
        "\<And>q. q \<noteq> ?cfg \<Longrightarrow> q \<noteq> tmp \<Longrightarrow> files h3 q = files h q"
        using fs tmp e2 by auto
      note restored = restoreConfig_run [OF law r5]
      have run': "((logs, e), h') = (if e3 = None then ((logs, None), h3) else if e4 = None then ((logs, None), h4)
          else ((logs, e), h5)) \<and> (e3 \<noteq> None \<and> e4 \<noteq> None \<longrightarrow> e \<noteq> None \<and> (e5 \<noteq> None \<longrightarrow> restore_failed (the e)))"
        using run r1 None r2 e2 r3 r4 r5
        by (auto simp: activateConfig_def Let_def split: option.splits intro!: restore_failedI)
      show ?thesis using run' up restored by (auto simp: applied_def split: if_splits option.splits)
    qed
  qed
qed

lemma remove_other: "host_law H files \<Longrightarrow> run_state (os_Remove H p) h = (x, h') \<Longrightarrow> q \<noteq> p \<Longrightarrow> files h' q = files h q"
  using removeLaw(1) by fastforce

lemma run_deferring [simp]:
  "run_state (deferring c m) h = (case run_state m h of (x, h1) \<Rightarrow> (x, snd (run_state c h1)))"
  by (simp add: deferring_def split: prod.splits)

lemma writeAndActivate_run:
  assumes law: "host_law H files" and run: "run_state (writeAndActivate H m (files h (cm_configPath m)) new tmp) h = ((logs, e), h')"
    and tmp: "files h tmp = Some []" "tmp \<noteq> cm_configPath m"
  shows "applied (files h (cm_configPath m)) new e (files h' (cm_configPath m)) \<and>
    (\<forall>q. q \<noteq> cm_configPath m \<longrightarrow> q \<noteq> tmp \<longrightarrow> files h' q = files h q)"
proof -
  let ?cfg = "cm_configPath m"
  obtain r4 h4 where r4: "run_state (tmp_WriteString H tmp new) h = (r4, h4)" by (metis prod.exhaust)
  obtain r5 h5 where r5: "run_state (tmp_Close H tmp) h4 = (r5, h5)" by (metis prod.exhaust)
  obtain r6 h6 where r6: "run_state (os_Chmod H tmp 0x180) h5 = (r6, h6)" by (metis prod.exhaust)
  obtain l7 e7 h7 where r7: "run_state (activateConfig H m (files h ?cfg) tmp) h6 = ((l7, e7), h7)" by (metis prod.exhaust)
  let ?bad = "\<lambda>e. State_Monad.return ([], Some e)"
  let ?inner = "unless_err (tmp_WriteString H tmp new) (\<lambda>e. do { _ \<leftarrow> tmp_Close H tmp; ?bad (''write temporary Caddy config: '' @ e) })
     (unless_err (tmp_Close H tmp) (\<lambda>e. ?bad (''close temporary Caddy config: '' @ e))
     (unless_err (os_Chmod H tmp 0x180) (\<lambda>e. ?bad (''chmod temporary Caddy config: '' @ e))
       (activateConfig H m (files h ?cfg) tmp)))"
  obtain x h8 where inner: "run_state ?inner h = (x, h8)" by (metis prod.exhaust)
  from run have x: "x = (logs, e)" and h8: "h' = snd (run_state (os_Remove H tmp) h8)"
    unfolding writeAndActivate_def Let_def run_deferring inner by (auto split: prod.splits)
  have ran: "(r4 \<noteq> None \<or> r5 \<noteq> None) \<and> h8 = h5 \<and> e \<noteq> None \<or>
      r4 = None \<and> r5 = None \<and> r6 \<noteq> None \<and> h8 = h6 \<and> e \<noteq> None \<or> r4 = None \<and> r5 = None \<and> r6 = None \<and> h8 = h7 \<and> e = e7"
  proof (cases r4)
    case None
    note i = inner [unfolded run_unless_err r4 r5 r6 r7 prod.case None option.case]
    show ?thesis using i x None by (cases r5; cases r6; force)
  next
    case (Some y)
    have "run_state ?inner h = (([], Some (''write temporary Caddy config: '' @ y)), h5)"
      unfolding run_unless_err r4 Some prod.case option.case State_Monad.run_state_bind r5 State_Monad.run_state_return ..
    with inner x show ?thesis using Some by simp
  qed
  have same: "files h5 q = files h q" "files h6 q = files h q" if "q \<noteq> tmp" for q
    using that writeLaw(1) [OF law r4 that] quietLaw(3) [OF law r5] quietLaw(2) [OF law r6] by simp_all
  have last: "files h' q = files h8 q" if "q \<noteq> tmp" for q
    using remove_other [OF law _ that] unfolding h8 by (metis prod.collapse)
  from ran show ?thesis
  proof (elim disjE)
    assume c: "r4 = None \<and> r5 = None \<and> r6 = None \<and> h8 = h7 \<and> e = e7"
    then have "files h6 tmp = Some new"
      using writeLaw(2) [OF law r4 [unfolded c [THEN conjunct1]]] quietLaw(3) [OF law r5] quietLaw(2) [OF law r6] tmp by simp
    then have act: "applied (files h ?cfg) new e7 (files h7 ?cfg) \<and> (\<forall>q. q \<noteq> ?cfg \<longrightarrow> q \<noteq> tmp \<longrightarrow> files h7 q = files h6 q)"
      using activateConfig_run [OF law _ _ tmp(2), of h6 l7 e7 h7 new] r7 same(2) [of ?cfg] tmp(2) by simp
    have "files h' q = files h7 q" if "q \<noteq> tmp" for q using last [OF that] c by simp
    with act show ?thesis using c same(2) tmp(2) by metis
  qed (use same last tmp(2) in \<open>auto simp: applied_def\<close>)
qed


definition demo_host :: "(string \<rightharpoonup> string) caddy_host" where
  "demo_host = \<lparr>os_ReadFile = (\<lambda>p. State (\<lambda>f. (case f p of None \<Rightarrow> Inl (NotExist p) | Some s \<Rightarrow> Inr s, f))),
     os_MkdirAll = (\<lambda>p. State_Monad.return None),
     os_CreateTemp = (\<lambda>d pat. State (\<lambda>f. let p = d @ ''/.plorigo-caddy-1'' @ ''.caddyfile'' in
       if f p = None then (Inr p, f(p \<mapsto> [])) else (Inl ''file exists'', f))),
     tmp_WriteString = (\<lambda>p s. State (\<lambda>f. (None, f(p := map_option (\<lambda>t. t @ s) (f p))))),
     tmp_Close = (\<lambda>p. State_Monad.return None), os_Chmod = (\<lambda>p n. State_Monad.return None),
     os_Rename = (\<lambda>a b. State (\<lambda>f. (None, f(b := f a, a := None)))),
     os_Remove = (\<lambda>p. State (\<lambda>f. (if f p = None then Some (NotExist p) else None, f(p := None)))),
     os_WriteFile = (\<lambda>p s. State (\<lambda>f. (None, f(p \<mapsto> s)))),
     caddy_run = (\<lambda>bin args. State_Monad.return (''ok'', if args ! 0 = ''reload'' then Some (CommandError ''exit status 1'') else None))\<rparr>"

lemma demo_host_law: "host_law demo_host (\<lambda>f. f)"
  unfolding host_law_def demo_host_def quiet_files_def state_io_rel_def
  by (auto simp: Let_def temp_named_def split: if_splits option.splits)


end
