(* ===== verification/DockerRuntime.thy ===== *)
theory DockerRuntime
  imports Caddy Builder
begin

text \<open>
  The agent's view of a host: \<^verbatim>\<open>internal/agentcore/docker.go\<close> and \<^verbatim>\<open>internal/agentcore/build.go\<close>. The Docker
  Engine API, the Docker command line, the git library, the network and the disk are the operations of the record
  \<open>docker\<close> on a host state \<open>'h\<close>; everything the agent does around them is translated. An operation that reports an
  error only is of type \<open>('h, string option) state\<close>. Lines given to an \<open>emit\<close> callback are part of the
  result where a caller keeps them and left out where they are only printed.
\<close>

section \<open>The Docker Engine and its neighbours\<close>

record PortSummary =
  ps_Type :: string
  ps_PrivatePort :: "16 word"
  ps_PublicPort :: "16 word"

record Summary =
  sm_ID :: string
  sm_Labels :: "string \<rightharpoonup> string"
  sm_Ports :: "PortSummary list"

record ContainerSpec =
  sp_Name :: string
  sp_Image :: string
  sp_Env :: "string list"
  sp_ExposedPort :: string
  sp_Labels :: "string \<rightharpoonup> string"
  sp_Publish :: bool
  sp_Network :: "(string \<times> string list) option"

record LogsOptions =
  lo_Timestamps :: bool
  lo_Since :: string
  lo_Tail :: string

record ExecOptions =
  ex_Cmd :: "string list"
  ex_Env :: "string list"
  ex_AttachStdin :: bool

record CloneOptions =
  co_URL :: string
  co_Auth :: "(string \<times> string) option"
  co_Reference :: "string option"

text \<open>A message of a pull: a failure of the stream, or an error of the daemon with a status line.\<close>

type_synonym pull_message = "string + (string option \<times> string)"

record 'h docker =
  dk_ServerVersion :: "('h, string + string) state"
  dk_ImagePull :: "string \<Rightarrow> ('h, string + pull_message list) state"
  dk_ContainerList :: "bool \<Rightarrow> string \<times> string \<Rightarrow> ('h, string + Summary list) state"
  dk_ContainerStop :: "string \<Rightarrow> ('h, string option) state"
  dk_ContainerRemove :: "string \<Rightarrow> ('h, string option) state"
  dk_ContainerCreate :: "ContainerSpec \<Rightarrow> ('h, string + string) state"
  dk_ContainerStart :: "string \<Rightarrow> ('h, string option) state"
  dk_ContainerLogs :: "string \<Rightarrow> LogsOptions \<Rightarrow> ('h, string + string) state"
  dk_NetworkInspect :: "string \<Rightarrow> ('h, string option) state"
  dk_NetworkCreate :: "string \<Rightarrow> ('h, string option) state"
  dk_NetworkRemove :: "string \<Rightarrow> ('h, string option) state"
  dk_ExecCreate :: "string \<Rightarrow> ExecOptions \<Rightarrow> ('h, string + string) state"
  dk_ExecAttach :: "string \<Rightarrow> ('h, string option) state"
  dk_ExecInput :: "string \<Rightarrow> string \<Rightarrow> ('h, string option) state"
  dk_ExecOutput :: "string \<Rightarrow> ('h, string \<times> string \<times> string option) state"
  dk_ExecInspect :: "string \<Rightarrow> ('h, string + int) state"
  net_ParsePort :: "string \<Rightarrow> string option"
  net_Dial :: "string \<Rightarrow> ('h, bool) state"
  time_Now :: "('h, int) state"
  ctx_Sleep :: "int \<Rightarrow> ('h, bool) state"
  ctx_Err :: "('h, string option) state"
  time_Parse :: "string \<Rightarrow> int option"
  time_Format :: "int \<Rightarrow> string"
  git_PlainClone :: "string \<Rightarrow> CloneOptions \<Rightarrow> ('h, string + (string + string)) state"
  dir_Stat :: "string \<Rightarrow> ('h, string option) state"
  dir_Read :: "('h, string \<Rightarrow> file_error + string) state"
  dir_WriteFile :: "string \<Rightarrow> string \<Rightarrow> ('h, string option) state"
  cli_DockerBuild :: "string \<Rightarrow> string list \<Rightarrow> ('h, string list \<times> string option) state"
  cli_ImageInspect :: "string \<Rightarrow> ('h, string + string) state"
  json_error :: "string \<Rightarrow> string"

abbreviation labelManaged :: string where "labelManaged \<equiv> ''plorigo.managed''"
abbreviation labelService :: string where "labelService \<equiv> ''plorigo.service''"
abbreviation labelDeployment :: string where "labelDeployment \<equiv> ''plorigo.deployment''"
abbreviation labelBasicAuthUser :: string where "labelBasicAuthUser \<equiv> ''plorigo.basicauth.user''"
abbreviation labelBasicAuthHash :: string where "labelBasicAuthHash \<equiv> ''plorigo.basicauth.hash''"
abbreviation labelRouteHost :: string where "labelRouteHost \<equiv> ''plorigo.routehost''"

definition healthCheckTimeout :: int where "healthCheckTimeout = 30 * 10 ^ 9"
definition logTail :: string where "logTail = ''200''"

text \<open>Reading a missing key of a Go map gives the empty string.\<close>

definition label_of :: "Summary \<Rightarrow> string \<Rightarrow> string" where
  "label_of c k = (case sm_Labels c k of None \<Rightarrow> [] | Some v \<Rightarrow> v)"

definition shortID :: "string \<Rightarrow> string" where
  "shortID i = (if length i > 12 then take 12 i else i)"

section \<open>Containers\<close>

record runInput =
  ru_name :: string
  ru_imageRef :: string
  ru_env :: "string list"
  ru_containerPort :: int
  ru_appLabel :: string
  ru_deploymentID :: string
  ru_public :: bool
  ru_networkName :: string
  ru_networkAlias :: string
  ru_basicAuthUser :: string
  ru_basicAuthHash :: string
  ru_routeHost :: string

record managedContainer =
  mc_ID :: string
  mc_DeploymentID :: string

definition containerLabels :: "runInput \<Rightarrow> string \<rightharpoonup> string" where
  "containerLabels i =
     (let labels = [labelManaged \<mapsto> ''true'', labelService \<mapsto> ru_appLabel i, labelDeployment \<mapsto> ru_deploymentID i];
          labels = (if ru_basicAuthUser i \<noteq> [] \<and> ru_basicAuthHash i \<noteq> []
                    then labels(labelBasicAuthUser \<mapsto> ru_basicAuthUser i, labelBasicAuthHash \<mapsto> ru_basicAuthHash i) else labels) in
      if ru_routeHost i \<noteq> [] then labels(labelRouteHost \<mapsto> ru_routeHost i) else labels)"

text \<open>The status lines of a pull, without immediate repetitions, up to the first error.\<close>

fun pull_lines :: "string \<Rightarrow> pull_message list \<Rightarrow> string list \<times> string option" where
  "pull_lines lst [] = ([], None)"
| "pull_lines lst (Inl e # ms) = ([], Some e)"
| "pull_lines lst (Inr (Some e, _) # ms) = ([], Some e)"
| "pull_lines lst (Inr (None, s) # ms) =
     (if s \<noteq> [] \<and> s \<noteq> lst then (let (ls, e) = pull_lines s ms in (s # ls, e)) else pull_lines lst ms)"

definition docker_pull :: "'h docker \<Rightarrow> string \<Rightarrow> ('h, string list \<times> string option) state" where
  "docker_pull K imageRef = do {
     r \<leftarrow> dk_ImagePull K imageRef;
     State_Monad.return (case r of Inl e \<Rightarrow> ([], Some e) | Inr ms \<Rightarrow> pull_lines [] ms) }"

definition removeOne :: "'h docker \<Rightarrow> string \<Rightarrow> ('h, string option) state" where
  "removeOne K i = do { _ \<leftarrow> dk_ContainerStop K i; dk_ContainerRemove K i }"

fun removePrevious :: "'h docker \<Rightarrow> string \<Rightarrow> Summary list \<Rightarrow> ('h, string option) state" where
  "removePrevious K keepID [] = State_Monad.return None"
| "removePrevious K keepID (c # cs) =
     (if sm_ID c = keepID then removePrevious K keepID cs
      else unless_err (removeOne K (sm_ID c)) (\<lambda>e. State_Monad.return (Some e)) (removePrevious K keepID cs))"

definition replacePreviousExcept :: "'h docker \<Rightarrow> string \<Rightarrow> string \<Rightarrow> ('h, string option) state" where
  "replacePreviousExcept K appLabel keepID =
     attempt (dk_ContainerList K True (''label'', labelService @ ''='' @ appLabel)) (\<lambda>e. State_Monad.return (Some e))
       (removePrevious K keepID)"

definition removeContainer :: "'h docker \<Rightarrow> string \<Rightarrow> ('h, string option) state" where
  "removeContainer K containerID = (if containerID = [] then State_Monad.return None else removeOne K containerID)"

fun removeCounted :: "'h docker \<Rightarrow> nat \<Rightarrow> Summary list \<Rightarrow> ('h, nat \<times> string option) state" where
  "removeCounted K removed [] = State_Monad.return (removed, None)"
| "removeCounted K removed (c # cs) =
     unless_err (removeOne K (sm_ID c)) (\<lambda>e. State_Monad.return (removed, Some e)) (removeCounted K (Suc removed) cs)"

definition removeByService :: "'h docker \<Rightarrow> string \<Rightarrow> ('h, nat \<times> string option) state" where
  "removeByService K appLabel =
     attempt (dk_ContainerList K True (''label'', labelService @ ''='' @ appLabel)) (\<lambda>e. State_Monad.return (0, Some e))
       (removeCounted K 0)"

definition removeNetwork :: "'h docker \<Rightarrow> string \<Rightarrow> ('h, string option) state" where
  "removeNetwork K name =
     (if name = [] then State_Monad.return None
      else unless_err (dk_NetworkInspect K name) (\<lambda>_. State_Monad.return None) (dk_NetworkRemove K name))"

definition ensureNetwork :: "'h docker \<Rightarrow> string \<Rightarrow> ('h, string option) state" where
  "ensureNetwork K name =
     unless_err (dk_NetworkInspect K name)
       (\<lambda>_. unless_err (dk_NetworkCreate K name)
         (\<lambda>e. unless_err (dk_NetworkInspect K name) (\<lambda>_. State_Monad.return (Some e)) (State_Monad.return None))
         (State_Monad.return None))
       (State_Monad.return None)"

definition aliasList :: "string \<Rightarrow> string list" where
  "aliasList a = (if a = [] then [] else [a])"

definition published_on :: "16 word \<Rightarrow> Summary list \<Rightarrow> 16 word option" where
  "published_on privatePort cs =
     map_option ps_PublicPort (find (\<lambda>p. ps_PrivatePort p = privatePort \<and> ps_PublicPort p \<noteq> 0) (concat (map sm_Ports cs)))"

text \<open>At most 25 attempts, 200 ms apart.\<close>

fun publishedPortLoop :: "'h docker \<Rightarrow> nat \<Rightarrow> string \<Rightarrow> 16 word \<Rightarrow> ('h, string + int) state" where
  "publishedPortLoop K 0 containerID privatePort =
     State_Monad.return (Inl (''no published host port found for container port '' @ strconv_Itoa (uint privatePort)))"
| "publishedPortLoop K (Suc n) containerID privatePort =
     attempt (dk_ContainerList K True (''id'', containerID)) (\<lambda>e. State_Monad.return (Inl e)) (\<lambda>cs.
     case published_on privatePort cs of
       Some port \<Rightarrow> State_Monad.return (Inr (uint port))
     | None \<Rightarrow> do {
         ok \<leftarrow> ctx_Sleep K (200 * 10 ^ 6);
         if ok then publishedPortLoop K n containerID privatePort
         else do { e \<leftarrow> ctx_Err K; State_Monad.return (case e of None \<Rightarrow> Inr 0 | Some s \<Rightarrow> Inl s) } })"

definition publishedPort :: "'h docker \<Rightarrow> string \<Rightarrow> 16 word \<Rightarrow> ('h, string + int) state" where
  "publishedPort K = publishedPortLoop K 25"

text \<open>The result of \<open>run\<close>: the container's identifier, the host port, the error.\<close>

type_synonym run_result = "string \<times> int \<times> string option"

definition startContainer :: "'h docker \<Rightarrow> runInput \<Rightarrow> string \<Rightarrow> ('h, run_result) state" where
  "startContainer K i containerID =
     unless_err (dk_ContainerStart K containerID) (\<lambda>e. State_Monad.return (containerID, 0, Some e))
      (if \<not> ru_public i then State_Monad.return (containerID, 0, None)
       else attempt (publishedPort K containerID (word_of_int (ru_containerPort i)))
         (\<lambda>e. State_Monad.return (containerID, 0, Some e)) (\<lambda>hostPort. State_Monad.return (containerID, hostPort, None)))"

definition docker_run :: "'h docker \<Rightarrow> runInput \<Rightarrow> ('h, run_result) state" where
  "docker_run K i =
     (let port = strconv_Itoa (ru_containerPort i) @ ''/tcp'' in
      case net_ParsePort K port of
        Some e \<Rightarrow> State_Monad.return ([], 0, Some e)
      | None \<Rightarrow>
      unless_err (if ru_networkName i \<noteq> [] then ensureNetwork K (ru_networkName i) else State_Monad.return None)
        (\<lambda>e. State_Monad.return ([], 0, Some e))
     (attempt (dk_ContainerCreate K \<lparr>sp_Name = ru_name i, sp_Image = ru_imageRef i, sp_Env = ru_env i, sp_ExposedPort = port,
          sp_Labels = containerLabels i, sp_Publish = ru_public i,
          sp_Network = (if ru_networkName i \<noteq> [] then Some (ru_networkName i, aliasList (ru_networkAlias i)) else None)\<rparr>)
        (\<lambda>e. State_Monad.return ([], 0, Some e)) (startContainer K i)))"

definition recentLogs :: "'h docker \<Rightarrow> string \<Rightarrow> nat \<Rightarrow> ('h, string list) state" where
  "recentLogs K containerID limit = do {
     r \<leftarrow> dk_ContainerLogs K containerID \<lparr>lo_Timestamps = False, lo_Since = [], lo_Tail = logTail\<rparr>;
     State_Monad.return (case r of Inl _ \<Rightarrow> [] | Inr s \<Rightarrow> tailLines s limit) }"

definition managed_of :: "Summary list \<Rightarrow> managedContainer list" where
  "managed_of cs =
     map (\<lambda>c. \<lparr>mc_ID = sm_ID c, mc_DeploymentID = label_of c labelDeployment\<rparr>) (filter (\<lambda>c. label_of c labelDeployment \<noteq> []) cs)"

definition listManagedRunning :: "'h docker \<Rightarrow> ('h, string + managedContainer list) state" where
  "listManagedRunning K = do {
     r \<leftarrow> dk_ContainerList K False (''label'', labelManaged @ ''=true'');
     State_Monad.return (map_sum id managed_of r) }"

text \<open>The loop keeps the private and the public port chosen so far, as \<open>uint16\<close>.\<close>

fun choosePort :: "16 word \<times> 16 word \<Rightarrow> PortSummary list \<Rightarrow> 16 word \<times> 16 word" where
  "choosePort chosen [] = chosen"
| "choosePort (pri, pub) (p # ps) =
     (if ps_Type p \<noteq> ''tcp'' \<or> ps_PublicPort p = 0 then choosePort (pri, pub) ps
      else if pri = 0 \<or> ps_PrivatePort p < pri then choosePort (ps_PrivatePort p, ps_PublicPort p) ps
      else choosePort (pri, pub) ps)"

definition firstPublishedTCPPort :: "PortSummary list \<Rightarrow> int" where
  "firstPublishedTCPPort ps = uint (snd (choosePort (0, 0) ps))"

definition routeOfContainer :: "Summary \<Rightarrow> managedRoute option" where
  "routeOfContainer c =
     (let serviceID = label_of c labelService; depID = label_of c labelDeployment; hostPort = firstPublishedTCPPort (sm_Ports c) in
      if serviceID = [] \<or> depID = [] \<or> hostPort = 0 then None
      else Some \<lparr>mg_ServiceID = serviceID, mg_DeploymentID = depID, mg_ContainerID = sm_ID c, mg_HostPort = hostPort, mg_CustomHosts = [],
             mg_BasicAuthUser = label_of c labelBasicAuthUser, mg_BasicAuthHash = label_of c labelBasicAuthHash,
             mg_RouteHost = label_of c labelRouteHost\<rparr>)"

definition listManagedRoutes :: "'h docker \<Rightarrow> ('h, string + managedRoute list) state" where
  "listManagedRoutes K = do {
     r \<leftarrow> dk_ContainerList K False (''label'', labelManaged @ ''=true'');
     State_Monad.return (map_sum id (List.map_filter routeOfContainer) r) }"

definition findRunningByService :: "'h docker \<Rightarrow> string \<Rightarrow> ('h, string + string option) state" where
  "findRunningByService K serviceID = do {
     r \<leftarrow> dk_ContainerList K False (''label'', labelService @ ''='' @ serviceID);
     State_Monad.return (map_sum id (\<lambda>cs. case cs of [] \<Rightarrow> None | c # _ \<Rightarrow> Some (sm_ID c)) r) }"

section \<open>Logs and health\<close>

text \<open>\<open>strings.Cut(s, sep)\<close> for a one-byte separator; \<open>None\<close> when it does not occur.\<close>

definition strings_Cut :: "char \<Rightarrow> string \<Rightarrow> (string \<times> string) option" where
  "strings_Cut sep s =
     (if sep \<in> set s then Some (takeWhile (\<lambda>c. c \<noteq> sep) s, tl (dropWhile (\<lambda>c. c \<noteq> sep) s)) else None)"

text \<open>One pass over the lines: those kept, and the newest timestamp.\<close>

fun stampedLines :: "(string \<Rightarrow> int option) \<Rightarrow> int option \<Rightarrow> string list \<Rightarrow> string list \<times> int option" where
  "stampedLines parse newest [] = ([], newest)"
| "stampedLines parse newest (l # ls) =
     (if strings_TrimSpace l = [] then stampedLines parse newest ls
      else case strings_Cut (CHR '' '') l of
             None \<Rightarrow> (let (out, n) = stampedLines parse newest ls in (l # out, n))
           | Some (ts, msg) \<Rightarrow>
               (case parse ts of
                  None \<Rightarrow> (let (out, n) = stampedLines parse newest ls in (l # out, n))
                | Some t \<Rightarrow>
                    (let (out, n) = stampedLines parse (case newest of None \<Rightarrow> Some t | Some u \<Rightarrow> if t > u then Some t else Some u) ls in
                     (msg # out, n))))"

definition splitTimestampedLines :: "'h docker \<Rightarrow> string \<Rightarrow> string \<Rightarrow> nat \<Rightarrow> string list \<times> string" where
  "splitTimestampedLines K s since limit =
     (let (ls, newest) = stampedLines (time_Parse K) None (map trim_cr (strings_Split (CHR 0x0A) (crlf_to_lf s))) in
      (last_n limit ls, case newest of None \<Rightarrow> since | Some t \<Rightarrow> time_Format K (t + 1)))"

definition logsSince :: "'h docker \<Rightarrow> string \<Rightarrow> string \<Rightarrow> nat \<Rightarrow> ('h, string + string list \<times> string) state" where
  "logsSince K containerID since limit = do {
     r \<leftarrow> dk_ContainerLogs K containerID \<lparr>lo_Timestamps = True, lo_Since = since, lo_Tail = []\<rparr>;
     State_Monad.return (map_sum id (\<lambda>s. splitTimestampedLines K s since limit) r) }"

text \<open>The loop of \<open>healthCheck\<close>; \<open>None\<close> stands for more rounds than the fuel allows.\<close>

definition health_address :: "int \<Rightarrow> string" where
  "health_address hostPort = ''127.0.0.1:'' @ strconv_Itoa hostPort"

fun healthLoop :: "'h docker \<Rightarrow> nat \<Rightarrow> string \<Rightarrow> int \<Rightarrow> ('h, string option option) state" where
  "healthLoop K 0 addr deadline = State_Monad.return None"
| "healthLoop K (Suc n) addr deadline = do {
     connected \<leftarrow> net_Dial K addr;
     if connected then State_Monad.return (Some None)
     else do {
       t \<leftarrow> time_Now K;
       if t > deadline then State_Monad.return (Some (Some (''container did not listen on '' @ addr @ '' within 30s'')))
       else do {
         ok \<leftarrow> ctx_Sleep K (500 * 10 ^ 6);
         if ok then healthLoop K n addr deadline
         else do { e \<leftarrow> ctx_Err K; State_Monad.return (Some e) } } } }"

definition healthCheck :: "'h docker \<Rightarrow> nat \<Rightarrow> int \<Rightarrow> ('h, string option option) state" where
  "healthCheck K fuel hostPort = do {
     t \<leftarrow> time_Now K;
     healthLoop K fuel (health_address hostPort) (t + healthCheckTimeout) }"

section \<open>Backups inside a container\<close>

definition exec_failure :: "string \<Rightarrow> string \<Rightarrow> int \<Rightarrow> string option" where
  "exec_failure program stderr code =
     (if code \<noteq> 0 then (let msg = strings_TrimSpace stderr in
        Some (if msg \<noteq> [] then msg else program @ '' exited with code '' @ strconv_Itoa code)) else None)"

text \<open>\<open>dst\<close> receives the dump; its failure is the failure of the copy. The result: the error, and the bytes that were copied.\<close>

definition execPgDump ::
    "'h docker \<Rightarrow> string \<Rightarrow> string \<Rightarrow> string \<Rightarrow> string \<Rightarrow> (string \<Rightarrow> ('h, string option) state) \<Rightarrow> ('h, string option \<times> string) state" where
  "execPgDump K containerID user password dbn dst =
     (let bad = (\<lambda>e. State_Monad.return (Some e, [])) in
      attempt (dk_ExecCreate K containerID \<lparr>ex_Cmd = [''pg_dump'', ''--no-owner'', ''--no-privileges'', ''-U'', user, ''-d'', dbn],
         ex_Env = [''PGPASSWORD='' @ password], ex_AttachStdin = False\<rparr>) bad (\<lambda>i.
     unless_err (dk_ExecAttach K i) bad (do {
       (out, errors, e) \<leftarrow> dk_ExecOutput K i;
       we \<leftarrow> dst out;
       case (we, e) of
         (Some x, _) \<Rightarrow> State_Monad.return (Some x, out)
       | (None, Some x) \<Rightarrow> State_Monad.return (Some x, out)
       | (None, None) \<Rightarrow>
           attempt (dk_ExecInspect K i) (\<lambda>e. State_Monad.return (Some e, out)) (\<lambda>code.
             State_Monad.return (exec_failure ''pg_dump'' errors code, out)) })))"

definition execPsqlRestore ::
    "'h docker \<Rightarrow> string \<Rightarrow> string \<Rightarrow> string \<Rightarrow> string \<Rightarrow> string \<Rightarrow> ('h, string option) state" where
  "execPsqlRestore K containerID user password dbn src =
     attempt (dk_ExecCreate K containerID \<lparr>ex_Cmd = [''psql'', ''-v'', ''ON_ERROR_STOP=1'', ''-U'', user, ''-d'', dbn],
         ex_Env = [''PGPASSWORD='' @ password], ex_AttachStdin = True\<rparr>) (\<lambda>e. State_Monad.return (Some e)) (\<lambda>i.
     unless_err (dk_ExecAttach K i) (\<lambda>e. State_Monad.return (Some e)) (do {
       we \<leftarrow> dk_ExecInput K i src;
       (_, errors, e) \<leftarrow> dk_ExecOutput K i;
       case (we, e) of
         (Some x, _) \<Rightarrow> State_Monad.return (Some x)
       | (None, Some x) \<Rightarrow> State_Monad.return (Some x)
       | (None, None) \<Rightarrow>
           attempt (dk_ExecInspect K i) (\<lambda>e. State_Monad.return (Some e)) (\<lambda>code.
             State_Monad.return (exec_failure ''psql'' errors code)) }))"

text \<open>The environment is a map; Go renders it in some order, here in the order of the keys.\<close>

definition envSlice :: "(string \<rightharpoonup> string) \<Rightarrow> string list" where
  "envSlice env = map (\<lambda>k. k @ ''='' @ the (env k)) (sorted_list_of_set (dom env))"

section \<open>Building from Git\<close>

definition docker_clone ::
    "'h docker \<Rightarrow> string \<Rightarrow> string \<Rightarrow> string \<Rightarrow> string \<Rightarrow> ('h, string list \<times> (string + string)) state" where
  "docker_clone K cloneURL gitRef credential dir =
     (let ref = strings_TrimSpace gitRef;
          opts = \<lparr>co_URL = cloneURL, co_Auth = (if credential \<noteq> [] then Some (''x-access-token'', credential) else None),
            co_Reference = (if ref \<noteq> [] then Some (''refs/heads/'' @ ref) else None)\<rparr>;
          begun = ''cloning '' @ cloneURL @ (if ref \<noteq> [] then '' (branch '' @ ref @ '')'' else '' (default branch)'') in
      do {
        r \<leftarrow> git_PlainClone K dir opts;
        State_Monad.return (case r of
          Inl e \<Rightarrow> ([begun], Inl e)
        | Inr (Inl e) \<Rightarrow> ([begun], Inl (''resolve checked-out commit: '' @ e))
        | Inr (Inr sha) \<Rightarrow> ([begun, ''checked out '' @ shortID sha], Inr sha)) })"

text \<open>\<open>builder.OSFiles\<close>: reading below a root, on a snapshot of the disk.\<close>

definition OSFiles :: "(string \<Rightarrow> file_error + string) \<Rightarrow> string \<Rightarrow> files" where
  "OSFiles disk root p =
     (case disk (filepath_Join [root, filepath_Clean (''/'' @ p)]) of
        Inl (NotExist _) \<Rightarrow> Inr None
      | Inl (FileError e) \<Rightarrow> Inl (Opaque e)
      | Inr b \<Rightarrow> Inr (Some b))"

text \<open>\<open>lineEmitter\<close>: what one \<open>Write\<close> and the final \<open>flush\<close> emit, and the buffer that is left.\<close>

definition emitLine :: "string \<Rightarrow> string list" where
  "emitLine l = (let l = trim_cr l in if strings_TrimSpace l \<noteq> [] then [l] else [])"

definition emitter_Write :: "string \<Rightarrow> string \<Rightarrow> string list \<times> string" where
  "emitter_Write buf p =
     (let parts = strings_Split (CHR 0x0A) (buf @ p) in (concat (map emitLine (butlast parts)), last parts))"

definition emitter_flush :: "string \<Rightarrow> string list" where
  "emitter_flush buf = (if buf \<noteq> [] then emitLine buf else [])"

fun emitted :: "string \<Rightarrow> string list \<Rightarrow> string list" where
  "emitted buf [] = emitter_flush buf"
| "emitted buf (p # ps) = (let (ls, buf') = emitter_Write buf p in ls @ emitted buf' ps)"

definition box_bar :: string where "box_bar = [CHR 0xE2, CHR 0x94, CHR 0x82] @ '' ''"

definition trim_newlines :: "string \<Rightarrow> string" where
  "trim_newlines s = rev (dropWhile (\<lambda>c. c = CHR 0x0A) (rev s))"

definition generated_lines :: "Plan \<Rightarrow> string list" where
  "generated_lines plan =
     (''no Dockerfile found '' @ em_dash @ '' generated one for '' @ RuntimeLabel plan @ '' ('' @ pl_PackageManager plan @ '', node '' @
        pl_NodeVersion plan @ '')'') #
     map (\<lambda>l. box_bar @ l) (strings_Split (CHR 0x0A) (trim_newlines (pl_Dockerfile plan)))"

definition runBuild :: "'h docker \<Rightarrow> string \<Rightarrow> string \<Rightarrow> string list \<Rightarrow> string \<Rightarrow> ('h, string list \<times> string option) state" where
  "runBuild K dir tag before dockerfile = do {
     (chunks, e) \<leftarrow> cli_DockerBuild K dir [''build'', ''--tag'', tag, ''--file'', dockerfile, ''.''];
     State_Monad.return (before @ emitted [] chunks, map_option (\<lambda>e. ''docker build failed: '' @ e) e) }"

definition docker_build :: "'h docker \<Rightarrow> string \<Rightarrow> string \<Rightarrow> ('h, string list \<times> string option) state" where
  "docker_build K dir tag =
     unless_err (dir_Stat K (filepath_Join [dir, ''Dockerfile'']))
       (\<lambda>_. do {
          disk \<leftarrow> dir_Read K;
          case Detect (OSFiles disk dir) of
            Inl e \<Rightarrow> State_Monad.return ([], Some (''inspect repository: '' @ Error_string e))
          | Inr plan \<Rightarrow>
              if pl_Status plan \<noteq> StatusDetected then State_Monad.return ([], Some (pl_NextSteps plan))
              else unless_err (dir_WriteFile K (filepath_Join [dir, ''Dockerfile.plorigo'']) (pl_Dockerfile plan))
                (\<lambda>e. State_Monad.return ([], Some (''write generated Dockerfile: '' @ e)))
                (runBuild K dir tag (generated_lines plan) ''Dockerfile.plorigo'') })
       (runBuild K dir tag [] ''Dockerfile'')"

definition exposed_port :: "string \<Rightarrow> int option" where
  "exposed_port key =
     (let (spec, proto) = (case strings_Cut (CHR ''/'') key of None \<Rightarrow> (key, []) | Some x \<Rightarrow> x) in
      if proto \<noteq> [] \<and> proto \<noteq> ''tcp'' then None
      else case strconv_Atoi spec of None \<Rightarrow> None | Some n \<Rightarrow> if n > 0 \<and> n \<le> 65535 then Some n else None)"

definition lowestTCPPort :: "(string \<Rightarrow> string) \<Rightarrow> string \<Rightarrow> string + int" where
  "lowestTCPPort jsonError exposedJSON =
     (let s = strings_TrimSpace exposedJSON in
      if s = [] \<or> s = ''null'' then Inl ''the image exposes no ports''
      else case json_Parse s of
             Some (JObj members) \<Rightarrow>
               (case sort (List.map_filter exposed_port (map fst members)) of
                  [] \<Rightarrow> Inl ''the image exposes no TCP port''
                | p # _ \<Rightarrow> Inr p)
           | _ \<Rightarrow> Inl (''parse exposed ports: '' @ jsonError s))"

definition detectPort :: "'h docker \<Rightarrow> string \<Rightarrow> ('h, string + int) state" where
  "detectPort K imageTag = do {
     r \<leftarrow> cli_ImageInspect K imageTag;
     State_Monad.return (case r of Inl e \<Rightarrow> Inl (''inspect built image: '' @ e) | Inr out \<Rightarrow> lowestTCPPort (json_error K) out) }"

end
