(* ===== verification/AgentLoops.thy ===== *)
theory AgentLoops
  imports DockerRuntime
begin

text \<open>
  How the agent carries out a deployment: \<^verbatim>\<open>internal/agentcore/deploy.go\<close>, and the back-off of \<^verbatim>\<open>agentcore.go\<close> that
  its loops share. The interfaces \<open>deploymentRuntime\<close> and \<open>deploymentRouter\<close> of the code are records of operations,
  as is \<open>rpc\<close>, the agent's connections to the control plane; messages are the records of the control plane's model, since the
  protocol's fields are theirs. A loop that ends only with its context is given by one round: what it does
  and whether it goes on.
\<close>

section \<open>Interfaces\<close>

record AgentState =
  as_AgentID :: string
  as_Credential :: string
  as_PrivateKeyB64 :: string

record HeartbeatFacts =
  hf_DockerAvailable :: bool
  hf_DockerVersion :: string
  hf_OS :: string
  hf_Arch :: string
  hf_CaddyAvailable :: bool
  hf_CaddyRunning :: bool
  hf_CaddyVersion :: string
  hf_diskTotalBytes :: int
  hf_diskFreeBytes :: int
  hf_memTotalBytes :: int
  hf_memAvailableBytes :: int
  hf_CPUCount :: int

record BackupJob =
  bj_HasWork :: bool
  bj_BackupID :: string
  bj_ServiceID :: string
  bj_PgUser :: string
  bj_PgPassword :: string
  bj_PgDatabase :: string

record RestoreJob =
  rj_HasWork :: bool
  rj_RestoreID :: string
  rj_ServiceID :: string
  rj_ArtifactURI :: string
  rj_PgUser :: string
  rj_PgPassword :: string
  rj_PgDatabase :: string

record BackupReport =
  br_AgentID :: string
  br_Credential :: string
  br_BackupID :: string
  br_Status :: string
  br_ArtifactURI :: string
  br_SizeBytes :: int
  br_Checksum :: string
  br_Message :: string
  br_Error :: string

record RestoreReport =
  er_AgentID :: string
  er_Credential :: string
  er_RestoreID :: string
  er_Status :: string
  er_Message :: string
  er_Error :: string

datatype rpc_error = RpcPermissionDenied string | RpcError string

record 'h rpc =
  ident_get :: "('h, AgentState) state"
  ident_set :: "AgentState \<Rightarrow> ('h, unit) state"
  rpc_PollDeployment :: "PollInput \<Rightarrow> ('h, rpc_error + Claimed) state"
  rpc_ReportDeployment :: "ReportInput \<Rightarrow> ('h, rpc_error option) state"
  rpc_SyncRoutes :: "SyncRoutesInput \<Rightarrow> ('h, rpc_error + RouteOverride list) state"
  rpc_ReportRouteSync :: "ReportRouteSyncInput \<Rightarrow> ('h, rpc_error option) state"
  rpc_PollTeardownJob :: "PollInput \<Rightarrow> ('h, rpc_error + ClaimedTeardown) state"
  rpc_ReportTeardownJob :: "ReportTeardownInput \<Rightarrow> ('h, rpc_error option) state"
  rpc_PollBackupJob :: "PollInput \<Rightarrow> ('h, rpc_error + BackupJob) state"
  rpc_ReportBackupJob :: "BackupReport \<Rightarrow> ('h, rpc_error option) state"
  rpc_PollRestoreJob :: "PollInput \<Rightarrow> ('h, rpc_error + RestoreJob) state"
  rpc_ReportRestoreJob :: "RestoreReport \<Rightarrow> ('h, rpc_error option) state"
  rpc_Heartbeat :: "AgentState \<Rightarrow> HeartbeatFacts \<Rightarrow> ('h, rpc_error + int) state"
  rpc_Register :: "string \<Rightarrow> string \<Rightarrow> ('h, rpc_error + (string \<times> string)) state"

record 'h deploymentRuntime =
  rt_pull :: "string \<Rightarrow> ('h, string list \<times> string option) state"
  rt_clone :: "string \<Rightarrow> string \<Rightarrow> string \<Rightarrow> string \<Rightarrow> ('h, string list \<times> (string + string)) state"
  rt_build :: "string \<Rightarrow> string \<Rightarrow> ('h, string list \<times> string option) state"
  rt_detectPort :: "string \<Rightarrow> ('h, string + int) state"
  rt_run :: "runInput \<Rightarrow> ('h, run_result) state"
  rt_replacePreviousExcept :: "string \<Rightarrow> string \<Rightarrow> ('h, string option) state"
  rt_removeContainer :: "string \<Rightarrow> ('h, string option) state"
  rt_recentLogs :: "string \<Rightarrow> nat \<Rightarrow> ('h, string list) state"
  rt_listManagedRunning :: "('h, string + managedContainer list) state"
  rt_logsSince :: "string \<Rightarrow> string \<Rightarrow> nat \<Rightarrow> ('h, string + string list \<times> string) state"
  rt_listManagedRoutes :: "('h, string + managedRoute list) state"

definition dockerRuntime :: "'h docker \<Rightarrow> 'h deploymentRuntime" where
  "dockerRuntime K = \<lparr>rt_pull = docker_pull K, rt_clone = docker_clone K, rt_build = docker_build K, rt_detectPort = detectPort K,
     rt_run = docker_run K, rt_replacePreviousExcept = replacePreviousExcept K, rt_removeContainer = removeContainer K,
     rt_recentLogs = recentLogs K, rt_listManagedRunning = listManagedRunning K, rt_logsSince = logsSince K,
     rt_listManagedRoutes = listManagedRoutes K\<rparr>"

record 'h deploymentRouter =
  ro_apply :: "managedRoute list \<Rightarrow> ('h, string list \<times> string option) state"
  ro_routeURL :: "string \<Rightarrow> string + string"

definition caddyRouter :: "'h caddy_host \<Rightarrow> caddyManager \<Rightarrow> 'h deploymentRouter" where
  "caddyRouter H m = \<lparr>ro_apply = caddy_apply H m, ro_routeURL = routeURL m\<rparr>"

text \<open>What the loops use of \<^verbatim>\<open>os\<close>: temporary workspaces, directories, and files written as a stream.\<close>

record 'h agent_os =
  ao_MkdirTemp :: "string \<Rightarrow> ('h, string + string) state"
  ao_Chmod :: "string \<Rightarrow> nat \<Rightarrow> ('h, string option) state"
  ao_RemoveAll :: "string \<Rightarrow> ('h, string option) state"
  ao_MkdirAll :: "string \<Rightarrow> ('h, string option) state"
  ao_OpenFile :: "string \<Rightarrow> ('h, string option) state"
  ao_Write :: "string \<Rightarrow> string \<Rightarrow> ('h, string option) state"
  ao_Close :: "string \<Rightarrow> ('h, string option) state"
  ao_Open :: "string \<Rightarrow> ('h, string option) state"
  ao_Remove :: "string \<Rightarrow> ('h, string option) state"
  ao_StatSize :: "string \<Rightarrow> ('h, int option) state"
  ao_ReadFile :: "string \<Rightarrow> ('h, file_error + string) state"
  ao_WriteFile :: "string \<Rightarrow> string \<Rightarrow> ('h, string option) state"

section \<open>Executing a deployment\<close>

abbreviation statusCloning :: string where "statusCloning \<equiv> ''cloning''"
abbreviation statusBuilding :: string where "statusBuilding \<equiv> ''building''"
abbreviation statusPulling :: string where "statusPulling \<equiv> ''pulling''"
abbreviation statusStarting :: string where "statusStarting \<equiv> ''starting''"
abbreviation statusHealthcheck :: string where "statusHealthcheck \<equiv> ''healthcheck''"
abbreviation statusRouting :: string where "statusRouting \<equiv> ''routing''"
abbreviation statusRunning :: string where "statusRunning \<equiv> ''running''"
abbreviation statusFailed :: string where "statusFailed \<equiv> ''failed''"
abbreviation streamBuild :: string where "streamBuild \<equiv> ''build''"
abbreviation streamRuntime :: string where "streamRuntime \<equiv> ''runtime''"

text \<open>The variables that the closure \<open>report\<close> of \<open>executeDeployment\<close> captures.\<close>

record captured =
  cp_depID :: string
  cp_commitSHA :: string
  cp_builtImageRef :: string
  cp_routeURL :: string

record report_input =
  rep_stream :: string
  rep_status :: string
  rep_hostPort :: int
  rep_containerID :: string
  rep_message :: string
  rep_logs :: "string list"

definition report :: "'h rpc \<Rightarrow> captured \<Rightarrow> report_input \<Rightarrow> ('h, unit) state" where
  "report P c i = do {
     st \<leftarrow> ident_get P;
     _ \<leftarrow> rpc_ReportDeployment P \<lparr>ri_AgentID = as_AgentID st, ri_Credential = as_Credential st, ri_DeploymentID = cp_depID c,
        ri_Status = rep_status i, ri_HostPort = rep_hostPort i, ri_ContainerID = rep_containerID i, ri_LogLines = rep_logs i,
        ri_LogStream = rep_stream i, ri_Message = rep_message i, ri_CommitSha = cp_commitSHA c, ri_BuiltImageRef = cp_builtImageRef c,
        ri_RouteURL = cp_routeURL c\<rparr>;
     State_Monad.return () }"

definition reportBuild :: "'h rpc \<Rightarrow> captured \<Rightarrow> string \<Rightarrow> int \<Rightarrow> string \<Rightarrow> string \<Rightarrow> string list \<Rightarrow> ('h, unit) state" where
  "reportBuild P c status hostPort containerID message logs =
     report P c \<lparr>rep_stream = streamBuild, rep_status = status, rep_hostPort = hostPort, rep_containerID = containerID,
       rep_message = message, rep_logs = logs\<rparr>"

definition reportRuntime :: "'h rpc \<Rightarrow> captured \<Rightarrow> string \<Rightarrow> int \<Rightarrow> string \<Rightarrow> string \<Rightarrow> string list \<Rightarrow> ('h, unit) state" where
  "reportRuntime P c status hostPort containerID message logs =
     report P c \<lparr>rep_stream = streamRuntime, rep_status = status, rep_hostPort = hostPort, rep_containerID = containerID,
       rep_message = message, rep_logs = logs\<rparr>"

definition routesForDeployment :: "managedRoute list \<Rightarrow> managedRoute \<Rightarrow> managedRoute list" where
  "routesForDeployment existing current =
     filter (\<lambda>r. \<not> (mg_ServiceID r = mg_ServiceID current \<or> mg_ContainerID r = mg_ContainerID current)) existing @ [current]"

definition runningMessage :: "bool \<Rightarrow> string \<Rightarrow> string \<Rightarrow> int \<Rightarrow> int \<Rightarrow> string" where
  "runningMessage public url alias containerPort hostPort =
     (if public then ''running at '' @ url @ '' (internal host port '' @ strconv_Itoa hostPort @ '')''
      else ''running (private; reachable at http://'' @ alias @ '':'' @ strconv_Itoa containerPort @ '' inside the environment)'')"

definition containerName :: "string \<Rightarrow> string" where
  "containerName deploymentID = ''plorigo-'' @ shortID deploymentID"

text \<open>\<open>appendCapped\<close> over all the lines a callback is given.\<close>

definition appendCapped :: "nat \<Rightarrow> string list \<Rightarrow> string \<Rightarrow> string list" where
  "appendCapped limit s line' = (if length s \<ge> limit then s else s @ [line'])"

definition capped :: "nat \<Rightarrow> string list \<Rightarrow> string list" where
  "capped limit ls = foldl (appendCapped limit) [] ls"

definition cleanupFailedContainer :: "'h deploymentRuntime \<Rightarrow> string \<Rightarrow> ('h, unit) state" where
  "cleanupFailedContainer R containerID =
     (if containerID = [] then State_Monad.return ()
      else do { _ \<leftarrow> rt_removeContainer R containerID; State_Monad.return () })"

text \<open>The result: the built image and its log lines when the build succeeded, and the captured variables, since the commit
  is recorded as soon as it is known.\<close>

definition buildIn ::
    "'h rpc \<Rightarrow> 'h deploymentRuntime \<Rightarrow> Claimed \<Rightarrow> captured \<Rightarrow> string \<Rightarrow> ('h, (string \<times> string list) option \<times> captured) state" where
  "buildIn P R job c dir = do {
     _ \<leftarrow> reportBuild P c statusCloning 0 [] (''cloning '' @ cl_CloneURL job) [];
     (cloneOut, r) \<leftarrow> rt_clone R (cl_CloneURL job) (cl_GitRef job) (cl_GitCredential job) dir;
     let cloneLines = capped 30 cloneOut;
     case r of
       Inl e \<Rightarrow> do { _ \<leftarrow> reportBuild P c statusFailed 0 [] (''clone failed: '' @ e) cloneLines; State_Monad.return (None, c) }
     | Inr checkedOut \<Rightarrow> do {
         let c = c\<lparr>cp_commitSHA := checkedOut\<rparr>;
         let tag = cl_BuiltImageTag job;
         _ \<leftarrow> reportBuild P c statusBuilding 0 [] ''building image with BuildKit'' cloneLines;
         (buildOut, e) \<leftarrow> rt_build R dir tag;
         let buildLines = capped maxReportLogLines buildOut;
         case e of
           Some e \<Rightarrow> do { _ \<leftarrow> reportBuild P c statusFailed 0 [] (''build failed: '' @ e) buildLines; State_Monad.return (None, c) }
         | None \<Rightarrow> State_Monad.return (Some (tag, buildLines), c) } }"

definition buildFromSource ::
    "'h rpc \<Rightarrow> 'h deploymentRuntime \<Rightarrow> 'h agent_os \<Rightarrow> Claimed \<Rightarrow> captured \<Rightarrow> ('h, (string \<times> string list) option \<times> captured) state" where
  "buildFromSource P R F job c =
     attempt (ao_MkdirTemp F ''plorigo-build-'')
       (\<lambda>e. do { _ \<leftarrow> reportBuild P c statusFailed 0 [] (''could not create a build workspace: '' @ e) []; State_Monad.return (None, c) })
       (\<lambda>dir. do {
          _ \<leftarrow> ao_Chmod F dir 0x1C0;
          deferring (do { _ \<leftarrow> ao_RemoveAll F dir; State_Monad.return () }) (buildIn P R job c dir) })"

text \<open>Getting the image onto the host. The result: image, port to publish, log lines and captured variables, or \<open>None\<close>
  when a failure has been reported.\<close>

definition prepareImage ::
    "'h rpc \<Rightarrow> 'h deploymentRuntime \<Rightarrow> 'h agent_os \<Rightarrow> Claimed \<Rightarrow> captured \<Rightarrow> ('h, (string \<times> int \<times> string list \<times> captured) option) state" where
  "prepareImage P R F job c =
     (if cl_SourceKind job = SourceGit then do {
        (built, c) \<leftarrow> buildFromSource P R F job c;
        case built of
          None \<Rightarrow> State_Monad.return None
        | Some (tag, logs) \<Rightarrow>
            let c = c\<lparr>cp_builtImageRef := tag\<rparr> in
            if cl_ContainerPort job = 0
            then attempt (rt_detectPort R tag)
              (\<lambda>e. do {
                 _ \<leftarrow> reportBuild P c statusFailed 0 [] (''could not determine which port to publish '' @ em_dash @
                   '' set a container port, or add an EXPOSE to the Dockerfile: '' @ e) logs;
                 State_Monad.return None })
              (\<lambda>port. State_Monad.return (Some (tag, port, logs, c)))
            else State_Monad.return (Some (tag, cl_ContainerPort job, logs, c)) }
      else do {
        _ \<leftarrow> reportBuild P c statusPulling 0 [] (''pulling image '' @ cl_ImageRef job) [];
        (out, e) \<leftarrow> rt_pull R (cl_ImageRef job);
        let prepLogs = capped 30 out;
        case e of
          Some e \<Rightarrow> do { _ \<leftarrow> reportBuild P c statusFailed 0 [] (''image pull failed: '' @ e) prepLogs; State_Monad.return None }
        | None \<Rightarrow> State_Monad.return (Some (cl_ImageRef job, cl_ContainerPort job, prepLogs, c)) })"

text \<open>Probing a public container and switching its route. The result: the captured variables with the route's URL, or \<open>None\<close>
  when a failure has been reported and the container cleaned up.\<close>

definition failAndClean :: "'h rpc \<Rightarrow> 'h deploymentRuntime \<Rightarrow> captured \<Rightarrow> int \<Rightarrow> string \<Rightarrow> string \<Rightarrow> string list \<Rightarrow> ('h, captured option) state" where
  "failAndClean P R c hostPort containerID message logs = do {
     _ \<leftarrow> reportBuild P c statusFailed hostPort containerID message logs;
     _ \<leftarrow> cleanupFailedContainer R containerID;
     State_Monad.return None }"

definition switchRoute ::
    "'h rpc \<Rightarrow> 'h deploymentRuntime \<Rightarrow> 'h deploymentRouter \<Rightarrow> Claimed \<Rightarrow> captured \<Rightarrow> string \<Rightarrow> int \<Rightarrow> ('h, captured option) state" where
  "switchRoute P R Q job c containerID hostPort =
     (let appLabel = cl_AppLabel job; routeHostLabel = (if cl_RouteHost job = [] then appLabel else cl_RouteHost job) in
      case ro_routeURL Q routeHostLabel of
        Inl e \<Rightarrow> failAndClean P R c hostPort containerID (''could not derive Caddy route: '' @ e) []
      | Inr url \<Rightarrow>
          let c = c\<lparr>cp_routeURL := url\<rparr> in
          do {
            _ \<leftarrow> reportBuild P c statusRouting hostPort containerID (''routing traffic to '' @ url) [];
            attempt (rt_listManagedRoutes R)
              (\<lambda>e. failAndClean P R c hostPort containerID (''could not inspect running containers for Caddy routes: '' @ e) [])
              (\<lambda>routes. do {
                 (logs, e) \<leftarrow> ro_apply Q (routesForDeployment routes
                   \<lparr>mg_ServiceID = appLabel, mg_DeploymentID = cp_depID c, mg_ContainerID = containerID, mg_HostPort = hostPort,
                     mg_CustomHosts = [], mg_BasicAuthUser = cl_BasicAuthUser job, mg_BasicAuthHash = cl_BasicAuthHash job,
                     mg_RouteHost = cl_RouteHost job\<rparr>);
                 case e of
                   Some e \<Rightarrow> failAndClean P R c hostPort containerID (''Caddy routing failed: '' @ e) (if logs = [] then [e] else logs)
                 | None \<Rightarrow> State_Monad.return (Some c) }) })"

definition probeAndRoute ::
    "'h rpc \<Rightarrow> 'h deploymentRuntime \<Rightarrow> 'h deploymentRouter \<Rightarrow> (int \<Rightarrow> ('h, string option) state) \<Rightarrow> Claimed \<Rightarrow> captured \<Rightarrow> string \<Rightarrow> int \<Rightarrow>
     ('h, captured option) state" where
  "probeAndRoute P R Q runHealthCheck job c containerID hostPort = do {
     _ \<leftarrow> reportBuild P c statusHealthcheck hostPort containerID
       ''running health check (waiting for the container to accept connections)'' [];
     e \<leftarrow> runHealthCheck hostPort;
     case e of
       Some e \<Rightarrow> do {
         logs \<leftarrow> rt_recentLogs R containerID maxReportLogLines;
         _ \<leftarrow> reportRuntime P c statusFailed hostPort containerID (''health check failed: '' @ e) logs;
         _ \<leftarrow> cleanupFailedContainer R containerID;
         State_Monad.return None }
     | None \<Rightarrow> switchRoute P R Q job c containerID hostPort }"

section \<open>Custom routes\<close>

definition managedRouteMessage :: "managedRoute \<Rightarrow> ManagedRoute" where
  "managedRouteMessage r = \<lparr>mr_ServiceID = mg_ServiceID r, mr_DeploymentID = mg_DeploymentID r, mr_HostPort = mg_HostPort r\<rparr>"

text \<open>\<open>byService[override.ServiceId]\<close>: the last route of the service.\<close>

definition by_service :: "managedRoute list \<Rightarrow> string \<Rightarrow> managedRoute option" where
  "by_service routes svc = find (\<lambda>r. mg_ServiceID r = svc) (rev routes)"

fun applyOverrides ::
    "managedRoute list \<Rightarrow> managedRoute list \<Rightarrow> RouteSyncResult list \<Rightarrow> RouteOverride list \<Rightarrow> managedRoute list \<times> RouteSyncResult list" where
  "applyOverrides routes desired results [] = (desired, results)"
| "applyOverrides routes desired results (ov # ovs) =
     (case by_service routes (ro_ServiceID ov) of
        None \<Rightarrow> applyOverrides routes desired results ovs
      | Some base \<Rightarrow>
          if ro_Hostnames ov = [] then applyOverrides routes desired results ovs
          else applyOverrides routes
            (routesForDeployment desired \<lparr>mg_ServiceID = mg_ServiceID base, mg_DeploymentID = mg_DeploymentID base,
               mg_ContainerID = mg_ContainerID base, mg_HostPort = mg_HostPort base, mg_CustomHosts = ro_Hostnames ov,
               mg_BasicAuthUser = [], mg_BasicAuthHash = [], mg_RouteHost = []\<rparr>)
            (results @ [\<lparr>rr_ServiceID = mg_ServiceID base, rr_DeploymentID = mg_DeploymentID base, rr_Hostnames = ro_Hostnames ov,
               rr_OK = True, rr_Message = ''Domain is routed to this service.''\<rparr>]) ovs)"

definition syncResults :: "RouteSyncResult list \<Rightarrow> string list \<Rightarrow> string option \<Rightarrow> RouteSyncResult list" where
  "syncResults results logs e =
     (case e of
        None \<Rightarrow> results
      | Some e \<Rightarrow>
          (let msg = (if logs = [] then ''Caddy routing failed: '' @ e else last logs) in
           map (\<lambda>r. r\<lparr>rr_OK := False, rr_Message := msg\<rparr>) results))"

definition syncCustomRoutes :: "'h rpc \<Rightarrow> 'h deploymentRuntime option \<Rightarrow> 'h deploymentRouter option \<Rightarrow> ('h, unit) state" where
  "syncCustomRoutes P runtime router =
     (case (runtime, router) of
        (Some R, Some Q) \<Rightarrow>
          attempt (rt_listManagedRoutes R) (\<lambda>_. State_Monad.return ()) (\<lambda>routes.
          if routes = [] then State_Monad.return ()
          else do {
            st \<leftarrow> ident_get P;
            attempt (rpc_SyncRoutes P \<lparr>sy_AgentID = as_AgentID st, sy_Credential = as_Credential st, sy_Routes = map managedRouteMessage routes\<rparr>)
              (\<lambda>_. State_Monad.return ())
              (\<lambda>overrides.
                 let (desired, results) = applyOverrides routes routes [] overrides in
                 do {
                   (logs, e) \<leftarrow> ro_apply Q desired;
                   let results = syncResults results logs e;
                   if results = [] then State_Monad.return ()
                   else do {
                     st \<leftarrow> ident_get P;
                     _ \<leftarrow> rpc_ReportRouteSync P \<lparr>rrs_AgentID = as_AgentID st, rrs_Credential = as_Credential st, rrs_Results = results\<rparr>;
                     State_Monad.return () } }) })
      | _ \<Rightarrow> State_Monad.return ())"

section \<open>The whole deployment\<close>

definition finishDeployment ::
    "'h rpc \<Rightarrow> 'h deploymentRuntime \<Rightarrow> 'h deploymentRouter \<Rightarrow> Claimed \<Rightarrow> captured \<Rightarrow> bool \<Rightarrow> int \<Rightarrow> string \<Rightarrow> int \<Rightarrow> ('h, unit) state" where
  "finishDeployment P R Q job c public containerPort containerID hostPort = do {
     let message = runningMessage public (cp_routeURL c) (cl_NetworkAlias job) containerPort hostPort;
     e \<leftarrow> rt_replacePreviousExcept R (cl_AppLabel job) containerID;
     let message = (case e of None \<Rightarrow> message | Some e \<Rightarrow> message @ ''; could not remove previous container: '' @ e);
     logs \<leftarrow> rt_recentLogs R containerID maxReportLogLines;
     _ \<leftarrow> reportRuntime P c statusRunning hostPort containerID message logs;
     syncCustomRoutes P (Some R) (Some Q) }"

definition runInputOf :: "Claimed \<Rightarrow> string \<Rightarrow> int \<Rightarrow> runInput" where
  "runInputOf job imageRef containerPort =
     \<lparr>ru_name = containerName (cl_DeploymentID job), ru_imageRef = imageRef, ru_env = envSlice (cl_Env job), ru_containerPort = containerPort,
       ru_appLabel = cl_AppLabel job, ru_deploymentID = cl_DeploymentID job, ru_public = (cl_Visibility job \<noteq> ''private''),
       ru_networkName = cl_NetworkName job, ru_networkAlias = cl_NetworkAlias job, ru_basicAuthUser = cl_BasicAuthUser job,
       ru_basicAuthHash = cl_BasicAuthHash job, ru_routeHost = cl_RouteHost job\<rparr>"

definition startDeployment ::
    "'h rpc \<Rightarrow> 'h deploymentRuntime \<Rightarrow> 'h deploymentRouter \<Rightarrow> (int \<Rightarrow> ('h, string option) state) \<Rightarrow> Claimed \<Rightarrow>
     string \<times> int \<times> string list \<times> captured \<Rightarrow> ('h, unit) state" where
  "startDeployment P R Q runHealthCheck job prepared =
     (let (imageRef, containerPort, prepLogs, c) = prepared; public = (cl_Visibility job \<noteq> ''private'') in
      do {
        _ \<leftarrow> reportBuild P c statusStarting 0 [] ''starting container'' prepLogs;
        (containerID, hostPort, e) \<leftarrow> rt_run R (runInputOf job imageRef containerPort);
        case e of
          Some e \<Rightarrow> do {
            crashLogs \<leftarrow> (if containerID \<noteq> [] then rt_recentLogs R containerID maxReportLogLines else State_Monad.return []);
            _ \<leftarrow> reportRuntime P c statusFailed hostPort containerID (''could not start container: '' @ e) crashLogs;
            cleanupFailedContainer R containerID }
        | None \<Rightarrow>
            if public then do {
              routed \<leftarrow> probeAndRoute P R Q runHealthCheck job c containerID hostPort;
              case routed of
                None \<Rightarrow> State_Monad.return ()
              | Some c \<Rightarrow> finishDeployment P R Q job c public containerPort containerID hostPort }
            else finishDeployment P R Q job c public containerPort containerID hostPort })"

definition executeDeployment ::
    "'h rpc \<Rightarrow> 'h deploymentRuntime option \<Rightarrow> 'h deploymentRouter option \<Rightarrow> 'h agent_os \<Rightarrow> (int \<Rightarrow> ('h, string option) state) \<Rightarrow> Claimed \<Rightarrow>
     ('h, unit) state" where
  "executeDeployment P runtime router F runHealthCheck job =
     (let c = \<lparr>cp_depID = cl_DeploymentID job, cp_commitSHA = [], cp_builtImageRef = [], cp_routeURL = []\<rparr> in
      case runtime of
        None \<Rightarrow> reportBuild P c statusFailed 0 [] ''Docker is not available on this server'' []
      | Some R \<Rightarrow>
      (case router of
        None \<Rightarrow> reportBuild P c statusFailed 0 [] ''Caddy routing is not configured on this server'' []
      | Some Q \<Rightarrow> do {
          prepared \<leftarrow> prepareImage P R F job c;
          case prepared of None \<Rightarrow> State_Monad.return () | Some x \<Rightarrow> startDeployment P R Q runHealthCheck job x }))"

section \<open>Loops\<close>

definition maxBackoff :: int where "maxBackoff = 60 * 10 ^ 9"
definition firstBackoff :: int where "firstBackoff = 10 ^ 9"

definition nextBackoff :: "int \<Rightarrow> int" where
  "nextBackoff d = (if d * 2 > maxBackoff then maxBackoff else d * 2)"

text \<open>One round of a polling loop: the next back-off, or \<open>None\<close> when the loop returns. \<open>idle\<close> is what a poll without work
  does, with whether the loop goes on.\<close>

definition pollRound ::
    "'h docker \<Rightarrow> 'h rpc \<Rightarrow> (PollInput \<Rightarrow> ('h, rpc_error + 'j) state) \<Rightarrow> ('j \<Rightarrow> bool) \<Rightarrow> ('j \<Rightarrow> ('h, unit) state) \<Rightarrow> ('h, bool) state \<Rightarrow> int \<Rightarrow>
     ('h, int option) state" where
  "pollRound K P poll hasWork execute idle backoff = do {
     st \<leftarrow> ident_get P;
     r \<leftarrow> poll \<lparr>pi_AgentID = as_AgentID st, pi_Credential = as_Credential st\<rparr>;
     case r of
       Inl _ \<Rightarrow> do {
         ended \<leftarrow> ctx_Err K;
         if ended \<noteq> None then State_Monad.return None
         else do {
           ok \<leftarrow> ctx_Sleep K backoff;
           State_Monad.return (if ok then Some (nextBackoff backoff) else None) } }
     | Inr job \<Rightarrow>
         if \<not> hasWork job then do {
           on \<leftarrow> idle;
           State_Monad.return (if on then Some firstBackoff else None) }
         else do { _ \<leftarrow> execute job; State_Monad.return (Some firstBackoff) } }"

definition deployRound ::
    "'h docker \<Rightarrow> 'h rpc \<Rightarrow> 'h deploymentRuntime option \<Rightarrow> 'h deploymentRouter option \<Rightarrow> 'h agent_os \<Rightarrow> (int \<Rightarrow> ('h, string option) state) \<Rightarrow>
     int \<Rightarrow> int \<Rightarrow> ('h, int option) state" where
  "deployRound K P runtime router F runHealthCheck interval =
     pollRound K P (rpc_PollDeployment P) cl_HasWork (executeDeployment P runtime router F runHealthCheck) (ctx_Sleep K interval)"

definition routeSyncRound :: "'h docker \<Rightarrow> 'h rpc \<Rightarrow> 'h deploymentRuntime option \<Rightarrow> 'h deploymentRouter option \<Rightarrow> int \<Rightarrow> ('h, bool) state" where
  "routeSyncRound K P runtime router interval = do { _ \<leftarrow> syncCustomRoutes P runtime router; ctx_Sleep K interval }"

end
