(* ===== verification/AgentCore.thy ===== *)
theory AgentCore
  imports AgentLoops
begin

text \<open>
  The rest of the agent: the runtime-log loop of \<^verbatim>\<open>internal/agentcore/deploy.go\<close>, \<^verbatim>\<open>teardown.go\<close>, \<^verbatim>\<open>backup.go\<close>, the
  identity and the heartbeat of \<^verbatim>\<open>agentcore.go\<close>, and the health facts of \<^verbatim>\<open>health.go\<close> and \<^verbatim>\<open>sysinfo.go\<close>. Key
  generation and the probes of the host are operations of the record \<open>host_probes\<close>.
\<close>

section \<open>Runtime logs\<close>

definition nowCursor :: "'h docker \<Rightarrow> ('h, string) state" where
  "nowCursor K = do { t \<leftarrow> time_Now K; State_Monad.return (time_Format K t) }"

definition reportLines :: "'h docker \<Rightarrow> 'h rpc \<Rightarrow> managedContainer \<Rightarrow> string list \<Rightarrow> ('h, bool) state" where
  "reportLines K P c ls = do {
     st \<leftarrow> ident_get P;
     e \<leftarrow> rpc_ReportDeployment P \<lparr>ri_AgentID = as_AgentID st, ri_Credential = as_Credential st, ri_DeploymentID = mc_DeploymentID c,
        ri_Status = statusRunning, ri_HostPort = 0, ri_ContainerID = [], ri_LogLines = ls, ri_LogStream = streamRuntime,
        ri_Message = [], ri_CommitSha = [], ri_BuiltImageRef = [], ri_RouteURL = []\<rparr>;
     case e of
       None \<Rightarrow> State_Monad.return True
     | Some _ \<Rightarrow> do { ended \<leftarrow> ctx_Err K; State_Monad.return (ended = None) } }"

text \<open>The cursors after tailing every container, or \<open>None\<close> when the loop returns.\<close>

fun tailContainers ::
    "'h docker \<Rightarrow> 'h rpc \<Rightarrow> 'h deploymentRuntime \<Rightarrow> (string \<rightharpoonup> string) \<Rightarrow> managedContainer list \<Rightarrow> ('h, (string \<rightharpoonup> string) option) state" where
  "tailContainers K P R cursors [] = State_Monad.return (Some cursors)"
| "tailContainers K P R cursors (c # cs) =
     (case cursors (mc_ID c) of
        None \<Rightarrow> do { now' \<leftarrow> nowCursor K; tailContainers K P R (cursors(mc_ID c \<mapsto> now')) cs }
      | Some since \<Rightarrow>
          attempt (rt_logsSince R (mc_ID c) since maxReportLogLines)
            (\<lambda>_. do { ended \<leftarrow> ctx_Err K; if ended \<noteq> None then State_Monad.return None else tailContainers K P R cursors cs })
            (\<lambda>(ls, nxt).
               let cursors = cursors(mc_ID c \<mapsto> nxt) in
               if ls = [] then tailContainers K P R cursors cs
               else do {
                 on \<leftarrow> reportLines K P c ls;
                 if on then tailContainers K P R cursors cs else State_Monad.return None }))"

definition runtimeLogRound ::
    "'h docker \<Rightarrow> 'h rpc \<Rightarrow> 'h deploymentRuntime \<Rightarrow> int \<Rightarrow> (string \<rightharpoonup> string) \<Rightarrow> ('h, (string \<rightharpoonup> string) option) state" where
  "runtimeLogRound K P R interval cursors = do {
     ok \<leftarrow> ctx_Sleep K (if interval \<le> 0 then 3 * 10 ^ 9 else interval);
     if \<not> ok then State_Monad.return None
     else attempt (rt_listManagedRunning R)
       (\<lambda>_. do { ended \<leftarrow> ctx_Err K; State_Monad.return (if ended \<noteq> None then None else Some cursors) })
       (\<lambda>running. do {
          r \<leftarrow> tailContainers K P R cursors running;
          State_Monad.return (map_option (\<lambda>c. c |` set (map mc_ID running)) r) }) }"

section \<open>Teardown\<close>

record 'h teardownRuntime =
  tr_removeByService :: "string \<Rightarrow> ('h, nat \<times> string option) state"
  tr_listManagedRoutes :: "('h, string + managedRoute list) state"
  tr_removeNetwork :: "string \<Rightarrow> ('h, string option) state"

definition dockerTeardown :: "'h docker \<Rightarrow> 'h teardownRuntime" where
  "dockerTeardown K = \<lparr>tr_removeByService = removeByService K, tr_listManagedRoutes = listManagedRoutes K, tr_removeNetwork = removeNetwork K\<rparr>"

abbreviation teardownStatusStopping :: string where "teardownStatusStopping \<equiv> ''stopping''"
abbreviation teardownStatusRemoving :: string where "teardownStatusRemoving \<equiv> ''removing''"
abbreviation teardownStatusSucceeded :: string where "teardownStatusSucceeded \<equiv> ''succeeded''"
abbreviation teardownStatusFailed :: string where "teardownStatusFailed \<equiv> ''failed''"

definition reportTeardown :: "'h rpc \<Rightarrow> string \<Rightarrow> string \<Rightarrow> string \<Rightarrow> string \<Rightarrow> ('h, unit) state" where
  "reportTeardown P teardownID status message errMsg = do {
     st \<leftarrow> ident_get P;
     _ \<leftarrow> rpc_ReportTeardownJob P \<lparr>rp_AgentID = as_AgentID st, rp_Credential = as_Credential st, rp_TeardownID = teardownID,
       rp_Status = status, rp_Message = message, rp_Error = errMsg\<rparr>;
     State_Monad.return () }"

definition failTeardown :: "'h rpc \<Rightarrow> string \<Rightarrow> string \<Rightarrow> ('h, unit) state" where
  "failTeardown P teardownID msg = reportTeardown P teardownID teardownStatusFailed [] msg"

definition finishTeardown :: "'h rpc \<Rightarrow> 'h teardownRuntime \<Rightarrow> ClaimedTeardown \<Rightarrow> nat \<Rightarrow> ('h, unit) state" where
  "finishTeardown P R job removed = do {
     _ \<leftarrow> (if ct_NetworkName job \<noteq> [] then tr_removeNetwork R (ct_NetworkName job) else State_Monad.return None);
     reportTeardown P (ct_TeardownID job) teardownStatusSucceeded
       (if removed = 0 then ''the preview was already removed; route reconciled''
        else ''removed '' @ strconv_Itoa (int removed) @ '' preview container(s) and dropped the route'') [] }"

definition executeTeardown :: "'h rpc \<Rightarrow> 'h teardownRuntime option \<Rightarrow> 'h deploymentRouter option \<Rightarrow> ClaimedTeardown \<Rightarrow> ('h, unit) state" where
  "executeTeardown P runtime router job =
     (let i = ct_TeardownID job in
      case runtime of
        None \<Rightarrow> failTeardown P i ''Docker is not available on this server''
      | Some R \<Rightarrow> do {
          _ \<leftarrow> reportTeardown P i teardownStatusStopping ''removing the preview container'' [];
          (removed, e) \<leftarrow> tr_removeByService R (ct_RouteKey job);
          case e of
            Some e \<Rightarrow> failTeardown P i (''could not remove the preview container: '' @ e)
          | None \<Rightarrow> do {
              _ \<leftarrow> reportTeardown P i teardownStatusRemoving ''dropping the Caddy route'' [];
              case router of
                None \<Rightarrow> finishTeardown P R job removed
              | Some Q \<Rightarrow>
                  attempt (tr_listManagedRoutes R)
                    (\<lambda>e. failTeardown P i (''could not inspect running containers to reconcile Caddy: '' @ e))
                    (\<lambda>routes. do {
                       (_, e) \<leftarrow> ro_apply Q routes;
                       case e of
                         Some e \<Rightarrow> failTeardown P i (''could not reconcile Caddy after removing the preview: '' @ e)
                       | None \<Rightarrow> finishTeardown P R job removed }) } })"

definition teardownRound ::
    "'h docker \<Rightarrow> 'h rpc \<Rightarrow> 'h teardownRuntime option \<Rightarrow> 'h deploymentRouter option \<Rightarrow> int \<Rightarrow> int \<Rightarrow> ('h, int option) state" where
  "teardownRound K P runtime router interval =
     pollRound K P (rpc_PollTeardownJob P) ct_HasWork (executeTeardown P runtime router)
       (ctx_Sleep K (if interval \<le> 0 then 10 * 10 ^ 9 else interval))"

section \<open>Backups\<close>

record 'h backupRuntime =
  bk_findRunningByService :: "string \<Rightarrow> ('h, string + string option) state"
  bk_execPgDump :: "string \<Rightarrow> string \<Rightarrow> string \<Rightarrow> string \<Rightarrow> (string \<Rightarrow> ('h, string option) state) \<Rightarrow> ('h, string option \<times> string) state"
  bk_execPsqlRestore :: "string \<Rightarrow> string \<Rightarrow> string \<Rightarrow> string \<Rightarrow> string \<Rightarrow> ('h, string option) state"

definition dockerBackup :: "'h docker \<Rightarrow> 'h backupRuntime" where
  "dockerBackup K = \<lparr>bk_findRunningByService = findRunningByService K, bk_execPgDump = execPgDump K, bk_execPsqlRestore = execPsqlRestore K\<rparr>"

abbreviation backupStatusDumping :: string where "backupStatusDumping \<equiv> ''dumping''"
abbreviation backupStatusVerifying :: string where "backupStatusVerifying \<equiv> ''verifying''"
abbreviation backupStatusSucceeded :: string where "backupStatusSucceeded \<equiv> ''succeeded''"
abbreviation backupStatusFailed :: string where "backupStatusFailed \<equiv> ''failed''"
abbreviation restoreStatusRestoring :: string where "restoreStatusRestoring \<equiv> ''restoring''"

definition reportRestore :: "'h rpc \<Rightarrow> string \<Rightarrow> string \<Rightarrow> string \<Rightarrow> string \<Rightarrow> ('h, unit) state" where
  "reportRestore P restoreID status message errMsg = do {
     st \<leftarrow> ident_get P;
     _ \<leftarrow> rpc_ReportRestoreJob P \<lparr>er_AgentID = as_AgentID st, er_Credential = as_Credential st, er_RestoreID = restoreID,
       er_Status = status, er_Message = message, er_Error = errMsg\<rparr>;
     State_Monad.return () }"

definition executeRestore :: "'h rpc \<Rightarrow> 'h backupRuntime option \<Rightarrow> 'h agent_os \<Rightarrow> RestoreJob \<Rightarrow> ('h, unit) state" where
  "executeRestore P runtime F job =
     (let i = rj_RestoreID job; failed = (\<lambda>msg. reportRestore P i backupStatusFailed [] msg) in
      case runtime of
        None \<Rightarrow> failed ''Docker is not available on this server''
      | Some R \<Rightarrow>
      attempt (bk_findRunningByService R (rj_ServiceID job)) (\<lambda>e. failed (''could not find the database container: '' @ e)) (\<lambda>found.
      case found of
        None \<Rightarrow> failed ''the database container is not running on this server''
      | Some containerID \<Rightarrow>
      unless_err (ao_Open F (rj_ArtifactURI job)) (\<lambda>e. failed (''could not open the backup artifact: '' @ e))
     (deferring (do { _ \<leftarrow> ao_Close F (rj_ArtifactURI job); State_Monad.return () }) (do {
        _ \<leftarrow> reportRestore P i restoreStatusRestoring ''restoring with psql'' [];
        e \<leftarrow> bk_execPsqlRestore R containerID (rj_PgUser job) (rj_PgPassword job) (rj_PgDatabase job) (rj_ArtifactURI job);
        case e of
          Some e \<Rightarrow> failed (''restore failed: '' @ e)
        | None \<Rightarrow> reportRestore P i backupStatusSucceeded ''restore complete'' [] }))))"

text \<open>The polled restore, and whether there was one.\<close>

definition pollAndRunRestore :: "'h rpc \<Rightarrow> 'h backupRuntime option \<Rightarrow> 'h agent_os \<Rightarrow> ('h, bool) state" where
  "pollAndRunRestore P runtime F = do {
     st \<leftarrow> ident_get P;
     attempt (rpc_PollRestoreJob P \<lparr>pi_AgentID = as_AgentID st, pi_Credential = as_Credential st\<rparr>) (\<lambda>_. State_Monad.return False) (\<lambda>job.
       if \<not> rj_HasWork job then State_Monad.return False
       else do { _ \<leftarrow> executeRestore P runtime F job; State_Monad.return True }) }"

definition reportBackup :: "'h rpc \<Rightarrow> string \<Rightarrow> string \<Rightarrow> string \<Rightarrow> int \<Rightarrow> string \<Rightarrow> string \<Rightarrow> string \<Rightarrow> ('h, unit) state" where
  "reportBackup P backupID status artifactURI bytes checksum message errMsg = do {
     st \<leftarrow> ident_get P;
     _ \<leftarrow> rpc_ReportBackupJob P \<lparr>br_AgentID = as_AgentID st, br_Credential = as_Credential st, br_BackupID = backupID,
       br_Status = status, br_ArtifactURI = artifactURI, br_SizeBytes = bytes, br_Checksum = checksum, br_Message = message,
       br_Error = errMsg\<rparr>;
     State_Monad.return () }"

definition failBackup :: "'h rpc \<Rightarrow> string \<Rightarrow> string \<Rightarrow> ('h, unit) state" where
  "failBackup P backupID msg = reportBackup P backupID backupStatusFailed [] 0 [] [] msg"

definition verifyBackup :: "'h rpc \<Rightarrow> 'h agent_os \<Rightarrow> string \<Rightarrow> string \<Rightarrow> string \<Rightarrow> ('h, unit) state" where
  "verifyBackup P F backupID path dump =
     (let n = int (length dump); checksum = hex_EncodeToString (sha256_Sum256 dump) in do {
        _ \<leftarrow> reportBackup P backupID backupStatusVerifying path n checksum ''verifying the backup'' [];
        stat \<leftarrow> ao_StatSize F path;
        if stat \<noteq> Some n then failBackup P backupID ''backup verification failed: the artifact is missing or truncated''
        else reportBackup P backupID backupStatusSucceeded path n checksum (''backed up '' @ strconv_Itoa n @ '' bytes'') [] })"

text \<open>The bytes written through the \<open>MultiWriter\<close> reach the file, the hash and the counter alike; the runtime returns them
  with the error.\<close>

definition dumpTo :: "'h rpc \<Rightarrow> 'h backupRuntime \<Rightarrow> 'h agent_os \<Rightarrow> BackupJob \<Rightarrow> string \<Rightarrow> string \<Rightarrow> ('h, unit) state" where
  "dumpTo P R F job containerID path =
     (let i = bj_BackupID job; dropped = (\<lambda>msg. do { _ \<leftarrow> ao_Remove F path; failBackup P i msg }) in do {
        (dumpErr, dump) \<leftarrow> bk_execPgDump R containerID (bj_PgUser job) (bj_PgPassword job) (bj_PgDatabase job) (ao_Write F path);
        closeErr \<leftarrow> ao_Close F path;
        case dumpErr of
          Some e \<Rightarrow> dropped (''pg_dump failed: '' @ e)
        | None \<Rightarrow>
        (case closeErr of
          Some e \<Rightarrow> dropped (''could not finalize the backup file: '' @ e)
        | None \<Rightarrow> if dump = [] then dropped ''pg_dump produced no output'' else verifyBackup P F i path dump) })"

definition executeBackup :: "'h rpc \<Rightarrow> 'h backupRuntime option \<Rightarrow> 'h agent_os \<Rightarrow> string \<Rightarrow> BackupJob \<Rightarrow> ('h, unit) state" where
  "executeBackup P runtime F dataDir job =
     (let i = bj_BackupID job in
      case runtime of
        None \<Rightarrow> failBackup P i ''Docker is not available on this server''
      | Some R \<Rightarrow>
      attempt (bk_findRunningByService R (bj_ServiceID job)) (\<lambda>e. failBackup P i (''could not find the database container: '' @ e)) (\<lambda>found.
      case found of
        None \<Rightarrow> failBackup P i ''the database container is not running on this server''
      | Some containerID \<Rightarrow> do {
          _ \<leftarrow> reportBackup P i backupStatusDumping [] 0 [] ''running pg_dump'' [];
          let dir = filepath_Join [dataDir, ''backups'', bj_ServiceID job];
          unless_err (ao_MkdirAll F dir) (\<lambda>e. failBackup P i (''could not create the backup directory: '' @ e)) (do {
            let path = filepath_Join [dir, i @ ''.sql''];
            unless_err (ao_OpenFile F path) (\<lambda>e. failBackup P i (''could not create the backup file: '' @ e))
              (dumpTo P R F job containerID path) }) }))"

definition backupRound ::
    "'h docker \<Rightarrow> 'h rpc \<Rightarrow> 'h backupRuntime option \<Rightarrow> 'h agent_os \<Rightarrow> string \<Rightarrow> int \<Rightarrow> int \<Rightarrow> ('h, int option) state" where
  "backupRound K P runtime F dataDir interval =
     pollRound K P (rpc_PollBackupJob P) bj_HasWork (executeBackup P runtime F dataDir) (do {
       worked \<leftarrow> pollAndRunRestore P runtime F;
       if worked then State_Monad.return True else ctx_Sleep K (if interval \<le> 0 then 10 * 10 ^ 9 else interval) })"

section \<open>Identity\<close>

record 'h host_probes =
  hp_UserConfigDir :: "('h, string option) state"
  hp_GenerateKey :: "('h, string + (string \<times> nat list)) state"
  hp_NumCPU :: int
  hp_GOOS :: string
  hp_GOARCH :: string
  hp_Statfs :: "string \<Rightarrow> ('h, (64 word \<times> 64 word \<times> 64 word) option) state"
  hp_Meminfo :: "('h, string option) state"
  hp_Command :: "string \<Rightarrow> string list \<Rightarrow> ('h, string option) state"
  hp_HttpGet :: "string \<Rightarrow> ('h, bool) state"
  json_fault :: "string \<Rightarrow> string"

text \<open>\<open>base64.StdEncoding\<close>, from the unpadded URL alphabet.\<close>

definition base64std_Encode :: "nat list \<Rightarrow> string" where
  "base64std_Encode bs =
     map (\<lambda>c. if c = CHR ''-'' then CHR ''+'' else if c = CHR ''_'' then CHR ''/'' else c) (base64url_Encode bs) @
     replicate ((3 - length bs mod 3) mod 3) (CHR ''='')"

definition defaultHeartbeat :: int where "defaultHeartbeat = 30 * 10 ^ 9"
definition defaultPoll :: int where "defaultPoll = 4 * 10 ^ 9"
definition stateFileName :: string where "stateFileName = ''agent.json''"

text \<open>\<open>json.MarshalIndent(st, "", "  ")\<close>.\<close>

definition marshal_state :: "AgentState \<Rightarrow> string" where
  "marshal_state st =
     CHR ''{'' # CHR 0x0A # '' '' @ '' '' @ json_quote ''agent_id'' @ CHR '':'' # CHR '' '' # json_quote (as_AgentID st) @ CHR '','' #
     CHR 0x0A # '' '' @ '' '' @ json_quote ''credential'' @ CHR '':'' # CHR '' '' # json_quote (as_Credential st) @ CHR '','' #
     CHR 0x0A # '' '' @ '' '' @ json_quote ''private_key'' @ CHR '':'' # CHR '' '' # json_quote (as_PrivateKeyB64 st) @ CHR 0x0A # ''}''"

definition state_of :: "(string \<times> json) list \<Rightarrow> AgentState option" where
  "state_of ms =
     (case (store_string [] (members_named ''agent_id'' ms), store_string [] (members_named ''credential'' ms),
            store_string [] (members_named ''private_key'' ms)) of
        (Some a, Some c, Some k) \<Rightarrow> Some \<lparr>as_AgentID = a, as_Credential = c, as_PrivateKeyB64 = k\<rparr>
      | _ \<Rightarrow> None)"

definition unmarshal_state :: "string \<Rightarrow> AgentState option" where
  "unmarshal_state data =
     (case json_Parse data of Some (JObj ms) \<Rightarrow> state_of ms | Some JNull \<Rightarrow> state_of [] | _ \<Rightarrow> None)"

definition loadState :: "'h host_probes \<Rightarrow> 'h agent_os \<Rightarrow> string \<Rightarrow> ('h, string + AgentState option) state" where
  "loadState B F dir = do {
     r \<leftarrow> ao_ReadFile F (filepath_Join [dir, stateFileName]);
     State_Monad.return (case r of
       Inl (NotExist _) \<Rightarrow> Inr None
     | Inl (FileError e) \<Rightarrow> Inl e
     | Inr data \<Rightarrow>
         (case unmarshal_state data of
            None \<Rightarrow> Inl (json_fault B data)
          | Some st \<Rightarrow> Inr (if as_AgentID st = [] \<or> as_Credential st = [] then None else Some st))) }"

definition saveState :: "'h agent_os \<Rightarrow> string \<Rightarrow> AgentState \<Rightarrow> ('h, string option) state" where
  "saveState F dir st =
     unless_err (ao_MkdirAll F dir) (\<lambda>e. State_Monad.return (Some e))
       (ao_WriteFile F (filepath_Join [dir, stateFileName]) (marshal_state st))"

fun rpc_error_text :: "rpc_error \<Rightarrow> string" where
  "rpc_error_text (RpcPermissionDenied s) = s"
| "rpc_error_text (RpcError s) = s"

definition agent_register :: "'h host_probes \<Rightarrow> 'h rpc \<Rightarrow> Options \<Rightarrow> ('h, string + AgentState) state" where
  "agent_register B P opts =
     (if op_RegistrationToken opts = []
      then State_Monad.return (Inl ''no stored identity and no registration token (set --token or PLORIGO_AGENT_TOKEN)'')
      else attempt (hp_GenerateKey B) (\<lambda>e. State_Monad.return (Inl (''generate keypair: '' @ e))) (\<lambda>(pub, priv).
        attempt (rpc_Register P (op_RegistrationToken opts) pub) (\<lambda>e. State_Monad.return (Inl (''register: '' @ rpc_error_text e)))
          (\<lambda>(agentID, credential).
             State_Monad.return (Inr \<lparr>as_AgentID = agentID, as_Credential = credential, as_PrivateKeyB64 = base64std_Encode priv\<rparr>))))"

text \<open>The beginning of \<open>Run\<close>: its defaults, and the router, the identity and the options with which the loops start.\<close>

definition defaultDataDir :: "'h host_probes \<Rightarrow> ('h, string) state" where
  "defaultDataDir B = do {
     r \<leftarrow> hp_UserConfigDir B;
     State_Monad.return (case r of
       Some dir \<Rightarrow> if dir \<noteq> [] then filepath_Join [dir, ''plorigo'', ''agent''] else ''.plorigo-agent''
     | None \<Rightarrow> ''.plorigo-agent'') }"

definition withDefaults :: "'h host_probes \<Rightarrow> Options \<Rightarrow> ('h, Options) state" where
  "withDefaults B opts =
     (let opts = (if op_HeartbeatInterval opts \<le> 0 then opts\<lparr>op_HeartbeatInterval := defaultHeartbeat\<rparr> else opts);
          opts = (if op_PollInterval opts \<le> 0 then opts\<lparr>op_PollInterval := defaultPoll\<rparr> else opts) in
      if op_DataDir opts = [] then do { dir \<leftarrow> defaultDataDir B; State_Monad.return (opts\<lparr>op_DataDir := dir\<rparr>) }
      else State_Monad.return opts)"

definition identity_at_start ::
    "'h host_probes \<Rightarrow> 'h rpc \<Rightarrow> 'h agent_os \<Rightarrow> Options \<Rightarrow> ('h, string + AgentState) state" where
  "identity_at_start B P F opts =
     attempt (loadState B F (op_DataDir opts)) (\<lambda>e. State_Monad.return (Inl (''load agent state: '' @ e))) (\<lambda>st.
     case st of
       Some st \<Rightarrow> State_Monad.return (Inr st)
     | None \<Rightarrow>
         attempt (agent_register B P opts) (\<lambda>e. State_Monad.return (Inl e)) (\<lambda>st.
         unless_err (saveState F (op_DataDir opts) st) (\<lambda>e. State_Monad.return (Inl (''save agent state: '' @ e)))
           (State_Monad.return (Inr st))))"

definition agent_start ::
    "'h host_probes \<Rightarrow> 'h rpc \<Rightarrow> 'h agent_os \<Rightarrow> Options \<Rightarrow> ('h, string + (Options \<times> caddyManager \<times> AgentState)) state" where
  "agent_start B P F opts =
     (if op_ControlPlaneURL opts = []
      then State_Monad.return (Inl ''control plane URL is required (set --control-plane or PLORIGO_CONTROL_PLANE)'')
      else do {
        opts \<leftarrow> withDefaults B opts;
        case newCaddyManager opts of
          Inl e \<Rightarrow> State_Monad.return (Inl (''configure Caddy routing: '' @ e))
        | Inr router \<Rightarrow> do {
            r \<leftarrow> identity_at_start B P F opts;
            State_Monad.return (map_sum id (\<lambda>st. (opts, router, st)) r) } })"

section \<open>Health\<close>

text \<open>The first of \<open>strings.Fields(s)\<close>; empty when there is none.\<close>

fun take_word :: "string \<Rightarrow> string" where
  "take_word [] = []"
| "take_word (c # cs) = (if 0 < space_len (c # cs) then [] else c # take_word cs)"

definition first_field :: "string \<Rightarrow> string" where
  "first_field s = take_word (drop_spaces space_len s)"

definition parseCaddyVersion :: "string \<Rightarrow> string" where
  "parseCaddyVersion out = (let w = first_field out in if take 1 w = ''v'' then drop 1 w else w)"

text \<open>\<open>strconv.ParseInt(s, 10, 64)\<close> is \<open>strconv_Atoi\<close>; the product wraps like an \<open>int64\<close>.\<close>

definition meminfoKB :: "string \<Rightarrow> int" where
  "meminfoKB v =
     (case strconv_Atoi (first_field v) of None \<Rightarrow> 0 | Some n \<Rightarrow> sint (word_of_int (n * 1024) :: 64 word))"

text \<open>\<open>bufio.Scanner\<close>: lines without their end; nothing follows a final newline.\<close>

definition scan_lines :: "string \<Rightarrow> string list" where
  "scan_lines s =
     (let ls = strings_Split (CHR 0x0A) s; ls = (if last ls = [] then butlast ls else ls) in
      map (\<lambda>l. if l \<noteq> [] \<and> last l = CHR 0x0D then butlast l else l) ls)"

fun meminfo_fold :: "int \<times> int \<Rightarrow> string list \<Rightarrow> int \<times> int" where
  "meminfo_fold acc [] = acc"
| "meminfo_fold (mt, ma) (l # ls) =
     (case strings_Cut (CHR '':'') l of
        None \<Rightarrow> meminfo_fold (mt, ma) ls
      | Some (key, val) \<Rightarrow>
          if key = ''MemTotal'' then meminfo_fold (meminfoKB val, ma) ls
          else if key = ''MemAvailable'' then meminfo_fold (mt, meminfoKB val) ls
          else meminfo_fold (mt, ma) ls)"

definition parseMeminfo :: "string \<Rightarrow> int \<times> int" where
  "parseMeminfo s = meminfo_fold (0, 0) (scan_lines s)"

text \<open>The block counts and the block size that \<open>statfs\<close> reports; the products wrap.\<close>

definition diskUsage :: "'h host_probes \<Rightarrow> string \<Rightarrow> ('h, int \<times> int) state" where
  "diskUsage B path = do {
     r \<leftarrow> hp_Statfs B (if path = [] then ''/'' else path);
     State_Monad.return (case r of
       None \<Rightarrow> (0, 0)
     | Some (blocks, avail, bsize) \<Rightarrow> (sint (blocks * bsize), sint (avail * bsize))) }"

definition memInfo :: "'h host_probes \<Rightarrow> ('h, int \<times> int) state" where
  "memInfo B = do { r \<leftarrow> hp_Meminfo B; State_Monad.return (case r of None \<Rightarrow> (0, 0) | Some s \<Rightarrow> parseMeminfo s) }"

definition probeCaddy :: "'h host_probes \<Rightarrow> Options \<Rightarrow> ('h, bool \<times> string \<times> bool) state" where
  "probeCaddy B opts = do {
     out \<leftarrow> hp_Command B (or_default (strings_TrimSpace (op_CaddyBin opts)) defaultCaddyBin) [''version''];
     running \<leftarrow> hp_HttpGet B (''http://'' @ or_default (strings_TrimSpace (op_CaddyAdmin opts)) defaultCaddyAdmin @ ''/config/'');
     State_Monad.return (case out of None \<Rightarrow> (False, [], running) | Some s \<Rightarrow> (True, parseCaddyVersion s, running)) }"

definition collectHealth :: "'h host_probes \<Rightarrow> 'h docker option \<Rightarrow> Options \<Rightarrow> ('h, HeartbeatFacts) state" where
  "collectHealth B prober opts = do {
     (diskTotal, diskFree) \<leftarrow> diskUsage B (op_DataDir opts);
     (memTotal, memAvailable) \<leftarrow> memInfo B;
     version \<leftarrow> (case prober of None \<Rightarrow> State_Monad.return (Inl ''docker client is not initialized'') | Some K \<Rightarrow> dk_ServerVersion K);
     (available, caddyVersion, running) \<leftarrow> probeCaddy B opts;
     State_Monad.return \<lparr>hf_DockerAvailable = \<not> isl version, hf_DockerVersion = (case version of Inl _ \<Rightarrow> [] | Inr v \<Rightarrow> v),
       hf_OS = hp_GOOS B, hf_Arch = hp_GOARCH B, hf_CaddyAvailable = available, hf_CaddyRunning = running,
       hf_CaddyVersion = caddyVersion, hf_diskTotalBytes = diskTotal, hf_diskFreeBytes = diskFree,
       hf_memTotalBytes = memTotal, hf_memAvailableBytes = memAvailable, hf_CPUCount = hp_NumCPU B\<rparr> }"

section \<open>The heartbeat\<close>

text \<open>What the loop remembers: the back-off and whether it has tried to register again.\<close>

record heartbeat_state =
  hb_backoff :: int
  hb_reregisterTried :: bool

definition firstHeartbeat :: heartbeat_state where
  "firstHeartbeat = \<lparr>hb_backoff = firstBackoff, hb_reregisterTried = False\<rparr>"

definition backOff :: "'h docker \<Rightarrow> heartbeat_state \<Rightarrow> ('h, heartbeat_state option) state" where
  "backOff K s = do {
     ok \<leftarrow> ctx_Sleep K (hb_backoff s);
     State_Monad.return (if ok then Some (s\<lparr>hb_backoff := nextBackoff (hb_backoff s)\<rparr>) else None) }"

definition reregister :: "'h docker \<Rightarrow> 'h host_probes \<Rightarrow> 'h rpc \<Rightarrow> 'h agent_os \<Rightarrow> Options \<Rightarrow> heartbeat_state \<Rightarrow> ('h, heartbeat_state option) state" where
  "reregister K B P F opts s =
     attempt (agent_register B P opts)
       (\<lambda>_. do {
          ended \<leftarrow> ctx_Err K;
          if ended \<noteq> None then State_Monad.return None else backOff K (s\<lparr>hb_reregisterTried := True\<rparr>) })
       (\<lambda>st. do {
          _ \<leftarrow> saveState F (op_DataDir opts) st;
          _ \<leftarrow> ident_set P st;
          State_Monad.return (Some \<lparr>hb_backoff = firstBackoff, hb_reregisterTried = True\<rparr>) })"

definition heartbeatRound ::
    "'h docker \<Rightarrow> 'h docker option \<Rightarrow> 'h host_probes \<Rightarrow> 'h rpc \<Rightarrow> 'h agent_os \<Rightarrow> Options \<Rightarrow> heartbeat_state \<Rightarrow> ('h, heartbeat_state option) state" where
  "heartbeatRound K prober B P F opts s = do {
     st \<leftarrow> ident_get P;
     facts \<leftarrow> collectHealth B prober opts;
     r \<leftarrow> rpc_Heartbeat P st facts;
     case r of
       Inl e \<Rightarrow> do {
         ended \<leftarrow> ctx_Err K;
         if ended \<noteq> None then State_Monad.return None
         else if (\<exists>msg. e = RpcPermissionDenied msg) \<and> op_RegistrationToken opts \<noteq> [] \<and> \<not> hb_reregisterTried s
         then reregister K B P F opts s
         else backOff K s }
     | Inr seconds \<Rightarrow> do {
         ok \<leftarrow> ctx_Sleep K (if seconds > 0 then seconds * 10 ^ 9 else op_HeartbeatInterval opts);
         State_Monad.return (if ok then Some (s\<lparr>hb_backoff := firstBackoff\<rparr>) else None) } }"

end
