(* ===== verification/Effects.thy ===== *)
theory Effects
  imports AgentCore
begin

text \<open>
  Reasoning about the agent's computations. \<open>wp m Q h\<close> says that from the host \<open>h\<close> the computation \<open>m\<close> ends
  with a result and a host that satisfy \<open>Q\<close>; its equations take a handler apart statement by statement.
  \<open>quiet obs m\<close> says that \<open>m\<close> leaves the observation \<open>obs\<close> of the host as it is. The laws \<open>docker_law\<close> and
  \<open>clock_law\<close> state what the Engine API is documented to do to the set of containers and what a clock does;
  from them follow the effects of the operations of \<^verbatim>\<open>docker.go\<close>.
\<close>

section \<open>Weakest preconditions\<close>

definition wp :: "('h, 'a) state \<Rightarrow> ('a \<Rightarrow> 'h \<Rightarrow> bool) \<Rightarrow> 'h \<Rightarrow> bool" where
  "wp m Q h = (case run_state m h of (x, h') \<Rightarrow> Q x h')"

lemma wp_simps [simp]:
  "wp (State_Monad.return x) Q h = Q x h"
  "wp (State_Monad.bind m1 f) Q h = wp m1 (\<lambda>y. wp (f y) Q) h"
  "wp (attempt m2 bad good) Q h = wp m2 (\<lambda>r h. (\<forall>e. r = Inl e \<longrightarrow> wp (bad e) Q h) \<and> (\<forall>y. r = Inr y \<longrightarrow> wp (good y) Q h)) h"
  "wp (unless_err m3 bad' k) Q h = wp m3 (\<lambda>r h. (\<forall>e. r = Some e \<longrightarrow> wp (bad' e) Q h) \<and> (r = None \<longrightarrow> wp k Q h)) h"
  "wp (deferring d m) Q h = wp m (\<lambda>x. wp d (\<lambda>_. Q x)) h"
  by (auto simp: wp_def State_Monad.bind_def deferring_def split: prod.splits sum.splits option.splits)

lemma wp_mono: "wp m P h \<Longrightarrow> (\<And>x h'. P x h' \<Longrightarrow> Q x h') \<Longrightarrow> wp m Q h"
  by (auto simp: wp_def split: prod.splits)

lemma wpI: "(\<And>x h'. run_state m h = (x, h') \<Longrightarrow> Q x h') \<Longrightarrow> wp m Q h"
  by (simp add: wp_def split: prod.split)

lemma wp_any: "(\<And>x h'. Q x h') \<Longrightarrow> wp m Q h"
  by (simp add: wp_def split: prod.split)

lemma wp_conj: "wp m P h \<Longrightarrow> wp m Q h \<Longrightarrow> wp m (\<lambda>x h'. P x h' \<and> Q x h') h"
  by (auto simp: wp_def)

lemma wp_run: "wp m Q h \<Longrightarrow> run_state m h = (x, h') \<Longrightarrow> Q x h'"
  by (simp add: wp_def)

definition quiet :: "('h \<Rightarrow> 'o) \<Rightarrow> ('h, 'a) state \<Rightarrow> bool" where
  "quiet obs m = (\<forall>h. wp m (\<lambda>_ h'. obs h' = obs h) h)"

lemma quiet_wp: "quiet obs m \<Longrightarrow> (\<And>x h'. obs h' = obs h \<Longrightarrow> Q x h') \<Longrightarrow> wp m Q h"
  unfolding quiet_def by (erule allE, erule wp_mono) simp

lemma quiet_via:
  assumes "quiet (\<lambda>h. (conts h, rest h)) m"
  shows "quiet (\<lambda>h. (conts h, f (rest h))) m"
  unfolding quiet_def by (intro allI quiet_wp [OF assms]) simp

named_theorems quietness

lemma quiet_return [quietness]: "quiet obs (State_Monad.return x)"
  by (simp add: quiet_def)

lemma quiet_bind [quietness]: "quiet obs m \<Longrightarrow> (\<And>x. quiet obs (f x)) \<Longrightarrow> quiet obs (State_Monad.bind m f)"
  unfolding quiet_def wp_simps by (rule allI, erule allE, erule wp_mono) (metis (no_types, lifting) wp_mono)

lemma quiet_attempt [quietness]:
  "quiet obs m \<Longrightarrow> (\<And>e. quiet obs (bad e)) \<Longrightarrow> (\<And>x. quiet obs (good x)) \<Longrightarrow> quiet obs (attempt m bad good)"
  unfolding attempt_def by (intro quietness) (auto split: sum.split)

lemma quiet_unless_err [quietness]:
  "quiet obs m \<Longrightarrow> (\<And>e. quiet obs (bad e)) \<Longrightarrow> quiet obs k \<Longrightarrow> quiet obs (unless_err m bad k)"
  unfolding unless_err_def by (intro quietness) (auto split: option.split)

lemma quiet_deferring [quietness]: "quiet obs d \<Longrightarrow> quiet obs m \<Longrightarrow> quiet obs (deferring d m)"
  unfolding deferring_def by (intro quietness)

lemma quiet_if [quietness]:
  "(b \<Longrightarrow> quiet obs m) \<Longrightarrow> (\<not> b \<Longrightarrow> quiet obs n) \<Longrightarrow> quiet obs (if b then m else n)"
  by simp

lemma quiet_option [quietness]:
  "(opt = None \<Longrightarrow> quiet obs m) \<Longrightarrow> (\<And>x. opt = Some x \<Longrightarrow> quiet obs (f x)) \<Longrightarrow> quiet obs (case opt of None \<Rightarrow> m | Some x \<Rightarrow> f x)"
  by (simp split: option.split)

lemma quiet_sum [quietness]:
  "(\<And>e. r = Inl e \<Longrightarrow> quiet obs (bad e)) \<Longrightarrow> (\<And>y. r = Inr y \<Longrightarrow> quiet obs (good y)) \<Longrightarrow>
     quiet obs (case r of Inl e \<Rightarrow> bad e | Inr y \<Rightarrow> good y)"
  by (simp split: sum.split)

lemma quiet_prod [quietness]: "(\<And>a b. p = (a, b) \<Longrightarrow> quiet obs (g a b)) \<Longrightarrow> quiet obs (case p of (a, b) \<Rightarrow> g a b)"
  by (simp split: prod.split)

section \<open>What the engine does\<close>

text \<open>\<open>conts\<close> is the set of containers with their labels, \<open>rest\<close> anything that the engine does not touch.\<close>

type_synonym containers = "string \<rightharpoonup> (string \<rightharpoonup> string)"

definition with_label :: "string \<Rightarrow> string \<Rightarrow> containers \<Rightarrow> string set" where
  "with_label k v cs = {i. \<exists>l. cs i = Some l \<and> l k = Some v}"

definition docker_quiet :: "('h \<Rightarrow> 'o) \<Rightarrow> 'h docker \<Rightarrow> bool" where
  "docker_quiet obs K \<longleftrightarrow>
     (\<forall>i. quiet obs (dk_ImagePull K i)) \<and> (\<forall>a k v. quiet obs (dk_ContainerList K a (k, v))) \<and> (\<forall>i. quiet obs (dk_ContainerStop K i)) \<and>
     (\<forall>i. quiet obs (dk_ContainerStart K i)) \<and> (\<forall>i x. quiet obs (dk_ContainerLogs K i x)) \<and> (\<forall>n. quiet obs (dk_NetworkInspect K n)) \<and>
     (\<forall>n. quiet obs (dk_NetworkCreate K n)) \<and> (\<forall>n. quiet obs (dk_NetworkRemove K n)) \<and> (\<forall>a. quiet obs (net_Dial K a)) \<and>
     quiet obs (time_Now K) \<and> (\<forall>d. quiet obs (ctx_Sleep K d)) \<and> quiet obs (ctx_Err K) \<and> (\<forall>d c. quiet obs (git_PlainClone K d c)) \<and>
     (\<forall>p. quiet obs (dir_Stat K p)) \<and> quiet obs (dir_Read K) \<and> (\<forall>p s. quiet obs (dir_WriteFile K p s)) \<and>
     (\<forall>d a. quiet obs (cli_DockerBuild K d a)) \<and> (\<forall>i. quiet obs (cli_ImageInspect K i))"

definition docker_law :: "'h docker \<Rightarrow> ('h \<Rightarrow> containers) \<Rightarrow> ('h \<Rightarrow> 'o) \<Rightarrow> bool" where
  "docker_law K conts rest \<longleftrightarrow>
     docker_quiet (\<lambda>h. (conts h, rest h)) K \<and>
     (\<forall>h v. wp (dk_ContainerList K True (''label'', labelService @ ''='' @ v))
        (\<lambda>r _. \<forall>cs. r = Inr cs \<longrightarrow> sm_ID ` set cs = with_label labelService v (conts h)) h) \<and>
     (\<forall>h s. wp (dk_ContainerCreate K s) (\<lambda>r h'. rest h' = rest h \<and>
        (case r of Inl _ \<Rightarrow> conts h' = conts h | Inr i \<Rightarrow> conts h i = None \<and> conts h' = (conts h)(i \<mapsto> sp_Labels s))) h) \<and>
     (\<forall>h i. wp (dk_ContainerRemove K i) (\<lambda>e h'. rest h' = rest h \<and>
        conts h' = (if e = None then (conts h)(i := None) else conts h)) h)"

lemma docker_law_via:
  assumes "docker_law K conts rest"
  shows "docker_law K conts (\<lambda>h. f (rest h))"
proof -
  have "docker_quiet (\<lambda>h. (conts h, f (rest h))) K"
    using assms unfolding docker_law_def docker_quiet_def by (simp add: quiet_via [where f = f and rest = rest and conts = conts])
  moreover have "wp (dk_ContainerCreate K s) (\<lambda>r h'. f (rest h') = f (rest h) \<and>
      (case r of Inl _ \<Rightarrow> conts h' = conts h | Inr i \<Rightarrow> conts h i = None \<and> conts h' = (conts h)(i \<mapsto> sp_Labels s))) h" for s h
    by (rule wp_mono [of _ "\<lambda>r h'. rest h' = rest h \<and>
      (case r of Inl _ \<Rightarrow> conts h' = conts h | Inr i \<Rightarrow> conts h i = None \<and> conts h' = (conts h)(i \<mapsto> sp_Labels s))"])
      (use assms in \<open>simp_all add: docker_law_def\<close>)
  moreover have "wp (dk_ContainerRemove K i) (\<lambda>e h'. f (rest h') = f (rest h) \<and> conts h' = (if e = None then (conts h)(i := None) else conts h)) h" for i h
    by (rule wp_mono [of _ "\<lambda>e h'. rest h' = rest h \<and> conts h' = (if e = None then (conts h)(i := None) else conts h)"])
      (use assms in \<open>simp_all add: docker_law_def\<close>)
  ultimately show ?thesis using assms by (simp add: docker_law_def)
qed

lemma docker_lawD:
  assumes "docker_law K conts rest"
  shows "docker_quiet (\<lambda>h. (conts h, rest h)) K"
    and "wp (dk_ContainerList K True (''label'', labelService @ ''='' @ v))
        (\<lambda>r h'. conts h' = conts h \<and> rest h' = rest h \<and> (\<forall>cs. r = Inr cs \<longrightarrow> sm_ID ` set cs = with_label labelService v (conts h))) h"
    and "wp (dk_ContainerCreate K s) (\<lambda>r h'. rest h' = rest h \<and>
        (case r of Inl _ \<Rightarrow> conts h' = conts h | Inr i \<Rightarrow> conts h i = None \<and> conts h' = (conts h)(i \<mapsto> sp_Labels s))) h"
    and "wp (dk_ContainerRemove K i) (\<lambda>e h'. rest h' = rest h \<and> conts h' = (if e = None then (conts h)(i := None) else conts h)) h"
proof -
  show q: "docker_quiet (\<lambda>h. (conts h, rest h)) K" using assms by (simp add: docker_law_def)
  have "wp (dk_ContainerList K True (''label'', labelService @ ''='' @ v)) (\<lambda>_ h'. (conts h', rest h') = (conts h, rest h)) h"
    using q by (auto simp: docker_quiet_def quiet_def)
  moreover have "wp (dk_ContainerList K True (''label'', labelService @ ''='' @ v))
     (\<lambda>r _. \<forall>cs. r = Inr cs \<longrightarrow> sm_ID ` set cs = with_label labelService v (conts h)) h"
    using assms by (simp add: docker_law_def)
  ultimately show "wp (dk_ContainerList K True (''label'', labelService @ ''='' @ v))
      (\<lambda>r h'. conts h' = conts h \<and> rest h' = rest h \<and> (\<forall>cs. r = Inr cs \<longrightarrow> sm_ID ` set cs = with_label labelService v (conts h))) h"
    by (rule wp_mono [OF wp_conj]) simp
qed (use assms in \<open>simp_all add: docker_law_def\<close>)

lemma docker_quietD [quietness]:
  assumes "docker_quiet obs K"
  shows "quiet obs (dk_ImagePull K i)" "quiet obs (dk_ContainerList K al (fk, fv))" "quiet obs (dk_ContainerStop K i)"
    "quiet obs (dk_ContainerStart K i)" "quiet obs (dk_ContainerLogs K i x)" "quiet obs (dk_NetworkInspect K n)"
    "quiet obs (dk_NetworkCreate K n)" "quiet obs (dk_NetworkRemove K n)" "quiet obs (net_Dial K ad)" "quiet obs (time_Now K)"
    "quiet obs (ctx_Sleep K d)" "quiet obs (ctx_Err K)" "quiet obs (git_PlainClone K p co)" "quiet obs (dir_Stat K p)"
    "quiet obs (dir_Read K)" "quiet obs (dir_WriteFile K p s)" "quiet obs (cli_DockerBuild K p as)" "quiet obs (cli_ImageInspect K i)"
  using assms by (simp_all add: docker_quiet_def)

lemma quiet_publishedPortLoop: "docker_quiet obs K \<Longrightarrow> quiet obs (publishedPortLoop K n i p)"
  by (induction n) (auto intro!: quietness)

lemma quiet_healthLoop: "docker_quiet obs K \<Longrightarrow> quiet obs (healthLoop K n a d)"
  by (induction n) (auto intro!: quietness)

lemma quiet_docker [quietness]:
  assumes "docker_quiet obs K"
  shows "quiet obs (docker_pull K i)" "quiet obs (docker_clone K u r c p)" "quiet obs (docker_build K p t)" "quiet obs (detectPort K t)"
    "quiet obs (recentLogs K i n)" "quiet obs (listManagedRunning K)" "quiet obs (logsSince K i s n)" "quiet obs (listManagedRoutes K)"
    "quiet obs (publishedPort K i w)" "quiet obs (ensureNetwork K n')" "quiet obs (removeNetwork K n')" "quiet obs (findRunningByService K v)"
    "quiet obs (healthCheck K n hp)"
  using assms quiet_publishedPortLoop [OF assms] quiet_healthLoop [OF assms]
  unfolding docker_pull_def docker_clone_def docker_build_def detectPort_def recentLogs_def listManagedRunning_def logsSince_def
    listManagedRoutes_def publishedPort_def ensureNetwork_def removeNetwork_def findRunningByService_def healthCheck_def runBuild_def Let_def
  by (auto intro!: quietness)

section \<open>Containers come and go\<close>

lemma wp_removeOne:
  assumes "docker_law K conts rest"
  shows "wp (removeOne K i) (\<lambda>e h'. rest h' = rest h \<and> conts h' = (if e = None then (conts h)(i := None) else conts h)) h"
  unfolding removeOne_def wp_simps
  by (rule quiet_wp [OF docker_quietD(3) [OF docker_lawD(1) [OF assms]]], rule wp_mono [OF docker_lawD(4) [OF assms]]) auto

lemma restrict_all [simp]: "m |` UNIV = m" "m |` (- {}) = m"
  by (simp_all add: restrict_map_def)

lemma restrict_step: "(m(i := None)) |` (- g) = m |` (- insert i g)"
  by (auto simp: restrict_map_def fun_eq_iff)

text \<open>After removing \<open>gone\<close>, all of \<open>wanted\<close> unless there was an error.\<close>

definition removed_from :: "containers \<Rightarrow> string set \<Rightarrow> string option \<Rightarrow> containers \<Rightarrow> bool" where
  "removed_from cs wanted e cs' \<longleftrightarrow> (\<exists>gone \<subseteq> wanted. cs' = cs |` (- gone) \<and> (e = None \<longrightarrow> gone = wanted))"

lemma removed_from_none: "removed_from cs {} None cs" "removed_from cs wanted (Some e) cs"
  by (auto simp: removed_from_def intro!: exI [of _ "{}"])

lemma removed_from_step: "removed_from (cs(i := None)) wanted e cs' \<Longrightarrow> removed_from cs (insert i wanted) e cs'"
  unfolding removed_from_def restrict_step by (metis insert_mono)

lemma first_removed:
  assumes law: "docker_law K conts rest"
    and more: "\<And>h. wp m (\<lambda>r h'. rest h' = rest h \<and> removed_from (conts h) wanted (err r) (conts h')) h" and "\<And>e. err (bad e) = Some e"
  shows "wp (unless_err (removeOne K i) (\<lambda>e. State_Monad.return (bad e)) m)
     (\<lambda>r h'. rest h' = rest h \<and> removed_from (conts h) (insert i wanted) (err r) (conts h')) h"
  unfolding wp_simps
proof (rule wp_mono [OF wp_removeOne [OF law]], intro conjI allI impI)
  fix r h' assume r: "rest h' = rest h \<and> conts h' = (if r = None then (conts h)(i := None) else conts h)" "r = None"
  show "wp m (\<lambda>r h'. rest h' = rest h \<and> removed_from (conts h) (insert i wanted) (err r) (conts h')) h'"
    by (rule wp_mono [OF more]) (use r removed_from_step in auto)
qed (use assms(3) in \<open>auto simp: removed_from_none\<close>)

lemma wp_removePrevious:
  assumes law: "docker_law K conts rest"
  shows "wp (removePrevious K keep cs) (\<lambda>e h'. rest h' = rest h \<and> removed_from (conts h) (sm_ID ` set cs - {keep}) e (conts h')) h"
proof (induction cs arbitrary: h)
  case Nil
  show ?case by (simp add: removed_from_none)
next
  case (Cons c cs)
  show ?case
  proof (cases "sm_ID c = keep")
    case True
    then show ?thesis using Cons [of h] by simp
  next
    case False
    then have "sm_ID ` set (c # cs) - {keep} = insert (sm_ID c) (sm_ID ` set cs - {keep})" by auto
    moreover from False have
      "removePrevious K keep (c # cs) = unless_err (removeOne K (sm_ID c)) (\<lambda>e. State_Monad.return (Some e)) (removePrevious K keep cs)"
      by simp
    ultimately show ?thesis
      using first_removed [where err = "\<lambda>e. e" and bad = Some, OF law Cons.IH] by simp
  qed
qed

lemma wp_replacePreviousExcept:
  assumes law: "docker_law K conts rest"
  shows "wp (replacePreviousExcept K v keep) (\<lambda>e h'. rest h' = rest h \<and>
     removed_from (conts h) (with_label labelService v (conts h) - {keep}) e (conts h')) h"
  unfolding replacePreviousExcept_def wp_simps
  by (rule wp_mono [OF docker_lawD(2) [OF law]])
    (auto simp: removed_from_none intro!: wp_mono [OF wp_removePrevious [OF law]])

lemma wp_removeCounted:
  assumes law: "docker_law K conts rest"
  shows "wp (removeCounted K n cs) (\<lambda>r h'. rest h' = rest h \<and> removed_from (conts h) (sm_ID ` set cs) (snd r) (conts h')) h"
proof (induction cs arbitrary: h n)
  case (Cons c cs)
  show ?case
    using first_removed [where err = snd and bad = "\<lambda>e. (n, Some e)", OF law Cons.IH] by simp
qed (simp add: removed_from_none)

lemma wp_removeByService:
  assumes law: "docker_law K conts rest"
  shows "wp (removeByService K v) (\<lambda>r h'. rest h' = rest h \<and>
     removed_from (conts h) (with_label labelService v (conts h)) (snd r) (conts h')) h"
  unfolding removeByService_def wp_simps
  by (rule wp_mono [OF docker_lawD(2) [OF law]])
    (auto simp: removed_from_none intro!: wp_mono [OF wp_removeCounted [OF law]])

lemma wp_cleanup:
  assumes law: "docker_law K conts rest"
  shows "wp (cleanupFailedContainer (dockerRuntime K) i) (\<lambda>_ h'. rest h' = rest h \<and> (conts h' = conts h \<or> i \<noteq> [] \<and> conts h' = (conts h)(i := None))) h"
  unfolding cleanupFailedContainer_def
  by (auto simp: dockerRuntime_def removeContainer_def intro!: wp_mono [OF wp_removeOne [OF law]])

text \<open>What \<open>run\<close> leaves: no new container, or one with the labels of its input, whose identifier is then the result.\<close>

definition started :: "(string \<rightharpoonup> string) \<Rightarrow> string \<Rightarrow> containers \<Rightarrow> containers \<Rightarrow> bool" where
  "started l i cs cs' \<longleftrightarrow> cs i = None \<and> cs' = cs(i \<mapsto> l)"

definition run_left :: "(string \<rightharpoonup> string) \<Rightarrow> run_result \<Rightarrow> containers \<Rightarrow> containers \<Rightarrow> bool" where
  "run_left l r cs cs' \<longleftrightarrow> (snd (snd r) \<noteq> None \<and> fst r = [] \<and> cs' = cs) \<or> started l (fst r) cs cs'"

lemma wp_docker_run:
  assumes law: "docker_law K conts rest"
  shows "wp (docker_run K x) (\<lambda>r h'. rest h' = rest h \<and> run_left (containerLabels x) r (conts h) (conts h')) h"
proof -
  let ?Q = "\<lambda>r h'. rest h' = rest h \<and> run_left (containerLabels x) r (conts h) (conts h')"
  note q = docker_lawD(1) [OF law]
  have start: "wp (startContainer K x i) ?Q h1" if "rest h1 = rest h" "started (containerLabels x) i (conts h) (conts h1)" for i h1
  proof -
    have "quiet (\<lambda>h. (conts h, rest h)) (startContainer K x i)"
      unfolding startContainer_def using q by (auto intro!: quietness)
    then have "wp (startContainer K x i) (\<lambda>_ h'. (conts h', rest h') = (conts h1, rest h1)) h1" by (simp add: quiet_def)
    moreover have "wp (startContainer K x i) (\<lambda>r _. fst r = i) h1"
      unfolding startContainer_def by (auto intro!: wp_any)
    ultimately show ?thesis
      by (rule wp_mono [OF wp_conj]) (use that in \<open>auto simp: run_left_def\<close>)
  qed
  have none: "?Q ([], 0, Some e) h1" if "conts h1 = conts h" "rest h1 = rest h" for e h1 using that by (simp add: run_left_def)
  have create: "wp (attempt (dk_ContainerCreate K s) (\<lambda>e. State_Monad.return ([], 0, Some e)) (startContainer K x)) ?Q h1"
    if "conts h1 = conts h" "rest h1 = rest h" "sp_Labels s = containerLabels x" for s h1
    unfolding wp_simps
  proof (rule wp_mono [OF docker_lawD(3) [OF law]], intro conjI(1) [of "\<forall>e. P e" for P] allI impI)
    fix r h2 i
    assume "rest h2 = rest h1 \<and> (case r of Inl _ \<Rightarrow> conts h2 = conts h1 | Inr i \<Rightarrow> conts h1 i = None \<and> conts h2 = (conts h1)(i \<mapsto> sp_Labels s))"
      "r = Inr i"
    then show "wp (startContainer K x i) ?Q h2" using that by (intro start) (auto simp: started_def)
  qed (use that none in auto)
  have net: "quiet (\<lambda>h. (conts h, rest h)) (if ru_networkName x \<noteq> [] then ensureNetwork K (ru_networkName x) else State_Monad.return None)"
    using q by (auto intro!: quietness)
  show ?thesis
  proof (cases "net_ParsePort K (strconv_Itoa (ru_containerPort x) @ ''/tcp'')")
    case None
    show ?thesis
      unfolding docker_run_def Let_def None option.case wp_simps(4)
      by (rule quiet_wp [OF net]) (use none create in auto)
  next
    case (Some e)
    then show ?thesis using none [of h] by (simp add: docker_run_def)
  qed
qed

section \<open>The health check\<close>

text \<open>The clock of the host never goes back, and sleeping takes as long as it was told to unless the context ends.\<close>

definition clock_law :: "'h docker \<Rightarrow> ('h \<Rightarrow> int) \<Rightarrow> bool" where
  "clock_law K clock \<longleftrightarrow>
     (\<forall>h. wp (time_Now K) (\<lambda>t h'. clock h \<le> t \<and> t \<le> clock h') h) \<and>
     (\<forall>a h. wp (net_Dial K a) (\<lambda>_ h'. clock h \<le> clock h') h) \<and>
     (\<forall>d h. wp (ctx_Sleep K d) (\<lambda>ok h'. ok \<longrightarrow> clock h + d \<le> clock h') h)"

lemma healthLoop_ends:
  assumes law: "clock_law K clock"
  shows "deadline < clock h + int n * 500000000 \<Longrightarrow>
     wp (healthLoop K (Suc n) addr deadline) (\<lambda>r h'. \<exists>e. r = Some e) h"
proof (induction n arbitrary: h)
  case 0
  have tick: "wp (time_Now K) (\<lambda>t h'. clock h1 \<le> t \<and> t \<le> clock h') h1" "wp (net_Dial K a) (\<lambda>_ h'. clock h1 \<le> clock h') h1" for h1 a
    using law by (simp_all add: clock_law_def)
  from 0 show ?case
    by (auto intro!: wp_mono [OF tick(2)] wp_mono [OF tick(1)])
next
  case (Suc n)
  have tick: "wp (time_Now K) (\<lambda>t h'. clock h1 \<le> t \<and> t \<le> clock h') h1" "wp (net_Dial K a) (\<lambda>_ h'. clock h1 \<le> clock h') h1"
    "wp (ctx_Sleep K d) (\<lambda>ok h'. ok \<longrightarrow> clock h1 + d \<le> clock h') h1" for h1 a d
    using law by (simp_all add: clock_law_def)
  have more: "wp (healthLoop K (Suc n) addr deadline) (\<lambda>r h'. \<exists>e. r = Some e) h1" if "clock h + 500000000 \<le> clock h1" for h1
    by (rule Suc.IH) (use that Suc.prems in simp)
  show ?case
    unfolding healthLoop.simps(2) [of _ "Suc n"] wp_simps
    apply (rule wp_mono [OF tick(2)])
    apply (split if_split, intro conjI impI, simp)
    apply (simp only: wp_simps)
    apply (rule wp_mono [OF tick(1)])
    apply (split if_split, intro conjI impI, simp)
    apply (simp only: wp_simps)
    apply (rule wp_mono [OF tick(3)])
    apply (split if_split, intro conjI impI)
     apply (rule more, simp)
    apply (simp only: wp_simps)
    apply (rule wp_any, simp)
    done
qed

lemma healthLoop_listening:
  "wp (healthLoop K n addr deadline) (\<lambda>r h'. r = Some None \<longrightarrow>
     (\<exists>h1. run_state (net_Dial K addr) h1 = (True, h')) \<or> (\<exists>h1. run_state (ctx_Err K) h1 = (None, h'))) h"
proof (induction n arbitrary: h)
  case (Suc n)
  show ?case
    unfolding healthLoop.simps(2) wp_simps
    by (rule wpI) (auto intro!: wpI [of "time_Now K"] wpI [of "ctx_Sleep K d" for d] wpI [of "ctx_Err K"] Suc)
qed simp

text \<open>C31: the agent's health check always comes to an end: whatever the network answers, on any clock that does not go
  back it gives a verdict within sixty-two rounds (thirty seconds at two rounds a second, and one more), and it
  reports a healthy container only after a connection was accepted, unless the agent is shutting down.\<close>

theorem healthCheck_terminates:
  assumes "clock_law K clock" and "62 \<le> fuel"
  shows "\<exists>e h'. run_state (healthCheck K fuel hostPort) h = (Some e, h') \<and>
     (e = None \<longrightarrow> (\<exists>h1. run_state (net_Dial K (health_address hostPort)) h1 = (True, h')) \<or> (\<exists>h1. run_state (ctx_Err K) h1 = (None, h')))"
proof -
  obtain n where n: "fuel = Suc n" "61 \<le> n" using assms(2) by (cases fuel) auto
  have "wp (time_Now K) (\<lambda>t h'. clock h \<le> t \<and> t \<le> clock h') h" using assms(1) by (simp add: clock_law_def)
  then have "wp (healthCheck K fuel hostPort) (\<lambda>r h'. \<exists>e. r = Some e) h"
    unfolding healthCheck_def n(1) wp_simps
    by (rule wp_mono) (rule healthLoop_ends [OF assms(1)], use n(2) in \<open>auto simp: healthCheckTimeout_def\<close>)
  moreover have "wp (healthCheck K fuel hostPort) (\<lambda>r h'. r = Some None \<longrightarrow>
      (\<exists>h1. run_state (net_Dial K (health_address hostPort)) h1 = (True, h')) \<or> (\<exists>h1. run_state (ctx_Err K) h1 = (None, h'))) h"
    unfolding healthCheck_def wp_simps by (intro wpI healthLoop_listening)
  ultimately show ?thesis by (auto simp: wp_def split: prod.splits)
qed

section \<open>A simulated host\<close>

text \<open>An engine that holds a list of containers, a clock that moves when the agent sleeps, inboxes for reports, and a disk; a
  published port accepts connections from the second second on.\<close>

record engine =
  en_list :: "Summary list"
  en_clock :: int
  en_sent :: "ReportInput list"
  en_told :: "ReportTeardownInput list"
  en_files :: "string \<rightharpoonup> string"
  en_backups :: "BackupReport list"

definition en_conts :: "engine \<Rightarrow> containers" where
  "en_conts h i = map_option sm_Labels (find (\<lambda>c. sm_ID c = i) (en_list h))"

definition en_matches :: "string \<Rightarrow> engine \<Rightarrow> Summary list" where
  "en_matches s h = (case strings_Cut (CHR ''='') s of
      None \<Rightarrow> []
    | Some (k, v) \<Rightarrow> filter (\<lambda>c. sm_Labels c k = Some v \<and> find (\<lambda>d. sm_ID d = sm_ID c) (en_list h) = Some c) (en_list h))"

definition en_fresh :: "engine \<Rightarrow> string" where
  "en_fresh h = ''c'' @ concat (map sm_ID (en_list h))"

definition en_create :: "ContainerSpec \<Rightarrow> engine \<Rightarrow> (string + string) \<times> engine" where
  "en_create s h = (Inr (en_fresh h), h\<lparr>en_list := \<lparr>sm_ID = en_fresh h, sm_Labels = sp_Labels s,
     sm_Ports = (if sp_Publish s then [\<lparr>ps_Type = ''tcp'', ps_PrivatePort = 80, ps_PublicPort = 30000\<rparr>] else [])\<rparr> # en_list h\<rparr>)"

definition demo_docker :: "engine docker" where
  "demo_docker = \<lparr>dk_ServerVersion = State_Monad.return (Inr ''27.0''), dk_ImagePull = (\<lambda>_. State_Monad.return (Inr [])),
     dk_ContainerList = (\<lambda>_ f. State (\<lambda>h. (Inr (if fst f = ''label'' then en_matches (snd f) h else filter (\<lambda>c. sm_ID c = snd f) (en_list h)), h))),
     dk_ContainerStop = (\<lambda>_. State_Monad.return None),
     dk_ContainerRemove = (\<lambda>i. State (\<lambda>h. (None, h\<lparr>en_list := filter (\<lambda>c. sm_ID c \<noteq> i) (en_list h)\<rparr>))),
     dk_ContainerCreate = (\<lambda>s. State (en_create s)), dk_ContainerStart = (\<lambda>_. State_Monad.return None),
     dk_ContainerLogs = (\<lambda>_ _. State_Monad.return (Inr ''listening'')), dk_NetworkInspect = (\<lambda>_. State_Monad.return None),
     dk_NetworkCreate = (\<lambda>_. State_Monad.return None), dk_NetworkRemove = (\<lambda>_. State_Monad.return None),
     dk_ExecCreate = (\<lambda>_ _. State_Monad.return (Inr ''exec'')), dk_ExecAttach = (\<lambda>_. State_Monad.return None),
     dk_ExecInput = (\<lambda>_ _. State_Monad.return None), dk_ExecOutput = (\<lambda>_. State_Monad.return (''--'', [], None)),
     dk_ExecInspect = (\<lambda>_. State_Monad.return (Inr 0)), net_ParsePort = (\<lambda>_. None),
     net_Dial = (\<lambda>_. State (\<lambda>h. (10 ^ 9 \<le> en_clock h, h))), time_Now = State (\<lambda>h. (en_clock h, h)),
     ctx_Sleep = (\<lambda>d. State (\<lambda>h. (True, h\<lparr>en_clock := en_clock h + d\<rparr>))), ctx_Err = State_Monad.return None,
     time_Parse = (\<lambda>_. None), time_Format = (\<lambda>_. []), git_PlainClone = (\<lambda>_ _. State_Monad.return (Inr (Inr ''0a1b2c''))),
     dir_Stat = (\<lambda>_. State_Monad.return (Some ''no such file'')), dir_Read = State_Monad.return (\<lambda>_. Inl (NotExist [])),
     dir_WriteFile = (\<lambda>_ _. State_Monad.return None), cli_DockerBuild = (\<lambda>_ _. State_Monad.return ([], None)),
     cli_ImageInspect = (\<lambda>_. State_Monad.return (Inr ''null'')), json_error = (\<lambda>_. [])\<rparr>"

lemma demo_clock_law: "clock_law demo_docker en_clock"
  by (simp add: clock_law_def demo_docker_def wp_def)

lemma en_fresh_new: "find (\<lambda>c. sm_ID c = en_fresh h) (en_list h) = None"
proof -
  have "length (sm_ID c) < length (en_fresh h)" if "c \<in> set (en_list h)" for c
    using that split_list [of c "en_list h"] by (auto simp: en_fresh_def)
  then show ?thesis by (force simp: find_None_iff)
qed

lemma demo_docker_law: "docker_law demo_docker en_conts (\<lambda>h. (en_sent h, en_told h))"
proof -
  have "docker_quiet (\<lambda>h. (en_conts h, en_sent h, en_told h)) demo_docker"
    by (simp add: docker_quiet_def demo_docker_def quiet_def wp_def en_conts_def [abs_def] State_Monad.return_def)
  moreover have "sm_ID ` set (en_matches (labelService @ ''='' @ v) h) = with_label labelService v (en_conts h)" for v h
  proof -
    let ?get = "\<lambda>x. find (\<lambda>c. sm_ID c = x) (en_list h)"
    have get: "sm_ID z = x \<and> z \<in> set (en_list h)" if "?get x = Some z" for x z
      using that by (auto simp: find_Some_iff)
    have listed: "en_matches (labelService @ ''='' @ v) h = filter (\<lambda>c. sm_Labels c labelService = Some v \<and> ?get (sm_ID c) = Some c) (en_list h)"
      by (simp add: en_matches_def strings_Cut_def)
    have "with_label labelService v (en_conts h) = {x. \<exists>z. ?get x = Some z \<and> sm_Labels z labelService = Some v}"
      by (auto simp: with_label_def en_conts_def)
    also have "\<dots> = sm_ID ` set (en_matches (labelService @ ''='' @ v) h)"
    proof (intro set_eqI iffI)
      fix x assume "x \<in> {x. \<exists>z. ?get x = Some z \<and> sm_Labels z labelService = Some v}"
      then obtain z where z: "?get x = Some z" "sm_Labels z labelService = Some v" by blast
      with get [OF z(1)] have "z \<in> set (en_matches (labelService @ ''='' @ v) h)" "sm_ID z = x" unfolding listed by simp_all
      then show "x \<in> sm_ID ` set (en_matches (labelService @ ''='' @ v) h)" by blast
    next
      fix x assume "x \<in> sm_ID ` set (en_matches (labelService @ ''='' @ v) h)"
      then show "x \<in> {x. \<exists>z. ?get x = Some z \<and> sm_Labels z labelService = Some v}" unfolding listed by auto
    qed
    finally show ?thesis by simp
  qed
  moreover have "en_conts (h\<lparr>en_list := filter (\<lambda>c. sm_ID c \<noteq> i) (en_list h)\<rparr>) = (en_conts h)(i := None)" for h i
  proof -
    have "find (\<lambda>c. sm_ID c = x) (filter (\<lambda>c. sm_ID c \<noteq> i) l) = (if x = i then None else find (\<lambda>c. sm_ID c = x) l)" for x and l :: "Summary list"
      by (induction l) auto
    then show ?thesis by (auto simp: en_conts_def fun_eq_iff)
  qed
  moreover have "en_conts (snd (en_create s h)) = (en_conts h)(en_fresh h \<mapsto> sp_Labels s)" "en_conts h (en_fresh h) = None" for s h
    by (auto simp: en_conts_def en_create_def en_fresh_new fun_eq_iff)
  ultimately show ?thesis
    by (auto simp: docker_law_def demo_docker_def wp_def en_create_def)
qed

definition demo_engine :: engine where
  "demo_engine = \<lparr>en_list = [\<lparr>sm_ID = ''old'', sm_Labels = [labelService \<mapsto> ''svc''], sm_Ports = []\<rparr>,
     \<lparr>sm_ID = ''other'', sm_Labels = [labelService \<mapsto> ''db''], sm_Ports = []\<rparr>], en_clock = 0, en_sent = [], en_told = [],
     en_files = Map.empty, en_backups = []\<rparr>"

theorem healthCheck_terminates_witness:
  "\<exists>e h'. run_state (healthCheck demo_docker 62 30000) demo_engine = (Some e, h') \<and>
     (e = None \<longrightarrow> (\<exists>h1. run_state (net_Dial demo_docker (health_address 30000)) h1 = (True, h')) \<or>
        (\<exists>h1. run_state (ctx_Err demo_docker) h1 = (None, h')))"
  by (rule healthCheck_terminates [OF demo_clock_law]) simp

section \<open>Build output\<close>

lemma split_append:
  "strings_Split c (xs @ ys) = butlast (strings_Split c xs) @ strings_Split c (last (strings_Split c xs) @ ys)"
proof (induction xs)
  case (Cons x xs)
  obtain p ps where "strings_Split c xs = p # ps" using strings_Split_ne by (cases "strings_Split c xs") auto
  with Cons show ?case by (cases ps) auto
qed simp

lemma split_free: "p \<in> set (strings_Split c xs) \<Longrightarrow> c \<notin> set p"
  by (induction xs arbitrary: p) (auto split: if_splits list.splits)

lemma emitted_lines:
  "CHR 0x0A \<notin> set buf \<Longrightarrow> emitted buf chunks = concat (map emitLine (strings_Split (CHR 0x0A) (buf @ concat chunks)))"
proof (induction chunks arbitrary: buf)
  case Nil
  then show ?case by (simp add: emitter_flush_def split_whole) (simp add: emitLine_def trim_cr_def)
next
  case (Cons p ps)
  have "CHR 0x0A \<notin> set (last (strings_Split (CHR 0x0A) (buf @ p)))" 
    by (rule split_free [OF last_in_set [OF strings_Split_ne]])
  from Cons.IH [OF this] show ?case
    by (simp add: emitter_Write_def Let_def split_append [of _ "buf @ p" "concat ps", simplified])
qed

text \<open>The lines of a build's log do not depend on how the two output streams are cut into writes: they are the
  non-blank lines of everything that was written, in order.\<close>

theorem build_lines_independent_of_writes:
  "emitted [] chunks = concat (map emitLine (strings_Split (CHR 0x0A) (concat chunks)))"
  using emitted_lines [of "[]"] by simp

end
