(* ===== verification/AgentRuns.thy ===== *)
theory AgentRuns
  imports Effects Services
begin

text \<open>
  What the agent's jobs do to the host and what they tell the control plane: deployments
  (\<^verbatim>\<open>internal/agentcore/deploy.go\<close>) and teardowns (\<^verbatim>\<open>teardown.go\<close>), on any engine that obeys \<open>docker_law\<close>, whatever
  fails on the way. Connections to the control plane are observed through the list of the reports they carried.
\<close>

section \<open>Reports\<close>

definition rpc_law :: "'h rpc \<Rightarrow> ('h \<Rightarrow> containers) \<Rightarrow> ('h \<Rightarrow> ReportInput list) \<Rightarrow> bool" where
  "rpc_law P conts sent \<longleftrightarrow>
     quiet (\<lambda>h. (conts h, sent h)) (ident_get P) \<and> (\<forall>i. quiet (\<lambda>h. (conts h, sent h)) (rpc_SyncRoutes P i)) \<and>
     (\<forall>i. quiet (\<lambda>h. (conts h, sent h)) (rpc_ReportRouteSync P i)) \<and>
     (\<forall>r h. wp (rpc_ReportDeployment P r) (\<lambda>_ h'. conts h' = conts h \<and> sent h' = sent h @ [r]) h)"

text \<open>Between two hosts the reports about the job \<open>i\<close> with the statuses \<open>ss\<close> were sent.\<close>

definition reported :: "('h \<Rightarrow> 'r list) \<Rightarrow> ('r \<Rightarrow> string) \<Rightarrow> ('r \<Rightarrow> string) \<Rightarrow> string \<Rightarrow> 'h \<Rightarrow> string list \<Rightarrow> 'h \<Rightarrow> bool" where
  "reported sent job status i h ss h' \<longleftrightarrow> (\<exists>rs. sent h' = sent h @ rs \<and> map status rs = ss \<and> (\<forall>r \<in> set rs. job r = i))"

abbreviation said :: "('h \<Rightarrow> ReportInput list) \<Rightarrow> string \<Rightarrow> 'h \<Rightarrow> string list \<Rightarrow> 'h \<Rightarrow> bool" where
  "said sent \<equiv> reported sent ri_DeploymentID ri_Status"

abbreviation told_of :: "('h \<Rightarrow> ReportTeardownInput list) \<Rightarrow> string \<Rightarrow> 'h \<Rightarrow> string list \<Rightarrow> 'h \<Rightarrow> bool" where
  "told_of told \<equiv> reported told rp_TeardownID rp_Status"

lemma reported_refl [simp]: "reported sent job status i h [] h"
  by (simp add: reported_def)

lemma reported_quiet: "reported sent job status i h0 ss h \<Longrightarrow> sent h' = sent h \<Longrightarrow> reported sent job status i h0 ss h'"
  by (simp add: reported_def)

lemma reported_more:
  "reported sent job status i h0 ss h \<Longrightarrow> sent h' = sent h @ [r] \<Longrightarrow> job r = i \<Longrightarrow> reported sent job status i h0 (ss @ [status r]) h'"
  unfolding reported_def by (elim exE conjE) (rule exI [of _ "rs @ [r]" for rs], auto)

text \<open>Symbolic execution: what a step leaves, seen from the host \<open>h0\<close> at which the job began.\<close>

lemma wp_quiet_step:
  assumes "quiet (\<lambda>h. (obs h, sent h)) m" and "reported sent job status i h0 ss h"
    and "\<And>x h'. reported sent job status i h0 ss h' \<Longrightarrow> obs h' = obs h \<Longrightarrow> Q x h'"
  shows "wp m Q h"
  by (rule quiet_wp [OF assms(1)], rule assms(3)) (auto intro: reported_quiet [OF assms(2)])

text \<open>The statuses a deployment announces on its way, in order.\<close>

definition preparing :: "Claimed \<Rightarrow> string list" where
  "preparing job = (if cl_SourceKind job = SourceGit then [statusCloning, statusBuilding] else [statusPulling])"

definition announced :: "Claimed \<Rightarrow> string list" where
  "announced job = preparing job @ [statusStarting] @ (if cl_Visibility job \<noteq> ''private'' then [statusHealthcheck, statusRouting] else [])"

text \<open>The laws of everything a deployment works with.\<close>

definition deployment_law ::
    "'h rpc \<Rightarrow> 'h docker \<Rightarrow> 'h deploymentRouter \<Rightarrow> 'h agent_os \<Rightarrow> (int \<Rightarrow> ('h, string option) state) \<Rightarrow> ('h \<Rightarrow> containers) \<Rightarrow>
     ('h \<Rightarrow> ReportInput list) \<Rightarrow> bool" where
  "deployment_law P K Q F probe conts sent \<longleftrightarrow>
     docker_law K conts sent \<and> rpc_law P conts sent \<and>
     (\<forall>rs. quiet (\<lambda>h. (conts h, sent h)) (ro_apply Q rs)) \<and> (\<forall>p. quiet (\<lambda>h. (conts h, sent h)) (probe p)) \<and>
     (\<forall>d. quiet (\<lambda>h. (conts h, sent h)) (ao_MkdirTemp F d)) \<and> (\<forall>d m. quiet (\<lambda>h. (conts h, sent h)) (ao_Chmod F d m)) \<and>
     (\<forall>d. quiet (\<lambda>h. (conts h, sent h)) (ao_RemoveAll F d))"

lemma deployment_lawD:
  assumes "deployment_law P K Q F probe conts sent"
  shows "docker_law K conts sent" "docker_quiet (\<lambda>h. (conts h, sent h)) K" "quiet (\<lambda>h. (conts h, sent h)) (ident_get P)"
    "quiet (\<lambda>h. (conts h, sent h)) (rpc_SyncRoutes P sy)" "quiet (\<lambda>h. (conts h, sent h)) (rpc_ReportRouteSync P rr)"
    "wp (rpc_ReportDeployment P r) (\<lambda>_ h'. conts h' = conts h \<and> sent h' = sent h @ [r]) h"
    "quiet (\<lambda>h. (conts h, sent h)) (ro_apply Q rs)" "quiet (\<lambda>h. (conts h, sent h)) (probe p)"
    "quiet (\<lambda>h. (conts h, sent h)) (ao_MkdirTemp F d)" "quiet (\<lambda>h. (conts h, sent h)) (ao_Chmod F d m)"
    "quiet (\<lambda>h. (conts h, sent h)) (ao_RemoveAll F d)"
  using assms by (simp_all add: deployment_law_def rpc_law_def docker_law_def)

lemma wp_report:
  assumes law: "deployment_law P K R F probe conts sent" and "said sent i h0 ss h" and "cp_depID c = i"
    and next_: "\<And>h'. said sent i h0 (ss @ [rep_status x]) h' \<Longrightarrow> conts h' = conts h \<Longrightarrow> Q () h'"
  shows "wp (report P c x) Q h"
  unfolding report_def wp_simps
  by (rule wp_quiet_step [OF deployment_lawD(3) [OF law] assms(2)], rule wp_mono [OF deployment_lawD(6) [OF law]], rule next_)
    (auto dest: reported_more [where r = "r :: ReportInput" for r] simp: assms(3))

lemma wp_report_steps:
  assumes law: "deployment_law P K R F probe conts sent" and "said sent i h0 ss h" and "cp_depID c = i"
    and next_: "\<And>h'. said sent i h0 (ss @ [status]) h' \<Longrightarrow> conts h' = conts h \<Longrightarrow> Q () h'"
  shows "wp (reportBuild P c status port cid message logs) Q h" "wp (reportRuntime P c status port cid message logs) Q h"
  unfolding reportBuild_def reportRuntime_def using next_ by (auto intro!: wp_report [OF law assms(2,3)])

lemma runtime_simps [simp]:
  "rt_pull (dockerRuntime K) = docker_pull K" "rt_clone (dockerRuntime K) = docker_clone K" "rt_build (dockerRuntime K) = docker_build K"
  "rt_detectPort (dockerRuntime K) = detectPort K" "rt_run (dockerRuntime K) = docker_run K"
  "rt_replacePreviousExcept (dockerRuntime K) = replacePreviousExcept K" "rt_removeContainer (dockerRuntime K) = removeContainer K"
  "rt_recentLogs (dockerRuntime K) = recentLogs K" "rt_listManagedRoutes (dockerRuntime K) = listManagedRoutes K"
  by (simp_all add: dockerRuntime_def)

text \<open>What has been announced when a deployment fails: the beginning of \<open>full\<close>, then the failure.\<close>

definition failing :: "string list \<Rightarrow> string list \<Rightarrow> bool" where
  "failing full ss \<longleftrightarrow> ss \<noteq> [] \<and> last ss = statusFailed \<and> butlast ss = take (length ss - 1) full"

lemma failingI: "take (length ss) full = ss \<Longrightarrow> failing full (ss @ [statusFailed])"
  by (simp add: failing_def)

lemma wp_prepareImage:
  assumes law: "deployment_law P K R F probe conts sent" and h: "said sent i h0 [] h" and c: "cp_depID c = i"
    and fails: "\<And>ss h'. said sent i h0 ss h' \<Longrightarrow> failing (preparing job) ss \<Longrightarrow> conts h' = conts h \<Longrightarrow> Q None h'"
    and works: "\<And>im p ls c ss h'. said sent i h0 ss h' \<Longrightarrow> ss = preparing job \<Longrightarrow> conts h' = conts h \<Longrightarrow> cp_depID c = i \<Longrightarrow>
      Q (Some (im, p, ls, c)) h'"
  shows "wp (prepareImage P (dockerRuntime K) F job c) Q h"
proof -
  note q = docker_quietD [OF deployment_lawD(2) [OF law]] quiet_docker [OF deployment_lawD(2) [OF law]] deployment_lawD(9-11) [OF law]
  note step = q [THEN wp_quiet_step] wp_report_steps [OF law]
  show ?thesis
    unfolding prepareImage_def buildFromSource_def buildIn_def Let_def
    using h c
    by (auto intro!: step fails works split: sum.split option.split prod.split) (assumption | simp add: preparing_def failing_def)+
qed

section \<open>Starting, probing, routing\<close>

text \<open>A failed deployment leaves every container that was there; a successful one has a new container of the service, and of
  the others only containers of the same service are gone.\<close>

definition switched_over :: "Claimed \<Rightarrow> containers \<Rightarrow> containers \<Rightarrow> bool" where
  "switched_over job cs cs' \<longleftrightarrow> (\<exists>i im p. cs i = None \<and> cs' i = Some (containerLabels (runInputOf job im p)) \<and>
     (\<forall>j. j \<noteq> i \<longrightarrow> cs' j = cs j \<or> (cs' j = None \<and> j \<in> with_label labelService (cl_AppLabel job) cs)))"

definition deployment_outcome :: "Claimed \<Rightarrow> containers \<Rightarrow> string list \<Rightarrow> containers \<Rightarrow> bool" where
  "deployment_outcome job cs ss cs' \<longleftrightarrow>
     (failing (announced job) ss \<and> cs \<subseteq>\<^sub>m cs') \<or> (ss = announced job @ [statusRunning] \<and> switched_over job cs cs')"

lemma run_left_kept:
  assumes "run_left l r cs cs1" and "cs2 = cs1 \<or> fst r \<noteq> [] \<and> cs2 = cs1(fst r := None)"
  shows "cs \<subseteq>\<^sub>m cs2"
  using assms by (auto simp: run_left_def started_def map_le_def)

lemma started_kept: "started l i cs cs1 \<Longrightarrow> cs2 = cs1 \<or> i \<noteq> [] \<and> cs2 = cs1(i := None) \<Longrightarrow> cs \<subseteq>\<^sub>m cs2"
  by (auto simp: started_def map_le_def)

lemma wp_cleanup_step:
  assumes law: "deployment_law P K R F probe conts sent" and "said sent i h0 ss h"
    and next_: "\<And>h'. said sent i h0 ss h' \<Longrightarrow> conts h' = conts h \<or> cid \<noteq> [] \<and> conts h' = (conts h)(cid := None) \<Longrightarrow> Q () h'"
  shows "wp (cleanupFailedContainer (dockerRuntime K) cid) Q h"
  by (rule wp_mono [OF wp_cleanup [OF deployment_lawD(1) [OF law]]]) (auto intro!: next_ reported_quiet [OF assms(2)])

lemma wp_failAndClean:
  assumes law: "deployment_law P K R F probe conts sent" and run: "started l cid cs cs1"
    and h: "said sent i h0 ss h" and c: "cp_depID c = i" and cs: "conts h = cs1"
    and fails: "\<And>h'. said sent i h0 (ss @ [statusFailed]) h' \<Longrightarrow> cs \<subseteq>\<^sub>m conts h' \<Longrightarrow> Q None h'"
  shows "wp (failAndClean P (dockerRuntime K) c port cid message logs) Q h"
  unfolding failAndClean_def wp_simps
proof (rule wp_report_steps(1) [OF law h c], rule wp_cleanup_step [OF law])
  fix h1 h2
  assume "conts h1 = conts h" "conts h2 = conts h1 \<or> cid \<noteq> [] \<and> conts h2 = (conts h1)(cid := None)"
    "said sent i h0 (ss @ [statusFailed]) h2"
  then show "Q None h2" using started_kept [OF run] fails cs by metis
qed

lemma wp_switchRoute:
  assumes law: "deployment_law P K R F probe conts sent" and run: "started l cid cs cs1"
    and h: "said sent i h0 ss h" and c: "cp_depID c = i" and cs: "conts h = cs1"
    and fails: "\<And>ts h'. said sent i h0 ts h' \<Longrightarrow> failing (ss @ [statusRouting]) ts \<Longrightarrow> cs \<subseteq>\<^sub>m conts h' \<Longrightarrow> Q None h'"
    and works: "\<And>c h'. said sent i h0 (ss @ [statusRouting]) h' \<Longrightarrow> conts h' = cs1 \<Longrightarrow> cp_depID c = i \<Longrightarrow> Q (Some c) h'"
  shows "wp (switchRoute P (dockerRuntime K) R job c cid port) Q h"
proof -
  note step = quiet_docker(8) [OF deployment_lawD(2) [OF law], THEN wp_quiet_step] deployment_lawD(7) [OF law, THEN wp_quiet_step]
    wp_report_steps(1) [OF law] wp_failAndClean [OF law run]
  show ?thesis
    unfolding switchRoute_def Let_def runtime_simps
    apply (split sum.split, intro conjI allI impI)
     apply (rule step, rule h, rule c, rule cs, erule fails, rule failingI, simp, assumption)
    apply (unfold wp_simps)
    apply (rule step, rule h, simp add: c)
    apply (rule step, assumption, intro conjI allI impI)
     apply (rule step, assumption, simp add: c, simp add: cs, erule fails, rule failingI, simp, assumption)
    apply (rule step, assumption)
    apply (split prod.split, intro allI impI, split option.split, intro conjI allI impI)
     apply (unfold wp_simps, erule works, simp add: cs, simp add: c)
    apply (rule step, assumption, simp add: c, simp add: cs, erule fails, rule failingI, simp, assumption)
    done
qed

lemma wp_probeAndRoute:
  assumes law: "deployment_law P K R F probe conts sent" and run: "started l cid cs cs1"
    and h: "said sent i h0 ss h" and c: "cp_depID c = i" and cs: "conts h = cs1"
    and fails: "\<And>ts h'. said sent i h0 ts h' \<Longrightarrow> failing (ss @ [statusHealthcheck, statusRouting]) ts \<Longrightarrow> cs \<subseteq>\<^sub>m conts h' \<Longrightarrow> Q None h'"
    and works: "\<And>c h'. said sent i h0 (ss @ [statusHealthcheck, statusRouting]) h' \<Longrightarrow> conts h' = cs1 \<Longrightarrow> cp_depID c = i \<Longrightarrow> Q (Some c) h'"
  shows "wp (probeAndRoute P (dockerRuntime K) R probe job c cid port) Q h"
proof -
  note step = quiet_docker(5) [OF deployment_lawD(2) [OF law], THEN wp_quiet_step] deployment_lawD(8) [OF law, THEN wp_quiet_step]
    wp_report_steps [OF law]
  show ?thesis
    unfolding probeAndRoute_def wp_simps runtime_simps
    apply (rule step, rule h, rule c)
    apply (rule step, assumption, split option.split, intro conjI allI impI)
     apply (rule wp_switchRoute [OF law run], assumption, rule c, simp add: cs)
      apply (erule fails, simp, assumption)
     apply (rule works, simp, assumption, assumption)
    apply (unfold wp_simps)
    apply (rule step, assumption, rule step, assumption, rule c)
    apply (rule wp_cleanup_step [OF law], assumption, erule fails, rule failingI, simp)
    apply (rule started_kept [OF run], auto simp: cs)
    done
qed

lemma quiet_syncCustomRoutes:
  assumes law: "deployment_law P K R F probe conts sent"
  shows "quiet (\<lambda>h. (conts h, sent h)) (syncCustomRoutes P (Some (dockerRuntime K)) (Some R))"
  using deployment_lawD(3-5,7) [OF law] quiet_docker [OF deployment_lawD(2) [OF law]]
  unfolding syncCustomRoutes_def Let_def by (auto intro!: quietness)

section \<open>The whole deployment\<close>

lemma switched_overI:
  assumes "started (containerLabels (runInputOf job im p)) cid cs cs1"
    and "removed_from cs1 (with_label labelService (cl_AppLabel job) cs1 - {cid}) e cs2"
  shows "switched_over job cs cs2"
proof -
  obtain gone where g: "gone \<subseteq> with_label labelService (cl_AppLabel job) cs1 - {cid}" "cs2 = cs1 |` (- gone)"
    using assms(2) by (auto simp: removed_from_def)
  have new: "cs cid = None" "cs1 = cs(cid \<mapsto> containerLabels (runInputOf job im p))" using assms(1) by (simp_all add: started_def)
  have "cs2 cid = Some (containerLabels (runInputOf job im p))" using g new(2) by (auto simp: restrict_map_def)
  moreover have "cs2 j = cs j \<or> cs2 j = None \<and> j \<in> with_label labelService (cl_AppLabel job) cs" if "j \<noteq> cid" for j
    using that g new(2) by (auto simp: restrict_map_def with_label_def)
  ultimately show ?thesis using new(1) unfolding switched_over_def by blast
qed

lemma wp_finishDeployment:
  assumes law: "deployment_law P K R F probe conts sent" and run: "started (containerLabels (runInputOf job im p)) cid cs cs1"
    and h: "said sent i h0 ss h" and c: "cp_depID c = i" and cs: "conts h = cs1"
    and works: "\<And>h'. said sent i h0 (ss @ [statusRunning]) h' \<Longrightarrow> switched_over job cs (conts h') \<Longrightarrow> Q () h'"
  shows "wp (finishDeployment P (dockerRuntime K) R job c public cport cid port) Q h"
  unfolding finishDeployment_def Let_def wp_simps runtime_simps
proof (rule wp_mono [OF wp_replacePreviousExcept [OF deployment_lawD(1) [OF law]]], elim conjE)
  fix e h1
  assume "sent h1 = sent h" and gone: "removed_from (conts h) (with_label labelService (cl_AppLabel job) (conts h) - {cid}) e (conts h1)"
  then have h1: "said sent i h0 ss h1" by (auto intro: reported_quiet [OF h])
  have over: "switched_over job cs (conts h1)" using switched_overI [OF run] gone cs by simp
  show "wp (recentLogs K cid maxReportLogLines) (\<lambda>y. wp (reportRuntime P c statusRunning port cid
      (case e of None \<Rightarrow> runningMessage public (cp_routeURL c) (cl_NetworkAlias job) cport port
       | Some e \<Rightarrow> runningMessage public (cp_routeURL c) (cl_NetworkAlias job) cport port @ ''; could not remove previous container: '' @ e) y)
      (\<lambda>_. wp (syncCustomRoutes P (Some (dockerRuntime K)) (Some R)) Q)) h1"
    by (rule quiet_docker(5) [OF deployment_lawD(2) [OF law], THEN wp_quiet_step], rule h1,
        rule wp_report_steps(2) [OF law], assumption, rule c,
        rule quiet_syncCustomRoutes [OF law, THEN wp_quiet_step], assumption, simp, rule works) (use over in auto)
qed

lemma wp_startDeployment:
  assumes law: "deployment_law P K R F probe conts sent" and h: "said sent i h0 ss h" and ss: "ss = preparing job"
    and c: "cp_depID c = i" and cs: "conts h = cs"
  shows "wp (startDeployment P (dockerRuntime K) R probe job (im, cport, logs, c))
     (\<lambda>_ h'. \<exists>ts. said sent i h0 ts h' \<and> deployment_outcome job cs ts (conts h')) h"
  unfolding startDeployment_def Let_def prod.case wp_simps runtime_simps
proof (rule wp_report_steps(1) [OF law h c])
  fix h1 assume h1: "said sent i h0 (ss @ [statusStarting]) h1" "conts h1 = conts h"
  let ?Q = "\<lambda>_ h'. \<exists>ts. said sent i h0 ts h' \<and> deployment_outcome job cs ts (conts h')"
  have fails: "?Q () h'" if "said sent i h0 ts h'" "failing (announced job) ts" "cs \<subseteq>\<^sub>m conts h'" for ts h'
    using that by (auto simp: deployment_outcome_def)
  have works: "?Q () h'" if "said sent i h0 (announced job @ [statusRunning]) h'" "switched_over job cs (conts h')" for h'
    using that by (auto simp: deployment_outcome_def)
  note q = quiet_docker(5) [OF deployment_lawD(2) [OF law], THEN wp_quiet_step]
  show "wp (docker_run K (runInputOf job im cport)) (\<lambda>y. wp (case y of (containerID, hostPort, None) \<Rightarrow>
        if cl_Visibility job \<noteq> ''private'' then do {
          routed \<leftarrow> probeAndRoute P (dockerRuntime K) R probe job c containerID hostPort;
          case routed of None \<Rightarrow> State_Monad.return ()
          | Some c \<Rightarrow> finishDeployment P (dockerRuntime K) R job c (cl_Visibility job \<noteq> ''private'') cport containerID hostPort }
        else finishDeployment P (dockerRuntime K) R job c (cl_Visibility job \<noteq> ''private'') cport containerID hostPort
      | (containerID, hostPort, Some e) \<Rightarrow> do {
          crashLogs \<leftarrow> (if containerID \<noteq> [] then recentLogs K containerID maxReportLogLines else State_Monad.return []);
          _ \<leftarrow> reportRuntime P c statusFailed hostPort containerID (''could not start container: '' @ e) crashLogs;
          cleanupFailedContainer (dockerRuntime K) containerID }) ?Q) h1"
  proof (rule wp_mono [OF wp_docker_run [OF deployment_lawD(1) [OF law]]], elim conjE)
    fix r h2
    assume s2: "sent h2 = sent h1" and left: "run_left (containerLabels (runInputOf job im cport)) r (conts h1) (conts h2)"
    obtain cid port e where r: "r = (cid, port, e)" by (cases r)
    have h2: "said sent i h0 (ss @ [statusStarting]) h2" by (rule reported_quiet [OF h1(1) s2])
    show "wp (case r of (containerID, hostPort, None) \<Rightarrow>
        if cl_Visibility job \<noteq> ''private'' then do {
          routed \<leftarrow> probeAndRoute P (dockerRuntime K) R probe job c containerID hostPort;
          case routed of None \<Rightarrow> State_Monad.return ()
          | Some c \<Rightarrow> finishDeployment P (dockerRuntime K) R job c (cl_Visibility job \<noteq> ''private'') cport containerID hostPort }
        else finishDeployment P (dockerRuntime K) R job c (cl_Visibility job \<noteq> ''private'') cport containerID hostPort
      | (containerID, hostPort, Some e) \<Rightarrow> do {
          crashLogs \<leftarrow> (if containerID \<noteq> [] then recentLogs K containerID maxReportLogLines else State_Monad.return []);
          _ \<leftarrow> reportRuntime P c statusFailed hostPort containerID (''could not start container: '' @ e) crashLogs;
          cleanupFailedContainer (dockerRuntime K) containerID }) ?Q h2"
    proof (cases e)
      case None
      then have run: "started (containerLabels (runInputOf job im cport)) cid cs (conts h2)"
        using left h1(2) cs by (auto simp: run_left_def r)
      show ?thesis
      proof (cases "cl_Visibility job \<noteq> ''private''")
        case True
        then have full: "announced job = (ss @ [statusStarting]) @ [statusHealthcheck, statusRouting]" by (simp add: announced_def ss)
        show ?thesis
          using True unfolding r None prod.case option.case if_True wp_simps
          apply (simp only: if_True simp_thms if_P wp_simps)
          apply (rule wp_probeAndRoute [OF law run h2 c refl])
           apply (simp only: option.case wp_simps, rule fails, assumption, simp add: full, assumption)
          apply (simp only: option.case)
          apply (rule wp_finishDeployment [OF law run], assumption, assumption, assumption, rule works, simp add: full, assumption)
          done
      next
        case False
        then have full: "announced job = ss @ [statusStarting]" by (simp add: announced_def ss)
        show ?thesis
          using False unfolding r None prod.case option.case
          apply (simp only: if_False simp_thms if_not_P)
          apply (rule wp_finishDeployment [OF law run h2 c refl], rule works, simp add: full, assumption)
          done
      qed
    next
      case (Some x)
      have kept: "cs \<subseteq>\<^sub>m conts h'" if "conts h' = conts h2 \<or> cid \<noteq> [] \<and> conts h' = (conts h2)(cid := None)" for h'
        using run_left_kept [OF left] that h1(2) cs by (auto simp: r)
      have full: "take (length (ss @ [statusStarting])) (announced job) = ss @ [statusStarting]" by (simp add: announced_def ss)
      have quiet: "quiet (\<lambda>h. (conts h, sent h)) (if cid \<noteq> [] then recentLogs K cid maxReportLogLines else State_Monad.return [])"
        using quiet_docker(5) [OF deployment_lawD(2) [OF law]] by (auto intro!: quietness)
      show ?thesis
        unfolding r Some prod.case option.case wp_simps
        apply (rule wp_quiet_step [OF quiet h2], rule wp_report_steps(2) [OF law], assumption, rule c)
        apply (rule wp_cleanup_step [OF law], assumption)
        apply (rule fails, assumption, rule failingI, rule full, rule kept, simp)
        done
    qed
  qed
qed

lemma wp_executeDeployment:
  assumes law: "deployment_law P K R F probe conts sent"
  shows "wp (executeDeployment P (Some (dockerRuntime K)) (Some R) F probe job)
     (\<lambda>_ h'. \<exists>ts. said sent (cl_DeploymentID job) h ts h' \<and> deployment_outcome job (conts h) ts (conts h')) h"
  unfolding executeDeployment_def Let_def option.case wp_simps
proof (rule wp_prepareImage [OF law reported_refl])
  fix ss h' assume "said sent (cl_DeploymentID job) h ss h'" "failing (preparing job) ss" "conts h' = conts h"
  moreover have "failing (announced job) ss" if "failing (preparing job) ss"
  proof -
    have "butlast ss = take (length ss - 1) (preparing job)" using that by (simp add: failing_def)
    then have "length (butlast ss) = length (take (length ss - 1) (preparing job))" by simp
    then have "length ss - 1 \<le> length (preparing job)" by simp
    then show ?thesis using that by (simp add: failing_def announced_def)
  qed
  ultimately show "wp (case None of None \<Rightarrow> State_Monad.return () | Some x \<Rightarrow> startDeployment P (dockerRuntime K) R probe job x)
     (\<lambda>_ h'. \<exists>ts. said sent (cl_DeploymentID job) h ts h' \<and> deployment_outcome job (conts h) ts (conts h')) h'"
    by (auto simp: deployment_outcome_def)
next
  fix im p ls ss h' and c :: captured
  assume prep: "said sent (cl_DeploymentID job) h ss h'" "ss = preparing job" "conts h' = conts h" "cp_depID c = cl_DeploymentID job"
  show "wp (case Some (im, p, ls, c) of None \<Rightarrow> State_Monad.return () | Some x \<Rightarrow> startDeployment P (dockerRuntime K) R probe job x)
     (\<lambda>_ h'. \<exists>ts. said sent (cl_DeploymentID job) h ts h' \<and> deployment_outcome job (conts h) ts (conts h')) h'"
    unfolding option.case by (rule wp_startDeployment [OF law prep(1,2,4,3)])
qed simp

text \<open>C28: executing a deployment tells the control plane a story that the status vocabulary allows, and does to the
  server only what that story says. Its reports are all about this deployment, announce the phases of its kind in
  order without gaps, and end with exactly one verdict. If the verdict is that the deployment failed, every
  container that was on the server is still there, with its labels. If it is running, then every phase was
  announced, a new container with the deployment's labels exists, and of the containers that were there only
  containers of the same service are gone.\<close>

theorem executeDeployment_safe:
  assumes "deployment_law P K Q F probe conts sent"
    and "run_state (executeDeployment P (Some (dockerRuntime K)) (Some Q) F probe job) h = (u, h')"
  shows "\<exists>rs. sent h' = sent h @ rs \<and> (\<forall>r \<in> set rs. ri_DeploymentID r = cl_DeploymentID job) \<and>
     ((\<exists>k. map ri_Status rs = take k (announced job) @ [statusFailed]) \<and> conts h \<subseteq>\<^sub>m conts h' \<or>
      map ri_Status rs = announced job @ [statusRunning] \<and> switched_over job (conts h) (conts h'))"
proof -
  obtain ts where "said sent (cl_DeploymentID job) h ts h'" and "deployment_outcome job (conts h) ts (conts h')"
    using wp_run [OF wp_executeDeployment [OF assms(1)] assms(2)] by blast
  moreover have "ts = take (length ts - 1) (announced job) @ [statusFailed]" if "failing (announced job) ts"
    using that append_butlast_last_id [of ts] by (simp add: failing_def)
  ultimately show ?thesis unfolding reported_def deployment_outcome_def by blast
qed

section \<open>Teardown\<close>

definition teardown_law :: "'h rpc \<Rightarrow> 'h docker \<Rightarrow> 'h deploymentRouter \<Rightarrow> ('h \<Rightarrow> containers) \<Rightarrow> ('h \<Rightarrow> ReportTeardownInput list) \<Rightarrow> bool" where
  "teardown_law P K Q conts told \<longleftrightarrow>
     docker_law K conts told \<and> quiet (\<lambda>h. (conts h, told h)) (ident_get P) \<and>
     (\<forall>r h. wp (rpc_ReportTeardownJob P r) (\<lambda>_ h'. conts h' = conts h \<and> told h' = told h @ [r]) h) \<and>
     (\<forall>rs. quiet (\<lambda>h. (conts h, told h)) (ro_apply Q rs))"

lemma wp_reportTeardown:
  assumes law: "teardown_law P K R conts told" and "told_of told i h0 ss h"
    and next_: "\<And>h'. told_of told i h0 (ss @ [status]) h' \<Longrightarrow> conts h' = conts h \<Longrightarrow> Q () h'"
  shows "wp (reportTeardown P i status message e) Q h"
proof -
  have law': "quiet (\<lambda>h. (conts h, told h)) (ident_get P)"
    "wp (rpc_ReportTeardownJob P r) (\<lambda>_ h'. conts h' = conts h \<and> told h' = told h @ [r]) h" for r h
    using law by (simp_all add: teardown_law_def)
  show ?thesis
    unfolding reportTeardown_def wp_simps
    by (rule wp_quiet_step [OF law'(1) assms(2)], rule wp_mono [OF law'(2)], rule next_)
      (auto dest: reported_more [where r = "r :: ReportTeardownInput" for r])
qed

text \<open>Only containers of the route are gone, and on success all of them.\<close>

definition teardown_outcome :: "ClaimedTeardown \<Rightarrow> containers \<Rightarrow> string list \<Rightarrow> containers \<Rightarrow> bool" where
  "teardown_outcome job cs ss cs' \<longleftrightarrow>
     (\<exists>gone \<subseteq> with_label labelService (ct_RouteKey job) cs. cs' = cs |` (- gone) \<and>
       (ss = [teardownStatusStopping, teardownStatusRemoving, teardownStatusSucceeded] \<and> gone = with_label labelService (ct_RouteKey job) cs \<or>
        (\<exists>k. ss = take k [teardownStatusStopping, teardownStatusRemoving] @ [teardownStatusFailed])))"

lemma wp_executeTeardown:
  assumes law: "teardown_law P K R conts told"
  shows "wp (executeTeardown P (Some (dockerTeardown K)) (Some R) job)
     (\<lambda>_ h'. \<exists>ts. told_of told (ct_TeardownID job) h ts h' \<and> teardown_outcome job (conts h) ts (conts h')) h"
proof -
  let ?Q = "\<lambda>_ h'. \<exists>ts. told_of told (ct_TeardownID job) h ts h' \<and> teardown_outcome job (conts h) ts (conts h')"
  have docker: "docker_law K conts told" and quiet: "quiet (\<lambda>h. (conts h, told h)) (ro_apply R rs)" for rs
    using law by (simp_all add: teardown_law_def)
  note q = quiet_docker [OF docker_lawD(1) [OF docker]]
  have fails: "?Q () h'" if "told_of told (ct_TeardownID job) h ts h'" "removed_from (conts h) (with_label labelService (ct_RouteKey job) (conts h)) e (conts h')"
      "ts = take k [teardownStatusStopping, teardownStatusRemoving] @ [teardownStatusFailed]" for ts h' e k
    using that unfolding teardown_outcome_def removed_from_def by blast
  have works: "?Q () h'" if "told_of told (ct_TeardownID job) h ts h'" "removed_from (conts h) (with_label labelService (ct_RouteKey job) (conts h)) None (conts h')"
      "ts = [teardownStatusStopping, teardownStatusRemoving, teardownStatusSucceeded]" for ts h'
    using that unfolding teardown_outcome_def removed_from_def by blast
  note report = wp_reportTeardown [OF law]
  have finish: "wp (finishTeardown P (dockerTeardown K) job n) ?Q h1"
    if "told_of told (ct_TeardownID job) h (([] @ [teardownStatusStopping]) @ [teardownStatusRemoving]) h1"
      "removed_from (conts h) (with_label labelService (ct_RouteKey job) (conts h)) None (conts h1)" for n h1
  proof -
    have net: "quiet (\<lambda>h. (conts h, told h)) (if ct_NetworkName job \<noteq> [] then removeNetwork K (ct_NetworkName job) else State_Monad.return None)"
      using q by (auto intro!: quietness)
    show ?thesis
      unfolding finishTeardown_def wp_simps dockerTeardown_def teardownRuntime.simps
      by (rule wp_quiet_step [OF net that(1)], rule report, assumption, rule works, assumption) (use that(2) in simp_all)
  qed
  show ?thesis
    unfolding executeTeardown_def failTeardown_def Let_def option.case wp_simps dockerTeardown_def teardownRuntime.simps
    apply (rule report, rule reported_refl)
    apply (rule wp_mono [OF wp_removeByService [OF docker]], elim conjE)
    apply (drule reported_quiet, assumption)
    apply (split prod.split, intro allI impI, split option.split, intro conjI allI impI)
     apply (unfold wp_simps option.case)
     apply (rule report, assumption)
     apply (rule wp_quiet_step [OF q(8)], assumption, intro conjI allI impI)
      apply (rule report, assumption)
      apply (rule fails [of _ _ None 2], assumption, simp, simp)
     apply (rule wp_quiet_step [OF quiet], assumption)
     apply (split prod.split, intro allI impI, split option.split, intro conjI allI impI)
      apply (rule finish [unfolded dockerTeardown_def], assumption, simp)
     apply (rule report, assumption)
     apply (rule fails [of _ _ None 2], assumption, simp, simp)
    apply (rule report, assumption)
    apply (rule fails [of _ _ _ 1], assumption, simp, simp)
    done
qed

text \<open>C29: a teardown removes only containers of the torn-down route, whatever fails, and reports success only when all
  of them are gone; its reports are about its own job, in the order of the phases, and end with one verdict.\<close>

theorem executeTeardown_safe:
  assumes "teardown_law P K Q conts told"
    and "run_state (executeTeardown P (Some (dockerTeardown K)) (Some Q) job) h = (u, h')"
  shows "\<exists>rs gone. told h' = told h @ rs \<and> (\<forall>r \<in> set rs. rp_TeardownID r = ct_TeardownID job) \<and>
     gone \<subseteq> with_label labelService (ct_RouteKey job) (conts h) \<and> conts h' = conts h |` (- gone) \<and>
     (map rp_Status rs = [teardownStatusStopping, teardownStatusRemoving, teardownStatusSucceeded] \<and>
        gone = with_label labelService (ct_RouteKey job) (conts h) \<or>
      (\<exists>k. map rp_Status rs = take k [teardownStatusStopping, teardownStatusRemoving] @ [teardownStatusFailed]))"
proof -
  obtain ts where "told_of told (ct_TeardownID job) h ts h'" "teardown_outcome job (conts h) ts (conts h')"
    using wp_run [OF wp_executeTeardown [OF assms(1)] assms(2)] by blast
  moreover from this(1) obtain rs where "told h' = told h @ rs" "map rp_Status rs = ts" "\<forall>r \<in> set rs. rp_TeardownID r = ct_TeardownID job"
    unfolding reported_def by blast
  ultimately show ?thesis unfolding teardown_outcome_def by metis
qed

section \<open>On the simulated host\<close>

definition demo_rpc :: "engine rpc" where
  "demo_rpc = \<lparr>ident_get = State_Monad.return \<lparr>as_AgentID = ''a1'', as_Credential = ''secret'', as_PrivateKeyB64 = []\<rparr>,
     ident_set = (\<lambda>_. State_Monad.return ()), rpc_PollDeployment = (\<lambda>_. State_Monad.return (Inl (RpcError []))),
     rpc_ReportDeployment = (\<lambda>r. State (\<lambda>h. (None, h\<lparr>en_sent := en_sent h @ [r]\<rparr>))),
     rpc_SyncRoutes = (\<lambda>_. State_Monad.return (Inr [])), rpc_ReportRouteSync = (\<lambda>_. State_Monad.return None),
     rpc_PollTeardownJob = (\<lambda>_. State_Monad.return (Inl (RpcError []))),
     rpc_ReportTeardownJob = (\<lambda>r. State (\<lambda>h. (None, h\<lparr>en_told := en_told h @ [r]\<rparr>))),
     rpc_PollBackupJob = (\<lambda>_. State_Monad.return (Inl (RpcError []))), rpc_ReportBackupJob = (\<lambda>r. State (\<lambda>h. (None, h\<lparr>en_backups := en_backups h @ [r]\<rparr>))),
     rpc_PollRestoreJob = (\<lambda>_. State_Monad.return (Inl (RpcError []))), rpc_ReportRestoreJob = (\<lambda>_. State_Monad.return None),
     rpc_Heartbeat = (\<lambda>_ _. State_Monad.return (Inr 30)), rpc_Register = (\<lambda>_ _. State_Monad.return (Inl (RpcError [])))\<rparr>"

definition demo_router :: "engine deploymentRouter" where
  "demo_router = \<lparr>ro_apply = (\<lambda>_. State_Monad.return ([], None)), ro_routeURL = routeURL demo_manager\<rparr>"

definition demo_os :: "engine agent_os" where
  "demo_os = \<lparr>ao_MkdirTemp = (\<lambda>_. State_Monad.return (Inr ''/tmp/w'')), ao_Chmod = (\<lambda>_ _. State_Monad.return None),
     ao_RemoveAll = (\<lambda>_. State_Monad.return None), ao_MkdirAll = (\<lambda>_. State_Monad.return None),
     ao_OpenFile = (\<lambda>p. State (\<lambda>h. (None, h\<lparr>en_files := (en_files h)(p \<mapsto> [])\<rparr>))),
     ao_Write = (\<lambda>p s. State (\<lambda>h. (None, h\<lparr>en_files := (en_files h)(p := map_option (\<lambda>t. t @ s) (en_files h p))\<rparr>))),
     ao_Close = (\<lambda>_. State_Monad.return None), ao_Open = (\<lambda>_. State_Monad.return None),
     ao_Remove = (\<lambda>p. State (\<lambda>h. (None, h\<lparr>en_files := (en_files h)(p := None)\<rparr>))),
     ao_StatSize = (\<lambda>p. State (\<lambda>h. (map_option (\<lambda>s. int (length s)) (en_files h p), h))),
     ao_ReadFile = (\<lambda>p. State (\<lambda>h. (case en_files h p of None \<Rightarrow> Inl (NotExist []) | Some s \<Rightarrow> Inr s, h))),
     ao_WriteFile = (\<lambda>p s. State (\<lambda>h. (None, h\<lparr>en_files := (en_files h)(p \<mapsto> s)\<rparr>)))\<rparr>"

definition demo_probe :: "int \<Rightarrow> (engine, string option) state" where
  "demo_probe p = do { r \<leftarrow> healthCheck demo_docker 62 p; State_Monad.return (case r of Some e \<Rightarrow> e | None \<Rightarrow> None) }"

definition demo_job :: Claimed where
  "demo_job = \<lparr>cl_HasWork = True, cl_DeploymentID = ''d1'', cl_ImageRef = ''nginx:latest'', cl_ContainerPort = 80, cl_Env = Map.empty,
     cl_AppLabel = ''svc'', cl_SourceKind = ''image'', cl_CloneURL = [], cl_GitRef = [], cl_BuiltImageTag = [], cl_GitCredential = [],
     cl_Visibility = ''public'', cl_NetworkName = [], cl_NetworkAlias = [], cl_BasicAuthUser = [], cl_BasicAuthHash = [], cl_RouteHost = []\<rparr>"

lemma demo_deployment_law: "deployment_law demo_rpc demo_docker demo_router demo_os demo_probe en_conts en_sent"
proof -
  have law: "docker_law demo_docker en_conts en_sent" using docker_law_via [OF demo_docker_law, of fst] by simp
  have "quiet (\<lambda>h. (en_conts h, en_sent h)) (demo_probe p)" for p
    unfolding demo_probe_def using docker_lawD(1) [OF law] by (auto intro!: quietness)
  then show ?thesis using law
    by (simp add: deployment_law_def rpc_law_def demo_rpc_def demo_router_def demo_os_def quietness) (simp add: wp_def en_conts_def fun_eq_iff)
qed

theorem executeDeployment_safe_witness:
  "\<exists>u h' rs. run_state (executeDeployment demo_rpc (Some (dockerRuntime demo_docker)) (Some demo_router) demo_os demo_probe demo_job)
       demo_engine = (u, h') \<and>
     en_sent h' = rs \<and> ((\<exists>k. map ri_Status rs = take k (announced demo_job) @ [statusFailed]) \<and> en_conts demo_engine \<subseteq>\<^sub>m en_conts h' \<or>
       map ri_Status rs = announced demo_job @ [statusRunning] \<and> switched_over demo_job (en_conts demo_engine) (en_conts h'))"
proof -
  obtain u h' where "run_state (executeDeployment demo_rpc (Some (dockerRuntime demo_docker)) (Some demo_router) demo_os demo_probe demo_job)
       demo_engine = (u, h')" by (metis prod.exhaust)
  moreover have "en_sent demo_engine = []" by (simp add: demo_engine_def)
  ultimately show ?thesis using executeDeployment_safe [OF demo_deployment_law] by fastforce
qed

lemma demo_teardown_law: "teardown_law demo_rpc demo_docker demo_router en_conts en_told"
proof -
  have "docker_law demo_docker en_conts en_told" using docker_law_via [OF demo_docker_law, of snd] by simp
  then show ?thesis by (simp add: teardown_law_def demo_rpc_def demo_router_def quietness) (simp add: wp_def en_conts_def fun_eq_iff)
qed

theorem executeTeardown_safe_witness:
  "\<exists>u h' rs gone. run_state (executeTeardown demo_rpc (Some (dockerTeardown demo_docker)) (Some demo_router)
       \<lparr>ct_HasWork = True, ct_TeardownID = ''t1'', ct_RouteKey = ''svc'', ct_NetworkName = []\<rparr>) demo_engine = (u, h') \<and>
     en_told h' = en_told demo_engine @ rs \<and> en_conts h' = en_conts demo_engine |` (- gone) \<and>
     gone \<subseteq> with_label labelService ''svc'' (en_conts demo_engine)"
proof -
  let ?job = "\<lparr>ct_HasWork = True, ct_TeardownID = ''t1'', ct_RouteKey = ''svc'', ct_NetworkName = []\<rparr>"
  obtain u h' where "run_state (executeTeardown demo_rpc (Some (dockerTeardown demo_docker)) (Some demo_router) ?job) demo_engine = (u, h')"
    by (metis prod.exhaust)
  with executeTeardown_safe [OF demo_teardown_law this] show ?thesis by fastforce
qed

section \<open>The preview and the build\<close>

lemma classify_status: "pl_Status (classify pm lock node pkg) \<noteq> StatusHasDockerfile"
  by (simp add: classify_def renderNext_def renderVite_def renderNode_def Let_def no_plan_def)

lemma Detect_has_dockerfile: "Detect f = Inr plan \<Longrightarrow> pl_Status plan = StatusHasDockerfile \<longleftrightarrow> f ''Dockerfile'' \<noteq> Inr None"
  using classify_status by (auto simp: Detect_def no_plan_def split: sum.splits option.splits prod.splits)

text \<open>C30: the agent builds what the dashboard showed. When the framework detection of the control plane, which reads the
  repository through the GitHub API, and the agent's clone hold the same files where detection looks, then: a
  repository with its own Dockerfile is built from that file; a supported framework is built from the very
  Dockerfile of the preview; and an unsupported repository fails with the preview's next steps.\<close>

theorem agent_builds_what_the_preview_showed:
  assumes preview: "DetectFramework C repoURL branch = Inr d" "parsePublicRepo repoURL = Inr (owner, repo)" "ghc_GetRepository C [] owner repo = Inr info"
    and same: "\<forall>p \<in> detect_paths. OSFiles disk dir p = githubFiles C (gr_Owner info) (gr_Name info)
      (if strings_TrimSpace branch = [] then gr_DefaultBranch info else strings_TrimSpace branch) p"
    and stat: "run_state (dir_Stat K (filepath_Join [dir, ''Dockerfile''])) h = (missing, h1)" "missing = None \<longleftrightarrow> OSFiles disk dir ''Dockerfile'' \<noteq> Inr None"
    and read: "run_state (dir_Read K) h1 = (disk, h2)"
  shows "(dt_Status d = StatusHasDockerfile \<longrightarrow> run_state (docker_build K dir tag) h = run_state (runBuild K dir tag [] ''Dockerfile'') h1) \<and>
     (dt_Status d = StatusDetected \<longrightarrow> (\<exists>ls. run_state (docker_build K dir tag) h = run_state (do {
        e \<leftarrow> dir_WriteFile K (filepath_Join [dir, ''Dockerfile.plorigo'']) (dt_Dockerfile d);
        case e of
          Some e \<Rightarrow> State_Monad.return ([], Some (''write generated Dockerfile: '' @ e))
        | None \<Rightarrow> runBuild K dir tag ls ''Dockerfile.plorigo'' }) h2)) \<and>
     (dt_Status d = StatusUnsupported \<longrightarrow> run_state (docker_build K dir tag) h = (([], Some (dt_NextSteps d)), h2))"
proof -
  let ?files = "githubFiles C (gr_Owner info) (gr_Name info) (if strings_TrimSpace branch = [] then gr_DefaultBranch info else strings_TrimSpace branch)"
  obtain plan where plan: "Detect ?files = Inr plan" and d: "dt_Status d = pl_Status plan" "dt_Dockerfile d = pl_Dockerfile plan"
      "dt_NextSteps d = pl_NextSteps plan"
    using preview by (auto simp: DetectFramework_def Let_def split: if_splits sum.splits)
  have detect: "Detect (OSFiles disk dir) = Inr plan" using Detect_cong [of "OSFiles disk dir" ?files] same plan by simp
  have own: "pl_Status plan = StatusHasDockerfile \<longleftrightarrow> missing = None" using Detect_has_dockerfile [OF detect] stat(2) by simp
  show ?thesis
  proof (cases missing)
    case None
    with own have "pl_Status plan = StatusHasDockerfile" by simp
    then show ?thesis using None stat(1) d by (simp add: docker_build_def)
  next
    case (Some e)
    then have no: "pl_Status plan \<noteq> StatusHasDockerfile" using own by simp
    have run: "run_state (docker_build K dir tag) h =
       (if pl_Status plan \<noteq> StatusDetected then (([], Some (pl_NextSteps plan)), h2)
        else run_state (unless_err (dir_WriteFile K (filepath_Join [dir, ''Dockerfile.plorigo'']) (pl_Dockerfile plan))
          (\<lambda>e. State_Monad.return ([], Some (''write generated Dockerfile: '' @ e)))
          (runBuild K dir tag (generated_lines plan) ''Dockerfile.plorigo'')) h2)"
      using Some stat(1) read detect by (simp add: docker_build_def State_Monad.bind_def)
    show ?thesis
    proof (intro conjI impI)
      assume "dt_Status d = StatusDetected"
      then show "\<exists>ls. run_state (docker_build K dir tag) h = run_state (do {
        e \<leftarrow> dir_WriteFile K (filepath_Join [dir, ''Dockerfile.plorigo'']) (dt_Dockerfile d);
        case e of
          Some e \<Rightarrow> State_Monad.return ([], Some (''write generated Dockerfile: '' @ e))
        | None \<Rightarrow> runBuild K dir tag ls ''Dockerfile.plorigo'' }) h2"
        by (intro exI [of _ "generated_lines plan"]) (simp only: run d unless_err_def if_False simp_thms)
    next
      assume "dt_Status d = StatusUnsupported"
      then show "run_state (docker_build K dir tag) h = (([], Some (dt_NextSteps d)), h2)" by (simp add: run d)
    qed (use no d in simp)
  qed
qed

definition demo_github_repo :: GitHubClient where
  "demo_github_repo = demo_client\<lparr>ghc_GetFileContent := (\<lambda>_ _ _ _ p. demo_repo p)\<rparr>"

definition demo_disk :: "string \<Rightarrow> file_error + string" where
  "demo_disk p = (case demo_repo ''package.json'' of Inr (Some s) \<Rightarrow> (if p = ''/w/package.json'' then Inr s else Inl (NotExist [])) | _ \<Rightarrow> Inl (NotExist []))"

lemma demo_paths:
  "filepath_Join [''/w'', filepath_Clean ''/Dockerfile''] = ''/w/Dockerfile''"
  "filepath_Join [''/w'', filepath_Clean ''/package.json''] = ''/w/package.json''"
  "filepath_Join [''/w'', filepath_Clean ''/.nvmrc''] = ''/w/.nvmrc''"
  "filepath_Join [''/w'', filepath_Clean ''/pnpm-lock.yaml''] = ''/w/pnpm-lock.yaml''"
  "filepath_Join [''/w'', filepath_Clean ''/yarn.lock''] = ''/w/yarn.lock''"
  "filepath_Join [''/w'', filepath_Clean ''/bun.lockb''] = ''/w/bun.lockb''"
  "filepath_Join [''/w'', filepath_Clean ''/package-lock.json''] = ''/w/package-lock.json''"
  "filepath_Join [''/w'', filepath_Clean ''/npm-shrinkwrap.json''] = ''/w/npm-shrinkwrap.json''"
  by code_simp+

lemma demo_disk_files: "\<forall>p \<in> detect_paths. OSFiles demo_disk ''/w'' p = demo_repo p"
  by (simp add: detect_paths_def lockfiles_def OSFiles_def demo_paths demo_disk_def demo_repo_def)

lemma demo_repo_parsed: "parsePublicRepo ''https://github.com/acme/shop'' = Inr (''acme'', ''shop'')"
  by code_simp

theorem agent_builds_what_the_preview_showed_witness:
  "\<exists>d ls. DetectFramework demo_github_repo ''https://github.com/acme/shop'' ''main'' = Inr d \<and> dt_Status d = StatusDetected \<and>
     run_state (docker_build (demo_docker\<lparr>dir_Read := State_Monad.return demo_disk\<rparr>) ''/w'' ''app'') demo_engine =
     run_state (runBuild (demo_docker\<lparr>dir_Read := State_Monad.return demo_disk\<rparr>) ''/w'' ''app'' ls ''Dockerfile.plorigo'') demo_engine"
proof -
  let ?K = "demo_docker\<lparr>dir_Read := State_Monad.return demo_disk\<rparr>"
  obtain info where info: "ghc_GetRepository demo_github_repo [] ''acme'' ''shop'' = Inr info" "gr_Private info = False"
    by (simp add: demo_github_repo_def demo_client_def)
  have files: "githubFiles demo_github_repo o' n r = demo_repo" for o' n r
    by (simp add: githubFiles_def demo_github_repo_def fun_eq_iff)
  obtain plan where plan: "Detect demo_repo = Inr plan" "pl_Status plan = StatusDetected" using demo_Detect by (cases "Detect demo_repo") auto
  obtain d where d: "DetectFramework demo_github_repo ''https://github.com/acme/shop'' ''main'' = Inr d" "dt_Status d = StatusDetected"
    using plan by (simp add: DetectFramework_def demo_repo_parsed info files)
  have "OSFiles demo_disk ''/w'' ''Dockerfile'' = Inr None" using demo_disk_files by (simp add: detect_paths_def demo_repo_def)
  then have "(dt_Status d = StatusDetected \<longrightarrow> (\<exists>ls. run_state (docker_build ?K ''/w'' ''app'') demo_engine = run_state (do {
        e \<leftarrow> dir_WriteFile ?K (filepath_Join [''/w'', ''Dockerfile.plorigo'']) (dt_Dockerfile d);
        case e of
          Some e \<Rightarrow> State_Monad.return ([], Some (''write generated Dockerfile: '' @ e))
        | None \<Rightarrow> runBuild ?K ''/w'' ''app'' ls ''Dockerfile.plorigo'' }) demo_engine))"
    using agent_builds_what_the_preview_showed [OF d(1) demo_repo_parsed info(1), of demo_disk "''/w''" ?K demo_engine "Some ''no such file''"
        demo_engine demo_engine "''app''"] demo_disk_files
    by (simp add: files demo_docker_def)
  then show ?thesis using d by (auto simp: demo_docker_def)
qed

end
