(* ===== verification/AgentFiles.thy ===== *)
theory AgentFiles
  imports AgentRuns
begin

text \<open>
  What the agent keeps on the server's disk: its identity (\<^verbatim>\<open>internal/agentcore/agentcore.go\<close>), which a restarted
  agent reads back, and the backups of databases (\<^verbatim>\<open>backup.go\<close>).
\<close>

section \<open>The identity file\<close>

lemma skip_ws_blanks: "set ws \<subseteq> {CHR '' '', CHR 0x0A} \<Longrightarrow> skip_ws (ws @ s) = skip_ws s"
  by (induction ws) (auto simp: skip_ws_def)

lemma json_blanks:
  assumes "set ws \<subseteq> {CHR '' '', CHR 0x0A}"
  shows "json_members (Suc n) d (ws @ s) = json_members (Suc n) d s" "json_value (Suc n) d (ws @ s) = json_value (Suc n) d s"
  using skip_ws_blanks [OF assms] by simp_all

lemma json_member_step:
  assumes "utf8_Valid k" and "utf8_Valid v" and "set ws \<subseteq> {CHR '' '', CHR 0x0A}"
  shows "json_members (Suc (Suc n)) d (ws @ json_quote k @ CHR '':'' # CHR '' '' # json_quote v @ r) =
    (case skip_ws r of
       [] \<Rightarrow> None
     | c # t \<Rightarrow> if c = CHR '','' then map_option (\<lambda>(ms, x). ((k, JStr v) # ms, x)) (json_members (Suc n) d t)
               else if c = CHR ''}'' then Some ([(k, JStr v)], t) else None)"
proof -
  have "json_value (Suc n) d (CHR '' '' # json_quote v @ r) = Some (JStr v, r)"
    using json_chars_escape_string [OF assms(2)] json_blanks(2) [of "['' '' ! 0]" n d "json_quote v @ r"] by (simp add: json_quote_def)
  then show ?thesis
    unfolding json_blanks(1) [OF assms(3)] using json_chars_escape_string [OF assms(1)]
    by (simp add: json_quote_def del: json_value.simps split: list.splits)
qed

lemma unmarshal_marshal_state:
  assumes "utf8_Valid (as_AgentID st)" "utf8_Valid (as_Credential st)" "utf8_Valid (as_PrivateKeyB64 st)"
  shows "unmarshal_state (marshal_state st) = Some st"
proof -
  have keys: "utf8_Valid ''agent_id''" "utf8_Valid ''credential''" "utf8_Valid ''private_key''"
    by (rule utf8_Valid_ascii, simp add: in_range_def)+
  let ?ms = "[(''agent_id'', JStr (as_AgentID st)), (''credential'', JStr (as_Credential st)), (''private_key'', JStr (as_PrivateKeyB64 st))]"
  let ?body = "CHR 0x0A # CHR '' '' # CHR '' '' # json_quote ''agent_id'' @ CHR '':'' # CHR '' '' # json_quote (as_AgentID st) @ CHR '','' #
     CHR 0x0A # CHR '' '' # CHR '' '' # json_quote ''credential'' @ CHR '':'' # CHR '' '' # json_quote (as_Credential st) @ CHR '','' #
     CHR 0x0A # CHR '' '' # CHR '' '' # json_quote ''private_key'' @ CHR '':'' # CHR '' '' # json_quote (as_PrivateKeyB64 st) @ CHR 0x0A # ''}''"
  have m: "marshal_state st = CHR ''{'' # ?body" by (simp add: marshal_state_def)
  obtain n where n: "length (marshal_state st) = Suc (Suc (Suc (Suc n)))"
    by (rule that [of "length (marshal_state st) - 4"]) (simp add: marshal_state_def)
  note step = json_member_step [where ws = "[CHR 0x0A, CHR '' '', CHR '' '']", unfolded append_Cons append_Nil]
  obtain t where t: "skip_ws ?body = CHR 0x22 # t" by (simp add: skip_ws_def json_quote_def)
  have "json_members (Suc (Suc (Suc (Suc n)))) 9999 ?body = Some (?ms, [])"
    by (simp add: step keys assms skip_ws_def del: json_members.simps)
  then have "json_value (Suc (length (marshal_state st))) 10000 (marshal_state st) = Some (JObj ?ms, [])"
    unfolding n unfolding m using t by (simp del: json_members.simps)
  then show ?thesis
    by (simp add: unmarshal_state_def json_Parse_def state_of_def members_named_def ascii_lower_def del: json_value.simps)
qed

text \<open>What the operating system does with the identity file.\<close>

definition identity_file_law :: "'h agent_os \<Rightarrow> ('h \<Rightarrow> string \<Rightarrow> string option) \<Rightarrow> bool" where
  "identity_file_law F files \<longleftrightarrow>
     (\<forall>p s h. wp (ao_WriteFile F p s) (\<lambda>e h'. e = None \<longrightarrow> files h' p = Some s) h) \<and>
     (\<forall>p h s. files h p = Some s \<longrightarrow> wp (ao_ReadFile F p) (\<lambda>r _. r = Inr s) h)"

text \<open>C37: the identity an agent saved is the identity it resumes with: once \<open>saveState\<close> has succeeded, every later start
  that finds the file unchanged loads exactly the stored agent, credential and private key, and so never registers
  again.\<close>

theorem saved_identity_is_resumed:
  assumes law: "identity_file_law F files"
    and saved: "run_state (saveState F dir st) h = (None, h1)"
    and kept: "files h2 (filepath_Join [dir, stateFileName]) = files h1 (filepath_Join [dir, stateFileName])"
    and st: "as_AgentID st \<noteq> []" "as_Credential st \<noteq> []" "utf8_Valid (as_AgentID st)" "utf8_Valid (as_Credential st)"
      "utf8_Valid (as_PrivateKeyB64 st)"
  shows "\<exists>h3. run_state (loadState B F dir) h2 = (Inr (Some st), h3) \<and>
     (op_DataDir opts = dir \<longrightarrow> run_state (identity_at_start B P F opts) h2 = (Inr st, h3))"
proof -
  let ?p = "filepath_Join [dir, stateFileName]"
  have "wp (saveState F dir st) (\<lambda>e h'. e = None \<longrightarrow> files h' ?p = Some (marshal_state st)) h"
    unfolding saveState_def wp_simps using law by (auto simp: identity_file_law_def intro!: wp_any)
  then have "files h2 ?p = Some (marshal_state st)" using wp_run [OF _ saved] kept by auto
  then have "wp (ao_ReadFile F ?p) (\<lambda>r _. r = Inr (marshal_state st)) h2" using law by (simp add: identity_file_law_def)
  then obtain h3 where "run_state (ao_ReadFile F ?p) h2 = (Inr (marshal_state st), h3)" by (auto simp: wp_def split: prod.splits)
  then have "run_state (loadState B F dir) h2 = (Inr (Some st), h3)"
    using unmarshal_marshal_state st by (simp add: loadState_def State_Monad.bind_def)
  then show ?thesis by (auto simp: identity_at_start_def)
qed

theorem saved_identity_is_resumed_witness:
  "\<exists>h1. run_state (saveState demo_os ''/data'' \<lparr>as_AgentID = ''a1'', as_Credential = ''c'', as_PrivateKeyB64 = ''k''\<rparr>) demo_engine = (None, h1) \<and>
     (\<forall>B. \<exists>h3. run_state (loadState B demo_os ''/data'') h1 = (Inr (Some \<lparr>as_AgentID = ''a1'', as_Credential = ''c'', as_PrivateKeyB64 = ''k''\<rparr>), h3))"
proof -
  let ?st = "\<lparr>as_AgentID = ''a1'', as_Credential = ''c'', as_PrivateKeyB64 = ''k''\<rparr>"
  have law: "identity_file_law demo_os en_files" by (simp add: identity_file_law_def demo_os_def wp_def)
  obtain h1 where saved: "run_state (saveState demo_os ''/data'' ?st) demo_engine = (None, h1)"
    by (simp add: saveState_def demo_os_def)
  have "utf8_Valid (as_AgentID ?st)" "utf8_Valid (as_Credential ?st)" "utf8_Valid (as_PrivateKeyB64 ?st)"
    by (auto intro!: utf8_Valid_ascii simp: in_range_def)
  then have "\<exists>h3. run_state (loadState B demo_os ''/data'') h1 = (Inr (Some ?st), h3) \<and>
      (op_DataDir opts = ''/data'' \<longrightarrow> run_state (identity_at_start B P demo_os opts) h1 = (Inr ?st, h3))"
    for B and P :: "engine rpc" and opts :: Options
    by (intro saved_identity_is_resumed [OF law saved]) simp_all
  then show ?thesis using saved by blast
qed

section \<open>Backups\<close>

text \<open>What a backup works with: files are written by appending, reports go to the list \<open>told\<close>, and nothing else touches either.\<close>

definition backup_law ::
    "'h rpc \<Rightarrow> 'h docker \<Rightarrow> 'h agent_os \<Rightarrow> ('h \<Rightarrow> string \<rightharpoonup> string) \<Rightarrow> ('h \<Rightarrow> BackupReport list) \<Rightarrow> bool" where
  "backup_law P K F files told \<longleftrightarrow>
     quiet (\<lambda>h. (files h, told h)) (ident_get P) \<and> (\<forall>a k v. quiet (\<lambda>h. (files h, told h)) (dk_ContainerList K a (k, v))) \<and>
     (\<forall>i x. quiet (\<lambda>h. (files h, told h)) (dk_ExecCreate K i x)) \<and> (\<forall>i. quiet (\<lambda>h. (files h, told h)) (dk_ExecAttach K i)) \<and>
     (\<forall>i. quiet (\<lambda>h. (files h, told h)) (dk_ExecOutput K i)) \<and> (\<forall>i. quiet (\<lambda>h. (files h, told h)) (dk_ExecInspect K i)) \<and>
     (\<forall>p. quiet (\<lambda>h. (files h, told h)) (ao_MkdirAll F p)) \<and> (\<forall>p. quiet (\<lambda>h. (files h, told h)) (ao_Close F p)) \<and>
     (\<forall>r h. wp (rpc_ReportBackupJob P r) (\<lambda>_ h'. files h' = files h \<and> told h' = told h @ [r]) h) \<and>
     (\<forall>p h. wp (ao_OpenFile F p) (\<lambda>e h'. told h' = told h \<and> (e = None \<longrightarrow> files h' p = Some [])) h) \<and>
     (\<forall>p s h. wp (ao_Write F p s) (\<lambda>e h'. told h' = told h \<and> (e = None \<longrightarrow> files h' p = map_option (\<lambda>t. t @ s) (files h p))) h) \<and>
     (\<forall>p h. wp (ao_Remove F p) (\<lambda>_ h'. told h' = told h) h) \<and>
     (\<forall>p h. wp (ao_StatSize F p) (\<lambda>r h'. files h' = files h \<and> told h' = told h \<and> r = map_option (\<lambda>s. int (length s)) (files h p)) h)"

text \<open>The artifact of a report holds the dump the report describes.\<close>

definition artifact_ok :: "(string \<rightharpoonup> string) \<Rightarrow> BackupReport \<Rightarrow> bool" where
  "artifact_ok files r \<longleftrightarrow> (\<exists>dump. files (br_ArtifactURI r) = Some dump \<and> dump \<noteq> [] \<and> br_SizeBytes r = int (length dump) \<and>
     br_Checksum r = hex_EncodeToString (sha256_Sum256 dump))"

abbreviation backed_up :: "('h \<Rightarrow> BackupReport list) \<Rightarrow> string \<Rightarrow> 'h \<Rightarrow> string list \<Rightarrow> 'h \<Rightarrow> bool" where
  "backed_up told \<equiv> reported told br_BackupID br_Status"

definition backup_outcome :: "('h \<Rightarrow> BackupReport list) \<Rightarrow> ('h \<Rightarrow> string \<rightharpoonup> string) \<Rightarrow> string list \<Rightarrow> 'h \<Rightarrow> bool" where
  "backup_outcome told files ss h' \<longleftrightarrow>
     (\<exists>k. ss = take k [backupStatusDumping, backupStatusVerifying] @ [backupStatusFailed]) \<or>
     (ss = [backupStatusDumping, backupStatusVerifying, backupStatusSucceeded] \<and> artifact_ok (files h') (last (told h')))"

lemma wp_reportBackup:
  assumes law: "backup_law P K F files told" and "backed_up told i h0 ss h"
    and next_: "\<And>h' r. backed_up told i h0 (ss @ [status]) h' \<Longrightarrow> files h' = files h \<Longrightarrow> last (told h') = r \<Longrightarrow> br_ArtifactURI r = uri \<Longrightarrow>
      br_SizeBytes r = n \<Longrightarrow> br_Checksum r = ck \<Longrightarrow> Q () h'"
  shows "wp (reportBackup P i status uri n ck message e) Q h"
proof -
  have law': "quiet (\<lambda>h. (files h, told h)) (ident_get P)"
    "wp (rpc_ReportBackupJob P r) (\<lambda>_ h'. files h' = files h \<and> told h' = told h @ [r]) h" for r h
    using law by (simp_all add: backup_law_def)
  show ?thesis
    unfolding reportBackup_def wp_simps
    by (rule wp_quiet_step [OF law'(1) assms(2)], rule wp_mono [OF law'(2)], rule next_)
      (auto dest: reported_more [where r = "r :: BackupReport" for r])
qed

lemma wp_execPgDump:
  assumes law: "backup_law P K F files told" and f: "files h p = Some []"
  shows "wp (execPgDump K c us pw dbn (ao_Write F p)) (\<lambda>x h'. told h' = told h \<and> (fst x = None \<longrightarrow> files h' p = Some (snd x))) h"
proof -
  have q: "quiet (\<lambda>h. (files h, told h)) (dk_ExecCreate K c x)" "quiet (\<lambda>h. (files h, told h)) (dk_ExecAttach K i)"
    "quiet (\<lambda>h. (files h, told h)) (dk_ExecOutput K i)" "quiet (\<lambda>h. (files h, told h)) (dk_ExecInspect K i)" for x i
    using law by (simp_all add: backup_law_def)
  have w: "wp (ao_Write F p s) (\<lambda>e h'. told h' = told h \<and> (e = None \<longrightarrow> files h' p = map_option (\<lambda>t. t @ s) (files h p))) h" for s h
    using law by (simp add: backup_law_def)
  show ?thesis
    unfolding execPgDump_def Let_def wp_simps
    using f by (auto intro!: quiet_wp [OF q(1)] quiet_wp [OF q(2)] quiet_wp [OF q(3)] quiet_wp [OF q(4)] wp_mono [OF w]
      split: option.split prod.split)
qed

lemma backup_runtime_simps:
  "bk_findRunningByService (dockerBackup K) = findRunningByService K" "bk_execPgDump (dockerBackup K) = execPgDump K"
  by (simp_all add: dockerBackup_def)

lemma wp_executeBackup:
  assumes law: "backup_law P K F files told"
  shows "wp (executeBackup P (Some (dockerBackup K)) F dataDir job)
     (\<lambda>_ h'. \<exists>ss. backed_up told (bj_BackupID job) h ss h' \<and> backup_outcome told files ss h') h"
proof -
  let ?Q = "\<lambda>_ h'. \<exists>ss. backed_up told (bj_BackupID job) h ss h' \<and> backup_outcome told files ss h'"
  have q: "quiet (\<lambda>h. (files h, told h)) (dk_ContainerList K a (k, v))" "quiet (\<lambda>h. (files h, told h)) (dk_ExecCreate K c x)"
    "quiet (\<lambda>h. (files h, told h)) (dk_ExecAttach K c)" "quiet (\<lambda>h. (files h, told h)) (dk_ExecOutput K c)"
    "quiet (\<lambda>h. (files h, told h)) (dk_ExecInspect K c)" "quiet (\<lambda>h. (files h, told h)) (ao_MkdirAll F p)"
    "quiet (\<lambda>h. (files h, told h)) (ao_Close F p)" for a k v c x p
    using law by (simp_all add: backup_law_def)
  have os: "wp (ao_OpenFile F p) (\<lambda>e h'. told h' = told h \<and> (e = None \<longrightarrow> files h' p = Some [])) h"
    "wp (ao_Write F p s) (\<lambda>e h'. told h' = told h \<and> (e = None \<longrightarrow> files h' p = map_option (\<lambda>t. t @ s) (files h p))) h"
    "wp (ao_Remove F p) (\<lambda>_ h'. told h' = told h) h"
    "wp (ao_StatSize F p) (\<lambda>r h'. files h' = files h \<and> told h' = told h \<and> r = map_option (\<lambda>s. int (length s)) (files h p)) h" for p s h
    using law by (simp_all add: backup_law_def)
  note report = wp_reportBackup [OF law]
  have fails: "wp (failBackup P (bj_BackupID job) msg) ?Q h1"
    if "backed_up told (bj_BackupID job) h (take k [backupStatusDumping, backupStatusVerifying]) h1" for msg h1 k
    unfolding failBackup_def by (rule report [OF that]) (auto simp: backup_outcome_def)
  have drop: "wp (do { _ \<leftarrow> ao_Remove F p; failBackup P (bj_BackupID job) msg }) ?Q h1"
    if "backed_up told (bj_BackupID job) h (take k [backupStatusDumping, backupStatusVerifying]) h1" for p msg h1 k
    unfolding wp_simps by (rule wp_mono [OF os(3)], rule fails, rule reported_quiet [OF that])
  have verify: "wp (verifyBackup P F (bj_BackupID job) p dump) ?Q h1"
    if r: "backed_up told (bj_BackupID job) h [backupStatusDumping] h1" and f: "files h1 p = Some dump" "dump \<noteq> []" for p dump h1
    unfolding verifyBackup_def Let_def wp_simps
  proof (rule report [OF r], rule wp_mono [OF os(4)], elim conjE)
    fix h2 h3 x
    assume two: "backed_up told (bj_BackupID job) h ([backupStatusDumping] @ [backupStatusVerifying]) h2" "files h2 = files h1"
      and three: "files h3 = files h2" "told h3 = told h2"
    have r3: "backed_up told (bj_BackupID job) h ([backupStatusDumping] @ [backupStatusVerifying]) h3" by (rule reported_quiet [OF two(1) three(2)])
    show "wp (if x \<noteq> Some (int (length dump)) then failBackup P (bj_BackupID job) ''backup verification failed: the artifact is missing or truncated''
        else reportBackup P (bj_BackupID job) backupStatusSucceeded p (int (length dump)) (hex_EncodeToString (sha256_Sum256 dump))
          (''backed up '' @ strconv_Itoa (int (length dump)) @ '' bytes'') []) ?Q h3"
    proof (cases "x = Some (int (length dump))")
      case True
      then show ?thesis
        using f two(2) three(1) by (auto simp: backup_outcome_def artifact_ok_def intro!: report [OF r3])
    next
      case False
      then show ?thesis using fails [of 2 h3] r3 by simp
    qed
  qed
  have dump: "wp (dumpTo P (dockerBackup K) F job c p) ?Q h1"
    if r: "backed_up told (bj_BackupID job) h [backupStatusDumping] h1" and f: "files h1 p = Some []" for c p h1
    unfolding dumpTo_def Let_def wp_simps backup_runtime_simps
  proof (rule wp_mono [OF wp_execPgDump [OF law f]], elim conjE)
    fix x :: "string option \<times> string" and h2 assume told: "told h2 = told h1" and out: "fst x = None \<longrightarrow> files h2 p = Some (snd x)"
    obtain e out where x: "x = (e, out)" by (cases x)
    have r2: "backed_up told (bj_BackupID job) h [backupStatusDumping] h2" by (rule reported_quiet [OF r told])
    have bad: "wp (do { _ \<leftarrow> ao_Remove F p; failBackup P (bj_BackupID job) msg }) ?Q h3"
      if "backed_up told (bj_BackupID job) h [backupStatusDumping] h3" for msg h3
      by (rule drop [of 1]) (use that in simp)
    show "wp (case x of (dumpErr, dump) \<Rightarrow> do {
        closeErr \<leftarrow> ao_Close F p;
        case dumpErr of
          None \<Rightarrow> (case closeErr of
            None \<Rightarrow> if dump = [] then do { _ \<leftarrow> ao_Remove F p; failBackup P (bj_BackupID job) ''pg_dump produced no output'' }
              else verifyBackup P F (bj_BackupID job) p dump
          | Some e \<Rightarrow> do { _ \<leftarrow> ao_Remove F p; failBackup P (bj_BackupID job) (''could not finalize the backup file: '' @ e) })
        | Some e \<Rightarrow> do { _ \<leftarrow> ao_Remove F p; failBackup P (bj_BackupID job) (''pg_dump failed: '' @ e) } }) ?Q h2"
      unfolding x prod.case wp_simps(2) [of "ao_Close F p"]
    proof (rule wp_quiet_step [OF q(7) r2])
      fix y h3 assume "backed_up told (bj_BackupID job) h [backupStatusDumping] h3" "files h3 = files h2"
      then show "wp (case e of
          None \<Rightarrow> (case y of
            None \<Rightarrow> if out = [] then do { _ \<leftarrow> ao_Remove F p; failBackup P (bj_BackupID job) ''pg_dump produced no output'' }
              else verifyBackup P F (bj_BackupID job) p out
          | Some e \<Rightarrow> do { _ \<leftarrow> ao_Remove F p; failBackup P (bj_BackupID job) (''could not finalize the backup file: '' @ e) })
        | Some e \<Rightarrow> do { _ \<leftarrow> ao_Remove F p; failBackup P (bj_BackupID job) (''pg_dump failed: '' @ e) }) ?Q h3"
        using out x by (cases e; cases y) (simp_all only: option.case split: if_split, auto intro!: bad verify simp del: wp_simps)
    qed
  qed
  note steps = q(1-6) [THEN wp_quiet_step]
  show ?thesis
    unfolding executeBackup_def Let_def option.case wp_simps backup_runtime_simps findRunningByService_def
    apply (rule steps(1), rule reported_refl)
    apply (intro conjI allI impI)
     apply (rule fails [of 0], simp)
    apply (split option.split, intro conjI allI impI)
     apply (rule fails [of 0], simp)
    apply (unfold wp_simps)
    apply (rule report, assumption, rule steps(6), assumption, intro conjI allI impI)
     apply (rule fails [of 1], simp)
    apply (rule wp_mono [OF os(1)], intro conjI allI impI)
     apply (rule fails [of 1], elim conjE, drule reported_quiet, assumption, simp)
    apply (rule dump, elim conjE, drule reported_quiet, assumption, simp, simp)
    done
qed


lemma demo_backup_law: "backup_law demo_rpc demo_docker demo_os en_files en_backups"
  by (simp add: backup_law_def demo_rpc_def demo_docker_def demo_os_def quiet_def wp_def State_Monad.return_def)


text \<open>A dump that fails its verification stays on the disk: verifying never changes a file. The comment on \<open>executeBackup\<close> says
  that the partial artifact is removed when any step fails.\<close>

lemma failed_verification_keeps_artifact:
  assumes "backup_law P K F files told"
  shows "wp (verifyBackup P F i p dump) (\<lambda>_ h'. files h' = files h) h"
proof -
  have laws: "quiet (\<lambda>h. (files h, told h)) (ident_get P)"
    "wp (rpc_ReportBackupJob P r) (\<lambda>_ h'. files h' = files h \<and> told h' = told h @ [r]) h"
    "wp (ao_StatSize F p) (\<lambda>r h'. files h' = files h \<and> told h' = told h \<and> r = map_option (\<lambda>s. int (length s)) (files h p)) h" for r h
    using assms by (simp_all add: backup_law_def)
  have report: "wp (reportBackup P i status uri n ck message e) Q h" if "\<And>h'. files h' = files h \<Longrightarrow> Q () h'" for status uri n ck message e Q h
    unfolding reportBackup_def wp_simps by (rule quiet_wp [OF laws(1)], rule wp_mono [OF laws(2)]) (use that in simp)
  show ?thesis
    unfolding verifyBackup_def Let_def failBackup_def wp_simps
    by (rule report, rule wp_mono [OF laws(3)]) (auto intro!: report)
qed

end
