(* ===== verification/Backups.thy ===== *)
theory Backups
  imports AgentSide
begin

text \<open>
  Backups and restores of managed databases, \<^verbatim>\<open>internal/backups\<close>: the domain types
  (\<^verbatim>\<open>backups.go\<close>, \<^verbatim>\<open>store.go\<close>), the queries
  (\<^verbatim>\<open>db/backups.sql.go\<close>) and constraints (migrations 00025 to 00027), the repository
  (\<^verbatim>\<open>postgres.go\<close>) and every method of \<^verbatim>\<open>service.go\<close>. A backup is
  queued for the server its database runs on; that server's agent claims it, is handed the
  credentials, and reports. A restore repeats the same life with the artifact a backup left.
\<close>

section \<open>Runes\<close>

text \<open>\<open>utf8.RuneCountInString\<close>: the number of bytes of the rune a byte string starts with (an invalid
  sequence is one byte), and the count of runes.\<close>

definition byte :: "string \<Rightarrow> nat \<Rightarrow> nat" where
  "byte s i = (if i < length s then of_char (s ! i) else 0)"

definition cont_byte :: "string \<Rightarrow> nat \<Rightarrow> bool" where
  "cont_byte s i = (128 \<le> byte s i \<and> byte s i \<le> 191)"

definition rune_len :: "string \<Rightarrow> nat" where
  "rune_len s =
     (let b = byte s 0; c = byte s 1 in
      if 194 \<le> b \<and> b \<le> 223 \<and> cont_byte s 1 then 2
      else if 224 \<le> b \<and> b \<le> 239 \<and> cont_byte s 1 \<and> (b = 224 \<longrightarrow> 160 \<le> c) \<and> (b = 237 \<longrightarrow> c \<le> 159) \<and>
              cont_byte s 2 then 3
      else if 240 \<le> b \<and> b \<le> 244 \<and> cont_byte s 1 \<and> (b = 240 \<longrightarrow> 144 \<le> c) \<and> (b = 244 \<longrightarrow> c \<le> 143) \<and>
              cont_byte s 2 \<and> cont_byte s 3 then 4
      else 1)"

lemma rune_len_pos [simp]: "0 < rune_len s"
  by (simp add: rune_len_def Let_def)

function utf8_RuneCountInString :: "string \<Rightarrow> nat" where
  "utf8_RuneCountInString [] = 0"
| "utf8_RuneCountInString (c # s) = Suc (utf8_RuneCountInString (drop (rune_len (c # s)) (c # s)))"
  by pat_completeness auto
termination
proof (relation "measure length")
  fix c :: char and s :: string
  have "length (drop (rune_len (c # s)) (c # s)) < length (c # s)"
    using rune_len_pos [of "c # s"] by (simp only: length_drop) simp
  then show "(drop (rune_len (c # s)) (c # s), c # s) \<in> measure length" by simp
qed simp

declare utf8_RuneCountInString.simps [simp del]

section \<open>Domain types\<close>

text \<open>Statuses, trigger sources, the bound on labels and the identifiers shared with the agent.\<close>

abbreviation StatusDumping :: string where "StatusDumping \<equiv> ''dumping''"
abbreviation StatusUploading :: string where "StatusUploading \<equiv> ''uploading''"
abbreviation StatusVerifying :: string where "StatusVerifying \<equiv> ''verifying''"
abbreviation StatusSucceeded :: string where "StatusSucceeded \<equiv> ''succeeded''"
abbreviation RestoreStatusRestoring :: string where "RestoreStatusRestoring \<equiv> ''restoring''"
abbreviation TriggerManual :: string where "TriggerManual \<equiv> ''manual''"
abbreviation TriggerScheduled :: string where "TriggerScheduled \<equiv> ''scheduled''"
abbreviation EnginePostgres :: string where "EnginePostgres \<equiv> ''postgres''"
abbreviation KindBackup :: string where "KindBackup \<equiv> ''backup''"
abbreviation templatePostgres :: string where "templatePostgres \<equiv> ''postgres''"
abbreviation sourceTemplate :: string where "sourceTemplate \<equiv> ''template''"

definition maxLabelLen :: nat where
  "maxLabelLen = 80"

record Backup =
  bkp_ID :: string
  bkp_ServiceID :: string
  bkp_EnvironmentID :: string
  bkp_ProjectID :: string
  bkp_WorkspaceID :: string
  bkp_ServerID :: string
  bkp_Destination :: string
  bkp_ArtifactURI :: string
  bkp_SizeBytes :: int
  bkp_Checksum :: string
  bkp_Status :: string
  bkp_Message :: string
  bkp_Error :: string
  bkp_Label :: string
  bkp_TriggerSource :: string
  bkp_CreatedAt :: int
  bkp_UpdatedAt :: int

record ClaimedBackup =
  cb_HasWork :: bool
  cb_BackupID :: string
  cb_Kind :: string
  cb_ServiceID :: string
  cb_Engine :: string
  cb_PgUser :: string
  cb_PgPassword :: string
  cb_PgDatabase :: string

record Restore =
  rst_ID :: string
  rst_BackupID :: string
  rst_ServiceID :: string
  rst_EnvironmentID :: string
  rst_ProjectID :: string
  rst_WorkspaceID :: string
  rst_ServerID :: string
  rst_ArtifactURI :: string
  rst_Status :: string
  rst_Message :: string
  rst_Error :: string
  rst_CreatedAt :: int
  rst_UpdatedAt :: int

record ClaimedRestore =
  cr_HasWork :: bool
  cr_RestoreID :: string
  cr_ServiceID :: string
  cr_Engine :: string
  cr_PgUser :: string
  cr_PgPassword :: string
  cr_PgDatabase :: string
  cr_ArtifactURI :: string

record ReportBackupInput =
  rbi_AgentID :: string
  rbi_Credential :: string
  rbi_BackupID :: string
  rbi_Status :: string
  rbi_ArtifactURI :: string
  rbi_SizeBytes :: int
  rbi_Checksum :: string
  rbi_Message :: string
  rbi_Error :: string

record ReportRestoreInput =
  rri_AgentID :: string
  rri_Credential :: string
  rri_RestoreID :: string
  rri_Status :: string
  rri_Message :: string
  rri_Error :: string

record ServiceTarget =
  tgt_ID :: string
  tgt_Name :: string
  tgt_EnvironmentID :: string
  tgt_ProjectID :: string
  tgt_WorkspaceID :: string
  tgt_SourceKind :: string
  tgt_TemplateID :: string

record DBCredentials =
  dbc_User :: string
  dbc_Password :: string
  dbc_Database :: string

record NewBackup =
  nb_ServiceID :: string
  nb_EnvironmentID :: string
  nb_ProjectID :: string
  nb_WorkspaceID :: string
  nb_ServerID :: string
  nb_Label :: string
  nb_TriggerSource :: string

record NewRestore =
  nr_BackupID :: string
  nr_ServiceID :: string
  nr_EnvironmentID :: string
  nr_ProjectID :: string
  nr_WorkspaceID :: string
  nr_ServerID :: string
  nr_ArtifactURI :: string

record BackupStatusUpdate =
  bu_BackupID :: string
  bu_Status :: string
  bu_ArtifactURI :: string
  bu_SizeBytes :: int
  bu_Checksum :: string
  bu_Message :: string
  bu_Error :: string

record RestoreStatusUpdate =
  ru_RestoreID :: string
  ru_Status :: string
  ru_Message :: string
  ru_Error :: string

section \<open>Queries\<close>

definition backup_statuses :: "string list" where
  "backup_statuses =
     [''queued'', ''assigned'', ''dumping'', ''uploading'', ''verifying'', ''succeeded'', ''failed'']"

definition restore_statuses :: "string list" where
  "restore_statuses = [''queued'', ''assigned'', ''restoring'', ''verifying'', ''succeeded'', ''failed'']"

text \<open>The references a backup and a restore share.\<close>

definition job_refs :: "database \<Rightarrow> string \<Rightarrow> string \<Rightarrow> string \<Rightarrow> string \<Rightarrow> string \<Rightarrow> bool" where
  "job_refs d serviceID environmentID projectID workspaceID serverID =
     (serviceID \<in> rs_ID ` set (services d) \<and> environmentID \<in> en_ID ` set (environments d) \<and>
      projectID \<in> pj_ID ` set (projects d) \<and> workspaceID \<in> wk_ID ` set (workspaces d) \<and>
      serverID \<in> sv_ID ` set (servers d))"

definition backup_ok :: "database \<Rightarrow> Backup_row \<Rightarrow> bool" where
  "backup_ok d r =
     (bk_ID r \<notin> bk_ID ` set (backups d) \<and> bk_Status r \<in> set backup_statuses \<and>
      bk_TriggerSource r \<in> {''manual'', ''scheduled''} \<and>
      job_refs d (bk_ServiceID r) (bk_EnvironmentID r) (bk_ProjectID r) (bk_WorkspaceID r) (bk_ServerID r))"

definition restore_ok :: "database \<Rightarrow> RestoreJob_row \<Rightarrow> bool" where
  "restore_ok d r =
     (rj_ID r \<notin> rj_ID ` set (restore_jobs d) \<and> rj_Status r \<in> set restore_statuses \<and>
      rj_BackupID r \<in> bk_ID ` set (backups d) \<and>
      job_refs d (rj_ServiceID r) (rj_EnvironmentID r) (rj_ProjectID r) (rj_WorkspaceID r) (rj_ServerID r))"

definition db_CreateBackup ::
    "string \<Rightarrow> string \<Rightarrow> string \<Rightarrow> string \<Rightarrow> string \<Rightarrow> string \<Rightarrow> string \<Rightarrow> Backup_row m" where
  "db_CreateBackup serviceID environmentID projectID workspaceID serverID label triggerSource =
     insert_row
       (\<lambda>w. \<lparr>bk_ID = fresh_uuid w, bk_ServiceID = serviceID, bk_EnvironmentID = environmentID,
             bk_ProjectID = projectID, bk_WorkspaceID = workspaceID, bk_ServerID = serverID,
             bk_Destination = ''local'', bk_ArtifactUri = [], bk_SizeBytes = 0, bk_Checksum = [],
             bk_Status = ''queued'', bk_Message = [], bk_Error = [], bk_CreatedAt = now w,
             bk_UpdatedAt = now w, bk_Label = label, bk_TriggerSource = triggerSource\<rparr>)
       backup_ok (\<lambda>r d. d\<lparr>backups := backups d @ [r]\<rparr>)"

definition db_GetBackup :: "string \<Rightarrow> Backup_row m" where
  "db_GetBackup i = select_one (\<lambda>d. find (\<lambda>r. bk_ID r = i) (backups d))"

definition db_ListBackupsByService :: "string \<Rightarrow> Backup_row list m" where
  "db_ListBackupsByService i =
     select_many (\<lambda>d. sort_key (\<lambda>r. - bk_CreatedAt r) (filter (\<lambda>r. bk_ServiceID r = i) (backups d)))"

definition assign_backup :: "int \<Rightarrow> Backup_row \<Rightarrow> Backup_row" where
  "assign_backup t r = r\<lparr>bk_Status := ''assigned'', bk_UpdatedAt := t\<rparr>"

definition db_ClaimNextBackupForServer :: "string \<Rightarrow> Backup_row m" where
  "db_ClaimNextBackupForServer serverID =
     update_one (\<lambda>_. True) (\<lambda>w d.
       case first_by bk_CreatedAt (\<lambda>r. bk_ServerID r = serverID \<and> bk_Status r = ''queued'') (backups d) of
         None \<Rightarrow> None
       | Some r \<Rightarrow> Some (assign_backup (now w) r,
                     d\<lparr>backups := update_where (\<lambda>x. bk_ID x = bk_ID r) (assign_backup (now w)) (backups d)\<rparr>))"

definition set_backup_status ::
    "string \<Rightarrow> string \<Rightarrow> string \<Rightarrow> string \<Rightarrow> int \<Rightarrow> string \<Rightarrow> int \<Rightarrow> Backup_row \<Rightarrow> Backup_row" where
  "set_backup_status status message error artifactUri sizeBytes checksum t r =
     r\<lparr>bk_Status := status, bk_Message := keep_if_empty message (bk_Message r),
       bk_Error := keep_if_empty error (bk_Error r),
       bk_ArtifactUri := keep_if_empty artifactUri (bk_ArtifactUri r),
       bk_SizeBytes := (if sizeBytes > 0 then sizeBytes else bk_SizeBytes r),
       bk_Checksum := keep_if_empty checksum (bk_Checksum r), bk_UpdatedAt := t\<rparr>"

definition db_UpdateBackupStatus ::
    "string \<Rightarrow> string \<Rightarrow> string \<Rightarrow> string \<Rightarrow> int \<Rightarrow> string \<Rightarrow> string \<Rightarrow> Backup_row m" where
  "db_UpdateBackupStatus status message error artifactUri sizeBytes checksum i =
     update_one (\<lambda>r. bk_Status r \<in> set backup_statuses) (\<lambda>w d.
       let f = set_backup_status status message error artifactUri sizeBytes checksum (now w) in
       case find (\<lambda>r. bk_ID r = i) (backups d) of
         None \<Rightarrow> None
       | Some r \<Rightarrow> Some (f r, d\<lparr>backups := update_where (\<lambda>x. bk_ID x = i) f (backups d)\<rparr>))"

definition db_GetBackupServiceTarget :: "string \<Rightarrow> ServiceTarget m" where
  "db_GetBackupServiceTarget i =
     select_one (\<lambda>d. map_option
       (\<lambda>r. \<lparr>tgt_ID = rs_ID r, tgt_Name = rs_Name r, tgt_EnvironmentID = rs_EnvironmentID r,
             tgt_ProjectID = rs_ProjectID r, tgt_WorkspaceID = rs_WorkspaceID r,
             tgt_SourceKind = rs_SourceKind r, tgt_TemplateID = rs_TemplateID r\<rparr>)
       (find (\<lambda>r. rs_ID r = i) (services d)))"

definition db_GetLatestRunningServerForService :: "string \<Rightarrow> string m" where
  "db_GetLatestRunningServerForService i =
     select_one (\<lambda>d. map_option rd_ServerID
       (first_by (\<lambda>r. - rd_CreatedAt r) (\<lambda>r. rd_ServiceID r = i \<and> rd_Status r = ''running'') (deployments d)))"

definition db_CreateRestoreJob ::
    "string \<Rightarrow> string \<Rightarrow> string \<Rightarrow> string \<Rightarrow> string \<Rightarrow> string \<Rightarrow> string \<Rightarrow> RestoreJob_row m" where
  "db_CreateRestoreJob backupID serviceID environmentID projectID workspaceID serverID artifactUri =
     insert_row
       (\<lambda>w. \<lparr>rj_ID = fresh_uuid w, rj_BackupID = backupID, rj_ServiceID = serviceID,
             rj_EnvironmentID = environmentID, rj_ProjectID = projectID, rj_WorkspaceID = workspaceID,
             rj_ServerID = serverID, rj_ArtifactUri = artifactUri, rj_Status = ''queued'', rj_Message = [],
             rj_Error = [], rj_CreatedAt = now w, rj_UpdatedAt = now w\<rparr>)
       restore_ok (\<lambda>r d. d\<lparr>restore_jobs := restore_jobs d @ [r]\<rparr>)"

definition db_GetRestoreJob :: "string \<Rightarrow> RestoreJob_row m" where
  "db_GetRestoreJob i = select_one (\<lambda>d. find (\<lambda>r. rj_ID r = i) (restore_jobs d))"

definition db_ListRestoreJobsByService :: "string \<Rightarrow> RestoreJob_row list m" where
  "db_ListRestoreJobsByService i =
     select_many (\<lambda>d. sort_key (\<lambda>r. - rj_CreatedAt r) (filter (\<lambda>r. rj_ServiceID r = i) (restore_jobs d)))"

definition assign_restore :: "int \<Rightarrow> RestoreJob_row \<Rightarrow> RestoreJob_row" where
  "assign_restore t r = r\<lparr>rj_Status := ''assigned'', rj_UpdatedAt := t\<rparr>"

definition db_ClaimNextRestoreForServer :: "string \<Rightarrow> RestoreJob_row m" where
  "db_ClaimNextRestoreForServer serverID =
     update_one (\<lambda>_. True) (\<lambda>w d.
       case first_by rj_CreatedAt (\<lambda>r. rj_ServerID r = serverID \<and> rj_Status r = ''queued'') (restore_jobs d) of
         None \<Rightarrow> None
       | Some r \<Rightarrow> Some (assign_restore (now w) r,
                     d\<lparr>restore_jobs := update_where (\<lambda>x. rj_ID x = rj_ID r) (assign_restore (now w)) (restore_jobs d)\<rparr>))"

definition set_restore_status :: "string \<Rightarrow> string \<Rightarrow> string \<Rightarrow> int \<Rightarrow> RestoreJob_row \<Rightarrow> RestoreJob_row" where
  "set_restore_status status message error t r =
     r\<lparr>rj_Status := status, rj_Message := keep_if_empty message (rj_Message r),
       rj_Error := keep_if_empty error (rj_Error r), rj_UpdatedAt := t\<rparr>"

definition db_UpdateRestoreStatus :: "string \<Rightarrow> string \<Rightarrow> string \<Rightarrow> string \<Rightarrow> RestoreJob_row m" where
  "db_UpdateRestoreStatus status message error i =
     update_one (\<lambda>r. rj_Status r \<in> set restore_statuses) (\<lambda>w d.
       let f = set_restore_status status message error (now w) in
       case find (\<lambda>r. rj_ID r = i) (restore_jobs d) of
         None \<Rightarrow> None
       | Some r \<Rightarrow> Some (f r, d\<lparr>restore_jobs := update_where (\<lambda>x. rj_ID x = i) f (restore_jobs d)\<rparr>))"

section \<open>The repository\<close>

definition backupFromRow :: "Backup_row \<Rightarrow> Backup" where
  "backupFromRow r =
     \<lparr>bkp_ID = bk_ID r, bkp_ServiceID = bk_ServiceID r, bkp_EnvironmentID = bk_EnvironmentID r,
      bkp_ProjectID = bk_ProjectID r, bkp_WorkspaceID = bk_WorkspaceID r, bkp_ServerID = bk_ServerID r,
      bkp_Destination = bk_Destination r, bkp_ArtifactURI = bk_ArtifactUri r,
      bkp_SizeBytes = bk_SizeBytes r, bkp_Checksum = bk_Checksum r, bkp_Status = bk_Status r,
      bkp_Message = bk_Message r, bkp_Error = bk_Error r, bkp_Label = bk_Label r,
      bkp_TriggerSource = bk_TriggerSource r, bkp_CreatedAt = bk_CreatedAt r, bkp_UpdatedAt = bk_UpdatedAt r\<rparr>"

definition restoreFromRow :: "RestoreJob_row \<Rightarrow> Restore" where
  "restoreFromRow r =
     \<lparr>rst_ID = rj_ID r, rst_BackupID = rj_BackupID r, rst_ServiceID = rj_ServiceID r,
      rst_EnvironmentID = rj_EnvironmentID r, rst_ProjectID = rj_ProjectID r,
      rst_WorkspaceID = rj_WorkspaceID r, rst_ServerID = rj_ServerID r, rst_ArtifactURI = rj_ArtifactUri r,
      rst_Status = rj_Status r, rst_Message = rj_Message r, rst_Error = rj_Error r,
      rst_CreatedAt = rj_CreatedAt r, rst_UpdatedAt = rj_UpdatedAt r\<rparr>"

definition InsertBackup :: "NewBackup \<Rightarrow> Backup m" where
  "InsertBackup b =
     map_m backupFromRow
       (db_CreateBackup (nb_ServiceID b) (nb_EnvironmentID b) (nb_ProjectID b) (nb_WorkspaceID b)
          (nb_ServerID b) (nb_Label b) (nb_TriggerSource b))"

definition store_GetBackup :: "string \<Rightarrow> Backup option m" where
  "store_GetBackup i = absent_ok (map_m backupFromRow (db_GetBackup i))"

definition store_ListBackupsByService :: "string \<Rightarrow> Backup list m" where
  "store_ListBackupsByService i = map_m (map backupFromRow) (db_ListBackupsByService i)"

definition ClaimNextBackupForServer :: "string \<Rightarrow> Backup option m" where
  "ClaimNextBackupForServer serverID = absent_ok (map_m backupFromRow (db_ClaimNextBackupForServer serverID))"

definition UpdateBackupStatus :: "BackupStatusUpdate \<Rightarrow> Backup m" where
  "UpdateBackupStatus u =
     map_m backupFromRow
       (db_UpdateBackupStatus (bu_Status u) (bu_Message u) (bu_Error u) (bu_ArtifactURI u) (bu_SizeBytes u)
          (bu_Checksum u) (bu_BackupID u))"

definition BackupServiceTarget :: "string \<Rightarrow> ServiceTarget option m" where
  "BackupServiceTarget i = absent_ok (db_GetBackupServiceTarget i)"

definition RunningServerForService :: "string \<Rightarrow> string option m" where
  "RunningServerForService i = absent_ok (db_GetLatestRunningServerForService i)"

definition backups_AgentServerByCredential :: "nat list \<Rightarrow> (string \<times> string) option m" where
  "backups_AgentServerByCredential credentialHash = absent_ok (db_GetAgentServerByCredential credentialHash)"

text \<open>The loop over the configuration rows: plain variables only, the last row of a key wins.\<close>

fun credentialsOf :: "ConfigEntry_row list \<Rightarrow> DBCredentials \<Rightarrow> DBCredentials" where
  "credentialsOf [] c = c"
| "credentialsOf (r # rows) c =
     (case (ce_Type r = ''variable'', ce_Value r) of
        (True, Some v) \<Rightarrow>
          credentialsOf rows
            (if ce_Key r = ''POSTGRES_USER'' then c\<lparr>dbc_User := v\<rparr>
             else if ce_Key r = ''POSTGRES_PASSWORD'' then c\<lparr>dbc_Password := v\<rparr>
             else if ce_Key r = ''POSTGRES_DB'' then c\<lparr>dbc_Database := v\<rparr>
             else c)
      | _ \<Rightarrow> credentialsOf rows c)"

definition DBCredentialsForService :: "string \<Rightarrow> DBCredentials m" where
  "DBCredentialsForService serviceID =
     map_m (\<lambda>rows. credentialsOf rows \<lparr>dbc_User = [], dbc_Password = [], dbc_Database = []\<rparr>)
       (db_ListConfigForService serviceID)"

definition InsertRestore :: "NewRestore \<Rightarrow> Restore m" where
  "InsertRestore r =
     map_m restoreFromRow
       (db_CreateRestoreJob (nr_BackupID r) (nr_ServiceID r) (nr_EnvironmentID r) (nr_ProjectID r)
          (nr_WorkspaceID r) (nr_ServerID r) (nr_ArtifactURI r))"

definition store_GetRestore :: "string \<Rightarrow> Restore option m" where
  "store_GetRestore i = absent_ok (map_m restoreFromRow (db_GetRestoreJob i))"

definition store_ListRestoresByService :: "string \<Rightarrow> Restore list m" where
  "store_ListRestoresByService i = map_m (map restoreFromRow) (db_ListRestoreJobsByService i)"

definition ClaimNextRestoreForServer :: "string \<Rightarrow> Restore option m" where
  "ClaimNextRestoreForServer serverID = absent_ok (map_m restoreFromRow (db_ClaimNextRestoreForServer serverID))"

definition UpdateRestoreStatus :: "RestoreStatusUpdate \<Rightarrow> Restore m" where
  "UpdateRestoreStatus u =
     map_m restoreFromRow (db_UpdateRestoreStatus (ru_Status u) (ru_Message u) (ru_Error u) (ru_RestoreID u))"

section \<open>The service\<close>

abbreviation backup_resource :: "string \<Rightarrow> string \<Rightarrow> Resource" where
  "backup_resource workspaceID i \<equiv> \<lparr>res_Type = ''backup'', res_WorkspaceID = workspaceID, res_ID = i\<rparr>"

definition isAgentReportableBackupStatus :: "string \<Rightarrow> bool" where
  "isAgentReportableBackupStatus status =
     (status \<in> {StatusDumping, StatusUploading, StatusVerifying, StatusSucceeded, StatusFailed})"

definition isAgentReportableRestoreStatus :: "string \<Rightarrow> bool" where
  "isAgentReportableRestoreStatus status =
     (status \<in> {RestoreStatusRestoring, StatusVerifying, StatusSucceeded, StatusFailed})"

definition backups_hashToken :: "string \<Rightarrow> nat list" where
  "backups_hashToken raw = sha256_Sum256 raw"

definition backups_resolveAgent :: "string \<Rightarrow> string \<Rightarrow> (string \<times> string) m" where
  "backups_resolveAgent agentID credential =
     bind (map_err (Internalf ''resolve agent'') (backups_AgentServerByCredential (backups_hashToken credential))) (\<lambda>found.
     case found of
       None \<Rightarrow> fail (PermissionDenied ''unknown agent credential'')
     | Some (gotAgentID, serverID) \<Rightarrow>
         check (agentID = [] \<or> agentID = gotAgentID)
           (PermissionDenied ''agent id does not match the credential'')
           (ret (gotAgentID, serverID)))"

definition label_too_long :: err where
  "label_too_long = InvalidInput (''the backup name must be at most '' @ nat_digits maxLabelLen @ '' characters'')"

text \<open>The transaction of a creation: the queued row and its audit row together.\<close>

definition createBackupTx :: "ServiceTarget \<Rightarrow> string \<Rightarrow> string \<Rightarrow> string \<Rightarrow> Backup m" where
  "createBackupTx target serverID label actor =
     WithinTx
       (bind (InsertBackup \<lparr>nb_ServiceID = tgt_ID target, nb_EnvironmentID = tgt_EnvironmentID target,
                nb_ProjectID = tgt_ProjectID target, nb_WorkspaceID = tgt_WorkspaceID target,
                nb_ServerID = serverID, nb_Label = label, nb_TriggerSource = TriggerManual\<rparr>)
         (\<lambda>b. bind (audit_Record (action_string ActionBackupCreate) ''backup'' (bkp_ID b) (tgt_WorkspaceID target) actor)
           (\<lambda>_. ret b)))"

definition CreateBackup :: "deps \<Rightarrow> Principal \<Rightarrow> string \<Rightarrow> string \<Rightarrow> Backup m" where
  "CreateBackup D caller serviceID label0 =
     check (id_Parse D serviceID) (InvalidInput ''a valid service_id is required'')
    (let label = strings_TrimSpace label0 in
     check (utf8_RuneCountInString label \<le> maxLabelLen) label_too_long
    (bind (map_err (Internalf ''create backup'') (BackupServiceTarget serviceID)) (\<lambda>found.
     case found of
       None \<Rightarrow> fail (serviceNotFound serviceID)
     | Some target \<Rightarrow>
         check (tgt_SourceKind target = sourceTemplate \<and> tgt_TemplateID target = templatePostgres)
           (InvalidInput ''backups are only supported for managed Postgres databases'')
        (bind (Authorize caller ActionBackupCreate (backup_resource (tgt_WorkspaceID target) serviceID)) (\<lambda>_.
         bind (map_err (Internalf ''create backup'') (RunningServerForService serviceID)) (\<lambda>running.
         case running of
           None \<Rightarrow> fail (InvalidInput (''the database must be running before it can be backed up '' @ em_dash @
                     '' deploy it first''))
         | Some serverID \<Rightarrow>
             map_err (Internalf ''create backup'') (createBackupTx target serverID label (UserID caller))))))))"

definition backups_GetBackup :: "deps \<Rightarrow> Principal \<Rightarrow> string \<Rightarrow> Backup m" where
  "backups_GetBackup D caller backupID =
     check (id_Parse D backupID) (InvalidInput ''a valid backup id is required'')
    (bind (map_err (Internalf ''get backup'') (store_GetBackup backupID)) (\<lambda>found.
     case found of
       None \<Rightarrow> fail (NotFound (''backup '' @ backupID @ '' not found''))
     | Some b \<Rightarrow>
         bind (Authorize caller ActionBackupRead (backup_resource (bkp_WorkspaceID b) (bkp_ID b))) (\<lambda>_. ret b)))"

definition backups_ListByService :: "deps \<Rightarrow> Principal \<Rightarrow> string \<Rightarrow> Backup list m" where
  "backups_ListByService D caller serviceID =
     check (id_Parse D serviceID) (InvalidInput ''a valid service_id is required'')
    (bind (map_err (Internalf ''list backups'') (BackupServiceTarget serviceID)) (\<lambda>found.
     case found of
       None \<Rightarrow> fail (serviceNotFound serviceID)
     | Some target \<Rightarrow>
         bind (Authorize caller ActionBackupRead (backup_resource (tgt_WorkspaceID target) serviceID)) (\<lambda>_.
         map_err (Internalf ''list backups'') (store_ListBackupsByService serviceID))))"

definition noBackupWork :: ClaimedBackup where
  "noBackupWork =
     \<lparr>cb_HasWork = False, cb_BackupID = [], cb_Kind = [], cb_ServiceID = [], cb_Engine = [], cb_PgUser = [],
      cb_PgPassword = [], cb_PgDatabase = []\<rparr>"

definition PollBackupJob :: "PollInput \<Rightarrow> ClaimedBackup m" where
  "PollBackupJob inp =
     check (pi_Credential inp \<noteq> []) (InvalidInput ''a credential is required'')
    (bind (backups_resolveAgent (pi_AgentID inp) (pi_Credential inp)) (\<lambda>(_, serverID).
     bind (map_err (Internalf ''poll backup job'') (WithinTx (ClaimNextBackupForServer serverID))) (\<lambda>found.
     case found of
       None \<Rightarrow> ret noBackupWork
     | Some claimed \<Rightarrow>
         bind (map_err (Internalf ''poll backup job'') (DBCredentialsForService (bkp_ServiceID claimed))) (\<lambda>creds.
         ret \<lparr>cb_HasWork = True, cb_BackupID = bkp_ID claimed, cb_Kind = KindBackup,
              cb_ServiceID = bkp_ServiceID claimed, cb_Engine = EnginePostgres, cb_PgUser = dbc_User creds,
              cb_PgPassword = dbc_Password creds, cb_PgDatabase = dbc_Database creds\<rparr>))))"

definition ReportBackupJob :: "deps \<Rightarrow> ReportBackupInput \<Rightarrow> unit m" where
  "ReportBackupJob D inp =
     check (rbi_Credential inp \<noteq> []) (InvalidInput ''a credential is required'')
    (check (id_Parse D (rbi_BackupID inp)) (InvalidInput ''a valid backup id is required'')
    (check (isAgentReportableBackupStatus (rbi_Status inp))
       (InvalidInput (''status '' @ fmt_q (rbi_Status inp) @ '' is not a valid agent-reported backup status''))
    (bind (backups_resolveAgent (rbi_AgentID inp) (rbi_Credential inp)) (\<lambda>(_, serverID).
     bind (map_err (Internalf ''report backup job'') (store_GetBackup (rbi_BackupID inp))) (\<lambda>found.
     case found of
       None \<Rightarrow> fail (NotFound (''backup '' @ rbi_BackupID inp @ '' not found''))
     | Some b \<Rightarrow>
         check (bkp_ServerID b = serverID)
           (PermissionDenied (''this agent does not own backup '' @ rbi_BackupID inp))
           (map_err (Internalf ''report backup job'')
             (WithinTx
               (bind (UpdateBackupStatus \<lparr>bu_BackupID = rbi_BackupID inp, bu_Status = rbi_Status inp,
                        bu_ArtifactURI = rbi_ArtifactURI inp, bu_SizeBytes = rbi_SizeBytes inp,
                        bu_Checksum = rbi_Checksum inp, bu_Message = rbi_Message inp, bu_Error = rbi_Error inp\<rparr>)
                 (\<lambda>_. ret ())))))))))"

definition createRestoreTx :: "Backup \<Rightarrow> string \<Rightarrow> Restore m" where
  "createRestoreTx b actor =
     WithinTx
       (bind (InsertRestore \<lparr>nr_BackupID = bkp_ID b, nr_ServiceID = bkp_ServiceID b,
                nr_EnvironmentID = bkp_EnvironmentID b, nr_ProjectID = bkp_ProjectID b,
                nr_WorkspaceID = bkp_WorkspaceID b, nr_ServerID = bkp_ServerID b,
                nr_ArtifactURI = bkp_ArtifactURI b\<rparr>)
         (\<lambda>r. bind (audit_Record ''backup.restore'' ''restore'' (rst_ID r) (bkp_WorkspaceID b) actor)
           (\<lambda>_. ret r)))"

definition RestoreBackup :: "deps \<Rightarrow> Principal \<Rightarrow> string \<Rightarrow> Restore m" where
  "RestoreBackup D caller backupID =
     check (id_Parse D backupID) (InvalidInput ''a valid backup id is required'')
    (bind (map_err (Internalf ''restore backup'') (store_GetBackup backupID)) (\<lambda>found.
     case found of
       None \<Rightarrow> fail (NotFound (''backup '' @ backupID @ '' not found''))
     | Some b \<Rightarrow>
         check (bkp_Status b = StatusSucceeded) (InvalidInput ''only a succeeded backup can be restored'')
        (bind (Authorize caller ActionBackupCreate (backup_resource (bkp_WorkspaceID b) (bkp_ServiceID b))) (\<lambda>_.
         bind (map_err (Internalf ''restore backup'') (RunningServerForService (bkp_ServiceID b))) (\<lambda>running.
         case running of
           None \<Rightarrow> fail (InvalidInput (''the database must be running to restore into it '' @ em_dash @
                     '' deploy it first''))
         | Some serverID \<Rightarrow>
             check (serverID = bkp_ServerID b)
               (InvalidInput ''the backup is stored on a different server than the database currently runs on'')
               (map_err (Internalf ''restore backup'') (createRestoreTx b (UserID caller))))))))"

definition ListRestoresByService :: "deps \<Rightarrow> Principal \<Rightarrow> string \<Rightarrow> Restore list m" where
  "ListRestoresByService D caller serviceID =
     check (id_Parse D serviceID) (InvalidInput ''a valid service_id is required'')
    (bind (map_err (Internalf ''list restores'') (BackupServiceTarget serviceID)) (\<lambda>found.
     case found of
       None \<Rightarrow> fail (serviceNotFound serviceID)
     | Some target \<Rightarrow>
         bind (Authorize caller ActionBackupRead (backup_resource (tgt_WorkspaceID target) serviceID)) (\<lambda>_.
         map_err (Internalf ''list restores'') (store_ListRestoresByService serviceID))))"

definition noRestoreWork :: ClaimedRestore where
  "noRestoreWork =
     \<lparr>cr_HasWork = False, cr_RestoreID = [], cr_ServiceID = [], cr_Engine = [], cr_PgUser = [],
      cr_PgPassword = [], cr_PgDatabase = [], cr_ArtifactURI = []\<rparr>"

definition PollRestoreJob :: "PollInput \<Rightarrow> ClaimedRestore m" where
  "PollRestoreJob inp =
     check (pi_Credential inp \<noteq> []) (InvalidInput ''a credential is required'')
    (bind (backups_resolveAgent (pi_AgentID inp) (pi_Credential inp)) (\<lambda>(_, serverID).
     bind (map_err (Internalf ''poll restore job'') (WithinTx (ClaimNextRestoreForServer serverID))) (\<lambda>found.
     case found of
       None \<Rightarrow> ret noRestoreWork
     | Some claimed \<Rightarrow>
         bind (map_err (Internalf ''poll restore job'') (DBCredentialsForService (rst_ServiceID claimed))) (\<lambda>creds.
         ret \<lparr>cr_HasWork = True, cr_RestoreID = rst_ID claimed, cr_ServiceID = rst_ServiceID claimed,
              cr_Engine = EnginePostgres, cr_PgUser = dbc_User creds, cr_PgPassword = dbc_Password creds,
              cr_PgDatabase = dbc_Database creds, cr_ArtifactURI = rst_ArtifactURI claimed\<rparr>))))"

definition ReportRestoreJob :: "deps \<Rightarrow> ReportRestoreInput \<Rightarrow> unit m" where
  "ReportRestoreJob D inp =
     check (rri_Credential inp \<noteq> []) (InvalidInput ''a credential is required'')
    (check (id_Parse D (rri_RestoreID inp)) (InvalidInput ''a valid restore id is required'')
    (check (isAgentReportableRestoreStatus (rri_Status inp))
       (InvalidInput (''status '' @ fmt_q (rri_Status inp) @ '' is not a valid agent-reported restore status''))
    (bind (backups_resolveAgent (rri_AgentID inp) (rri_Credential inp)) (\<lambda>(_, serverID).
     bind (map_err (Internalf ''report restore job'') (store_GetRestore (rri_RestoreID inp))) (\<lambda>found.
     case found of
       None \<Rightarrow> fail (NotFound (''restore '' @ rri_RestoreID inp @ '' not found''))
     | Some r \<Rightarrow>
         check (rst_ServerID r = serverID)
           (PermissionDenied (''this agent does not own restore '' @ rri_RestoreID inp))
           (map_err (Internalf ''report restore job'')
             (WithinTx
               (bind (UpdateRestoreStatus \<lparr>ru_RestoreID = rri_RestoreID inp, ru_Status = rri_Status inp,
                        ru_Message = rri_Message inp, ru_Error = rri_Error inp\<rparr>)
                 (\<lambda>_. ret ())))))))))"

end
