(* ===== verification/BackupJobs.thy ===== *)
theory BackupJobs
  imports Backups
begin

text \<open>
  Correctness of the backups module: its two job queues, what each request may change and for
  whom, the references that stay intact, and the way of an artifact from the agent's report to the
  restore that reads it.
\<close>

section \<open>Reads and authentication\<close>

lemma backupFromRow_simps [simp]:
  "bkp_ID (backupFromRow r) = bk_ID r"
  "bkp_ServiceID (backupFromRow r) = bk_ServiceID r"
  "bkp_EnvironmentID (backupFromRow r) = bk_EnvironmentID r"
  "bkp_ProjectID (backupFromRow r) = bk_ProjectID r"
  "bkp_WorkspaceID (backupFromRow r) = bk_WorkspaceID r"
  "bkp_ServerID (backupFromRow r) = bk_ServerID r"
  "bkp_ArtifactURI (backupFromRow r) = bk_ArtifactUri r"
  "bkp_Status (backupFromRow r) = bk_Status r"
  by (simp_all add: backupFromRow_def)

lemma restoreFromRow_simps [simp]:
  "rst_ID (restoreFromRow r) = rj_ID r"
  "rst_BackupID (restoreFromRow r) = rj_BackupID r"
  "rst_ServiceID (restoreFromRow r) = rj_ServiceID r"
  "rst_WorkspaceID (restoreFromRow r) = rj_WorkspaceID r"
  "rst_ServerID (restoreFromRow r) = rj_ServerID r"
  "rst_ArtifactURI (restoreFromRow r) = rj_ArtifactUri r"
  "rst_Status (restoreFromRow r) = rj_Status r"
  by (simp_all add: restoreFromRow_def)

definition target_of :: "Service_row \<Rightarrow> ServiceTarget" where
  "target_of r =
     \<lparr>tgt_ID = rs_ID r, tgt_Name = rs_Name r, tgt_EnvironmentID = rs_EnvironmentID r,
      tgt_ProjectID = rs_ProjectID r, tgt_WorkspaceID = rs_WorkspaceID r,
      tgt_SourceKind = rs_SourceKind r, tgt_TemplateID = rs_TemplateID r\<rparr>"

definition newest_running :: "database \<Rightarrow> string \<Rightarrow> Deployment_row option" where
  "newest_running d i =
     first_by (\<lambda>r. - rd_CreatedAt r) (\<lambda>r. rd_ServiceID r = i \<and> rd_Status r = StatusRunning) (deployments d)"

lemma backup_reads:
  "store_GetBackup i = select_many (\<lambda>d. map_option backupFromRow (find (\<lambda>r. bk_ID r = i) (backups d)))"
  "store_GetRestore j = select_many (\<lambda>d. map_option restoreFromRow (find (\<lambda>r. rj_ID r = j) (restore_jobs d)))"
  "BackupServiceTarget s = select_many (\<lambda>d. map_option target_of (find (\<lambda>r. rs_ID r = s) (services d)))"
  "RunningServerForService t = select_many (\<lambda>d. map_option rd_ServerID (newest_running d t))"
  "backups_AgentServerByCredential h = AgentServerByCredential h"
  by (simp_all add: store_GetBackup_def db_GetBackup_def store_GetRestore_def db_GetRestoreJob_def
      BackupServiceTarget_def db_GetBackupServiceTarget_def RunningServerForService_def
      db_GetLatestRunningServerForService_def newest_running_def target_of_def [abs_def]
      backups_AgentServerByCredential_def AgentServerByCredential_def)

lemma backup_read_succ [succ_iff]:
  "store_GetBackup i w = (Inr x, w') \<longleftrightarrow> \<not> faults w (ops w) \<and> w' = w\<lparr>ops := Suc (ops w)\<rparr> \<and>
     x = map_option backupFromRow (find (\<lambda>r. bk_ID r = i) (backups (db w)))"
  "store_GetRestore j w = (Inr y, w') \<longleftrightarrow> \<not> faults w (ops w) \<and> w' = w\<lparr>ops := Suc (ops w)\<rparr> \<and>
     y = map_option restoreFromRow (find (\<lambda>r. rj_ID r = j) (restore_jobs (db w)))"
  "BackupServiceTarget s w = (Inr z, w') \<longleftrightarrow> \<not> faults w (ops w) \<and> w' = w\<lparr>ops := Suc (ops w)\<rparr> \<and>
     z = map_option target_of (find (\<lambda>r. rs_ID r = s) (services (db w)))"
  "RunningServerForService t w = (Inr u, w') \<longleftrightarrow> \<not> faults w (ops w) \<and> w' = w\<lparr>ops := Suc (ops w)\<rparr> \<and>
     u = map_option rd_ServerID (newest_running (db w) t)"
  by (auto simp: backup_reads select_many_succ)

lemma backups_hashToken_eq: "backups_hashToken = hashToken"
  by (simp add: fun_eq_iff backups_hashToken_def hashToken_def)

lemma backups_resolveAgent_succ [succ_iff]:
  "backups_resolveAgent agentID credential w = (Inr x, w') \<longleftrightarrow>
     \<not> faults w (ops w) \<and> w' = w\<lparr>ops := Suc (ops w)\<rparr> \<and>
     (\<exists>a. agent_of (db w) agentID credential a \<and> x = (ag_ID a, ag_ServerID a))"
  unfolding backups_resolveAgent_def agent_of_def backup_reads(5) backups_hashToken_eq
  by (cases "find (\<lambda>a. ag_CredentialHash a = hashToken credential) (agents (db w))") (auto simp: succ_iff)

lemma find_backup: "find (\<lambda>r. bk_ID r = i) xs = Some b \<Longrightarrow> b \<in> set xs \<and> bk_ID b = i"
  by (auto simp: find_Some_iff)

lemma find_restore: "find (\<lambda>r. rj_ID r = i) xs = Some j \<Longrightarrow> j \<in> set xs \<and> rj_ID j = i"
  by (auto simp: find_Some_iff)

section \<open>The queues\<close>

lemma claim_backup_unfold:
  "db_ClaimNextBackupForServer s =
     update_one (\<lambda>_. True) (\<lambda>w d.
       map_option (\<lambda>r. (assign_backup (now w) r,
           d\<lparr>backups := update_where (\<lambda>x. bk_ID x = bk_ID r) (assign_backup (now w)) (backups d)\<rparr>))
         (first_by bk_CreatedAt (job_waiting bk_ServerID bk_Status s) (backups d)))"
  by (simp add: db_ClaimNextBackupForServer_def job_waiting_def [abs_def] option.case_eq_if map_option_case
        cong: option.case_cong)

lemma claim_restore_unfold:
  "db_ClaimNextRestoreForServer s =
     update_one (\<lambda>_. True) (\<lambda>w d.
       map_option (\<lambda>r. (assign_restore (now w) r,
           d\<lparr>restore_jobs := update_where (\<lambda>x. rj_ID x = rj_ID r) (assign_restore (now w)) (restore_jobs d)\<rparr>))
         (first_by rj_CreatedAt (job_waiting rj_ServerID rj_Status s) (restore_jobs d)))"
  by (simp add: db_ClaimNextRestoreForServer_def job_waiting_def [abs_def] option.case_eq_if map_option_case
        cong: option.case_cong)

interpretation bq: job_queue backups bk_ID bk_ServerID bk_Status bk_CreatedAt assign_backup
  db_ClaimNextBackupForServer
  by unfold_locales (auto simp: assign_backup_def claim_backup_unfold succ_iff dest: update_one_err_db)

interpretation rq: job_queue restore_jobs rj_ID rj_ServerID rj_Status rj_CreatedAt assign_restore
  db_ClaimNextRestoreForServer
  by unfold_locales (auto simp: assign_restore_def claim_restore_unfold succ_iff dest: update_one_err_db)

abbreviation next_backup :: "database \<Rightarrow> string \<Rightarrow> Backup_row option" where
  "next_backup d s \<equiv> first_by bk_CreatedAt (job_waiting bk_ServerID bk_Status s) (backups d)"

abbreviation next_restore :: "database \<Rightarrow> string \<Rightarrow> RestoreJob_row option" where
  "next_restore d s \<equiv> first_by rj_CreatedAt (job_waiting rj_ServerID rj_Status s) (restore_jobs d)"

definition claimed_backup :: "int \<Rightarrow> Backup_row \<Rightarrow> database \<Rightarrow> database" where
  "claimed_backup t j d = d\<lparr>backups := update_where (\<lambda>x. bk_ID x = bk_ID j) (assign_backup t) (backups d)\<rparr>"

definition claimed_restore :: "int \<Rightarrow> RestoreJob_row \<Rightarrow> database \<Rightarrow> database" where
  "claimed_restore t j d =
     d\<lparr>restore_jobs := update_where (\<lambda>x. rj_ID x = rj_ID j) (assign_restore t) (restore_jobs d)\<rparr>"

lemma claim_succ [succ_iff]:
  "ClaimNextBackupForServer s w = (Inr x, w') \<longleftrightarrow> \<not> faults w (ops w) \<and>
     (case next_backup (db w) s of
        None \<Rightarrow> x = None \<and> w' = w\<lparr>ops := Suc (ops w)\<rparr>
      | Some j \<Rightarrow> x = Some (backupFromRow (assign_backup (now w) j)) \<and>
          w' = w\<lparr>ops := Suc (ops w), db := claimed_backup (now w) j (db w)\<rparr>)"
  "ClaimNextRestoreForServer s w = (Inr y, w') \<longleftrightarrow> \<not> faults w (ops w) \<and>
     (case next_restore (db w) s of
        None \<Rightarrow> y = None \<and> w' = w\<lparr>ops := Suc (ops w)\<rparr>
      | Some k \<Rightarrow> y = Some (restoreFromRow (assign_restore (now w) k)) \<and>
          w' = w\<lparr>ops := Suc (ops w), db := claimed_restore (now w) k (db w)\<rparr>)"
  by (auto simp: ClaimNextBackupForServer_def ClaimNextRestoreForServer_def claim_backup_unfold
      claim_restore_unfold absent_ok_update_one Let_def claimed_backup_def claimed_restore_def split: option.splits)

section \<open>What the requests do\<close>

text \<open>The server that the newest running deployment of a service is on.\<close>

definition runs_on :: "database \<Rightarrow> string \<Rightarrow> string \<Rightarrow> bool" where
  "runs_on d i s \<longleftrightarrow>
     (\<exists>t \<in> set (deployments d). rd_ServiceID t = i \<and> rd_Status t = StatusRunning \<and> rd_ServerID t = s \<and>
        (\<forall>u \<in> set (deployments d). rd_ServiceID u = i \<and> rd_Status u = StatusRunning \<longrightarrow> rd_CreatedAt u \<le> rd_CreatedAt t))"

lemma newest_running_runs_on: "newest_running d i = Some t \<Longrightarrow> runs_on d i (rd_ServerID t)"
  unfolding newest_running_def runs_on_def by (frule first_by_Some(1), frule first_by_Some(2), drule first_by_Some(3)) auto

definition queued_backup :: "Service_row \<Rightarrow> string \<Rightarrow> string \<Rightarrow> int \<Rightarrow> Backup_row \<Rightarrow> bool" where
  "queued_backup svc s label t r \<longleftrightarrow>
     bk_ServiceID r = rs_ID svc \<and> bk_EnvironmentID r = rs_EnvironmentID svc \<and> bk_ProjectID r = rs_ProjectID svc \<and>
     bk_WorkspaceID r = rs_WorkspaceID svc \<and> bk_ServerID r = s \<and> bk_Destination r = ''local'' \<and>
     bk_ArtifactUri r = [] \<and> bk_SizeBytes r = 0 \<and> bk_Checksum r = [] \<and> bk_Status r = StatusQueued \<and>
     bk_Message r = [] \<and> bk_Error r = [] \<and> bk_Label r = label \<and> bk_TriggerSource r = TriggerManual \<and>
     bk_CreatedAt r = t \<and> bk_UpdatedAt r = t"

definition queued_restore :: "Backup_row \<Rightarrow> int \<Rightarrow> RestoreJob_row \<Rightarrow> bool" where
  "queued_restore b t r \<longleftrightarrow>
     rj_BackupID r = bk_ID b \<and> rj_ServiceID r = bk_ServiceID b \<and> rj_EnvironmentID r = bk_EnvironmentID b \<and>
     rj_ProjectID r = bk_ProjectID b \<and> rj_WorkspaceID r = bk_WorkspaceID b \<and> rj_ServerID r = bk_ServerID b \<and>
     rj_ArtifactUri r = bk_ArtifactUri b \<and> rj_Status r = StatusQueued \<and> rj_Message r = [] \<and> rj_Error r = [] \<and>
     rj_CreatedAt r = t \<and> rj_UpdatedAt r = t"

text \<open>The database after a creation, a claim and a report, of a backup and of a restore.\<close>

definition backup_created :: "Principal \<Rightarrow> string \<Rightarrow> string \<Rightarrow> int \<Rightarrow> database \<Rightarrow> database \<Rightarrow> bool" where
  "backup_created p i label t d d' \<longleftrightarrow>
     (\<exists>svc s r a. svc \<in> set (services d) \<and> rs_ID svc = i \<and> rs_SourceKind svc = sourceTemplate \<and>
        rs_TemplateID svc = templatePostgres \<and> permitted d p ActionBackupCreate (rs_WorkspaceID svc) \<and>
        utf8_RuneCountInString label \<le> 80 \<and> runs_on d i s \<and> queued_backup svc s label t r \<and> backup_ok d r \<and>
        audit_row_of ''backup.create'' ''backup'' (bk_ID r) (rs_WorkspaceID svc) (UserID p) a \<and>
        d' = d\<lparr>backups := backups d @ [r], audit_events := audit_events d @ [a]\<rparr>)"

definition restore_created :: "Principal \<Rightarrow> string \<Rightarrow> int \<Rightarrow> database \<Rightarrow> database \<Rightarrow> bool" where
  "restore_created p i t d d' \<longleftrightarrow>
     (\<exists>b r a. b \<in> set (backups d) \<and> find (\<lambda>r. bk_ID r = i) (backups d) = Some b \<and> bk_Status b = StatusSucceeded \<and>
        permitted d p ActionBackupCreate (bk_WorkspaceID b) \<and> runs_on d (bk_ServiceID b) (bk_ServerID b) \<and>
        queued_restore b t r \<and> restore_ok d r \<and>
        audit_row_of ''backup.restore'' ''restore'' (rj_ID r) (bk_WorkspaceID b) (UserID p) a \<and>
        d' = d\<lparr>restore_jobs := restore_jobs d @ [r], audit_events := audit_events d @ [a]\<rparr>)"

definition backup_claimed :: "PollInput \<Rightarrow> int \<Rightarrow> database \<Rightarrow> database \<Rightarrow> bool" where
  "backup_claimed inp t d d' \<longleftrightarrow>
     (\<exists>a j. agent_of d (pi_AgentID inp) (pi_Credential inp) a \<and> next_backup d (ag_ServerID a) = Some j \<and>
        d' = claimed_backup t j d)"

definition restore_claimed :: "PollInput \<Rightarrow> int \<Rightarrow> database \<Rightarrow> database \<Rightarrow> bool" where
  "restore_claimed inp t d d' \<longleftrightarrow>
     (\<exists>a j. agent_of d (pi_AgentID inp) (pi_Credential inp) a \<and> next_restore d (ag_ServerID a) = Some j \<and>
        d' = claimed_restore t j d)"

definition backup_reported :: "ReportBackupInput \<Rightarrow> int \<Rightarrow> database \<Rightarrow> database \<Rightarrow> bool" where
  "backup_reported inp t d d' \<longleftrightarrow>
     (\<exists>a b. agent_of d (rbi_AgentID inp) (rbi_Credential inp) a \<and>
        find (\<lambda>r. bk_ID r = rbi_BackupID inp) (backups d) = Some b \<and> bk_ServerID b = ag_ServerID a \<and>
        isAgentReportableBackupStatus (rbi_Status inp) \<and>
        d' = d\<lparr>backups := update_where (\<lambda>r. bk_ID r = rbi_BackupID inp)
               (set_backup_status (rbi_Status inp) (rbi_Message inp) (rbi_Error inp) (rbi_ArtifactURI inp)
                 (rbi_SizeBytes inp) (rbi_Checksum inp) t) (backups d)\<rparr>)"

definition restore_reported :: "ReportRestoreInput \<Rightarrow> int \<Rightarrow> database \<Rightarrow> database \<Rightarrow> bool" where
  "restore_reported inp t d d' \<longleftrightarrow>
     (\<exists>a j. agent_of d (rri_AgentID inp) (rri_Credential inp) a \<and>
        find (\<lambda>r. rj_ID r = rri_RestoreID inp) (restore_jobs d) = Some j \<and> rj_ServerID j = ag_ServerID a \<and>
        isAgentReportableRestoreStatus (rri_Status inp) \<and>
        d' = d\<lparr>restore_jobs := update_where (\<lambda>r. rj_ID r = rri_RestoreID inp)
               (set_restore_status (rri_Status inp) (rri_Message inp) (rri_Error inp) t) (restore_jobs d)\<rparr>)"

lemma CreateBackup_run:
  assumes "CreateBackup D p i label w = (Inr b, w')"
  shows "backup_created p i (strings_TrimSpace label) (now w) (db w) (db w')"
proof -
  let ?l = "strings_TrimSpace label"
  from assms obtain svc t n w1 where
    l: "utf8_RuneCountInString ?l \<le> maxLabelLen" and
    svc: "find (\<lambda>r. rs_ID r = i) (services (db w)) = Some svc" and
    kind: "rs_SourceKind svc = sourceTemplate" "rs_TemplateID svc = templatePostgres" and
    p: "permitted (db w) p ActionBackupCreate (rs_WorkspaceID svc)" and
    t: "newest_running (db w) i = Some t" and
    tx: "createBackupTx (target_of svc) (rd_ServerID t) ?l (UserID p) (w\<lparr>ops := n\<rparr>) = (Inr b, w')"
    by (auto simp: CreateBackup_def Let_def check_succ bind_succ map_err_succ backup_read_succ Authorize_succ
        target_of_def split: option.splits)
  let ?nb = "\<lparr>nb_ServiceID = tgt_ID (target_of svc), nb_EnvironmentID = tgt_EnvironmentID (target_of svc),
      nb_ProjectID = tgt_ProjectID (target_of svc), nb_WorkspaceID = tgt_WorkspaceID (target_of svc),
      nb_ServerID = rd_ServerID t, nb_Label = ?l, nb_TriggerSource = TriggerManual\<rparr>"
  from tx obtain w1 a where ins: "InsertBackup ?nb (w\<lparr>ops := Suc n\<rparr>) = (Inr b, w1)"
    and a: "audit_row_of (action_string ActionBackupCreate) ''backup'' (bkp_ID b) (tgt_WorkspaceID (target_of svc)) (UserID p) a"
    and d': "db w' = (db w1)\<lparr>audit_events := audit_events (db w1) @ [a]\<rparr>"
    unfolding createBackupTx_def by (rule trail.audited_tx_success) auto
  from ins obtain r where r: "backup_ok (db w) r" "b = backupFromRow r" "db w1 = (db w)\<lparr>backups := backups (db w) @ [r]\<rparr>"
    "queued_backup svc (rd_ServerID t) ?l (now w) r"
    by (auto simp: InsertBackup_def db_CreateBackup_def map_m_succ insert_row_succ queued_backup_def target_of_def)
  show ?thesis
    unfolding backup_created_def
    using find_service [OF svc] kind p l newest_running_runs_on [OF t] r a d'
    by (intro exI [of _ svc] exI [of _ "rd_ServerID t"] exI [of _ r] exI [of _ a])
       (simp add: maxLabelLen_def target_of_def action_string_def)
qed

lemma RestoreBackup_run:
  assumes "RestoreBackup D p i w = (Inr x, w')"
  shows "restore_created p i (now w) (db w) (db w') \<and> x = restoreFromRow (last (restore_jobs (db w')))"
proof -
  from assms obtain b t n where
    b: "find (\<lambda>r. bk_ID r = i) (backups (db w)) = Some b" and st: "bk_Status b = StatusSucceeded" and
    p: "permitted (db w) p ActionBackupCreate (bk_WorkspaceID b)" and
    t: "newest_running (db w) (bk_ServiceID b) = Some t" "rd_ServerID t = bk_ServerID b" and
    tx: "createRestoreTx (backupFromRow b) (UserID p) (w\<lparr>ops := n\<rparr>) = (Inr x, w')"
    by (auto simp: RestoreBackup_def check_succ bind_succ map_err_succ backup_read_succ Authorize_succ
        split: option.splits)
  let ?B = "backupFromRow b"
  let ?nr = "\<lparr>nr_BackupID = bkp_ID ?B, nr_ServiceID = bkp_ServiceID ?B, nr_EnvironmentID = bkp_EnvironmentID ?B,
      nr_ProjectID = bkp_ProjectID ?B, nr_WorkspaceID = bkp_WorkspaceID ?B, nr_ServerID = bkp_ServerID ?B,
      nr_ArtifactURI = bkp_ArtifactURI ?B\<rparr>"
  from tx obtain w1 a where ins: "InsertRestore ?nr (w\<lparr>ops := Suc n\<rparr>) = (Inr x, w1)"
    and a: "audit_row_of ''backup.restore'' ''restore'' (rst_ID x) (bkp_WorkspaceID ?B) (UserID p) a"
    and d': "db w' = (db w1)\<lparr>audit_events := audit_events (db w1) @ [a]\<rparr>"
    unfolding createRestoreTx_def by (rule trail.audited_tx_success) auto
  from ins obtain r where r: "restore_ok (db w) r" "x = restoreFromRow r"
    "db w1 = (db w)\<lparr>restore_jobs := restore_jobs (db w) @ [r]\<rparr>" "queued_restore b (now w) r"
    by (auto simp: InsertRestore_def db_CreateRestoreJob_def map_m_succ insert_row_succ queued_restore_def)
  have "restore_created p i (now w) (db w) (db w')"
    unfolding restore_created_def
    using find_backup [OF b] b st p newest_running_runs_on [OF t(1)] t(2) r a d'
    by (intro exI [of _ b] exI [of _ r] exI [of _ a]) simp
  with r d' show ?thesis by simp
qed

lemma ReportBackupJob_run:
  assumes "ReportBackupJob D inp w = (Inr u, w')"
  shows "backup_reported inp (now w) (db w) (db w')"
proof -
  from assms obtain a b n x w1 where
    a: "agent_of (db w) (rbi_AgentID inp) (rbi_Credential inp) a" and
    b: "find (\<lambda>r. bk_ID r = rbi_BackupID inp) (backups (db w)) = Some b" and
    own: "bk_ServerID b = ag_ServerID a" and st: "isAgentReportableBackupStatus (rbi_Status inp)" and
    upd: "UpdateBackupStatus \<lparr>bu_BackupID = rbi_BackupID inp, bu_Status = rbi_Status inp,
       bu_ArtifactURI = rbi_ArtifactURI inp, bu_SizeBytes = rbi_SizeBytes inp,
       bu_Checksum = rbi_Checksum inp, bu_Message = rbi_Message inp, bu_Error = rbi_Error inp\<rparr> (w\<lparr>ops := n\<rparr>) = (Inr x, w1)" and
    w': "db w' = db w1"
    by (auto simp: ReportBackupJob_def succ_iff split: option.splits)
  have "db w1 = (db w)\<lparr>backups := update_where (\<lambda>r. bk_ID r = rbi_BackupID inp)
      (set_backup_status (rbi_Status inp) (rbi_Message inp) (rbi_Error inp) (rbi_ArtifactURI inp)
        (rbi_SizeBytes inp) (rbi_Checksum inp) (now w)) (backups (db w))\<rparr>"
    using upd by (auto simp: UpdateBackupStatus_def db_UpdateBackupStatus_def succ_iff Let_def split: option.splits)
  with a b own st w' show ?thesis unfolding backup_reported_def by auto
qed

lemma ReportRestoreJob_run:
  assumes "ReportRestoreJob D inp w = (Inr u, w')"
  shows "restore_reported inp (now w) (db w) (db w')"
proof -
  from assms obtain a j n x w1 where
    a: "agent_of (db w) (rri_AgentID inp) (rri_Credential inp) a" and
    j: "find (\<lambda>r. rj_ID r = rri_RestoreID inp) (restore_jobs (db w)) = Some j" and
    own: "rj_ServerID j = ag_ServerID a" and st: "isAgentReportableRestoreStatus (rri_Status inp)" and
    upd: "UpdateRestoreStatus \<lparr>ru_RestoreID = rri_RestoreID inp, ru_Status = rri_Status inp,
       ru_Message = rri_Message inp, ru_Error = rri_Error inp\<rparr> (w\<lparr>ops := n\<rparr>) = (Inr x, w1)" and
    w': "db w' = db w1"
    by (auto simp: ReportRestoreJob_def succ_iff split: option.splits)
  have "db w1 = (db w)\<lparr>restore_jobs := update_where (\<lambda>r. rj_ID r = rri_RestoreID inp)
      (set_restore_status (rri_Status inp) (rri_Message inp) (rri_Error inp) (now w)) (restore_jobs (db w))\<rparr>"
    using upd by (auto simp: UpdateRestoreStatus_def db_UpdateRestoreStatus_def succ_iff Let_def split: option.splits)
  with a j own st w' show ?thesis unfolding restore_reported_def by auto
qed

section \<open>The module as one system\<close>

datatype backup_request =
    CreateBackupReq Principal string string
  | GetBackupReq Principal string
  | ListBackupsReq Principal string
  | PollBackupReq PollInput
  | ReportBackupReq ReportBackupInput
  | RestoreBackupReq Principal string
  | ListRestoresReq Principal string
  | PollRestoreReq PollInput
  | ReportRestoreReq ReportRestoreInput

definition serve_backups :: "deps \<Rightarrow> backup_request \<Rightarrow> unit m" where
  "serve_backups D q =
     (case q of
        CreateBackupReq p i label \<Rightarrow> map_m (\<lambda>_. ()) (CreateBackup D p i label)
      | GetBackupReq p i \<Rightarrow> map_m (\<lambda>_. ()) (backups_GetBackup D p i)
      | ListBackupsReq p i \<Rightarrow> map_m (\<lambda>_. ()) (backups_ListByService D p i)
      | PollBackupReq inp \<Rightarrow> map_m (\<lambda>_. ()) (PollBackupJob inp)
      | ReportBackupReq inp \<Rightarrow> ReportBackupJob D inp
      | RestoreBackupReq p i \<Rightarrow> map_m (\<lambda>_. ()) (RestoreBackup D p i)
      | ListRestoresReq p i \<Rightarrow> map_m (\<lambda>_. ()) (ListRestoresByService D p i)
      | PollRestoreReq inp \<Rightarrow> map_m (\<lambda>_. ()) (PollRestoreJob inp)
      | ReportRestoreReq inp \<Rightarrow> ReportRestoreJob D inp)"

lemma readonly_backup_store:
  "readonly (store_GetBackup i)" "readonly (store_GetRestore i)" "readonly (BackupServiceTarget i)"
  "readonly (RunningServerForService i)" "readonly (store_ListBackupsByService i)"
  "readonly (store_ListRestoresByService i)" "readonly (DBCredentialsForService i)"
  by (simp_all add: backup_reads store_ListBackupsByService_def db_ListBackupsByService_def
      store_ListRestoresByService_def db_ListRestoreJobsByService_def DBCredentialsForService_def
      db_ListConfigForService_def reads.obeys_select_many)

lemma readonly_backups_resolveAgent: "readonly (backups_resolveAgent i c)"
  unfolding backups_resolveAgent_def backup_reads(5)
  by (intro reads.obeys_rules) (auto intro!: reads.obeys_rules readonly_store split: option.split)

lemmas readonly_backups = readonly_backup_store readonly_backups_resolveAgent readonly_Authorize

lemma readonly_backup_handlers:
  "readonly (backups_GetBackup D p i)" "readonly (backups_ListByService D p i)" "readonly (ListRestoresByService D p i)"
  unfolding backups_GetBackup_def backups_ListByService_def ListRestoresByService_def
  by (intro reads.obeys_rules; auto intro!: reads.obeys_rules readonly_backups split: option.split)+

lemma atomic_backup_handlers:
  "atomic (CreateBackup D p i l)" "atomic (RestoreBackup D p i)" "atomic (ReportBackupJob D inp)"
  "atomic (ReportRestoreJob D rnp)"
  unfolding CreateBackup_def RestoreBackup_def ReportBackupJob_def ReportRestoreJob_def createBackupTx_def
    createRestoreTx_def Let_def
  by (auto intro!: atomic_rules atomic_read_bind reads.obeys_rules readonly_backups split: option.split)

lemma map_m_run: "map_m f c w = (r, w') \<Longrightarrow> \<exists>s. c w = (s, w') \<and> (\<forall>x. r = Inr x \<longrightarrow> (\<exists>y. s = Inr y)) \<and> (\<forall>e. r = Inl e \<longrightarrow> s = Inl e)"
  by (auto simp: map_m_def bind_def split: prod.splits sum.splits)

text \<open>A change made by a sequence of steps is made by its atomic write.\<close>

lemma bind_read_change:
  assumes "bind f k w = (r, w')" and "readonly f" and "db w' \<noteq> db w"
  obtains x w1 where "f w = (Inr x, w1)" and "k x w1 = (r, w')" and "db w1 = db w"
proof (cases "f w")
  case (Pair s w1)
  then have "db w1 = db w" using assms(2) by (rule readonly_db [rotated])
  with Pair assms that show ?thesis by (cases s) (auto simp: bind_def)
qed

lemma bind_write_change:
  assumes "bind g k w = (r, w')" and "atomic g" and "\<And>x. readonly (k x)" and "db w' \<noteq> db w"
  obtains x w1 where "g w = (Inr x, w1)" and "db w' = db w1"
proof (cases "g w")
  case (Pair s w1)
  show ?thesis
  proof (cases s)
    case (Inl e)
    with Pair assms(1,4) atomicD [OF assms(2)] show ?thesis by (auto simp: bind_def)
  next
    case (Inr x)
    with Pair assms(1) have "k x w1 = (r, w')" by (simp add: bind_def)
    with assms(3) have "db w' = db w1" by (rule readonly_db)
    with Pair Inr that show ?thesis by blast
  qed
qed

lemma check_change: "check b e c w = (r, w') \<Longrightarrow> db w' \<noteq> db w \<Longrightarrow> b \<and> c w = (r, w')"
  by (simp add: check_def split: if_splits)

lemma map_err_inr: "map_err f c w = (Inr x, w') \<Longrightarrow> c w = (Inr x, w')"
  by (simp add: map_err_succ)

lemma poll_change:
  assumes "bind (backups_resolveAgent i c) (\<lambda>(_, s). bind (map_err e (WithinTx (claim s))) h) w = (r, w')"
    and "\<And>x. readonly (h x)" and "db w' \<noteq> db w"
  obtains a n x w1 where "agent_of (db w) i c a" and "claim (ag_ServerID a) (w\<lparr>ops := n\<rparr>) = (Inr x, w1)"
    and "db w' = db w1"
proof (rule bind_read_change [OF assms(1) readonly_backups_resolveAgent assms(3)])
  fix x w1
  assume "backups_resolveAgent i c w = (Inr x, w1)"
    and "(case x of (_, s) \<Rightarrow> bind (map_err e (WithinTx (claim s))) h) w1 = (r, w')"
  then obtain a where a: "agent_of (db w) i c a"
    and run: "bind (map_err e (WithinTx (claim (ag_ServerID a)))) h (w\<lparr>ops := Suc (ops w)\<rparr>) = (r, w')"
    by (auto simp: backups_resolveAgent_succ)
  from run show ?thesis
    by (rule bind_write_change) (use a assms(2,3) that in \<open>auto intro!: atomic_rules simp: map_err_succ WithinTx_succ\<close>)
qed

lemma PollBackupJob_change:
  assumes "PollBackupJob inp w = (r, w')" and "db w' \<noteq> db w"
  shows "backup_claimed inp (now w) (db w) (db w')"
  using check_change [OF assms(1) [unfolded PollBackupJob_def] assms(2), THEN conjunct2]
  by (rule poll_change)
     (use assms(2) in \<open>auto intro!: reads.obeys_rules readonly_backups simp: claim_succ backup_claimed_def split: option.splits\<close>)

lemma PollRestoreJob_change:
  assumes "PollRestoreJob inp w = (r, w')" and "db w' \<noteq> db w"
  shows "restore_claimed inp (now w) (db w) (db w')"
  using check_change [OF assms(1) [unfolded PollRestoreJob_def] assms(2), THEN conjunct2]
  by (rule poll_change)
     (use assms(2) in \<open>auto intro!: reads.obeys_rules readonly_backups simp: claim_succ restore_claimed_def split: option.splits\<close>)

text \<open>What each request may have done when the database changed.\<close>

definition backups_did :: "backup_request \<Rightarrow> int \<Rightarrow> database \<Rightarrow> database \<Rightarrow> bool" where
  "backups_did q t d d' =
     (case q of
        CreateBackupReq p i label \<Rightarrow> backup_created p i (strings_TrimSpace label) t d d'
      | PollBackupReq inp \<Rightarrow> backup_claimed inp t d d'
      | ReportBackupReq inp \<Rightarrow> backup_reported inp t d d'
      | RestoreBackupReq p i \<Rightarrow> restore_created p i t d d'
      | PollRestoreReq inp \<Rightarrow> restore_claimed inp t d d'
      | ReportRestoreReq inp \<Rightarrow> restore_reported inp t d d'
      | _ \<Rightarrow> False)"

lemma serve_backups_did:
  assumes "serve_backups D q w = (r, w')" and "db w' \<noteq> db w"
  shows "backups_did q (now w) (db w) (db w')"
  using assms
  by (cases q; cases r)
     (auto simp: serve_backups_def backups_did_def dest!: map_m_run
        dest: CreateBackup_run RestoreBackup_run ReportBackupJob_run ReportRestoreJob_run PollBackupJob_change
          PollRestoreJob_change atomic_backup_handlers [THEN atomicD] readonly_backup_handlers [THEN readonly_db])

text \<open>C33: a request of the backups module that changes anything, even one that ends in an error, did
  exactly one thing it was entitled to. A creation queued one backup of a managed Postgres service
  for the server its newest running deployment is on, by a caller who may back up in the service's
  workspace, with its audit row. A restore was queued from a succeeded backup, whose artifact it
  copies, by such a caller, on the server that holds the artifact and runs the database. A poll
  assigned the oldest queued job of the server of the agent whose credential it carried. A report
  wrote one status an agent may report to one job of the agent's own server, keeping every recorded
  value the report leaves empty. Reads changed nothing.\<close>

theorem backups_change_only_as_permitted:
  assumes "serve_backups D q w = (r, w')" and "db w' \<noteq> db w"
  shows "backups_did q (now w) (db w) (db w')"
  using assms by (rule serve_backups_did)

definition demo_pg :: database where
  "demo_pg = demo_db\<lparr>
     services := [(demo_service ''pg'' ''template'')\<lparr>rs_TemplateID := ''postgres''\<rparr>],
     config_entries := [(demo_config ''variable'' ''service'' ''POSTGRES_PASSWORD'' ''pw'')\<lparr>ce_ServiceID := Some ''pg''\<rparr>],
     deployments := [(demo_deployment ''d1'' KindProduction ''pg'' StatusRunning 1)\<lparr>rd_ServiceID := ''pg''\<rparr>]\<rparr>"

definition demo_backup :: "string \<Rightarrow> string \<Rightarrow> Backup_row" where
  "demo_backup i status =
     \<lparr>bk_ID = i, bk_ServiceID = ''pg'', bk_EnvironmentID = ''env'', bk_ProjectID = ''prj'', bk_WorkspaceID = ''ws'',
      bk_ServerID = ''srv'', bk_Destination = ''local'', bk_ArtifactUri = [], bk_SizeBytes = 0, bk_Checksum = [],
      bk_Status = status, bk_Message = [], bk_Error = [], bk_CreatedAt = 5, bk_UpdatedAt = 5, bk_Label = [],
      bk_TriggerSource = TriggerManual\<rparr>"

definition backup_world :: "Backup_row list \<Rightarrow> RestoreJob_row list \<Rightarrow> world" where
  "backup_world bs rs = (demo_world [])\<lparr>db := demo_pg\<lparr>backups := bs, restore_jobs := rs\<rparr>\<rparr>"

definition demo_done :: ReportBackupInput where
  "demo_done =
     \<lparr>rbi_AgentID = [], rbi_Credential = ''cred'', rbi_BackupID = ''b'', rbi_Status = StatusSucceeded,
      rbi_ArtifactURI = ''/backups/b.sql'', rbi_SizeBytes = 7, rbi_Checksum = ''ab'', rbi_Message = [], rbi_Error = []\<rparr>"

lemmas backup_exec = exec_defs backup_reads(1-4) backups_resolveAgent_def backup_reads(5) backups_hashToken_eq
  target_of_def newest_running_def first_by_def isAgentReportableBackupStatus_def UpdateBackupStatus_def
  db_UpdateBackupStatus_def backup_statuses_def set_backup_status_def keep_if_empty_def update_where_def
  backupFromRow_def restoreFromRow_def job_refs_def

lemmas demo_pg_defs = demo_defs demo_pg_def backup_world_def demo_backup_def demo_done_def

theorem backups_change_only_as_permitted_witness:
  "\<exists>r w'. serve_backups demo_deps (ReportBackupReq demo_done) (backup_world [demo_backup ''b'' StatusVerifying] []) = (r, w') \<and>
     db w' \<noteq> db (backup_world [demo_backup ''b'' StatusVerifying] []) \<and>
     backups_did (ReportBackupReq demo_done) 100 (db (backup_world [demo_backup ''b'' StatusVerifying] [])) (db w')"
proof -
  let ?w = "backup_world [demo_backup ''b'' StatusVerifying] []"
  obtain r w' where run: "serve_backups demo_deps (ReportBackupReq demo_done) ?w = (r, w')"
    "map bk_Status (backups (db w')) = [StatusSucceeded]"
    by (simp add: serve_backups_def ReportBackupJob_def backup_exec demo_pg_defs)
  then have "db w' \<noteq> db ?w" by (auto simp: demo_pg_defs)
  moreover have "now ?w = 100" by (simp add: demo_pg_defs)
  ultimately show ?thesis using run(1) backups_change_only_as_permitted [OF run(1)] by metis
qed

section \<open>What stays intact\<close>

text \<open>Identifiers are unique, statuses are of the vocabulary, and every restore belongs to a backup of
  the same service, workspace and server.\<close>

definition wf_backups :: "database \<Rightarrow> bool" where
  "wf_backups d \<longleftrightarrow>
     distinct (map bk_ID (backups d)) \<and> distinct (map rj_ID (restore_jobs d)) \<and>
     (\<forall>b \<in> set (backups d). bk_Status b \<in> set backup_statuses) \<and>
     (\<forall>j \<in> set (restore_jobs d). rj_Status j \<in> set restore_statuses \<and>
        (\<exists>b \<in> set (backups d). bk_ID b = rj_BackupID j \<and> bk_ServiceID b = rj_ServiceID j \<and>
           bk_WorkspaceID b = rj_WorkspaceID j \<and> bk_ServerID b = rj_ServerID j))"

text \<open>What no update of a backup or a restore changes.\<close>

definition backup_key :: "Backup_row \<Rightarrow> string \<times> string \<times> string \<times> string" where
  "backup_key b = (bk_ID b, bk_ServiceID b, bk_WorkspaceID b, bk_ServerID b)"

definition restore_key :: "RestoreJob_row \<Rightarrow> string \<times> string \<times> string \<times> string \<times> string" where
  "restore_key j = (rj_ID j, rj_BackupID j, rj_ServiceID j, rj_WorkspaceID j, rj_ServerID j)"

lemma wf_backups_keys:
  "wf_backups d \<longleftrightarrow>
     distinct (map fst (map backup_key (backups d))) \<and> distinct (map fst (map restore_key (restore_jobs d))) \<and>
     (\<forall>b \<in> set (backups d). bk_Status b \<in> set backup_statuses) \<and>
     (\<forall>j \<in> set (restore_jobs d). rj_Status j \<in> set restore_statuses) \<and>
     (\<forall>k \<in> set (map restore_key (restore_jobs d)). snd k \<in> set (map backup_key (backups d)))"
proof -
  have "(\<exists>b \<in> set (backups d). bk_ID b = rj_BackupID j \<and> bk_ServiceID b = rj_ServiceID j \<and>
      bk_WorkspaceID b = rj_WorkspaceID j \<and> bk_ServerID b = rj_ServerID j) \<longleftrightarrow>
    snd (restore_key j) \<in> set (map backup_key (backups d))" for j
    by (simp add: backup_key_def restore_key_def image_iff) metis
  then show ?thesis by (auto simp: wf_backups_def comp_def backup_key_def restore_key_def)
qed

lemma keys_kept:
  "backup_key (assign_backup t b) = backup_key b"
  "backup_key (set_backup_status st m e a n c t b) = backup_key b"
  "restore_key (assign_restore t j) = restore_key j"
  "restore_key (set_restore_status st m e t j) = restore_key j"
  by (simp_all add: backup_key_def restore_key_def assign_backup_def set_backup_status_def assign_restore_def
      set_restore_status_def)

lemma map_key_update: "(\<And>x. k (f x) = k x) \<Longrightarrow> map k (update_where p f xs) = map k xs"
  by (simp add: update_where_def)

lemma reportable_statuses:
  "isAgentReportableBackupStatus s \<Longrightarrow> s \<in> set backup_statuses"
  "isAgentReportableRestoreStatus s \<Longrightarrow> s \<in> set restore_statuses"
  by (auto simp: isAgentReportableBackupStatus_def isAgentReportableRestoreStatus_def backup_statuses_def
      restore_statuses_def)

lemma statuses_after:
  "bk_Status (assign_backup t b) \<in> set backup_statuses"
  "bk_Status (set_backup_status s m e a n c t b) = s"
  "rj_Status (assign_restore t j) \<in> set restore_statuses"
  "rj_Status (set_restore_status s m e t j) = s"
  by (simp_all add: assign_backup_def set_backup_status_def assign_restore_def set_restore_status_def
      backup_statuses_def restore_statuses_def)

lemma update_where_all: "(\<forall>x \<in> set xs. P x) \<Longrightarrow> (\<And>x. P (f x)) \<Longrightarrow> \<forall>x \<in> set (update_where p f xs). P x"
  by (auto simp: update_where_def)

lemma wf_backups_update:
  assumes "wf_backups d" and "\<And>x. backup_key (f x) = backup_key x" and "\<And>x. bk_Status (f x) \<in> set backup_statuses"
  shows "wf_backups (d\<lparr>backups := update_where p f (backups d)\<rparr>)"
proof -
  have "\<forall>b \<in> set (update_where p f (backups d)). bk_Status b \<in> set backup_statuses"
    using assms(1,3) by (intro update_where_all) (auto simp: wf_backups_def)
  then show ?thesis
    using assms(1) by (simp add: wf_backups_keys map_key_update [of backup_key f, OF assms(2)] del: set_map map_map)
qed

lemma wf_restores_update:
  assumes "wf_backups d" and "\<And>x. restore_key (f x) = restore_key x" and "\<And>x. rj_Status (f x) \<in> set restore_statuses"
  shows "wf_backups (d\<lparr>restore_jobs := update_where p f (restore_jobs d)\<rparr>)"
proof -
  have "\<forall>j \<in> set (update_where p f (restore_jobs d)). rj_Status j \<in> set restore_statuses"
    using assms(1,3) by (intro update_where_all) (auto simp: wf_backups_def)
  then show ?thesis
    using assms(1) by (simp add: wf_backups_keys map_key_update [of restore_key f, OF assms(2)] del: set_map map_map)
qed

lemmas wf_updates = wf_backups_update wf_restores_update keys_kept

lemma backups_did_wf:
  assumes "backups_did q t d d'" and "wf_backups d"
  shows "wf_backups d'"
proof (cases q)
  case (CreateBackupReq p i label)
  with assms show ?thesis by (auto simp: backups_did_def backup_created_def wf_backups_def backup_ok_def)
next
  case (RestoreBackupReq p i)
  with assms(1) obtain b r a where b: "b \<in> set (backups d)" and r: "queued_restore b t r" "restore_ok d r"
    and d': "d' = d\<lparr>restore_jobs := restore_jobs d @ [r], audit_events := audit_events d @ [a]\<rparr>"
    by (auto simp: backups_did_def restore_created_def)
  have "snd (restore_key r) \<in> set (map backup_key (backups d))"
    using b r(1) by (auto simp: queued_restore_def restore_key_def backup_key_def image_iff)
  moreover have "fst (restore_key r) \<notin> set (map fst (map restore_key (restore_jobs d)))"
    using r(2) by (auto simp: restore_ok_def restore_key_def)
  ultimately show ?thesis
    using assms(2) r(2) by (simp add: d' wf_backups_keys restore_ok_def del: set_map map_map)
next
  case (PollBackupReq inp)
  with assms show ?thesis
    by (auto simp: backups_did_def backup_claimed_def claimed_backup_def intro!: wf_updates statuses_after)
next
  case (PollRestoreReq inp)
  with assms show ?thesis
    by (auto simp: backups_did_def restore_claimed_def claimed_restore_def intro!: wf_updates statuses_after)
next
  case (ReportBackupReq inp)
  with assms show ?thesis
    by (auto simp: backups_did_def backup_reported_def statuses_after reportable_statuses intro!: wf_updates)
next
  case (ReportRestoreReq inp)
  with assms show ?thesis
    by (auto simp: backups_did_def restore_reported_def statuses_after reportable_statuses intro!: wf_updates)
qed (use assms in \<open>simp_all add: backups_did_def\<close>)


text \<open>The databases that a sequence of requests reaches, at whatever times and with whatever failures.\<close>

inductive backups_reach :: "deps \<Rightarrow> database \<Rightarrow> database \<Rightarrow> bool" for D where
  start: "backups_reach D d d"
| serve: "backups_reach D d (db w) \<Longrightarrow> serve_backups D q w = (r, w') \<Longrightarrow> backups_reach D d (db w')"

text \<open>C34: from a database whose backups are well-formed, no sequence of requests of the module, failing
  wherever they may, makes a restore whose backup is missing or belongs to another service, workspace
  or server, a status outside the vocabulary or a second row of one identifier.\<close>

theorem wf_backups_reachable:
  assumes "backups_reach D d d'" and "wf_backups d"
  shows "wf_backups d'"
  using assms
proof (induction rule: backups_reach.induct)
  case (serve d w q r w')
  have "db w' = db w \<or> backups_did q (now w) (db w) (db w')"
    using serve_backups_did [OF serve.hyps(2)] by blast
  with serve show ?case by (auto dest: backups_did_wf)
qed

lemma nightly: "strings_TrimSpace ''nightly'' = ''nightly''" "utf8_RuneCountInString ''nightly'' = 7"
  by code_simp+

theorem wf_backups_reachable_witness:
  "\<exists>w'. serve_backups demo_deps (CreateBackupReq alice ''pg'' ''nightly'') (backup_world [] []) = (Inr (), w') \<and>
     map bk_Label (backups (db w')) = [''nightly''] \<and> wf_backups (db w')"
proof -
  obtain w' where run: "serve_backups demo_deps (CreateBackupReq alice ''pg'' ''nightly'') (backup_world [] []) = (Inr (), w')"
    and l: "map bk_Label (backups (db w')) = [''nightly'']"
    by (simp add: serve_backups_def CreateBackup_def createBackupTx_def InsertBackup_def db_CreateBackup_def
        backup_ok_def maxLabelLen_def nightly backup_exec demo_pg_defs)
  have "backups_reach demo_deps (db (backup_world [] [])) (db w')"
    using backups_reach.intros run by blast
  moreover have "wf_backups (db (backup_world [] []))" by (simp add: wf_backups_def demo_pg_defs)
  ultimately have "wf_backups (db w')" by (rule wf_backups_reachable)
  with run l show ?thesis by (intro exI [of _ w'] conjI)
qed

section \<open>From a report to a restore\<close>

lemma credentials_read:
  "DBCredentialsForService i w = (Inr c, w') \<Longrightarrow> db w' = db w"
  using readonly_backup_store(7) by (rule readonly_db)

lemma PollRestoreJob_work:
  assumes "PollRestoreJob inp w = (Inr out, w')" and "agent_of (db w) (pi_AgentID inp) (pi_Credential inp) a"
    and "next_restore (db w) (ag_ServerID a) = Some j"
  shows "cr_HasWork out \<and> cr_RestoreID out = rj_ID j \<and> cr_ServiceID out = rj_ServiceID j \<and>
    cr_ArtifactURI out = rj_ArtifactUri j \<and> db w' = claimed_restore (now w) j (db w)"
proof -
  from assms(1) obtain x w1 found w2 where
    x: "backups_resolveAgent (pi_AgentID inp) (pi_Credential inp) w = (Inr x, w1)" and
    tx: "WithinTx (ClaimNextRestoreForServer (snd x)) w1 = (Inr found, w2)" and
    out: "(case found of None \<Rightarrow> ret noRestoreWork
      | Some claimed \<Rightarrow>
         bind (map_err (Internalf ''poll restore job'') (DBCredentialsForService (rst_ServiceID claimed))) (\<lambda>creds.
         ret \<lparr>cr_HasWork = True, cr_RestoreID = rst_ID claimed, cr_ServiceID = rst_ServiceID claimed,
              cr_Engine = EnginePostgres, cr_PgUser = dbc_User creds, cr_PgPassword = dbc_Password creds,
              cr_PgDatabase = dbc_Database creds, cr_ArtifactURI = rst_ArtifactURI claimed\<rparr>)) w2 = (Inr out, w')"
    by (auto simp: PollRestoreJob_def check_succ bind_succ map_err_succ)
  from x agent_of_unique [OF _ assms(2)] have "snd x = ag_ServerID a" "db w1 = db w" "now w1 = now w"
    by (auto simp: backups_resolveAgent_succ)
  with tx assms(3) have f: "found = Some (restoreFromRow (assign_restore (now w) j))" and d: "db w2 = claimed_restore (now w) j (db w)"
    by (auto simp: WithinTx_succ claim_succ)
  from out f obtain c where "DBCredentialsForService (rj_ServiceID j) w2 = (Inr c, w')"
    "cr_HasWork out" "cr_RestoreID out = rj_ID j" "cr_ServiceID out = rj_ServiceID j" "cr_ArtifactURI out = rj_ArtifactUri j"
    by (auto simp: assign_restore_def succ_iff)
  with credentials_read d show ?thesis by auto
qed


lemmas restore_exec = PollRestoreJob_def RestoreBackup_def createRestoreTx_def InsertRestore_def db_CreateRestoreJob_def
  restore_ok_def restore_statuses_def ClaimNextRestoreForServer_def db_ClaimNextRestoreForServer_def
  assign_restore_def DBCredentialsForService_def db_ListConfigForService_def noRestoreWork_def backup_exec


section \<open>The credentials of a job\<close>

text \<open>The value the loop leaves for one key.\<close>

fun latest :: "string \<Rightarrow> ConfigEntry_row list \<Rightarrow> string \<Rightarrow> string" where
  "latest k [] v = v"
| "latest k (e # es) v =
     latest k es (if ce_Type e = ''variable'' \<and> ce_Key e = k \<and> ce_Value e \<noteq> None then the (ce_Value e) else v)"

lemma credentialsOf_latest:
  "credentialsOf es c =
     \<lparr>dbc_User = latest ''POSTGRES_USER'' es (dbc_User c), dbc_Password = latest ''POSTGRES_PASSWORD'' es (dbc_Password c),
      dbc_Database = latest ''POSTGRES_DB'' es (dbc_Database c)\<rparr>"
proof (induction es arbitrary: c)
  case (Cons e es)
  show ?case
    by (cases "ce_Type e = ''variable''"; cases "ce_Value e") (auto simp: Cons)
qed simp

definition value_in :: "(string \<rightharpoonup> string) \<Rightarrow> string \<Rightarrow> string \<Rightarrow> string" where
  "value_in env k v = (case env k of None \<Rightarrow> v | Some u \<Rightarrow> u)"

lemma layer_append: "layer D (xs @ ys) = layer D xs ++ layer D ys"
  by (simp add: layer_def)

lemma latest_layer:
  assumes "\<forall>e \<in> set es. ce_Key e = k \<longrightarrow> ce_Type e = ''variable'' \<and> ce_Value e \<noteq> None"
  shows "latest k es v = value_in (layer D (map configFromRow es)) k v"
  using assms
proof (induction es arbitrary: v)
  case Nil
  then show ?case by (simp add: value_in_def layer_def)
next
  case (Cons e es)
  have l: "layer D (map configFromRow (e # es)) = layer D [configFromRow e] ++ layer D (map configFromRow es)"
    using layer_append [of D "[configFromRow e]" "map configFromRow es"] by simp
  have IH: "latest k es u = value_in (layer D (map configFromRow es)) k u" for u
    using Cons by simp
  show ?case
  proof (cases "ce_Key e = k")
    case True
    with Cons.prems obtain u where "ce_Type e = ''variable''" "ce_Value e = Some u" by auto
    moreover from this True have "layer D [configFromRow e] = [k \<mapsto> u]"
      by (simp add: layer_def value_of_def configValue_def configFromRow_def)
    ultimately show ?thesis using True unfolding l by (simp add: IH value_in_def map_add_def split: option.split)
  next
    case False
    then have "layer D [configFromRow e] k = None" by (simp add: layer_def configFromRow_def)
    with False show ?thesis unfolding l by (simp add: IH value_in_def map_add_def split: option.split)
  qed
qed

lemma sorted_two:
  assumes "sorted (map f xs)" and "\<forall>x \<in> set xs. f x = a \<or> f x = b" and "a < b"
  shows "xs = filter (\<lambda>x. f x = a) xs @ filter (\<lambda>x. f x = b) xs"
  using assms(1,2)
proof (induction xs)
  case (Cons x xs)
  show ?case
  proof (cases "f x = a")
    case True
    with Cons assms(3) show ?thesis by auto
  next
    case False
    with Cons.prems assms(3) have "f y = b" if "y \<in> set (x # xs)" for y using that by fastforce
    with assms(3) show ?thesis by (auto simp: filter_empty_conv filter_id_conv)
  qed
qed simp

lemma configEnv_layers:
  assumes "configEnv D True (map configFromRow es) = Inr env" and "sorted (map (\<lambda>e. (ce_Scope e, ce_Key e)) es)"
    and "\<forall>e \<in> set es. ce_Scope e \<in> {''environment'', ''service''}"
  shows "env = layer D (map configFromRow es)"
proof -
  have "sorted (map ce_Scope es)"
    using assms(2) unfolding sorted_map by (rule sorted_wrt_mono_rel [rotated]) (auto simp: less_eq_prod_def)
  moreover have "''environment'' < ''service''" by code_simp
  ultimately have two: "es = filter (\<lambda>e. ce_Scope e = ''environment'') es @ filter (\<lambda>e. ce_Scope e = ''service'') es"
    using assms(3) by (intro sorted_two) auto
  have vis: "visible True sc (map configFromRow es) = map configFromRow (filter (\<lambda>e. ce_Scope e = sc) es)" for sc
    by (simp add: visible_def filter_map comp_def configFromRow_def)
  show ?thesis
    using assms(1) unfolding configEnv_env vis by (subst two) (simp add: layer_append)
qed



section \<open>Three defects\<close>

text \<open>The claim of a poll has committed when the credentials are read. If that read fails, the agent
  gets an error and the backup stays assigned: no agent holds it and no later poll finds it.\<close>

lemma poll_error_strands_backup:
  "\<exists>e w'. PollBackupJob demo_poll ((backup_world [demo_backup ''b'' StatusQueued] [])\<lparr>faults := (\<lambda>n. n = 4)\<rparr>) = (Inl e, w') \<and>
     map bk_Status (backups (db w')) = [StatusAssigned] \<and> next_backup (db w') ''srv'' = None"
  by (simp add: PollBackupJob_def ClaimNextBackupForServer_def db_ClaimNextBackupForServer_def assign_backup_def
      DBCredentialsForService_def db_ListConfigForService_def job_waiting_def backup_exec demo_pg_defs)

text \<open>A report does not look at the status the backup has: one that had succeeded fails again, and its
  artifact is then out of reach of a restore.\<close>

lemma report_overwrites_finished_backup:
  "\<exists>w'. ReportBackupJob demo_deps (demo_done\<lparr>rbi_Status := StatusFailed, rbi_ArtifactURI := []\<rparr>)
        (backup_world [demo_backup ''b'' StatusSucceeded] []) = (Inr (), w') \<and>
     map bk_Status (backups (db w')) = [StatusFailed]"
  by (simp add: ReportBackupJob_def backup_exec demo_pg_defs)

text \<open>The loop skips secrets, the container does not: a password kept as a secret at the service hides
  the environment's variable from the container but not from the job, which then carries the wrong
  password.\<close>

lemma secret_password_is_missed:
  "\<exists>w c w' env. DBCredentialsForService ''pg'' w = (Inr c, w') \<and> dbc_Password c = ''old'' \<and>
     configEnv demo_deps True (config_of (db w) ''pg'') = Inr env \<and> env ''POSTGRES_PASSWORD'' = Some ''hunter2''"
proof -
  let ?w = "(backup_world [] [])\<lparr>db := demo_pg\<lparr>config_entries :=
      [demo_config ''variable'' ''environment'' ''POSTGRES_PASSWORD'' ''old'',
       (demo_config ''secret'' ''service'' ''POSTGRES_PASSWORD'' ''sealed'')\<lparr>ce_ServiceID := Some ''pg''\<rparr>]\<rparr>\<rparr>"
  have less: "''environment'' < ''service''" "\<not> ''service'' < ''environment''" by code_simp+
  show ?thesis
    by (rule exI [of _ ?w])
       (simp add: DBCredentialsForService_def db_ListConfigForService_def select_many_succ exec_defs demo_pg_defs
          config_of_def configEnv_def configFromRow_def configValue_def less less_eq_prod_def)
qed

end
