(* ===== verification/Spec2Isabelle.thy ===== *)
theory Spec2Isabelle
  imports Isolation Provisioning AgentFiles BackupJobs
begin

text \<open>
  Plorigo is a self-hosted deployment platform: a control plane (a Go process over PostgreSQL) and one
  agent on every server. The dashboard, a GitHub webhook and a scheduler ask the control plane for
  deployments; agents poll it, run containers and report back. This development verifies the control
  plane's modules: deployments (\<^verbatim>\<open>internal/deployments\<close>) with what they stand on, and around them
  workspaces and members, servers, environments, services, agent registration, configuration, custom domains,
  source connections, backups and framework detection; and the agent (\<^verbatim>\<open>internal/agentcore\<close>), which shares framework
  detection and the messages with the control plane.

  \<^bold>\<open>State.\<close> The state is the database, one list of records per table
  (\<open>Database\<close>: the rows of \<^verbatim>\<open>internal/platform/database/db/models.go\<close>), inside a
  \<open>world\<close> that also carries what PostgreSQL decides on its own: which round trips fail
  (\<open>faults\<close>), the random identifiers, the event sequence and the clock. A handler is a function
  \<open>world \<Rightarrow> (err + 'a) \<times> world\<close>, built with \<open>bind\<close>, \<open>check\<close> (a guard with an early
  return), \<open>map_err\<close> (wrapping of an error) and \<open>WithinTx\<close> (the transaction runner of
  \<^verbatim>\<open>internal/platform/database/database.go\<close>, which undoes the body's writes on any error, also of
  begin and commit). Nothing about failures is assumed: the theorems hold for every \<open>faults\<close>, and a
  theorem that something succeeds asks for a healthy database.

  \<^bold>\<open>Theories.\<close>
  \<^item> \<open>Prelude\<close>: the Go string functions the code uses, on UTF-8 bytes, and tables as lists.
  \<^item> \<open>Sha256\<close>: SHA-256, since route keys and credentials hash with it.
  \<^item> \<open>Problem\<close>: \<^verbatim>\<open>internal/platform/problem\<close>, the errors and what of them reaches a client.
  \<^item> \<open>Database\<close>: rows, world, statements, transactions. The locale \<open>world_relation\<close> is the
    contract of a relation between the worlds before and after (a preorder that ignores round trips and
    is kept by a rollback); whatever each statement of a handler keeps, the handler keeps.
    \<open>readonly\<close> and \<open>atomic\<close> are such properties of computations.
  \<^item> \<open>Authorization\<close>: \<^verbatim>\<open>internal/platform/authz\<close>, \<^verbatim>\<open>internal/platform/principal\<close>,
    \<^verbatim>\<open>internal/membership\<close> (role lookup) and \<^verbatim>\<open>internal/policy\<close>; the port
    \<open>authz.Authorizer\<close> is the locale \<open>authorizer\<close>, interpreted by the policy.
  \<^item> \<open>AuditTrail\<close>: \<^verbatim>\<open>internal/audit\<close>; the port \<open>Recorder\<close> is the locale \<open>recorder\<close>,
    from which follows that an action and its audit row commit together.
  \<^item> \<open>RouteKeys\<close>: the pure functions of \<^verbatim>\<open>internal/deployments/service.go\<close>: route keys and hosts
    of previews, image references, preview passwords, status vocabularies.
  \<^item> \<open>DeploymentQueries\<close>: the SQL of \<^verbatim>\<open>deployments.sql.go\<close> and of the sibling files the module
    reads, with the constraints and defaults of the migrations.
  \<^item> \<open>DeploymentStore\<close>: the domain types and the repository \<^verbatim>\<open>postgres.go\<close>. The locale
    \<open>job_queue\<close> is the contract of a claim (oldest queued job of a server, in one statement); it is
    interpreted by the claims of deployments, of teardown jobs and, in \<open>BackupJobs\<close>, of backups and restores.
  \<^item> \<open>Deployments\<close> and \<open>Gateway\<close>: every method of \<^verbatim>\<open>service.go\<close>, \<^verbatim>\<open>teardown.go\<close>,
    \<^verbatim>\<open>webhook.go\<close> and \<^verbatim>\<open>expiry.go\<close>, for the dashboard and for agents.
  \<^item> \<open>Demo\<close>: a concrete installation on which the properties are instantiated.
  \<^item> \<open>Dashboard\<close>, \<open>Previews\<close>, \<open>AgentSide\<close>: what each operation does, on success and
    on failure: creation, rollback, previews, teardown, webhook, expiry, poll, environment, reports.
  \<^item> \<open>System\<close>: all requests as one datatype and \<open>serve\<close>; errors leave no trace; the locales
    \<open>update_relation\<close> and \<open>write_relation\<close>, the contracts of the statements the agents' and
    all requests may execute.
  \<^item> \<open>Lifecycle\<close>: the interpretations of these contracts (rows are at most touched, tables only
    grow), the step relation, reachable worlds and the invariant \<open>wf_db\<close>.
  \<^item> \<open>Isolation\<close>: previews against production, tenants against tenants, agents against other
    servers.
  \<^item> \<open>Workspaces\<close>: \<^verbatim>\<open>internal/projects\<close>, projects, workspaces and who may change whose role.
  \<^item> \<open>Servers\<close>: \<^verbatim>\<open>internal/servers\<close> and \<^verbatim>\<open>internal/environments\<close>, with the cascade of the
    foreign keys when a server is deleted.
  \<^item> \<open>AgentRegistry\<close>: \<^verbatim>\<open>internal/agents\<close>: registration tokens, credentials, heartbeats, the
    readiness verdict. The module is shown to refine \<open>registry\<close>, a ring of single-use tokens and of
    one credential per server.
  \<^item> \<open>Configuration\<close>: \<^verbatim>\<open>internal/config\<close> and the sealing of
    \<^verbatim>\<open>internal/platform/crypto\<close>. The module is shown to refine a map from (service or environment, key)
    to contents, and a value that was set is followed into the container's environment.
  \<^item> \<open>Domains\<close>: \<^verbatim>\<open>internal/domains\<close>: hostnames, their canonical form and their verification.
  \<^item> \<open>Json\<close>: what the code uses of \<^verbatim>\<open>encoding/json\<close> and \<^verbatim>\<open>encoding/base64\<close>, with the fact that what is
    written is read back.
  \<^item> \<open>Sources\<close>: \<^verbatim>\<open>internal/sources\<close>: the provider seam, the GitHub adapter, the connect flows with
    their sealed state, connections, and the check of webhook signatures (HMAC over \<open>Sha256\<close>).
  \<^item> \<open>Builder\<close>: \<^verbatim>\<open>internal/builder\<close>: framework detection over a view of the repository's files, and
    the generated Dockerfiles.
  \<^item> \<open>Services\<close>: \<^verbatim>\<open>internal/services\<close>: sources and database templates, the queries, repository and
    every operation of the module.
  \<^item> \<open>Provisioning\<close>: what these operations do: who may change which service, the shape of the table,
    deletion and the references between tables, managed databases and their connection URI, the spellings of a
    public repository.
  \<^item> \<open>Backups\<close> and \<open>BackupJobs\<close>: \<^verbatim>\<open>internal/backups\<close> with its queries and constraints; what each
    request may change, the references that stay intact, the way of an artifact from the agent's report to the
    restore that reads it, and the credentials a job carries.
  \<^item> \<open>Caddy\<close>: the agent's \<^verbatim>\<open>caddy.go\<close>: routes, the rendered configuration, its validation, activation and
    restoration. A function of the agent is a computation of \<open>State_Monad\<close> over a host \<open>'h\<close>.
  \<^item> \<open>DockerRuntime\<close>: \<^verbatim>\<open>docker.go\<close> and \<^verbatim>\<open>build.go\<close>: containers, networks, ports, logs, health checks, clones,
    builds.
  \<^item> \<open>AgentLoops\<close> and \<open>AgentCore\<close>: \<^verbatim>\<open>deploy.go\<close>, \<^verbatim>\<open>teardown.go\<close>, \<^verbatim>\<open>backup.go\<close>, \<^verbatim>\<open>agentcore.go\<close>,
    \<^verbatim>\<open>health.go\<close> and \<^verbatim>\<open>sysinfo.go\<close>: deployments, custom routes, runtime logs, teardown, backups, the agent's
    identity and its heartbeat. An endless loop is given by one round: what it does and whether it goes on.
  \<^item> \<open>Effects\<close>: weakest preconditions of these computations, the laws of the engine and of the clock, what
    each operation does to the set of containers, the end of the health check, and a simulated host.
  \<^item> \<open>AgentRuns\<close>: what a deployment and a teardown do to the server and what they report; the agent builds
    what the dashboard's preview showed. \<open>AgentFiles\<close>: the identity file and the artifacts of backups.
  \<^item> This theory: queues, event streams and the histories that show where the code departs from its
    comments.

  \<^bold>\<open>Parameters.\<close> Code outside the repository is the record \<open>deps\<close> (which strings the UUID library
  parses, bcrypt, decryption, the GitHub client, installation tokens), the record \<open>AEAD\<close> (AES-GCM), the
  record \<open>netlib\<close> (DNS lookups, IP and URL parsing, the public-suffix list), the record \<open>GitHubClient\<close> (the
  methods of the HTTP client), the agent's records \<open>caddy_host\<close>, \<open>docker\<close>, \<open>agent_os\<close>, \<open>host_probes\<close> and \<open>rpc\<close> and the \<open>world\<close>'s oracle
  fields; random bytes are arguments. The laws assumed of them are \<open>aead_law\<close>, that what was sealed
  opens again; \<open>host_law\<close>, \<open>identity_file_law\<close> and \<open>backup_law\<close>, what file operations do to a file; \<open>docker_law\<close>,
  which calls of the Engine API create and remove containers; \<open>clock_law\<close>, that time passes; and, in \<open>deployment_law\<close> and
  \<open>teardown_law\<close>, that the other parties of a job leave the containers alone; the other hypotheses are runs of the code, the invariants, and the health of the database
  where something must succeed.

  \<^bold>\<open>Abstractions.\<close> Requests run one after another: a transaction's statements are not interleaved
  with another's, which for the claims is what \<open>FOR UPDATE SKIP LOCKED\<close> provides. Integers of the
  code are \<open>int32\<close> ports and counters that stay in range by their guards and are modelled as
  \<open>int\<close>. Times are \<open>int\<close>. The order in which Go iterates over a map (in \<open>SyncRoutes\<close>) is
  fixed to one order. Log output is left out. Recursion is structural or proved terminating; only the agent's
  health check, which waits for a clock, takes fuel, and \<open>healthCheck_terminates\<close> shows sixty-two rounds to be enough.

  \<^bold>\<open>Not modelled.\<close> The transport (\<^verbatim>\<open>handler.go\<close> of every module) and \<^verbatim>\<open>proto\<close>, which convert messages;
  \<^verbatim>\<open>internal/auth\<close>, \<^verbatim>\<open>internal/readiness\<close>, \<^verbatim>\<open>internal/webhooks\<close>,
  \<^verbatim>\<open>internal/githubapp\<close> and \<^verbatim>\<open>internal/serversetup\<close>; the command line, process wiring and the web front end.
\<close>

section \<open>Queues\<close>

text \<open>C10: no deployment, teardown job, backup or restore is ever handed out twice, whatever agents poll and
  in whatever order; and the jobs that one server's polls receive come oldest first.\<close>

theorem claims_are_exclusive_and_fifo:
  "distinct (map rd_ID (fst (claim_run db_ClaimNextDeploymentForServer ss w))) \<and>
   sorted (map rd_CreatedAt (fst (claim_run db_ClaimNextDeploymentForServer (replicate n s) w))) \<and>
   distinct (map rt_ID (fst (claim_run db_ClaimNextTeardownForServer ss w))) \<and>
   sorted (map rt_CreatedAt (fst (claim_run db_ClaimNextTeardownForServer (replicate n s) w))) \<and>
   distinct (map bk_ID (fst (claim_run db_ClaimNextBackupForServer ss w))) \<and>
   sorted (map bk_CreatedAt (fst (claim_run db_ClaimNextBackupForServer (replicate n s) w))) \<and>
   distinct (map Database.rj_ID (fst (claim_run db_ClaimNextRestoreForServer ss w))) \<and>
   sorted (map Database.rj_CreatedAt (fst (claim_run db_ClaimNextRestoreForServer (replicate n s) w)))"
  by (intro conjI dq.claim_run_fifo tq.claim_run_fifo bq.claim_run_fifo rq.claim_run_fifo
      dq.claim_run_ids [THEN conjunct2] tq.claim_run_ids [THEN conjunct2]
      bq.claim_run_ids [THEN conjunct2] rq.claim_run_ids [THEN conjunct2])

text \<open>C11: while the database answers, as many polls of a server as it has queued deployments empty its
  queue: every one of them has left the queued state.\<close>

theorem deployment_queue_drains:
  assumes "\<forall>k. \<not> faults w k"
    and "length (filter (\<lambda>r. rd_ServerID r = s \<and> rd_Status r = StatusQueued) (deployments (db w))) \<le> n"
  shows "filter (\<lambda>r. rd_ServerID r = s \<and> rd_Status r = StatusQueued)
     (deployments (db (snd (claim_run db_ClaimNextDeploymentForServer (replicate n s) w)))) = []"
  using dq.claim_run_drains [OF assms(1), of s n] assms(2) by (simp add: job_waiting_def [abs_def])

theorem deployment_queue_drains_witness:
  "filter (\<lambda>r. rd_ServerID r = ''srv'' \<and> rd_Status r = StatusQueued)
     (deployments (db (snd (claim_run db_ClaimNextDeploymentForServer (replicate 2 ''srv'')
       (demo_world [demo_deployment ''d1'' KindProduction ''git'' StatusQueued 1,
                    demo_deployment ''d2'' KindProduction ''git'' StatusQueued 2]))))) = []"
  by (rule deployment_queue_drains) (simp_all add: demo_defs)

section \<open>Events\<close>

text \<open>A reader that follows a deployment's events by the last sequence number it has seen misses
  nothing and sees nothing twice: asking again after \<open>s\<close> gives exactly the events of the
  earlier answer beyond \<open>s\<close>, in ascending order.\<close>

theorem ListEvents_resumes:
  assumes "ListEvents D p i a w = (Inr evs, w1)" and "ListEvents D p i s w2 = (Inr evs', w3)"
    and "db w2 = db w" and "a \<le> s"
  shows "evs' = filter (\<lambda>e. evt_Seq e > s) evs \<and> sorted (map evt_Seq evs)"
proof -
  have list: "es = map eventFromRow (sort_key re_Seq (filter (\<lambda>r. re_DeploymentID r = i \<and> re_Seq r > n) (deployment_events (db v))))"
    if "ListEvents D p i n v = (Inr es, v')" for n v v' es
    using that by (auto simp: ListEvents_def store_ListEvents_def db_ListDeploymentEvents_def succ_iff split: option.splits)
  have "filter (\<lambda>r. re_Seq r > s) (sort_key re_Seq (filter (\<lambda>r. re_DeploymentID r = i \<and> re_Seq r > a) rs)) =
      sort_key re_Seq (filter (\<lambda>r. re_DeploymentID r = i \<and> re_Seq r > s) rs)"
    for rs :: "DeploymentEvent_row list"
    using assms(4) by (simp add: filter_sort conj_commute) (metis (mono_tags, lifting) filter_cong le_less_trans)
  then show ?thesis
    unfolding list [OF assms(1)] list [OF assms(2)] assms(3)
    by (simp add: filter_map comp_def eventFromRow_def)
qed

definition demo_event :: "int \<Rightarrow> DeploymentEvent_row" where
  "demo_event n = \<lparr>re_ID = nat_digits (nat n), re_DeploymentID = ''d1'', re_Seq = n, re_Kind = KindLog, re_Status = [],
     re_Message = ''line'', re_CreatedAt = n, re_Stream = StreamRuntime\<rparr>"

section \<open>Findings\<close>

text \<open>Histories in which the code does not do what its comments promise, as executions of the model on
  the concrete installation.\<close>

definition demo_secret :: "string \<Rightarrow> Deployment_row list \<Rightarrow> world" where
  "demo_secret ciphertext deps = (demo_world deps)\<lparr>db := (db (demo_world deps))\<lparr>
     config_entries := [demo_config ''secret'' ''environment'' ''KEY'' ciphertext]\<rparr>\<rparr>"

lemmas rollback_exec = RollbackToDeployment_def insertRollback_def InsertDeploymentFromGit_def

text \<open>A preview can be rolled back to, and what comes out is production. Rolling back to a running
  preview is accepted; the next poll hands its branch's commit to the agent as a production
  deployment of the service, with the environment's decrypted secret, on the environment's network
  and under production's route key, although previews of that same commit get neither.\<close>

theorem rollback_to_preview_deploys_it_to_production:
  "\<exists>w1 w2 dep res.
     RollbackToDeployment demo_deps alice ''p1'' (demo_secret ''sealed''
       [(demo_deployment ''p1'' KindPreview ''git-pr-7'' StatusRunning 1)\<lparr>rd_CommitSha := ''evil''\<rparr>]) = (Inr dep, w1) \<and>
     PollDeployment demo_deps demo_poll w1 = (Inr res, w2) \<and>
     cl_GitRef res = ''evil'' \<and> cl_Env res ''KEY'' = Some ''hunter2'' \<and>
     cl_NetworkName res = environmentNetworkName ''env'' \<and> cl_AppLabel res = ''git''"
  by (simp add: demo_secret_def rollback_exec poll_exec demo_defs)

text \<open>A late log report revives a superseded release. After release \<open>d2\<close> superseded
  \<open>d1\<close>, the log loop's report about \<open>d1\<close> (status running, no host port), which the
  comment says must only attach log lines, marks \<open>d1\<close> running again and supersedes nothing:
  two releases of one route are running.\<close>

theorem log_report_revives_superseded_release:
  "\<exists>w'. ReportDeployment demo_deps (demo_report ''d1'' StatusRunning 0)
      (demo_world [demo_deployment ''d1'' KindProduction ''git'' StatusSuperseded 1,
                   demo_deployment ''d2'' KindProduction ''git'' StatusRunning 2]) = (Inr (), w') \<and>
     map rd_Status (deployments (db w')) = [StatusRunning, StatusRunning]"
  by (simp add: gateway_exec demo_defs demo_report_def)

text \<open>A poll that fails after its claim strands the deployment. When a secret of the service cannot
  be decrypted the poll returns an error, but the claim has committed: the deployment stays
  assigned, the agent was given nothing, and the next poll finds no work.\<close>

theorem poll_error_strands_deployment:
  "\<exists>w1 w2 e res.
     PollDeployment demo_deps demo_poll (demo_secret ''garbage'' [demo_deployment ''d1'' KindProduction ''git'' StatusQueued 1])
       = (Inl e, w1) \<and> map rd_Status (deployments (db w1)) = [StatusAssigned] \<and>
     PollDeployment demo_deps demo_poll w1 = (Inr res, w2) \<and> \<not> cl_HasWork res \<and>
     map rd_Status (deployments (db w2)) = [StatusAssigned]"
  by (simp add: demo_secret_def poll_exec demo_defs)

text \<open>Expiry is not idempotent while the agent is away. Two sweeps before the agent has worked queue
  two teardown jobs for the same preview; the second outlives the first and removes whatever then
  runs under that route key.\<close>

theorem expiry_queues_the_same_preview_twice:
  "\<exists>w1 w2. ExpirePreviews 50 (demo_world [demo_deployment ''p1'' KindPreview ''git-pr-7'' StatusRunning 1]) = (Inr 1, w1) \<and>
     ExpirePreviews 50 w1 = (Inr 1, w2) \<and> map rt_DeploymentID (teardown_jobs (db w2)) = [''p1'', ''p1'']"
  by (simp add: ExpirePreviews_def ListExpiredPreviews_def db_ListExpiredPreviews_def deploymentsFromRows_def
        expireOne_def InsertTeardownJob_def newTeardown_def db_CreateTeardownJob_def teardown_ok_def
        teardown_statuses_def exec_defs demo_defs nat_digits.simps)

end
